(* ===== verification/Prelude.thy ===== *)
theory Prelude
  imports Main "HOL-Library.Word" "HOL-Library.Sublist" "HOL-Library.Char_ord" "HOL-Library.List_Lexorder"
begin

text \<open>
  Shared material of the development: the parts of the Rust standard library on strings that the
  program uses, localized messages, results, and the generic lemmas the component theories share.

  A Rust \<open>String\<close> or \<open>&str\<close> is its UTF-8 byte sequence, a \<^typ>\<open>string\<close> (a \<^typ>\<open>char\<close> is a byte
  here).  Operations of the library that look at code points (\<open>trim\<close>, \<open>split_whitespace\<close>,
  \<open>char::is_control\<close>) first group the bytes into encoded characters with \<open>utf8_chars\<close>.
\<close>

named_theorems rust_str \<open>unfolding rules of the string operations\<close>
named_theorems res_simps \<open>simplification rules of results\<close>

section \<open>Encoded characters\<close>

definition utf8_len :: "char \<Rightarrow> nat" where
  "utf8_len c =
     (let n = (of_char c :: nat)
      in if n < 192 then 1 else if n < 224 then 2 else if n < 240 then 3 else 4)"

fun utf8_chars :: "string \<Rightarrow> string list" where
  "utf8_chars [] = []"
| "utf8_chars (c # s) = (c # take (utf8_len c - 1) s) # utf8_chars (drop (utf8_len c - 1) s)"

definition bytes :: "nat list \<Rightarrow> string" where
  "bytes ns = map char_of ns"

text \<open>\<open>char::is_whitespace\<close>: the code points with the Unicode property \<open>White_Space\<close>, encoded.\<close>

definition is_white_space :: "string \<Rightarrow> bool" where
  "is_white_space g =
     (case map of_char g :: nat list of
        [a] \<Rightarrow> 9 \<le> a \<and> a \<le> 13 \<or> a = 32
      | [a, b] \<Rightarrow> a = 194 \<and> (b = 133 \<or> b = 160)
      | [a, b, c] \<Rightarrow>
          a = 225 \<and> b = 154 \<and> c = 128
          \<or> a = 226 \<and> b = 128 \<and> (128 \<le> c \<and> c \<le> 138 \<or> c = 168 \<or> c = 169 \<or> c = 175)
          \<or> a = 226 \<and> b = 129 \<and> c = 159
          \<or> a = 227 \<and> b = 128 \<and> c = 128
      | _ \<Rightarrow> False)"

text \<open>\<open>char::is_control\<close>: the general category Cc, U+0000 to U+001F and U+007F to U+009F.\<close>

definition is_control :: "string \<Rightarrow> bool" where
  "is_control g =
     (case g of
        [c] \<Rightarrow> (of_char c :: nat) < 32 \<or> (of_char c :: nat) = 127
      | [c, d] \<Rightarrow> (of_char c :: nat) = 194 \<and> 128 \<le> (of_char d :: nat) \<and> (of_char d :: nat) < 160
      | _ \<Rightarrow> False)"

definition trim_start :: "string \<Rightarrow> string" where
  "trim_start s = concat (dropWhile is_white_space (utf8_chars s))"

definition trim_end :: "string \<Rightarrow> string" where
  "trim_end s = concat (rev (dropWhile is_white_space (rev (utf8_chars s))))"

definition trim :: "string \<Rightarrow> string" where
  "trim s =
     concat (rev (dropWhile is_white_space (rev (dropWhile is_white_space (utf8_chars s)))))"

definition has_control_char :: "string \<Rightarrow> bool" where
  "has_control_char s = (\<exists>g \<in> set (utf8_chars s). is_control g)"

lemma concat_utf8_chars [simp]: "concat (utf8_chars s) = s"
  by (induction s rule: utf8_chars.induct) auto

lemma utf8_chars_eq_Nil [simp]: "utf8_chars s = [] \<longleftrightarrow> s = []"
  by (cases s) auto

text \<open>Text whose characters are complete, with continuation bytes outside ASCII: what a Rust string is.\<close>

definition utf8_complete :: "string \<Rightarrow> bool" where
  "utf8_complete s =
     (\<forall>g \<in> set (utf8_chars s).
        length g = utf8_len (hd g) \<and> (\<forall>c \<in> set (tl g). 128 \<le> (of_char c :: nat)))"

lemma utf8_chars_append:
  "utf8_complete a \<Longrightarrow> utf8_chars (a @ b) = utf8_chars a @ utf8_chars b"
proof (induction a rule: utf8_chars.induct)
  case 1
  then show ?case by simp
next
  case (2 c s)
  let ?n = "utf8_len c - 1"
  have "Suc (length (take ?n s)) = utf8_len c" and rest: "utf8_complete (drop ?n s)"
    using 2(2) by (auto simp: utf8_complete_def)
  then have "?n \<le> length s" by (cases "?n \<le> length s") auto
  with 2(1) [OF rest] show ?case by simp
qed

lemma ascii_byte_char:
  assumes "utf8_complete s" and "c \<in> set s" and "(of_char c :: nat) < 128"
  shows "[c] \<in> set (utf8_chars s)"
proof -
  from assms(2) have "c \<in> set (concat (utf8_chars s))" by (simp only: concat_utf8_chars)
  then obtain g where g: "g \<in> set (utf8_chars s)" "c \<in> set g"
    unfolding set_concat by blast
  with assms(1) have len: "length g = utf8_len (hd g)" and tl: "\<forall>c \<in> set (tl g). 128 \<le> (of_char c :: nat)"
    by (auto simp: utf8_complete_def)
  from g(2) tl assms(3) have "hd g = c" by (cases g) force+
  moreover have "utf8_len c = 1" using assms(3) by (simp add: utf8_len_def)
  ultimately have "g = [c]" using len g(2) by (cases g) auto
  with g(1) show ?thesis by simp
qed

lemma no_control_ascii:
  assumes "\<not> has_control_char s" and "utf8_complete s" and "(of_char c :: nat) < 32"
  shows "c \<notin> set s"
proof
  assume "c \<in> set s"
  from ascii_byte_char [OF assms(2) this] assms(3) have "[c] \<in> set (utf8_chars s)" by simp
  moreover have "is_control [c]" using assms(3) by (simp add: is_control_def)
  ultimately show False using assms(1) unfolding has_control_char_def by blast
qed

lemma utf8_chars_nonempty: "g \<in> set (utf8_chars s) \<Longrightarrow> g \<noteq> []"
  by (induction s rule: utf8_chars.induct) auto

lemma utf8_chars_ascii:
  "\<forall>c \<in> set s. (of_char c :: nat) < 128 \<Longrightarrow> utf8_chars s = map (\<lambda>c. [c]) s"
  by (induction s) (auto simp: utf8_len_def)

lemma is_white_space_space [simp]: "is_white_space '' ''"
  by code_simp

lemma trim_Nil [simp]: "trim [] = []" "trim_start [] = []" "trim_end [] = []"
  by (simp_all add: trim_def trim_start_def trim_end_def)

section \<open>Splitting, searching and replacing\<close>

text \<open>\<open>str::split\<close> by a one-byte separator: the pieces between the separators, at least one.\<close>

fun split_on :: "('a \<Rightarrow> bool) \<Rightarrow> 'a list \<Rightarrow> 'a list list" where
  "split_on p [] = [[]]"
| "split_on p (x # xs) =
     (if p x then [] # split_on p xs
      else (case split_on p xs of [] \<Rightarrow> [[x]] | y # ys \<Rightarrow> (x # y) # ys))"

definition split_char :: "char \<Rightarrow> string \<Rightarrow> string list" where
  "split_char c s = split_on (\<lambda>x. x = c) s"

definition split_whitespace :: "string \<Rightarrow> string list" where
  "split_whitespace s =
     map concat (filter (\<lambda>w. w \<noteq> []) (split_on is_white_space (utf8_chars s)))"

text \<open>\<open>str::find\<close> of a pattern: the byte offset of its first occurrence.\<close>

fun find_sub :: "string \<Rightarrow> string \<Rightarrow> nat option" where
  "find_sub pat [] = (if pat = [] then Some 0 else None)"
| "find_sub pat (c # s) =
     (if prefix pat (c # s) then Some 0 else map_option Suc (find_sub pat s))"

definition str_contains :: "string \<Rightarrow> string \<Rightarrow> bool" where
  "str_contains pat s = (find_sub pat s \<noteq> None)"

definition split_once :: "string \<Rightarrow> string \<Rightarrow> (string \<times> string) option" where
  "split_once pat s =
     (case find_sub pat s of
        None \<Rightarrow> None
      | Some i \<Rightarrow> Some (take i s, drop (i + length pat) s))"

text \<open>\<open>str::replace\<close> for a nonempty pattern: the leftmost, non-overlapping occurrences.\<close>

fun str_replace :: "string \<Rightarrow> string \<Rightarrow> string \<Rightarrow> string" where
  "str_replace pat r [] = []"
| "str_replace pat r (c # s) =
     (if pat \<noteq> [] \<and> prefix pat (c # s)
      then r @ str_replace pat r (drop (length pat - 1) s)
      else c # str_replace pat r s)"

text \<open>
  \<open>str::lines\<close>: pieces ended by a line feed, one carriage return before it dropped; a last piece
  without a line feed is a line when it is not empty, and keeps its bytes.
\<close>

definition strip_cr :: "string \<Rightarrow> string" where
  "strip_cr s = (if s \<noteq> [] \<and> last s = CHR 0x0D then butlast s else s)"

definition lines :: "string \<Rightarrow> string list" where
  "lines s =
     (let ps = split_char (CHR 0x0A) s
      in map strip_cr (butlast ps) @ (if last ps = [] then [] else [last ps]))"

fun join :: "string \<Rightarrow> string list \<Rightarrow> string" where
  "join sep [] = []"
| "join sep [x] = x"
| "join sep (x # y # ys) = x @ sep @ join sep (y # ys)"

definition trim_end_char :: "char \<Rightarrow> string \<Rightarrow> string" where
  "trim_end_char c s = rev (dropWhile (\<lambda>x. x = c) (rev s))"

definition to_ascii_lower :: "char \<Rightarrow> char" where
  "to_ascii_lower c =
     (let n = (of_char c :: nat) in if 65 \<le> n \<and> n \<le> 90 then char_of (n + 32) else c)"

definition ascii_lowercase :: "string \<Rightarrow> string" where
  "ascii_lowercase s = map to_ascii_lower s"

definition is_ascii_digit :: "char \<Rightarrow> bool" where
  "is_ascii_digit c = (48 \<le> (of_char c :: nat) \<and> (of_char c :: nat) \<le> 57)"

definition is_ascii_alphanumeric :: "char \<Rightarrow> bool" where
  "is_ascii_alphanumeric c =
     (let n = (of_char c :: nat)
      in 48 \<le> n \<and> n \<le> 57 \<or> 65 \<le> n \<and> n \<le> 90 \<or> 97 \<le> n \<and> n \<le> 122)"

definition is_ascii_hexdigit :: "char \<Rightarrow> bool" where
  "is_ascii_hexdigit c =
     (let n = (of_char c :: nat)
      in 48 \<le> n \<and> n \<le> 57 \<or> 65 \<le> n \<and> n \<le> 70 \<or> 97 \<le> n \<and> n \<le> 102)"

lemma split_on_ne [simp]: "split_on p xs \<noteq> []"
  by (induction xs) (auto split: list.split)

lemma split_on_no_sep: "\<forall>x \<in> set xs. \<not> p x \<Longrightarrow> split_on p xs = [xs]"
  by (induction xs) auto

lemma split_on_append_sep:
  "\<forall>x \<in> set xs. \<not> p x \<Longrightarrow> p s \<Longrightarrow> split_on p (xs @ s # ys) = xs # split_on p ys"
  by (induction xs) auto

lemma split_on_pieces: "w \<in> set (split_on p xs) \<Longrightarrow> x \<in> set w \<Longrightarrow> x \<in> set xs \<and> \<not> p x"
proof (induction xs arbitrary: w)
  case Nil
  then show ?case by simp
next
  case (Cons a xs)
  then show ?case
    by (cases "split_on p xs") (auto split: if_splits, blast+)
qed

lemma find_sub_prefix: "find_sub pat s = Some i \<Longrightarrow> prefix pat (drop i s) \<and> i + length pat \<le> length s"
proof (induction pat s arbitrary: i rule: find_sub.induct)
  case (1 pat)
  then show ?case by (auto split: if_splits)
next
  case (2 pat c s)
  then show ?case by (auto split: if_splits dest: prefix_length_le)
qed

lemma split_once_append: "split_once pat s = Some (a, b) \<Longrightarrow> s = a @ pat @ b"
proof -
  assume "split_once pat s = Some (a, b)"
  then obtain i where i: "find_sub pat s = Some i" and a: "a = take i s"
    and b: "b = drop (i + length pat) s"
    by (auto simp: split_once_def split: option.splits)
  from find_sub_prefix [OF i] obtain t where t: "drop i s = pat @ t"
    by (auto simp: prefix_def)
  have "drop (i + length pat) s = drop (length pat) (drop i s)" by (simp add: add.commute)
  with t b have "b = t" by simp
  with t a show ?thesis by (metis append_take_drop_id)
qed

lemma join_Cons: "xs \<noteq> [] \<Longrightarrow> join sep (x # xs) = x @ sep @ join sep xs"
  by (cases xs) auto

lemma split_char_join:
  "xs \<noteq> [] \<Longrightarrow> \<forall>x \<in> set xs. c \<notin> set x \<Longrightarrow> split_char c (join [c] xs) = xs"
proof (induction xs rule: induct_list012)
  case 1
  then show ?case by simp
next
  case (2 x)
  then show ?case by (auto simp: split_char_def intro!: split_on_no_sep)
next
  case (3 x y ys)
  then have "\<forall>b \<in> set x. b \<noteq> c" by auto
  then have "split_char c (x @ c # join [c] (y # ys)) = x # split_char c (join [c] (y # ys))"
    unfolding split_char_def by (intro split_on_append_sep) auto
  with 3 show ?case by simp
qed

section \<open>Decimal numerals\<close>

definition digit_char :: "nat \<Rightarrow> char" where
  "digit_char n = char_of (48 + n)"

fun show_nat :: "nat \<Rightarrow> string" where
  "show_nat n = (if n < 10 then [digit_char n] else show_nat (n div 10) @ [digit_char (n mod 10)])"

declare show_nat.simps [simp del]

text \<open>\<open>{:0w}\<close> of an unsigned value.\<close>

definition show_padded :: "nat \<Rightarrow> nat \<Rightarrow> string" where
  "show_padded w n = (let s = show_nat n in replicate (w - length s) (CHR ''0'') @ s)"

definition digits_value :: "string \<Rightarrow> nat" where
  "digits_value s = foldl (\<lambda>acc c. 10 * acc + (of_char c - 48)) 0 s"

text \<open>\<open>str::parse\<close> of an unsigned type with maximum \<open>m\<close>: an optional plus sign and digits.\<close>

definition parse_unsigned :: "nat \<Rightarrow> string \<Rightarrow> nat option" where
  "parse_unsigned m s =
     (let d = (case s of c # t \<Rightarrow> if c = CHR ''+'' then t else s | [] \<Rightarrow> s)
      in if d \<noteq> [] \<and> list_all is_ascii_digit d \<and> digits_value d \<le> m
         then Some (digits_value d) else None)"

section \<open>Messages and results\<close>

text \<open>
  The text of a message: a \<open>fl!\<close> lookup is its key and arguments (the Fluent renderer is not part
  of the model, so two messages are the same when their keys and arguments are), \<open>Lit\<close> is a string
  as it is, \<open>Cat\<close> concatenates and \<open>Joined\<close> is \<open>[..].join(sep)\<close>.
\<close>

datatype msg = Fl string "(string \<times> msg) list" | Lit string | Cat "msg list" | Joined string "msg list"

abbreviation fl :: "string \<Rightarrow> msg" where
  "fl k \<equiv> Fl k []"

type_synonym 'a res = "msg + 'a"

definition bind_res :: "'e + 'a \<Rightarrow> ('a \<Rightarrow> 'e + 'b) \<Rightarrow> 'e + 'b" where
  "bind_res m f = (case m of Inl e \<Rightarrow> Inl e | Inr x \<Rightarrow> f x)"

definition map_err :: "('e \<Rightarrow> 'f) \<Rightarrow> 'e + 'a \<Rightarrow> 'f + 'a" where
  "map_err g m = (case m of Inl e \<Rightarrow> Inl (g e) | Inr x \<Rightarrow> Inr x)"

definition ok_or :: "'e \<Rightarrow> 'a option \<Rightarrow> 'e + 'a" where
  "ok_or e m = (case m of None \<Rightarrow> Inl e | Some x \<Rightarrow> Inr x)"

definition is_ok :: "'e + 'a \<Rightarrow> bool" where
  "is_ok m = (case m of Inl _ \<Rightarrow> False | Inr _ \<Rightarrow> True)"

definition is_err :: "'e + 'a \<Rightarrow> bool" where
  "is_err m = (case m of Inl _ \<Rightarrow> True | Inr _ \<Rightarrow> False)"

lemma bind_res_simps [simp, res_simps]:
  "bind_res (Inl e) f = Inl e" "bind_res (Inr x) f = f x"
  "map_err g (Inl e) = Inl (g e)" "map_err g (Inr x) = Inr x"
  "ok_or e None = Inl e" "ok_or e (Some x) = Inr x"
  "is_ok (Inl e) = False" "is_ok (Inr x) = True" "is_err (Inl e) = True" "is_err (Inr x) = False"
  by (simp_all add: bind_res_def map_err_def ok_or_def is_ok_def is_err_def)

lemma bind_res_Inr: "bind_res m f = Inr y \<longleftrightarrow> (\<exists>x. m = Inr x \<and> f x = Inr y)"
  by (cases m) auto

lemma map_err_Inr [simp]: "map_err g m = Inr y \<longleftrightarrow> m = Inr y"
  by (cases m) auto

lemma ok_or_Inr [simp]: "ok_or e m = Inr y \<longleftrightarrow> m = Some y"
  by (cases m) auto

text \<open>\<open>collect::<Result<Vec<_>, _>>()\<close>: the first error, or all the values.\<close>

fun collect_res :: "('e + 'a) list \<Rightarrow> 'e + 'a list" where
  "collect_res [] = Inr []"
| "collect_res (m # ms) = bind_res m (\<lambda>x. bind_res (collect_res ms) (\<lambda>xs. Inr (x # xs)))"

lemma collect_res_Inr: "collect_res ms = Inr xs \<longleftrightarrow> ms = map Inr xs"
  by (induction ms arbitrary: xs) (auto simp: bind_res_Inr)

end
