(* ===== verification/Rust_Path.thy ===== *)
theory Rust_Path
  imports Prelude
begin

text \<open>
  \<open>std::path\<close> on Unix.  A \<open>PathBuf\<close> is its bytes; the library compares, prefixes and walks paths by
  their components, so \<open>path_eq\<close> and \<open>path_starts_with\<close> do too.  \<open>Component::Prefix\<close> exists on
  Windows only and has no counterpart here.
\<close>

named_theorems path_simps \<open>rules that compute with paths\<close>

type_synonym path = string

datatype path_comp = RootDir | CurDir | ParentDir | Normal string

definition is_absolute :: "path \<Rightarrow> bool" where
  "is_absolute p = (case p of [] \<Rightarrow> False | c # _ \<Rightarrow> c = CHR ''/'')"

definition comp_of :: "string \<Rightarrow> path_comp" where
  "comp_of s = (if s = ''..'' then ParentDir else Normal s)"

text \<open>
  Repeated separators and inner \<open>.\<close> parts are skipped; a leading \<open>.\<close> of a relative path is kept.
\<close>

definition components :: "path \<Rightarrow> path_comp list" where
  "components p =
     (let raw = split_char (CHR ''/'') p
      in (if is_absolute p then [RootDir] else if hd raw = ''.'' then [CurDir] else [])
         @ map comp_of (filter (\<lambda>x. x \<noteq> [] \<and> x \<noteq> ''.'') raw))"

definition path_eq :: "path \<Rightarrow> path \<Rightarrow> bool" where
  "path_eq p q = (components p = components q)"

definition path_starts_with :: "path \<Rightarrow> path \<Rightarrow> bool" where
  "path_starts_with p q = prefix (components q) (components p)"

definition path_join :: "path \<Rightarrow> path \<Rightarrow> path" where
  "path_join p q =
     (if is_absolute q then q
      else if p = [] \<or> last p = CHR ''/'' then p @ q
      else p @ ''/'' @ q)"

text \<open>\<open>PathBuf::pop\<close> on the components: false (\<^const>\<open>None\<close>) at the root or on an empty path.\<close>

definition comps_pop :: "path_comp list \<Rightarrow> path_comp list option" where
  "comps_pop cs =
     (case rev cs of [] \<Rightarrow> None | RootDir # _ \<Rightarrow> None | _ # _ \<Rightarrow> Some (butlast cs))"

text \<open>\<open>Path::parent\<close> exists exactly when the last component can be dropped.\<close>

definition has_parent :: "path \<Rightarrow> bool" where
  "has_parent p = (comps_pop (components p) \<noteq> None)"

text \<open>The bytes of a path built by pushing normal parts onto \<open>/\<close>.\<close>

fun comp_text :: "path_comp \<Rightarrow> string" where
  "comp_text RootDir = []"
| "comp_text CurDir = ''.''"
| "comp_text ParentDir = ''..''"
| "comp_text (Normal s) = s"

definition render_abs :: "path_comp list \<Rightarrow> path" where
  "render_abs cs = ''/'' @ join ''/'' (map comp_text (filter (\<lambda>c. c \<noteq> RootDir) cs))"

definition valid_part :: "string \<Rightarrow> bool" where
  "valid_part s = (s \<noteq> [] \<and> s \<noteq> ''.'' \<and> s \<noteq> ''..'' \<and> CHR ''/'' \<notin> set s)"

text \<open>The components of a normalized absolute path.\<close>

definition normal_abs :: "path_comp list \<Rightarrow> bool" where
  "normal_abs cs = (\<exists>xs. cs = RootDir # map Normal xs \<and> list_all valid_part xs)"

lemma components_Nil [simp]: "components [] = []"
  by (simp add: components_def split_char_def is_absolute_def)

lemma split_char_parts: "x \<in> set (split_char c s) \<Longrightarrow> c \<notin> set x"
  unfolding split_char_def using split_on_pieces [of x "\<lambda>x. x = c" s c] by auto

lemma components_normal:
  assumes "Normal x \<in> set (components p)"
  shows "valid_part x"
proof -
  from assms obtain y where y: "y \<in> set (split_char (CHR ''/'') p)" "y \<noteq> []" "y \<noteq> ''.''"
    and c: "comp_of y = Normal x"
    by (auto simp: components_def Let_def split: if_splits)
  from c have "y = x" "x \<noteq> ''..''" by (auto simp: comp_of_def split: if_splits)
  with y split_char_parts [OF y(1)] show ?thesis by (simp add: valid_part_def)
qed

lemma components_abs_cases:
  assumes "is_absolute p"
  shows "\<exists>cs. components p = RootDir # cs \<and> (\<forall>c \<in> set cs. c = ParentDir \<or> (\<exists>x. c = Normal x))"
  using assms by (auto simp: components_def comp_of_def Let_def)

lemma components_root_only_head:
  "RootDir \<notin> set (tl (components p)) \<and> (RootDir \<in> set (components p) \<longleftrightarrow> is_absolute p)"
proof -
  have no: "RootDir \<notin> set (map comp_of ys)" for ys
    by (auto simp: comp_of_def split: if_splits)
  then have "RootDir \<notin> set (tl (map comp_of ys))" for ys
    by (metis list.sel(2) list.set_sel(2))
  with no show ?thesis
    by (auto simp: components_def Let_def simp del: set_map set_filter)
qed

lemma is_absolute_render [simp]: "is_absolute (render_abs cs)"
  by (simp add: render_abs_def is_absolute_def)

lemma split_char_Cons: "split_char c (c # s) = [] # split_char c s"
  by (simp add: split_char_def)

lemma components_render:
  assumes "normal_abs cs"
  shows "components (render_abs cs) = cs"
proof -
  from assms obtain xs where cs: "cs = RootDir # map Normal xs" and v: "list_all valid_part xs"
    by (auto simp: normal_abs_def)
  have texts: "comp_text \<circ> Normal = id" by auto
  have r: "render_abs cs = CHR ''/'' # join ''/'' xs"
    by (simp add: render_abs_def cs texts)
  show ?thesis
  proof (cases "xs = []")
    case True
    with r have "render_abs cs = ''/''" by simp
    with True show ?thesis
      by (simp add: cs components_def is_absolute_def split_char_def Let_def)
  next
    case False
    have "\<forall>x \<in> set xs. CHR ''/'' \<notin> set x"
      using v by (auto simp: list_all_iff valid_part_def)
    with False have "split_char (CHR ''/'') (join ''/'' xs) = xs"
      using split_char_join [of xs "CHR ''/''"] by simp
    moreover have "filter (\<lambda>x. x \<noteq> [] \<and> x \<noteq> ''.'') xs = xs" "map comp_of xs = map Normal xs"
      using v by (auto simp: list_all_iff valid_part_def comp_of_def filter_id_conv)
    ultimately have "components (render_abs cs) = RootDir # map Normal xs"
      unfolding r by (simp add: components_def is_absolute_def split_char_Cons)
    then show ?thesis by (simp add: cs)
  qed
qed

lemma normal_abs_RootDir [simp]: "normal_abs [RootDir]"
  by (simp add: normal_abs_def)

lemma normal_abs_snoc: "normal_abs cs \<Longrightarrow> valid_part x \<Longrightarrow> normal_abs (cs @ [Normal x])"
  unfolding normal_abs_def
proof (elim exE conjE)
  fix xs
  assume "cs = RootDir # map Normal xs" "list_all valid_part xs" "valid_part x"
  then show "\<exists>ys. cs @ [Normal x] = RootDir # map Normal ys \<and> list_all valid_part ys"
    by (intro exI [of _ "xs @ [x]"]) simp
qed

lemma normal_abs_pop:
  assumes "normal_abs cs" and "comps_pop cs = Some ds"
  shows "normal_abs ds"
proof -
  from assms(1) obtain xs where cs: "cs = RootDir # map Normal xs" and v: "list_all valid_part xs"
    by (auto simp: normal_abs_def)
  show ?thesis
  proof (cases xs rule: rev_cases)
    case Nil
    with assms(2) cs show ?thesis by (simp add: comps_pop_def)
  next
    case (snoc ys y)
    with assms(2) cs have "ds = RootDir # map Normal ys" by (simp add: comps_pop_def)
    with v snoc show ?thesis by (auto simp: normal_abs_def)
  qed
qed

lemma path_starts_with_refl [simp]: "path_starts_with p p"
  by (simp add: path_starts_with_def)

lemma path_starts_with_trans:
  "path_starts_with p q \<Longrightarrow> path_starts_with q r \<Longrightarrow> path_starts_with p r"
  by (auto simp: path_starts_with_def)

text \<open>Appending a valid part to a path appends one component.\<close>

lemma split_on_snoc_sep:
  "p s \<Longrightarrow> split_on p (xs @ s # ys) = split_on p xs @ split_on p ys"
proof (induction xs)
  case Nil
  then show ?case by simp
next
  case (Cons a xs)
  then show ?case
    by (cases "split_on p xs") (auto simp: split_on_ne)
qed

lemma split_char_append_sep:
  "split_char c (xs @ c # ys) = split_char c xs @ split_char c ys"
  unfolding split_char_def by (rule split_on_snoc_sep) simp

lemma components_join:
  assumes "is_absolute p" and "valid_part x"
  shows "components (path_join p x) = components p @ [Normal x]"
proof -
  have nx: "\<not> is_absolute x" "x \<noteq> []" "split_char (CHR ''/'') x = [x]" "x \<noteq> ''.''" "comp_of x = Normal x"
    using assms(2)
    by (auto simp: is_absolute_def valid_part_def split_char_def comp_of_def
        intro!: split_on_no_sep split: list.splits)
  have abs_app: "is_absolute (p @ t)" for t
    using assms(1) by (auto simp: is_absolute_def split: list.splits)
  show ?thesis
  proof (cases "last p = CHR ''/''")
    case True
    moreover from assms(1) have "p \<noteq> []" by (auto simp: is_absolute_def)
    ultimately obtain q where q: "p = q @ ''/''"
      by (metis append_butlast_last_id)
    have "split_char (CHR ''/'') (p @ x) = split_char (CHR ''/'') q @ [x]"
      using split_char_append_sep [of "CHR ''/''" q x] nx by (simp add: q)
    moreover have "split_char (CHR ''/'') p = split_char (CHR ''/'') q @ [[]]"
      using split_char_append_sep [of "CHR ''/''" q "[]"] by (simp add: q split_char_def)
    ultimately show ?thesis
      using True nx assms(1) abs_app by (simp add: path_join_def components_def Let_def)
  next
    case False
    have "split_char (CHR ''/'') (p @ ''/'' @ x) = split_char (CHR ''/'') p @ [x]"
      using split_char_append_sep [of "CHR ''/''" p x] nx by simp
    moreover from assms(1) have "p \<noteq> []" by (auto simp: is_absolute_def)
    ultimately show ?thesis
      using False nx assms(1) abs_app [of "''/'' @ x"] by (simp add: path_join_def components_def Let_def)
  qed
qed

lemma is_absolute_join [simp]: "is_absolute p \<Longrightarrow> is_absolute (path_join p x)"
  by (auto simp: path_join_def is_absolute_def split: list.splits)

lemma path_join_starts_with:
  "is_absolute p \<Longrightarrow> valid_part x \<Longrightarrow> path_starts_with (path_join p x) p"
  by (simp add: path_starts_with_def components_join)

lemma normal_abs_absolute: "normal_abs (components p) \<Longrightarrow> is_absolute p"
  using components_root_only_head [of p] by (auto simp: normal_abs_def)

end
