(* ===== verification/Model.thy ===== *)
theory Model
  imports Rust_Path
begin

text \<open>
  \<open>src/src/model.rs\<close>: connections, providers, modes, VPN profiles, operations and statuses.
  An identifier wraps a UUID, represented by its canonical text (the \<open>Display\<close> form, which is
  injective on UUIDs); the numeric fields keep their machine width.
\<close>

type_synonym u8 = "8 word"
type_synonym u32 = "32 word"
type_synonym u64 = "64 word"

section \<open>Identifiers\<close>

type_synonym uuid = string

datatype connection_id = ConnectionId (conn_uuid: uuid)

datatype vpn_profile_id = VpnProfileId (vpn_uuid: uuid)

text \<open>Text of a UUID: 32 lowercase hexadecimal digits in the groups 8-4-4-4-12.\<close>

definition is_lower_hex :: "char \<Rightarrow> bool" where
  "is_lower_hex c =
     (let n = (of_char c :: nat) in 48 \<le> n \<and> n \<le> 57 \<or> 97 \<le> n \<and> n \<le> 102)"

definition uuid_text :: "string \<Rightarrow> bool" where
  "uuid_text s =
     (length s = 36 \<and>
      list_all (\<lambda>i. if i \<in> {8, 13, 18, 23} then s ! i = CHR ''-'' else is_lower_hex (s ! i)) [0..<36])"

section \<open>Providers and modes\<close>

datatype provider = OneDrive | Teams | GoogleDrive | Box | Smb | Sftp

datatype access_mode = OnlineMountMode | OfflineMirrorMode

record online_mount_config =
  cache_directory :: "path option"
  cache_limit_bytes :: u64
  start_at_login :: bool

definition default_online_mount :: online_mount_config where
  "default_online_mount =
     \<lparr>cache_directory = None, cache_limit_bytes = 20 * 1024 * 1024 * 1024, start_at_login = False\<rparr>"

datatype offline_engine = Rclone | LegacyOnedrive

record offline_mirror_config =
  engine :: "offline_engine option"
  recovery_directory :: path
  sync_interval_minutes :: u32
  sync_on_metered :: bool

definition default_offline_mirror :: offline_mirror_config where
  "default_offline_mirror =
     \<lparr>engine = None, recovery_directory = [], sync_interval_minutes = 15, sync_on_metered = False\<rparr>"

datatype connection_mode =
    OnlineMount online_mount_config
  | OfflineMirror offline_mirror_config

primrec mode_kind :: "connection_mode \<Rightarrow> access_mode" where
  "mode_kind (OnlineMount _) = OnlineMountMode"
| "mode_kind (OfflineMirror _) = OfflineMirrorMode"

section \<open>Identities\<close>

datatype onedrive_drive_type = Personal | Business

record onedrive_identity =
  od_drive_id :: string
  od_drive_type :: onedrive_drive_type

text \<open>
  \<open>is_valid\<close>: the drive id is not empty, at most 512 bytes, ASCII, without control characters,
  white space and slashes.
\<close>

definition onedrive_identity_valid :: "onedrive_identity \<Rightarrow> bool" where
  "onedrive_identity_valid i =
     (let d = od_drive_id i
      in d \<noteq> [] \<and> length d \<le> 512 \<and> (\<forall>c \<in> set d. (of_char c :: nat) < 128)
         \<and> \<not> (\<exists>g \<in> set (utf8_chars d).
               is_control g \<or> is_white_space g \<or> g = ''/'' \<or> g = [CHR 0x5C]))"

record sharepoint_identity =
  site_url :: string
  library_url :: string
  sp_drive_id :: string

section \<open>Preload policies\<close>

datatype tuning_profile = Balanced | Conservative | Custom

record preload_policy =
  pp_enabled :: bool
  pp_maximum_seconds :: u64
  pp_maximum_depth :: "u8 option"

definition DEFAULT_PRELOAD_SECONDS :: u64 where "DEFAULT_PRELOAD_SECONDS = 60"
definition DEFAULT_BOX_PRELOAD_DEPTH :: u8 where "DEFAULT_BOX_PRELOAD_DEPTH = 2"
definition DEFAULT_SMB_PRELOAD_DEPTH :: u8 where "DEFAULT_SMB_PRELOAD_DEPTH = 3"

definition sftp_default :: preload_policy where
  "sftp_default = \<lparr>pp_enabled = False, pp_maximum_seconds = 30, pp_maximum_depth = Some 2\<rparr>"

definition without_depth :: preload_policy where
  "without_depth =
     \<lparr>pp_enabled = False, pp_maximum_seconds = DEFAULT_PRELOAD_SECONDS, pp_maximum_depth = None\<rparr>"

definition with_depth :: "u8 \<Rightarrow> preload_policy" where
  "with_depth d =
     \<lparr>pp_enabled = False, pp_maximum_seconds = DEFAULT_PRELOAD_SECONDS, pp_maximum_depth = Some d\<rparr>"

record preload_settings =
  google_drive :: preload_policy
  onedrive :: preload_policy
  box_provider :: preload_policy
  sharepoint :: preload_policy
  smb :: preload_policy
  sftp :: preload_policy

definition default_preload_settings :: preload_settings where
  "default_preload_settings =
     \<lparr>google_drive = without_depth, onedrive = without_depth,
      box_provider = with_depth DEFAULT_BOX_PRELOAD_DEPTH, sharepoint = sftp_default,
      smb = with_depth DEFAULT_SMB_PRELOAD_DEPTH, sftp = sftp_default\<rparr>"

record preload_override =
  po_enabled :: bool
  po_maximum_seconds :: u64
  po_maximum_depth :: u8

section \<open>Connections\<close>

record connection =
  conn_id :: connection_id
  conn_name :: string
  conn_provider :: provider
  conn_mode :: connection_mode
  remote_reference :: string
  remote_subpath :: "string option"
  local_path :: path
  conn_enabled :: bool
  vpn_profile_id :: "vpn_profile_id option"
  disconnect_vpn_when_unused :: bool
  conn_tuning_profile :: tuning_profile
  smb_preload_override :: "preload_override option"
  sftp_preload_override :: "preload_override option"
  teams_identity :: "sharepoint_identity option"
  conn_onedrive_identity :: "onedrive_identity option"

text \<open>An offline mirror without a stored engine resolves by its provider.\<close>

definition conn_offline_engine :: "connection \<Rightarrow> offline_engine option" where
  "conn_offline_engine c =
     (case conn_mode c of
        OnlineMount _ \<Rightarrow> None
      | OfflineMirror opts \<Rightarrow>
          Some (case engine opts of
                  Some e \<Rightarrow> e
                | None \<Rightarrow> if conn_provider c = OneDrive then LegacyOnedrive else Rclone))"

datatype unsupported_engine = UnsupportedEngine offline_engine

definition ensure_supported_engine :: "connection \<Rightarrow> unsupported_engine + unit" where
  "ensure_supported_engine c =
     (case conn_offline_engine c of
        Some LegacyOnedrive \<Rightarrow> Inl (UnsupportedEngine LegacyOnedrive)
      | _ \<Rightarrow> Inr ())"

definition is_online :: "connection \<Rightarrow> bool" where
  "is_online c = (case conn_mode c of OnlineMount _ \<Rightarrow> True | OfflineMirror _ \<Rightarrow> False)"

text \<open>The guard the code repeats: an OneDrive mirror that rclone runs.\<close>

definition is_rclone_onedrive :: "connection \<Rightarrow> bool" where
  "is_rclone_onedrive c = (conn_provider c = OneDrive \<and> conn_offline_engine c = Some Rclone)"

section \<open>VPN profiles\<close>

datatype vpn_kind = NetworkManagerVpn | LegacyCisco

datatype readiness_check =
    NetworkManagerState | Interface string | Route string | DnsName string | Endpoint string

record vpn_profile =
  vpn_id :: vpn_profile_id
  vpn_name :: string
  vpn_kind_of :: vpn_kind
  external_profile_id :: "string option"
  readiness_checks :: "readiness_check list"
  timeout_seconds :: u32

section \<open>Operations and statuses\<close>

datatype operation =
  Mount | Unmount | SyncNow | PauseSync | ResumeSync | PreviewInitialSync | Repair

datatype online_mount_status =
    Unmounted | WaitingForNetwork | OnlineWaitingForVpn | Mounting | Mounted | Degraded
  | PendingWrites | Detaching | OnlineError | OnlineUnavailable

datatype offline_mirror_status =
    Idle | Offline | OfflineWaitingForVpn | Previewing | Syncing | Paused | MeteredPaused
  | Conflict | OfflineError | OfflineUnavailable

datatype connection_status =
  OnlineStatus online_mount_status | OfflineStatus offline_mirror_status

record conflict_record =
  cf_connection_id :: connection_id
  cf_relative_path :: path
  cf_preserved_local_path :: path
  cf_preserved_remote_path :: path

datatype recovery_reason = Deleted | Overwritten | InterruptedSync

record recovery_record =
  rr_connection_id :: connection_id
  rr_original_relative_path :: path
  rr_recovery_path :: path
  rr_reason :: recovery_reason
  rr_retained_until_unix_seconds :: "64 word"

lemma ensure_supported_engine_Inr:
  "ensure_supported_engine c = Inr () \<longleftrightarrow> conn_offline_engine c \<noteq> Some LegacyOnedrive"
  by (auto simp: ensure_supported_engine_def split: option.splits offline_engine.splits)

lemma conn_offline_engine_None: "conn_offline_engine c = None \<longleftrightarrow> is_online c"
  by (simp add: conn_offline_engine_def is_online_def split: connection_mode.split)

lemma is_online_cases:
  obtains (online) opts where "conn_mode c = OnlineMount opts" "is_online c"
    | (mirror) opts where "conn_mode c = OfflineMirror opts" "\<not> is_online c"
  by (cases "conn_mode c") (auto simp: is_online_def)

text \<open>A UUID's text is one valid path part, so joining it to a path adds one component.\<close>

lemma uuid_text_valid_part:
  assumes "uuid_text s"
  shows "valid_part s"
proof -
  have "s ! i \<noteq> CHR ''/''" if "i < 36" for i
  proof -
    have "if i \<in> {8, 13, 18, 23} then s ! i = CHR ''-'' else is_lower_hex (s ! i)"
      using assms that unfolding uuid_text_def list_all_iff by auto
    then show ?thesis by (auto simp: is_lower_hex_def split: if_splits)
  qed
  moreover have len: "length s = 36" using assms by (simp add: uuid_text_def)
  ultimately have "CHR ''/'' \<notin> set s" by (auto simp: in_set_conv_nth)
  moreover have "s \<noteq> []" "s \<noteq> ''.''" "s \<noteq> ''..''" using len by auto
  ultimately show ?thesis by (simp add: valid_part_def)
qed

end
