(* ===== verification/Mounts.thy ===== *)
theory Mounts
  imports Model
begin

text \<open>
  \<open>src/src/mounts.rs\<close>: parsing \<open>/proc/self/mountinfo\<close>, the mount table and the observed state of a
  synchronization service.  \<open>mangle\<close> and \<open>mountinfo_line\<close> are the kernel's documented format
  (\<open>proc_pid_mountinfo(5)\<close>), the reference that the parser is proved to invert.
\<close>

section \<open>The code\<close>

record mount_entry =
  me_target :: path
  me_source :: string
  me_filesystem :: string
  me_options :: "string list"

text \<open>An escape of the mount table: a backslash and three octal digits.\<close>

definition esc :: "string \<Rightarrow> string" where
  "esc octal = CHR 0x5C # octal"

definition unescape_mount_field :: "string \<Rightarrow> string" where
  "unescape_mount_field v =
     str_replace (esc ''134'') [CHR 0x5C]
       (str_replace (esc ''012'') [CHR 0x0A]
         (str_replace (esc ''011'') [CHR 0x09]
           (str_replace (esc ''040'') '' '' v)))"

definition parse_mountinfo_line :: "string \<Rightarrow> mount_entry res" where
  "parse_mountinfo_line line =
     (case split_once '' - '' line of
        None \<Rightarrow> Inl (fl ''ui-mounts-mountinfo-line-lacks-separator'')
      | Some (l, r) \<Rightarrow>
          (let left = split_whitespace l; right = split_whitespace r
           in if length left < 6 \<or> length right < 2
              then Inl (fl ''ui-mounts-mountinfo-line-is-incomplete'')
              else Inr \<lparr>me_target = unescape_mount_field (left ! 4),
                        me_source = unescape_mount_field (right ! 1),
                        me_filesystem = right ! 0,
                        me_options = split_char (CHR '','') (left ! 5)\<rparr>))"

text \<open>\<open>ProcMountTable::entries\<close> on the text of the table (reading the file is the caller's).\<close>

definition parse_mount_table :: "string \<Rightarrow> mount_entry list res" where
  "parse_mount_table content = collect_res (map parse_mountinfo_line (lines content))"

text \<open>\<open>ProcMountTable::entries\<close>: the read can fail, then the text is parsed.\<close>

definition proc_entries :: "(msg + string) \<Rightarrow> mount_entry list res" where
  "proc_entries read =
     bind_res (map_err (\<lambda>e. Fl ''ui-mounts-read-mount-table-error'' [(''error'', e)]) read)
       parse_mount_table"

definition find_target :: "mount_entry list res \<Rightarrow> path \<Rightarrow> mount_entry option res" where
  "find_target entries target =
     bind_res entries (\<lambda>es. Inr (List.find (\<lambda>e. path_eq (me_target e) target) es))"

datatype sync_runtime_state = RtIdle | RtRunning | RtPaused | RtFailed | RtUnknown

section \<open>The kernel's format\<close>

definition octal_of :: "char \<Rightarrow> string option" where
  "octal_of c =
     (if c = CHR '' '' then Some ''040''
      else if c = CHR 0x09 then Some ''011''
      else if c = CHR 0x0A then Some ''012''
      else if c = CHR 0x5C then Some ''134''
      else None)"

definition mangle_in :: "char set \<Rightarrow> string \<Rightarrow> string" where
  "mangle_in S s =
     concat (map (\<lambda>c. if c \<in> S then (case octal_of c of Some d \<Rightarrow> esc d | None \<Rightarrow> [c]) else [c]) s)"

definition mangle :: "string \<Rightarrow> string" where
  "mangle s = mangle_in {CHR '' '', CHR 0x09, CHR 0x0A, CHR 0x5C} s"

text \<open>
  A line: the mount id, parent id, device and root, the mount point, its options, any number of
  optional fields, a hyphen, the file system, its source and the super options.
\<close>

definition mountinfo_line ::
  "string list \<Rightarrow> string list \<Rightarrow> string list \<Rightarrow> mount_entry \<Rightarrow> string" where
  "mountinfo_line ids optional super e =
     join '' '' (ids @ [mangle (me_target e), join '','' (me_options e)] @ optional)
       @ '' - '' @ join '' '' ([me_filesystem e, mangle (me_source e)] @ super)"

text \<open>A field survives the split: complete characters, none of them white space.\<close>

definition plain_field :: "string \<Rightarrow> bool" where
  "plain_field s =
     (s \<noteq> [] \<and> utf8_complete s \<and> (\<forall>g \<in> set (utf8_chars s). \<not> is_white_space g))"

section \<open>Unescaping inverts the kernel's escaping\<close>

lemma str_replace_hit: "pat \<noteq> [] \<Longrightarrow> str_replace pat r (pat @ s) = r @ str_replace pat r s"
  by (cases pat) auto

lemma str_replace_miss: "\<not> prefix pat (c # s) \<Longrightarrow> str_replace pat r (c # s) = c # str_replace pat r s"
  by simp

lemma octal_digits:
  assumes "octal_of c = Some d"
  shows "length d = 3 \<and> CHR 0x5C \<notin> set d"
  using assms by (auto simp: octal_of_def split: if_splits)

lemma octal_inj: "octal_of c = Some d \<Longrightarrow> octal_of c' = Some d \<Longrightarrow> c = c'"
  by (auto simp: octal_of_def split: if_splits)

lemma str_replace_no_backslash:
  "CHR 0x5C \<notin> set w \<Longrightarrow> str_replace (esc d) r (w @ s) = w @ str_replace (esc d) r s"
  by (induction w) (auto simp: esc_def)

lemma str_replace_other_escape:
  assumes "length d = 3" and "length d' = 3" and "d \<noteq> d'" and "CHR 0x5C \<notin> set d'"
  shows "str_replace (esc d) r (esc d' @ s) = esc d' @ str_replace (esc d) r s"
proof -
  have "\<not> prefix (esc d) (esc d' @ s)"
    using assms(1-3) by (auto simp: esc_def prefix_def)
  then have "str_replace (esc d) r (esc d' @ s) = CHR 0x5C # str_replace (esc d) r (d' @ s)"
    by (simp add: esc_def)
  with str_replace_no_backslash [OF assms(4)] show ?thesis by (simp add: esc_def)
qed

lemma mangle_in_Cons [simp]:
  "mangle_in S (c # s) =
     (if c \<in> S then (case octal_of c of Some d \<Rightarrow> esc d | None \<Rightarrow> [c]) else [c]) @ mangle_in S s"
  by (simp add: mangle_in_def)

lemma mangle_in_Nil [simp]: "mangle_in S [] = []"
  by (simp add: mangle_in_def)

lemma mangle_in_empty [simp]: "mangle_in {} s = s"
  by (induction s) auto

lemma unescape_one:
  assumes "CHR 0x5C \<in> S" and "x \<in> S" and "octal_of x = Some d"
  shows "str_replace (esc d) [x] (mangle_in S s) = mangle_in (S - {x}) s"
proof (induction s)
  case Nil
  then show ?case by simp
next
  case (Cons c s)
  have esc_ne: "esc d \<noteq> []" by (simp add: esc_def)
  show ?case
  proof (cases "c \<in> S \<and> octal_of c \<noteq> None")
    case True
    then obtain d' where d': "octal_of c = Some d'" by auto
    show ?thesis
    proof (cases "c = x")
      case True
      with d' assms have "d' = d" by simp
      with True d' assms(2) Cons.IH str_replace_hit [OF esc_ne] show ?thesis by simp
    next
      case False
      with octal_inj d' assms(3) have "d \<noteq> d'" by blast
      then have "str_replace (esc d) [x] (esc d' @ mangle_in S s)
          = esc d' @ str_replace (esc d) [x] (mangle_in S s)"
        using octal_digits d' assms(3) by (intro str_replace_other_escape) auto
      with True False d' Cons.IH show ?thesis by simp
    qed
  next
    case False
    have "c \<noteq> CHR 0x5C" "c \<noteq> x"
      using False assms by (auto simp: octal_of_def)
    then have "str_replace (esc d) [x] ([c] @ mangle_in S s) = [c] @ str_replace (esc d) [x] (mangle_in S s)"
      by (intro str_replace_no_backslash) auto
    moreover have "mangle_in S (c # s) = [c] @ mangle_in S s"
      and "mangle_in (S - {x}) (c # s) = [c] @ mangle_in (S - {x}) s"
      using False by auto
    ultimately show ?thesis using Cons.IH by simp
  qed
qed

lemma mangle_in_cong: "S = T \<Longrightarrow> mangle_in S s = mangle_in T s"
  by simp

theorem unescape_mangle: "unescape_mount_field (mangle s) = s"
proof -
  have "str_replace (esc ''040'') '' '' (mangle s) = mangle_in {CHR 0x09, CHR 0x0A, CHR 0x5C} s"
    unfolding mangle_def by (subst unescape_one) (auto simp: octal_of_def intro!: mangle_in_cong)
  moreover have "str_replace (esc ''011'') [CHR 0x09] (mangle_in {CHR 0x09, CHR 0x0A, CHR 0x5C} s)
      = mangle_in {CHR 0x0A, CHR 0x5C} s"
    by (subst unescape_one) (auto simp: octal_of_def intro!: mangle_in_cong)
  moreover have "str_replace (esc ''012'') [CHR 0x0A] (mangle_in {CHR 0x0A, CHR 0x5C} s)
      = mangle_in {CHR 0x5C} s"
    by (subst unescape_one) (auto simp: octal_of_def intro!: mangle_in_cong)
  moreover have "str_replace (esc ''134'') [CHR 0x5C] (mangle_in {CHR 0x5C} s) = s"
    by (subst unescape_one) (auto simp: octal_of_def)
  ultimately show ?thesis by (simp add: unescape_mount_field_def)
qed

section \<open>Parsing inverts the kernel's line format\<close>

lemma plain_field_no_byte:
  assumes "plain_field f" and "is_white_space [c]" and "utf8_len c = 1"
  shows "c \<notin> set f"
proof
  assume "c \<in> set f"
  moreover have "set f = (\<Union>g \<in> set (utf8_chars f). set g)"
    by (metis concat_utf8_chars set_concat)
  ultimately obtain g where g: "g \<in> set (utf8_chars f)" and sp: "c \<in> set g" by auto
  from g assms have len: "length g = utf8_len (hd g)" and tl: "\<forall>c \<in> set (tl g). 128 \<le> (of_char c :: nat)"
    and nw: "\<not> is_white_space g" by (auto simp: plain_field_def utf8_complete_def)
  have c: "(of_char c :: nat) < 128"
    using assms(2) by (auto simp: is_white_space_def)
  from sp tl c have "hd g = c" by (cases g) force+
  with len sp assms(3) have "g = [c]" by (cases g) auto
  with nw assms(2) show False by simp
qed

lemma ascii_spaces [simp]:
  "is_white_space [CHR 0x0A]" "is_white_space [CHR 0x0D]"
  "utf8_len (CHR 0x0A) = 1" "utf8_len (CHR 0x0D) = 1" "utf8_len (CHR '' '') = 1"
  by code_simp+

lemma plain_field_no_space:
  assumes "plain_field f"
  shows "CHR '' '' \<notin> set f"
  using plain_field_no_byte [OF assms, of "CHR '' ''"] by simp

lemma split_whitespace_step:
  assumes "plain_field f"
  shows "split_whitespace (f @ '' '' @ rest) = f # split_whitespace rest"
proof -
  have ws: "is_white_space '' ''" by simp
  have "utf8_chars (f @ '' '' @ rest) = utf8_chars f @ '' '' # utf8_chars rest"
    using assms utf8_chars_append [of f] by (simp add: plain_field_def utf8_len_def)
  moreover have "split_on is_white_space (utf8_chars f @ '' '' # utf8_chars rest)
      = utf8_chars f # split_on is_white_space (utf8_chars rest)"
    using assms ws by (intro split_on_append_sep) (auto simp: plain_field_def)
  ultimately show ?thesis using assms by (simp add: split_whitespace_def plain_field_def)
qed

lemma split_whitespace_one: "plain_field f \<Longrightarrow> split_whitespace f = [f]"
  using split_on_no_sep [of "utf8_chars f" is_white_space]
  by (simp add: split_whitespace_def plain_field_def)

lemma split_whitespace_join:
  "fs \<noteq> [] \<Longrightarrow> list_all plain_field fs \<Longrightarrow> split_whitespace (join '' '' fs) = fs"
  by (induction fs rule: induct_list012) (simp_all add: split_whitespace_one split_whitespace_step del: append_Cons)

lemma find_sub_skip:
  "CHR '' '' \<notin> set f \<Longrightarrow> find_sub '' - '' (f @ t) = map_option ((+) (length f)) (find_sub '' - '' t)"
  by (induction f; cases "find_sub '' - '' t") auto

lemma find_sub_hyphen:
  assumes "CHR '' '' \<notin> set f" and "f \<noteq> []" and "f \<noteq> ''-''"
  shows "find_sub '' - '' ('' '' @ f @ '' '' @ t) = map_option Suc (find_sub '' - '' (f @ '' '' @ t))"
proof -
  have "\<not> prefix '' - '' ('' '' @ f @ '' '' @ t)"
    using assms by (cases f; cases "tl f") (auto simp: prefix_def)
  then show ?thesis by simp
qed

lemma find_sub_fields:
  assumes "fs \<noteq> []" and "list_all plain_field fs" and "''-'' \<notin> set fs"
  shows "find_sub '' - '' (join '' '' fs @ '' - '' @ t) = Some (length (join '' '' fs))"
  using assms
proof (induction fs rule: induct_list012)
  case 1
  then show ?case by simp
next
  case (2 x)
  then show ?case
    using find_sub_skip [OF plain_field_no_space, of x "'' - '' @ t"] by simp
next
  case (3 x y ys)
  have pl: "plain_field x" "plain_field y" "y \<noteq> ''-''" using 3 by auto
  have rest: "find_sub '' - '' (join '' '' (y # ys) @ '' - '' @ t) = Some (length (join '' '' (y # ys)))"
    using 3 by simp
  obtain u where u: "join '' '' (y # ys) @ '' - '' @ t = y @ '' '' @ u"
    by (cases ys) auto
  have "find_sub '' - '' (join '' '' (x # y # ys) @ '' - '' @ t)
      = map_option ((+) (length x)) (find_sub '' - '' ('' '' @ y @ '' '' @ u))"
    using find_sub_skip [OF plain_field_no_space [OF pl(1)], of "'' '' @ y @ '' '' @ u"] u by simp
  also have "find_sub '' - '' ('' '' @ y @ '' '' @ u) = map_option Suc (find_sub '' - '' (y @ '' '' @ u))"
    using pl plain_field_no_space [of y] by (intro find_sub_hyphen) (auto simp: plain_field_def)
  also have "find_sub '' - '' (y @ '' '' @ u) = Some (length (join '' '' (y # ys)))"
    using rest u by simp
  finally show ?case by simp
qed

definition entry_plain :: "mount_entry \<Rightarrow> bool" where
  "entry_plain e =
     (list_all plain_field
        [mangle (me_target e), join '','' (me_options e), me_filesystem e, mangle (me_source e)]
      \<and> mangle (me_target e) \<noteq> ''-'' \<and> join '','' (me_options e) \<noteq> ''-''
      \<and> me_options e \<noteq> [] \<and> (\<forall>opt \<in> set (me_options e). CHR '','' \<notin> set opt))"

lemma parse_mountinfo_fields:
  assumes "length ids = 4" and "list_all plain_field (ids @ optional @ super)"
    and "''-'' \<notin> set (ids @ optional)" and "entry_plain e"
  shows "parse_mountinfo_line (mountinfo_line ids optional super e) = Inr e"
proof -
  define L where "L = ids @ [mangle (me_target e), join '','' (me_options e)] @ optional"
  define R where "R = [me_filesystem e, mangle (me_source e)] @ super"
  have L: "L \<noteq> []" "list_all plain_field L" "''-'' \<notin> set L" "6 \<le> length L"
    and R: "R \<noteq> []" "list_all plain_field R"
    using assms by (auto simp: L_def R_def entry_plain_def)
  have line: "mountinfo_line ids optional super e = join '' '' L @ '' - '' @ join '' '' R"
    by (simp add: mountinfo_line_def L_def R_def)
  have "split_once '' - '' (join '' '' L @ '' - '' @ join '' '' R) = Some (join '' '' L, join '' '' R)"
    using find_sub_fields [OF L(1-3)] by (simp add: split_once_def)
  moreover have "L ! 4 = mangle (me_target e)" "L ! 5 = join '','' (me_options e)"
    using assms(1) by (simp_all add: L_def nth_append)
  moreover have "R ! 0 = me_filesystem e" "R ! 1 = mangle (me_source e)"
    by (simp_all add: R_def)
  moreover have "split_char (CHR '','') (join '','' (me_options e)) = me_options e"
    using assms(4) split_char_join [of "me_options e" "CHR '',''"] by (simp add: entry_plain_def)
  moreover have "2 \<le> length R" by (simp add: R_def)
  ultimately show ?thesis
    using L(4) split_whitespace_join [OF L(1,2)] split_whitespace_join [OF R]
    by (simp add: line parse_mountinfo_line_def unescape_mangle)
qed

section \<open>The whole table\<close>

lemma lines_of_table:
  assumes "\<forall>l \<in> set ls. CHR 0x0A \<notin> set l \<and> CHR 0x0D \<notin> set l"
  shows "lines (concat (map (\<lambda>l. l @ [CHR 0x0A]) ls)) = ls"
proof -
  have strip: "CHR 0x0D \<notin> set l \<Longrightarrow> strip_cr l = l" for l
    by (auto simp: strip_cr_def dest: last_in_set)
  have "split_char (CHR 0x0A) (concat (map (\<lambda>l. l @ [CHR 0x0A]) ls)) = ls @ [[]]"
    using assms
  proof (induction ls)
    case Nil
    then show ?case by (simp add: split_char_def)
  next
    case (Cons l ls)
    then have "\<forall>x \<in> set l. x \<noteq> CHR 0x0A" by auto
    with Cons show ?case
      using split_on_append_sep [of l "\<lambda>x. x = CHR 0x0A" "CHR 0x0A"]
      by (simp add: split_char_def)
  qed
  moreover have "map strip_cr ls = ls" using assms strip by (simp add: map_idI)
  ultimately show ?thesis by (simp add: lines_def)
qed

text \<open>A row of the table: the leading ids, the optional fields, the super options and the entry.\<close>

type_synonym mount_row = "string list \<times> string list \<times> string list \<times> mount_entry"

definition row_line :: "mount_row \<Rightarrow> string" where
  "row_line r = (case r of (ids, optional, super, e) \<Rightarrow> mountinfo_line ids optional super e)"

definition row_entry :: "mount_row \<Rightarrow> mount_entry" where
  "row_entry r = snd (snd (snd r))"

definition row_plain :: "mount_row \<Rightarrow> bool" where
  "row_plain r =
     (case r of (ids, optional, super, e) \<Rightarrow>
        length ids = 4 \<and> list_all plain_field (ids @ optional @ super)
        \<and> ''-'' \<notin> set (ids @ optional) \<and> entry_plain e)"

lemma set_join: "set (join sep xs) \<subseteq> set sep \<union> (\<Union>x \<in> set xs. set x)"
  by (induction sep xs rule: join.induct) auto

lemma row_line_bytes:
  assumes "row_plain r" and "c = CHR 0x0A \<or> c = CHR 0x0D"
  shows "c \<notin> set (row_line r)"
proof -
  obtain ids optional super e where r: "r = (ids, optional, super, e)" by (cases r) auto
  let ?fs = "ids @ [mangle (me_target e), join '','' (me_options e)] @ optional"
  let ?gs = "[me_filesystem e, mangle (me_source e)] @ super"
  have "list_all plain_field (?fs @ ?gs)"
    using assms(1) by (auto simp: r row_plain_def entry_plain_def)
  then have "\<forall>f \<in> set (?fs @ ?gs). c \<notin> set f"
    using assms(2) plain_field_no_byte [of _ c] unfolding list_all_iff by auto
  moreover have "c \<notin> set '' - ''" "c \<notin> set '' ''" using assms(2) by auto
  ultimately have "c \<notin> set (join '' '' ?fs)" "c \<notin> set (join '' '' ?gs)"
    using set_join [of "'' ''" ?fs] set_join [of "'' ''" ?gs] by auto
  with assms(2) show ?thesis by (auto simp: r row_line_def mountinfo_line_def)
qed

text \<open>
  Parsing the kernel's mount table returns exactly the mounted entries, in order, with every
  escaped path restored, for any number of rows whose fields are complete UTF-8 without white space
  once the kernel has escaped them.
\<close>
theorem mount_table_roundtrip:
  assumes "list_all row_plain rows"
  shows "parse_mount_table (concat (map (\<lambda>r. row_line r @ [CHR 0x0A]) rows)) = Inr (map row_entry rows)"
proof -
  have "lines (concat (map (\<lambda>r. row_line r @ [CHR 0x0A]) rows)) = map row_line rows"
    using lines_of_table [of "map row_line rows"] row_line_bytes assms
    by (auto simp: list_all_iff o_def)
  moreover have "parse_mountinfo_line (row_line r) = Inr (row_entry r)" if "r \<in> set rows" for r
    using that assms parse_mountinfo_fields
    by (cases r) (auto simp: list_all_iff row_plain_def row_line_def row_entry_def)
  ultimately show ?thesis
    by (simp add: parse_mount_table_def collect_res_Inr)
qed

definition sample_rows :: "mount_row list" where
  "sample_rows =
     [([''36'', ''35'', ''0:32'', ''/''], [''master:1''], [''rw''],
       \<lparr>me_target = ''/home/u/My Drive'', me_source = ''gdrive:'', me_filesystem = ''fuse.rclone'',
        me_options = [''rw'', ''nosuid'']\<rparr>),
      ([''37'', ''35'', ''0:33'', ''/''], [], [''rw'', ''seclabel''],
       \<lparr>me_target = [CHR ''/'', CHR 0x5C, CHR 0x09], me_source = ''tmpfs'', me_filesystem = ''tmpfs'',
        me_options = [''rw'']\<rparr>)]"

lemma mount_table_roundtrip_witness:
  "parse_mount_table (concat (map (\<lambda>r. row_line r @ [CHR 0x0A]) sample_rows))
     = Inr (map row_entry sample_rows)"
  by (rule mount_table_roundtrip) code_simp

text \<open>
  A mount path with a Unicode white-space character (here U+3000, bytes E3 80 80) is not escaped
  by the kernel but split by the parser: the entry's target is cut at that character, its options are
  the rest of the path, and looking up the real mount point finds nothing.
\<close>
theorem unicode_space_target_is_cut:
  "let e = \<lparr>me_target = ''/a'' @ bytes [227, 128, 128] @ ''b'', me_source = ''gdrive:'',
            me_filesystem = ''fuse.rclone'', me_options = [''rw'']\<rparr>;
       table = parse_mount_table (mountinfo_line [''36'', ''35'', ''0:32'', ''/''] [] [''rw''] e @ [CHR 0x0A])
   in (case table of Inl _ \<Rightarrow> False | Inr es \<Rightarrow> map me_target es = [''/a''] \<and> map me_options es = [[''b'']])
      \<and> find_target table (me_target e) = Inr None"
  by code_simp

end
