(* ===== verification/Process.thy ===== *)
theory Process
  imports Rust_Path
begin

text \<open>
  \<open>src/src/process.rs\<close>: requests to run a host executable, their arguments, the Flatpak wrapping,
  the bounded retry loop and the redaction of captured text.  Spawning a child is not modelled:
  one attempt is an argument of \<open>run_with_retries\<close>.  Durations are microseconds.
\<close>

section \<open>Executables, arguments and requests\<close>

type_synonym duration = nat

definition from_secs :: "nat \<Rightarrow> duration" where "from_secs n = n * 1000000"
definition from_millis :: "nat \<Rightarrow> duration" where "from_millis n = n * 1000"

text \<open>The executables of the shipped build (the others exist in tests and probes only).\<close>

datatype executable =
  FlatpakSpawn | Flatpak | RcloneExe | Onedriver | Fusermount3 | Mountpoint | Find | Cat

fun display_name :: "executable \<Rightarrow> string" where
  "display_name FlatpakSpawn = ''flatpak-spawn''"
| "display_name Flatpak = ''flatpak''"
| "display_name RcloneExe = ''rclone''"
| "display_name Onedriver = ''onedriver''"
| "display_name Fusermount3 = ''fusermount3''"
| "display_name Mountpoint = ''mountpoint''"
| "display_name Find = ''find''"
| "display_name Cat = ''cat''"

fun path_candidates :: "executable \<Rightarrow> string list" where
  "path_candidates FlatpakSpawn = [''flatpak-spawn'']"
| "path_candidates Flatpak = [''flatpak'', ''/usr/bin/flatpak'']"
| "path_candidates RcloneExe = [''rclone'']"
| "path_candidates Onedriver = [''onedriver'']"
| "path_candidates Fusermount3 = [''fusermount3'']"
| "path_candidates Mountpoint = [''mountpoint'']"
| "path_candidates Find = [''find'', ''/usr/bin/find'']"
| "path_candidates Cat = [''cat'', ''/usr/bin/cat'']"

record command_arg =
  arg_value :: string
  arg_sensitive :: bool

record captured_output =
  co_text :: string
  co_truncated :: bool
  co_invalid_utf8 :: bool

record command_output =
  out_stdout :: captured_output
  out_stderr :: captured_output
  out_attempts :: nat

text \<open>
  The errors of a command.  The sanitized command text that the code stores in them is display
  data and left out.
\<close>

datatype command_error =
    MissingExecutable executable
  | InvalidArgument
  | Spawn string
  | Timeout duration
  | Cancelled
  | NonZero "int option" captured_output captured_output nat

definition unsafe_arg_char :: "char \<Rightarrow> bool" where
  "unsafe_arg_char c = (c = CHR 0x00 \<or> c = CHR 0x0A \<or> c = CHR 0x0D)"

definition command_arg_new :: "string \<Rightarrow> bool \<Rightarrow> command_error + command_arg" where
  "command_arg_new v sensitive =
     (if \<exists>c \<in> set v. unsafe_arg_char c then Inl InvalidArgument
      else Inr \<lparr>arg_value = v, arg_sensitive = sensitive\<rparr>)"

record retry_policy =
  max_attempts :: nat
  retry_delay :: duration
  retry_nonzero :: bool

definition default_retry :: retry_policy where
  "default_retry = \<lparr>max_attempts = 1, retry_delay = 0, retry_nonzero = False\<rparr>"

record command_request =
  req_executable :: executable
  req_args :: "command_arg list"
  req_timeout :: duration
  req_output_limit :: nat
  req_retry :: retry_policy
  req_launch_only :: bool
  req_watch_host_bus :: bool

definition new_request :: "executable \<Rightarrow> command_request" where
  "new_request e =
     \<lparr>req_executable = e, req_args = [], req_timeout = from_secs 10, req_output_limit = 64 * 1024,
      req_retry = default_retry, req_launch_only = False, req_watch_host_bus = False\<rparr>"

definition add_arg :: "string \<Rightarrow> command_request \<Rightarrow> command_error + command_request" where
  "add_arg v r =
     bind_res (command_arg_new v False) (\<lambda>a. Inr (r\<lparr>req_args := req_args r @ [a]\<rparr>))"

definition add_sensitive_arg :: "string \<Rightarrow> command_request \<Rightarrow> command_error + command_request" where
  "add_sensitive_arg v r =
     bind_res (command_arg_new v True) (\<lambda>a. Inr (r\<lparr>req_args := req_args r @ [a]\<rparr>))"

text \<open>A chain of \<open>.arg(..)\<close> calls, stopped by the first rejected argument.\<close>

fun add_args :: "string list \<Rightarrow> command_request \<Rightarrow> command_error + command_request" where
  "add_args [] r = Inr r"
| "add_args (v # vs) r = bind_res (add_arg v r) (add_args vs)"

definition request_argv :: "command_request \<Rightarrow> string list" where
  "request_argv r = map arg_value (req_args r)"

definition validate_private_config :: "command_request \<Rightarrow> command_error + unit" where
  "validate_private_config r =
     (if req_executable r \<noteq> RcloneExe \<or> req_launch_only r \<or> 1024 * 1024 < req_output_limit r
         \<or> from_secs 300 < req_timeout r
         \<or> \<not> (case request_argv r of
               ''config'' # cmd # _ \<Rightarrow> cmd = ''dump'' \<or> cmd = ''create'' \<or> cmd = ''update''
             | _ \<Rightarrow> False)
      then Inl InvalidArgument else Inr ())"

definition host_executable_arg :: "executable \<Rightarrow> command_error + string" where
  "host_executable_arg e =
     (case path_candidates e of [] \<Rightarrow> Inl (MissingExecutable e) | p # _ \<Rightarrow> Inr p)"

definition host_request :: "command_request \<Rightarrow> command_error + command_request" where
  "host_request r =
     bind_res (host_executable_arg (req_executable r)) (\<lambda>exe.
     bind_res (add_arg ''--host'' (new_request FlatpakSpawn)) (\<lambda>h0.
     let h1 = h0\<lparr>req_timeout := req_timeout r, req_output_limit := req_output_limit r,
                 req_retry := req_retry r\<rparr>
     in bind_res (if req_watch_host_bus r then add_arg ''--watch-bus'' h1 else Inr h1) (\<lambda>h2.
        bind_res (add_arg exe h2) (\<lambda>h3.
        Inr (h3\<lparr>req_launch_only := req_launch_only r, req_args := req_args h3 @ req_args r\<rparr>)))))"

fun command_error_text :: "command_error \<Rightarrow> msg" where
  "command_error_text (MissingExecutable e) =
     Fl ''ui-process-value1-was-not-found'' [(''value1'', Lit (display_name e))]"
| "command_error_text InvalidArgument = fl ''ui-process-command-argument-contains-unsafe-bytes''"
| "command_error_text (Spawn m) = Lit m"
| "command_error_text (Timeout _) = fl ''ui-process-command-timed-out-after-timeout''"
| "command_error_text Cancelled = fl ''ui-process-command-was-cancelled''"
| "command_error_text (NonZero code _ _ _) =
     Fl ''ui-process-command-exited-with-status-code''
       [(''code'', Lit (case code of None \<Rightarrow> ''None'' | Some _ \<Rightarrow> ''Some''))]"

section \<open>Retries\<close>

datatype attempt_result =
    Exited "int option" captured_output captured_output
  | AttemptError command_error

definition exit_success :: "int option \<Rightarrow> bool" where
  "exit_success code = (code = Some 0)"

text \<open>
  \<open>run_with_retries\<close> for a request that waits: \<open>run n\<close> is the \<open>n\<close>-th \<open>run_once\<close>, \<open>stop n\<close> says that
  the token is cancelled in the delay after it, \<open>priv\<close> that the capture is not the redacted one.
\<close>

definition redacted_capture :: "captured_output \<Rightarrow> captured_output" where
  "redacted_capture c = c\<lparr>co_text := ''[REDACTED]''\<rparr>"

function attempts_from ::
  "retry_policy \<Rightarrow> bool \<Rightarrow> (nat \<Rightarrow> attempt_result) \<Rightarrow> (nat \<Rightarrow> bool) \<Rightarrow> nat \<Rightarrow> nat
     \<Rightarrow> command_error + command_output" where
  "attempts_from pol priv run stop m n =
     (case run n of
        AttemptError e \<Rightarrow> Inl e
      | Exited code o1 o2 \<Rightarrow>
          if exit_success code then Inr \<lparr>out_stdout = o1, out_stderr = o2, out_attempts = n\<rparr>
          else
            let p1 = (if priv then redacted_capture o1 else o1);
                p2 = (if priv then redacted_capture o2 else o2)
            in if m \<le> n \<or> \<not> retry_nonzero pol then Inl (NonZero code p1 p2 n)
               else if stop n then Inl Cancelled
               else attempts_from pol priv run stop m (Suc n))"
  by pat_completeness auto
termination
  by (relation "measure (\<lambda>(pol, priv, run, stop, m, n). m - n)") auto

declare attempts_from.simps [simp del]

definition run_with_retries ::
  "command_request \<Rightarrow> bool \<Rightarrow> (nat \<Rightarrow> attempt_result) \<Rightarrow> (nat \<Rightarrow> bool)
     \<Rightarrow> command_error + command_output" where
  "run_with_retries r priv run stop =
     attempts_from (req_retry r) priv run stop (max (max_attempts (req_retry r)) 1) 1"

text \<open>\<open>read_bounded\<close>: chunks of the pipe, at most \<open>limit\<close> bytes of them retained.\<close>

fun read_chunks :: "nat \<Rightarrow> string list \<Rightarrow> string \<Rightarrow> nat \<Rightarrow> string \<times> nat" where
  "read_chunks limit [] retained tot = (retained, tot)"
| "read_chunks limit (b # bs) retained tot =
     read_chunks limit bs (retained @ take (limit - length retained) b) (tot + length b)"

definition read_bounded :: "nat \<Rightarrow> (string \<Rightarrow> string) \<Rightarrow> (string \<Rightarrow> bool) \<Rightarrow> string list \<Rightarrow> captured_output" where
  "read_bounded limit render valid chunks =
     (let (retained, tot) = read_chunks limit chunks [] 0
      in \<lparr>co_text = render retained, co_truncated = (length retained < tot),
          co_invalid_utf8 = (\<not> valid retained)\<rparr>)"

section \<open>Redaction of plain text\<close>

definition sensitive_keys :: "string list" where
  "sensitive_keys =
     [''password'', ''passwd'', ''token'', ''secret'', ''credential'', ''authorization'',
      ''client_id'', ''client_secret'', ''refresh_token'', ''access_token'']"

definition redact_token :: "string \<Rightarrow> string" where
  "redact_token tok =
     (let lower = ascii_lowercase tok
      in if prefix ''http://'' lower \<or> prefix ''https://'' lower then ''[REDACTED_URL]''
         else if prefix ''bearer'' lower then ''[REDACTED]''
         else case split_once ''='' tok of
             Some (key, _) \<Rightarrow>
               if list_ex (\<lambda>k. str_contains k (ascii_lowercase key)) sensitive_keys
               then key @ ''=[REDACTED]'' else tok
           | None \<Rightarrow> tok)"

text \<open>\<open>rfind\<close> of one byte.\<close>

definition rfind_char :: "char \<Rightarrow> string \<Rightarrow> nat option" where
  "rfind_char c s =
     (let k = length (takeWhile (\<lambda>x. x \<noteq> c) (rev s))
      in if k < length s then Some (length s - 1 - k) else None)"

definition redact_value_token :: "string \<Rightarrow> string" where
  "redact_value_token tok =
     (case tok of
        [] \<Rightarrow> ''[REDACTED]''
      | q # _ \<Rightarrow>
          if q = CHR 0x22 \<or> q = CHR 0x27 then
            (case rfind_char q tok of
               None \<Rightarrow> ''[REDACTED]''
             | Some i \<Rightarrow> if 0 < i then [q] @ ''[REDACTED]'' @ [q] @ drop (Suc i) tok
                         else ''[REDACTED]'')
          else ''[REDACTED]'')"

definition trim_key :: "string \<Rightarrow> string" where
  "trim_key s =
     (let cut = (\<lambda>x. x \<in> {CHR 0x22, CHR 0x27, CHR '':'', CHR '','', CHR ''{'', CHR ''}''})
      in rev (dropWhile cut (rev (dropWhile cut s))))"

definition redact_step :: "nat \<Rightarrow> string \<Rightarrow> string \<times> nat" where
  "redact_step n tok =
     (let lower = ascii_lowercase tok
      in if 0 < n then (redact_value_token tok, n - 1)
         else if lower = ''authorization:'' then (tok, 2)
         else if lower \<in> {''bearer'', ''--password'', ''--passwd'', ''--token'', ''--client-id'',
                          ''--client-secret''}
                 \<or> trim_key lower \<in> {''client_id'', ''client_secret''}
              then (tok, 1)
         else (redact_token tok, 0))"

function redact_from :: "nat \<Rightarrow> string list \<Rightarrow> string" where
  "redact_from n gs =
     (let ws = takeWhile is_white_space gs; rest = dropWhile is_white_space gs
      in if rest = [] then concat ws
         else
           let tok = concat (takeWhile (\<lambda>g. \<not> is_white_space g) rest);
               after = dropWhile (\<lambda>g. \<not> is_white_space g) rest;
               (out, n') = redact_step n tok
           in concat ws @ out @ redact_from n' after)"
  by pat_completeness auto
termination
proof (relation "measure (\<lambda>(n, gs). length gs)", goal_cases)
  case 1
  show ?case by simp
next
  case (2 n gs ws rest tok after p out n')
  then have "dropWhile is_white_space gs \<noteq> []" by metis
  then obtain x xs where x: "dropWhile is_white_space gs = x # xs"
    by (meson neq_Nil_conv)
  then have "\<not> is_white_space x" by (metis hd_dropWhile list.sel(1) list.simps(3))
  moreover have "length (x # xs) \<le> length gs"
    using x length_dropWhile_le [of is_white_space gs] by simp
  ultimately show ?case
    using 2 x length_dropWhile_le [of "\<lambda>g. \<not> is_white_space g" xs] by simp
qed

declare redact_from.simps [simp del]

definition redact_plain_text :: "string \<Rightarrow> string" where
  "redact_plain_text v = redact_from 0 (utf8_chars v)"

section \<open>Structured text\<close>

text \<open>
  \<open>serde_json::Value\<close> (a number is its text), the parser and printer of \<open>serde_json\<close> as arguments, and
  \<open>redact_json_value\<close>, \<open>redact_text\<close>.
\<close>

datatype json =
    JNull | JBool bool | JNumber string | JString string | JArray "json list"
  | JObject "(string \<times> json) list"

record json_lib =
  json_parse :: "string \<Rightarrow> json option"
  json_print :: "json \<Rightarrow> string"

definition sensitive_field :: "string \<Rightarrow> bool" where
  "sensitive_field field =
     (let key = ascii_lowercase field
      in key \<in> {''pass'', ''password'', ''passwd'', ''token'', ''secret'', ''credential'', ''credentials'',
              ''authorization'', ''client_id'', ''client_secret'', ''key_pem'', ''key_file_pass'',
              ''private_key''}
         \<or> suffix ''_token'' key \<or> suffix ''_password'' key \<or> suffix ''_secret'' key
         \<or> suffix ''_credentials'' key)"

fun redact_json_value :: "json \<Rightarrow> json" where
  "redact_json_value (JObject members) =
     JObject (map (\<lambda>(key, v).
       (key, if sensitive_field key then JString ''[REDACTED]'' else redact_json_value v)) members)"
| "redact_json_value (JArray items) = JArray (map redact_json_value items)"
| "redact_json_value (JString s) = JString (redact_plain_text s)"
| "redact_json_value v = v"

definition redact_text :: "json_lib \<Rightarrow> string \<Rightarrow> string" where
  "redact_text J v =
     (case json_parse J v of
        Some structured \<Rightarrow> json_print J (redact_json_value structured)
      | None \<Rightarrow> redact_plain_text v)"

section \<open>Facts\<close>

lemma command_arg_new_Inr [simp]:
  "command_arg_new v b = Inr a \<longleftrightarrow>
     (\<forall>c \<in> set v. \<not> unsafe_arg_char c) \<and> a = \<lparr>arg_value = v, arg_sensitive = b\<rparr>"
  by (auto simp: command_arg_new_def)

definition safe_arg :: "string \<Rightarrow> bool" where
  "safe_arg v = (\<forall>c \<in> set v. \<not> unsafe_arg_char c)"

lemma add_arg_Inr:
  "add_arg v r = Inr r' \<longleftrightarrow>
     safe_arg v \<and> r' = r\<lparr>req_args := req_args r @ [\<lparr>arg_value = v, arg_sensitive = False\<rparr>]\<rparr>"
  by (auto simp: add_arg_def bind_res_Inr safe_arg_def)

lemma add_args_Inr:
  "add_args vs r = Inr r' \<longleftrightarrow>
     list_all safe_arg vs
     \<and> r' = r\<lparr>req_args := req_args r @ map (\<lambda>v. \<lparr>arg_value = v, arg_sensitive = False\<rparr>) vs\<rparr>"
  by (induction vs arbitrary: r) (auto simp: bind_res_Inr add_arg_Inr)

lemma request_argv_new [simp]: "request_argv (new_request e) = []"
  by (simp add: request_argv_def new_request_def)

lemma add_args_argv:
  "add_args vs r = Inr r' \<Longrightarrow> request_argv r' = request_argv r @ vs"
  by (simp add: add_args_Inr request_argv_def o_def)

lemma read_chunks_spec:
  "length retained \<le> limit \<Longrightarrow>
     read_chunks limit bs retained tot = (r, t) \<Longrightarrow>
     r = take limit (retained @ concat bs) \<and> t = tot + length (concat bs)"
proof (induction bs arbitrary: retained tot)
  case Nil
  then show ?case by simp
next
  case (Cons b bs)
  let ?kept = "retained @ take (limit - length retained) b"
  have kept: "?kept = take limit (retained @ b)" using Cons.prems(1) by simp
  have "r = take limit (?kept @ concat bs) \<and> t = tot + length b + length (concat bs)"
    using Cons.prems(2) by (intro Cons.IH) (auto simp: kept)
  moreover have "take limit (take limit (retained @ b) @ concat bs) = take limit (retained @ b @ concat bs)"
    by (simp add: take_append min_def)
  ultimately show ?case by (simp add: kept)
qed

lemma attempts_from_count:
  assumes "n \<le> m"
    and "attempts_from pol priv run stop m n = Inr out"
  shows "n \<le> out_attempts out \<and> out_attempts out \<le> m \<and> (\<exists>c o1 o2. run (out_attempts out) = Exited c o1 o2 \<and> exit_success c)"
  using assms
proof (induction pol priv run stop m n rule: attempts_from.induct)
  case (1 pol priv run stop m n)
  from 1(3) show ?case
    using 1(1,2)
    by (simp add: attempts_from.simps [of pol priv run stop m n] Let_def
        split: attempt_result.splits if_splits)
       fastforce+
qed

section \<open>Properties\<close>

lemma attempts_from_step:
  "attempts_from pol priv run stop m n = Inr out \<longleftrightarrow>
     (\<exists>c o1 o2. run n = Exited c o1 o2
        \<and> (if exit_success c then out = \<lparr>out_stdout = o1, out_stderr = o2, out_attempts = n\<rparr>
           else n < m \<and> retry_nonzero pol \<and> \<not> stop n \<and> attempts_from pol priv run stop m (Suc n) = Inr out))"
  by (subst attempts_from.simps) (auto simp: Let_def split: attempt_result.split)

definition retried :: "retry_policy \<Rightarrow> (nat \<Rightarrow> attempt_result) \<Rightarrow> (nat \<Rightarrow> bool) \<Rightarrow> nat \<Rightarrow> bool" where
  "retried pol run stop j =
     (retry_nonzero pol \<and> \<not> stop j \<and> (\<exists>c o1 o2. run j = Exited c o1 o2 \<and> \<not> exit_success c))"

lemma attempts_from_Inr:
  assumes "n \<le> m"
  shows "attempts_from pol priv run stop m n = Inr out \<longleftrightarrow>
    (\<exists>k c o1 o2. n \<le> k \<and> k \<le> m \<and> run k = Exited c o1 o2 \<and> exit_success c
       \<and> out = \<lparr>out_stdout = o1, out_stderr = o2, out_attempts = k\<rparr>
       \<and> (\<forall>j \<in> {n..<k}. retried pol run stop j))"
    (is "_ = (\<exists>k c o1 o2. ?ok n k c o1 o2)")
  using assms
proof (induction "m - n" arbitrary: n)
  case 0
  then have "m = n" by simp
  then show ?case
    by (subst attempts_from_step) (auto split: if_splits)
next
  case (Suc d)
  then have lt: "n < m" and IH: "attempts_from pol priv run stop m (Suc n) = Inr out \<longleftrightarrow>
      (\<exists>k c o1 o2. ?ok (Suc n) k c o1 o2)" by auto
  have first: "?ok n k c o1 o2 \<longleftrightarrow>
      k = n \<and> run n = Exited c o1 o2 \<and> exit_success c
        \<and> out = \<lparr>out_stdout = o1, out_stderr = o2, out_attempts = n\<rparr>
      \<or> retried pol run stop n \<and> ?ok (Suc n) k c o1 o2" for k c o1 o2
  proof (cases "k = n")
    case True
    with lt show ?thesis by auto
  next
    case False
    then have "{n..<k} = (if n < k then insert n {Suc n..<k} else {})" by auto
    with False show ?thesis by auto
  qed
  have "attempts_from pol priv run stop m n = Inr out \<longleftrightarrow>
      (\<exists>c o1 o2. run n = Exited c o1 o2 \<and> exit_success c
         \<and> out = \<lparr>out_stdout = o1, out_stderr = o2, out_attempts = n\<rparr>)
      \<or> retried pol run stop n \<and> attempts_from pol priv run stop m (Suc n) = Inr out"
    using lt by (subst attempts_from_step) (auto simp: retried_def split: if_splits)
  then show ?case unfolding IH first by blast
qed

text \<open>
  A command with retries succeeds exactly when some attempt, at most \<open>max_attempts\<close> (but at
  least one is made), exits with status 0 after attempts that all exited nonzero, with retrying
  enabled and no cancellation in between; the result is that attempt's output and its number.  An
  attempt that fails to run, times out or is cancelled is never retried.
\<close>
theorem run_with_retries_success:
  "run_with_retries r priv run stop = Inr out \<longleftrightarrow>
    (\<exists>k c o1 o2. 1 \<le> k \<and> k \<le> max (max_attempts (req_retry r)) 1 \<and> run k = Exited c o1 o2
       \<and> exit_success c \<and> out = \<lparr>out_stdout = o1, out_stderr = o2, out_attempts = k\<rparr>
       \<and> (\<forall>j. 1 \<le> j \<and> j < k \<longrightarrow> retry_nonzero (req_retry r) \<and> \<not> stop j
            \<and> (\<exists>c o1 o2. run j = Exited c o1 o2 \<and> \<not> exit_success c)))"
  using attempts_from_Inr [of 1 "max (max_attempts (req_retry r)) 1"]
  by (simp add: run_with_retries_def retried_def Ball_def)

definition sample_capture :: "string \<Rightarrow> captured_output" where
  "sample_capture s = \<lparr>co_text = s, co_truncated = False, co_invalid_utf8 = False\<rparr>"

definition sample_run :: "nat \<Rightarrow> attempt_result" where
  "sample_run n =
     (if n = 3 then Exited (Some 0) (sample_capture ''ok'') (sample_capture [])
      else Exited (Some 1) (sample_capture []) (sample_capture ''busy''))"

lemma run_with_retries_success_witness:
  "run_with_retries ((new_request Cat)\<lparr>req_retry := \<lparr>max_attempts = 3, delay = 0, retry_nonzero = True\<rparr>\<rparr>)
     False sample_run (\<lambda>_. False)
     = Inr \<lparr>out_stdout = sample_capture ''ok'', out_stderr = sample_capture [], out_attempts = 3\<rparr>"
  by (subst run_with_retries_success) (auto simp: sample_run_def exit_success_def)

text \<open>
  Whatever chunks a command's pipe delivers, the captured text is exactly the first \<open>limit\<close> bytes
  of the stream, marked truncated exactly when the stream was longer, and marked invalid exactly when
  those bytes are not UTF-8.
\<close>
theorem read_bounded_prefix:
  "read_bounded limit render valid chunks =
     \<lparr>co_text = render (take limit (concat chunks)),
      co_truncated = (limit < length (concat chunks)),
      co_invalid_utf8 = (\<not> valid (take limit (concat chunks)))\<rparr>"
proof -
  obtain r t where rt: "read_chunks limit chunks [] 0 = (r, t)" by (cases "read_chunks limit chunks [] 0")
  from read_chunks_spec [OF _ rt] have "r = take limit (concat chunks)" "t = length (concat chunks)"
    by simp_all
  then show ?thesis by (simp add: read_bounded_def rt min_def)
qed

end
