(* ===== verification/Remote_Names.thy ===== *)
theory Remote_Names
  imports Model Process
begin

text \<open>
  Names and paths of rclone remotes: \<open>validate_remote_name\<close>, \<open>validate_remote_subpath\<close>,
  \<open>rclone_remote_path\<close> and \<open>rclone_remote_recovery_path\<close> of \<open>src/src/sync.rs\<close>, the SFTP variant of
  \<open>src/src/providers.rs\<close>, and the stricter OneDrive checks of \<open>src/src/onedrive.rs\<close>.
\<close>

section \<open>sync.rs\<close>

text \<open>\<open>SyncError\<close> and its \<open>Display\<close>.\<close>

datatype sync_error =
    InvalidMode
  | UnsupportedEngineError unsupported_engine
  | UnsupportedProvider provider
  | InvalidRemoteReference
  | InvalidRemoteSubpath
  | InvalidSharePointIdentity
  | InvalidOneDriveIdentity
  | InvalidWorkDirectory
  | InvalidRecoveryDirectory
  | InitialPreviewRequired
  | ExplicitConfirmationRequired
  | ResyncPreviewRequired
  | MeteredNetworkPaused
  | ConcurrentRun
  | OverlapsOnedriverPath path
  | SyncCommand command_error

text \<open>The \<open>Debug\<close> name of a provider.\<close>

fun provider_debug :: "provider \<Rightarrow> string" where
  "provider_debug OneDrive = ''OneDrive''"
| "provider_debug Teams = ''Teams''"
| "provider_debug GoogleDrive = ''GoogleDrive''"
| "provider_debug Box = ''Box''"
| "provider_debug Smb = ''Smb''"
| "provider_debug Sftp = ''Sftp''"

fun sync_error_text :: "sync_error \<Rightarrow> msg" where
  "sync_error_text (UnsupportedEngineError _) = fl ''onedrive-legacy-engine-retired''"
| "sync_error_text InvalidMode = fl ''ui-sync-connection-is-not-an-offline-mirror''"
| "sync_error_text (UnsupportedProvider p) =
     Fl ''ui-sync-unsupported-provider-provider'' [(''provider'', Lit (provider_debug p))]"
| "sync_error_text InvalidRemoteReference = fl ''ui-sync-invalid-remote-reference''"
| "sync_error_text InvalidRemoteSubpath = fl ''ui-sync-invalid-remote-subpath''"
| "sync_error_text InvalidOneDriveIdentity = fl ''onedrive-wrong-drive''"
| "sync_error_text InvalidSharePointIdentity = fl ''ui-sync-invalid-sharepoint-library-identity''"
| "sync_error_text InvalidWorkDirectory = fl ''ui-sync-invalid-work-directory''"
| "sync_error_text InvalidRecoveryDirectory = fl ''ui-sync-invalid-recovery-directory''"
| "sync_error_text InitialPreviewRequired = fl ''ui-sync-initial-synchronization-requires-a-preview''"
| "sync_error_text ExplicitConfirmationRequired = fl ''ui-sync-synchronization-requires-explicit-confirmation''"
| "sync_error_text ResyncPreviewRequired = fl ''ui-sync-state-rebuild-or-resync-requires-preview-and''"
| "sync_error_text MeteredNetworkPaused =
     fl ''ui-sync-automatic-synchronization-is-paused-on-metered-networks''"
| "sync_error_text ConcurrentRun = fl ''ui-sync-a-synchronization-is-already-running''"
| "sync_error_text (OverlapsOnedriverPath p) =
     Fl ''ui-sync-onedrive-mirror-overlaps-active-onedriver-path-value1'' [(''value1'', Lit p)]"
| "sync_error_text (SyncCommand e) = command_error_text e"

definition remote_name_char :: "char \<Rightarrow> bool" where
  "remote_name_char c = (is_ascii_alphanumeric c \<or> c \<in> {CHR ''_'', CHR ''-'', CHR ''.'', CHR '' ''})"

definition validate_remote_name :: "string \<Rightarrow> sync_error + unit" where
  "validate_remote_name v =
     (if v \<noteq> [] \<and> list_all remote_name_char v then Inr () else Inl InvalidRemoteReference)"

definition has_parent_dir :: "path \<Rightarrow> bool" where
  "has_parent_dir p = (ParentDir \<in> set (components p))"

definition validate_remote_subpath :: "string \<Rightarrow> sync_error + unit" where
  "validate_remote_subpath v =
     (if trim v \<noteq> [] \<and> \<not> is_absolute v \<and> CHR 0x5C \<notin> set v \<and> \<not> has_control_char v
         \<and> \<not> has_parent_dir v
      then Inr () else Inl InvalidRemoteSubpath)"

definition rclone_remote_path :: "string \<Rightarrow> string option \<Rightarrow> sync_error + string" where
  "rclone_remote_path reference subpath =
     bind_res (validate_remote_name reference) (\<lambda>_.
       case subpath of
         Some s \<Rightarrow> bind_res (validate_remote_subpath s) (\<lambda>_. Inr (reference @ '':'' @ s))
       | None \<Rightarrow> Inr (reference @ '':''))"

definition RECOVERY_NAME :: string where
  "RECOVERY_NAME = ''.cosmic-mounter-recovery''"

definition rclone_remote_recovery_path ::
  "provider \<Rightarrow> string \<Rightarrow> string option \<Rightarrow> connection_id \<Rightarrow> sync_error + string" where
  "rclone_remote_recovery_path prov reference subpath cid =
     bind_res (validate_remote_name reference) (\<lambda>_.
       let recovery_name = RECOVERY_NAME @ ''/'' @ conn_uuid cid in
       case subpath of
         None \<Rightarrow> rclone_remote_path reference (Some recovery_name)
       | Some s \<Rightarrow>
           if prov \<in> {Teams, OneDrive}
           then bind_res (validate_remote_subpath s) (\<lambda>_.
                  rclone_remote_path reference (Some (s @ ''/'' @ recovery_name)))
           else if prov \<noteq> Smb then rclone_remote_path reference (Some recovery_name)
           else bind_res (validate_remote_subpath s) (\<lambda>_.
                  let comps = filter (\<lambda>x. x \<noteq> []) (split_char (CHR ''/'') s);
                      comps' = (if 1 < length comps then butlast comps else comps)
                  in rclone_remote_path reference
                       (Some (if comps' = [] then recovery_name
                              else join ''/'' comps' @ ''/'' @ recovery_name))))"

section \<open>providers.rs\<close>

datatype provider_name_error = PInvalidRemoteReference | PInvalidRemoteSubpath

definition provider_validate_remote_name :: "string \<Rightarrow> provider_name_error + unit" where
  "provider_validate_remote_name v =
     (if v \<noteq> [] \<and> list_all remote_name_char v then Inr () else Inl PInvalidRemoteReference)"

definition provider_validate_remote_subpath :: "string \<Rightarrow> bool \<Rightarrow> provider_name_error + unit" where
  "provider_validate_remote_subpath v allow_absolute =
     (if trim v \<noteq> [] \<and> (allow_absolute \<or> \<not> is_absolute v) \<and> CHR 0x5C \<notin> set v
         \<and> \<not> has_control_char v \<and> \<not> has_parent_dir v
      then Inr () else Inl PInvalidRemoteSubpath)"

definition provider_rclone_remote_path ::
  "string \<Rightarrow> string option \<Rightarrow> bool \<Rightarrow> provider_name_error + string" where
  "provider_rclone_remote_path reference subpath allow_absolute =
     bind_res (provider_validate_remote_name reference) (\<lambda>_.
       case subpath of
         Some s \<Rightarrow> bind_res (provider_validate_remote_subpath s allow_absolute)
                    (\<lambda>_. Inr (reference @ '':'' @ s))
       | None \<Rightarrow> Inr (reference @ '':''))"

definition sftp_remote_path :: "string \<Rightarrow> string option \<Rightarrow> provider_name_error + string" where
  "sftp_remote_path reference subpath = provider_rclone_remote_path reference subpath True"

section \<open>onedrive.rs\<close>

text \<open>
  The errors of \<open>onedrive.rs\<close>, with their \<open>Display\<close>.  A failed rclone step carries only whether
  the executable was missing, which is all that its message depends on.
\<close>

datatype onedrive_error =
    OdInvalidInput | OdCommandFailed | OdRcloneFailed bool | OdIncompleteOutput | OdInvalidMetadata
  | OdInvalidConfigResponse | OdWrongAccount | OdWrongDrive | OdUnsupportedItem | OdCustomClient
  | OdExistingRemote | OdCleanupRequired | OdUnsupportedQuestion | OdCancelled | OdGraphFailed
  | OdGraphHttp nat | OdAccountProfileUnauthorized nat | OdIo | OdOwnership | OdInvalidState
  | OdVerificationFailed

fun onedrive_error_text :: "onedrive_error \<Rightarrow> msg" where
  "onedrive_error_text OdInvalidInput = fl ''onedrive-invalid-setup''"
| "onedrive_error_text OdUnsupportedItem = fl ''onedrive-unsupported-item''"
| "onedrive_error_text OdWrongAccount = fl ''onedrive-wrong-account''"
| "onedrive_error_text OdWrongDrive = fl ''onedrive-wrong-drive''"
| "onedrive_error_text OdCustomClient = fl ''onedrive-unsupported-config''"
| "onedrive_error_text OdExistingRemote = fl ''microsoft-oauth-remote-exists''"
| "onedrive_error_text OdCleanupRequired = fl ''microsoft-oauth-cleanup-required''"
| "onedrive_error_text OdCancelled = fl ''microsoft-oauth-cancelled''"
| "onedrive_error_text (OdAccountProfileUnauthorized _) = fl ''onedrive-profile-required''"
| "onedrive_error_text (OdGraphHttp code) =
     Fl ''onedrive-graph-http'' [(''code'', Lit (show_nat code))]"
| "onedrive_error_text OdGraphFailed = fl ''onedrive-graph-failed''"
| "onedrive_error_text OdInvalidMetadata = fl ''onedrive-invalid-metadata''"
| "onedrive_error_text OdIncompleteOutput = fl ''onedrive-invalid-metadata''"
| "onedrive_error_text OdInvalidConfigResponse = fl ''onedrive-invalid-metadata''"
| "onedrive_error_text OdUnsupportedQuestion = fl ''microsoft-oauth-invalid-response''"
| "onedrive_error_text OdInvalidState = fl ''onedrive-binding-changed''"
| "onedrive_error_text OdOwnership = fl ''onedrive-anchor-invalid''"
| "onedrive_error_text (OdRcloneFailed missing) =
     (if missing then Fl ''onedrive-rclone-missing'' [(''minimum'', Lit ''1.74.3'')]
      else fl ''onedrive-command-failed'')"
| "onedrive_error_text OdIo = fl ''onedrive-command-failed''"
| "onedrive_error_text OdVerificationFailed = fl ''onedrive-command-failed''"
| "onedrive_error_text OdCommandFailed = fl ''onedrive-command-failed''"

definition onedrive_validate_remote :: "string \<Rightarrow> onedrive_error + unit" where
  "onedrive_validate_remote name =
     (if name = [] \<or> 96 < length name
         \<or> \<not> list_all (\<lambda>c. is_ascii_alphanumeric c \<or> c \<in> {CHR ''_'', CHR ''.'', CHR ''-''}) name
      then Inl OdInvalidInput else Inr ())"

definition onedrive_validate_subpath :: "string \<Rightarrow> onedrive_error + unit" where
  "onedrive_validate_subpath p =
     bind_res (map_err (\<lambda>_. OdInvalidInput) (validate_remote_subpath p)) (\<lambda>_.
       if (\<exists>part \<in> set (split_char (CHR ''/'') p). part = [] \<or> part = ''.'' \<or> part = ''..'')
          \<or> 2048 < length p
       then Inl OdInvalidInput else Inr ())"

record onedrive_binding =
  ob_connection_id :: connection_id
  ob_remote_name :: string
  ob_remote_subpath :: "string option"
  ob_local_path :: path
  ob_recovery_directory :: path
  ob_identity :: onedrive_identity

definition onedrive_binding_from :: "connection \<Rightarrow> onedrive_error + onedrive_binding" where
  "onedrive_binding_from c =
     (case conn_mode c of
        OnlineMount _ \<Rightarrow> Inl OdInvalidState
      | OfflineMirror opts \<Rightarrow>
          if conn_provider c \<noteq> OneDrive \<or> conn_offline_engine c \<noteq> Some Rclone
          then Inl OdInvalidState
          else bind_res (onedrive_validate_remote (remote_reference c)) (\<lambda>_.
            bind_res (case remote_subpath c of Some p \<Rightarrow> onedrive_validate_subpath p | None \<Rightarrow> Inr ())
              (\<lambda>_.
            bind_res (ok_or OdWrongDrive
                (case conn_onedrive_identity c of
                   Some i \<Rightarrow> if onedrive_identity_valid i then Some i else None
                 | None \<Rightarrow> None)) (\<lambda>i.
            Inr \<lparr>ob_connection_id = conn_id c, ob_remote_name = remote_reference c,
                 ob_remote_subpath = remote_subpath c, ob_local_path = local_path c,
                 ob_recovery_directory = recovery_directory opts, ob_identity = i\<rparr>))))"

definition onedrive_matches_saved :: "onedrive_binding \<Rightarrow> connection \<Rightarrow> onedrive_error + unit" where
  "onedrive_matches_saved b c =
     (if \<not> conn_enabled c then Inl OdInvalidState
      else bind_res (onedrive_binding_from c) (\<lambda>b'.
        if b' \<noteq> b then Inl OdInvalidState else Inr ()))"

section \<open>Facts\<close>

lemma validate_remote_name_Inr [simp]:
  "validate_remote_name v = Inr u \<longleftrightarrow> v \<noteq> [] \<and> list_all remote_name_char v"
  by (cases u) (simp add: validate_remote_name_def)

lemma remote_name_no_colon:
  "validate_remote_name v = Inr () \<Longrightarrow> CHR '':'' \<notin> set v \<and> CHR ''/'' \<notin> set v"
  by (auto simp: list_all_iff remote_name_char_def is_ascii_alphanumeric_def)

lemma validate_remote_subpath_Inr [simp]:
  "validate_remote_subpath v = Inr u \<longleftrightarrow>
     trim v \<noteq> [] \<and> \<not> is_absolute v \<and> CHR 0x5C \<notin> set v \<and> \<not> has_control_char v \<and> \<not> has_parent_dir v"
  by (cases u) (simp add: validate_remote_subpath_def)

lemma rclone_remote_path_Inr:
  "rclone_remote_path reference subpath = Inr r \<longleftrightarrow>
     validate_remote_name reference = Inr ()
     \<and> (\<forall>s. subpath = Some s \<longrightarrow> validate_remote_subpath s = Inr ())
     \<and> r = reference @ '':'' @ (case subpath of None \<Rightarrow> [] | Some s \<Rightarrow> s)"
  by (auto simp: rclone_remote_path_def bind_res_Inr split: option.splits)

lemma onedrive_binding_from_Inr:
  "onedrive_binding_from c = Inr b \<Longrightarrow>
     is_rclone_onedrive c \<and> ob_connection_id b = conn_id c \<and> ob_local_path b = local_path c
     \<and> (\<exists>i. conn_onedrive_identity c = Some i \<and> onedrive_identity_valid i \<and> ob_identity b = i)"
  by (auto simp: onedrive_binding_from_def is_rclone_onedrive_def bind_res_Inr
      split: connection_mode.splits if_splits option.splits)

end
