(* ===== verification/Sharepoint.thy ===== *)
theory Sharepoint
  imports Remote_Names
begin

text \<open>
  \<open>src/src/sharepoint.rs\<close>: library URLs, and the bindings that the service guards compare with the
  saved connection.  The crates \<open>url\<close>, \<open>percent_encoding\<close>, \<open>uuid\<close> and \<open>serde_json\<close> are not part of
  the sources: what the code calls of them is the record \<open>url_lib\<close> and the two codecs that
  \<open>parse_arguments\<close> uses, arguments of the definitions.
\<close>

section \<open>Library URLs\<close>

record 'u url_lib =
  url_parse :: "string \<Rightarrow> 'u option"
  url_scheme :: "'u \<Rightarrow> string"
  url_host_str :: "'u \<Rightarrow> string option"
  url_username :: "'u \<Rightarrow> string"
  url_password :: "'u \<Rightarrow> string option"
  url_port :: "'u \<Rightarrow> nat option"
  url_path_segments :: "'u \<Rightarrow> string list option"
  url_push_segments :: "'u \<Rightarrow> string list \<Rightarrow> 'u option"
  url_as_str :: "'u \<Rightarrow> string"
  percent_decode_utf8 :: "string \<Rightarrow> string option"

text \<open>Every percent sign is followed by two hexadecimal digits.\<close>

fun percent_ok :: "string \<Rightarrow> bool" where
  "percent_ok [] = True"
| "percent_ok (c # s) =
     ((c = CHR ''%'' \<longrightarrow>
         (case s of a # b # _ \<Rightarrow> is_ascii_hexdigit a \<and> is_ascii_hexdigit b | _ \<Rightarrow> False))
      \<and> percent_ok s)"

definition decoded_segment :: "'u url_lib \<Rightarrow> string \<Rightarrow> string res" where
  "decoded_segment U segment =
     (if \<not> percent_ok segment then Inl (fl ''ui-teams-sharepoint-url-has-invalid-percent-encoding'')
      else bind_res
        (ok_or (fl ''ui-teams-sharepoint-url-has-invalid-percent-encoding'')
           (percent_decode_utf8 U segment)) (\<lambda>d.
        if d = [] \<or> d = ''.'' \<or> d = ''..'' \<or> CHR ''/'' \<in> set d \<or> CHR 0x5C \<in> set d \<or> CHR 0x00 \<in> set d
        then Inl (fl ''ui-teams-sharepoint-url-contains-an-unsafe-path-segment'')
        else Inr d))"

definition drop_last_empty :: "string list \<Rightarrow> string list" where
  "drop_last_empty ss = (if ss \<noteq> [] \<and> last ss = [] then butlast ss else ss)"

definition sharepoint_host :: "string \<Rightarrow> bool" where
  "sharepoint_host h = (suffix ''.sharepoint.com'' h \<or> h = ''sharepoint.com'')"

definition parse_library_url :: "'u url_lib \<Rightarrow> string \<Rightarrow> sharepoint_identity res" where
  "parse_library_url U input =
     bind_res (ok_or (fl ''ui-teams-enter-a-sharepoint-library-url'') (url_parse U (trim input)))
       (\<lambda>url.
     bind_res (ok_or (fl ''ui-teams-sharepoint-url-needs-a-hostname'') (url_host_str U url)) (\<lambda>host.
     if url_scheme U url \<noteq> ''https'' \<or> \<not> sharepoint_host host \<or> url_username U url \<noteq> []
        \<or> url_password U url \<noteq> None \<or> url_port U url \<noteq> None
     then Inl (fl ''ui-teams-use-an-https-sharepoint-library-url-without'')
     else
     bind_res (ok_or (fl ''ui-teams-sharepoint-url-needs-a-site-and-library'')
         (url_path_segments U url)) (\<lambda>raw.
     bind_res (collect_res (map (decoded_segment U) (drop_last_empty raw))) (\<lambda>segments.
     if length segments \<noteq> 3 \<or> ascii_lowercase (segments ! 0) \<notin> {''sites'', ''teams''}
     then Inl (fl ''ui-teams-enter-a-library-url-under-sites-site'')
     else
     bind_res (ok_or (fl ''ui-teams-sharepoint-url-has-an-invalid-host'')
         (url_parse U (''https://'' @ host))) (\<lambda>base.
     bind_res (ok_or (fl ''ui-teams-sharepoint-url-has-an-invalid-path'')
         (url_push_segments U base (take 2 segments))) (\<lambda>site.
     bind_res (ok_or (fl ''ui-teams-sharepoint-url-has-an-invalid-path'')
         (url_push_segments U site [segments ! 2])) (\<lambda>library.
     Inr \<lparr>site_url = trim_end_char (CHR ''/'') (url_as_str U site),
          library_url = trim_end_char (CHR ''/'') (url_as_str U library),
          sp_drive_id = []\<rparr>)))))))"

definition same_library_url :: "'u url_lib \<Rightarrow> string \<Rightarrow> string \<Rightarrow> bool" where
  "same_library_url U l r =
     (case parse_library_url U l of
        Inl _ \<Rightarrow> False
      | Inr a \<Rightarrow>
          (case parse_library_url U r of
             Inl _ \<Rightarrow> False
           | Inr b \<Rightarrow> ascii_lowercase (library_url a) = ascii_lowercase (library_url b)))"

section \<open>The mount guard's binding\<close>

record service_guard_binding =
  sg_connection_id :: connection_id
  sg_remote_name :: string
  sg_remote_subpath :: "string option"
  sg_mountpoint :: path
  sg_drive_id :: string
  sg_library_url :: string

definition identity_matches_url :: "'u url_lib \<Rightarrow> sharepoint_identity \<Rightarrow> bool" where
  "identity_matches_url U i =
     (trim (sp_drive_id i) \<noteq> []
      \<and> (case parse_library_url U (library_url i) of
           Inl _ \<Rightarrow> False | Inr parsed \<Rightarrow> site_url parsed = site_url i))"

definition service_binding_from :: "'u url_lib \<Rightarrow> connection \<Rightarrow> service_guard_binding res" where
  "service_binding_from U c =
     (if conn_provider c \<noteq> Teams \<or> \<not> is_online c
      then Inl (fl ''ui-teams-the-service-guard-requires-a-sharepoint-online'')
      else bind_res
        (ok_or (fl ''ui-teams-the-sharepoint-connection-has-no-verified-library'') (teams_identity c))
        (\<lambda>i.
        if \<not> identity_matches_url U i
        then Inl (fl ''ui-teams-the-sharepoint-connection-has-an-invalid-verified'')
        else Inr \<lparr>sg_connection_id = conn_id c, sg_remote_name = remote_reference c,
                  sg_remote_subpath = remote_subpath c, sg_mountpoint = local_path c,
                  sg_drive_id = sp_drive_id i, sg_library_url = library_url i\<rparr>))"

record json_codec =
  json_opt_string :: "string option \<Rightarrow> string"
  json_opt_string_parse :: "string \<Rightarrow> string option option"

definition SERVICE_GUARD_FLAG :: string where "SERVICE_GUARD_FLAG = ''--verify-teams-mount''"
definition MIRROR_GUARD_FLAG :: string where "MIRROR_GUARD_FLAG = ''--verify-teams-mirror''"

definition service_binding_arguments :: "json_codec \<Rightarrow> service_guard_binding \<Rightarrow> string list" where
  "service_binding_arguments J b =
     [SERVICE_GUARD_FLAG, conn_uuid (sg_connection_id b), sg_remote_name b,
      json_opt_string J (sg_remote_subpath b), sg_mountpoint b, sg_drive_id b, sg_library_url b]"

definition service_binding_parse ::
  "json_codec \<Rightarrow> (string \<Rightarrow> uuid option) \<Rightarrow> string list \<Rightarrow> service_guard_binding res" where
  "service_binding_parse J parse_uuid args =
     (case args of
        [cid, name, encoded, mountpoint, drive, url] \<Rightarrow>
          bind_res (ok_or (Lit ''The SharePoint service guard received an invalid connection ID.'')
            (parse_uuid cid)) (\<lambda>u.
          if name = [] \<or> mountpoint = [] \<or> drive = []
          then Inl (fl ''ui-teams-the-sharepoint-service-guard-received-incomplete-identity'')
          else bind_res
            (ok_or (Lit ''The SharePoint service guard received an invalid remote folder.'')
              (json_opt_string_parse J encoded)) (\<lambda>subpath.
            Inr \<lparr>sg_connection_id = ConnectionId u, sg_remote_name = name,
                 sg_remote_subpath = subpath, sg_mountpoint = mountpoint, sg_drive_id = drive,
                 sg_library_url = url\<rparr>))
      | _ \<Rightarrow> Inl (fl ''ui-teams-the-sharepoint-service-guard-received-invalid-arguments''))"

definition service_matches_saved ::
  "'u url_lib \<Rightarrow> service_guard_binding \<Rightarrow> connection \<Rightarrow> unit res" where
  "service_matches_saved U b c =
     (if \<not> conn_enabled c
      then Inl (fl ''ui-teams-the-sharepoint-connection-changed-or-was-disabled'')
      else bind_res (service_binding_from U c) (\<lambda>b'.
        if b' \<noteq> b then Inl (fl ''ui-teams-the-sharepoint-connection-changed-or-was-disabled'')
        else Inr ()))"

section \<open>The mirror guard's binding\<close>

record mirror_guard_binding =
  mg_connection_id :: connection_id
  mg_remote_name :: string
  mg_remote_subpath :: string
  mg_local_path :: path
  mg_recovery_directory :: path
  mg_drive_id :: string
  mg_site_url :: string
  mg_library_url :: string

definition mirror_binding_from :: "'u url_lib \<Rightarrow> connection \<Rightarrow> mirror_guard_binding res" where
  "mirror_binding_from U c =
     (case conn_mode c of
        OnlineMount _ \<Rightarrow> Inl (fl ''ui-teams-the-sharepoint-mirror-guard-requires-an-offline'')
      | OfflineMirror opts \<Rightarrow>
          if conn_provider c \<noteq> Teams
          then Inl (fl ''ui-teams-the-sharepoint-mirror-guard-requires-a-sharepoint'')
          else
          bind_res (map_err sync_error_text (validate_remote_name (remote_reference c))) (\<lambda>_.
          bind_res
            (case remote_subpath c of
               None \<Rightarrow> Inr ()
             | Some s \<Rightarrow>
                 bind_res (map_err sync_error_text (validate_remote_subpath s)) (\<lambda>_.
                   if \<exists>p \<in> set (split_char (CHR ''/'') s). p = [] \<or> p = ''.'' \<or> p = ''..''
                   then Inl (fl ''ui-teams-select-a-folder-within-the-sharepoint-library'')
                   else Inr ())) (\<lambda>_.
          bind_res
            (ok_or (fl ''ui-teams-the-sharepoint-connection-has-no-verified-library'')
               (teams_identity c)) (\<lambda>i.
          if trim (sp_drive_id i) = []
             \<or> (case parse_library_url U (library_url i) of
                  Inl _ \<Rightarrow> True
                | Inr parsed \<Rightarrow>
                    site_url parsed \<noteq> site_url i \<or> library_url parsed \<noteq> library_url i)
          then Inl (fl ''ui-teams-the-sharepoint-connection-has-an-invalid-verified'')
          else Inr \<lparr>mg_connection_id = conn_id c, mg_remote_name = remote_reference c,
                    mg_remote_subpath = (case remote_subpath c of None \<Rightarrow> [] | Some s \<Rightarrow> s),
                    mg_local_path = local_path c, mg_recovery_directory = recovery_directory opts,
                    mg_drive_id = sp_drive_id i, mg_site_url = site_url i,
                    mg_library_url = library_url i\<rparr>))))"

definition mirror_matches_saved ::
  "'u url_lib \<Rightarrow> mirror_guard_binding \<Rightarrow> connection \<Rightarrow> unit res" where
  "mirror_matches_saved U b c =
     (if \<not> conn_enabled c then Inl (fl ''ui-teams-the-sharepoint-mirror-target-changed-or-was'')
      else bind_res (mirror_binding_from U c) (\<lambda>b'.
        if b' \<noteq> b then Inl (fl ''ui-teams-the-sharepoint-mirror-target-changed-or-was'')
        else Inr ()))"

section \<open>Read failures\<close>

text \<open>\<open>rclone_read_error\<close>: the message of a failed read-only check, without the engine's output.\<close>

definition any_of :: "string list \<Rightarrow> string \<Rightarrow> bool" where
  "any_of pats s = list_ex (\<lambda>p. str_contains p s) pats"

fun rclone_read_error :: "command_error \<Rightarrow> bool \<Rightarrow> msg" where
  "rclone_read_error (MissingExecutable _) folder = fl ''ui-teams-rclone-is-missing-install-it-before-testing''"
| "rclone_read_error InvalidArgument folder = fl ''ui-teams-sharepoint-remote-or-folder-contains-an-invalid''"
| "rclone_read_error (Timeout _) folder = fl ''ui-teams-the-sharepoint-read-only-access-check-timed''"
| "rclone_read_error Cancelled folder = fl ''ui-teams-the-sharepoint-access-check-was-cancelled''"
| "rclone_read_error (Spawn _) folder = fl ''ui-teams-could-not-start-rclone-for-the-sharepoint''"
| "rclone_read_error (NonZero _ stdout stderr _) folder =
     (let detail = ascii_lowercase (if trim (co_text stderr) = [] then co_text stdout else co_text stderr)
      in if any_of [''aadsts65001'', ''consent_required'', ''admin consent'', ''consent is required''] detail
         then fl ''ui-teams-microsoft-tenant-consent-is-required-for-this''
         else if any_of [''invalid_grant'', ''token expired'', ''expired token'',
                         ''couldn'' @ [CHR 0x27] @ ''t fetch token'', ''unauthorized'', ''401''] detail
         then fl ''ui-teams-sharepoint-rclone-authorization-expired-or-was-revoked''
         else if any_of [''429'', ''503'', ''too many requests'', ''throttl'', ''server too busy''] detail
         then fl ''ui-teams-sharepoint-is-limiting-requests-wait-before-retrying''
         else if any_of [''403'', ''accessdenied'', ''access denied'', ''forbidden'', ''permission denied''] detail
         then fl ''ui-teams-the-signed-in-account-cannot-read-this''
         else if any_of [''404'', ''itemnotfound'', ''directory not found'', ''object not found'', ''not found''] detail
         then if folder then fl ''ui-teams-the-selected-sharepoint-folder-was-not-found''
              else fl ''ui-teams-the-sharepoint-library-is-unavailable-to-this''
         else if any_of [''network'', ''connection'', ''timeout'', ''no route'', ''dns''] detail
         then fl ''ui-teams-could-not-reach-sharepoint-check-network-or''
         else fl ''ui-teams-the-sharepoint-read-only-access-check-failed'')"

section \<open>Facts\<close>

lemma decoded_segment_Inr:
  "decoded_segment U s = Inr d \<Longrightarrow>
     d \<noteq> [] \<and> d \<noteq> ''.'' \<and> d \<noteq> ''..'' \<and> CHR ''/'' \<notin> set d \<and> CHR 0x5C \<notin> set d"
  by (auto simp: decoded_segment_def bind_res_Inr split: if_splits)

lemma mirror_binding_from_Inr:
  assumes "mirror_binding_from U c = Inr b"
  shows "conn_provider c = Teams" "\<not> is_online c" "mg_connection_id b = conn_id c"
    "mg_local_path b = local_path c" "mg_remote_name b = remote_reference c"
    "validate_remote_name (remote_reference c) = Inr ()"
    "\<exists>i. teams_identity c = Some i \<and> trim (sp_drive_id i) \<noteq> [] \<and> mg_drive_id b = sp_drive_id i"
  using assms
  by (cases "conn_mode c"; clarsimp simp: mirror_binding_from_def is_online_def bind_res_Inr
      split: if_split_asm)+

lemma service_binding_from_Inr:
  assumes "service_binding_from U c = Inr b"
  shows "conn_provider c = Teams" "is_online c" "sg_connection_id b = conn_id c"
    "sg_mountpoint b = local_path c" "sg_remote_name b = remote_reference c"
    "\<exists>i. teams_identity c = Some i \<and> identity_matches_url U i \<and> sg_drive_id b = sp_drive_id i"
  using assms by (auto simp: service_binding_from_def bind_res_Inr split: if_splits)

end
