(* ===== verification/Units.thy ===== *)
theory Units
  imports Model Process
begin

text \<open>
  Unit names and the specifications of services and timers (\<open>src/src/services.rs\<close>), and the command
  a generated unit runs (\<open>src/src/mount_guard.rs\<close>, \<open>src/src/vpn.rs\<close>, \<open>src/src/bisync_worker.rs\<close>).
\<close>

datatype unit_kind = ServiceUnit | TimerUnit

primrec unit_extension :: "unit_kind \<Rightarrow> string" where
  "unit_extension ServiceUnit = ''service''"
| "unit_extension TimerUnit = ''timer''"

record unit_name =
  un_connection_id :: connection_id
  un_kind :: unit_kind

definition file_name :: "unit_name \<Rightarrow> string" where
  "file_name u = ''cosmic-mounter-'' @ conn_uuid (un_connection_id u) @ ''.'' @ unit_extension (un_kind u)"

record service_command =
  sc_executable :: path
  sc_arguments :: "string list"

record service_spec =
  ss_connection_id :: connection_id
  ss_description :: msg
  ss_executable :: path
  ss_arguments :: "string list"
  ss_pre_start_condition :: "service_command option"
  ss_restart_on_failure :: bool
  ss_skip_on_metered :: bool

record timer_spec =
  ts_connection_id :: connection_id
  ts_description :: msg
  ts_interval :: duration
  ts_persistent :: bool

section \<open>The command of a unit\<close>

datatype execution_mode = Native | FlatpakSpawnHost

text \<open>What \<open>detect_current\<close> and \<open>current_exe\<close> answer.\<close>

record exec_env =
  xe_mode :: execution_mode
  xe_current_exe :: "path option"

definition APP_ID :: string where
  "APP_ID = ''io.github.uutzinger.cosmic-ext-applet-mounter''"

definition service_command_for_mode :: "execution_mode \<Rightarrow> path \<Rightarrow> string list \<Rightarrow> service_command" where
  "service_command_for_mode mode native_executable arguments =
     (case mode of
        Native \<Rightarrow> \<lparr>sc_executable = native_executable, sc_arguments = arguments\<rparr>
      | FlatpakSpawnHost \<Rightarrow>
          \<lparr>sc_executable = ''/usr/bin/flatpak'',
           sc_arguments = [''run'', ''--command=cosmic-ext-applet-mounter'', APP_ID] @ arguments\<rparr>)"

definition guard_service_command :: "exec_env \<Rightarrow> string list \<Rightarrow> service_command res" where
  "guard_service_command X arguments =
     (case xe_mode X of
        Native \<Rightarrow>
          bind_res (ok_or (fl ''mount-guard-missing-executable'') (xe_current_exe X)) (\<lambda>exe.
            Inr (service_command_for_mode Native exe arguments))
      | FlatpakSpawnHost \<Rightarrow> Inr (service_command_for_mode FlatpakSpawnHost [] arguments))"

definition OFFLINE_READINESS_GUARD_FLAG :: string where
  "OFFLINE_READINESS_GUARD_FLAG = ''--require-offline-readiness''"

definition offline_readiness_guard_command :: "exec_env \<Rightarrow> connection_id \<Rightarrow> service_command res" where
  "offline_readiness_guard_command X cid =
     guard_service_command X [OFFLINE_READINESS_GUARD_FLAG, conn_uuid cid]"

definition ONLINE_GUARD_FLAG :: string where "ONLINE_GUARD_FLAG = ''--verify-online-mountpoint''"

definition online_guard_command :: "exec_env \<Rightarrow> connection \<Rightarrow> service_command res" where
  "online_guard_command X c =
     (if \<not> is_online c then Inl (fl ''mount-guard-online-only'')
      else guard_service_command X [ONLINE_GUARD_FLAG, conn_uuid (conn_id c), local_path c])"

lemma guard_service_command_args:
  "guard_service_command X args = Inr cmd \<Longrightarrow> suffix args (sc_arguments cmd)"
  by (auto simp: guard_service_command_def service_command_for_mode_def bind_res_Inr suffix_def
      split: execution_mode.splits)

text \<open>Units of different connections, and the two units of one, have different file names.\<close>

lemma file_name_inj:
  assumes "uuid_text (conn_uuid (un_connection_id u))" and "uuid_text (conn_uuid (un_connection_id v))"
    and "file_name u = file_name v"
  shows "u = v"
proof -
  have "length (conn_uuid (un_connection_id u)) = length (conn_uuid (un_connection_id v))"
    using assms(1,2) by (simp add: uuid_text_def)
  with assms(3) have "conn_uuid (un_connection_id u) = conn_uuid (un_connection_id v)"
    and "unit_extension (un_kind u) = unit_extension (un_kind v)"
    by (auto simp: file_name_def)
  then have "un_connection_id u = un_connection_id v" "un_kind u = un_kind v"
    by (simp_all add: connection_id.expand) (cases "un_kind u"; cases "un_kind v"; simp)
  then show ?thesis by (cases u; cases v) simp
qed

end
