(* ===== verification/Sync.thy ===== *)
theory Sync
  imports Sharepoint Units
begin

text \<open>
  \<open>src/src/sync.rs\<close>: the plan of an rclone bisync mirror, the decision to start a synchronization,
  recovery records, filter files and the summary of a preview.  \<open>Sha256\<close>, the JSON encoding of a
  binding and the \<open>url\<close> crate are the record \<open>plan_lib\<close>.
\<close>

section \<open>Planning\<close>

record 'u plan_lib =
  pl_url :: "'u url_lib"
  pl_exec :: exec_env
  pl_sha256_hex :: "string \<Rightarrow> string"
  pl_encode_teams :: "mirror_guard_binding \<Rightarrow> string option"
  pl_encode_onedrive :: "onedrive_binding \<Rightarrow> string option"

record bisync_plan =
  bp_connection_id :: connection_id
  path1_remote :: string
  path2_local :: path
  work_directory :: path
  bp_recovery_directory :: path
  remote_recovery_path :: string
  filters_file :: path
  preflight_command :: "service_command option"
  verify_after_sync :: bool
  access_marker_name :: "string option"
  bp_service :: service_spec
  bp_timer :: timer_spec

definition BISYNC_MAX_DELETE_PERCENT :: nat where "BISYNC_MAX_DELETE_PERCENT = 50"
definition DEFAULT_RCLONE :: path where "DEFAULT_RCLONE = ''/usr/bin/rclone''"

definition paths_overlap :: "path \<Rightarrow> path \<Rightarrow> bool" where
  "paths_overlap a b = (path_eq a b \<or> path_starts_with a b \<or> path_starts_with b a)"

definition offline_options :: "connection \<Rightarrow> sync_error + offline_mirror_config" where
  "offline_options c =
     (case conn_mode c of OfflineMirror opts \<Rightarrow> Inr opts | OnlineMount _ \<Rightarrow> Inl InvalidMode)"

definition validate_directory_roots :: "path \<Rightarrow> path \<Rightarrow> path \<Rightarrow> sync_error + unit" where
  "validate_directory_roots mirror work_root recovery =
     (if \<not> is_absolute work_root \<or> paths_overlap mirror work_root then Inl InvalidWorkDirectory
      else if \<not> is_absolute recovery \<or> paths_overlap mirror recovery \<or> paths_overlap work_root recovery
      then Inl InvalidRecoveryDirectory
      else Inr ())"

definition teams_identity_error :: "'u plan_lib \<Rightarrow> connection \<Rightarrow> sync_error + unit" where
  "teams_identity_error L c =
     (if conn_provider c \<noteq> Teams then Inr ()
      else bind_res (ok_or InvalidSharePointIdentity (teams_identity c)) (\<lambda>i.
        if trim (sp_drive_id i) = []
           \<or> (case parse_library_url (pl_url L) (library_url i) of
                Inl _ \<Rightarrow> True | Inr parsed \<Rightarrow> site_url parsed \<noteq> site_url i)
        then Inl InvalidSharePointIdentity else Inr ()))"

definition plan_remote :: "connection \<Rightarrow> sync_error + string" where
  "plan_remote c =
     (if conn_provider c = Sftp
      then map_err (\<lambda>_. InvalidRemoteSubpath) (sftp_remote_path (remote_reference c) (remote_subpath c))
      else rclone_remote_path (remote_reference c) (remote_subpath c))"

text \<open>
  The engine's work directory.  A SharePoint or rclone OneDrive mirror adds a directory named by the
  hash of its binding, so that a changed target never meets the old baseline.
\<close>

definition plan_work_directory :: "'u plan_lib \<Rightarrow> connection \<Rightarrow> path \<Rightarrow> sync_error + path" where
  "plan_work_directory L c work_root =
     (let base = path_join (path_join work_root ''rclone-bisync'') (conn_uuid (conn_id c))
      in bind_res
        (if conn_provider c = Teams then
           bind_res (map_err (\<lambda>_. InvalidSharePointIdentity) (mirror_binding_from (pl_url L) c)) (\<lambda>b.
           bind_res (ok_or InvalidSharePointIdentity (pl_encode_teams L b)) (\<lambda>e.
           Inr (path_join base (''target-'' @ pl_sha256_hex L e))))
         else Inr base) (\<lambda>w.
        if is_rclone_onedrive c then
          bind_res (map_err (\<lambda>_. InvalidOneDriveIdentity) (onedrive_binding_from c)) (\<lambda>b.
          bind_res (ok_or InvalidOneDriveIdentity (pl_encode_onedrive L b)) (\<lambda>e.
          Inr (path_join w (''target-'' @ pl_sha256_hex L e))))
        else Inr w))"

definition plan_arguments ::
  "connection \<Rightarrow> string \<Rightarrow> path \<Rightarrow> string \<Rightarrow> path \<Rightarrow> path \<Rightarrow> string list" where
  "plan_arguments c remote workdir remote_recovery recovery filters =
     [''bisync'', remote, local_path c, ''--workdir'', workdir,
      ''--backup-dir1'', remote_recovery, ''--backup-dir2'', recovery,
      ''--resilient'', ''--recover'', ''--max-lock'', ''2m'',
      ''--conflict-resolve'', ''none'', ''--conflict-loser'', ''pathname'',
      ''--conflict-suffix'', ''conflict'', ''--create-empty-src-dirs'',
      ''--compare'', (if conn_provider c = Teams then ''modtime,checksum'' else ''size,modtime''),
      ''--max-delete'', show_nat BISYNC_MAX_DELETE_PERCENT]
     @ (if conn_provider c = Teams
        then [''--modify-window'', ''1s'', ''--ignore-size'', ''--ignore-checksum'', ''--check-sync'', ''false'']
        else [])
     @ [''--filters-file'', filters, ''--log-level'', ''INFO'']"

definition mirror_guard_command :: "'u plan_lib \<Rightarrow> connection \<Rightarrow> service_command res" where
  "mirror_guard_command L c =
     bind_res (mirror_binding_from (pl_url L) c) (\<lambda>b.
     bind_res (ok_or (fl ''ui-teams-could-not-encode-the-sharepoint-mirror-identity'')
         (pl_encode_teams L b)) (\<lambda>e.
     guard_service_command (pl_exec L) [MIRROR_GUARD_FLAG, e]))"

definition ONEDRIVE_MIRROR_GUARD_FLAG :: string where
  "ONEDRIVE_MIRROR_GUARD_FLAG = ''--verify-onedrive-mirror''"

definition onedrive_mirror_guard_command :: "'u plan_lib \<Rightarrow> connection \<Rightarrow> service_command res" where
  "onedrive_mirror_guard_command L c =
     bind_res (map_err onedrive_error_text (onedrive_binding_from c)) (\<lambda>b.
     bind_res (ok_or (onedrive_error_text OdInvalidState) (pl_encode_onedrive L b)) (\<lambda>e.
     guard_service_command (pl_exec L) [ONEDRIVE_MIRROR_GUARD_FLAG, e]))"

definition plan_preflight :: "'u plan_lib \<Rightarrow> connection \<Rightarrow> sync_error + service_command option" where
  "plan_preflight L c =
     (if conn_provider c = Teams
      then bind_res (map_err (\<lambda>_. InvalidSharePointIdentity) (mirror_guard_command L c)) (\<lambda>x. Inr (Some x))
      else if is_rclone_onedrive c
      then bind_res (map_err (\<lambda>_. InvalidOneDriveIdentity) (onedrive_mirror_guard_command L c))
             (\<lambda>x. Inr (Some x))
      else Inr None)"

definition plan_marker_name :: "connection \<Rightarrow> string option" where
  "plan_marker_name c =
     (case conn_provider c of
        Teams \<Rightarrow> Some (''.cloud-mounter-sharepoint-anchor-'' @ conn_uuid (conn_id c))
      | OneDrive \<Rightarrow> Some (''.cloud-mounter-onedrive-anchor-'' @ conn_uuid (conn_id c))
      | _ \<Rightarrow> None)"

definition rclone_bisync_plan_inner :: "'u plan_lib \<Rightarrow> connection \<Rightarrow> path \<Rightarrow> sync_error + bisync_plan" where
  "rclone_bisync_plan_inner L c work_root =
     bind_res (offline_options c) (\<lambda>opts.
     bind_res (teams_identity_error L c) (\<lambda>_.
     bind_res (validate_directory_roots (local_path c) work_root (recovery_directory opts)) (\<lambda>_.
     bind_res (plan_remote c) (\<lambda>remote.
     bind_res (plan_work_directory L c work_root) (\<lambda>workdir.
     bind_res (rclone_remote_recovery_path (conn_provider c) (remote_reference c) (remote_subpath c)
         (conn_id c)) (\<lambda>remote_recovery.
     let filters = path_join workdir ''filters.txt'';
         arguments = plan_arguments c remote workdir remote_recovery (recovery_directory opts) filters
     in
     bind_res (plan_preflight L c) (\<lambda>preflight.
     bind_res (map_err (\<lambda>_. InvalidRemoteReference)
         (offline_readiness_guard_command (pl_exec L) (conn_id c))) (\<lambda>readiness.
     Inr \<lparr>bp_connection_id = conn_id c, path1_remote = remote, path2_local = local_path c,
          work_directory = workdir, bp_recovery_directory = recovery_directory opts,
          remote_recovery_path = remote_recovery, filters_file = filters,
          preflight_command = preflight, verify_after_sync = (conn_provider c = Teams),
          access_marker_name = plan_marker_name c,
          bp_service = \<lparr>ss_connection_id = conn_id c,
            ss_description = Fl ''ui-sync-cloud-mounter-sync-value1'' [(''value1'', Lit (conn_name c))],
            ss_executable = DEFAULT_RCLONE, ss_arguments = arguments,
            ss_pre_start_condition = Some readiness, ss_restart_on_failure = False,
            ss_skip_on_metered = (\<not> sync_on_metered opts)\<rparr>,
          bp_timer = \<lparr>ts_connection_id = conn_id c,
            ts_description =
              Fl ''ui-sync-cloud-mounter-sync-schedule-value1'' [(''value1'', Lit (conn_name c))],
            ts_interval = from_secs (unat (sync_interval_minutes opts) * 60),
            ts_persistent = True\<rparr>\<rparr>))))))))"

definition rclone_bisync_plan :: "'u plan_lib \<Rightarrow> connection \<Rightarrow> path \<Rightarrow> sync_error + bisync_plan" where
  "rclone_bisync_plan L c work_root =
     bind_res (map_err UnsupportedEngineError (ensure_supported_engine c)) (\<lambda>_.
     bind_res
       (if is_rclone_onedrive c
        then bind_res (map_err (\<lambda>_. InvalidOneDriveIdentity) (onedrive_binding_from c)) (\<lambda>_. Inr ())
        else if conn_provider c \<in> {Teams, GoogleDrive, Box, Smb, Sftp} then Inr ()
        else Inl (UnsupportedProvider (conn_provider c))) (\<lambda>_.
     rclone_bisync_plan_inner L c work_root))"

section \<open>Starting a synchronization\<close>

datatype sync_trigger = Initial | Manual | ConnectivityRestored | ScheduledTrigger | ResyncOrStateRebuild

record sync_readiness =
  network_ready :: bool
  vpn_ready :: bool

record sync_request =
  sr_trigger :: sync_trigger
  preview_completed :: bool
  user_confirmed :: bool
  metered_network :: bool
  sr_running :: bool
  readiness :: sync_readiness

datatype sync_rejection =
  RejectConcurrentRun | PreviewRequired | ConfirmationRequired | RejectResyncPreviewRequired

datatype sync_decision = Run | PauseMetered | WaitForNetwork | WaitForVpn | Reject sync_rejection

definition sync_now_request :: "sync_request \<Rightarrow> offline_mirror_config \<Rightarrow> sync_error + sync_decision" where
  "sync_now_request r opts =
     Inr (if sr_running r then Reject RejectConcurrentRun
          else if \<not> network_ready (readiness r) then WaitForNetwork
          else if \<not> vpn_ready (readiness r) then WaitForVpn
          else if metered_network r \<and> \<not> sync_on_metered opts \<and> sr_trigger r \<noteq> Manual then PauseMetered
          else case sr_trigger r of
              Initial \<Rightarrow>
                if \<not> preview_completed r then Reject PreviewRequired
                else if \<not> user_confirmed r then Reject ConfirmationRequired
                else Run
            | ResyncOrStateRebuild \<Rightarrow>
                if \<not> preview_completed r \<or> \<not> user_confirmed r then Reject RejectResyncPreviewRequired
                else Run
            | _ \<Rightarrow> Run)"

definition sync_offline_status ::
  "bool \<Rightarrow> sync_request \<Rightarrow> conflict_record list \<Rightarrow> offline_mirror_status" where
  "sync_offline_status paused r conflicts =
     (if conflicts \<noteq> [] then Conflict
      else if paused then Paused
      else if sr_running r then Syncing
      else if \<not> network_ready (readiness r) then Offline
      else if \<not> vpn_ready (readiness r) then OfflineWaitingForVpn
      else if metered_network r then MeteredPaused
      else Idle)"

section \<open>Recovery records\<close>

text \<open>Unix seconds are \<open>i64\<close>: signed 64-bit words, with signed comparison.\<close>

definition RETENTION_SECONDS :: "64 word" where "RETENTION_SECONDS = 30 * 24 * 60 * 60"

text \<open>\<open>now + RETENTION_SECONDS\<close>: \<^const>\<open>None\<close> is the overflow, a panic of a checked build.\<close>

definition checked_add_i64 :: "64 word \<Rightarrow> 64 word \<Rightarrow> 64 word option" where
  "checked_add_i64 a b =
     (if - (2 ^ 63) \<le> sint a + sint b \<and> sint a + sint b < 2 ^ 63 then Some (a + b) else None)"

definition new_recovery_record ::
  "connection_id \<Rightarrow> path \<Rightarrow> path \<Rightarrow> recovery_reason \<Rightarrow> 64 word \<Rightarrow> recovery_record option" where
  "new_recovery_record cid orig recovery reason now_seconds =
     map_option (\<lambda>t. \<lparr>rr_connection_id = cid, rr_original_relative_path = orig,
                      rr_recovery_path = recovery, rr_reason = reason,
                      rr_retained_until_unix_seconds = t\<rparr>)
       (checked_add_i64 now_seconds RETENTION_SECONDS)"

definition expired_recovery_records ::
  "recovery_record list \<Rightarrow> 64 word \<Rightarrow> bool \<Rightarrow> recovery_record list" where
  "expired_recovery_records records now_seconds sync_running =
     (if sync_running then []
      else filter (\<lambda>r. sint (rr_retained_until_unix_seconds r) \<le> sint now_seconds) records)"

section \<open>Filter files\<close>

definition nl :: string where "nl = [CHR 0x0A]"

definition google_native_filter_file :: string where
  "google_native_filter_file =
     join nl
       [''# Cloud Mounter: Google cloud-native documents stay browser-accessible.'',
        ''- **.gdoc'', ''- **.gsheet'', ''- **.gslides'', ''- **.gdraw'', ''- **.gform'',
        ''- **.gmap'', ''- **.gsite'', ''+ **''] @ nl"

definition RECOVERY_EXCLUDE :: string where
  "RECOVERY_EXCLUDE = ''- /.cosmic-mounter-recovery/''"

fun rclone_bisync_filter_file :: "provider \<Rightarrow> string" where
  "rclone_bisync_filter_file GoogleDrive = google_native_filter_file"
| "rclone_bisync_filter_file OneDrive =
     ''# OneDrive recovery stays outside the synchronized set.'' @ nl @ RECOVERY_EXCLUDE @ nl
       @ ''- **.one'' @ nl @ ''- **.onepkg'' @ nl @ ''- **.lnk'' @ nl @ ''- **.url'' @ nl @ ''+ **'' @ nl"
| "rclone_bisync_filter_file Teams =
     ''# Keep SharePoint recovery outside the synchronized set.'' @ nl @ RECOVERY_EXCLUDE @ nl
       @ ''+ **'' @ nl"
| "rclone_bisync_filter_file _ = ''+ **'' @ nl"

definition root_subpath :: "string option \<Rightarrow> bool" where
  "root_subpath sub = (case sub of None \<Rightarrow> True | Some p \<Rightarrow> list_all (\<lambda>c. c = CurDir) (components p))"

definition rclone_bisync_filter_file_for_connection :: "connection \<Rightarrow> string" where
  "rclone_bisync_filter_file_for_connection c =
     (let filters = rclone_bisync_filter_file (conn_provider c)
      in if root_subpath (remote_subpath c) \<and> conn_provider c \<in> {Box, GoogleDrive}
         then RECOVERY_EXCLUDE @ nl @ filters
         else filters)"

section \<open>Facts\<close>

lemma paths_overlap_sym: "paths_overlap a b = paths_overlap b a"
  by (auto simp: paths_overlap_def path_eq_def)

lemma rclone_bisync_plan_Inr:
  assumes "rclone_bisync_plan L c work_root = Inr plan"
  obtains opts remote workdir recovery preflight ready where
    "conn_mode c = OfflineMirror opts"
    "conn_offline_engine c = Some Rclone"
    "validate_directory_roots (local_path c) work_root (recovery_directory opts) = Inr ()"
    "plan_remote c = Inr remote" "plan_work_directory L c work_root = Inr workdir"
    "rclone_remote_recovery_path (conn_provider c) (remote_reference c) (remote_subpath c) (conn_id c)
       = Inr recovery"
    "plan_preflight L c = Inr preflight"
    "bp_connection_id plan = conn_id c" "path1_remote plan = remote" "path2_local plan = local_path c"
    "work_directory plan = workdir" "bp_recovery_directory plan = recovery_directory opts"
    "remote_recovery_path plan = recovery" "filters_file plan = path_join workdir ''filters.txt''"
    "preflight_command plan = preflight" "verify_after_sync plan = (conn_provider c = Teams)"
    "access_marker_name plan = plan_marker_name c"
    "ss_arguments (bp_service plan) =
       plan_arguments c remote workdir recovery (recovery_directory opts) (path_join workdir ''filters.txt'')"
    "ts_interval (bp_timer plan) = from_secs (unat (sync_interval_minutes opts) * 60)"
    "ss_pre_start_condition (bp_service plan) = Some ready"
    "offline_readiness_guard_command (pl_exec L) (conn_id c) = Inr ready"
proof -
  from assms have eng: "conn_offline_engine c \<noteq> Some LegacyOnedrive"
    and inner: "rclone_bisync_plan_inner L c work_root = Inr plan"
    by (auto simp: rclone_bisync_plan_def bind_res_Inr ensure_supported_engine_Inr)
  from inner obtain opts where m: "conn_mode c = OfflineMirror opts"
    by (auto simp: rclone_bisync_plan_inner_def bind_res_Inr offline_options_def
        split: connection_mode.splits)
  with eng have "conn_offline_engine c = Some Rclone"
    by (auto simp: conn_offline_engine_def split: option.splits if_splits)
       (metis offline_engine.exhaust)
  with m inner show thesis
    by (auto simp: rclone_bisync_plan_inner_def bind_res_Inr offline_options_def Let_def intro!: that)
qed

section \<open>Properties\<close>

lemma valid_part_hex: "list_all is_lower_hex h \<Longrightarrow> valid_part (''target-'' @ h)"
  by (auto simp: valid_part_def list_all_iff is_lower_hex_def)

lemma plan_work_directory_under:
  assumes "plan_work_directory L c work_root = Inr workdir" and "is_absolute work_root"
    and "uuid_text (conn_uuid (conn_id c))" and "\<forall>e. list_all is_lower_hex (pl_sha256_hex L e)"
  shows "is_absolute workdir" "path_starts_with workdir work_root"
proof -
  let ?base = "path_join (path_join work_root ''rclone-bisync'') (conn_uuid (conn_id c))"
  have v: "valid_part ''rclone-bisync''" "valid_part (conn_uuid (conn_id c))"
    "valid_part (''target-'' @ pl_sha256_hex L e)" for e
    using uuid_text_valid_part [OF assms(3)] valid_part_hex assms(4) by (auto simp: valid_part_def)
  from assms(1) have w: "workdir \<in> {?base} \<union> {path_join ?base (''target-'' @ pl_sha256_hex L e) | e. True}
      \<union> {path_join (path_join ?base (''target-'' @ pl_sha256_hex L e)) (''target-'' @ pl_sha256_hex L e') | e e'. True}"
    by (auto simp: plan_work_directory_def bind_res_Inr Let_def split: if_splits)
  then show "is_absolute workdir" using assms(2) by auto
  from w show "path_starts_with workdir work_root"
    using assms(2) v by (auto simp: path_starts_with_def components_join)
qed

lemma not_overlap_below:
  assumes "\<not> paths_overlap a b" and "path_starts_with b' b"
  shows "\<not> paths_overlap a b'"
proof
  assume "paths_overlap a b'"
  then consider "path_starts_with a b'" | "path_starts_with b' a"
    by (auto simp: paths_overlap_def path_eq_def path_starts_with_def)
  then have "path_starts_with a b \<or> path_starts_with b a"
  proof cases
    case 1
    then show ?thesis using path_starts_with_trans assms(2) by blast
  next
    case 2
    then show ?thesis using assms(2) prefix_same_cases by (auto simp: path_starts_with_def)
  qed
  with assms(1) show False by (auto simp: paths_overlap_def)
qed

text \<open>
  In every plan that is accepted, the mirrored directory, the engine's work directory and the
  recovery directory are absolute where required and pairwise neither equal nor nested, so neither
  the engine's state nor the recovered files are ever inside the mirror that is synchronized.
\<close>
theorem plan_directories_disjoint:
  assumes "rclone_bisync_plan L c work_root = Inr plan"
    and "uuid_text (conn_uuid (conn_id c))" and "\<forall>e. list_all is_lower_hex (pl_sha256_hex L e)"
  shows "is_absolute (work_directory plan) \<and> is_absolute (bp_recovery_directory plan)
    \<and> path_starts_with (work_directory plan) work_root
    \<and> \<not> paths_overlap (path2_local plan) (work_directory plan)
    \<and> \<not> paths_overlap (path2_local plan) (bp_recovery_directory plan)
    \<and> \<not> paths_overlap (work_directory plan) (bp_recovery_directory plan)"
proof -
  from assms(1) show ?thesis
  proof (rule rclone_bisync_plan_Inr, goal_cases)
    case (1 opts remote workdir recovery preflight ready)
    from 1(3) have a: "is_absolute work_root" "is_absolute (recovery_directory opts)"
      and o: "\<not> paths_overlap (local_path c) work_root" "\<not> paths_overlap (local_path c) (recovery_directory opts)"
        "\<not> paths_overlap work_root (recovery_directory opts)"
      by (auto simp: validate_directory_roots_def split: if_splits)
    note under = plan_work_directory_under [OF 1(5) a(1) assms(2,3)]
    from o(3) have "\<not> paths_overlap (recovery_directory opts) work_root" by (simp add: paths_overlap_sym)
    from not_overlap_below [OF this under(2)] have "\<not> paths_overlap workdir (recovery_directory opts)"
      by (simp add: paths_overlap_sym)
    with not_overlap_below [OF o(1) under(2)] under a(2) o(2) 1(10,11,12) show ?case by simp
  qed
qed

definition sample_url_lib :: "string url_lib" where
  "sample_url_lib =
     \<lparr>url_parse = Some, url_scheme = (\<lambda>u. ''https''), url_host_str = (\<lambda>u. Some ''x.sharepoint.com''),
      url_username = (\<lambda>u. []), url_password = (\<lambda>u. None), url_port = (\<lambda>u. None),
      url_path_segments = (\<lambda>u. Some []), url_push_segments = (\<lambda>u s. Some u), url_as_str = (\<lambda>u. u),
      percent_decode_utf8 = Some\<rparr>"

definition sample_plan_lib :: "string plan_lib" where
  "sample_plan_lib =
     \<lparr>pl_url = sample_url_lib, pl_exec = \<lparr>xe_mode = FlatpakSpawnHost, xe_current_exe = None\<rparr>,
      pl_sha256_hex = (\<lambda>s. ''00ff''), pl_encode_teams = (\<lambda>b. Some ''t''), pl_encode_onedrive = (\<lambda>b. Some ''o'')\<rparr>"

definition sample_mirror :: connection where
  "sample_mirror =
     \<lparr>conn_id = ConnectionId ''2a3f5d45-e867-47e7-943f-66cf60e777ad'', conn_name = ''Drive'',
      conn_provider = GoogleDrive,
      conn_mode = OfflineMirror (default_offline_mirror\<lparr>recovery_directory := ''/h/u/rec''\<rparr>),
      remote_reference = ''gdrive'', remote_subpath = Some ''Work'', local_path = ''/h/u/Drive'',
      conn_enabled = True, vpn_profile_id = None, disconnect_vpn_when_unused = False,
      conn_tuning_profile = Balanced, smb_preload_override = None, sftp_preload_override = None,
      teams_identity = None, conn_onedrive_identity = None\<rparr>"

definition sample_plan :: "sync_error + bisync_plan" where
  "sample_plan = rclone_bisync_plan sample_plan_lib sample_mirror ''/h/u/state''"

lemma sample_plan_ok: "\<exists>plan. sample_plan = Inr plan"
proof -
  have "validate_directory_roots (local_path sample_mirror) ''/h/u/state'' ''/h/u/rec'' = Inr ()" by code_simp
  moreover have "plan_remote sample_mirror = Inr ''gdrive:Work''" by code_simp
  moreover have "rclone_remote_recovery_path (conn_provider sample_mirror) (remote_reference sample_mirror)
      (remote_subpath sample_mirror) (conn_id sample_mirror)
    = Inr ''gdrive:.cosmic-mounter-recovery/2a3f5d45-e867-47e7-943f-66cf60e777ad''" by code_simp
  moreover have "conn_provider sample_mirror = GoogleDrive"
    "conn_mode sample_mirror = OfflineMirror (default_offline_mirror\<lparr>recovery_directory := ''/h/u/rec''\<rparr>)"
    by (simp_all add: sample_mirror_def)
  ultimately have "is_ok sample_plan"
    by (simp add: default_offline_mirror_def sample_plan_def rclone_bisync_plan_def rclone_bisync_plan_inner_def offline_options_def
        ensure_supported_engine_def conn_offline_engine_def is_rclone_onedrive_def teams_identity_error_def
        plan_work_directory_def plan_preflight_def offline_readiness_guard_command_def
        guard_service_command_def sample_plan_lib_def Let_def)
  then show ?thesis by (auto simp: is_ok_def split: sum.splits)
qed

lemma plan_directories_disjoint_witness:
  "\<exists>plan. sample_plan = Inr plan \<and> \<not> paths_overlap (path2_local plan) (work_directory plan)
     \<and> \<not> paths_overlap (path2_local plan) (bp_recovery_directory plan)"
proof -
  obtain plan where plan: "sample_plan = Inr plan" using sample_plan_ok by blast
  have u: "uuid_text (conn_uuid (conn_id sample_mirror))" by code_simp
  have h: "\<forall>e. list_all is_lower_hex (pl_sha256_hex sample_plan_lib e)"
    by (simp add: sample_plan_lib_def is_lower_hex_def)
  from plan_directories_disjoint [OF plan [unfolded sample_plan_def] u h] plan show ?thesis by blast
qed

text \<open>
  A synchronization starts exactly when none is running, the network and the VPN are ready, the
  network is not metered (or metered runs are allowed, or the user asked), and an initial run or a
  resync has both a completed preview and the user's confirmation.
\<close>
theorem sync_runs_iff:
  "sync_now_request r opts = Inr Run \<longleftrightarrow>
     \<not> sr_running r \<and> network_ready (readiness r) \<and> vpn_ready (readiness r)
     \<and> (metered_network r \<longrightarrow> sync_on_metered opts \<or> sr_trigger r = Manual)
     \<and> (sr_trigger r \<in> {Initial, ResyncOrStateRebuild} \<longrightarrow> preview_completed r \<and> user_confirmed r)"
  by (cases "sr_trigger r") (auto simp: sync_now_request_def)

lemma sync_runs_iff_witness:
  "sync_now_request
     \<lparr>sr_trigger = Initial, preview_completed = True, user_confirmed = True, metered_network = True,
      sr_running = False, readiness = \<lparr>network_ready = True, vpn_ready = True\<rparr>\<rparr>
     (default_offline_mirror\<lparr>sync_on_metered := True\<rparr>) = Inr Run"
  by (subst sync_runs_iff) simp

end
