(* ===== verification/World.thy ===== *)
theory World
  imports Model Process
begin

text \<open>
  The machine that the coordinator runs on: a file system, the commands it runs, the clock, the
  cancellation token, file locks and random names.  A program takes the environment (what the
  operating system, the engine and other processes answer, by step number) and the world, and
  returns a result and the next world.  Every primitive operation may fail at any step
  (\<open>e_fault\<close>), so a theorem about a program holds for every pattern of I/O errors.

  Parent directories are taken to be free of symbolic links; the last component of a path may be one
  and is followed where the library call follows it.
\<close>

section \<open>Files\<close>

datatype io_kind = NotFound | AlreadyExists | NotADirectory | OtherKind

datatype io_error = IoError (io_kind: io_kind) (io_message: string)

definition io_text :: "io_error \<Rightarrow> msg" where
  "io_text e = Lit (io_message e)"

datatype node = File string | Dir | Symlink path

type_synonym key = "path_comp list"
type_synonym fs = "(key \<times> node) list"

definition fs_get :: "fs \<Rightarrow> key \<Rightarrow> node option" where
  "fs_get f k = (if k = [RootDir] then Some Dir else map_of f k)"

definition fs_del :: "key \<Rightarrow> fs \<Rightarrow> fs" where
  "fs_del k f = filter (\<lambda>e. fst e \<noteq> k) f"

definition fs_put :: "key \<Rightarrow> node \<Rightarrow> fs \<Rightarrow> fs" where
  "fs_put k n f = (k, n) # fs_del k f"

definition fs_del_tree :: "key \<Rightarrow> fs \<Rightarrow> fs" where
  "fs_del_tree k f = filter (\<lambda>e. \<not> prefix k (fst e)) f"

text \<open>The names in a directory, in the order the file system lists them.\<close>

definition child_name :: "key \<Rightarrow> key \<Rightarrow> string option" where
  "child_name k k' =
     (if k' \<noteq> [] \<and> butlast k' = k then (case last k' of Normal s \<Rightarrow> Some s | _ \<Rightarrow> None) else None)"

definition fs_children :: "fs \<Rightarrow> key \<Rightarrow> string list" where
  "fs_children f k = List.map_filter (\<lambda>e. child_name k (fst e)) f"

definition SYMLINK_LIMIT :: nat where "SYMLINK_LIMIT = 40"

fun follow :: "nat \<Rightarrow> fs \<Rightarrow> key \<Rightarrow> node option" where
  "follow 0 f k = None"
| "follow (Suc n) f k =
     (case fs_get f k of
        Some (Symlink t) \<Rightarrow>
          follow n f (if is_absolute t then components t else butlast k @ components t)
      | r \<Rightarrow> r)"

definition fs_stat :: "fs \<Rightarrow> key \<Rightarrow> node option" where
  "fs_stat f k = follow SYMLINK_LIMIT f k"

text \<open>\<open>create_dir_all\<close>: the missing prefixes become directories; a file in the way is an error.\<close>

definition dir_prefixes :: "key \<Rightarrow> key list" where
  "dir_prefixes k = map (\<lambda>n. take n k) [1..<Suc (length k)]"

definition mkdirs :: "key list \<Rightarrow> fs \<Rightarrow> fs" where
  "mkdirs ks f = foldl (\<lambda>g k. if fs_get g k = None then fs_put k Dir g else g) f ks"

definition mkdir_blocked :: "fs \<Rightarrow> key \<Rightarrow> bool" where
  "mkdir_blocked f k =
     (\<exists>p \<in> set (dir_prefixes k). case fs_get f p of
        None \<Rightarrow> False
      | Some Dir \<Rightarrow> False
      | Some (File _) \<Rightarrow> True
      | Some (Symlink _) \<Rightarrow> fs_stat f p \<noteq> Some Dir)"

section \<open>Environment and world\<close>

record env =
  e_fault :: "nat \<Rightarrow> io_error option"
  e_partial :: "nat \<Rightarrow> nat"
  e_cmd :: "nat \<Rightarrow> command_request \<Rightarrow> fs \<Rightarrow> (command_error + command_output) \<times> fs"
  e_cancelled :: "nat \<Rightarrow> bool"
  e_now :: "nat \<Rightarrow> nat \<times> nat"
  e_before_epoch :: "nat \<Rightarrow> bool"
  e_uuid :: "nat \<Rightarrow> uuid"
  e_lock_held :: "nat \<Rightarrow> key \<Rightarrow> bool"
  e_var :: "string \<Rightarrow> string option"

datatype event =
    Ran command_request
  | RemovedTree path
  | Called string "string list"

record world =
  files :: fs
  tick :: nat
  locks :: "key list"
  events :: "event list"

type_synonym ('e, 'a) prog = "env \<Rightarrow> world \<Rightarrow> ('e + 'a) \<times> world"

section \<open>Programs\<close>

definition ret :: "'a \<Rightarrow> ('e, 'a) prog" where
  "ret x = (\<lambda>env w. (Inr x, w))"

definition fail :: "'e \<Rightarrow> ('e, 'a) prog" where
  "fail e = (\<lambda>env w. (Inl e, w))"

definition bindP :: "('e, 'a) prog \<Rightarrow> ('a \<Rightarrow> ('e, 'b) prog) \<Rightarrow> ('e, 'b) prog" where
  "bindP m f = (\<lambda>env w. case m env w of (Inl e, w') \<Rightarrow> (Inl e, w') | (Inr x, w') \<Rightarrow> f x env w')"

definition seqP :: "('e, 'a) prog \<Rightarrow> ('e, 'b) prog \<Rightarrow> ('e, 'b) prog" where
  "seqP m n = bindP m (\<lambda>_. n)"

definition map_errP :: "('e \<Rightarrow> 'f) \<Rightarrow> ('e, 'a) prog \<Rightarrow> ('f, 'a) prog" where
  "map_errP g m = (\<lambda>env w. case m env w of (r, w') \<Rightarrow> (map_err g r, w'))"

text \<open>The result of a program as a value: \<open>match m { Ok(..) => .., Err(..) => .. }\<close>.\<close>

definition tryP :: "('e, 'a) prog \<Rightarrow> ('f, 'e + 'a) prog" where
  "tryP m = (\<lambda>env w. case m env w of (r, w') \<Rightarrow> (Inr r, w'))"

definition liftR :: "'e + 'a \<Rightarrow> ('e, 'a) prog" where
  "liftR r = (\<lambda>env w. (r, w))"

definition whenP :: "bool \<Rightarrow> ('e, unit) prog \<Rightarrow> ('e, unit) prog" where
  "whenP b m = (if b then m else ret ())"

section \<open>Primitive operations\<close>

text \<open>
  One step on the file system.  A fault leaves the files as they are, but for the partial effect
  that the operation may have had.
\<close>

definition fs_step ::
  "(nat \<Rightarrow> fs \<Rightarrow> fs) \<Rightarrow> (fs \<Rightarrow> (io_error + 'a) \<times> fs) \<Rightarrow> (io_error, 'a) prog" where
  "fs_step partial op = (\<lambda>env w.
     case e_fault env (tick w) of
       Some e \<Rightarrow> (Inl e, w\<lparr>files := partial (e_partial env (tick w)) (files w), tick := Suc (tick w)\<rparr>)
     | None \<Rightarrow>
         (case op (files w) of (r, f) \<Rightarrow> (r, w\<lparr>files := f, tick := Suc (tick w)\<rparr>)))"

definition io :: "io_kind \<Rightarrow> string \<Rightarrow> io_error + 'a" where
  "io k m = Inl (IoError k m)"

lemma io_not_Inr [simp]: "io k m \<noteq> Inr x" "Inr x \<noteq> io k m"
  by (simp_all add: io_def)

definition symlink_metadata :: "path \<Rightarrow> (io_error, node) prog" where
  "symlink_metadata p = fs_step (\<lambda>_ f. f) (\<lambda>f.
     (case fs_get f (components p) of None \<Rightarrow> io NotFound p | Some n \<Rightarrow> Inr n, f))"

definition read_to_string :: "path \<Rightarrow> (io_error, string) prog" where
  "read_to_string p = fs_step (\<lambda>_ f. f) (\<lambda>f.
     (case fs_stat f (components p) of
        None \<Rightarrow> io NotFound p | Some (File c) \<Rightarrow> Inr c | Some _ \<Rightarrow> io OtherKind p, f))"

definition read_dir :: "path \<Rightarrow> (io_error, string list) prog" where
  "read_dir p = fs_step (\<lambda>_ f. f) (\<lambda>f.
     (case fs_stat f (components p) of
        None \<Rightarrow> io NotFound p
      | Some Dir \<Rightarrow> Inr (fs_children f (components p))
      | Some _ \<Rightarrow> io NotADirectory p, f))"

text \<open>Reading one directory entry can fail by itself.\<close>

definition next_entry :: "string \<Rightarrow> (io_error, string) prog" where
  "next_entry n = fs_step (\<lambda>_ f. f) (\<lambda>f. (Inr n, f))"

definition create_dir_all :: "path \<Rightarrow> (io_error, unit) prog" where
  "create_dir_all p =
     fs_step (\<lambda>k f. mkdirs (take k (dir_prefixes (components p))) f) (\<lambda>f.
       if mkdir_blocked f (components p) then (io NotADirectory p, f)
       else (Inr (), mkdirs (dir_prefixes (components p)) f))"

definition set_permissions :: "path \<Rightarrow> (io_error, unit) prog" where
  "set_permissions p = fs_step (\<lambda>_ f. f) (\<lambda>f.
     (if fs_get f (components p) = None then io NotFound p else Inr (), f))"

definition parent_ok :: "fs \<Rightarrow> key \<Rightarrow> bool" where
  "parent_ok f k = (fs_stat f (butlast k) = Some Dir)"

definition open_create_new :: "path \<Rightarrow> (io_error, unit) prog" where
  "open_create_new p = fs_step (\<lambda>_ f. f) (\<lambda>f.
     let k = components p
     in if fs_get f k \<noteq> None then (io AlreadyExists p, f)
        else if \<not> parent_ok f k then (io NotFound p, f)
        else (Inr (), fs_put k (File []) f))"

definition open_or_create :: "path \<Rightarrow> (io_error, unit) prog" where
  "open_or_create p = fs_step (\<lambda>_ f. f) (\<lambda>f.
     let k = components p
     in case fs_stat f k of
          Some (File _) \<Rightarrow> (Inr (), f)
        | Some _ \<Rightarrow> (io OtherKind p, f)
        | None \<Rightarrow>
            if fs_get f k \<noteq> None \<or> \<not> parent_ok f k then (io NotFound p, f)
            else (Inr (), fs_put k (File []) f))"

definition write_all :: "path \<Rightarrow> string \<Rightarrow> (io_error, unit) prog" where
  "write_all p c =
     fs_step (\<lambda>k f. fs_put (components p) (File (take k c)) f)
       (\<lambda>f. (Inr (), fs_put (components p) (File c) f))"

definition sync_all :: "path \<Rightarrow> (io_error, unit) prog" where
  "sync_all p = fs_step (\<lambda>_ f. f) (\<lambda>f. (Inr (), f))"

definition log_event :: "event \<Rightarrow> ('e, unit) prog" where
  "log_event ev = (\<lambda>env w. (Inr (), w\<lparr>events := events w @ [ev]\<rparr>))"

definition rename_file :: "path \<Rightarrow> path \<Rightarrow> (io_error, unit) prog" where
  "rename_file a b = fs_step (\<lambda>_ f. f) (\<lambda>f.
     let ka = components a; kb = components b
     in case fs_get f ka of
          None \<Rightarrow> (io NotFound a, f)
        | Some n \<Rightarrow>
            if fs_get f kb = Some Dir then (io OtherKind b, f)
            else if \<not> parent_ok f kb then (io NotFound b, f)
            else (Inr (), fs_put kb n (fs_del ka f)))"

definition remove_file :: "path \<Rightarrow> (io_error, unit) prog" where
  "remove_file p = fs_step (\<lambda>_ f. f) (\<lambda>f.
     (case fs_get f (components p) of
        None \<Rightarrow> (io NotFound p, f)
      | Some Dir \<Rightarrow> (io OtherKind p, f)
      | Some _ \<Rightarrow> (Inr (), fs_del (components p) f)))"

definition remove_dir_all :: "path \<Rightarrow> (io_error, unit) prog" where
  "remove_dir_all p =
     seqP (log_event (RemovedTree p))
       (fs_step
         (\<lambda>k f. filter (\<lambda>e. \<not> (prefix (components p) (fst e) \<and> components p \<noteq> fst e
                               \<and> fst e \<in> fst ` set (take k f))) f)
         (\<lambda>f.
           case fs_get f (components p) of
             None \<Rightarrow> (io NotFound p, f)
           | Some Dir \<Rightarrow> (Inr (), fs_del_tree (components p) f)
           | Some (Symlink _) \<Rightarrow> (Inr (), fs_del (components p) f)
           | Some (File _) \<Rightarrow> (io NotADirectory p, f)))"

text \<open>\<open>Path::is_file\<close> and \<open>Path::exists\<close> answer false on an error.\<close>

definition path_is_file :: "path \<Rightarrow> ('e, bool) prog" where
  "path_is_file p = (\<lambda>env w.
     (Inr (e_fault env (tick w) = None
           \<and> (case fs_stat (files w) (components p) of Some (File _) \<Rightarrow> True | _ \<Rightarrow> False)),
      w\<lparr>tick := Suc (tick w)\<rparr>))"

definition path_exists :: "path \<Rightarrow> ('e, bool) prog" where
  "path_exists p = (\<lambda>env w.
     (Inr (e_fault env (tick w) = None \<and> fs_stat (files w) (components p) \<noteq> None),
      w\<lparr>tick := Suc (tick w)\<rparr>))"

text \<open>\<open>CommandRunner::run\<close>: the engine may change the files.\<close>

definition run_cmd :: "command_request \<Rightarrow> (command_error, command_output) prog" where
  "run_cmd r = (\<lambda>env w.
     case e_cmd env (tick w) r (files w) of
       (res, f) \<Rightarrow> (res, w\<lparr>files := f, tick := Suc (tick w), events := events w @ [Ran r]\<rparr>))"

definition is_cancelled :: "('e, bool) prog" where
  "is_cancelled = (\<lambda>env w. (Inr (e_cancelled env (tick w)), w\<lparr>tick := Suc (tick w)\<rparr>))"

text \<open>\<open>SystemTime::now\<close>: seconds and nanoseconds since the epoch, an error before it.\<close>

definition now :: "(unit, nat \<times> nat) prog" where
  "now = (\<lambda>env w.
     (if e_before_epoch env (tick w) then Inl () else Inr (e_now env (tick w)),
      w\<lparr>tick := Suc (tick w)\<rparr>))"

definition new_uuid :: "('e, uuid) prog" where
  "new_uuid = (\<lambda>env w. (Inr (e_uuid env (tick w)), w\<lparr>tick := Suc (tick w)\<rparr>))"

text \<open>\<open>flock(LOCK_EX | LOCK_NB)\<close>: refused while this or another process holds the lock.\<close>

definition try_flock :: "path \<Rightarrow> ('e, bool) prog" where
  "try_flock p = (\<lambda>env w.
     let k = components p
     in if k \<in> set (locks w) \<or> e_lock_held env (tick w) k
        then (Inr False, w\<lparr>tick := Suc (tick w)\<rparr>)
        else (Inr True, w\<lparr>tick := Suc (tick w), locks := k # locks w\<rparr>))"

definition unlock :: "path \<Rightarrow> ('e, unit) prog" where
  "unlock p = (\<lambda>env w. (Inr (), w\<lparr>locks := removeAll (components p) (locks w)\<rparr>))"

section \<open>Inversion of successful and failed runs\<close>

lemma prog_simps [simp]:
  "ret x env w = (Inr x, w)" "fail e env w = (Inl e, w)" "liftR r env w = (r, w)"
  "whenP True m = m" "whenP False m = ret ()"
  by (simp_all add: ret_def fail_def liftR_def whenP_def)

lemma bindP_Inr:
  "bindP m f env w = (Inr y, w'') \<longleftrightarrow> (\<exists>x w'. m env w = (Inr x, w') \<and> f x env w' = (Inr y, w''))"
  by (auto simp: bindP_def split: prod.split sum.split)

lemma bindP_Inl:
  "bindP m f env w = (Inl e, w'') \<longleftrightarrow>
     m env w = (Inl e, w'') \<or> (\<exists>x w'. m env w = (Inr x, w') \<and> f x env w' = (Inl e, w''))"
  by (auto simp: bindP_def split: prod.split sum.split)

lemma seqP_Inr:
  "seqP m n env w = (Inr y, w'') \<longleftrightarrow> (\<exists>x w'. m env w = (Inr x, w') \<and> n env w' = (Inr y, w''))"
  by (simp add: seqP_def bindP_Inr)

lemma seqP_Inl:
  "seqP m n env w = (Inl e, w'') \<longleftrightarrow>
     m env w = (Inl e, w'') \<or> (\<exists>x w'. m env w = (Inr x, w') \<and> n env w' = (Inl e, w''))"
  by (simp add: seqP_def bindP_Inl)

lemma map_errP_Inr [simp]: "map_errP g m env w = (Inr y, w') \<longleftrightarrow> m env w = (Inr y, w')"
  by (auto simp: map_errP_def split: prod.split)

lemma map_errP_Inl: "map_errP g m env w = (Inl e, w') \<longleftrightarrow> (\<exists>e0. m env w = (Inl e0, w') \<and> e = g e0)"
  by (auto simp: map_errP_def map_err_def split: prod.split sum.split)

lemma tryP_Inr [simp]: "tryP m env w = (Inr r, w') \<longleftrightarrow> m env w = (r, w')"
  by (auto simp: tryP_def split: prod.split)

lemma tryP_not_Inl [simp]: "tryP m env w \<noteq> (Inl e, w')"
  by (auto simp: tryP_def split: prod.split)

lemmas run_simps = bindP_Inr seqP_Inr

section \<open>Triples\<close>

text \<open>
  \<open>hoare env P m Q E\<close>: from a world with \<open>P\<close>, a success ends in \<open>Q\<close> and an error in \<open>E\<close>.
  Programs are total functions, so this is total correctness.
\<close>

definition hoare ::
  "env \<Rightarrow> (world \<Rightarrow> bool) \<Rightarrow> ('e, 'a) prog \<Rightarrow> ('a \<Rightarrow> world \<Rightarrow> bool) \<Rightarrow> ('e \<Rightarrow> world \<Rightarrow> bool) \<Rightarrow> bool" where
  "hoare env P m Q E =
     (\<forall>w. P w \<longrightarrow> (case m env w of (Inl e, w') \<Rightarrow> E e w' | (Inr x, w') \<Rightarrow> Q x w'))"

definition preserves :: "env \<Rightarrow> (world \<Rightarrow> bool) \<Rightarrow> ('e, 'a) prog \<Rightarrow> bool" where
  "preserves env I m = (\<forall>w. I w \<longrightarrow> I (snd (m env w)))"

named_theorems preserves_intros \<open>rules that push an invariant through a program\<close>

lemma preserves_hoare: "preserves env I m \<longleftrightarrow> hoare env I m (\<lambda>_. I) (\<lambda>_. I)"
  by (auto simp: preserves_def hoare_def split: prod.splits sum.splits) (metis prod.collapse)

lemma hoare_bind:
  assumes "hoare env P m Q E" and "\<And>x. hoare env (Q x) (f x) R E"
  shows "hoare env P (bindP m f) R E"
  using assms unfolding hoare_def bindP_def
  by (fastforce split: prod.splits sum.splits)

lemma hoare_seq:
  "hoare env P m (\<lambda>_. Q) E \<Longrightarrow> hoare env Q n R E \<Longrightarrow> hoare env P (seqP m n) R E"
  unfolding seqP_def by (rule hoare_bind)

lemma hoare_weaken:
  "hoare env P m Q E \<Longrightarrow> (\<And>w. P' w \<Longrightarrow> P w) \<Longrightarrow> (\<And>x w. Q x w \<Longrightarrow> Q' x w) \<Longrightarrow>
     (\<And>e w. E e w \<Longrightarrow> E' e w) \<Longrightarrow> hoare env P' m Q' E'"
  unfolding hoare_def by (fastforce split: prod.splits sum.splits)

lemma preserves_ret [preserves_intros, simp]: "preserves env I (ret x)"
  by (simp add: preserves_def)

lemma preserves_fail [preserves_intros, simp]: "preserves env I (fail e)"
  by (simp add: preserves_def)

lemma preserves_liftR [preserves_intros, simp]: "preserves env I (liftR r)"
  by (simp add: preserves_def)

lemma preserves_bind [preserves_intros]:
  "preserves env I m \<Longrightarrow> (\<And>x. preserves env I (f x)) \<Longrightarrow> preserves env I (bindP m f)"
  unfolding preserves_hoare by (rule hoare_bind)

lemma preserves_seq [preserves_intros]:
  "preserves env I m \<Longrightarrow> preserves env I n \<Longrightarrow> preserves env I (seqP m n)"
  unfolding seqP_def by (rule preserves_bind)

lemma preserves_map_err [preserves_intros]: "preserves env I m \<Longrightarrow> preserves env I (map_errP g m)"
  by (auto simp: preserves_def map_errP_def split: prod.split)

lemma preserves_try [preserves_intros]: "preserves env I m \<Longrightarrow> preserves env I (tryP m)"
  by (auto simp: preserves_def tryP_def split: prod.split)

lemma preserves_when [preserves_intros]: "(b \<Longrightarrow> preserves env I m) \<Longrightarrow> preserves env I (whenP b m)"
  by (simp add: whenP_def)

lemma preserves_if [preserves_intros]:
  "(b \<Longrightarrow> preserves env I m) \<Longrightarrow> (\<not> b \<Longrightarrow> preserves env I n) \<Longrightarrow> preserves env I (if b then m else n)"
  by simp

lemma preservesD: "preserves env I m \<Longrightarrow> m env w = (r, w') \<Longrightarrow> I w \<Longrightarrow> I w'"
  by (force simp: preserves_def)

section \<open>What the primitives leave alone\<close>

text \<open>Operations on files keep the events and the locks; only commands and deletions of whole directories log.\<close>

definition log_inv :: "(event list \<Rightarrow> key list \<Rightarrow> bool) \<Rightarrow> world \<Rightarrow> bool" where
  "log_inv Q w = Q (events w) (locks w)"

lemma log_inv_fs_step [preserves_intros, simp]: "preserves env (log_inv Q) (fs_step part op)"
  by (auto simp: preserves_def fs_step_def log_inv_def split: option.split prod.split)

lemma log_inv_prims [preserves_intros, simp]:
  "preserves env (log_inv Q) (symlink_metadata p)"
  "preserves env (log_inv Q) (read_to_string p)"
  "preserves env (log_inv Q) (read_dir p)"
  "preserves env (log_inv Q) (next_entry n)"
  "preserves env (log_inv Q) (create_dir_all p)"
  "preserves env (log_inv Q) (set_permissions p)"
  "preserves env (log_inv Q) (open_create_new p)"
  "preserves env (log_inv Q) (open_or_create p)"
  "preserves env (log_inv Q) (write_all p c)"
  "preserves env (log_inv Q) (sync_all p)"
  "preserves env (log_inv Q) (rename_file p p')"
  "preserves env (log_inv Q) (remove_file p)"
  by (simp_all add: symlink_metadata_def read_to_string_def read_dir_def next_entry_def
      create_dir_all_def set_permissions_def open_create_new_def open_or_create_def write_all_def
      sync_all_def rename_file_def remove_file_def)

lemma log_inv_queries [preserves_intros, simp]:
  "preserves env (log_inv Q) (path_is_file p)"
  "preserves env (log_inv Q) (path_exists p)"
  "preserves env (log_inv Q) is_cancelled"
  "preserves env (log_inv Q) now"
  "preserves env (log_inv Q) new_uuid"
  by (simp_all add: preserves_def log_inv_def path_is_file_def path_exists_def is_cancelled_def
      now_def new_uuid_def)

lemma log_inv_run_cmd [preserves_intros]:
  "(\<And>es ls. Q es ls \<Longrightarrow> Q (es @ [Ran r]) ls) \<Longrightarrow> preserves env (log_inv Q) (run_cmd r)"
  by (auto simp: preserves_def log_inv_def run_cmd_def split: prod.split)

lemma log_inv_log_event [preserves_intros]:
  "(\<And>es ls. Q es ls \<Longrightarrow> Q (es @ [ev]) ls) \<Longrightarrow> preserves env (log_inv Q) (log_event ev)"
  by (auto simp: preserves_def log_inv_def log_event_def)

lemma log_inv_remove_dir_all [preserves_intros]:
  "(\<And>es ls. Q es ls \<Longrightarrow> Q (es @ [RemovedTree p]) ls) \<Longrightarrow> preserves env (log_inv Q) (remove_dir_all p)"
  by (auto simp: remove_dir_all_def intro!: preserves_intros)

text \<open>
  Files at other keys keep their contents, and a lookup that does not follow a link at \<open>k\<close> sees only
  the node at \<open>k\<close>.
\<close>

lemma fs_get_put [simp]:
  "k \<noteq> [RootDir] \<Longrightarrow> fs_get (fs_put k n f) k' = (if k' = k then Some n else fs_get f k')"
proof -
  assume k: "k \<noteq> [RootDir]"
  have "map_of (fs_del k f) k' = (if k' = k then None else map_of f k')" for k'
    by (induction f) (auto simp: fs_del_def)
  with k show ?thesis by (simp add: fs_get_def fs_put_def)
qed

lemma fs_get_del [simp]:
  "k \<noteq> [RootDir] \<Longrightarrow> fs_get (fs_del k f) k' = (if k' = k then None else fs_get f k')"
proof -
  assume k: "k \<noteq> [RootDir]"
  have "map_of (fs_del k f) k' = (if k' = k then None else map_of f k')" for k'
    by (induction f) (auto simp: fs_del_def)
  with k show ?thesis by (simp add: fs_get_def)
qed

lemma fs_stat_file:
  "fs_get f k = Some (File c) \<Longrightarrow> fs_stat f k = Some (File c)"
  by (simp add: fs_stat_def SYMLINK_LIMIT_def numeral_eq_Suc)

lemma fs_stat_dir: "fs_get f k = Some Dir \<Longrightarrow> fs_stat f k = Some Dir"
  by (simp add: fs_stat_def SYMLINK_LIMIT_def numeral_eq_Suc)

lemma fs_stat_none: "fs_get f k = None \<Longrightarrow> fs_stat f k = None"
  by (simp add: fs_stat_def SYMLINK_LIMIT_def numeral_eq_Suc)

lemma mkdirs_get:
  "fs_get f k = Some n \<Longrightarrow> fs_get (mkdirs ks f) k = Some n"
  unfolding mkdirs_def
proof (induction ks arbitrary: f)
  case Nil
  then show ?case by simp
next
  case (Cons a ks)
  let ?g = "if fs_get f a = None then fs_put a Dir f else f"
  have "fs_get ?g k = Some n"
  proof (cases "fs_get f a = None")
    case True
    then have "a \<noteq> [RootDir]" "k \<noteq> a" using Cons.prems by (auto simp: fs_get_def)
    with True Cons.prems show ?thesis by simp
  qed (use Cons.prems in auto)
  from Cons.IH [OF this] show ?case by simp
qed

section \<open>A file keeps its node\<close>

definition node_at :: "key \<Rightarrow> node option \<Rightarrow> world \<Rightarrow> bool" where
  "node_at k v w = (fs_get (files w) k = v)"

named_theorems node_intros \<open>rules that keep the node at a key\<close>

lemma fs_get_put_other: "k' \<noteq> k \<Longrightarrow> fs_get (fs_put k n f) k' = fs_get f k'"
proof -
  assume "k' \<noteq> k"
  moreover have "map_of (fs_del k f) k' = (if k' = k then None else map_of f k')"
    by (induction f) (auto simp: fs_del_def)
  ultimately show ?thesis by (simp add: fs_get_def fs_put_def)
qed

lemma fs_get_del_other: "k' \<noteq> k \<Longrightarrow> fs_get (fs_del k f) k' = fs_get f k'"
  by (induction f) (auto simp: fs_get_def fs_del_def)

lemma mkdirs_other: "k \<notin> set ks \<Longrightarrow> fs_get (mkdirs ks f) k = fs_get f k"
proof (induction ks arbitrary: f)
  case Nil
  then show ?case by (simp add: mkdirs_def)
next
  case (Cons a ks)
  then have "fs_get (mkdirs ks g) k = fs_get g k" for g by simp
  with Cons.prems show ?case by (auto simp: mkdirs_def fs_get_put_other)
qed

lemma node_at_fs_step:
  assumes "\<And>j f. fs_get (part j f) k = fs_get f k" and "\<And>f. fs_get (snd (op f)) k = fs_get f k"
  shows "preserves env (node_at k v) (fs_step part op)"
  unfolding preserves_def fs_step_def node_at_def
proof (intro allI impI)
  fix w
  assume v: "fs_get (files w) k = v"
  show "fs_get (files (snd (case e_fault env (tick w) of
      None \<Rightarrow> (case op (files w) of (r, f) \<Rightarrow> (r, w\<lparr>files := f, tick := Suc (tick w)\<rparr>))
    | Some e \<Rightarrow> (Inl e, w\<lparr>files := part (e_partial env (tick w)) (files w),
                     tick := Suc (tick w)\<rparr>)))) k = v"
    using assms(1) assms(2) [of "files w"] v by (auto split: option.split prod.split)
qed

lemma node_at_prims [node_intros]:
  "preserves env (node_at k v) (symlink_metadata p)"
  "preserves env (node_at k v) (read_to_string p)"
  "preserves env (node_at k v) (read_dir p)"
  "preserves env (node_at k v) (next_entry n)"
  "preserves env (node_at k v) (set_permissions p)"
  "preserves env (node_at k v) (sync_all p)"
  "preserves env (node_at k v) (path_is_file p)"
  "preserves env (node_at k v) (path_exists p)"
  "preserves env (node_at k v) is_cancelled"
  "preserves env (node_at k v) now"
  "preserves env (node_at k v) new_uuid"
  "preserves env (node_at k v) (log_event ev)"
  by (auto simp: symlink_metadata_def read_to_string_def read_dir_def next_entry_def
      set_permissions_def sync_all_def intro!: node_at_fs_step)
     (auto simp: preserves_def node_at_def path_is_file_def path_exists_def is_cancelled_def now_def
      new_uuid_def log_event_def)

lemma node_at_create_dir_all [node_intros]:
  assumes "k \<notin> set (dir_prefixes (components p))"
  shows "preserves env (node_at k v) (create_dir_all p)"
  unfolding create_dir_all_def
proof (rule node_at_fs_step)
  fix j f
  have "k \<notin> set (take j (dir_prefixes (components p)))" using assms by (meson in_set_takeD)
  then show "fs_get (mkdirs (take j (dir_prefixes (components p))) f) k = fs_get f k"
    by (rule mkdirs_other)
qed (auto simp: mkdirs_other assms)

lemma node_at_open_create_new [node_intros]:
  "components p \<noteq> k \<Longrightarrow> preserves env (node_at k v) (open_create_new p)"
  unfolding open_create_new_def by (rule node_at_fs_step) (auto simp: Let_def fs_get_put_other)

lemma node_at_write_all [node_intros]:
  "components p \<noteq> k \<Longrightarrow> preserves env (node_at k v) (write_all p c)"
  unfolding write_all_def by (rule node_at_fs_step) (auto simp: fs_get_put_other)

lemma node_at_rename [node_intros]:
  "components p \<noteq> k \<Longrightarrow> components q \<noteq> k \<Longrightarrow> preserves env (node_at k v) (rename_file p q)"
  unfolding rename_file_def
  by (rule node_at_fs_step) (auto simp: Let_def fs_get_put_other fs_get_del_other split: option.split)

lemma node_at_remove_file [node_intros]:
  "components p \<noteq> k \<Longrightarrow> preserves env (node_at k v) (remove_file p)"
  unfolding remove_file_def
  by (rule node_at_fs_step) (auto simp: fs_get_del_other split: option.split node.split)

lemma fs_step_Inr:
  "fs_step part op env w = (Inr x, w') \<longleftrightarrow>
     e_fault env (tick w) = None
     \<and> (\<exists>f. op (files w) = (Inr x, f) \<and> w' = w\<lparr>files := f, tick := Suc (tick w)\<rparr>)"
  by (auto simp: fs_step_def split: option.split prod.split)

lemma rename_file_Inr:
  assumes "rename_file a b env w = (Inr u, w')" and "components b \<noteq> [RootDir]"
  shows "fs_get (files w') (components b) = fs_get (files w) (components a)"
  using assms by (auto simp: rename_file_def fs_step_Inr Let_def split: option.splits if_splits)

lemma write_all_Inr:
  assumes "write_all p c env w = (Inr u, w')" and "components p \<noteq> [RootDir]"
  shows "fs_get (files w') (components p) = Some (File c)"
  using assms by (auto simp: write_all_def fs_step_Inr)

text \<open>A rename that fails left both names alone.\<close>

lemma rename_file_Inl:
  assumes "rename_file a b env w = (Inl e, w')"
  shows "fs_get (files w') k = fs_get (files w) k"
  using assms
  by (auto simp: rename_file_def fs_step_def io_def Let_def split: option.splits prod.splits if_splits)

end
