(* ===== verification/Offline_Coordinator.thy ===== *)
theory Offline_Coordinator
  imports World
begin

text \<open>
  \<open>src/src/offline_coordinator.rs\<close>: the persisted state of an Offline Mirror operation, and the
  control that cancels a manual operation and waits for it.  The JSON codec is \<open>serde_json\<close>, an
  argument.
\<close>

section \<open>State\<close>

definition STATE_VERSION :: u32 where "STATE_VERSION = 1"

datatype offline_operation =
    OpInitialPreview | OpPreview | OpInitialSync | OpSync | OpScheduled | OpResume | OpPause | OpRepair

datatype offline_operation_state = StRunning | StSucceeded | StFailed | StCancelled | StPaused

record coordinator_state =
  cs_version :: u32
  cs_connection_id :: connection_id
  cs_operation :: offline_operation
  cs_state :: offline_operation_state
  cs_updated_unix_seconds :: u64
  cs_warnings :: "msg list"

text \<open>\<open>OfflineCoordinatorState::new\<close>: a clock before the epoch counts as zero.\<close>

definition new_state ::
  "connection_id \<Rightarrow> offline_operation \<Rightarrow> offline_operation_state \<Rightarrow> ('e, coordinator_state) prog" where
  "new_state cid oper st =
     bindP (tryP now) (\<lambda>t.
       ret \<lparr>cs_version = STATE_VERSION, cs_connection_id = cid, cs_operation = oper, cs_state = st,
            cs_updated_unix_seconds = (case t of Inl _ \<Rightarrow> 0 | Inr (s, _) \<Rightarrow> of_nat s),
            cs_warnings = []\<rparr>)"

definition with_warnings :: "msg list \<Rightarrow> coordinator_state \<Rightarrow> coordinator_state" where
  "with_warnings ws s = s\<lparr>cs_warnings := ws\<rparr>"

definition state_path :: "path \<Rightarrow> connection_id \<Rightarrow> path" where
  "state_path work_root cid =
     path_join (path_join (path_join work_root ''offline-coordinator'') (conn_uuid cid)) ''state.json''"

record state_codec =
  encode_state :: "coordinator_state \<Rightarrow> string option"
  encode_error :: "coordinator_state \<Rightarrow> msg"
  decode_state :: "string \<Rightarrow> msg + coordinator_state"

definition read_state :: "state_codec \<Rightarrow> path \<Rightarrow> (msg, coordinator_state option) prog" where
  "read_state J p =
     bindP (tryP (read_to_string p)) (\<lambda>r.
       case r of
         Inl e \<Rightarrow>
           if io_kind e = NotFound then ret None
           else fail (Fl ''ui-offline-coordinator-could-not-read-offline-mirror-state-error''
                        [(''error'', io_text e)])
       | Inr contents \<Rightarrow>
           (case decode_state J contents of
              Inl e \<Rightarrow> fail (Fl ''ui-offline-coordinator-offline-mirror-state-is-invalid-error''
                              [(''error'', e)])
            | Inr s \<Rightarrow>
                if cs_version s \<noteq> STATE_VERSION
                then fail (Fl ''ui-offline-coordinator-offline-mirror-state-version-value1-is-unsupported''
                            [(''value1'', Lit (show_nat (unat (cs_version s))))])
                else ret (Some s)))"

definition parent_of :: "path \<Rightarrow> path" where
  "parent_of p = render_abs (butlast (components p))"

definition staging_state_path :: "path \<Rightarrow> uuid \<Rightarrow> path" where
  "staging_state_path parent u = path_join parent (''.state-'' @ u @ ''.tmp'')"

definition err1 :: "string \<Rightarrow> io_error \<Rightarrow> msg" where
  "err1 k e = Fl k [(''error'', io_text e)]"

text \<open>The closure that stages and publishes the file.\<close>

definition stage_state :: "state_codec \<Rightarrow> path \<Rightarrow> path \<Rightarrow> coordinator_state \<Rightarrow> (msg, unit) prog" where
  "stage_state J staging p s =
     seqP (map_errP (err1 ''ui-offline-coordinator-could-not-stage-offline-mirror-state-error'')
             (open_create_new staging))
    (seqP (map_errP (err1 ''ui-offline-coordinator-could-not-restrict-offline-mirror-state-error'')
             (set_permissions staging))
    (bindP (liftR (ok_or (Fl ''ui-offline-coordinator-could-not-encode-offline-mirror-state-error''
                      [(''error'', encode_error J s)]) (encode_state J s))) (\<lambda>contents.
     seqP (map_errP (err1 ''ui-offline-coordinator-could-not-write-offline-mirror-state-error'')
             (write_all staging contents))
    (seqP (map_errP (err1 ''ui-offline-coordinator-could-not-sync-offline-mirror-state-error'')
             (sync_all staging))
          (map_errP (err1 ''ui-offline-coordinator-could-not-publish-offline-mirror-state-error'')
             (rename_file staging p))))))"

definition write_state :: "state_codec \<Rightarrow> path \<Rightarrow> coordinator_state \<Rightarrow> (msg, unit) prog" where
  "write_state J p s =
     (if \<not> has_parent p
      then fail (fl ''ui-offline-coordinator-offline-mirror-state-path-has-no-parent'')
      else
      seqP (map_errP (err1 ''ui-offline-coordinator-could-not-create-offline-mirror-state-directory'')
              (create_dir_all (parent_of p)))
     (seqP (map_errP (err1 ''ui-offline-coordinator-could-not-restrict-offline-mirror-state-directory'')
              (set_permissions (parent_of p)))
     (bindP new_uuid (\<lambda>u.
        let staging = staging_state_path (parent_of p) u
        in bindP (tryP (stage_state J staging p s)) (\<lambda>r.
             seqP (if is_err r then seqP (tryP (remove_file staging)) (ret ()) else ret ())
                  (liftR r))))))"

section \<open>Cancellation of a manual operation\<close>

text \<open>
  \<open>ManualOperationControl\<close>: one task runs the operation and calls \<open>finish\<close>, another calls
  \<open>cancel_and_wait\<close>.  A step is one atomic access to the shared control.  \<open>notify_waiters\<close> wakes the
  \<open>Notified\<close> futures that exist when it is called, polled or not.
\<close>

datatype waiter_pc = WCancel | WFirstLoad | WNotified | WSecondLoad | WWaiting | WDone bool

datatype finisher_pc = FRunning | FStored | FNotified

record control =
  ct_cancelled :: bool
  ct_completed :: bool
  ct_future :: bool
  ct_woken :: bool
  ct_waiter :: waiter_pc
  ct_finisher :: finisher_pc

definition new_control :: control where
  "new_control =
     \<lparr>ct_cancelled = False, ct_completed = False, ct_future = False, ct_woken = False,
      ct_waiter = WCancel, ct_finisher = FRunning\<rparr>"

inductive control_step :: "control \<Rightarrow> control \<Rightarrow> bool" where
  store_completed: "ct_finisher c = FRunning \<Longrightarrow>
    control_step c (c\<lparr>ct_completed := True, ct_finisher := FStored\<rparr>)"
| notify_waiters: "ct_finisher c = FStored \<Longrightarrow>
    control_step c (c\<lparr>ct_woken := ct_woken c \<or> ct_future c, ct_finisher := FNotified\<rparr>)"
| cancel: "ct_waiter c = WCancel \<Longrightarrow>
    control_step c (c\<lparr>ct_cancelled := True, ct_waiter := WFirstLoad\<rparr>)"
| first_load: "ct_waiter c = WFirstLoad \<Longrightarrow>
    control_step c (c\<lparr>ct_waiter := (if ct_completed c then WDone True else WNotified)\<rparr>)"
| create_future: "ct_waiter c = WNotified \<Longrightarrow>
    control_step c (c\<lparr>ct_future := True, ct_waiter := WSecondLoad\<rparr>)"
| second_load: "ct_waiter c = WSecondLoad \<Longrightarrow>
    control_step c (c\<lparr>ct_waiter := (if ct_completed c then WDone True else WWaiting)\<rparr>)"
| woken: "ct_waiter c = WWaiting \<Longrightarrow> ct_woken c \<Longrightarrow>
    control_step c (c\<lparr>ct_waiter := WDone (ct_completed c)\<rparr>)"
| timed_out: "ct_waiter c = WWaiting \<Longrightarrow>
    control_step c (c\<lparr>ct_waiter := WDone (ct_completed c)\<rparr>)"

inductive control_reach :: "control \<Rightarrow> bool" where
  start: "control_reach new_control"
| step: "control_reach c \<Longrightarrow> control_step c d \<Longrightarrow> control_reach d"

definition control_inv :: "control \<Rightarrow> bool" where
  "control_inv c =
     ((ct_completed c \<longleftrightarrow> ct_finisher c \<noteq> FRunning)
      \<and> (ct_future c \<longleftrightarrow> ct_waiter c \<in> {WSecondLoad, WWaiting} \<or> (\<exists>b. ct_waiter c = WDone b) \<and> ct_future c)
      \<and> (ct_waiter c = WWaiting \<and> ct_finisher c = FNotified \<longrightarrow> ct_woken c)
      \<and> (ct_waiter c = WDone True \<longrightarrow> ct_completed c)
      \<and> (ct_waiter c \<noteq> WCancel \<longrightarrow> ct_cancelled c)
      \<and> (ct_waiter c = WSecondLoad \<and> \<not> ct_completed c \<longrightarrow> ct_finisher c = FRunning))"

lemma control_step_inv: "control_step c d \<Longrightarrow> control_inv c \<Longrightarrow> control_inv d"
  by (induction rule: control_step.induct) (auto simp: control_inv_def)

lemma control_reach_inv: "control_reach c \<Longrightarrow> control_inv c"
proof (induction rule: control_reach.induct)
  case start
  show ?case by (simp add: control_inv_def new_control_def)
next
  case (step c d)
  then show ?case by (blast intro: control_step_inv)
qed

section \<open>Publication is atomic\<close>

lemma parent_components:
  assumes "normal_abs (components p)"
  shows "components (parent_of p) = butlast (components p) \<or> components p = [RootDir]"
proof -
  from assms obtain xs where p: "components p = RootDir # map Normal xs" and v: "list_all valid_part xs"
    by (auto simp: normal_abs_def)
  show ?thesis
  proof (cases xs rule: rev_cases)
    case Nil
    with p show ?thesis by simp
  next
    case (snoc ys y)
    with p have b: "butlast (components p) = RootDir # map Normal ys" by (simp add: butlast_append)
    moreover have "normal_abs (RootDir # map Normal ys)" using v snoc by (auto simp: normal_abs_def)
    ultimately show ?thesis by (simp add: parent_of_def components_render)
  qed
qed

section \<open>Properties of the control\<close>

text \<open>
  C39. No lost wakeup: in every reachable interleaving in which \<open>finish\<close> has stored and notified while
  the canceller waits, the canceller's future is already woken, and its next step returns \<open>true\<close>.
\<close>
theorem cancel_and_wait_no_lost_wakeup:
  assumes "control_reach c" and "ct_waiter c = WWaiting" and "ct_finisher c = FNotified"
  shows "ct_woken c \<and> (\<exists>d. control_step c d) \<and> (\<forall>d. control_step c d \<longrightarrow> ct_waiter d = WDone True)"
proof -
  from control_reach_inv [OF assms(1)] assms(2,3) have w: "ct_woken c" and k: "ct_completed c"
    by (auto simp: control_inv_def)
  have "\<exists>d. control_step c d" using control_step.woken [OF assms(2) w] by blast
  moreover have "ct_waiter d = WDone True" if "control_step c d" for d
    using that assms(2,3) k by (cases rule: control_step.cases) auto
  ultimately show ?thesis using w by blast
qed

text \<open>A run in which the operation finishes after the canceller began to wait.\<close>

definition waiting_control :: control where
  "waiting_control =
     \<lparr>ct_cancelled = True, ct_completed = True, ct_future = True, ct_woken = True,
      ct_waiter = WWaiting, ct_finisher = FNotified\<rparr>"

lemma waiting_control_reach: "control_reach waiting_control"
proof -
  have "control_reach (new_control\<lparr>ct_cancelled := True, ct_waiter := WFirstLoad\<rparr>)" (is "control_reach ?a")
    by (rule control_reach.step [OF control_reach.start]) (rule control_step.cancel, simp add: new_control_def)
  then have "control_reach (?a\<lparr>ct_waiter := WNotified\<rparr>)" (is "control_reach ?b")
    by (rule control_reach.step) (use control_step.first_load [of ?a] in \<open>simp add: new_control_def\<close>)
  then have "control_reach (?b\<lparr>ct_future := True, ct_waiter := WSecondLoad\<rparr>)" (is "control_reach ?c")
    by (rule control_reach.step) (rule control_step.create_future, simp)
  then have "control_reach (?c\<lparr>ct_waiter := WWaiting\<rparr>)" (is "control_reach ?d")
    by (rule control_reach.step) (use control_step.second_load [of ?c] in \<open>simp add: new_control_def\<close>)
  then have "control_reach (?d\<lparr>ct_completed := True, ct_finisher := FStored\<rparr>)" (is "control_reach ?e")
    by (rule control_reach.step) (rule control_step.store_completed, simp add: new_control_def)
  then have "control_reach (?e\<lparr>ct_woken := ct_woken ?e \<or> ct_future ?e, ct_finisher := FNotified\<rparr>)"
    by (rule control_reach.step) (rule control_step.notify_waiters, simp)
  then show ?thesis by (simp add: waiting_control_def new_control_def)
qed

lemma cancel_and_wait_no_lost_wakeup_witness:
  "\<exists>d. control_step waiting_control d \<and> ct_waiter d = WDone True"
  using cancel_and_wait_no_lost_wakeup [OF waiting_control_reach]
  by (auto simp: waiting_control_def)

text \<open>
  \<open>cancel_and_wait\<close> answers \<open>true\<close> only when the operation has called \<open>finish\<close>, and has then
  itself cancelled the token; before \<open>finish\<close> it never claims completion, timed out or not.
\<close>
theorem cancel_and_wait_sound:
  assumes "control_reach c" and "ct_waiter c = WDone True"
  shows "ct_completed c \<and> ct_cancelled c \<and> ct_finisher c \<noteq> FRunning"
  using control_reach_inv [OF assms(1)] assms(2) by (auto simp: control_inv_def)

lemma cancel_and_wait_sound_witness:
  "\<exists>c. control_reach c \<and> ct_waiter c = WDone True \<and> ct_completed c \<and> ct_cancelled c \<and> ct_finisher c \<noteq> FRunning"
proof -
  let ?d = "waiting_control\<lparr>ct_waiter := WDone (ct_completed waiting_control)\<rparr>"
  have r: "control_reach ?d"
    by (rule control_reach.step [OF waiting_control_reach])
       (rule control_step.woken; simp add: waiting_control_def)
  have d: "ct_waiter ?d = WDone True" by (simp add: waiting_control_def)
  show ?thesis using cancel_and_wait_sound [OF r d] r d by blast
qed

end
