(* ===== verification/Atomic_Files.thy ===== *)
theory Atomic_Files
  imports Offline_Coordinator
begin

text \<open>
  Files published by writing a private staging file and renaming it: \<open>write_atomic\<close>,
  \<open>write_private\<close> and \<open>remove_if_exists\<close> of \<open>src/src/bisync_coordinator.rs\<close>, the interface
  \<open>atomic_store\<close> that such a writer provides, and its two providers in the program.
\<close>

section \<open>The coordinator's writer\<close>

definition write_private :: "path \<Rightarrow> string \<Rightarrow> (msg, unit) prog" where
  "write_private p contents =
     seqP (map_errP (err1 ''ui-bisync-coordinator-could-not-stage-managed-file-error'') (open_create_new p))
    (seqP (map_errP (err1 ''ui-bisync-coordinator-could-not-restrict-managed-file-error'')
             (set_permissions p))
    (seqP (map_errP (err1 ''ui-bisync-coordinator-could-not-write-managed-file-error'')
             (write_all p contents))
          (map_errP (err1 ''ui-bisync-coordinator-could-not-sync-managed-file-error'') (sync_all p))))"

definition managed_staging_path :: "path \<Rightarrow> uuid \<Rightarrow> path" where
  "managed_staging_path parent u = path_join parent (''.managed-'' @ u @ ''.tmp'')"

definition write_atomic :: "path \<Rightarrow> string \<Rightarrow> (msg, unit) prog" where
  "write_atomic p contents =
     (if \<not> has_parent p then fail (fl ''ui-bisync-coordinator-managed-file-has-no-parent'')
      else
      seqP (map_errP (err1 ''ui-bisync-coordinator-could-not-create-managed-directory-error'')
              (create_dir_all (parent_of p)))
     (bindP new_uuid (\<lambda>u.
        let staging = managed_staging_path (parent_of p) u
        in bindP (tryP (seqP (write_private staging contents)
              (map_errP (err1 ''ui-bisync-coordinator-could-not-publish-managed-file-error'')
                 (rename_file staging p)))) (\<lambda>r.
             seqP (if is_err r then seqP (tryP (remove_file staging)) (ret ()) else ret ())
                  (liftR r)))))"

definition remove_if_exists :: "path \<Rightarrow> (msg, unit) prog" where
  "remove_if_exists p =
     bindP (tryP (remove_file p)) (\<lambda>r.
       case r of
         Inr _ \<Rightarrow> ret ()
       | Inl e \<Rightarrow>
           if io_kind e = NotFound then ret ()
           else fail (err1 ''ui-bisync-coordinator-could-not-remove-managed-marker-error'' e))"

section \<open>The interface\<close>

text \<open>Writers that try, one after the other, whatever happens to the earlier ones.\<close>

fun attempt_all :: "(msg, unit) prog list \<Rightarrow> (msg, unit) prog" where
  "attempt_all [] = ret ()"
| "attempt_all (m # ms) = seqP (tryP m) (attempt_all ms)"

text \<open>
  A writer of values at paths: a success leaves exactly the value's encoding there, a failure
  leaves what was there.
\<close>

locale atomic_store =
  fixes writer :: "path \<Rightarrow> 'v \<Rightarrow> (msg, unit) prog"
    and encoding :: "'v \<Rightarrow> string option"
    and fit :: "env \<Rightarrow> path \<Rightarrow> bool"
  assumes published: "fit env p \<Longrightarrow> writer p v env w = (Inr u, w') \<Longrightarrow>
      \<exists>c. encoding v = Some c \<and> fs_get (files w') (components p) = Some (File c)"
    and kept_on_error: "fit env p \<Longrightarrow> writer p v env w = (Inl e, w') \<Longrightarrow>
      fs_get (files w') (components p) = fs_get (files w) (components p)"
begin

lemma old_or_new:
  assumes "fit env p" and "writer p v env w = (r, w')"
  shows "fs_get (files w') (components p) = fs_get (files w) (components p)
    \<or> (\<exists>c. encoding v = Some c \<and> fs_get (files w') (components p) = Some (File c))"
  using assms published kept_on_error by (cases r) blast+

text \<open>After any number of writes, some of them failing, the file is whole: the first or one of these.\<close>

lemma never_torn:
  assumes "fit env p" and "attempt_all (map (writer p) vs) env w = (r, w')"
  shows "fs_get (files w') (components p) = fs_get (files w) (components p)
    \<or> (\<exists>v \<in> set vs. \<exists>c. encoding v = Some c \<and> fs_get (files w') (components p) = Some (File c))"
  using assms(2)
proof (induction vs arbitrary: w)
  case Nil
  then show ?case by simp
next
  case (Cons v vs)
  obtain r1 w1 where first: "writer p v env w = (r1, w1)" by (cases "writer p v env w")
  with Cons.prems have "attempt_all (map (writer p) vs) env w1 = (r, w')"
    by (simp add: seqP_def bindP_def tryP_def)
  from Cons.IH [OF this] old_or_new [OF assms(1) first] show ?case by auto
qed

end

section \<open>The providers\<close>

text \<open>
  The hypotheses of both: an absolute normalized path below the root, whose file name is not one of
  the writer's staging names, and random names that are UUIDs.
\<close>

definition suitable_for :: "string \<Rightarrow> env \<Rightarrow> path \<Rightarrow> bool" where
  "suitable_for stem env p =
     (\<exists>xs x. components p = RootDir # map Normal (xs @ [x]) \<and> list_all valid_part (xs @ [x])
        \<and> \<not> prefix stem x \<and> (\<forall>n. uuid_text (e_uuid env n)))"

lemma suitable_parent:
  assumes "suitable_for stem env p"
  shows "components (parent_of p) = butlast (components p)" "has_parent p"
    "components p \<noteq> [RootDir]"
    "components p \<notin> set (dir_prefixes (components (parent_of p)))"
    "is_absolute (parent_of p)"
proof -
  from assms obtain xs x where p: "components p = RootDir # map Normal (xs @ [x])"
    and v: "list_all valid_part (xs @ [x])" by (auto simp: suitable_for_def)
  have "normal_abs (components p)" unfolding normal_abs_def p using v by blast
  from parent_components [OF this] p
  show par: "components (parent_of p) = butlast (components p)" by auto
  show "has_parent p" by (simp add: has_parent_def comps_pop_def p)
  show "components p \<noteq> [RootDir]" by (simp add: p)
  have "length k < length (components p)" if "k \<in> set (dir_prefixes (butlast (components p)))" for k
    using that p by (auto simp: dir_prefixes_def)
  with par show "components p \<notin> set (dir_prefixes (components (parent_of p)))" by force
  show "is_absolute (parent_of p)" by (simp add: parent_of_def)
qed

lemma staging_differs:
  assumes "suitable_for stem env p" and "valid_part (stem @ e_uuid env n @ ''.tmp'')"
  shows "components (path_join (parent_of p) (stem @ e_uuid env n @ ''.tmp'')) \<noteq> components p"
    and "components (path_join (parent_of p) (stem @ e_uuid env n @ ''.tmp'')) \<noteq> [RootDir]"
proof -
  from assms obtain xs x where p: "components p = RootDir # map Normal (xs @ [x])"
    and x: "\<not> prefix stem x" by (auto simp: suitable_for_def)
  have st: "components (path_join (parent_of p) (stem @ e_uuid env n @ ''.tmp''))
      = butlast (components p) @ [Normal (stem @ e_uuid env n @ ''.tmp'')]"
    using components_join [OF suitable_parent(5) [OF assms(1)] assms(2)] suitable_parent(1) [OF assms(1)]
    by simp
  from x have "x \<noteq> stem @ e_uuid env n @ ''.tmp''" by auto
  with st p show "components (path_join (parent_of p) (stem @ e_uuid env n @ ''.tmp'')) \<noteq> components p"
    by (simp add: butlast_append)
  from st p show "components (path_join (parent_of p) (stem @ e_uuid env n @ ''.tmp'')) \<noteq> [RootDir]"
    by simp
qed

lemma staging_valid:
  assumes "suitable_for stem env p" and "CHR ''/'' \<notin> set stem"
  shows "valid_part (stem @ e_uuid env n @ ''.tmp'')"
proof -
  from assms(1) have "valid_part (e_uuid env n)"
    by (auto simp: suitable_for_def intro: uuid_text_valid_part)
  moreover have "length (e_uuid env n) = 36"
    using assms(1) by (auto simp: suitable_for_def uuid_text_def)
  ultimately show ?thesis using assms(2) by (auto simp: valid_part_def dest!: arg_cong [where f = length])
qed

text \<open>The last step of both writers: the rename decides, and a failed one changed nothing.\<close>

lemma rename_decides:
  assumes "preserves env (node_at k v) m" and "node_at k v w"
    and "seqP m (map_errP g (rename_file a b)) env w = (Inl e, w')"
  shows "node_at k v w'"
  using assms
  by (auto simp: seqP_Inl map_errP_Inl node_at_def dest: rename_file_Inl preservesD)
     (metis node_at_def preservesD rename_file_Inl)+

lemma cleanup_keeps:
  assumes "components staging \<noteq> k" and "node_at k v w"
    and "seqP (if b then seqP (tryP (remove_file staging)) (ret ()) else ret ()) (liftR r) env w = (r', w')"
  shows "node_at k v w'"
proof -
  have "preserves env (node_at k v)
      (seqP (if b then seqP (tryP (remove_file staging)) (ret ()) else ret ()) (liftR r))"
    using assms(1) by (intro preserves_intros node_intros) auto
  from preservesD [OF this assms(3) assms(2)] show ?thesis .
qed

section \<open>\<open>write_atomic\<close> and \<open>write_state\<close> provide the interface\<close>

lemma stage_state_assoc:
  "stage_state J staging p s =
     seqP (seqP (map_errP (err1 ''ui-offline-coordinator-could-not-stage-offline-mirror-state-error'')
                   (open_create_new staging))
          (seqP (map_errP (err1 ''ui-offline-coordinator-could-not-restrict-offline-mirror-state-error'')
                   (set_permissions staging))
          (bindP (liftR (ok_or (Fl ''ui-offline-coordinator-could-not-encode-offline-mirror-state-error''
                      [(''error'', encode_error J s)]) (encode_state J s))) (\<lambda>contents.
           seqP (map_errP (err1 ''ui-offline-coordinator-could-not-write-offline-mirror-state-error'')
                   (write_all staging contents))
                (map_errP (err1 ''ui-offline-coordinator-could-not-sync-offline-mirror-state-error'')
                   (sync_all staging))))))
       (map_errP (err1 ''ui-offline-coordinator-could-not-publish-offline-mirror-state-error'')
          (rename_file staging p))"
  unfolding stage_state_def seqP_def bindP_def
  by (intro ext) (simp split: prod.split sum.split)

lemma write_atomic_kept:
  assumes suit: "suitable_for ''.managed-'' env p" and run: "write_atomic p c env w = (Inl e, w')"
  shows "fs_get (files w') (components p) = fs_get (files w) (components p)"
proof -
  let ?k = "components p"
  define v where "v = fs_get (files w) ?k"
  note par = suitable_parent [OF suit]
  have start: "node_at ?k v w" by (simp add: node_at_def v_def)
  have mk: "preserves env (node_at ?k v) (map_errP g (create_dir_all (parent_of p)))" for g :: "io_error \<Rightarrow> msg"
    using par(4) by (intro preserves_intros node_intros) auto
  have dest: "components (managed_staging_path (parent_of p) (e_uuid env n)) \<noteq> ?k" for n
    using staging_differs(1) [OF suit staging_valid [OF suit]] by (simp add: managed_staging_path_def)
  have wp: "preserves env (node_at ?k v) (write_private (managed_staging_path (parent_of p) (e_uuid env n)) c)" for n
    unfolding write_private_def using dest by (intro preserves_intros node_intros) auto
  from run par(2) consider
      "map_errP (err1 ''ui-bisync-coordinator-could-not-create-managed-directory-error'')
         (create_dir_all (parent_of p)) env w = (Inl e, w')"
    | w1 n u w2 r w3 where
        "map_errP (err1 ''ui-bisync-coordinator-could-not-create-managed-directory-error'')
           (create_dir_all (parent_of p)) env w = (Inr u, w1)"
        "(new_uuid :: (msg, uuid) prog) env w1 = (Inr (e_uuid env n), w2)"
        "seqP (write_private (managed_staging_path (parent_of p) (e_uuid env n)) c)
           (map_errP (err1 ''ui-bisync-coordinator-could-not-publish-managed-file-error'')
             (rename_file (managed_staging_path (parent_of p) (e_uuid env n)) p)) env w2 = (r, w3)"
        "seqP (if is_err r then seqP (tryP (remove_file
             (managed_staging_path (parent_of p) (e_uuid env n)))) (ret ()) else ret ())
           (liftR r) env w3 = (Inl e, w')"
    by (auto simp: write_atomic_def seqP_Inl bindP_Inl new_uuid_def Let_def simp del: map_errP_Inr)
  then show ?thesis
  proof cases
    case 1
    from preservesD [OF mk 1 start] show ?thesis by (simp add: node_at_def v_def)
  next
    case 2
    from preservesD [OF mk 2(1) start] have "node_at ?k v w1" .
    from preservesD [OF node_at_prims(11) 2(2) this] have w2: "node_at ?k v w2" .
    obtain e' where r: "r = Inl e'"
      using 2(4) by (cases r) (auto simp: seqP_Inl)
    from rename_decides [OF wp w2 2(3) [unfolded r]] have "node_at ?k v w3" .
    from cleanup_keeps [OF dest this 2(4)] show ?thesis by (simp add: node_at_def v_def)
  qed
qed

lemma write_private_Inr:
  assumes "write_private p c env w = (Inr u, w')" and "components p \<noteq> [RootDir]"
  shows "fs_get (files w') (components p) = Some (File c)"
proof -
  from assms(1) obtain w1 u1 w2 u2 where wr: "write_all p c env w1 = (Inr u1, w2)"
    and sy: "sync_all p env w2 = (Inr u2, w')"
    by (auto simp: write_private_def seqP_Inr)
  have "node_at (components p) (Some (File c)) w2"
    using write_all_Inr [OF wr assms(2)] by (simp add: node_at_def)
  from preservesD [OF node_at_prims(6) sy this] show ?thesis by (simp add: node_at_def)
qed

lemma write_atomic_published:
  assumes suit: "suitable_for ''.managed-'' env p" and run: "write_atomic p c env w = (Inr u, w')"
  shows "fs_get (files w') (components p) = Some (File c)"
proof -
  have ne: "components (managed_staging_path (parent_of p) (e_uuid env n)) \<noteq> [RootDir]" for n
    using staging_differs(2) [OF suit staging_valid [OF suit]] by (simp add: managed_staging_path_def)
  from run suitable_parent(2) [OF suit] obtain n w2 r w3 where
    pub: "seqP (write_private (managed_staging_path (parent_of p) (e_uuid env n)) c)
           (map_errP (err1 ''ui-bisync-coordinator-could-not-publish-managed-file-error'')
             (rename_file (managed_staging_path (parent_of p) (e_uuid env n)) p)) env w2 = (r, w3)"
    and fin: "seqP (if is_err r then seqP (tryP (remove_file
             (managed_staging_path (parent_of p) (e_uuid env n)))) (ret ()) else ret ())
           (liftR r) env w3 = (Inr u, w')"
    by (auto simp: write_atomic_def run_simps new_uuid_def Let_def)
  from fin have r: "r = Inr ()" and w': "w' = w3" by (auto simp: run_simps split: if_splits)
  from pub obtain w4 where wp: "write_private (managed_staging_path (parent_of p) (e_uuid env n)) c env w2
      = (Inr (), w4)" and rn: "rename_file (managed_staging_path (parent_of p) (e_uuid env n)) p env w4
      = (Inr (), w3)"
    by (auto simp: r seqP_Inr)
  from rename_file_Inr [OF rn suitable_parent(3) [OF suit]] write_private_Inr [OF wp ne] w'
  show ?thesis by simp
qed

interpretation managed_file: atomic_store write_atomic Some "suitable_for ''.managed-''"
  by unfold_locales (auto dest: write_atomic_published write_atomic_kept)

lemma stage_state_Inr:
  assumes "stage_state J staging p s env w = (Inr u, w')"
    and "components staging \<noteq> [RootDir]" and "components p \<noteq> [RootDir]"
  shows "\<exists>c. encode_state J s = Some c \<and> fs_get (files w') (components p) = Some (File c)"
proof -
  from assms(1) obtain c w1 u1 w2 u2 w3 u3 where c: "encode_state J s = Some c"
    and wr: "write_all staging c env w1 = (Inr u1, w2)" and sy: "sync_all staging env w2 = (Inr u2, w3)"
    and rn: "rename_file staging p env w3 = (Inr u3, w')"
    by (auto simp: stage_state_def run_simps)
  have "node_at (components staging) (Some (File c)) w2"
    using write_all_Inr [OF wr assms(2)] by (simp add: node_at_def)
  from preservesD [OF node_at_prims(6) sy this] rename_file_Inr [OF rn assms(3)] c
  show ?thesis by (simp add: node_at_def)
qed

lemma write_state_published:
  assumes suit: "suitable_for ''.state-'' env p" and run: "write_state J p s env w = (Inr u, w')"
  shows "\<exists>c. encode_state J s = Some c \<and> fs_get (files w') (components p) = Some (File c)"
proof -
  have ne: "components (staging_state_path (parent_of p) (e_uuid env n)) \<noteq> [RootDir]" for n
    using staging_differs(2) [OF suit staging_valid [OF suit]] by (simp add: staging_state_path_def)
  from run suitable_parent(2) [OF suit] obtain n w2 r w3 where
    pub: "stage_state J (staging_state_path (parent_of p) (e_uuid env n)) p s env w2 = (r, w3)"
    and fin: "seqP (if is_err r then seqP (tryP (remove_file
             (staging_state_path (parent_of p) (e_uuid env n)))) (ret ()) else ret ())
           (liftR r) env w3 = (Inr u, w')"
    by (auto simp: write_state_def run_simps new_uuid_def Let_def)
  from fin have "r = Inr ()" "w' = w3" by (auto simp: run_simps split: if_splits)
  with stage_state_Inr [of J _ p s env w2 "()" w3] pub ne suitable_parent(3) [OF suit]
  show ?thesis by blast
qed

lemma write_state_kept:
  assumes suit: "suitable_for ''.state-'' env p" and run: "write_state J p s env w = (Inl e, w')"
  shows "fs_get (files w') (components p) = fs_get (files w) (components p)"
proof -
  let ?k = "components p" and ?st = "\<lambda>n. staging_state_path (parent_of p) (e_uuid env n)"
  define v where "v = fs_get (files w) ?k"
  define mk :: "(msg, unit) prog" where "mk =
    map_errP (err1 ''ui-offline-coordinator-could-not-create-offline-mirror-state-directory'')
      (create_dir_all (parent_of p))"
  define pm :: "(msg, unit) prog" where "pm =
    map_errP (err1 ''ui-offline-coordinator-could-not-restrict-offline-mirror-state-directory'')
      (set_permissions (parent_of p))"
  note par = suitable_parent [OF suit]
  have start: "node_at ?k v w" by (simp add: node_at_def v_def)
  have kmk: "preserves env (node_at ?k v) mk" unfolding mk_def
    using par(4) by (intro preserves_intros node_intros) auto
  have kpm: "preserves env (node_at ?k v) pm" unfolding pm_def
    by (intro preserves_intros node_intros)
  have dest: "components (?st n) \<noteq> ?k" for n
    using staging_differs(1) [OF suit staging_valid [OF suit]] by (simp add: staging_state_path_def)
  from run par(2) consider
      "mk env w = (Inl e, w')"
    | w1 u where "mk env w = (Inr u, w1)" "pm env w1 = (Inl e, w')"
    | w1 u1 w1' n u w2 r w3 where "mk env w = (Inr u1, w1')" "pm env w1' = (Inr u, w1)"
        "(new_uuid :: (msg, uuid) prog) env w1 = (Inr (e_uuid env n), w2)"
        "stage_state J (?st n) p s env w2 = (r, w3)"
        "seqP (if is_err r then seqP (tryP (remove_file (?st n))) (ret ()) else ret ())
           (liftR r) env w3 = (Inl e, w')"
    by (auto simp: write_state_def seqP_Inl bindP_Inl new_uuid_def Let_def simp del: map_errP_Inr
        simp flip: mk_def pm_def)
  then show ?thesis
  proof cases
    case 1
    from preservesD [OF kmk 1 start] show ?thesis by (simp add: node_at_def v_def)
  next
    case 2
    from preservesD [OF kpm 2(2) preservesD [OF kmk 2(1) start]] show ?thesis
      by (simp add: node_at_def v_def)
  next
    case 3
    have "node_at ?k v w1" by (rule preservesD [OF kpm 3(2) preservesD [OF kmk 3(1) start]])
    from preservesD [OF node_at_prims(11) 3(3) this] have w2: "node_at ?k v w2" .
    obtain e' where r: "r = Inl e'" using 3(5) by (cases r) (auto simp: seqP_Inl)
    have "node_at ?k v w3"
      by (rule rename_decides [OF _ w2 3(4) [unfolded r stage_state_assoc]])
        (intro preserves_intros node_intros dest)
    from cleanup_keeps [OF dest this 3(5)] show ?thesis by (simp add: node_at_def v_def)
  qed
qed

interpretation state_file: atomic_store "write_state J" "encode_state J" "suitable_for ''.state-''" for J
  by unfold_locales (auto dest: write_state_published write_state_kept)

section \<open>Properties\<close>

lemma state_path_suitable:
  assumes "normal_abs (components work_root)" and "uuid_text (conn_uuid cid)"
    and "\<forall>n. uuid_text (e_uuid env n)"
  shows "suitable_for ''.state-'' env (state_path work_root cid)"
proof -
  from assms(1) obtain xs where xs: "components work_root = RootDir # map Normal xs" "list_all valid_part xs"
    by (auto simp: normal_abs_def)
  then have a: "is_absolute work_root" using components_root_only_head [of work_root] by auto
  have v: "valid_part ''offline-coordinator''" "valid_part (conn_uuid cid)" "valid_part ''state.json''"
    using uuid_text_valid_part [OF assms(2)] by (simp_all add: valid_part_def)
  have "components (state_path work_root cid)
      = RootDir # map Normal ((xs @ [''offline-coordinator'', conn_uuid cid]) @ [''state.json''])"
    using a v xs(1) by (simp add: state_path_def components_join)
  moreover have "list_all valid_part ((xs @ [''offline-coordinator'', conn_uuid cid]) @ [''state.json''])"
    using xs(2) v by simp
  moreover have "\<not> prefix ''.state-'' ''state.json''" by simp
  ultimately show ?thesis unfolding suitable_for_def using assms(3) by blast
qed

text \<open>
  C1. The persisted state of an Offline Mirror is never torn or lost: after any number of
  \<open>write_state\<close> calls on a connection's state file, with an I/O error possible at every step, the file
  is what it was before or the complete encoding of one of the written states.
\<close>
theorem state_file_never_torn:
  assumes "normal_abs (components work_root)" and "uuid_text (conn_uuid cid)"
    and "\<forall>n. uuid_text (e_uuid env n)"
    and "attempt_all (map (write_state J (state_path work_root cid)) ss) env w = (r, w')"
  shows "fs_get (files w') (components (state_path work_root cid))
           = fs_get (files w) (components (state_path work_root cid))
    \<or> (\<exists>s \<in> set ss. \<exists>c. encode_state J s = Some c
          \<and> fs_get (files w') (components (state_path work_root cid)) = Some (File c))"
  by (rule state_file.never_torn [OF state_path_suitable [OF assms(1-3)] assms(4)])

definition sample_uuid :: uuid where
  "sample_uuid = ''2a3f5d45-e867-47e7-943f-66cf60e777ad''"

text \<open>An environment in which the sixth step fails, in the middle of the first write.\<close>

definition sample_env :: env where
  "sample_env =
     \<lparr>e_fault = (\<lambda>n. if n = 5 then Some (IoError OtherKind ''disk full'') else None),
      e_partial = (\<lambda>n. 3), e_cmd = (\<lambda>n r f. (Inl Cancelled, f)), e_cancelled = (\<lambda>n. False),
      e_now = (\<lambda>n. (1700000000, 0)), e_before_epoch = (\<lambda>n. False), e_uuid = (\<lambda>n. sample_uuid),
      e_lock_held = (\<lambda>n k. False), e_var = (\<lambda>s. None)\<rparr>"

definition sample_world :: world where
  "sample_world = \<lparr>files = [], tick = 0, locks = [], events = []\<rparr>"

definition sample_state :: coordinator_state where
  "sample_state =
     \<lparr>cs_version = STATE_VERSION, cs_connection_id = ConnectionId sample_uuid, cs_operation = OpSync,
      cs_state = StRunning, cs_updated_unix_seconds = 0, cs_warnings = []\<rparr>"

definition sample_codec :: state_codec where
  "sample_codec =
     \<lparr>encode_state = (\<lambda>s. Some ''{}''), encode_error = (\<lambda>s. Lit []), decode_state = (\<lambda>s. Inr sample_state)\<rparr>"

lemma sample_uuid_text: "uuid_text sample_uuid"
  by code_simp

lemma sample_root: "components ''/s'' = [RootDir, Normal ''s'']" "normal_abs (components ''/s'')"
proof -
  show c: "components ''/s'' = [RootDir, Normal ''s'']" by code_simp
  show "normal_abs (components ''/s'')"
    unfolding c normal_abs_def by (rule exI [of _ "[''s'']"]) (simp add: valid_part_def)
qed

lemma state_file_never_torn_witness:
  "let p = state_path ''/s'' (ConnectionId sample_uuid);
       w' = snd (attempt_all (map (write_state sample_codec p) [sample_state, sample_state])
                   sample_env sample_world)
   in fs_get (files w') (components p) = None \<or> fs_get (files w') (components p) = Some (File ''{}'')"
proof -
  let ?p = "state_path ''/s'' (ConnectionId sample_uuid)"
  let ?run = "attempt_all (map (write_state sample_codec ?p) [sample_state, sample_state])
                   sample_env sample_world"
  have u: "\<forall>n. uuid_text (e_uuid sample_env n)" by (simp add: sample_env_def sample_uuid_text)
  have c: "uuid_text (conn_uuid (ConnectionId sample_uuid))" by (simp add: sample_uuid_text)
  have "components ?p \<noteq> [RootDir]"
    using suitable_parent(3) [OF state_path_suitable [OF sample_root(2) c u]] .
  then have "fs_get (files sample_world) (components ?p) = None"
    by (simp add: sample_world_def fs_get_def)
  with state_file_never_torn [OF sample_root(2) c u prod.collapse [symmetric, of ?run]]
  show ?thesis by (auto simp: Let_def sample_codec_def)
qed

end
