(* ===== verification/Bisync_Dates.thy ===== *)
theory Bisync_Dates
  imports Prelude
begin

text \<open>
  The dates of \<open>src/src/bisync_coordinator.rs\<close>: the day that names a recovery directory, the stamp of
  the engine's \<open>--suffix\<close> and the strict check of a day's name.  \<open>libc::gmtime_r\<close> is an argument.  The
  reference is the Gregorian calendar with a day count, in which the names' byte order is proved to be
  the chronological order.
\<close>

section \<open>The code\<close>

record tm =
  tm_year :: int
  tm_mon :: int
  tm_mday :: int
  tm_hour :: int
  tm_min :: int
  tm_sec :: int

type_synonym gmtime = "nat \<Rightarrow> tm option"

text \<open>A \<open>SystemTime\<close>: an error before the epoch, else seconds and nanoseconds since it.\<close>

type_synonym systime = "unit + nat \<times> nat"

definition systime_minus :: "systime \<Rightarrow> nat \<Rightarrow> systime" where
  "systime_minus t secs =
     (case t of Inl _ \<Rightarrow> Inl () | Inr (s, ns) \<Rightarrow> if s < secs then Inl () else Inr (s - secs, ns))"

definition show_int_padded :: "nat \<Rightarrow> int \<Rightarrow> string" where
  "show_int_padded w i =
     (if i < 0 then ''-'' @ show_padded (w - 1) (nat (- i)) else show_padded w (nat i))"

definition utc_tm :: "gmtime \<Rightarrow> nat \<Rightarrow> tm res" where
  "utc_tm G seconds =
     (if 2 ^ 63 \<le> seconds then Inl (fl ''ui-bisync-coordinator-system-time-is-out-of-range'')
      else ok_or (fl ''ui-bisync-coordinator-could-not-convert-utc-time'') (G seconds))"

definition since_epoch :: "systime \<Rightarrow> (nat \<times> nat) res" where
  "since_epoch t = map_err (\<lambda>_. fl ''ui-bisync-coordinator-system-clock-precedes-unix-epoch'') t"

definition utc_day :: "gmtime \<Rightarrow> systime \<Rightarrow> string res" where
  "utc_day G t =
     bind_res (since_epoch t) (\<lambda>(s, ns).
     bind_res (utc_tm G s) (\<lambda>tm.
     Inr (show_int_padded 4 (tm_year tm + 1900) @ ''-'' @ show_int_padded 2 (tm_mon tm + 1) @ ''-''
          @ show_int_padded 2 (tm_mday tm))))"

definition utc_day_and_stamp :: "gmtime \<Rightarrow> systime \<Rightarrow> (string \<times> string) res" where
  "utc_day_and_stamp G t =
     bind_res (since_epoch t) (\<lambda>(s, ns).
     bind_res (utc_day G t) (\<lambda>day.
     bind_res (utc_tm G s) (\<lambda>tm.
     Inr (day,
          show_int_padded 4 (tm_year tm + 1900) @ show_int_padded 2 (tm_mon tm + 1)
          @ show_int_padded 2 (tm_mday tm) @ ''T'' @ show_int_padded 2 (tm_hour tm)
          @ show_int_padded 2 (tm_min tm) @ show_int_padded 2 (tm_sec tm) @ ''.'' @ show_padded 9 ns))))"

definition leap_year :: "nat \<Rightarrow> bool" where
  "leap_year y = (4 dvd y \<and> (\<not> 100 dvd y \<or> 400 dvd y))"

text \<open>The days of a month, \<^const>\<open>None\<close> when there is no such month.\<close>

definition month_days :: "nat \<Rightarrow> nat \<Rightarrow> nat option" where
  "month_days y m =
     (if m \<in> {1, 3, 5, 7, 8, 10, 12} then Some 31
      else if m \<in> {4, 6, 9, 11} then Some 30
      else if m = 2 then Some (if leap_year y then 29 else 28)
      else None)"

definition U32_MAX :: nat where "U32_MAX = 2 ^ 32 - 1"

definition strict_day :: "string \<Rightarrow> bool" where
  "strict_day v =
     (if \<not> (length v = 10 \<and> v ! 4 = CHR ''-'' \<and> v ! 7 = CHR ''-''
            \<and> list_all (\<lambda>i. i = 4 \<or> i = 7 \<or> is_ascii_digit (v ! i)) [0..<length v])
      then False
      else case parse_unsigned U32_MAX (take 4 v) of
          None \<Rightarrow> False
        | Some year \<Rightarrow>
            (case parse_unsigned U32_MAX (take 2 (drop 5 v)) of
               None \<Rightarrow> False
             | Some month \<Rightarrow>
                 (case parse_unsigned U32_MAX (take 2 (drop 8 v)) of
                    None \<Rightarrow> False
                  | Some day \<Rightarrow>
                      (case month_days year month of
                         None \<Rightarrow> False
                       | Some maximum \<Rightarrow> 1 \<le> day \<and> day \<le> maximum))))"

section \<open>Decimal numerals\<close>

definition digits :: "string \<Rightarrow> bool" where
  "digits s = list_all is_ascii_digit s"

lemma digits_simps [simp]: "digits []" "digits (c # s) \<longleftrightarrow> is_ascii_digit c \<and> digits s"
  "digits (s @ t) \<longleftrightarrow> digits s \<and> digits t"
  by (simp_all add: digits_def)

lemma digits_value_foldl:
  "foldl (\<lambda>acc c. 10 * acc + (of_char c - 48)) a s = a * 10 ^ length s + digits_value s"
proof (induction s arbitrary: a)
  case Nil
  then show ?case by (simp add: digits_value_def)
next
  case (Cons c s)
  have "digits_value (c # s) = (of_char c - 48) * 10 ^ length s + digits_value s"
    by (simp add: digits_value_def) (simp add: Cons)
  with Cons show ?case by (simp add: algebra_simps)
qed

lemma digits_value_simps [simp]:
  "digits_value [] = 0"
  "digits_value (c # s) = (of_char c - 48) * 10 ^ length s + digits_value s"
proof -
  show "digits_value [] = 0" by (simp add: digits_value_def)
  have "digits_value (c # s) = foldl (\<lambda>acc c. 10 * acc + (of_char c - 48)) (of_char c - 48) s"
    by (simp add: digits_value_def)
  then show "digits_value (c # s) = (of_char c - 48) * 10 ^ length s + digits_value s"
    by (simp add: digits_value_foldl)
qed

lemma digits_value_append: "digits_value (s @ t) = digits_value s * 10 ^ length t + digits_value t"
  by (induction s) (simp_all add: algebra_simps power_add)

lemma digits_value_bound: "digits s \<Longrightarrow> digits_value s < 10 ^ length s"
proof (induction s)
  case Nil
  then show ?case by simp
next
  case (Cons c s)
  then have "(of_char c :: nat) \<le> 57" by (simp add: is_ascii_digit_def)
  then have "of_char c - 48 \<le> (9 :: nat)" by linarith
  then have "(of_char c - 48) * 10 ^ length s \<le> 9 * (10 :: nat) ^ length s" by (rule mult_right_mono) simp
  moreover have "digits_value s < 10 ^ length s" using Cons by simp
  ultimately show ?case by (simp only: digits_value_simps list.size(4) add_Suc_right add_0_right power_Suc)
qed

text \<open>On numerals of one length the byte order is the numeric order.\<close>

lemma digits_less_iff:
  assumes "digits a" and "digits b" and "length a = length b"
  shows "a < b \<longleftrightarrow> digits_value a < digits_value b"
  using assms
proof (induction a arbitrary: b)
  case Nil
  then show ?case by simp
next
  case (Cons x a)
  then obtain y c where b: "b = y # c" and len: "length a = length c" and dc: "digits c" "digits a"
    by (cases b) auto
  have x: "48 \<le> (of_char x :: nat)" "48 \<le> (of_char y :: nat)"
    using Cons.prems b by (auto simp: is_ascii_digit_def)
  have ba: "digits_value a < 10 ^ length c" "digits_value c < 10 ^ length c"
    using digits_value_bound [OF dc(1)] digits_value_bound [OF dc(2)] len by auto
  let ?n = "10 ^ length c :: nat" and ?x = "of_char x - 48 :: nat" and ?y = "of_char y - 48 :: nat"
  have small: "u * ?n + p < v * ?n + q" if "u < v" "p < ?n" for u v p q :: nat
  proof -
    from that(1) have "Suc u * ?n \<le> v * ?n" by (intro mult_right_mono) auto
    with that(2) show ?thesis by simp
  qed
  have "x < y \<longleftrightarrow> ?x < ?y" using x by (auto simp: less_char_def)
  moreover have "x = y \<longleftrightarrow> ?x = ?y"
  proof
    assume "?x = ?y"
    with x have "(of_char x :: nat) = of_char y" by linarith
    then show "x = y" by simp
  qed simp
  moreover have "a < c \<longleftrightarrow> digits_value a < digits_value c" using Cons.IH dc len by simp
  ultimately show ?case
    using small [of ?x ?y "digits_value a" "digits_value c"]
      small [of ?y ?x "digits_value c" "digits_value a"] ba len b
    by (cases "?x < ?y"; cases "?y < ?x") auto
qed

lemma digits_eq_iff:
  assumes "digits a" and "digits b" and "length a = length b"
  shows "a = b \<longleftrightarrow> digits_value a = digits_value b"
  using digits_less_iff [OF assms] digits_less_iff [OF assms(2,1) assms(3) [symmetric]]
  by (metis less_irrefl linorder_neqE_nat not_less_iff_gr_or_eq)

lemma digit_char [simp]: "n < 10 \<Longrightarrow> is_ascii_digit (digit_char n)" "n < 10 \<Longrightarrow> of_char (digit_char n) = 48 + n"
  by (simp_all add: digit_char_def is_ascii_digit_def)

lemma show_nat_digits: "digits (show_nat n) \<and> digits_value (show_nat n) = n \<and> show_nat n \<noteq> []"
proof (induction n rule: show_nat.induct)
  case (1 n)
  show ?case
  proof (cases "n < 10")
    case True
    then show ?thesis by (simp add: show_nat.simps [of n])
  next
    case False
    then show ?thesis using 1 by (subst (1 2 3) show_nat.simps) (simp add: digits_value_append)
  qed
qed

lemma show_nat_length: "n < 10 ^ w \<Longrightarrow> 0 < w \<Longrightarrow> length (show_nat n) \<le> w"
proof (induction w arbitrary: n)
  case 0
  then show ?case by simp
next
  case (Suc w)
  show ?case
  proof (cases "n < 10")
    case True
    then show ?thesis by (simp add: show_nat.simps [of n])
  next
    case False
    then have "0 < w" using Suc.prems by (cases w) auto
    moreover have "n div 10 < 10 ^ w" using Suc.prems by (simp add: less_mult_imp_div_less)
    ultimately show ?thesis using False Suc.IH [of "n div 10"] by (subst show_nat.simps) simp
  qed
qed

lemma digits_replicate_zero [simp]:
  "digits (replicate k (CHR ''0''))" "digits_value (replicate k (CHR ''0'')) = 0"
  by (induction k) (simp_all add: is_ascii_digit_def)

lemma show_padded_digits:
  assumes "n < 10 ^ w" and "0 < w"
  shows "length (show_padded w n) = w" "digits (show_padded w n)" "digits_value (show_padded w n) = n"
  using show_nat_digits [of n] show_nat_length [OF assms]
  by (simp_all add: show_padded_def digits_value_append Let_def)

lemma digits_as_padded:
  assumes "digits s" and "s \<noteq> []"
  shows "s = show_padded (length s) (digits_value s)"
  using assms show_padded_digits [OF digits_value_bound [OF assms(1)]]
  by (subst digits_eq_iff) auto

lemma parse_unsigned_digits:
  assumes "digits s" and "s \<noteq> []" and "digits_value s \<le> m"
  shows "parse_unsigned m s = Some (digits_value s)"
proof -
  have "\<not> is_ascii_digit (CHR ''+'')" by (simp add: is_ascii_digit_def)
  with assms(1,2) obtain c t where s: "s = c # t" and "c \<noteq> CHR ''+''"
    by (cases s) auto
  then show ?thesis using assms by (simp add: parse_unsigned_def digits_def)
qed

section \<open>The calendar\<close>

definition valid_date :: "nat \<Rightarrow> nat \<Rightarrow> nat \<Rightarrow> bool" where
  "valid_date y m d =
     (case month_days y m of None \<Rightarrow> False | Some maximum \<Rightarrow> 1 \<le> d \<and> d \<le> maximum)"

definition format_day :: "nat \<Rightarrow> nat \<Rightarrow> nat \<Rightarrow> string" where
  "format_day y m d = show_padded 4 y @ ''-'' @ show_padded 2 m @ ''-'' @ show_padded 2 d"

text \<open>Days since the first of January of the year 0.\<close>

fun days_before_year :: "nat \<Rightarrow> nat" where
  "days_before_year 0 = 0"
| "days_before_year (Suc y) = days_before_year y + (if leap_year y then 366 else 365)"

fun days_before_month :: "nat \<Rightarrow> nat \<Rightarrow> nat" where
  "days_before_month y 0 = 0"
| "days_before_month y (Suc m) = days_before_month y m + (case month_days y m of None \<Rightarrow> 0 | Some k \<Rightarrow> k)"

definition day_number :: "nat \<Rightarrow> nat \<Rightarrow> nat \<Rightarrow> nat" where
  "day_number y m d = days_before_year y + days_before_month y m + d"

lemma month_days_Some: "month_days y m = Some k \<Longrightarrow> 1 \<le> m \<and> m \<le> 12 \<and> 28 \<le> k \<and> k \<le> 31"
  by (auto simp: month_days_def split: if_splits)

lemma valid_date_bounds: "valid_date y m d \<Longrightarrow> 1 \<le> m \<and> m \<le> 12 \<and> 1 \<le> d \<and> d \<le> 31"
  by (auto simp: valid_date_def dest: month_days_Some split: option.splits)

lemma year_length: "days_before_month y 13 = (if leap_year y then 366 else 365)"
  by (simp add: numeral_eq_Suc month_days_def)

lemma days_before_month_mono: "m \<le> m' \<Longrightarrow> days_before_month y m \<le> days_before_month y m'"
  by (induction m' rule: dec_induct) (auto split: option.split)

lemma days_before_year_mono: "y \<le> y' \<Longrightarrow> days_before_year y \<le> days_before_year y'"
  by (induction y' rule: dec_induct) auto

lemma month_end: "valid_date y m d \<Longrightarrow> days_before_month y m + d \<le> days_before_month y (Suc m)"
  by (auto simp: valid_date_def split: option.splits)

lemma year_end:
  assumes "valid_date y m d"
  shows "days_before_month y m + d \<le> (if leap_year y then 366 else 365)"
proof -
  have "Suc m \<le> 13" using valid_date_bounds [OF assms] by simp
  with month_end [OF assms] days_before_month_mono [of "Suc m" 13 y] year_length show ?thesis by simp
qed

lemma day_number_less:
  assumes "valid_date y m d" and "valid_date y' m' d'"
    and "y < y' \<or> y = y' \<and> (m < m' \<or> m = m' \<and> d < d')"
  shows "day_number y m d < day_number y' m' d'"
  using assms(3)
proof (elim disjE conjE)
  assume "y < y'"
  then have "days_before_year (Suc y) \<le> days_before_year y'" by (intro days_before_year_mono) simp
  with year_end [OF assms(1)] valid_date_bounds [OF assms(2)] show ?thesis
    by (simp add: day_number_def)
next
  assume y: "y = y'" and "m < m'"
  then have "days_before_month y (Suc m) \<le> days_before_month y m'" by (intro days_before_month_mono) simp
  with month_end [OF assms(1)] valid_date_bounds [OF assms(2)] y show ?thesis
    by (simp add: day_number_def del: days_before_month.simps)
next
  assume "y = y'" "m = m'" "d < d'"
  then show ?thesis by (simp add: day_number_def)
qed

lemma day_number_less_iff:
  assumes "valid_date y m d" and "valid_date y' m' d'"
  shows "day_number y m d < day_number y' m' d' \<longleftrightarrow>
    y < y' \<or> y = y' \<and> (m < m' \<or> m = m' \<and> d < d')"
proof
  assume less: "day_number y m d < day_number y' m' d'"
  show "y < y' \<or> y = y' \<and> (m < m' \<or> m = m' \<and> d < d')"
  proof (rule ccontr)
    assume "\<not> ?thesis"
    then have "y' < y \<or> y' = y \<and> (m' < m \<or> m' = m \<and> d' < d) \<or> (y = y' \<and> m = m' \<and> d = d')" by auto
    with day_number_less [OF assms(2,1)] less show False by auto
  qed
qed (rule day_number_less [OF assms])

section \<open>A strict day is a date\<close>

lemma append_less_iff:
  fixes a b :: "'a::linorder list"
  assumes "length a = length b"
  shows "a @ s < b @ t \<longleftrightarrow> a < b \<or> a = b \<and> s < t"
  using assms by (induction a b rule: list_induct2) auto

lemma format_day_less_iff:
  assumes "valid_date y m d" and "valid_date y' m' d'" and "y < 10 ^ 4" and "y' < 10 ^ 4"
  shows "format_day y m d < format_day y' m' d' \<longleftrightarrow> day_number y m d < day_number y' m' d'"
proof -
  have two: "n < 10 ^ 2" if "n \<le> 31" for n :: nat using that by simp
  have lm: "m < 10 ^ 2" "m' < 10 ^ 2" "d < 10 ^ 2" "d' < 10 ^ 2"
    using valid_date_bounds [OF assms(1)] valid_date_bounds [OF assms(2)] by simp_all
  note pad = show_padded_digits
  have le: "show_padded w a < show_padded w b \<longleftrightarrow> a < b"
    and eq: "show_padded w a = show_padded w b \<longleftrightarrow> a = b"
    if "a < 10 ^ w" "b < 10 ^ w" "0 < w" for a b w
    using digits_less_iff [OF pad(2) [OF that(1,3)] pad(2) [OF that(2,3)]]
      digits_eq_iff [OF pad(2) [OF that(1,3)] pad(2) [OF that(2,3)]]
      pad(1,3) [OF that(1,3)] pad(1,3) [OF that(2,3)] by auto
  have "format_day y m d < format_day y' m' d' \<longleftrightarrow> y < y' \<or> y = y' \<and> (m < m' \<or> m = m' \<and> d < d')"
    unfolding format_day_def
    using assms(3,4) lm by (simp add: append_less_iff pad(1) le eq)
  with day_number_less_iff [OF assms(1,2)] show ?thesis by simp
qed

lemma take_drop_nth:
  assumes "length v = 10"
  shows "v = take 4 v @ [v ! 4] @ take 2 (drop 5 v) @ [v ! 7] @ take 2 (drop 8 v)"
proof -
  have "v = take 4 v @ drop 4 v" by simp
  moreover have "drop 4 v = [v ! 4] @ drop 5 v" using assms Cons_nth_drop_Suc [of 4 v] by simp
  moreover have "drop 5 v = take 2 (drop 5 v) @ drop 7 v" using append_take_drop_id [of 2 "drop 5 v"] by simp
  moreover have "drop 7 v = [v ! 7] @ drop 8 v" using assms Cons_nth_drop_Suc [of 7 v] by simp
  moreover have "drop 8 v = take 2 (drop 8 v)" using assms by simp
  ultimately show ?thesis by metis
qed

lemma strict_shape:
  "length v = 10 \<and> v ! 4 = CHR ''-'' \<and> v ! 7 = CHR ''-''
     \<and> list_all (\<lambda>i. i = 4 \<or> i = 7 \<or> is_ascii_digit (v ! i)) [0..<length v]
   \<longleftrightarrow> (\<exists>a b c. v = a @ ''-'' @ b @ ''-'' @ c \<and> length a = 4 \<and> length b = 2 \<and> length c = 2
          \<and> digits a \<and> digits b \<and> digits c)"
  (is "?l \<longleftrightarrow> ?r")
proof
  assume l: ?l
  then have len: "length v = 10" by simp
  have dig: "is_ascii_digit (v ! i)" if "i < 10" "i \<noteq> 4" "i \<noteq> 7" for i
    using l that by (auto simp: list_all_iff)
  have "digits (take 4 v)" "digits (take 2 (drop 5 v))" "digits (take 2 (drop 8 v))"
    using len dig by (auto simp: digits_def list_all_length)
  with l take_drop_nth [OF len] len show ?r
    by (intro exI [of _ "take 4 v"] exI [of _ "take 2 (drop 5 v)"] exI [of _ "take 2 (drop 8 v)"]) auto
next
  assume ?r
  then obtain a b c where v: "v = a @ ''-'' @ b @ ''-'' @ c" and len: "length a = 4" "length b = 2" "length c = 2"
    and d: "digits a" "digits b" "digits c" by blast
  have dig: "is_ascii_digit (v ! i)" if "i < 10" "i \<noteq> 4" "i \<noteq> 7" for i
  proof -
    note i = that
    consider "i < 4" | "4 < i" "i < 7" | "7 < i" using i by linarith
    then show ?thesis
    proof cases
      case 1
      then show ?thesis using d(1) len by (simp add: v nth_append digits_def list_all_length)
    next
      case 2
      then have "v ! i = b ! (i - 5)" "i - 5 < 2" using len by (auto simp: v nth_append)
      then show ?thesis using d(2) len by (simp add: digits_def list_all_length)
    next
      case 3
      then have "v ! i = c ! (i - 8)" "i - 8 < 2" using len i by (auto simp: v nth_append)
      then show ?thesis using d(3) len by (simp add: digits_def list_all_length)
    qed
  qed
  have "i = 4 \<or> i = 7 \<or> is_ascii_digit (v ! i)" if "i < 10" for i using dig [OF that] by blast
  moreover have "length v = 10" "v ! 4 = CHR ''-''" "v ! 7 = CHR ''-''"
    using len by (simp_all add: v nth_append)
  ultimately show ?l by (simp add: list_all_iff)
qed

lemma strict_day_shape:
  assumes y: "y < 10 ^ 4" and vd: "valid_date y m d"
  shows "strict_day (format_day y m d)"
proof -
  define v where v: "v = format_day y m d"
  have md: "m < 10 ^ 2" "d < 10 ^ 2" using valid_date_bounds [OF vd] by simp_all
  note py = show_padded_digits [OF y, simplified] and pm = show_padded_digits [OF md(1), simplified]
    and pd = show_padded_digits [OF md(2), simplified]
  have parts: "take 4 v = show_padded 4 y" "take 2 (drop 5 v) = show_padded 2 m" "take 2 (drop 8 v) = show_padded 2 d"
    using py(1) pm(1) pd(1) by (simp_all add: v format_day_def)
  have ne: "show_padded 4 y \<noteq> []" "show_padded 2 m \<noteq> []" "show_padded 2 d \<noteq> []"
    using py(1) pm(1) pd(1) by auto
  have "parse_unsigned U32_MAX (show_padded 4 y) = Some y" "parse_unsigned U32_MAX (show_padded 2 m) = Some m"
    "parse_unsigned U32_MAX (show_padded 2 d) = Some d"
    using parse_unsigned_digits [OF py(2) ne(1), of U32_MAX] parse_unsigned_digits [OF pm(2) ne(2), of U32_MAX]
      parse_unsigned_digits [OF pd(2) ne(3), of U32_MAX] py(3) pm(3) pd(3) y md
    by (simp_all add: U32_MAX_def)
  moreover have "length v = 10 \<and> v ! 4 = CHR ''-'' \<and> v ! 7 = CHR ''-''
      \<and> list_all (\<lambda>i. i = 4 \<or> i = 7 \<or> is_ascii_digit (v ! i)) [0..<length v]"
    unfolding strict_shape using py(1,2) pm(1,2) pd(1,2) v unfolding format_day_def by blast
  ultimately have "strict_day v"
    using vd unfolding strict_day_def parts valid_date_def by (simp split: option.splits)
  then show ?thesis by (simp add: v)
qed

text \<open>
  \<open>strict_day\<close> accepts exactly the names \<open>YYYY-MM-DD\<close> of days that exist in the Gregorian
  calendar, so no other directory name is ever taken for a recovery day.
\<close>
theorem strict_day_iff:
  "strict_day v \<longleftrightarrow> (\<exists>y m d. y < 10 ^ 4 \<and> valid_date y m d \<and> v = format_day y m d)"
proof
  assume s: "strict_day v"
  then have "length v = 10 \<and> v ! 4 = CHR ''-'' \<and> v ! 7 = CHR ''-''
      \<and> list_all (\<lambda>i. i = 4 \<or> i = 7 \<or> is_ascii_digit (v ! i)) [0..<length v]"
    unfolding strict_day_def by (metis (no_types, lifting))
  then obtain a b c where v: "v = a @ ''-'' @ b @ ''-'' @ c" and len: "length a = 4" "length b = 2" "length c = 2"
    and d: "digits a" "digits b" "digits c" unfolding strict_shape by blast
  have parts: "take 4 v = a" "take 2 (drop 5 v) = b" "take 2 (drop 8 v) = c"
    using len by (simp_all add: v)
  have bound: "digits_value a < 10 ^ 4" "digits_value b < 10 ^ 2" "digits_value c < 10 ^ 2"
    using digits_value_bound [OF d(1)] digits_value_bound [OF d(2)] digits_value_bound [OF d(3)] len by simp_all
  then have "parse_unsigned U32_MAX a = Some (digits_value a)" "parse_unsigned U32_MAX b = Some (digits_value b)"
    "parse_unsigned U32_MAX c = Some (digits_value c)"
    using d len by (auto intro!: parse_unsigned_digits simp: U32_MAX_def)
  with s have "valid_date (digits_value a) (digits_value b) (digits_value c)"
    unfolding strict_day_def parts by (simp add: valid_date_def split: if_splits option.splits)
  moreover have "v = format_day (digits_value a) (digits_value b) (digits_value c)"
    using digits_as_padded [OF d(1)] digits_as_padded [OF d(2)] digits_as_padded [OF d(3)] len
    by (simp add: format_day_def v) force
  ultimately show "\<exists>y m d. y < 10 ^ 4 \<and> valid_date y m d \<and> v = format_day y m d"
    using bound(1) by blast
qed (use strict_day_shape in blast)

text \<open>
  The byte order of strict days is the chronological order: comparing a directory's name with the
  cutoff's name compares the days they stand for.
\<close>
theorem strict_day_order:
  assumes "valid_date y m d" and "valid_date y' m' d'" and "y < 10 ^ 4" and "y' < 10 ^ 4"
  shows "strict_day (format_day y m d) \<and> strict_day (format_day y' m' d')
    \<and> (format_day y m d < format_day y' m' d' \<longleftrightarrow> day_number y m d < day_number y' m' d')"
  using format_day_less_iff [OF assms] strict_day_shape assms by blast

lemma strict_day_order_witness:
  "strict_day (format_day 2024 2 29) \<and> strict_day (format_day 2025 1 1)
     \<and> format_day 2024 2 29 < format_day 2025 1 1"
proof -
  have v: "valid_date 2024 2 29" "valid_date 2025 1 1"
    by (simp_all add: valid_date_def month_days_def leap_year_def)
  from strict_day_order [OF v] day_number_less [OF v] show ?thesis by simp
qed

section \<open>The retention cutoff\<close>

text \<open>
  What \<open>gmtime_r(3)\<close> documents: the broken-down UTC time of a number of seconds since the epoch, here
  for the years that four digits can write.
\<close>

definition gmtime_utc :: "gmtime \<Rightarrow> bool" where
  "gmtime_utc G =
     (\<forall>s tm. G s = Some tm \<longrightarrow>
        (\<exists>y m d. y < 10 ^ 4 \<and> valid_date y m d \<and> tm_year tm = int y - 1900 \<and> tm_mon tm = int m - 1
           \<and> tm_mday tm = int d \<and> day_number y m d = day_number 1970 1 1 + s div 86400
           \<and> 0 \<le> tm_hour tm \<and> tm_hour tm < 24 \<and> 0 \<le> tm_min tm \<and> tm_min tm < 60
           \<and> 0 \<le> tm_sec tm \<and> tm_sec tm \<le> 60))"

lemma utc_day_Inr:
  assumes "gmtime_utc G" and "utc_day G t = Inr day"
  shows "\<exists>s ns y m d. t = Inr (s, ns) \<and> y < 10 ^ 4 \<and> valid_date y m d \<and> day = format_day y m d
    \<and> day_number y m d = day_number 1970 1 1 + s div 86400"
proof -
  from assms(2) obtain s ns tm where t: "t = Inr (s, ns)" and g: "G s = Some tm"
    and day: "day = show_int_padded 4 (tm_year tm + 1900) @ ''-'' @ show_int_padded 2 (tm_mon tm + 1) @ ''-''
      @ show_int_padded 2 (tm_mday tm)"
    by (auto simp: utc_day_def bind_res_Inr since_epoch_def utc_tm_def split: if_splits)
  from assms(1) g obtain y m d where "y < 10 ^ 4" "valid_date y m d" and tm: "tm_year tm = int y - 1900"
    "tm_mon tm = int m - 1" "tm_mday tm = int d" and "day_number y m d = day_number 1970 1 1 + s div 86400"
    unfolding gmtime_utc_def by metis
  moreover have "day = format_day y m d" by (simp add: day tm format_day_def show_int_padded_def)
  ultimately show ?thesis using t by blast
qed

end
