(* ===== verification/Bisync_Requests.thy ===== *)
theory Bisync_Requests
  imports Sync Bisync_Dates
begin

text \<open>
  \<open>src/src/bisync_coordinator.rs\<close>: the modes, the engine requests built from a plan, and what the
  coordinator keeps of the engine's answers.
\<close>

section \<open>Modes\<close>

datatype bisync_mode = InitialPreview | Preview | InitialSync | SyncRun | Scheduled

fun mode_str :: "bisync_mode \<Rightarrow> string" where
  "mode_str InitialPreview = ''initial-preview''"
| "mode_str Preview = ''preview''"
| "mode_str InitialSync = ''initial-sync''"
| "mode_str SyncRun = ''sync''"
| "mode_str Scheduled = ''scheduled''"

definition mode_parse :: "string \<Rightarrow> bisync_mode option" where
  "mode_parse v =
     (if v = ''initial-preview'' then Some InitialPreview
      else if v = ''preview'' then Some Preview
      else if v = ''initial-sync'' then Some InitialSync
      else if v = ''sync'' then Some SyncRun
      else if v = ''scheduled'' then Some Scheduled
      else None)"

fun mode_preview :: "bisync_mode \<Rightarrow> bool" where
  "mode_preview InitialPreview = True"
| "mode_preview Preview = True"
| "mode_preview _ = False"

fun mode_initial :: "bisync_mode \<Rightarrow> bool" where
  "mode_initial InitialPreview = True"
| "mode_initial InitialSync = True"
| "mode_initial _ = False"

lemma mode_parse_str [simp]: "mode_parse (mode_str m) = Some m"
  by (cases m) (simp_all add: mode_parse_def)

section \<open>Requests\<close>

definition OUTPUT_LIMIT :: nat where "OUTPUT_LIMIT = 256 * 1024"

definition rclone_request :: "string list \<Rightarrow> duration \<Rightarrow> command_request res" where
  "rclone_request arguments timeout =
     bind_res (map_err command_error_text
       (add_args ([''--contimeout'', ''10s'', ''--timeout'', ''30s''] @ arguments) (new_request RcloneExe)))
     (\<lambda>r. Inr (r\<lparr>req_timeout := timeout, req_output_limit := OUTPUT_LIMIT\<rparr>))"

definition live_progress_log_path :: "path \<Rightarrow> path" where
  "live_progress_log_path workdir = path_join workdir ''live-progress.jsonl''"

definition live_progress_state_path :: "path \<Rightarrow> path" where
  "live_progress_state_path workdir = path_join workdir ''live-progress-state.json''"

text \<open>The loop over the plan's arguments: the value after a backup flag is replaced by the day's directory.\<close>

fun dated_arguments :: "bisync_plan \<Rightarrow> string \<Rightarrow> string list \<Rightarrow> string list" where
  "dated_arguments plan day [] = []"
| "dated_arguments plan day (a # rest) =
     (if a = ''--backup-dir1''
      then a # (trim_end_char (CHR ''/'') (remote_recovery_path plan) @ ''/'' @ day)
             # dated_arguments plan day (drop 1 rest)
      else if a = ''--backup-dir2''
      then a # path_join (bp_recovery_directory plan) day # dated_arguments plan day (drop 1 rest)
      else a # dated_arguments plan day rest)"

definition mode_arguments :: "bisync_plan \<Rightarrow> bisync_mode \<Rightarrow> string list" where
  "mode_arguments plan mode =
     (if mode_initial mode then [''--resync''] else [])
     @ (if mode_preview mode then [''--dry-run''] else [])
     @ (if mode = Scheduled
        then [''--use-json-log'', ''--log-file'', live_progress_log_path (work_directory plan),
              ''--log-level'', ''INFO'']
        else [])"

definition bisync_timeout :: "bisync_mode \<Rightarrow> duration" where
  "bisync_timeout mode = (if mode_preview mode then from_secs 120 else from_secs (15 * 60))"

definition bisync_request ::
  "bisync_plan \<Rightarrow> bisync_mode \<Rightarrow> string \<Rightarrow> string \<Rightarrow> command_request res" where
  "bisync_request plan mode day stamp =
     rclone_request
       (dated_arguments plan day (ss_arguments (bp_service plan)) @ [''--suffix'', ''-'' @ stamp]
        @ mode_arguments plan mode)
       (bisync_timeout mode)"

section \<open>Answers\<close>

definition complete_stdout :: "command_output \<Rightarrow> msg \<Rightarrow> string res" where
  "complete_stdout out stage =
     (if co_truncated (out_stdout out) \<or> co_invalid_utf8 (out_stdout out)
      then Inl (Fl ''ui-bisync-coordinator-stage-returned-incomplete-or-invalid-output'' [(''stage'', stage)])
      else Inr (co_text (out_stdout out)))"

text \<open>The text outside quotes; a quoted part becomes one mark, control characters but line feeds go.\<close>

fun unquoted :: "string option \<Rightarrow> string list \<Rightarrow> string" where
  "unquoted q [] = []"
| "unquoted (Some quote) (g # gs) = unquoted (if g = quote then None else Some quote) gs"
| "unquoted None (g # gs) =
     (if g \<in> {[CHR 0x27], [CHR 0x22], ''`''} then ''[REDACTED]'' @ unquoted (Some g) gs
      else if \<not> is_control g \<or> g = [CHR 0x0A] then g @ unquoted None gs
      else unquoted None gs)"

definition redact_word :: "string \<Rightarrow> string" where
  "redact_word w = (if CHR ''/'' \<in> set w \<or> CHR 0x5C \<in> set w \<or> CHR '':'' \<in> set w then ''[REDACTED]'' else w)"

definition mirror_command_diagnostic :: "json_lib \<Rightarrow> captured_output \<Rightarrow> string" where
  "mirror_command_diagnostic J out =
     (if co_invalid_utf8 out then []
      else
        let txt' = unquoted None (utf8_chars (redact_text J (co_text out)));
            ls = map (\<lambda>l. join '' '' (map redact_word (split_whitespace l))) (take 8 (rev (lines txt')))
        in concat (take 1600 (utf8_chars (join nl (rev ls)))))"

fun command_failure :: "json_lib \<Rightarrow> msg \<Rightarrow> command_error \<Rightarrow> msg" where
  "command_failure J stage (MissingExecutable _) =
     Fl ''ui-bisync-coordinator-stage-failed-because-rclone-is-missing'' [(''stage'', stage)]"
| "command_failure J stage InvalidArgument =
     Fl ''ui-bisync-coordinator-stage-rejected-an-unsafe-argument'' [(''stage'', stage)]"
| "command_failure J stage (Timeout t) =
     Fl ''ui-bisync-coordinator-stage-timed-out-after-value2-seconds''
       [(''stage'', stage), (''value2'', Lit (show_nat (t div from_secs 1)))]"
| "command_failure J stage Cancelled =
     Fl ''ui-bisync-coordinator-stage-was-cancelled'' [(''stage'', stage)]"
| "command_failure J stage (Spawn _) =
     Fl ''ui-bisync-coordinator-stage-could-not-start-rclone'' [(''stage'', stage)]"
| "command_failure J stage (NonZero code _ stderr _) =
     (let summary =
            (case code of
               Some c \<Rightarrow> Fl ''ui-bisync-coordinator-stage-failed-with-exit-status-code''
                           [(''stage'', stage), (''code'', Lit (show_int_padded 1 c))]
             | None \<Rightarrow> Fl ''ui-bisync-coordinator-stage-failed'' [(''stage'', stage)]);
          diagnostic = mirror_command_diagnostic J stderr
      in if diagnostic = [] then summary
         else Fl ''mirror-command-diagnostic'' [(''summary'', summary), (''diagnostic'', Lit diagnostic)])"

section \<open>Facts\<close>

lemma rclone_request_Inr:
  "rclone_request args t = Inr r \<Longrightarrow>
     request_argv r = [''--contimeout'', ''10s'', ''--timeout'', ''30s''] @ args
     \<and> req_timeout r = t \<and> req_executable r = RcloneExe"
  by (auto simp: rclone_request_def bind_res_Inr add_args_Inr add_arg_Inr request_argv_def new_request_def o_def)

end
