(* ===== verification/Pending_Count.thy ===== *)
theory Pending_Count
  imports World
begin

text \<open>
  \<open>src/src/pending_count.rs\<close>: pending-upload observations.  JSON values are the datatype \<open>json\<close>; the
  text parser of \<open>serde_json\<close> and the timestamp parser of \<open>jiff\<close> are arguments.
\<close>

section \<open>Values\<close>

text \<open>\<open>Value::get\<close>: the member of an object (the last of equal names, as \<open>serde_json\<close>'s map keeps).\<close>

definition json_get :: "string \<Rightarrow> json \<Rightarrow> json option" where
  "json_get k v = (case v of JObject members \<Rightarrow> map_of (rev members) k | _ \<Rightarrow> None)"

definition as_array :: "json \<Rightarrow> json list option" where
  "as_array v = (case v of JArray xs \<Rightarrow> Some xs | _ \<Rightarrow> None)"

definition as_bool :: "json \<Rightarrow> bool option" where
  "as_bool v = (case v of JBool b \<Rightarrow> Some b | _ \<Rightarrow> None)"

definition as_str :: "json \<Rightarrow> string option" where
  "as_str v = (case v of JString s \<Rightarrow> Some s | _ \<Rightarrow> None)"

definition U64_MAX :: nat where "U64_MAX = 2 ^ 64 - 1"

text \<open>\<open>as_u64\<close>: a plain unsigned integer numeral within range.\<close>

definition as_u64 :: "json \<Rightarrow> nat option" where
  "as_u64 v =
     (case v of JNumber s \<Rightarrow> if s \<noteq> [] \<and> list_all is_ascii_digit s then parse_unsigned U64_MAX s else None
      | _ \<Rightarrow> None)"

section \<open>Online mounts\<close>

record online_pending_count =
  opc_files :: nat
  opc_uploading :: nat

definition parse_rclone_pending :: "json_lib \<Rightarrow> string \<Rightarrow> string \<Rightarrow> online_pending_count res" where
  "parse_rclone_pending J queue stats =
     bind_res (ok_or (fl ''pending-count-queue-unreadable'') (json_parse J queue)) (\<lambda>q.
     bind_res (ok_or (fl ''pending-count-cache-unreadable'') (json_parse J stats)) (\<lambda>s.
     bind_res (ok_or (fl ''pending-count-queue-missing'')
         (Option.bind (json_get ''queue'' q) as_array)) (\<lambda>entries.
     bind_res (ok_or (fl ''pending-count-cache-missing'') (json_get ''diskCache'' s)) (\<lambda>disk.
     bind_res (ok_or (fl ''pending-count-cache-unreadable'')
         (Option.bind (json_get ''erroredFiles'' disk) as_u64)) (\<lambda>errors.
     bind_res (ok_or (fl ''pending-count-cache-unreadable'')
         (Option.bind (json_get ''outOfSpace'' disk) as_bool)) (\<lambda>out_of_space.
     if 0 < errors \<or> out_of_space then Inl (fl ''pending-count-cache-errors'')
     else Inr \<lparr>opc_files = length entries,
               opc_uploading =
                 length (filter (\<lambda>e. Option.bind (json_get ''uploading'' e) as_bool = Some True) entries)\<rparr>))))))"

definition rc_request :: "path \<Rightarrow> string \<Rightarrow> command_request res" where
  "rc_request socket meth =
     bind_res (map_err (\<lambda>_. fl ''pending-count-request-failed'')
       (add_args [''rc'', ''--unix-socket'', socket, meth] (new_request RcloneExe)))
     (\<lambda>r. Inr (r\<lparr>req_timeout := from_secs 5, req_output_limit := 256 * 1024\<rparr>))"

definition incomplete :: "command_output \<Rightarrow> bool" where
  "incomplete out = (co_truncated (out_stdout out) \<or> co_invalid_utf8 (out_stdout out))"

definition rclone_online_pending :: "json_lib \<Rightarrow> path \<Rightarrow> (msg, online_pending_count) prog" where
  "rclone_online_pending J socket =
     bindP (liftR (rc_request socket ''vfs/queue'')) (\<lambda>q.
     bindP (liftR (rc_request socket ''vfs/stats'')) (\<lambda>s.
     bindP (map_errP (\<lambda>_. fl ''pending-count-queue-unavailable'') (run_cmd q)) (\<lambda>queue.
     bindP (map_errP (\<lambda>_. fl ''pending-count-cache-unavailable'') (run_cmd s)) (\<lambda>stats.
     if incomplete queue \<or> incomplete stats then fail (fl ''pending-count-response-incomplete'')
     else liftR (parse_rclone_pending J (co_text (out_stdout queue)) (co_text (out_stdout stats)))))))"

section \<open>Preview snapshot\<close>

record inventory_item =
  it_path :: string
  it_size :: nat
  it_mod_time :: string
  it_is_dir :: bool

record inventory_lib =
  parse_items :: "string \<Rightarrow> inventory_item list option"
  parse_timestamp :: "string \<Rightarrow> int option"

definition response_incomplete :: msg where
  "response_incomplete = fl ''pending-count-response-incomplete''"

definition unsafe_item :: "inventory_item \<Rightarrow> bool" where
  "unsafe_item i =
     (it_is_dir i \<or> it_path i = [] \<or> hd (it_path i) = CHR ''/''
      \<or> (\<exists>part \<in> set (split_char (CHR ''/'') (it_path i)). part \<in> {[], ''.'', ''..''}))"

type_synonym inventory = "(string \<times> nat \<times> int) list"

fun inventory_of :: "inventory_lib \<Rightarrow> inventory_item list \<Rightarrow> inventory \<Rightarrow> inventory res" where
  "inventory_of L [] m = Inr m"
| "inventory_of L (i # is) m =
     (if unsafe_item i then Inl response_incomplete
      else case parse_timestamp L (it_mod_time i) of
          None \<Rightarrow> Inl response_incomplete
        | Some ts \<Rightarrow>
            if map_of m (it_path i) \<noteq> None then Inl response_incomplete
            else inventory_of L is ((it_path i, it_size i, ts) # m))"

definition parse_inventory :: "inventory_lib \<Rightarrow> string \<Rightarrow> inventory res" where
  "parse_inventory L text =
     bind_res (ok_or response_incomplete (parse_items L text)) (\<lambda>items. inventory_of L items [])"

definition differs :: "inventory \<Rightarrow> inventory \<Rightarrow> string \<Rightarrow> bool" where
  "differs remote local name =
     (case (map_of remote name, map_of local name) of
        (Some (rs, rt), Some (ls, lt)) \<Rightarrow> rs \<noteq> ls \<or> 1000000000 \<le> \<bar>rt - lt\<bar>
      | _ \<Rightarrow> True)"

definition inventory_difference :: "inventory \<Rightarrow> inventory \<Rightarrow> nat" where
  "inventory_difference remote local =
     length (filter (differs remote local) (remdups (map fst remote @ map fst local)))"

definition preview_inventory_difference :: "inventory_lib \<Rightarrow> string \<Rightarrow> string \<Rightarrow> nat res" where
  "preview_inventory_difference L remote local =
     bind_res (parse_inventory L remote) (\<lambda>r.
     bind_res (parse_inventory L local) (\<lambda>l. Inr (inventory_difference r l)))"

definition listing :: "string \<Rightarrow> path \<Rightarrow> (msg, string) prog" where
  "listing target filters =
     bindP (liftR (map_err (\<lambda>_. fl ''pending-count-request-failed'')
       (add_args [''lsjson'', target, ''--recursive'', ''--files-only'', ''--no-mimetype'',
                  ''--filter-from'', filters] (new_request RcloneExe)))) (\<lambda>r.
     bindP (map_errP (\<lambda>_. fl ''pending-count-rclone-mirror-unavailable'')
       (run_cmd (r\<lparr>req_timeout := from_secs 30, req_output_limit := 4 * 1024 * 1024\<rparr>))) (\<lambda>out.
     if incomplete out then fail response_incomplete else ret (co_text (out_stdout out))))"

definition rclone_preview_snapshot :: "inventory_lib \<Rightarrow> string \<Rightarrow> path \<Rightarrow> path \<Rightarrow> (msg, nat) prog" where
  "rclone_preview_snapshot L remote local filters =
     bindP is_cancelled (\<lambda>c. if c then fail (fl ''microsoft-oauth-cancelled'') else
     bindP (listing remote filters) (\<lambda>r.
     bindP (listing local filters) (\<lambda>l.
     bindP is_cancelled (\<lambda>c. if c then fail (fl ''microsoft-oauth-cancelled'') else
     liftR (preview_inventory_difference L r l)))))"

record preview_count =
  pc_version :: nat
  pc_connection_id :: connection_id
  pc_observed_unix_seconds :: nat
  pc_files :: "nat option"

definition preview_count_path :: "path \<Rightarrow> path" where
  "preview_count_path workdir = path_join workdir ''preview-pending.json''"

section \<open>Engine logs\<close>

text \<open>The count of \<open>.. <label> <n> changes: ..\<close> in a line: \<^const>\<open>None\<close> when the line has no such part.\<close>

definition changes_of :: "string \<Rightarrow> string \<Rightarrow> nat option option" where
  "changes_of label line =
     (case split_once label line of
        None \<Rightarrow> None
      | Some (_, rest) \<Rightarrow>
          (case split_once '' changes:'' (trim rest) of
             None \<Rightarrow> None
           | Some (count, _) \<Rightarrow> Some (parse_unsigned U64_MAX (trim count))))"

definition slot_update :: "string \<Rightarrow> string \<Rightarrow> nat option \<Rightarrow> nat option" where
  "slot_update label line slot = (case changes_of label line of None \<Rightarrow> slot | Some n \<Rightarrow> n)"

definition sat_add_u64 :: "nat \<Rightarrow> nat \<Rightarrow> nat" where
  "sat_add_u64 a b = min (a + b) U64_MAX"

fun count_matches :: "string \<Rightarrow> string \<Rightarrow> nat" where
  "count_matches pat [] = 0"
| "count_matches pat (c # s) =
     (if pat \<noteq> [] \<and> prefix pat (c # s) then Suc (count_matches pat (drop (length pat - 1) s))
      else count_matches pat s)"

definition parse_rclone_mirror_status :: "string \<Rightarrow> nat res" where
  "parse_rclone_mirror_status output =
     (if \<not> str_contains ''Bisync successful'' output then Inl (fl ''pending-count-mirror-unreadable'')
      else
        let path1 = foldl (\<lambda>s l. slot_update ''Path1:'' l s) None (lines output);
            path2 = foldl (\<lambda>s l. slot_update ''Path2:'' l s) None (lines output)
        in case (path1, path2) of
             (Some l, Some r) \<Rightarrow> Inr (sat_add_u64 l r)
           | (None, None) \<Rightarrow>
               if str_contains ''No changes found'' output then Inr 0
               else
                 let skipped = length (filter (str_contains ''Skipped copy as --dry-run is set'') (lines output))
                 in if 0 < skipped then Inr skipped
                    else if 2 \<le> count_matches ''There was nothing to transfer'' output then Inr 0
                    else Inl (fl ''pending-count-mirror-unreadable'')
           | _ \<Rightarrow> Inl (fl ''pending-count-mirror-unreadable''))"

section \<open>Live progress\<close>

record mirror_progress =
  mp_started :: bool
  mp_succeeded :: bool
  mp_failed :: bool
  mp_path1 :: "nat option"
  mp_path2 :: "nat option"
  mp_completed :: nat

definition default_progress :: mirror_progress where
  "default_progress =
     \<lparr>mp_started = False, mp_succeeded = False, mp_failed = False, mp_path1 = None, mp_path2 = None,
      mp_completed = 0\<rparr>"

definition observe :: "string \<Rightarrow> string option \<Rightarrow> mirror_progress \<Rightarrow> mirror_progress" where
  "observe message object p =
     (let p0 = (if str_contains ''Synching Path1'' message then default_progress\<lparr>mp_started := True\<rparr> else p)
      in if \<not> mp_started p0 then p0
         else
           let p1 = (if str_contains ''Bisync successful'' message then p0\<lparr>mp_succeeded := True\<rparr> else p0);
               p2 = (if str_contains ''Bisync critical error'' message
                        \<or> str_contains ''Bisync aborted'' message \<or> str_contains ''Bisync failed'' message
                     then p1\<lparr>mp_failed := True\<rparr> else p1);
               p3 = p2\<lparr>mp_path1 := slot_update ''Path1:'' message (mp_path1 p2),
                       mp_path2 := slot_update ''Path2:'' message (mp_path2 p2)\<rparr>
           in if object \<noteq> None \<and> (prefix ''Copied ('' message \<or> prefix ''Deleted'' message)
              then p3\<lparr>mp_completed := sat_add_u64 (mp_completed p3) 1\<rparr> else p3)"

definition progress_pending :: "mirror_progress \<Rightarrow> nat res" where
  "progress_pending p =
     (if mp_succeeded p then Inr 0
      else if mp_failed p then Inl (fl ''pending-count-rclone-mirror-unavailable'')
      else case (mp_path1 p, mp_path2 p) of
          (Some l, Some r) \<Rightarrow>
            let total = sat_add_u64 l r
            in Inr (max (total - mp_completed p) (if 0 < total then 1 else 0))
        | _ \<Rightarrow> Inl (fl ''pending-count-mirror-unreadable''))"

text \<open>The loop over the lines of the log, each with its line feed but perhaps the last.\<close>

fun observe_lines :: "json_lib \<Rightarrow> string list \<Rightarrow> mirror_progress \<Rightarrow> mirror_progress res" where
  "observe_lines J [] p = Inr p"
| "observe_lines J (line # ls) p =
     (if 1024 * 1024 < length line then Inl response_incomplete
      else case json_parse J line of
          None \<Rightarrow>
            if line = [] \<or> last line \<noteq> CHR 0x0A then Inr p
            else Inl (fl ''pending-count-mirror-unreadable'')
        | Some record \<Rightarrow>
            bind_res (ok_or (fl ''pending-count-mirror-unreadable'')
              (Option.bind (json_get ''msg'' record) as_str)) (\<lambda>message.
            observe_lines J ls
              (observe message (Option.bind (json_get ''object'' record) as_str) p)))"

end
