(* ===== verification/Bisync_Coordinator.thy ===== *)
theory Bisync_Coordinator
  imports Bisync_Requests Pending_Count Atomic_Files
begin

text \<open>
  \<open>src/src/bisync_coordinator.rs\<close>: the transaction of an Offline Mirror, from the lock to the recorded
  result.  The network verification of a SharePoint or OneDrive account, the Flatpak portal and the
  external crates are fields of \<open>coordinator_lib\<close>.
\<close>

section \<open>What the coordinator calls\<close>

record 'u coordinator_lib =
  cl_plan :: "'u plan_lib"
  cl_json :: json_lib
  cl_state :: state_codec
  cl_inventory :: inventory_lib
  cl_gmtime :: gmtime
  cl_encode_count :: "preview_count \<Rightarrow> string option"
  cl_graph :: "onedrive_error + unit"
  cl_teams_identity :: "string \<Rightarrow> sharepoint_identity \<Rightarrow> (msg, unit) prog"
  cl_onedrive_resource :: "onedrive_binding \<Rightarrow> connection \<Rightarrow> (onedrive_error, unit) prog"
  cl_portal :: "path \<Rightarrow> (msg, path) prog"

definition OWNER_MARKER :: string where "OWNER_MARKER = ''.cosmic-mounter-owner''"
definition RETENTION_DAYS :: nat where "RETENTION_DAYS = 32"

fun mode_operation :: "bisync_mode \<Rightarrow> offline_operation" where
  "mode_operation InitialPreview = OpInitialPreview"
| "mode_operation Preview = OpPreview"
| "mode_operation InitialSync = OpInitialSync"
| "mode_operation SyncRun = OpSync"
| "mode_operation Scheduled = OpScheduled"

record bisync_outcome =
  bo_output :: command_output
  bo_preview_pending :: "nat res option"
  bo_warnings :: "msg list"

text \<open>A clock reading as a value, an error before the epoch.\<close>

definition read_clock :: "('e, systime) prog" where
  "read_clock = tryP now"

section \<open>Guards\<close>

definition validate_connection :: "connection \<Rightarrow> unit res" where
  "validate_connection c =
     (if \<not> conn_enabled c \<or> is_online c
      then Inl (fl ''ui-bisync-coordinator-the-saved-connection-is-not-an-enabled'')
      else if is_rclone_onedrive c \<or> conn_provider c \<in> {Teams, GoogleDrive, Box, Smb, Sftp} then Inr ()
      else Inl (fl ''ui-bisync-coordinator-the-saved-connection-is-not-an-rclone''))"

definition initial_preview_marker :: "bisync_plan \<Rightarrow> path" where
  "initial_preview_marker plan = path_join (work_directory plan) ''initial-preview-confirmable''"

definition initial_sync_marker :: "bisync_plan \<Rightarrow> path" where
  "initial_sync_marker plan = path_join (work_directory plan) ''initial-sync-complete''"

definition validate_mode_markers :: "bisync_mode \<Rightarrow> bisync_plan \<Rightarrow> (msg, unit) prog" where
  "validate_mode_markers mode plan =
     bindP (path_is_file (initial_sync_marker plan)) (\<lambda>initialized.
       case mode of
         InitialPreview \<Rightarrow>
           if initialized
           then fail (fl ''ui-bisync-coordinator-initial-preview-is-unavailable-after-initialization'')
           else ret ()
       | Preview \<Rightarrow>
           if \<not> initialized
           then fail (fl ''ui-bisync-coordinator-normal-preview-requires-completed-initial-synchronization'')
           else ret ()
       | InitialSync \<Rightarrow>
           if initialized
           then fail (fl ''ui-bisync-coordinator-initial-synchronization-is-already-complete'')
           else bindP (path_is_file (initial_preview_marker plan)) (\<lambda>previewed.
             if \<not> previewed
             then fail (fl ''ui-bisync-coordinator-initial-synchronization-requires-a-successful-preview'')
             else ret ())
       | _ \<Rightarrow>
           if \<not> initialized
           then fail (fl ''ui-bisync-coordinator-synchronization-requires-completed-initial-synchronization'')
           else ret ())"

text \<open>\<open>symlink_metadata(..).is_ok_and(is_symlink)\<close>.\<close>

definition is_symlink_at :: "path \<Rightarrow> ('e, bool) prog" where
  "is_symlink_at p =
     bindP (tryP (symlink_metadata p)) (\<lambda>r. ret (case r of Inr (Symlink _) \<Rightarrow> True | _ \<Rightarrow> False))"

text \<open>The text of an ownership marker.\<close>

definition owner_line :: "connection_id \<Rightarrow> string" where
  "owner_line cid = conn_uuid cid @ nl"

definition validate_local_access_marker :: "connection \<Rightarrow> bisync_plan \<Rightarrow> (msg, unit) prog" where
  "validate_local_access_marker c plan =
     (case access_marker_name plan of
        None \<Rightarrow> ret ()
      | Some name \<Rightarrow>
          let p = path_join (local_path c) name in
          bindP (map_errP (\<lambda>_. fl ''ui-bisync-coordinator-sharepoint-access-marker-is-missing'')
            (symlink_metadata p)) (\<lambda>n.
          if \<not> (case n of File _ \<Rightarrow> True | _ \<Rightarrow> False)
          then fail (fl ''ui-bisync-coordinator-sharepoint-access-marker-is-unsafe'')
          else bindP (map_errP (err1 ''ui-bisync-coordinator-could-not-read-sharepoint-access-marker-error'')
            (read_to_string p)) (\<lambda>contents.
          if contents \<noteq> owner_line (conn_id c)
          then fail (fl ''ui-bisync-coordinator-sharepoint-access-marker-changed'')
          else ret ())))"

definition ensure_local_access_marker :: "connection \<Rightarrow> bisync_plan \<Rightarrow> (msg, unit) prog" where
  "ensure_local_access_marker c plan =
     (case access_marker_name plan of
        None \<Rightarrow> ret ()
      | Some name \<Rightarrow>
          let p = path_join (local_path c) name in
          bindP (path_exists p) (\<lambda>present.
          seqP (if present then ret ()
                else bindP (path_exists (initial_sync_marker plan)) (\<lambda>initialized.
                  whenP (\<not> initialized)
                    (seqP (map_errP (err1 ''ui-bisync-coordinator-could-not-create-sharepoint-access-marker-error'')
                             (open_create_new p))
                          (map_errP (err1 ''ui-bisync-coordinator-could-not-write-sharepoint-access-marker-error'')
                             (write_all p (owner_line (conn_id c)))))))
               (validate_local_access_marker c plan)))"

text \<open>The error text of the access markers: OneDrive reports one message for every failure.\<close>

definition ownership_error :: "connection \<Rightarrow> msg \<Rightarrow> msg" where
  "ownership_error c e = (if conn_provider c = OneDrive then onedrive_error_text OdOwnership else e)"

definition prepare_inputs :: "connection \<Rightarrow> bisync_plan \<Rightarrow> bisync_mode \<Rightarrow> (msg, unit) prog" where
  "prepare_inputs c plan mode =
     bindP (is_symlink_at (local_path c)) (\<lambda>linked.
     if linked then fail (fl ''mirror-access-unavailable'') else
     bindP (is_symlink_at (bp_recovery_directory plan)) (\<lambda>linked.
     if linked then fail (fl ''ui-bisync-coordinator-recovery-root-is-a-symlink'') else
     seqP (map_errP (err1 ''ui-bisync-coordinator-could-not-create-mirror-directory-error'')
             (create_dir_all (local_path c)))
    (seqP (map_errP (err1 ''ui-bisync-coordinator-could-not-create-bisync-work-directory-error'')
             (create_dir_all (work_directory plan)))
    (seqP (map_errP (err1 ''ui-bisync-coordinator-could-not-create-recovery-directory-error'')
             (create_dir_all (bp_recovery_directory plan)))
    (seqP (write_atomic (filters_file plan) (rclone_bisync_filter_file_for_connection c))
          (if is_rclone_onedrive c \<and> mode = InitialPreview then ret ()
           else map_errP (ownership_error c) (ensure_local_access_marker c plan)))))))"

definition run_rclone :: "string list \<Rightarrow> duration \<Rightarrow> (command_error \<Rightarrow> msg) \<Rightarrow> (msg, command_output) prog" where
  "run_rclone args t g = bindP (liftR (rclone_request args t)) (\<lambda>r. map_errP g (run_cmd r))"

definition validate_remote_access_marker ::
  "connection \<Rightarrow> bisync_plan \<Rightarrow> bisync_mode \<Rightarrow> (msg, unit) prog" where
  "validate_remote_access_marker c plan mode =
     (case access_marker_name plan of
        None \<Rightarrow> ret ()
      | Some name \<Rightarrow>
          if mode_initial mode then ret ()
          else
            bindP (run_rclone [''cat'', trim_end_char (CHR ''/'') (path1_remote plan) @ ''/'' @ name] (from_secs 60)
              (\<lambda>_. fl ''ui-bisync-coordinator-sharepoint-remote-access-marker-is-missing'')) (\<lambda>out.
            bindP (liftR (complete_stdout out (fl ''ui-bisync-coordinator-sharepoint-remote-access-marker'')))
              (\<lambda>text.
            if trim_end text \<noteq> conn_uuid (conn_id c)
            then fail (fl ''ui-bisync-coordinator-sharepoint-remote-access-marker-changed'')
            else ret ())))"

section \<open>Recovery directories\<close>

definition validate_local_owner :: "path \<Rightarrow> connection_id \<Rightarrow> (msg, unit) prog" where
  "validate_local_owner directory cid =
     (let marker = path_join directory OWNER_MARKER in
      bindP (tryP (symlink_metadata marker)) (\<lambda>r.
      if is_ok r then
        bindP (is_symlink_at marker) (\<lambda>linked.
        if linked then fail (fl ''ui-bisync-coordinator-local-recovery-owner-marker-is-a-symlink'')
        else bindP (map_errP (err1 ''ui-bisync-coordinator-could-not-read-recovery-owner-error'')
            (read_to_string marker)) (\<lambda>contents.
        if trim_end contents \<noteq> conn_uuid cid
        then fail (fl ''ui-bisync-coordinator-local-recovery-directory-belongs-to-another-connection'')
        else ret ()))
      else
        bindP (map_errP (err1 ''ui-bisync-coordinator-could-not-inspect-recovery-directory-error'')
          (read_dir directory)) (\<lambda>entries.
        if entries \<noteq> [] then fail (fl ''ui-bisync-coordinator-local-recovery-directory-is-not-applet-owned'')
        else ret ())))"

definition recovery_target :: "bisync_plan \<Rightarrow> string \<Rightarrow> string" where
  "recovery_target plan day = trim_end_char (CHR ''/'') (remote_recovery_path plan) @ ''/'' @ day"

definition stage_failure :: "json_lib \<Rightarrow> string \<Rightarrow> command_error \<Rightarrow> msg" where
  "stage_failure J k e = command_failure J (fl k) e"

definition prepare_recovery ::
  "json_lib \<Rightarrow> connection \<Rightarrow> bisync_plan \<Rightarrow> string \<Rightarrow> (msg, unit) prog" where
  "prepare_recovery J c plan day =
     (let local = path_join (bp_recovery_directory plan) day;
          remote = recovery_target plan day;
          remote_marker = remote @ ''/'' @ OWNER_MARKER
      in
      bindP (is_symlink_at local) (\<lambda>linked.
      if linked then fail (fl ''ui-bisync-coordinator-recovery-path-is-a-symlink'') else
      seqP (map_errP (err1 ''ui-bisync-coordinator-could-not-create-local-recovery-directory-error'')
              (create_dir_all local))
     (seqP (validate_local_owner local (conn_id c))
     (seqP (write_atomic (path_join local OWNER_MARKER) (owner_line (conn_id c)))
     (seqP (bindP (run_rclone [''mkdir'', remote] (from_secs 60)
              (stage_failure J ''ui-bisync-coordinator-remote-recovery-preparation'')) (\<lambda>_. ret ()))
     (bindP (liftR (rclone_request [''cat'', remote_marker] (from_secs 60))) (\<lambda>cat.
      bindP (tryP (run_cmd cat)) (\<lambda>answer.
      bindP (case answer of
               Inr out \<Rightarrow>
                 bindP (liftR (complete_stdout out (fl ''ui-bisync-coordinator-remote-recovery-owner'')))
                   (\<lambda>text. ret (trim_end text))
             | Inl (NonZero _ _ _ _) \<Rightarrow> ret []
             | Inl e \<Rightarrow>
                 fail (stage_failure J ''ui-bisync-coordinator-remote-recovery-owner-inspection'' e)) (\<lambda>owner.
      if owner \<noteq> [] \<and> owner \<noteq> conn_uuid (conn_id c)
      then fail (fl ''ui-bisync-coordinator-remote-recovery-directory-belongs-to-another-connection'') else
      seqP (whenP (owner = [])
              (bindP (run_rclone [''lsf'', remote] (from_secs 60)
                 (stage_failure J ''ui-bisync-coordinator-remote-recovery-ownership-check'')) (\<lambda>out.
               bindP (liftR (complete_stdout out (fl ''ui-bisync-coordinator-remote-recovery-listing'')))
                 (\<lambda>text.
               if trim text \<noteq> []
               then fail (fl ''ui-bisync-coordinator-remote-recovery-directory-is-not-applet-owned'')
               else ret ()))))
     (bindP new_uuid (\<lambda>u.
      let marker = path_join (work_directory plan) (''.remote-owner-'' @ u @ ''.tmp'') in
      seqP (write_private marker (owner_line (conn_id c)))
     (bindP (liftR (rclone_request [''copyto'', marker, remote_marker] (from_secs 60))) (\<lambda>copy.
      bindP (tryP (map_errP (stage_failure J ''ui-bisync-coordinator-remote-recovery-owner-publication'')
          (run_cmd copy))) (\<lambda>result.
      seqP (seqP (tryP (remove_file marker)) (ret ()))
           (bindP (liftR result) (\<lambda>_. ret ()))))))))))))))))"

section \<open>Retention\<close>

record cleanup_issues =
  ri_local_listing_failed :: bool
  ri_local_entries_unreadable :: nat
  ri_local_ownership_unverified :: nat
  ri_local_deletions_failed :: nat
  ri_remote_listing_failed :: bool
  ri_remote_ownership_unverified :: nat
  ri_remote_deletions_failed :: nat
  ri_cancelled :: bool

definition no_issues :: cleanup_issues where
  "no_issues =
     \<lparr>ri_local_listing_failed = False, ri_local_entries_unreadable = 0, ri_local_ownership_unverified = 0,
      ri_local_deletions_failed = 0, ri_remote_listing_failed = False, ri_remote_ownership_unverified = 0,
      ri_remote_deletions_failed = 0, ri_cancelled = False\<rparr>"

definition counted :: "string \<Rightarrow> nat \<Rightarrow> msg list" where
  "counted k n = (if 0 < n then [Fl k [(''count'', Lit (show_nat n))]] else [])"

definition issue_warnings :: "cleanup_issues \<Rightarrow> msg list" where
  "issue_warnings i =
     (if ri_cancelled i
      then [fl ''ui-bisync-coordinator-retention-cleanup-was-interrupted-after-synchronization-succeeded'']
      else [])
     @ (if ri_local_listing_failed i
        then [fl ''ui-bisync-coordinator-local-retention-cleanup-could-not-inspect-the''] else [])
     @ counted ''ui-bisync-coordinator-local-retention-cleanup-could-not-inspect-value1''
         (ri_local_entries_unreadable i)
     @ counted ''ui-bisync-coordinator-local-retention-cleanup-preserved-value1-expired-recovery''
         (ri_local_ownership_unverified i)
     @ counted ''ui-bisync-coordinator-local-retention-cleanup-could-not-remove-value1''
         (ri_local_deletions_failed i)
     @ (if ri_remote_listing_failed i
        then [fl ''ui-bisync-coordinator-remote-retention-cleanup-could-not-list-the''] else [])
     @ counted ''ui-bisync-coordinator-remote-retention-cleanup-preserved-value1-expired-recovery''
         (ri_remote_ownership_unverified i)
     @ counted ''ui-bisync-coordinator-remote-retention-cleanup-could-not-remove-value1''
         (ri_remote_deletions_failed i)"

definition local_unverified :: "cleanup_issues \<Rightarrow> cleanup_issues" where
  "local_unverified i = i\<lparr>ri_local_ownership_unverified := Suc (ri_local_ownership_unverified i)\<rparr>"

definition remote_unverified :: "cleanup_issues \<Rightarrow> cleanup_issues" where
  "remote_unverified i = i\<lparr>ri_remote_ownership_unverified := Suc (ri_remote_ownership_unverified i)\<rparr>"

definition remote_not_deleted :: "cleanup_issues \<Rightarrow> cleanup_issues" where
  "remote_not_deleted i = i\<lparr>ri_remote_deletions_failed := Suc (ri_remote_deletions_failed i)\<rparr>"

text \<open>One entry of the local recovery directory: deleted when it is an owned, expired day.\<close>

definition cleanup_local_entry ::
  "connection \<Rightarrow> bisync_plan \<Rightarrow> string \<Rightarrow> string \<Rightarrow> cleanup_issues \<Rightarrow> ('e, cleanup_issues) prog" where
  "cleanup_local_entry c plan cutoff name i =
     (if \<not> strict_day name \<or> cutoff \<le> name then ret i
      else
        let p = path_join (bp_recovery_directory plan) name; marker = path_join p OWNER_MARKER in
        bindP (tryP (symlink_metadata p)) (\<lambda>m.
        if m \<noteq> Inr Dir then ret (local_unverified i)
        else bindP (tryP (symlink_metadata marker)) (\<lambda>mm.
        if \<not> (case mm of Inr (File _) \<Rightarrow> True | _ \<Rightarrow> False) then ret (local_unverified i)
        else bindP (tryP (read_to_string marker)) (\<lambda>owner.
        case owner of
          Inl _ \<Rightarrow> ret (local_unverified i)
        | Inr text \<Rightarrow>
            if trim_end text \<noteq> conn_uuid (conn_id c) then ret i
            else bindP (tryP (remove_dir_all p)) (\<lambda>r.
              ret (if is_err r then i\<lparr>ri_local_deletions_failed := Suc (ri_local_deletions_failed i)\<rparr>
                   else i))))))"

text \<open>The loops answer whether they were stopped by a cancellation, and the issues so far.\<close>

fun cleanup_local ::
  "connection \<Rightarrow> bisync_plan \<Rightarrow> string \<Rightarrow> string list \<Rightarrow> cleanup_issues
     \<Rightarrow> ('e, bool \<times> cleanup_issues) prog" where
  "cleanup_local c plan cutoff [] i = ret (False, i)"
| "cleanup_local c plan cutoff (n # ns) i =
     bindP (tryP (next_entry n)) (\<lambda>entry.
     case entry of
       Inl _ \<Rightarrow>
         cleanup_local c plan cutoff ns
           (i\<lparr>ri_local_entries_unreadable := Suc (ri_local_entries_unreadable i)\<rparr>)
     | Inr name \<Rightarrow>
         bindP is_cancelled (\<lambda>stop.
         if stop then ret (True, i\<lparr>ri_cancelled := True\<rparr>)
         else bindP (cleanup_local_entry c plan cutoff name i) (cleanup_local c plan cutoff ns)))"

definition cleanup_remote_entry ::
  "connection \<Rightarrow> bisync_plan \<Rightarrow> string \<Rightarrow> string \<Rightarrow> cleanup_issues \<Rightarrow> ('e, cleanup_issues) prog" where
  "cleanup_remote_entry c plan cutoff entry i =
     (let name = trim_end_char (CHR ''/'') entry in
      if \<not> strict_day name \<or> cutoff \<le> name then ret i
      else
        let target = recovery_target plan name; marker = target @ ''/'' @ OWNER_MARKER in
        case rclone_request [''cat'', marker] (from_secs 60) of
          Inl _ \<Rightarrow> ret (remote_unverified i)
        | Inr cat \<Rightarrow>
            bindP (tryP (run_cmd cat)) (\<lambda>answer.
            case bind_res (map_err (\<lambda>_. ()) answer)
                   (\<lambda>out. map_err (\<lambda>_. ()) (complete_stdout out (fl ''ui-bisync-coordinator-retention-owner''))) of
              Inl _ \<Rightarrow> ret (remote_unverified i)
            | Inr owner \<Rightarrow>
                if trim_end owner \<noteq> conn_uuid (conn_id c) then ret i
                else case rclone_request [''purge'', target] (from_secs 60) of
                    Inl _ \<Rightarrow> ret (remote_not_deleted i)
                  | Inr purge \<Rightarrow>
                      bindP (tryP (run_cmd purge)) (\<lambda>r. ret (if is_err r then remote_not_deleted i else i))))"

fun cleanup_remote ::
  "connection \<Rightarrow> bisync_plan \<Rightarrow> string \<Rightarrow> string list \<Rightarrow> cleanup_issues
     \<Rightarrow> ('e, bool \<times> cleanup_issues) prog" where
  "cleanup_remote c plan cutoff [] i = ret (False, i)"
| "cleanup_remote c plan cutoff (n # ns) i =
     bindP is_cancelled (\<lambda>stop.
     if stop then ret (True, i\<lparr>ri_cancelled := True\<rparr>)
     else bindP (cleanup_remote_entry c plan cutoff n i) (cleanup_remote c plan cutoff ns))"

definition remote_listing_failed :: "cleanup_issues \<Rightarrow> msg list" where
  "remote_listing_failed i = issue_warnings (i\<lparr>ri_remote_listing_failed := True\<rparr>)"

definition cleanup_retention :: "gmtime \<Rightarrow> connection \<Rightarrow> bisync_plan \<Rightarrow> ('e, msg list) prog" where
  "cleanup_retention G c plan =
     bindP is_cancelled (\<lambda>stop.
     if stop then ret (issue_warnings (no_issues\<lparr>ri_cancelled := True\<rparr>)) else
     bindP read_clock (\<lambda>t.
     case utc_day G (systime_minus t (RETENTION_DAYS * 86400)) of
       Inl _ \<Rightarrow>
         ret (issue_warnings (no_issues\<lparr>ri_local_listing_failed := True, ri_remote_listing_failed := True\<rparr>))
     | Inr cutoff \<Rightarrow>
         bindP (tryP (read_dir (bp_recovery_directory plan))) (\<lambda>entries.
         bindP (case entries of
                  Inr ns \<Rightarrow> cleanup_local c plan cutoff ns no_issues
                | Inl _ \<Rightarrow> ret (False, no_issues\<lparr>ri_local_listing_failed := True\<rparr>)) (\<lambda>(stopped, i).
         if stopped then ret (issue_warnings i) else
         bindP is_cancelled (\<lambda>stop.
         if stop then ret (issue_warnings (i\<lparr>ri_cancelled := True\<rparr>)) else
         case rclone_request [''lsf'', ''--dirs-only'', ''--max-depth'', ''1'', remote_recovery_path plan]
                (from_secs 60) of
           Inl _ \<Rightarrow> ret (remote_listing_failed i)
         | Inr request \<Rightarrow>
             bindP (tryP (run_cmd request)) (\<lambda>answer.
             case answer of
               Inl _ \<Rightarrow> ret (remote_listing_failed i)
             | Inr out \<Rightarrow>
                 if is_err (complete_stdout out (fl ''ui-bisync-coordinator-retention-listing''))
                 then ret (remote_listing_failed i)
                 else bindP (cleanup_remote c plan cutoff (lines (co_text (out_stdout out))) i)
                        (\<lambda>(stopped, i'). ret (issue_warnings i')))))))) "

section \<open>The transaction\<close>

definition env_var :: "string \<Rightarrow> ('e, string option) prog" where
  "env_var name = (\<lambda>env w. (Inr (e_var env name), w))"

definition prepare_scheduled_progress_for_invocation :: "bisync_plan \<Rightarrow> string \<Rightarrow> (msg, unit) prog" where
  "prepare_scheduled_progress_for_invocation plan invocation =
     (if length invocation \<noteq> 32 \<or> \<not> list_all is_ascii_hexdigit invocation
      then fail (fl ''ui-bisync-coordinator-systemd-invocation-id-is-invalid'')
      else
        seqP (write_atomic (live_progress_log_path (work_directory plan)) [])
             (write_atomic (live_progress_state_path (work_directory plan))
               (''{'' @ [CHR 0x22] @ ''version'' @ [CHR 0x22] @ '':1,'' @ [CHR 0x22] @ ''invocation_id'' @ [CHR 0x22]
                @ '':'' @ [CHR 0x22] @ invocation @ [CHR 0x22] @ ''}'' @ nl)))"

definition prepare_scheduled_progress :: "bisync_plan \<Rightarrow> (msg, unit) prog" where
  "prepare_scheduled_progress plan =
     bindP (env_var ''INVOCATION_ID'') (\<lambda>v.
       case v of
         None \<Rightarrow> fail (fl ''ui-bisync-coordinator-systemd-invocation-id-is-unavailable'')
       | Some invocation \<Rightarrow> prepare_scheduled_progress_for_invocation plan invocation)"

definition bisync_stage :: "bisync_mode \<Rightarrow> msg" where
  "bisync_stage mode =
     Fl ''ui-bisync-coordinator-bisync-value1'' [(''value1'', Lit (mode_str mode))]"

definition run_engine :: "json_lib \<Rightarrow> bisync_mode \<Rightarrow> command_request \<Rightarrow> (msg, command_output) prog" where
  "run_engine J mode request = map_errP (command_failure J (bisync_stage mode)) (run_cmd request)"

text \<open>The estimate that an rclone OneDrive preview publishes beside its result.\<close>

definition preview_estimate ::
  "'u coordinator_lib \<Rightarrow> connection \<Rightarrow> bisync_plan \<Rightarrow> (msg, nat res option) prog" where
  "preview_estimate L c plan =
     (if \<not> is_rclone_onedrive c then ret None
      else
        bindP (tryP (rclone_preview_snapshot (cl_inventory L) (path1_remote plan) (path2_local plan)
          (filters_file plan))) (\<lambda>estimate.
        bindP is_cancelled (\<lambda>stop.
        if stop then fail (fl ''microsoft-oauth-cancelled'') else
        bindP read_clock (\<lambda>t.
        bindP (liftR (map_err (\<lambda>_. response_incomplete) t)) (\<lambda>(seconds, ns).
        bindP (liftR (ok_or response_incomplete (cl_encode_count L
          \<lparr>pc_version = 1, pc_connection_id = conn_id c, pc_observed_unix_seconds = seconds,
           pc_files = (case estimate of Inl _ \<Rightarrow> None | Inr n \<Rightarrow> Some n)\<rparr>))) (\<lambda>bytes.
        seqP (write_atomic (preview_count_path (work_directory plan)) bytes)
             (ret (Some estimate))))))))"

definition PREVIEW_MARKER_TEXT :: string where
  "PREVIEW_MARKER_TEXT = ''Cloud Mounter initial Preview completed.'' @ nl"

definition SYNC_MARKER_TEXT :: string where
  "SYNC_MARKER_TEXT = ''Cloud Mounter initial synchronization completed.'' @ nl"

definition transaction_preview ::
  "'u coordinator_lib \<Rightarrow> connection \<Rightarrow> bisync_plan \<Rightarrow> bisync_mode \<Rightarrow> command_request
     \<Rightarrow> (msg, bisync_outcome) prog" where
  "transaction_preview L c plan mode request =
     bindP (run_engine (cl_json L) mode request) (\<lambda>out.
     bindP (preview_estimate L c plan) (\<lambda>pending.
     seqP (whenP (mode = InitialPreview) (write_atomic (initial_preview_marker plan) PREVIEW_MARKER_TEXT))
          (ret \<lparr>bo_output = out, bo_preview_pending = pending, bo_warnings = []\<rparr>)))"

definition check_arguments :: "bisync_plan \<Rightarrow> string list" where
  "check_arguments plan =
     [''check'', path1_remote plan, path2_local plan, ''--checksum'', ''--filter-from'', filters_file plan]"

definition verify_sharepoint ::
  "json_lib \<Rightarrow> bisync_plan \<Rightarrow> bisync_mode \<Rightarrow> string \<Rightarrow> string \<Rightarrow> (msg, unit) prog" where
  "verify_sharepoint J plan mode day stamp =
     bindP (liftR (bisync_request plan (if mode = InitialSync then SyncRun else mode) day stamp)) (\<lambda>again.
     bindP (map_errP (command_failure J (fl ''ui-bisync-coordinator-sharepoint-convergence'')) (run_cmd again)) (\<lambda>_.
     bindP (run_rclone (check_arguments plan) (from_secs (15 * 60))
       (command_failure J (fl ''ui-bisync-coordinator-sharepoint-verification''))) (\<lambda>_. ret ())))"

definition verify_onedrive :: "connection \<Rightarrow> bisync_plan \<Rightarrow> path \<Rightarrow> (msg, unit) prog" where
  "verify_onedrive c plan mirror =
     seqP (map_errP (\<lambda>_. onedrive_error_text OdOwnership)
             (validate_local_access_marker (c\<lparr>local_path := mirror\<rparr>) plan))
    (seqP (map_errP (\<lambda>_. onedrive_error_text OdOwnership) (validate_remote_access_marker c plan SyncRun))
    (bindP (run_rclone (check_arguments plan) (from_secs (15 * 60))
       (\<lambda>_. fl ''onedrive-checksum-verification-failed'')) (\<lambda>_. ret ())))"

definition transaction_sync ::
  "'u coordinator_lib \<Rightarrow> connection \<Rightarrow> bisync_plan \<Rightarrow> bisync_mode \<Rightarrow> path \<Rightarrow> path \<Rightarrow> string \<Rightarrow> string
     \<Rightarrow> command_request \<Rightarrow> (msg, bisync_outcome) prog" where
  "transaction_sync L c plan mode mirror recovery day stamp request =
     (let J = cl_json L; local_plan = plan\<lparr>bp_recovery_directory := recovery\<rparr> in
      seqP (prepare_recovery J c local_plan day)
     (bindP (run_engine J mode request) (\<lambda>out.
      seqP (whenP (verify_after_sync plan) (verify_sharepoint J plan mode day stamp))
     (seqP (whenP (is_rclone_onedrive c \<and> mode \<in> {InitialSync, SyncRun}) (verify_onedrive c local_plan mirror))
     (bindP (cleanup_retention (cl_gmtime L) c local_plan) (\<lambda>warnings.
      seqP (whenP (mode = InitialSync)
              (seqP (write_atomic (initial_sync_marker plan) SYNC_MARKER_TEXT)
                    (remove_if_exists (initial_preview_marker plan))))
           (ret \<lparr>bo_output = out, bo_preview_pending = None, bo_warnings = warnings\<rparr>)))))))"

definition run_transaction ::
  "'u coordinator_lib \<Rightarrow> connection \<Rightarrow> bisync_plan \<Rightarrow> bisync_mode \<Rightarrow> path \<Rightarrow> path
     \<Rightarrow> (msg, bisync_outcome) prog" where
  "run_transaction L c plan mode mirror recovery =
     bindP read_clock (\<lambda>t.
     bindP (liftR (utc_day_and_stamp (cl_gmtime L) t)) (\<lambda>(day, stamp).
     seqP (whenP (mode = Scheduled) (prepare_scheduled_progress plan))
    (seqP (map_errP (ownership_error c) (validate_remote_access_marker c plan mode))
    (bindP (liftR (bisync_request plan mode day stamp)) (\<lambda>request.
     if mode_preview mode then transaction_preview L c plan mode request
     else transaction_sync L c plan mode mirror recovery day stamp request)))))"

section \<open>The operation lock\<close>

definition lock_directory :: "path \<Rightarrow> connection_id \<Rightarrow> path" where
  "lock_directory work_root cid = path_join (path_join work_root ''offline-coordinator'') (conn_uuid cid)"

definition lock_file :: "path \<Rightarrow> path" where
  "lock_file directory = path_join directory ''operation.lock''"

text \<open>Opening and locking the file in a directory; \<open>busy\<close> is the message for a lock that is held.\<close>

definition acquire_in :: "path \<Rightarrow> string \<Rightarrow> (msg, path) prog" where
  "acquire_in directory busy =
     seqP (map_errP (err1 ''ui-bisync-coordinator-could-not-create-coordinator-lock-directory-error'')
             (create_dir_all directory))
    (seqP (map_errP (err1 ''ui-bisync-coordinator-could-not-open-coordinator-lock-error'')
             (open_or_create (lock_file directory)))
    (seqP (map_errP (err1 ''ui-bisync-coordinator-could-not-restrict-coordinator-lock-error'')
             (set_permissions (lock_file directory)))
    (bindP (try_flock (lock_file directory)) (\<lambda>locked.
     if locked then ret (lock_file directory) else fail (fl busy)))))"

definition acquire_operation_guard :: "path \<Rightarrow> connection_id \<Rightarrow> (msg, path) prog" where
  "acquire_operation_guard work_root cid =
     acquire_in (lock_directory work_root cid)
       ''ui-bisync-coordinator-another-offline-mirror-operation-is-already-running''"

definition acquire_operation_guard_for_state :: "path \<Rightarrow> (msg, path) prog" where
  "acquire_operation_guard_for_state state =
     (if \<not> has_parent state
      then fail (fl ''ui-bisync-coordinator-coordinator-state-has-no-parent-directory'')
      else acquire_in (parent_of state)
             ''ui-bisync-coordinator-another-offline-mirror-operation-is-still-running'')"

section \<open>One operation\<close>

definition verify_teams_binding ::
  "'u coordinator_lib \<Rightarrow> connection \<Rightarrow> mirror_guard_binding \<Rightarrow> (msg, unit) prog" where
  "verify_teams_binding L c b =
     seqP (liftR (mirror_matches_saved (pl_url (cl_plan L)) b c))
    (bindP (liftR (ok_or (fl ''ui-teams-the-sharepoint-connection-has-no-verified-library'') (teams_identity c)))
      (\<lambda>expected.
     seqP (cl_teams_identity L (mg_remote_name b) expected)
    (bindP (liftR (map_err command_error_text
        (add_args [''lsf'', mg_remote_name b @ '':'' @ mg_remote_subpath b, ''--max-depth'', ''1'']
          (new_request RcloneExe)))) (\<lambda>r.
     bindP (map_errP (\<lambda>e. rclone_read_error e (mg_remote_subpath b \<noteq> []))
       (run_cmd (r\<lparr>req_timeout := from_secs 20, req_output_limit := 16 * 1024\<rparr>))) (\<lambda>_. ret ())))))"

definition verify_onedrive_binding ::
  "'u coordinator_lib \<Rightarrow> connection \<Rightarrow> onedrive_binding \<Rightarrow> (onedrive_error, unit) prog" where
  "verify_onedrive_binding L c b =
     seqP (liftR (onedrive_matches_saved b c)) (cl_onedrive_resource L b c)"

definition verify_target :: "'u coordinator_lib \<Rightarrow> connection \<Rightarrow> bool \<Rightarrow> (msg, unit) prog" where
  "verify_target L c has_graph =
     seqP (whenP (conn_provider c = Teams)
             (bindP (liftR (mirror_binding_from (pl_url (cl_plan L)) c)) (verify_teams_binding L c)))
          (whenP (is_rclone_onedrive c)
             (bindP (liftR (map_err onedrive_error_text (onedrive_binding_from c))) (\<lambda>b.
              if \<not> has_graph then fail (onedrive_error_text OdInvalidState)
              else map_errP onedrive_error_text (verify_onedrive_binding L c b))))"

definition native_paths :: "connection \<Rightarrow> (path \<times> path) res" where
  "native_paths c =
     (case conn_mode c of
        OnlineMount _ \<Rightarrow> Inl (fl ''mirror-access-unavailable'')
      | OfflineMirror opts \<Rightarrow> Inr (local_path c, recovery_directory opts))"

definition resolve_paths :: "'u coordinator_lib \<Rightarrow> connection \<Rightarrow> (msg, path \<times> path) prog" where
  "resolve_paths L c =
     bindP is_cancelled (\<lambda>stop.
     if stop then fail (fl ''mirror-access-unavailable'') else
     bindP (liftR (native_paths c)) (\<lambda>(mirror, recovery).
     if xe_mode (pl_exec (cl_plan L)) = Native then ret (mirror, recovery)
     else bindP (cl_portal L mirror) (\<lambda>m. bindP (cl_portal L recovery) (\<lambda>r. ret (m, r)))))"

text \<open>From the Running state to the final one.\<close>

definition record_state ::
  "'u coordinator_lib \<Rightarrow> path \<Rightarrow> connection_id \<Rightarrow> bisync_mode \<Rightarrow> offline_operation_state \<Rightarrow> msg list
     \<Rightarrow> (msg, unit) prog" where
  "record_state L state cid mode st warnings =
     bindP (new_state cid (mode_operation mode) st) (\<lambda>s.
       write_state (cl_state L) state (with_warnings warnings s))"

definition recorded_transaction ::
  "'u coordinator_lib \<Rightarrow> connection \<Rightarrow> bisync_mode \<Rightarrow> bisync_plan \<Rightarrow> path \<Rightarrow> path \<Rightarrow> path
     \<Rightarrow> (msg, bisync_outcome) prog" where
  "recorded_transaction L c mode plan state mirror recovery =
     seqP (record_state L state (conn_id c) mode StRunning [])
    (bindP (tryP (run_transaction L c plan mode mirror recovery)) (\<lambda>result.
     bindP (if is_ok result then ret StSucceeded
            else bindP is_cancelled (\<lambda>stop. ret (if stop then StCancelled else StFailed))) (\<lambda>final.
     bindP (tryP (record_state L state (conn_id c) mode final
         (case result of Inr outcome \<Rightarrow> bo_warnings outcome | Inl _ \<Rightarrow> []))) (\<lambda>recorded.
     case result of
       Inl e \<Rightarrow> fail e
     | Inr outcome \<Rightarrow> (case recorded of Inl e \<Rightarrow> fail e | Inr _ \<Rightarrow> ret outcome)))))"

definition run_plan_locked ::
  "'u coordinator_lib \<Rightarrow> connection \<Rightarrow> bisync_mode \<Rightarrow> path \<Rightarrow> bisync_plan \<Rightarrow> bool
     \<Rightarrow> (msg, bisync_outcome) prog" where
  "run_plan_locked L c mode work_root plan has_graph =
     seqP (validate_mode_markers mode plan)
    (seqP (verify_target L c has_graph)
    (bindP (resolve_paths L c) (\<lambda>(mirror, recovery).
     seqP (prepare_inputs (c\<lparr>local_path := mirror\<rparr>) (plan\<lparr>bp_recovery_directory := recovery\<rparr>) mode)
    (seqP (whenP (is_rclone_onedrive c) (remove_if_exists (preview_count_path (work_directory plan))))
    (let state = state_path work_root (conn_id c) in
     bindP (read_state (cl_state L) state) (\<lambda>existing.
     if (case existing of Some s \<Rightarrow> cs_state s = StRunning | None \<Rightarrow> False)
     then fail (fl ''ui-bisync-coordinator-another-offline-mirror-operation-is-already-running'')
     else recorded_transaction L c mode plan state mirror recovery))))))"

definition run_plan ::
  "'u coordinator_lib \<Rightarrow> connection \<Rightarrow> bisync_mode \<Rightarrow> path \<Rightarrow> bisync_plan \<Rightarrow> bool
     \<Rightarrow> (msg, bisync_outcome) prog" where
  "run_plan L c mode work_root plan has_graph =
     bindP (acquire_operation_guard work_root (conn_id c)) (\<lambda>lock.
     bindP (tryP (run_plan_locked L c mode work_root plan has_graph)) (\<lambda>r.
     seqP (unlock lock) (liftR r)))"

text \<open>\<open>run\<close>: the production entry point for a connection.\<close>

definition run_bisync ::
  "'u coordinator_lib \<Rightarrow> connection \<Rightarrow> bisync_mode \<Rightarrow> path \<Rightarrow> (msg, bisync_outcome) prog" where
  "run_bisync L c mode work_root =
     seqP (liftR (validate_connection c))
    (bindP (liftR (map_err sync_error_text (rclone_bisync_plan (cl_plan L) c work_root))) (\<lambda>plan.
     seqP (liftR (if conn_provider c = OneDrive then map_err onedrive_error_text (cl_graph L) else Inr ()))
          (run_plan L c mode work_root plan (conn_provider c = OneDrive))))"

end
