(* ===== verification/Coordinator_Events.thy ===== *)
theory Coordinator_Events
  imports Bisync_Coordinator
begin

text \<open>
  Which commands and deletions the coordinator performs: \<open>emits env P m\<close> says that every event that
  \<open>m\<close> adds to the log, on success and on error, satisfies \<open>P\<close>.  The rules push it through a program, so
  each property is the condition on the requests that the program builds.
\<close>

section \<open>Emitted events\<close>

definition emits :: "env \<Rightarrow> (event \<Rightarrow> bool) \<Rightarrow> ('e, 'a) prog \<Rightarrow> bool" where
  "emits env P m =
     (\<forall>w. \<exists>new. events (snd (m env w)) = events w @ new \<and> list_all P new
            \<and> locks (snd (m env w)) = locks w)"

named_theorems emits_intros \<open>rules that push a condition on events through a program\<close>

lemma emitsD:
  "emits env P m \<Longrightarrow> m env w = (r, w') \<Longrightarrow>
     \<exists>new. events w' = events w @ new \<and> list_all P new \<and> locks w' = locks w"
  unfolding emits_def by (metis snd_conv)

lemma emitsI:
  "(\<And>w r w'. m env w = (r, w') \<Longrightarrow>
     \<exists>new. events w' = events w @ new \<and> list_all P new \<and> locks w' = locks w) \<Longrightarrow> emits env P m"
  unfolding emits_def by (metis prod.collapse)

lemma emits_silent:
  "(\<And>w. events (snd (m env w)) = events w \<and> locks (snd (m env w)) = locks w) \<Longrightarrow> emits env P m"
  by (auto simp: emits_def)

lemma emits_prims [emits_intros, simp]:
  "emits env P (ret x)" "emits env P (fail e)" "emits env P (liftR r)"
  "emits env P (symlink_metadata p)" "emits env P (read_to_string p)" "emits env P (read_dir p)"
  "emits env P (next_entry n)" "emits env P (create_dir_all p)" "emits env P (set_permissions p)"
  "emits env P (open_create_new p)" "emits env P (open_or_create p)" "emits env P (write_all p c)"
  "emits env P (sync_all p)" "emits env P (rename_file p p')" "emits env P (remove_file p)"
  "emits env P (path_is_file p)" "emits env P (path_exists p)" "emits env P is_cancelled"
  "emits env P now" "emits env P new_uuid" "emits env P (env_var v)"
  by (rule emits_silent; simp add: symlink_metadata_def read_to_string_def read_dir_def next_entry_def
      create_dir_all_def set_permissions_def open_create_new_def open_or_create_def write_all_def
      sync_all_def rename_file_def remove_file_def fs_step_def path_is_file_def path_exists_def
      is_cancelled_def now_def new_uuid_def env_var_def Let_def
      split: option.split prod.split)+

lemma emits_run_cmd [emits_intros]: "P (Ran r) \<Longrightarrow> emits env P (run_cmd r)"
  by (auto simp: emits_def run_cmd_def split: prod.split)

lemma emits_log_event [emits_intros]: "P ev \<Longrightarrow> emits env P (log_event ev)"
  by (auto simp: emits_def log_event_def)

lemma emits_bind [emits_intros]:
  assumes "emits env P m" and "\<And>x. emits env P (f x)"
  shows "emits env P (bindP m f)"
proof (rule emitsI)
  fix w r w'
  assume run: "bindP m f env w = (r, w')"
  obtain r1 w1 where m: "m env w = (r1, w1)" by (cases "m env w")
  from emitsD [OF assms(1) m] obtain n1 where n1: "events w1 = events w @ n1" "list_all P n1" "locks w1 = locks w"
    by blast
  show "\<exists>new. events w' = events w @ new \<and> list_all P new \<and> locks w' = locks w"
  proof (cases r1)
    case (Inl e)
    with run m n1 show ?thesis by (auto simp: bindP_def)
  next
    case (Inr x)
    with run m have "f x env w1 = (r, w')" by (simp add: bindP_def)
    from emitsD [OF assms(2) this] n1 show ?thesis by force
  qed
qed

lemma emits_seq [emits_intros]: "emits env P m \<Longrightarrow> emits env P n \<Longrightarrow> emits env P (seqP m n)"
  unfolding seqP_def by (rule emits_bind)

lemma emits_map_err [emits_intros]: "emits env P m \<Longrightarrow> emits env P (map_errP g m)"
  by (auto simp: emits_def map_errP_def split: prod.split) (metis snd_conv)

lemma emits_try [emits_intros]: "emits env P m \<Longrightarrow> emits env P (tryP m)"
  by (auto simp: emits_def tryP_def split: prod.split) (metis snd_conv)

lemma emits_when [emits_intros]: "(b \<Longrightarrow> emits env P m) \<Longrightarrow> emits env P (whenP b m)"
  by (simp add: whenP_def)

lemma emits_if [emits_intros]:
  "(b \<Longrightarrow> emits env P m) \<Longrightarrow> (\<not> b \<Longrightarrow> emits env P n) \<Longrightarrow> emits env P (if b then m else n)"
  by simp

lemma emits_let [emits_intros]: "emits env P (f x) \<Longrightarrow> emits env P (let y = x in f y)"
  by (simp add: Let_def)

lemma emits_prod [emits_intros]: "(\<And>a b. emits env P (f a b)) \<Longrightarrow> emits env P (case x of (a, b) \<Rightarrow> f a b)"
  by (cases x) simp

lemma emits_option [emits_intros]:
  "emits env P m \<Longrightarrow> (\<And>x. v = Some x \<Longrightarrow> emits env P (f x)) \<Longrightarrow>
     emits env P (case v of None \<Rightarrow> m | Some x \<Rightarrow> f x)"
  by (cases v) simp_all

lemma emits_sum [emits_intros]:
  "(\<And>e. v = Inl e \<Longrightarrow> emits env P (f e)) \<Longrightarrow> (\<And>x. v = Inr x \<Longrightarrow> emits env P (g x)) \<Longrightarrow>
     emits env P (case v of Inl e \<Rightarrow> f e | Inr x \<Rightarrow> g x)"
  by (cases v) simp_all

lemma emits_mode [emits_intros]:
  "emits env P a \<Longrightarrow> emits env P b \<Longrightarrow> emits env P c \<Longrightarrow> emits env P d \<Longrightarrow> emits env P e \<Longrightarrow>
     emits env P (case mode of InitialPreview \<Rightarrow> a | Preview \<Rightarrow> b | InitialSync \<Rightarrow> c | SyncRun \<Rightarrow> d | Scheduled \<Rightarrow> e)"
  by (cases mode) simp_all

lemma emits_command_error [emits_intros]:
  "(\<And>x. emits env P (a x)) \<Longrightarrow> emits env P b \<Longrightarrow> (\<And>x. emits env P (c x)) \<Longrightarrow> (\<And>x. emits env P (d x)) \<Longrightarrow>
   emits env P e \<Longrightarrow> (\<And>x y z u. emits env P (f x y z u)) \<Longrightarrow>
     emits env P (case v of MissingExecutable x \<Rightarrow> a x | InvalidArgument \<Rightarrow> b | Spawn x \<Rightarrow> c x
       | Timeout x \<Rightarrow> d x | Cancelled \<Rightarrow> e | NonZero x y z u \<Rightarrow> f x y z u)"
  by (cases v) simp_all

lemma emits_read_clock [emits_intros, simp]: "emits env P read_clock"
  unfolding read_clock_def by (intro emits_intros)

lemma emits_remove_dir_all [emits_intros]: "P (RemovedTree p) \<Longrightarrow> emits env P (remove_dir_all p)"
  unfolding remove_dir_all_def
  by (intro emits_intros)
     (auto intro!: emits_silent simp: fs_step_def split: option.split prod.split)

lemma emits_ret_eta [simp]: "emits env P (\<lambda>a. Pair (Inr x))"
  using emits_prims(1) by (simp add: ret_def)

text \<open>A lifted request: what follows sees that the request was built.\<close>

lemma emits_lift_bind:
  "(\<And>x. r = Inr x \<Longrightarrow> emits env P (f x)) \<Longrightarrow> emits env P (bindP (liftR r) f)"
  by (cases r) (auto simp: emits_def bindP_def)

section \<open>Parts that run no command\<close>

lemma emits_write_private [emits_intros, simp]: "emits env P (write_private p c)"
  unfolding write_private_def by (intro emits_intros)

lemma emits_write_atomic [emits_intros, simp]: "emits env P (write_atomic p c)"
  unfolding write_atomic_def by (intro emits_intros)

lemma emits_remove_if_exists [emits_intros, simp]: "emits env P (remove_if_exists p)"
  unfolding remove_if_exists_def by (intro emits_intros)

lemma emits_read_state [emits_intros, simp]: "emits env P (read_state J p)"
  unfolding read_state_def by (intro emits_intros)

lemma emits_write_state [emits_intros, simp]: "emits env P (write_state J p s)"
  unfolding write_state_def stage_state_def by (intro emits_intros)

lemma emits_record_state [emits_intros, simp]: "emits env P (record_state L p cid mode st ws)"
  unfolding record_state_def new_state_def by (intro emits_intros)

lemma emits_is_symlink_at [emits_intros, simp]: "emits env P (is_symlink_at p)"
  unfolding is_symlink_at_def by (intro emits_intros)

lemma emits_validate_mode_markers [emits_intros, simp]: "emits env P (validate_mode_markers mode plan)"
  unfolding validate_mode_markers_def by (intro emits_intros)

lemma emits_local_markers [emits_intros, simp]:
  "emits env P (validate_local_access_marker c plan)"
  "emits env P (ensure_local_access_marker c plan)"
  "emits env P (validate_local_owner d cid)"
  unfolding validate_local_access_marker_def ensure_local_access_marker_def validate_local_owner_def
  by (intro emits_intros)+

lemma emits_prepare_inputs [emits_intros, simp]: "emits env P (prepare_inputs c plan mode)"
  unfolding prepare_inputs_def by (intro emits_intros)

lemma emits_scheduled_progress [emits_intros, simp]: "emits env P (prepare_scheduled_progress plan)"
  unfolding prepare_scheduled_progress_def prepare_scheduled_progress_for_invocation_def
  by (intro emits_intros)

text \<open>Taking the lock adds it to the held ones, and fails without it when it is held.\<close>

lemma try_flock_run:
  "try_flock p env w = (r, w') \<Longrightarrow>
     events w' = events w \<and> files w' = files w
     \<and> (r = Inr True \<and> components p \<notin> set (locks w) \<and> (\<exists>n. \<not> e_lock_held env n (components p))
          \<and> locks w' = components p # locks w
        \<or> r = Inr False \<and> locks w' = locks w)"
  by (auto simp: try_flock_def Let_def split: if_splits)

lemma acquire_in_run:
  assumes "acquire_in d busy env w = (r, w')"
  shows "events w' = events w
    \<and> (case r of
         Inl e \<Rightarrow> locks w' = locks w
       | Inr p \<Rightarrow> p = lock_file d \<and> components p \<notin> set (locks w) \<and> (\<exists>n. \<not> e_lock_held env n (components p))
           \<and> locks w' = components p # locks w)"
proof -
  define pre :: "(msg, unit) prog" where
    "pre = seqP (map_errP (err1 ''ui-bisync-coordinator-could-not-create-coordinator-lock-directory-error'')
               (create_dir_all d))
      (seqP (map_errP (err1 ''ui-bisync-coordinator-could-not-open-coordinator-lock-error'')
               (open_or_create (lock_file d)))
            (map_errP (err1 ''ui-bisync-coordinator-could-not-restrict-coordinator-lock-error'')
               (set_permissions (lock_file d))))"
  have split: "acquire_in d busy = bindP pre (\<lambda>_. bindP (try_flock (lock_file d)) (\<lambda>locked.
      if locked then ret (lock_file d) else fail (fl busy)))"
    unfolding acquire_in_def pre_def seqP_def bindP_def by (intro ext) (simp split: prod.split sum.split)
  have silent: "emits env (\<lambda>_. False) pre" unfolding pre_def by (intro emits_intros)
  obtain r1 w1 where pre: "pre env w = (r1, w1)" by (cases "pre env w")
  from emitsD [OF silent pre] have same: "events w1 = events w" "locks w1 = locks w"
    by (auto simp: list_all_iff)
  show ?thesis
  proof (cases r1)
    case (Inl e)
    with assms pre same show ?thesis by (auto simp: split bindP_def)
  next
    case (Inr u)
    obtain b w2 where fl: "(try_flock (lock_file d) :: (msg, bool) prog) env w1 = (b, w2)"
      by (cases "(try_flock (lock_file d) :: (msg, bool) prog) env w1")
    from try_flock_run [OF fl] assms pre Inr fl same show ?thesis
      by (auto simp: split bindP_def) blast
  qed
qed

section \<open>The words of a request\<close>

definition GLOBAL_OPTIONS :: "string list" where
  "GLOBAL_OPTIONS = [''--contimeout'', ''10s'', ''--timeout'', ''30s'']"

text \<open>The engine's command and its arguments, behind the options that every request starts with.\<close>

definition engine_words :: "command_request \<Rightarrow> string list" where
  "engine_words r =
     (let argv = request_argv r in if take 4 argv = GLOBAL_OPTIONS then drop 4 argv else argv)"

primrec event_ok :: "(string list \<Rightarrow> bool) \<Rightarrow> (path \<Rightarrow> bool) \<Rightarrow> event \<Rightarrow> bool" where
  "event_ok Q D (Ran r) = Q (engine_words r)"
| "event_ok Q D (RemovedTree p) = D p"
| "event_ok Q D (Called method arguments) = False"

lemma rclone_request_words: "rclone_request args t = Inr r \<Longrightarrow> engine_words r = args"
  by (auto dest!: rclone_request_Inr simp: engine_words_def GLOBAL_OPTIONS_def)

lemma add_args_words:
  "add_args (v # vs) (new_request e) = Inr r \<Longrightarrow> v \<noteq> ''--contimeout'' \<Longrightarrow>
     engine_words (r\<lparr>req_timeout := t, req_output_limit := n\<rparr>) = v # vs"
  using add_args_argv [of "v # vs" "new_request e" r]
  by (auto simp: engine_words_def GLOBAL_OPTIONS_def request_argv_def new_request_def)

definition bisync_words :: "bisync_plan \<Rightarrow> bisync_mode \<Rightarrow> string \<Rightarrow> string \<Rightarrow> string list" where
  "bisync_words plan mode day stamp =
     dated_arguments plan day (ss_arguments (bp_service plan)) @ [''--suffix'', ''-'' @ stamp]
       @ mode_arguments plan mode"

lemma bisync_request_words:
  "bisync_request plan mode day stamp = Inr r \<Longrightarrow> engine_words r = bisync_words plan mode day stamp"
  by (simp add: bisync_request_def bisync_words_def rclone_request_words)

section \<open>Parts that run commands\<close>

lemma emits_run_rclone [emits_intros]:
  "Q args \<Longrightarrow> emits env (event_ok Q D) (run_rclone args t g)"
  unfolding run_rclone_def
  by (rule emits_lift_bind) (auto intro!: emits_intros dest: rclone_request_words)

lemma emits_listing [emits_intros]:
  "Q [''lsjson'', target, ''--recursive'', ''--files-only'', ''--no-mimetype'', ''--filter-from'', filters]
     \<Longrightarrow> emits env (event_ok Q D) (listing target filters)"
  unfolding listing_def
proof (rule emits_lift_bind, goal_cases)
  case (1 r)
  then have "add_args [''lsjson'', target, ''--recursive'', ''--files-only'', ''--no-mimetype'',
      ''--filter-from'', filters] (new_request RcloneExe) = Inr r" by (simp only: map_err_Inr)
  from add_args_words [OF this] 1(1) show ?case by (intro emits_intros) simp
qed

lemma emits_preview_estimate [emits_intros]:
  assumes "\<And>x f. Q [''lsjson'', x, ''--recursive'', ''--files-only'', ''--no-mimetype'', ''--filter-from'', f]"
  shows "emits env (event_ok Q D) (preview_estimate L c plan)"
  unfolding preview_estimate_def rclone_preview_snapshot_def
  by (intro emits_intros assms)

lemma emits_remote_marker [emits_intros]:
  assumes "\<And>x. Q [''cat'', x]"
  shows "emits env (event_ok Q D) (validate_remote_access_marker c plan mode)"
  unfolding validate_remote_access_marker_def by (intro emits_intros assms)

lemma emits_prepare_recovery [emits_intros]:
  assumes "\<And>x. Q [''cat'', x]" "\<And>x. Q [''lsf'', x]" "Q [''mkdir'', recovery_target plan day]"
    "\<And>x. Q [''copyto'', x, recovery_target plan day @ ''/'' @ OWNER_MARKER]"
  shows "emits env (event_ok Q D) (prepare_recovery J c plan day)"
proof -
  have cat: "rclone_request [''cat'', x] t = Inr r \<Longrightarrow> event_ok Q D (Ran r)" for x t r
    using assms(1) by (simp add: rclone_request_words)
  have copy: "rclone_request [''copyto'', x, recovery_target plan day @ ''/'' @ OWNER_MARKER] t = Inr r
      \<Longrightarrow> event_ok Q D (Ran r)" for x t r
    using assms(4) by (simp add: rclone_request_words)
  show ?thesis
    unfolding prepare_recovery_def Let_def
    by (intro emits_lift_bind emits_intros assms(2,3) | erule cat | erule copy)+
qed

lemma emits_cleanup_local_entry:
  assumes "strict_day name \<Longrightarrow> name < cutoff \<Longrightarrow> D (path_join (bp_recovery_directory plan) name)"
  shows "emits env (event_ok Q D) (cleanup_local_entry c plan cutoff name i)"
  unfolding cleanup_local_entry_def Let_def
  by (intro emits_intros) (use assms in \<open>auto simp: not_le\<close>)

lemma emits_cleanup_local:
  assumes "\<And>name. strict_day name \<Longrightarrow> name < cutoff \<Longrightarrow> D (path_join (bp_recovery_directory plan) name)"
  shows "emits env (event_ok Q D) (cleanup_local c plan cutoff ns i)"
proof (induction ns arbitrary: i)
  case Nil
  then show ?case by simp
next
  case (Cons n ns)
  then show ?case
    by (auto intro!: emits_intros emits_cleanup_local_entry assms)
qed

lemma emits_cleanup_remote_entry:
  assumes "\<And>x. Q [''cat'', x]"
    and "\<And>name. strict_day name \<Longrightarrow> name < cutoff \<Longrightarrow> Q [''purge'', recovery_target plan name]"
  shows "emits env (event_ok Q D) (cleanup_remote_entry c plan cutoff entry i)"
  unfolding cleanup_remote_entry_def Let_def
  by (intro emits_intros) (use assms in \<open>auto dest!: rclone_request_words simp: not_le\<close>)

lemma emits_cleanup_remote:
  assumes "\<And>x. Q [''cat'', x]"
    and "\<And>name. strict_day name \<Longrightarrow> name < cutoff \<Longrightarrow> Q [''purge'', recovery_target plan name]"
  shows "emits env (event_ok Q D) (cleanup_remote c plan cutoff ns i)"
proof (induction ns arbitrary: i)
  case Nil
  then show ?case by simp
next
  case (Cons n ns)
  then show ?case
    by (auto intro!: emits_intros emits_cleanup_remote_entry assms)
qed

section \<open>Expired days\<close>

text \<open>A day that is before the cutoff of some reading of the clock.\<close>

definition expired :: "gmtime \<Rightarrow> env \<Rightarrow> string \<Rightarrow> bool" where
  "expired G env name =
     (strict_day name
      \<and> (\<exists>n cutoff. utc_day G (systime_minus (Inr (e_now env n)) (RETENTION_DAYS * 86400)) = Inr cutoff
           \<and> name < cutoff))"

lemma emits_clock_bind:
  fixes f :: "systime \<Rightarrow> ('e, 'a) prog"
  assumes "emits env P (f (Inl ()))" and "\<And>n. emits env P (f (Inr (e_now env n)))"
  shows "emits env P (bindP read_clock f)"
proof (rule emitsI)
  fix w r w'
  assume run: "bindP read_clock f env w = (r, w')"
  define t where "t = (if e_before_epoch env (tick w) then Inl () else Inr (e_now env (tick w)))"
  have "(read_clock :: ('e, systime) prog) env w = (Inr t, w\<lparr>tick := Suc (tick w)\<rparr>)"
    by (simp add: read_clock_def tryP_def now_def t_def)
  with run have "f t env (w\<lparr>tick := Suc (tick w)\<rparr>) = (r, w')" by (simp add: bindP_def)
  moreover have "emits env P (f t)" using assms by (simp add: t_def)
  ultimately show "\<exists>new. events w' = events w @ new \<and> list_all P new \<and> locks w' = locks w"
    using emitsD by fastforce
qed

lemma emits_cleanup_retention:
  assumes "\<And>x. Q [''cat'', x]" and "Q [''lsf'', ''--dirs-only'', ''--max-depth'', ''1'', remote_recovery_path plan]"
    and "\<And>name. expired G env name \<Longrightarrow> Q [''purge'', recovery_target plan name]"
    and "\<And>name. expired G env name \<Longrightarrow> D (path_join (bp_recovery_directory plan) name)"
  shows "emits env (event_ok Q D) (cleanup_retention G c plan)"
proof -
  have none: "utc_day G (systime_minus (Inl ()) n)
      = Inl (fl ''ui-bisync-coordinator-system-clock-precedes-unix-epoch'')" for n
    by (simp add: utc_day_def systime_minus_def since_epoch_def)
  have list_ok: "rclone_request [''lsf'', ''--dirs-only'', ''--max-depth'', ''1'', remote_recovery_path plan] t = Inr r
      \<Longrightarrow> event_ok Q D (Ran r)" for t r
    using assms(2) by (simp add: rclone_request_words)
  show ?thesis
    unfolding cleanup_retention_def
  proof (rule emits_bind [OF emits_prims(18)], rule emits_if, rule emits_prims(1), rule emits_clock_bind, goal_cases)
    case (1 stop)
    then show ?case by (simp add: none)
  next
    case (2 stop n)
    show ?case
    proof (cases "utc_day G (systime_minus (Inr (e_now env n)) (RETENTION_DAYS * 86400))")
      case (Inl e)
      then show ?thesis by simp
    next
      case (Inr cutoff)
      have old: "expired G env name" if "strict_day name" "name < cutoff" for name
        using that Inr unfolding expired_def by blast
      from Inr show ?thesis
        by (auto intro!: emits_intros emits_cleanup_local emits_cleanup_remote assms list_ok old)
    qed
  qed
qed

end
