(* ===== verification/Coordinator_Safety.thy ===== *)
theory Coordinator_Safety
  imports Coordinator_Events
begin

text \<open>
  What a whole operation may do: previews only read, \<open>--resync\<close> belongs to the initial modes, deletion
  is limited to expired recovery days that carry the connection's marker.
\<close>

section \<open>A whole operation\<close>

text \<open>
  The documented behaviour relied on of the calls that are arguments: verifying an account and asking
  the portal perform only events that the policy allows.
\<close>

definition guards_emit :: "'u coordinator_lib \<Rightarrow> (string list \<Rightarrow> bool) \<Rightarrow> (path \<Rightarrow> bool) \<Rightarrow> env \<Rightarrow> bool" where
  "guards_emit L Q D env =
     ((\<forall>n i. emits env (event_ok Q D) (cl_teams_identity L n i))
      \<and> (\<forall>b c. emits env (event_ok Q D) (cl_onedrive_resource L b c))
      \<and> (\<forall>p. emits env (event_ok Q D) (cl_portal L p)))"

lemma emits_verify_target:
  assumes "guards_emit L Q D env" and "\<And>x. Q [''lsf'', x, ''--max-depth'', ''1'']"
  shows "emits env (event_ok Q D) (verify_target L c g)"
proof -
  have teams: "emits env (event_ok Q D) (verify_teams_binding L c b)" for b
    unfolding verify_teams_binding_def
  proof (intro emits_seq emits_lift_bind emits_prims, goal_cases)
    case (1 x)
    then show ?case using assms(1) by (simp add: guards_emit_def)
  next
    case (2 x r)
    then have "add_args [''lsf'', mg_remote_name b @ '':'' @ mg_remote_subpath b, ''--max-depth'', ''1'']
        (new_request RcloneExe) = Inr r" by (simp only: map_err_Inr)
    from add_args_words [OF this] assms(2) show ?case by (intro emits_intros) simp
  qed
  have onedrive: "emits env (event_ok Q D) (verify_onedrive_binding L c b)" for b
    unfolding verify_onedrive_binding_def using assms(1)
    by (auto intro!: emits_intros simp: guards_emit_def)
  show ?thesis unfolding verify_target_def by (intro emits_intros teams onedrive)
qed

lemma emits_resolve_paths:
  assumes "guards_emit L Q D env"
  shows "emits env (event_ok Q D) (resolve_paths L c)"
  unfolding resolve_paths_def using assms by (auto intro!: emits_intros simp: guards_emit_def)

lemma emits_bisync:
  assumes "bisync_request plan mode day stamp = Inr r" and "Q (bisync_words plan mode day stamp)"
  shows "emits env (event_ok Q D) (run_engine J m r)"
  unfolding run_engine_def using assms by (intro emits_intros) (simp add: bisync_request_words)

lemma utc_stamp_T: "utc_day_and_stamp G t = Inr (day, stamp) \<Longrightarrow> CHR ''T'' \<in> set stamp"
  by (auto simp: utc_day_and_stamp_def bind_res_Inr split: prod.splits)

lemma emits_run_transaction:
  assumes cat: "\<And>x. Q [''cat'', x]" and lsf: "\<And>x. Q (''lsf'' # x)" and check: "\<And>x. Q (''check'' # x)"
    and lsjson: "\<And>x. Q (''lsjson'' # x)"
    and bisync: "\<And>m day stamp. m = mode \<or> m = SyncRun \<and> mode = InitialSync \<Longrightarrow> CHR ''T'' \<in> set stamp \<Longrightarrow>
      Q (bisync_words plan m day stamp)"
    and mkdir: "\<And>x. \<not> mode_preview mode \<Longrightarrow> Q (''mkdir'' # x)"
    and copyto: "\<And>x. \<not> mode_preview mode \<Longrightarrow> Q (''copyto'' # x)"
    and purge: "\<And>name. \<not> mode_preview mode \<Longrightarrow> expired (cl_gmtime L) env name \<Longrightarrow>
      Q [''purge'', recovery_target plan name]"
    and tree: "\<And>name. \<not> mode_preview mode \<Longrightarrow> expired (cl_gmtime L) env name \<Longrightarrow> D (path_join recovery name)"
  shows "emits env (event_ok Q D) (run_transaction L c plan mode mirror recovery)"
proof -
  have self: "Q (bisync_words plan mode day stamp)" if "CHR ''T'' \<in> set stamp" for day stamp
    using bisync that by blast
  have preview: "emits env (event_ok Q D) (transaction_preview L c plan mode r)"
    if r: "bisync_request plan mode day stamp = Inr r" and st: "CHR ''T'' \<in> set stamp" for day stamp r
    unfolding transaction_preview_def
    by (intro emits_intros emits_bisync [where Q = Q, OF r self [OF st]] lsjson)
  have sync: "emits env (event_ok Q D) (transaction_sync L c plan mode mirror recovery day stamp r)"
    if r: "bisync_request plan mode day stamp = Inr r" and st: "CHR ''T'' \<in> set stamp"
      and np: "\<not> mode_preview mode" for day stamp r
  proof -
    have again: "emits env (event_ok Q D) (verify_sharepoint J plan mode day stamp)" for J
      unfolding verify_sharepoint_def
    proof (rule emits_lift_bind, goal_cases)
      case (1 x)
      let ?m = "if mode = InitialSync then SyncRun else mode"
      have "event_ok Q D (Ran x)" using bisync [of ?m] 1 st by (simp add: bisync_request_words split: if_splits)
      then show ?case by (intro emits_intros) (simp_all add: check_arguments_def check)
    qed
    have rec: "emits env (event_ok Q D) (prepare_recovery J c (plan\<lparr>bp_recovery_directory := recovery\<rparr>) day)" for J
      by (intro emits_prepare_recovery cat lsf mkdir [OF np] copyto [OF np])
    have od: "emits env (event_ok Q D) (verify_onedrive c p mirror)" for p
      unfolding verify_onedrive_def check_arguments_def by (intro emits_intros cat check)
    have clean: "emits env (event_ok Q D) (cleanup_retention (cl_gmtime L) c (plan\<lparr>bp_recovery_directory := recovery\<rparr>))"
      using purge [OF np] tree [OF np]
      by (intro emits_cleanup_retention cat lsf) (simp_all add: recovery_target_def)
    show ?thesis
      unfolding transaction_sync_def
      by (intro emits_intros rec od clean again emits_bisync [where Q = Q, OF r self [OF st]])
  qed
  have body: "emits env (event_ok Q D) (seqP (whenP (mode = Scheduled) (prepare_scheduled_progress plan))
      (seqP (map_errP (ownership_error c) (validate_remote_access_marker c plan mode))
      (bindP (liftR (bisync_request plan mode day stamp)) (\<lambda>request.
       if mode_preview mode then transaction_preview L c plan mode request
       else transaction_sync L c plan mode mirror recovery day stamp request))))"
    if "utc_day_and_stamp (cl_gmtime L) t = Inr (day, stamp)" for t day stamp
    using utc_stamp_T [OF that]
    by (intro emits_seq emits_when emits_lift_bind emits_map_err emits_remote_marker emits_scheduled_progress
        emits_if preview sync cat)
  show ?thesis
    unfolding run_transaction_def
  proof (intro emits_lift_bind emits_bind emits_read_clock, goal_cases)
    case (1 t ds)
    then show ?case using body by (cases ds) simp
  qed
qed

lemma emits_run_plan:
  assumes "guards_emit L Q D env"
    and cat: "\<And>x. Q [''cat'', x]" and lsf: "\<And>x. Q (''lsf'' # x)" and check: "\<And>x. Q (''check'' # x)"
    and lsjson: "\<And>x. Q (''lsjson'' # x)"
    and bisync: "\<And>m day stamp. m = mode \<or> m = SyncRun \<and> mode = InitialSync \<Longrightarrow> CHR ''T'' \<in> set stamp \<Longrightarrow>
      Q (bisync_words plan m day stamp)"
    and mkdir: "\<And>x. \<not> mode_preview mode \<Longrightarrow> Q (''mkdir'' # x)"
    and copyto: "\<And>x. \<not> mode_preview mode \<Longrightarrow> Q (''copyto'' # x)"
    and purge: "\<And>name. \<not> mode_preview mode \<Longrightarrow> expired (cl_gmtime L) env name \<Longrightarrow>
      Q [''purge'', recovery_target plan name]"
    and tree: "\<And>recovery name. \<not> mode_preview mode \<Longrightarrow> expired (cl_gmtime L) env name \<Longrightarrow>
      D (path_join recovery name)"
  shows "emits env (event_ok Q D) (run_plan L c mode work_root plan g)"
proof -
  have tr: "emits env (event_ok Q D) (run_transaction L c plan mode mirror recovery)" for mirror recovery
    by (rule emits_run_transaction) (simp_all add: assms)
  have rec: "emits env (event_ok Q D) (recorded_transaction L c mode plan st mirror recovery)" for st mirror recovery
    unfolding recorded_transaction_def by (intro emits_intros tr)
  have locked: "emits env (event_ok Q D) (run_plan_locked L c mode work_root plan g)"
    unfolding run_plan_locked_def
    by (intro emits_intros rec emits_verify_target [OF assms(1)] emits_resolve_paths [OF assms(1)] lsf)
  show ?thesis
  proof (rule emitsI)
    fix w r w'
    assume run: "run_plan L c mode work_root plan g env w = (r, w')"
    obtain r1 w1 where ac: "acquire_operation_guard work_root (conn_id c) env w = (r1, w1)"
      by (cases "acquire_operation_guard work_root (conn_id c) env w")
    note got = acquire_in_run [OF ac [unfolded acquire_operation_guard_def]]
    show "\<exists>new. events w' = events w @ new \<and> list_all (event_ok Q D) new \<and> locks w' = locks w"
    proof (cases r1)
      case (Inl e)
      with got ac run show ?thesis by (auto simp: run_plan_def bindP_def)
    next
      case (Inr lock)
      obtain r2 w2 where b: "run_plan_locked L c mode work_root plan g env w1 = (r2, w2)"
        by (cases "run_plan_locked L c mode work_root plan g env w1")
      from emitsD [OF locked b] obtain new where "events w2 = events w1 @ new" "list_all (event_ok Q D) new"
        "locks w2 = locks w1" by blast
      moreover have "w' = w2\<lparr>locks := removeAll (components lock) (locks w2)\<rparr>"
        using run ac Inr b by (simp add: run_plan_def bindP_def tryP_def seqP_def unlock_def)
      ultimately show ?thesis using got Inr by (auto simp: removeAll_id)
    qed
  qed
qed

section \<open>The engine's arguments\<close>

lemma plan_remote_colon: "plan_remote c = Inr remote \<Longrightarrow> CHR '':'' \<in> set remote"
  by (auto simp: plan_remote_def rclone_remote_path_def sftp_remote_path_def provider_rclone_remote_path_def
      bind_res_Inr split: if_splits option.splits)

lemma absolute_not_option: "is_absolute p \<Longrightarrow> p \<noteq> CHR ''-'' # s"
  by (auto simp: is_absolute_def)

lemma path_join_absolute: "is_absolute p \<or> is_absolute q \<Longrightarrow> is_absolute (path_join p q)"
  by (auto simp: path_join_def is_absolute_def split: list.splits)

lemma plan_work_directory_absolute:
  "plan_work_directory L c root = Inr workdir \<Longrightarrow> is_absolute root \<Longrightarrow> is_absolute workdir"
  by (auto simp: plan_work_directory_def bind_res_Inr Let_def split: if_splits)

text \<open>The values in a plan's arguments that are not fixed words; none of them looks like an option.\<close>

lemma plan_values:
  assumes "rclone_bisync_plan L c root = Inr plan"
  shows "ss_arguments (bp_service plan) = plan_arguments c (path1_remote plan) (work_directory plan)
           (remote_recovery_path plan) (bp_recovery_directory plan) (filters_file plan)"
    and "CHR '':'' \<in> set (path1_remote plan)" and "CHR '':'' \<in> set (remote_recovery_path plan)"
    and "is_absolute (work_directory plan)" and "is_absolute (filters_file plan)"
    and "is_absolute (bp_recovery_directory plan)" and "path2_local plan = local_path c"
proof -
  have all: "ss_arguments (bp_service plan) = plan_arguments c (path1_remote plan) (work_directory plan)
           (remote_recovery_path plan) (bp_recovery_directory plan) (filters_file plan)
    \<and> CHR '':'' \<in> set (path1_remote plan) \<and> CHR '':'' \<in> set (remote_recovery_path plan)
    \<and> is_absolute (work_directory plan) \<and> is_absolute (filters_file plan)
    \<and> is_absolute (bp_recovery_directory plan) \<and> path2_local plan = local_path c"
    using assms
  proof (rule rclone_bisync_plan_Inr, goal_cases)
    case (1 opts remote workdir recovery preflight ready)
    have roots: "is_absolute root" "is_absolute (recovery_directory opts)"
      using 1(3) by (auto simp: validate_directory_roots_def split: if_splits)
    have wd: "is_absolute workdir" by (rule plan_work_directory_absolute [OF 1(5) roots(1)])
    have "CHR '':'' \<in> set recovery"
      using 1(6) by (auto simp: rclone_remote_recovery_path_def rclone_remote_path_Inr bind_res_Inr Let_def
          split: option.splits if_splits)
    with 1 roots wd plan_remote_colon [OF 1(4)] show ?case by (simp add: path_join_absolute)
  qed
  then show "ss_arguments (bp_service plan) = plan_arguments c (path1_remote plan) (work_directory plan)
           (remote_recovery_path plan) (bp_recovery_directory plan) (filters_file plan)"
    "CHR '':'' \<in> set (path1_remote plan)" "CHR '':'' \<in> set (remote_recovery_path plan)"
    "is_absolute (work_directory plan)" "is_absolute (filters_file plan)"
    "is_absolute (bp_recovery_directory plan)" "path2_local plan = local_path c"
    by blast+
qed

lemma colon_not_option: "CHR '':'' \<in> set s \<Longrightarrow> CHR '':'' \<notin> set t \<Longrightarrow> s \<noteq> t"
  by auto

lemma show_max_delete: "show_nat BISYNC_MAX_DELETE_PERCENT = ''50''"
  by code_simp

lemma dated_plan_arguments:
  assumes "CHR '':'' \<in> set remote" and "is_absolute (local_path c)" and "is_absolute workdir"
    and "is_absolute filters"
  shows "dated_arguments plan day (plan_arguments c remote workdir rr rec filters)
    = plan_arguments c remote workdir (recovery_target plan day) (path_join (bp_recovery_directory plan) day) filters"
proof -
  have "remote \<noteq> ''--backup-dir1''" "remote \<noteq> ''--backup-dir2''"
    using assms(1) by (auto dest: colon_not_option)
  moreover have "p \<noteq> ''--backup-dir1''" "p \<noteq> ''--backup-dir2''" if "is_absolute p" for p
    using that by (auto dest: absolute_not_option)
  ultimately show ?thesis
    using assms(2-4) by (simp add: plan_arguments_def recovery_target_def show_max_delete)
qed

section \<open>Samples\<close>

text \<open>A sample environment, library and plan for the witnesses; the clock knows two days, 32 days apart.\<close>

lemma sample_plan_values:
  assumes "sample_plan = Inr plan"
  shows "path1_remote plan = ''gdrive:Work''"
    and "work_directory plan = ''/h/u/state/rclone-bisync/2a3f5d45-e867-47e7-943f-66cf60e777ad''"
    and "filters_file plan = ''/h/u/state/rclone-bisync/2a3f5d45-e867-47e7-943f-66cf60e777ad/filters.txt''"
    and "bp_recovery_directory plan = ''/h/u/rec''"
    and "remote_recovery_path plan = ''gdrive:.cosmic-mounter-recovery/2a3f5d45-e867-47e7-943f-66cf60e777ad''"
    and "access_marker_name plan = None" and "verify_after_sync plan = False"
proof -
  have m: "conn_mode sample_mirror = OfflineMirror (default_offline_mirror\<lparr>recovery_directory := ''/h/u/rec''\<rparr>)"
    "conn_provider sample_mirror = GoogleDrive"
    by (simp_all add: sample_mirror_def)
  have r: "plan_remote sample_mirror = Inr ''gdrive:Work''" by code_simp
  have rr: "rclone_remote_recovery_path (conn_provider sample_mirror) (remote_reference sample_mirror)
      (remote_subpath sample_mirror) (conn_id sample_mirror)
    = Inr ''gdrive:.cosmic-mounter-recovery/2a3f5d45-e867-47e7-943f-66cf60e777ad''" by code_simp
  have w: "plan_work_directory sample_plan_lib sample_mirror ''/h/u/state''
      = Inr ''/h/u/state/rclone-bisync/2a3f5d45-e867-47e7-943f-66cf60e777ad''" by code_simp
  have j: "path_join ''/h/u/state/rclone-bisync/2a3f5d45-e867-47e7-943f-66cf60e777ad'' ''filters.txt''
      = ''/h/u/state/rclone-bisync/2a3f5d45-e867-47e7-943f-66cf60e777ad/filters.txt''" by code_simp
  have "path1_remote plan = ''gdrive:Work''
    \<and> work_directory plan = ''/h/u/state/rclone-bisync/2a3f5d45-e867-47e7-943f-66cf60e777ad''
    \<and> filters_file plan = ''/h/u/state/rclone-bisync/2a3f5d45-e867-47e7-943f-66cf60e777ad/filters.txt''
    \<and> bp_recovery_directory plan = ''/h/u/rec''
    \<and> remote_recovery_path plan = ''gdrive:.cosmic-mounter-recovery/2a3f5d45-e867-47e7-943f-66cf60e777ad''
    \<and> access_marker_name plan = None \<and> verify_after_sync plan = False"
    using assms unfolding sample_plan_def
    by (rule rclone_bisync_plan_Inr) (use m r rr w j in \<open>auto simp: plan_marker_name_def\<close>)
  then show "path1_remote plan = ''gdrive:Work''"
    "work_directory plan = ''/h/u/state/rclone-bisync/2a3f5d45-e867-47e7-943f-66cf60e777ad''"
    "filters_file plan = ''/h/u/state/rclone-bisync/2a3f5d45-e867-47e7-943f-66cf60e777ad/filters.txt''"
    "bp_recovery_directory plan = ''/h/u/rec''"
    "remote_recovery_path plan = ''gdrive:.cosmic-mounter-recovery/2a3f5d45-e867-47e7-943f-66cf60e777ad''"
    "access_marker_name plan = None" "verify_after_sync plan = False"
    by blast+
qed

definition sample_day :: "int \<Rightarrow> int \<Rightarrow> tm" where
  "sample_day m d = \<lparr>tm_year = 70, tm_mon = m, tm_mday = d, tm_hour = 0, tm_min = 0, tm_sec = 0\<rparr>"

definition sample_gmtime :: gmtime where
  "sample_gmtime s =
     (if s div 86400 = 100 then Some (sample_day 3 11)
      else if s div 86400 = 68 then Some (sample_day 2 10) else None)"

lemma sample_gmtime_utc: "gmtime_utc sample_gmtime"
  unfolding gmtime_utc_def
proof (intro allI impI)
  fix s tm
  assume "sample_gmtime s = Some tm"
  then have "\<exists>m d. (m = 4 \<and> d = 11 \<and> s div 86400 = 100 \<or> m = 3 \<and> d = 10 \<and> s div 86400 = 68)
      \<and> tm = sample_day (int m - 1) (int d)"
    by (auto simp: sample_gmtime_def split: if_splits)
  then obtain m d where md: "m = 4 \<and> d = 11 \<and> s div 86400 = 100 \<or> m = 3 \<and> d = 10 \<and> s div 86400 = 68"
    and tm: "tm = sample_day (int m - 1) (int d)" by blast
  have one: "days_before_month 1970 1 = 0" by (simp add: month_days_def)
  have month: "days_before_month 1970 4 = 90" "days_before_month 1970 3 = 59"
    using days_before_month.simps(2) [of 1970 3] days_before_month.simps(2) [of 1970 2]
      days_before_month.simps(2) [of 1970 1] one
    by (simp_all add: month_days_def leap_year_def Suc_numeral del: One_nat_def flip: One_nat_def)
  have "day_number 1970 4 11 = day_number 1970 1 1 + 100" "day_number 1970 3 10 = day_number 1970 1 1 + 68"
    by (simp_all add: day_number_def month one del: One_nat_def)
  with md tm show "\<exists>y m d. y < 10 ^ 4 \<and> valid_date y m d \<and> tm_year tm = int y - 1900 \<and> tm_mon tm = int m - 1
      \<and> tm_mday tm = int d \<and> day_number y m d = day_number 1970 1 1 + s div 86400
      \<and> 0 \<le> tm_hour tm \<and> tm_hour tm < 24 \<and> 0 \<le> tm_min tm \<and> tm_min tm < 60
      \<and> 0 \<le> tm_sec tm \<and> tm_sec tm \<le> 60"
    by (intro exI [of _ 1970] exI [of _ m] exI [of _ d])
       (auto simp: valid_date_def month_days_def sample_day_def)
qed

definition sample_coordinator :: "string coordinator_lib" where
  "sample_coordinator =
     \<lparr>cl_plan = sample_plan_lib, cl_json = \<lparr>json_parse = (\<lambda>s. None), json_print = (\<lambda>j. [])\<rparr>,
      cl_state = sample_codec,
      cl_inventory = \<lparr>parse_items = (\<lambda>s. None), parse_timestamp = (\<lambda>s. None)\<rparr>,
      cl_gmtime = sample_gmtime, cl_encode_count = (\<lambda>c. Some []), cl_graph = Inr (),
      cl_teams_identity = (\<lambda>n i. ret ()), cl_onedrive_resource = (\<lambda>b c. ret ()), cl_portal = ret\<rparr>"

lemma sample_guards: "guards_emit sample_coordinator Q D env"
  by (simp add: guards_emit_def sample_coordinator_def)

lemma sample_plan_accepted:
  assumes "sample_plan = Inr plan"
  shows "rclone_bisync_plan (cl_plan sample_coordinator) sample_mirror ''/h/u/state'' = Inr plan"
  using assms by (simp add: sample_plan_def sample_coordinator_def)

lemma sample_local_absolute: "is_absolute (local_path sample_mirror)"
  by code_simp

lemma sample_arguments:
  "plan_arguments sample_mirror r w rr rec f =
     [''bisync'', r, ''/h/u/Drive'', ''--workdir'', w, ''--backup-dir1'', rr, ''--backup-dir2'', rec,
      ''--resilient'', ''--recover'', ''--max-lock'', ''2m'', ''--conflict-resolve'', ''none'',
      ''--conflict-loser'', ''pathname'', ''--conflict-suffix'', ''conflict'', ''--create-empty-src-dirs'',
      ''--compare'', ''size,modtime'', ''--max-delete'', ''50'', ''--filters-file'', f, ''--log-level'', ''INFO'']"
  by (simp add: plan_arguments_def sample_mirror_def show_max_delete)

lemma sample_words_safe:
  "list_all safe_arg
     [''bisync'', ''/h/u/Drive'', ''--workdir'', ''--backup-dir1'', ''--backup-dir2'', ''--resilient'', ''--recover'',
      ''--max-lock'', ''2m'', ''--conflict-resolve'', ''none'', ''--conflict-loser'', ''pathname'',
      ''--conflict-suffix'', ''conflict'', ''--create-empty-src-dirs'', ''--compare'', ''size,modtime'',
      ''--max-delete'', ''50'', ''--filters-file'', ''--log-level'', ''INFO'']"
  by code_simp

lemma sample_values_safe:
  "safe_arg ''gdrive:Work''" "safe_arg ''/h/u/rec/2026-01-02''"
  "safe_arg ''gdrive:.cosmic-mounter-recovery/2a3f5d45-e867-47e7-943f-66cf60e777ad/2026-01-02''"
  "safe_arg ''/h/u/state/rclone-bisync/2a3f5d45-e867-47e7-943f-66cf60e777ad''"
  "safe_arg ''/h/u/state/rclone-bisync/2a3f5d45-e867-47e7-943f-66cf60e777ad/filters.txt''"
  "list_all safe_arg [''--contimeout'', ''10s'', ''--timeout'', ''30s'', ''--suffix'', ''-s'', ''--resync'']"
  by code_simp+

lemma sample_request:
  assumes "sample_plan = Inr plan"
  shows "\<exists>r. bisync_request plan InitialSync ''2026-01-02'' ''s'' = Inr r"
proof -
  note p = sample_plan_accepted [OF assms] and v = sample_plan_values [OF assms]
  have j: "path_join ''/h/u/rec'' ''2026-01-02'' = ''/h/u/rec/2026-01-02''" by code_simp
  have tr: "trim_end_char (CHR ''/'') ''gdrive:.cosmic-mounter-recovery/2a3f5d45-e867-47e7-943f-66cf60e777ad''
      = ''gdrive:.cosmic-mounter-recovery/2a3f5d45-e867-47e7-943f-66cf60e777ad''" by (simp add: trim_end_char_def)
  have "dated_arguments plan ''2026-01-02'' (ss_arguments (bp_service plan))
      = plan_arguments sample_mirror ''gdrive:Work'' (work_directory plan)
          ''gdrive:.cosmic-mounter-recovery/2a3f5d45-e867-47e7-943f-66cf60e777ad/2026-01-02''
          ''/h/u/rec/2026-01-02'' (filters_file plan)"
    unfolding plan_values(1) [OF p]
      dated_plan_arguments [OF plan_values(2) [OF p] sample_local_absolute plan_values(4,5) [OF p]]
    by (simp add: v recovery_target_def tr j)
  then have "list_all safe_arg (dated_arguments plan ''2026-01-02'' (ss_arguments (bp_service plan)))"
    using sample_words_safe sample_values_safe by (simp add: sample_arguments v)
  then have "list_all safe_arg ([''--contimeout'', ''10s'', ''--timeout'', ''30s'']
      @ dated_arguments plan ''2026-01-02'' (ss_arguments (bp_service plan)) @ [''--suffix'', ''-s'']
      @ mode_arguments plan InitialSync)"
    using sample_values_safe(6) by (simp add: mode_arguments_def)
  then have "\<exists>r. add_args ([''--contimeout'', ''10s'', ''--timeout'', ''30s'']
      @ dated_arguments plan ''2026-01-02'' (ss_arguments (bp_service plan)) @ [''--suffix'', ''-s'']
      @ mode_arguments plan InitialSync) (new_request RcloneExe) = Inr r"
    unfolding add_args_Inr by blast
  then show ?thesis by (auto simp: bisync_request_def rclone_request_def bind_res_Inr simp del: add_args.simps)
qed

section \<open>Properties\<close>

text \<open>
  The command line of every transaction: for an accepted plan and any mode, the request is rclone
  with the global options, the plan's own arguments with both backup directories moved into the day's
  directory, the stamp as suffix and the mode's flags, in this order and nothing else.
\<close>
theorem bisync_request_command_line:
  assumes "rclone_bisync_plan L c root = Inr plan" and "is_absolute (local_path c)"
    and "bisync_request plan mode day stamp = Inr r"
  shows "req_executable r = RcloneExe \<and> req_timeout r = bisync_timeout mode
    \<and> request_argv r = GLOBAL_OPTIONS
        @ plan_arguments c (path1_remote plan) (work_directory plan)
            (trim_end_char (CHR ''/'') (remote_recovery_path plan) @ ''/'' @ day)
            (path_join (bp_recovery_directory plan) day) (filters_file plan)
        @ [''--suffix'', ''-'' @ stamp] @ mode_arguments plan mode"
proof -
  note v = plan_values [OF assms(1)]
  have "dated_arguments plan day (ss_arguments (bp_service plan))
      = plan_arguments c (path1_remote plan) (work_directory plan) (recovery_target plan day)
          (path_join (bp_recovery_directory plan) day) (filters_file plan)"
    unfolding v(1) by (rule dated_plan_arguments [OF v(2) assms(2) v(4,5)])
  with rclone_request_Inr [OF assms(3) [unfolded bisync_request_def]] show ?thesis
    by (simp add: GLOBAL_OPTIONS_def recovery_target_def)
qed

lemma bisync_request_command_line_witness:
  "\<exists>plan r. sample_plan = Inr plan \<and> bisync_request plan InitialSync ''2026-01-02'' ''s'' = Inr r
     \<and> path_join (bp_recovery_directory plan) ''2026-01-02'' \<in> set (request_argv r)
     \<and> ''--resync'' \<in> set (request_argv r)"
proof -
  obtain plan where p: "sample_plan = Inr plan" using sample_plan_ok by blast
  note plan = p [unfolded sample_plan_def]
  obtain r where r: "bisync_request plan InitialSync ''2026-01-02'' ''s'' = Inr r"
    using sample_request p by blast
  from bisync_request_command_line [OF plan sample_local_absolute r] p r show ?thesis
    by (auto simp: plan_arguments_def mode_arguments_def)
qed

text \<open>Requests that change nothing: dry runs and the inspecting commands.\<close>

definition read_only :: "string list \<Rightarrow> bool" where
  "read_only ws =
     (case ws of
        [] \<Rightarrow> False
      | verb # rest \<Rightarrow>
          verb \<in> {''cat'', ''lsf'', ''lsjson'', ''check''} \<or> verb = ''bisync'' \<and> ''--dry-run'' \<in> set rest)"

lemma bisync_words_bisync:
  assumes "rclone_bisync_plan L c root = Inr plan"
  shows "\<exists>rest. bisync_words plan mode day stamp = ''bisync'' # rest \<and> set (mode_arguments plan mode) \<subseteq> set rest"
proof -
  obtain ys where "ss_arguments (bp_service plan) = ''bisync'' # ys"
    unfolding plan_values(1) [OF assms] plan_arguments_def append_Cons by blast
  then have "bisync_words plan mode day stamp
      = ''bisync'' # (dated_arguments plan day ys @ [''--suffix'', ''-'' @ stamp] @ mode_arguments plan mode)"
    by (simp add: bisync_words_def)
  then show ?thesis by (intro exI conjI) (assumption, auto)
qed



text \<open>A bisync command never carries \<open>--resync\<close>.\<close>

definition no_resync :: "string list \<Rightarrow> bool" where
  "no_resync ws = (ws = [] \<or> hd ws \<noteq> ''bisync'' \<or> ''--resync'' \<notin> set ws)"

lemma recovery_target_not_option: "CHR ''/'' \<notin> set t \<Longrightarrow> recovery_target plan day \<noteq> t"
  by (auto simp: recovery_target_def)

text \<open>
  Only the initial modes rebuild the engine's baseline: no command of a normal preview, a manual or
  a scheduled synchronization carries \<open>--resync\<close>, which would make one side win over the other.
\<close>
theorem resync_only_when_initial:
  assumes "rclone_bisync_plan (cl_plan L) c root = Inr plan" and "is_absolute (local_path c)"
    and "\<not> mode_initial mode" and "guards_emit L no_resync (\<lambda>_. True) env"
    and "run_plan L c mode work_root plan g env w = (r, w')"
  shows "\<exists>new. events w' = events w @ new \<and> list_all (event_ok no_resync (\<lambda>_. True)) new"
proof -
  note v = plan_values [OF assms(1)]
  have abs: "p \<noteq> ''--resync''" if "is_absolute p" for p using that by (auto dest: absolute_not_option)
  have "no_resync (bisync_words plan m day stamp)"
    if m: "m = mode \<or> m = SyncRun \<and> mode = InitialSync" and st: "CHR ''T'' \<in> set stamp" for m day stamp
  proof -
    have "m = mode" using m assms(3) by auto
    moreover have "live_progress_log_path (work_directory plan) \<noteq> ''--resync''"
      unfolding live_progress_log_path_def by (rule abs [OF path_join_absolute [OF disjI1 [OF v(4)]]])
    ultimately have "''--resync'' \<notin> set (mode_arguments plan m)"
      using assms(3) by (auto simp: mode_arguments_def)
    moreover have "path1_remote plan \<noteq> ''--resync''" using v(2) by (auto dest: colon_not_option)
    moreover have "recovery_target plan day \<noteq> ''--resync''" by (rule recovery_target_not_option) simp
    moreover have "path_join (bp_recovery_directory plan) day \<noteq> ''--resync''"
      by (rule abs [OF path_join_absolute [OF disjI1 [OF v(6)]]])
    moreover have "local_path c \<noteq> ''--resync''" "work_directory plan \<noteq> ''--resync''" "filters_file plan \<noteq> ''--resync''"
      using abs assms(2) v(4,5) by blast+
    moreover have "stamp \<noteq> ''-resync''" using st by auto
    ultimately have "''--resync'' \<notin> set (bisync_words plan m day stamp)"
      unfolding bisync_words_def v(1) dated_plan_arguments [OF v(2) assms(2) v(4,5)]
      by (auto simp: plan_arguments_def show_max_delete)
    then show ?thesis by (simp add: no_resync_def)
  qed
  then have "emits env (event_ok no_resync (\<lambda>_. True)) (run_plan L c mode work_root plan g)"
    by (intro emits_run_plan [OF assms(4)]) (auto simp: no_resync_def)
  from emitsD [OF this assms(5)] show ?thesis by blast
qed

lemma resync_only_when_initial_witness:
  "\<exists>plan new. sample_plan = Inr plan
     \<and> events (snd (run_plan sample_coordinator sample_mirror Scheduled ''/h/u/state'' plan False sample_env
         sample_world)) = events sample_world @ new
     \<and> list_all (event_ok no_resync (\<lambda>_. True)) new"
proof -
  obtain plan where p: "sample_plan = Inr plan" using sample_plan_ok by blast
  obtain r w' where run: "run_plan sample_coordinator sample_mirror Scheduled ''/h/u/state'' plan False
      sample_env sample_world = (r, w')" by (rule prod.exhaust)
  have "\<not> mode_initial Scheduled" by simp
  from resync_only_when_initial [OF sample_plan_accepted [OF p] sample_local_absolute this sample_guards run] p
  show ?thesis by (intro exI [of _ plan]) (simp add: run)
qed

end
