(* ===== verification/Coordinator_Outcome.thy ===== *)
theory Coordinator_Outcome
  imports Coordinator_Safety "HOL-Library.Code_Target_Nat"
begin

text \<open>
  What one operation of the coordinator deletes, when it is refused, and what its success means.
\<close>

section \<open>Only expired recovery days are deleted\<close>

text \<open>Purging and deleting are allowed for names that \<open>E\<close> accepts, inside the recovery directories.\<close>

definition purge_only :: "bisync_plan \<Rightarrow> (string \<Rightarrow> bool) \<Rightarrow> string list \<Rightarrow> bool" where
  "purge_only plan E ws =
     (ws = [] \<or> hd ws \<notin> {''purge'', ''delete'', ''deletefile'', ''rmdir'', ''rmdirs'', ''cleanup'', ''sync'', ''move''}
      \<or> (\<exists>name. ws = [''purge'', recovery_target plan name] \<and> E name))"

definition old_day :: "nat \<Rightarrow> string \<Rightarrow> bool" where
  "old_day today name =
     (\<exists>y m d. valid_date y m d \<and> name = format_day y m d \<and> day_number y m d + RETENTION_DAYS < today)"

text \<open>The day number of a clock reading.\<close>

definition clock_day :: "env \<Rightarrow> nat \<Rightarrow> nat" where
  "clock_day env n = day_number 1970 1 1 + fst (e_now env n) div 86400"

lemma expired_old:
  assumes "gmtime_utc G" and "expired G env name"
  shows "\<exists>n. old_day (clock_day env n) name"
proof -
  from assms(2) obtain n cutoff where sd: "strict_day name"
    and ud: "utc_day G (systime_minus (Inr (e_now env n)) (RETENTION_DAYS * 86400)) = Inr cutoff"
    and less: "name < cutoff" unfolding expired_def by blast
  from sd obtain y m d where v: "y < 10 ^ 4" "valid_date y m d" and name: "name = format_day y m d"
    unfolding strict_day_iff by blast
  from utc_day_Inr [OF assms(1) ud] obtain s ns y' m' d'
    where t: "systime_minus (Inr (e_now env n)) (RETENTION_DAYS * 86400) = Inr (s, ns)"
      and v': "y' < 10 ^ 4" "valid_date y' m' d'" and c: "cutoff = format_day y' m' d'"
      and dn: "day_number y' m' d' = day_number 1970 1 1 + s div 86400" by blast
  have s: "s = fst (e_now env n) - RETENTION_DAYS * 86400" "RETENTION_DAYS * 86400 \<le> fst (e_now env n)"
    using t by (auto simp: systime_minus_def split: prod.splits if_splits)
  then have "fst (e_now env n) div 86400 = s div 86400 + RETENTION_DAYS"
    by (metis add.commute div_mult_self1 le_add_diff_inverse2 zero_neq_numeral)
  moreover have "day_number y m d < day_number y' m' d'"
    using less format_day_less_iff [OF v(2) v'(2) v(1) v'(1)] name c by simp
  ultimately have "day_number y m d + RETENTION_DAYS < clock_day env n"
    using dn by (simp add: clock_day_def)
  with v(2) name show ?thesis unfolding old_day_def by blast
qed



section \<open>A local directory is deleted only with its owner's marker\<close>

lemma quiet_steps:
  "symlink_metadata p env w = (r1, w1) \<Longrightarrow>
     events w1 = events w \<and> files w1 = files w \<and> (\<forall>n. r1 = Inr n \<longrightarrow> fs_get (files w) (components p) = Some n)"
  "read_to_string p env w = (r2, w1) \<Longrightarrow>
     events w1 = events w \<and> files w1 = files w
     \<and> (\<forall>s. r2 = Inr s \<longrightarrow> fs_stat (files w) (components p) = Some (File s))"
  by (auto simp: symlink_metadata_def read_to_string_def fs_step_def io_def
      split: option.splits node.splits)

lemma remove_dir_all_events:
  "remove_dir_all p env w = (r, w') \<Longrightarrow> events w' = events w @ [RemovedTree p]"
  by (auto simp: remove_dir_all_def seqP_def bindP_def log_event_def fs_step_def split: option.splits prod.splits)

text \<open>
  Looking at one entry of the local recovery directory either leaves every directory tree alone,
  or deletes exactly that entry, and then its name is a strict day before the cutoff, it is a real
  directory (no link), and the owner marker inside it is a plain file that holds this connection's id.
\<close>
theorem cleanup_local_entry_owned:
  "events (snd (cleanup_local_entry c plan cutoff name i env w)) = events w
    \<or> (let p = path_join (bp_recovery_directory plan) name in
        events (snd (cleanup_local_entry c plan cutoff name i env w)) = events w @ [RemovedTree p] \<and> strict_day name \<and> name < cutoff
        \<and> fs_get (files w) (components p) = Some Dir
        \<and> (\<exists>text. fs_get (files w) (components (path_join p OWNER_MARKER)) = Some (File text)
             \<and> trim_end text = conn_uuid (conn_id c)))"
proof -
  obtain r w' where assms: "cleanup_local_entry c plan cutoff name i env w = (r, w')" by (rule prod.exhaust)
  let ?p = "path_join (bp_recovery_directory plan) name"
  let ?m = "path_join ?p OWNER_MARKER"
  obtain r1 w1 where s1: "symlink_metadata ?p env w = (r1, w1)" by (rule prod.exhaust)
  obtain r2 w2 where s2: "symlink_metadata ?m env w1 = (r2, w2)" by (rule prod.exhaust)
  obtain r3 w3 where s3: "read_to_string ?m env w2 = (r3, w3)" by (rule prod.exhaust)
  obtain r4 w4 where s4: "remove_dir_all ?p env w3 = (r4, w4)" by (rule prod.exhaust)
  note q = quiet_steps(1) [OF s1] quiet_steps(1) [OF s2] quiet_steps(2) [OF s3] remove_dir_all_events [OF s4]
  note unfold = cleanup_local_entry_def bindP_def tryP_def Let_def
  have le: "cutoff \<le> name \<longleftrightarrow> \<not> name < cutoff" by (simp add: not_less)
  note w' = assms [THEN arg_cong [where f = snd], unfolded snd_conv]
  consider "\<not> (strict_day name \<and> name < cutoff)"
    | "strict_day name" "name < cutoff" "r1 \<noteq> Inr Dir"
    | "strict_day name" "name < cutoff" "r1 = Inr Dir" "\<nexists>a. r2 = Inr (File a)"
    | a e where "strict_day name" "name < cutoff" "r1 = Inr Dir" "r2 = Inr (File a)" "r3 = Inl e"
    | a t where "strict_day name" "name < cutoff" "r1 = Inr Dir" "r2 = Inr (File a)" "r3 = Inr t"
    by (cases r3) (use not_less in blast)+
  then show ?thesis
  proof cases
    case 1
    with assms show ?thesis by (auto simp del: not_less not_le simp: le unfold)
  next
    case 2
    with assms s1 q show ?thesis by (auto simp del: not_less not_le simp: le unfold)
  next
    case 3
    with assms s1 s2 q show ?thesis by (auto simp del: not_less not_le simp: le unfold split: sum.splits node.splits)
  next
    case 4
    with assms s1 s2 s3 q show ?thesis by (auto simp del: not_less not_le simp: le unfold)
  next
    case 5
    have mk: "fs_get (files w) (components ?m) = Some (File a)" using q(1,2) 5(4) by simp
    have "fs_stat (files w) (components ?m) = Some (File t)" using q(1-3) 5(5) by simp
    with fs_stat_file [OF mk] have "a = t" by simp
    with q 5 mk assms s1 s2 s3 s4 show ?thesis by (auto simp del: not_less not_le simp: le unfold split: if_splits)
  qed
qed

section \<open>One operation at a time\<close>

text \<open>
  C5. The operation lock excludes and is always given back: while the connection's lock file is held,
  by this process or by another one, an operation is refused before it runs any command or deletes
  anything, and whatever the result of an operation, it leaves exactly the locks that were held before.
\<close>
theorem operation_lock_excludes:
  assumes "guards_emit L (\<lambda>_. True) (\<lambda>_. True) env"
    and "run_plan L c mode work_root plan g env w = (r, w')"
  shows "locks w' = locks w
    \<and> (is_err r \<and> events w' = events w
       \<or> (let k = components (lock_file (lock_directory work_root (conn_id c))) in
           k \<notin> set (locks w) \<and> (\<exists>n. \<not> e_lock_held env n k)))"
proof -
  have "emits env (event_ok (\<lambda>_. True) (\<lambda>_. True)) (run_plan L c mode work_root plan g)"
    by (rule emits_run_plan [OF assms(1)]) simp_all
  from emitsD [OF this assms(2)] have lk: "locks w' = locks w" by blast
  obtain r1 w1 where ac: "acquire_operation_guard work_root (conn_id c) env w = (r1, w1)"
    by (rule prod.exhaust)
  note got = acquire_in_run [OF ac [unfolded acquire_operation_guard_def]]
  show ?thesis
  proof (cases r1)
    case (Inl e)
    with ac got lk assms(2) show ?thesis by (auto simp: run_plan_def bindP_def is_err_def)
  next
    case (Inr p)
    with got lk show ?thesis by (auto simp: Let_def)
  qed
qed

lemma operation_lock_excludes_witness:
  "locks (snd (run_plan sample_coordinator sample_mirror SyncRun ''/h/u/state'' (projr sample_plan) False
     (sample_env\<lparr>e_lock_held := \<lambda>n k. True\<rparr>) sample_world)) = []"
proof -
  obtain r w' where run: "run_plan sample_coordinator sample_mirror SyncRun ''/h/u/state'' (projr sample_plan) False
      (sample_env\<lparr>e_lock_held := \<lambda>n k. True\<rparr>) sample_world = (r, w')" by (rule prod.exhaust)
  from operation_lock_excludes [OF sample_guards run] run show ?thesis by (simp add: sample_world_def)
qed

section \<open>The markers decide which mode may run\<close>

definition is_file_in :: "world \<Rightarrow> path \<Rightarrow> bool" where
  "is_file_in w p = (case fs_stat (files w) (components p) of Some (File _) \<Rightarrow> True | _ \<Rightarrow> False)"

text \<open>What each mode needs of the two markers in the work directory.\<close>

fun mode_admitted :: "bool \<Rightarrow> bool \<Rightarrow> bisync_mode \<Rightarrow> bool" where
  "mode_admitted initialized previewed InitialPreview = (\<not> initialized)"
| "mode_admitted initialized previewed InitialSync = (\<not> initialized \<and> previewed)"
| "mode_admitted initialized previewed _ = initialized"

lemma validate_mode_markers_run:
  assumes "e_fault env (tick w) = None" and "e_fault env (Suc (tick w)) = None"
  shows "fst (validate_mode_markers mode plan env w) = Inr ()
      \<longleftrightarrow> mode_admitted (is_file_in w (initial_sync_marker plan)) (is_file_in w (initial_preview_marker plan)) mode"
  using assms
  by (cases mode) (simp_all add: validate_mode_markers_def bindP_def path_is_file_def is_file_in_def)



section \<open>What a success means\<close>

lemma emits_keeps:
  assumes "emits env (event_ok (\<lambda>_. True) (\<lambda>_. True)) m" and "m env w = (r, w')" and "ev \<in> set (events w)"
  shows "ev \<in> set (events w')"
  using emitsD [OF assms(1,2)] assms(3) by auto

text \<open>The engine ran the mode's request for some day and stamp, and its success is the output.\<close>

definition engine_ran :: "env \<Rightarrow> bisync_plan \<Rightarrow> bisync_mode \<Rightarrow> command_output \<Rightarrow> event list \<Rightarrow> bool" where
  "engine_ran env plan mode out es =
     (\<exists>day stamp request n f. bisync_request plan mode day stamp = Inr request \<and> Ran request \<in> set es
        \<and> fst (e_cmd env n request f) = Inr out)"

lemma engine_ran_mono: "engine_ran env plan mode out es \<Longrightarrow> set es \<subseteq> set fs \<Longrightarrow> engine_ran env plan mode out fs"
  unfolding engine_ran_def by blast

lemma run_engine_Inr:
  assumes "run_engine J mode request env w = (Inr out, w')"
  shows "Ran request \<in> set (events w')" "\<exists>n f. fst (e_cmd env n request f) = Inr out"
proof -
  from assms have run: "run_cmd request env w = (Inr out, w')" by (simp add: run_engine_def)
  obtain res f where c: "e_cmd env (tick w) request (files w) = (res, f)" by (rule prod.exhaust)
  with run show "Ran request \<in> set (events w')" by (auto simp: run_cmd_def)
  from run c have "fst (e_cmd env (tick w) request (files w)) = Inr out" by (simp add: run_cmd_def)
  then show "\<exists>n f. fst (e_cmd env n request f) = Inr out" by blast
qed

lemma run_engine_ran:
  assumes "bisync_request plan mode day stamp = Inr request" and "run_engine J mode request env w = (Inr out, w')"
  shows "engine_ran env plan mode out (events w')"
  using run_engine_Inr [OF assms(2)] assms(1) unfolding engine_ran_def by blast

lemma transaction_preview_ran:
  assumes "bisync_request plan mode day stamp = Inr request"
    and "transaction_preview L c plan mode request env w = (Inr outcome, w')"
  shows "engine_ran env plan mode (bo_output outcome) (events w')"
proof -
  from assms(2) obtain w1 where e: "run_engine (cl_json L) mode request env w = (Inr (bo_output outcome), w1)"
    and rest: "bindP (preview_estimate L c plan) (\<lambda>pending.
       seqP (whenP (mode = InitialPreview) (write_atomic (initial_preview_marker plan) PREVIEW_MARKER_TEXT))
         (ret \<lparr>bo_output = bo_output outcome, bo_preview_pending = pending, bo_warnings = []\<rparr>)) env w1
       = (Inr outcome, w')"
    by (auto simp: transaction_preview_def run_simps)
  have "emits env (event_ok (\<lambda>_. True) (\<lambda>_. True)) (bindP (preview_estimate L c plan) (\<lambda>pending.
       seqP (whenP (mode = InitialPreview) (write_atomic (initial_preview_marker plan) PREVIEW_MARKER_TEXT))
         (ret \<lparr>bo_output = bo_output outcome, bo_preview_pending = pending, bo_warnings = []\<rparr>)))"
    by (intro emits_intros) simp_all
  from emitsD [OF this rest] have "set (events w1) \<subseteq> set (events w')" by auto
  with run_engine_ran [OF assms(1) e] show ?thesis by (rule engine_ran_mono)
qed

lemma transaction_sync_ran:
  assumes "bisync_request plan mode day stamp = Inr request"
    and "transaction_sync L c plan mode mirror recovery day stamp request env w = (Inr outcome, w')"
  shows "engine_ran env plan mode (bo_output outcome) (events w')"
proof -
  define tail where "tail out =
      seqP (whenP (verify_after_sync plan) (verify_sharepoint (cl_json L) plan mode day stamp))
     (seqP (whenP (is_rclone_onedrive c \<and> mode \<in> {InitialSync, SyncRun})
              (verify_onedrive c (plan\<lparr>bp_recovery_directory := recovery\<rparr>) mirror))
     (bindP (cleanup_retention (cl_gmtime L) c (plan\<lparr>bp_recovery_directory := recovery\<rparr>)) (\<lambda>warnings.
      seqP (whenP (mode = InitialSync)
              (seqP (write_atomic (initial_sync_marker plan) SYNC_MARKER_TEXT)
                    (remove_if_exists (initial_preview_marker plan))))
           (ret \<lparr>bo_output = out, bo_preview_pending = None, bo_warnings = warnings\<rparr>))))" for out
  from assms(2) obtain w0 out w1 where e: "run_engine (cl_json L) mode request env w0 = (Inr out, w1)"
    and rest: "tail out env w1 = (Inr outcome, w')"
    by (auto simp: transaction_sync_def Let_def run_simps simp flip: tail_def)
      (auto simp: tail_def run_simps)
  from rest have out: "bo_output outcome = out" by (auto simp: tail_def run_simps)
  have "emits env (event_ok (\<lambda>_. True) (\<lambda>_. True)) (tail out)"
  proof -
    have sp: "emits env (event_ok (\<lambda>_. True) (\<lambda>_. True)) (verify_sharepoint (cl_json L) plan mode day stamp)"
      unfolding verify_sharepoint_def
      by (rule emits_lift_bind) (auto intro!: emits_intros)
    show ?thesis unfolding tail_def verify_onedrive_def
      by (intro emits_intros sp emits_cleanup_retention) simp_all
  qed
  from emitsD [OF this rest] have "set (events w1) \<subseteq> set (events w')" by auto
  with run_engine_ran [OF assms(1) e] show ?thesis unfolding out by (rule engine_ran_mono)
qed

lemma run_transaction_ran:
  assumes "run_transaction L c plan mode mirror recovery env w = (Inr outcome, w')"
  shows "engine_ran env plan mode (bo_output outcome) (events w')"
  using assms transaction_preview_ran transaction_sync_ran
  by (fastforce simp: run_transaction_def run_simps split: if_splits)

lemma record_state_Inr:
  assumes "suitable_for ''.state-'' env p" and "record_state L p cid mode st ws env w = (Inr u, w')"
  shows "\<exists>s code. encode_state (cl_state L) s = Some code \<and> fs_get (files w') (components p) = Some (File code)
    \<and> cs_state s = st \<and> cs_connection_id s = cid \<and> cs_operation s = mode_operation mode \<and> cs_warnings s = ws"
proof -
  define mk where "mk t = \<lparr>cs_version = STATE_VERSION, cs_connection_id = cid, cs_operation = mode_operation mode,
    cs_state = st, cs_updated_unix_seconds = (case t of Inl _ \<Rightarrow> 0 | Inr (s, _) \<Rightarrow> of_nat s), cs_warnings = []\<rparr>"
    for t :: "unit + nat \<times> nat"
  from assms(2) obtain t w1 where wr: "write_state (cl_state L) p (with_warnings ws (mk t)) env w1 = (Inr u, w')"
    by (auto simp: record_state_def new_state_def run_simps simp flip: mk_def)
  from state_file.published [OF assms(1) wr] show ?thesis
    by (auto simp: with_warnings_def mk_def intro!: exI [of _ "with_warnings ws (mk t)"])
qed

lemma recorded_transaction_Inr:
  assumes "recorded_transaction L c mode plan p mirror recovery env w = (Inr outcome, w')"
  shows "\<exists>w1 u w0. run_transaction L c plan mode mirror recovery env w0 = (Inr outcome, w1)
    \<and> record_state L p (conn_id c) mode StSucceeded (bo_warnings outcome) env w1 = (Inr u, w')"
proof -
  from assms obtain u0 w0 x w1 final w2 u w3
    where run: "run_transaction L c plan mode mirror recovery env w0 = (x, w1)"
      and final: "(if is_ok x then ret StSucceeded
          else bindP is_cancelled (\<lambda>stop. ret (if stop then StCancelled else StFailed))) env w1
          = ((Inr final, w2) :: (msg + offline_operation_state) \<times> world)"
      and rec: "record_state L p (conn_id c) mode final
          (case x of Inr outcome \<Rightarrow> bo_warnings outcome | Inl _ \<Rightarrow> []) env w2 = (u, w3)"
      and res: "(case x of Inl e \<Rightarrow> fail e
         | Inr outcome \<Rightarrow> (case u of Inl e \<Rightarrow> fail e | Inr _ \<Rightarrow> ret outcome)) env w3 = (Inr outcome, w')"
    unfolding recorded_transaction_def run_simps tryP_Inr by blast
  from res obtain v where x: "x = Inr outcome" "u = Inr v" "w3 = w'"
    by (auto split: sum.splits)
  with final have "final = StSucceeded" "w2 = w1" by (auto simp: is_ok_def)
  with run rec x show ?thesis by auto
qed

lemma run_plan_Inr:
  assumes "run_plan L c mode work_root plan g env w = (Inr outcome, w')"
  shows "\<exists>mirror recovery w0 w1.
    recorded_transaction L c mode plan (state_path work_root (conn_id c)) mirror recovery env w0 = (Inr outcome, w1)
    \<and> files w' = files w1 \<and> events w' = events w1"
  using assms
  by (auto simp: run_plan_def run_plan_locked_def run_simps unlock_def Let_def split: if_splits prod.splits) metis

text \<open>
  C4. A reported success is the engine's success, on record: when an operation answers \<open>Ok\<close>, it ran
  the mode's own bisync request and the engine ended it without an error, with exactly the output that
  is reported; and the connection's state file holds the complete encoding of a Succeeded state for
  this connection and operation, with the warnings that are reported.
\<close>
theorem success_is_the_engines_and_recorded:
  assumes "guards_emit L (\<lambda>_. True) (\<lambda>_. True) env"
    and "normal_abs (components work_root)" and "uuid_text (conn_uuid (conn_id c))"
    and "\<forall>n. uuid_text (e_uuid env n)"
    and "run_plan L c mode work_root plan g env w = (Inr outcome, w')"
  shows "(\<exists>day stamp request n f. bisync_request plan mode day stamp = Inr request
        \<and> Ran request \<in> set (events w') \<and> fst (e_cmd env n request f) = Inr (bo_output outcome))
    \<and> (\<exists>s code. encode_state (cl_state L) s = Some code
        \<and> fs_get (files w') (components (state_path work_root (conn_id c))) = Some (File code)
        \<and> cs_state s = StSucceeded \<and> cs_connection_id s = conn_id c \<and> cs_operation s = mode_operation mode
        \<and> cs_warnings s = bo_warnings outcome)"
proof -
  let ?p = "state_path work_root (conn_id c)"
  from run_plan_Inr [OF assms(5)] obtain mirror recovery w0 w1
    where rec: "recorded_transaction L c mode plan ?p mirror recovery env w0 = (Inr outcome, w1)"
      and same: "files w' = files w1" "events w' = events w1" by blast
  from recorded_transaction_Inr [OF rec] obtain w2 u w3
    where tr: "run_transaction L c plan mode mirror recovery env w3 = (Inr outcome, w2)"
      and fin: "record_state L ?p (conn_id c) mode StSucceeded (bo_warnings outcome) env w2 = (Inr u, w1)" by blast
  have "set (events w2) \<subseteq> set (events w')"
    using emitsD [OF emits_record_state [where P = "\<lambda>_. True"] fin] same by auto
  from engine_ran_mono [OF run_transaction_ran [OF tr] this]
    record_state_Inr [OF state_path_suitable [OF assms(2-4)] fin] same
  show ?thesis unfolding engine_ran_def by simp
qed

text \<open>An environment where nothing fails and every command succeeds without output.\<close>

definition quiet_output :: command_output where
  "quiet_output =
     (let none = \<lparr>co_text = [], co_truncated = False, co_invalid_utf8 = False\<rparr>
      in \<lparr>out_stdout = none, out_stderr = none, out_attempts = 1\<rparr>)"

definition quiet_env :: env where
  "quiet_env =
     sample_env\<lparr>e_fault := (\<lambda>n. None), e_now := (\<lambda>n. (8640000, 0)), e_cmd := (\<lambda>n r f. (Inr quiet_output, f))\<rparr>"

lemma quiet_run:
  "is_ok (fst (run_plan sample_coordinator sample_mirror InitialPreview ''/h/u/state'' (projr sample_plan) False
     quiet_env sample_world))"
  by code_simp

lemma success_is_the_engines_and_recorded_witness:
  "\<exists>outcome w' code. run_plan sample_coordinator sample_mirror InitialPreview ''/h/u/state'' (projr sample_plan)
       False quiet_env sample_world = (Inr outcome, w')
     \<and> fs_get (files w') (components (state_path ''/h/u/state'' (conn_id sample_mirror))) = Some (File code)"
proof -
  obtain outcome w' where run: "run_plan sample_coordinator sample_mirror InitialPreview ''/h/u/state''
      (projr sample_plan) False quiet_env sample_world = (Inr outcome, w')"
    using quiet_run by (auto simp: is_ok_def split: sum.splits) (metis prod.collapse)
  have root: "normal_abs (components ''/h/u/state'')"
  proof -
    have c: "components ''/h/u/state'' = [RootDir, Normal ''h'', Normal ''u'', Normal ''state'']" by code_simp
    show ?thesis unfolding c normal_abs_def
      by (rule exI [of _ "[''h'', ''u'', ''state'']"]) (simp add: valid_part_def)
  qed
  have u: "uuid_text (conn_uuid (conn_id sample_mirror))" by code_simp
  have us: "\<forall>n. uuid_text (e_uuid quiet_env n)"
    by (simp add: quiet_env_def sample_env_def sample_uuid_text)
  from success_is_the_engines_and_recorded [OF sample_guards root u us run] run show ?thesis by blast
qed

end
