(* ===== verification/Config.thy ===== *)
theory Config
  imports Sync
begin

text \<open>
  \<open>src/src/config.rs\<close>: the saved document, its validation and migration.  The connections and VPN
  profiles are visited in their order and every rule adds its errors at the end, as the code does.
\<close>

section \<open>The document\<close>

definition CONFIG_SCHEMA_VERSION :: u32 where "CONFIG_SCHEMA_VERSION = 2"
definition MIN_PRELOAD_SECONDS :: u64 where "MIN_PRELOAD_SECONDS = 5"
definition MAX_PRELOAD_SECONDS :: u64 where "MAX_PRELOAD_SECONDS = 600"
definition MIN_PRELOAD_DEPTH :: u8 where "MIN_PRELOAD_DEPTH = 1"
definition MAX_PRELOAD_DEPTH :: u8 where "MAX_PRELOAD_DEPTH = 10"

record config_document =
  schema_version :: u32
  notifications_enabled :: bool
  unmount_before_sleep :: bool
  restore_after_wake :: bool
  preload :: preload_settings
  onedriver_preload_seconds :: "u64 option"
  connections :: "connection list"
  vpn_profiles :: "vpn_profile list"

definition default_document :: config_document where
  "default_document =
     \<lparr>schema_version = CONFIG_SCHEMA_VERSION, notifications_enabled = True, unmount_before_sleep = False,
      restore_after_wake = False, preload = default_preload_settings, onedriver_preload_seconds = None,
      connections = [], vpn_profiles = []\<rparr>"

datatype validation_error =
    InvalidSchemaVersion u32
  | InvalidName string string
  | DuplicateConnectionId connection_id
  | DuplicateVpnProfileId vpn_profile_id
  | MissingVpnProfile vpn_profile_id
  | ConfigInvalidRemoteReference connection_id
  | ConfigInvalidRemoteSubpath connection_id
  | InvalidLocalPath connection_id path
  | UnsafeSystemPath connection_id path
  | ConflictingTargets connection_id connection_id path path
  | InvalidCacheDirectory connection_id path
  | ConfigInvalidRecoveryDirectory connection_id path
  | InvalidSyncInterval connection_id
  | InvalidVpnTimeout vpn_profile_id
  | InvalidReadinessValue vpn_profile_id
  | InvalidPreloadSeconds u64
  | InvalidPreloadDepth u8
  | InvalidPreloadPolicy string
  | InvalidSmbPreloadOverride connection_id
  | InvalidSftpPreloadOverride connection_id
  | ConfigInvalidSharePointIdentity connection_id
  | InvalidOfflineEngine connection_id
  | ConfigInvalidOneDriveIdentity connection_id
  | ConfigInvalidWorkDirectory connection_id path

text \<open>The message of an error: its key and its arguments.\<close>

definition id_text :: "string \<Rightarrow> connection_id \<Rightarrow> msg" where
  "id_text k cid = Fl k [(''id'', Lit (conn_uuid cid))]"

definition vpn_text :: "string \<Rightarrow> vpn_profile_id \<Rightarrow> msg" where
  "vpn_text k v = Fl k [(''id'', Lit (vpn_uuid v))]"

definition path_text :: "string \<Rightarrow> connection_id \<Rightarrow> path \<Rightarrow> msg" where
  "path_text k cid p = Fl k [(''id'', Lit (conn_uuid cid)), (''path'', Lit p)]"

definition word_text :: "'a::len word \<Rightarrow> msg" where
  "word_text x = Lit (show_nat (unat x))"

fun validation_error_text :: "validation_error \<Rightarrow> msg" where
  "validation_error_text (InvalidSchemaVersion v) = Fl ''config-invalid-schema'' [(''version'', word_text v)]"
| "validation_error_text (InvalidName field v) = Fl ''config-invalid-name'' [(''field'', Lit field)]"
| "validation_error_text (DuplicateConnectionId i) = id_text ''config-duplicate-connection'' i"
| "validation_error_text (DuplicateVpnProfileId i) = vpn_text ''config-duplicate-vpn'' i"
| "validation_error_text (MissingVpnProfile i) = vpn_text ''config-missing-vpn'' i"
| "validation_error_text (ConfigInvalidRemoteReference i) = id_text ''config-invalid-remote'' i"
| "validation_error_text (ConfigInvalidRemoteSubpath i) = id_text ''config-invalid-subpath'' i"
| "validation_error_text (InvalidLocalPath i p) = path_text ''config-invalid-local'' i p"
| "validation_error_text (UnsafeSystemPath i p) = path_text ''config-unsafe-system-path'' i p"
| "validation_error_text (ConflictingTargets i j p q) =
     Fl ''config-conflicting-targets''
       [(''first'', Lit (conn_uuid i)), (''second'', Lit (conn_uuid j)), (''first_path'', Lit p),
        (''second_path'', Lit q)]"
| "validation_error_text (InvalidCacheDirectory i p) = path_text ''config-invalid-cache'' i p"
| "validation_error_text (ConfigInvalidRecoveryDirectory i p) = path_text ''config-invalid-recovery'' i p"
| "validation_error_text (InvalidSyncInterval i) = id_text ''config-invalid-sync-interval'' i"
| "validation_error_text (InvalidVpnTimeout i) = vpn_text ''config-invalid-vpn-timeout'' i"
| "validation_error_text (InvalidReadinessValue i) = vpn_text ''config-invalid-readiness'' i"
| "validation_error_text (InvalidPreloadSeconds v) =
     Fl ''config-invalid-preload-time''
       [(''value'', word_text v), (''min'', word_text MIN_PRELOAD_SECONDS), (''max'', word_text MAX_PRELOAD_SECONDS)]"
| "validation_error_text (InvalidPreloadDepth v) =
     Fl ''config-invalid-preload-depth''
       [(''value'', word_text v), (''min'', word_text MIN_PRELOAD_DEPTH), (''max'', word_text MAX_PRELOAD_DEPTH)]"
| "validation_error_text (InvalidPreloadPolicy p) = Fl ''config-invalid-preload-policy'' [(''provider'', Lit p)]"
| "validation_error_text (InvalidSmbPreloadOverride i) = id_text ''config-invalid-smb-preload'' i"
| "validation_error_text (InvalidSftpPreloadOverride i) = id_text ''config-invalid-sftp-preload'' i"
| "validation_error_text (ConfigInvalidSharePointIdentity i) = id_text ''config-invalid-sharepoint'' i"
| "validation_error_text (InvalidOfflineEngine i) = id_text ''config-invalid-offline-engine'' i"
| "validation_error_text (ConfigInvalidOneDriveIdentity i) = id_text ''config-invalid-onedrive-identity'' i"
| "validation_error_text (ConfigInvalidWorkDirectory i p) = path_text ''config-invalid-work-directory'' i p"

section \<open>Paths\<close>

text \<open>
  \<open>normalize_absolute\<close>: the components are pushed onto \<open>/\<close>, a \<open>..\<close> pops and fails at the root.
\<close>

fun normalize_from :: "path_comp list \<Rightarrow> path_comp list \<Rightarrow> path_comp list option" where
  "normalize_from acc [] = Some acc"
| "normalize_from acc (RootDir # cs) = normalize_from acc cs"
| "normalize_from acc (CurDir # cs) = normalize_from acc cs"
| "normalize_from acc (Normal part # cs) = normalize_from (acc @ [Normal part]) cs"
| "normalize_from acc (ParentDir # cs) =
     (case comps_pop acc of None \<Rightarrow> None | Some acc' \<Rightarrow> normalize_from acc' cs)"

definition normalize_absolute :: "path \<Rightarrow> path option" where
  "normalize_absolute p =
     (if \<not> is_absolute p then None else map_option render_abs (normalize_from [RootDir] (components p)))"

definition config_paths_overlap :: "path \<Rightarrow> path \<Rightarrow> bool" where
  "config_paths_overlap a b = (path_eq a b \<or> path_starts_with a b \<or> path_starts_with b a)"

definition UNSAFE :: "path list" where
  "UNSAFE =
     [''/'', ''/bin'', ''/boot'', ''/dev'', ''/etc'', ''/lib'', ''/lib64'', ''/proc'', ''/root'', ''/run'', ''/sbin'',
      ''/sys'', ''/usr'', ''/var'']"

definition is_unsafe_system_path :: "path \<Rightarrow> bool" where
  "is_unsafe_system_path p =
     (\<exists>u \<in> set UNSAFE. path_eq p u \<or> (\<not> path_eq u ''/'' \<and> path_starts_with p u))"

definition is_unsafe_remote_subpath :: "string \<Rightarrow> bool \<Rightarrow> bool" where
  "is_unsafe_remote_subpath v allow_absolute =
     (trim v = [] \<or> (\<not> allow_absolute \<and> is_absolute v)
      \<or> (\<exists>c \<in> set (components v). c = ParentDir \<or> (\<not> allow_absolute \<and> c = RootDir)))"

section \<open>Validation\<close>

definition when_err :: "bool \<Rightarrow> validation_error \<Rightarrow> validation_error list" where
  "when_err b e = (if b then [e] else [])"

definition validate_preload_policy :: "string \<Rightarrow> preload_policy \<Rightarrow> bool \<Rightarrow> validation_error list" where
  "validate_preload_policy name p requires_depth =
     when_err (\<not> (MIN_PRELOAD_SECONDS \<le> pp_maximum_seconds p \<and> pp_maximum_seconds p \<le> MAX_PRELOAD_SECONDS))
       (InvalidPreloadSeconds (pp_maximum_seconds p))
     @ (case pp_maximum_depth p of
          Some d \<Rightarrow>
            if requires_depth
            then when_err (\<not> (MIN_PRELOAD_DEPTH \<le> d \<and> d \<le> MAX_PRELOAD_DEPTH)) (InvalidPreloadDepth d)
            else [InvalidPreloadPolicy name]
        | None \<Rightarrow> when_err requires_depth (InvalidPreloadPolicy name))"

definition validate_name :: "string \<Rightarrow> string \<Rightarrow> validation_error list" where
  "validate_name field v = when_err (trim v = [] \<or> has_control_char v) (InvalidName field v)"

fun invalid_readiness :: "readiness_check \<Rightarrow> bool" where
  "invalid_readiness NetworkManagerState = False"
| "invalid_readiness (Interface v) = (trim v = [] \<or> has_control_char v)"
| "invalid_readiness (Route v) = (trim v = [] \<or> has_control_char v)"
| "invalid_readiness (DnsName v) = (trim v = [] \<or> has_control_char v)"
| "invalid_readiness (Endpoint v) = (trim v = [] \<or> has_control_char v)"

text \<open>The first argument of the two loops holds the identifiers already inserted in the set.\<close>

fun validate_vpns :: "vpn_profile_id list \<Rightarrow> vpn_profile list \<Rightarrow> validation_error list" where
  "validate_vpns seen [] = []"
| "validate_vpns seen (v # vs) =
     when_err (vpn_id v \<in> set seen) (DuplicateVpnProfileId (vpn_id v))
     @ validate_name ''vpn.name'' (vpn_name v)
     @ when_err (timeout_seconds v = 0) (InvalidVpnTimeout (vpn_id v))
     @ when_err ((case external_profile_id v of None \<Rightarrow> False | Some s \<Rightarrow> has_control_char s)
                 \<or> list_ex invalid_readiness (readiness_checks v)) (InvalidReadinessValue (vpn_id v))
     @ validate_vpns (vpn_id v # seen) vs"

definition validate_online_mount :: "connection_id \<Rightarrow> path \<Rightarrow> online_mount_config \<Rightarrow> validation_error list" where
  "validate_online_mount cid local opts =
     (case cache_directory opts of
        None \<Rightarrow> []
      | Some cache \<Rightarrow>
          (case normalize_absolute cache of
             Some q \<Rightarrow>
               when_err (config_paths_overlap local q \<or> is_unsafe_system_path q) (InvalidCacheDirectory cid cache)
           | None \<Rightarrow> [InvalidCacheDirectory cid cache]))"

definition validate_offline_mirror ::
  "connection_id \<Rightarrow> path \<Rightarrow> offline_mirror_config \<Rightarrow> validation_error list" where
  "validate_offline_mirror cid local opts =
     (case normalize_absolute (recovery_directory opts) of
        Some r \<Rightarrow>
          when_err (config_paths_overlap local r \<or> is_unsafe_system_path r)
            (ConfigInvalidRecoveryDirectory cid (recovery_directory opts))
      | None \<Rightarrow> [ConfigInvalidRecoveryDirectory cid (recovery_directory opts)])
     @ when_err (sync_interval_minutes opts = 0) (InvalidSyncInterval cid)"

definition valid_teams_identity :: "'u url_lib \<Rightarrow> connection \<Rightarrow> bool" where
  "valid_teams_identity U c =
     ((case teams_identity c of
         None \<Rightarrow> False
       | Some i \<Rightarrow>
           trim (sp_drive_id i) \<noteq> []
           \<and> (case parse_library_url U (library_url i) of
                Inl _ \<Rightarrow> False | Inr parsed \<Rightarrow> site_url parsed = site_url i))
      \<and> (is_online c \<or> is_ok (mirror_binding_from U c)))"

definition override_policy :: "preload_override \<Rightarrow> preload_policy" where
  "override_policy v =
     \<lparr>pp_enabled = po_enabled v, pp_maximum_seconds = po_maximum_seconds v,
      pp_maximum_depth = Some (po_maximum_depth v)\<rparr>"

definition validate_override ::
  "connection \<Rightarrow> provider \<Rightarrow> string \<Rightarrow> validation_error \<Rightarrow> preload_override option \<Rightarrow> validation_error list" where
  "validate_override c wanted name e v =
     (case v of
        None \<Rightarrow> []
      | Some ov \<Rightarrow>
          when_err (conn_provider c \<noteq> wanted \<or> \<not> is_online c) e
          @ validate_preload_policy name (override_policy ov) True)"

text \<open>The rules on one connection that do not need its local path.\<close>

definition validate_settings ::
  "'u url_lib \<Rightarrow> vpn_profile_id list \<Rightarrow> connection \<Rightarrow> validation_error list" where
  "validate_settings U vpn_ids c =
     validate_name ''connection.name'' (conn_name c)
     @ when_err (conn_offline_engine c = Some LegacyOnedrive \<and> conn_provider c \<noteq> OneDrive)
         (InvalidOfflineEngine (conn_id c))
     @ when_err (if conn_provider c = OneDrive \<and> conn_offline_engine c = Some Rclone
                 then \<not> (case conn_onedrive_identity c of None \<Rightarrow> False | Some i \<Rightarrow> onedrive_identity_valid i)
                 else conn_onedrive_identity c \<noteq> None)
         (ConfigInvalidOneDriveIdentity (conn_id c))
     @ when_err (trim (remote_reference c) = [] \<or> has_control_char (remote_reference c))
         (ConfigInvalidRemoteReference (conn_id c))
     @ when_err (case remote_subpath c of
                   None \<Rightarrow> False
                 | Some s \<Rightarrow> has_control_char s \<or> is_unsafe_remote_subpath s (conn_provider c = Sftp))
         (ConfigInvalidRemoteSubpath (conn_id c))
     @ when_err (if conn_provider c = Teams then \<not> valid_teams_identity U c else teams_identity c \<noteq> None)
         (ConfigInvalidSharePointIdentity (conn_id c))
     @ validate_override c Smb ''smb_connection'' (InvalidSmbPreloadOverride (conn_id c)) (smb_preload_override c)
     @ validate_override c Sftp ''sftp_connection'' (InvalidSftpPreloadOverride (conn_id c))
         (sftp_preload_override c)
     @ (case vpn_profile_id c of
          None \<Rightarrow> []
        | Some v \<Rightarrow> when_err (v \<notin> set vpn_ids) (MissingVpnProfile v))"

text \<open>A target: its connection, a normalized path and whether it is the local path.\<close>

type_synonym target = "connection_id \<times> path \<times> bool"

text \<open>The rules on the paths of one connection, and the targets they add.\<close>

definition validate_paths :: "connection \<Rightarrow> validation_error list \<times> target list" where
  "validate_paths c =
     (case normalize_absolute (local_path c) of
        None \<Rightarrow> ([InvalidLocalPath (conn_id c) (local_path c)], [])
      | Some local \<Rightarrow>
          let unsafe = when_err (is_unsafe_system_path local) (UnsafeSystemPath (conn_id c) local) in
          case conn_mode c of
            OnlineMount opts \<Rightarrow>
              (unsafe @ validate_online_mount (conn_id c) local opts, [(conn_id c, local, True)])
          | OfflineMirror opts \<Rightarrow>
              (unsafe @ validate_offline_mirror (conn_id c) local opts,
               (case normalize_absolute (recovery_directory opts) of
                  None \<Rightarrow> [] | Some r \<Rightarrow> [(conn_id c, r, False)]) @ [(conn_id c, local, True)]))"

fun validate_connections ::
  "'u url_lib \<Rightarrow> vpn_profile_id list \<Rightarrow> connection_id list \<Rightarrow> connection list
     \<Rightarrow> validation_error list \<times> target list" where
  "validate_connections U vpn_ids seen [] = ([], [])"
| "validate_connections U vpn_ids seen (c # cs) =
     (let (errors, targets) = validate_connections U vpn_ids (conn_id c # seen) cs;
          (here, own) = validate_paths c
      in (when_err (conn_id c \<in> set seen) (DuplicateConnectionId (conn_id c))
            @ validate_settings U vpn_ids c @ here @ errors,
          own @ targets))"

definition conflict_with :: "connection_id list \<Rightarrow> target \<Rightarrow> target \<Rightarrow> validation_error list" where
  "conflict_with rclone_onedrive a b =
     (case (a, b) of ((i, p, lp), (j, q, lq)) \<Rightarrow>
        when_err (i \<noteq> j \<and> (lp \<and> lq \<or> i \<in> set rclone_onedrive \<or> j \<in> set rclone_onedrive)
                  \<and> config_paths_overlap p q)
          (ConflictingTargets i j p q))"

fun conflicts :: "connection_id list \<Rightarrow> target list \<Rightarrow> validation_error list" where
  "conflicts ids [] = []"
| "conflicts ids (t # ts) = concat (map (conflict_with ids t) ts) @ conflicts ids ts"

definition rclone_onedrive_ids :: "connection list \<Rightarrow> connection_id list" where
  "rclone_onedrive_ids cs = map conn_id (filter is_rclone_onedrive cs)"

definition validation_errors :: "'u url_lib \<Rightarrow> config_document \<Rightarrow> validation_error list" where
  "validation_errors U d =
     (let (errors, targets) = validate_connections U (map vpn_id (vpn_profiles d)) [] (connections d)
      in when_err (schema_version d \<noteq> CONFIG_SCHEMA_VERSION) (InvalidSchemaVersion (schema_version d))
         @ validate_preload_policy ''google_drive'' (google_drive (preload d)) False
         @ validate_preload_policy ''onedrive'' (onedrive (preload d)) False
         @ validate_preload_policy ''box'' (box_provider (preload d)) True
         @ validate_preload_policy ''sharepoint'' (sharepoint (preload d)) True
         @ validate_preload_policy ''smb'' (smb (preload d)) True
         @ validate_preload_policy ''sftp'' (sftp (preload d)) True
         @ validate_vpns [] (vpn_profiles d)
         @ errors
         @ conflicts (rclone_onedrive_ids (connections d)) targets)"

definition validate :: "'u url_lib \<Rightarrow> config_document \<Rightarrow> validation_error list + unit" where
  "validate U d = (let errors = validation_errors U d in if errors = [] then Inr () else Inl errors)"

text \<open>\<open>validate_with_work_root\<close>: the shared work root meets no path of a connection.\<close>

definition historic_legacy_recovery :: "path \<Rightarrow> connection \<Rightarrow> offline_mirror_config \<Rightarrow> bool" where
  "historic_legacy_recovery root c opts =
     (conn_provider c = OneDrive \<and> conn_offline_engine c = Some LegacyOnedrive
      \<and> (case normalize_absolute (path_join (path_join root ''onedrive-recovery'') (conn_uuid (conn_id c))) of
           None \<Rightarrow> False
         | Some expected \<Rightarrow>
             (case normalize_absolute (recovery_directory opts) of
                None \<Rightarrow> False | Some r \<Rightarrow> path_eq r expected)))"

definition connection_paths :: "path \<Rightarrow> connection \<Rightarrow> path list" where
  "connection_paths root c =
     local_path c #
       (case conn_mode c of
          OnlineMount opts \<Rightarrow> (case cache_directory opts of None \<Rightarrow> [] | Some p \<Rightarrow> [p])
        | OfflineMirror opts \<Rightarrow> if historic_legacy_recovery root c opts then [] else [recovery_directory opts])"

definition work_root_error :: "path \<Rightarrow> connection \<Rightarrow> validation_error list" where
  "work_root_error root c =
     when_err
       (case normalize_absolute root of
          None \<Rightarrow> True
        | Some work \<Rightarrow>
            list_ex (\<lambda>p. case normalize_absolute p of None \<Rightarrow> False | Some q \<Rightarrow> config_paths_overlap work q)
              (connection_paths root c))
       (ConfigInvalidWorkDirectory (conn_id c) root)"

definition validate_with_work_root ::
  "'u url_lib \<Rightarrow> config_document \<Rightarrow> path \<Rightarrow> validation_error list + unit" where
  "validate_with_work_root U d root =
     (let errors = (case validate U d of Inl e \<Rightarrow> e | Inr _ \<Rightarrow> []) @ concat (map (work_root_error root) (connections d))
      in if errors = [] then Inr () else Inl errors)"

section \<open>Policies and migration\<close>

definition preload_policy_for :: "config_document \<Rightarrow> connection \<Rightarrow> preload_policy" where
  "preload_policy_for d c =
     (case conn_provider c of
        GoogleDrive \<Rightarrow> google_drive (preload d)
      | OneDrive \<Rightarrow> onedrive (preload d)
      | Teams \<Rightarrow> sharepoint (preload d)
      | Box \<Rightarrow> box_provider (preload d)
      | Sftp \<Rightarrow> (case sftp_preload_override c of None \<Rightarrow> sftp (preload d) | Some v \<Rightarrow> override_policy v)
      | Smb \<Rightarrow> (case smb_preload_override c of None \<Rightarrow> smb (preload d) | Some v \<Rightarrow> override_policy v))"

definition migrate_preload_settings :: "config_document \<Rightarrow> config_document" where
  "migrate_preload_settings d =
     (case onedriver_preload_seconds d of
        None \<Rightarrow> d
      | Some s \<Rightarrow>
          d\<lparr>onedriver_preload_seconds := None,
            preload := (preload d)\<lparr>onedrive := (onedrive (preload d))\<lparr>pp_maximum_seconds := s\<rparr>\<rparr>\<rparr>)"

end
