(* ===== verification/Config_Safety.thy ===== *)
theory Config_Safety
  imports Config
begin

text \<open>
  What a validated document guarantees: unique identifiers, normalized and separate targets outside
  system directories, bounded policies, and plans whose directories never meet.
\<close>

section \<open>Normalized paths\<close>

lemma normalize_from_normal:
  "normal_abs acc \<Longrightarrow> \<forall>x. Normal x \<in> set cs \<longrightarrow> valid_part x \<Longrightarrow> normalize_from acc cs = Some out \<Longrightarrow>
     normal_abs out"
proof (induction acc cs rule: normalize_from.induct)
  case (4 acc part cs)
  then show ?case by (auto intro: normal_abs_snoc)
next
  case (5 acc cs)
  then show ?case by (auto split: option.splits dest: normal_abs_pop)
qed auto

lemma normalize_from_keeps:
  "\<forall>c \<in> set cs. \<exists>x. c = Normal x \<Longrightarrow> normalize_from acc cs = Some (acc @ cs)"
  by (induction acc cs rule: normalize_from.induct) auto

lemma normalize_absolute_Some:
  assumes "normalize_absolute p = Some q"
  shows "normal_abs (components q)" "is_absolute q"
    "normalize_from [RootDir] (components p) = Some (components q)" "render_abs (components q) = q"
proof -
  from assms obtain out where o: "normalize_from [RootDir] (components p) = Some out" "q = render_abs out"
    by (auto simp: normalize_absolute_def split: if_splits)
  have "normal_abs out"
    by (rule normalize_from_normal [OF normal_abs_RootDir _ o(1)]) (auto intro: components_normal)
  with o show "normal_abs (components q)" "is_absolute q"
    "normalize_from [RootDir] (components p) = Some (components q)" "render_abs (components q) = q"
    by (simp_all add: components_render)
qed

lemma normalize_absolute_normal:
  assumes "normal_abs (components p)"
  shows "normalize_absolute p = Some (render_abs (components p))"
proof -
  from assms obtain xs where c: "components p = RootDir # map Normal xs" by (auto simp: normal_abs_def)
  then have "is_absolute p" using components_root_only_head [of p] by auto
  then show ?thesis by (simp add: normalize_absolute_def c normalize_from_keeps)
qed

section \<open>No errors\<close>

lemma when_err_Nil [simp]: "when_err b e = [] \<longleftrightarrow> \<not> b"
  by (simp add: when_err_def)

lemma validate_Inr: "validate U d = Inr () \<longleftrightarrow> validation_errors U d = []"
  by (simp add: validate_def Let_def)

lemma validate_connections_simps:
  "fst (validate_connections U vs seen cs) = [] \<longleftrightarrow>
     distinct (map conn_id cs) \<and> conn_id ` set cs \<inter> set seen = {}
     \<and> (\<forall>c \<in> set cs. validate_settings U vs c = [] \<and> fst (validate_paths c) = [])"
  "snd (validate_connections U vs seen cs) = concat (map (snd \<circ> validate_paths) cs)"
  by (induction cs arbitrary: seen) (auto simp: Let_def split_beta)

lemma validate_vpns_Nil:
  "validate_vpns seen vs = [] \<longleftrightarrow>
     distinct (map vpn_id vs) \<and> vpn_id ` set vs \<inter> set seen = {}
     \<and> (\<forall>v \<in> set vs. validate_name ''vpn.name'' (vpn_name v) = [] \<and> timeout_seconds v \<noteq> 0
          \<and> (case external_profile_id v of None \<Rightarrow> True | Some s \<Rightarrow> \<not> has_control_char s)
          \<and> (\<forall>r \<in> set (readiness_checks v). \<not> invalid_readiness r))"
  by (induction vs arbitrary: seen) (auto simp: list_ex_iff split: option.splits)

lemma conflicts_Nil: "conflicts ids ts = [] \<longleftrightarrow> sorted_wrt (\<lambda>a b. conflict_with ids a b = []) ts"
  by (induction ts) (auto simp: concat_eq_Nil_conv)

lemma conflict_with_sym: "conflict_with ids a b = [] \<longleftrightarrow> conflict_with ids b a = []"
  by (auto simp: conflict_with_def config_paths_overlap_def path_eq_def split: prod.splits)

lemma sorted_wrt_pair:
  "sorted_wrt P xs \<Longrightarrow> a \<in> set xs \<Longrightarrow> b \<in> set xs \<Longrightarrow> a \<noteq> b \<Longrightarrow> P a b \<or> P b a"
  by (induction xs) auto

lemmas validation_parts =
  validation_errors_def Let_def split_beta append_is_Nil_conv when_err_Nil validate_connections_simps

lemma valid_connections:
  assumes "validate U d = Inr ()"
  shows "distinct (map conn_id (connections d))"
    "c \<in> set (connections d) \<Longrightarrow> validate_settings U (map vpn_id (vpn_profiles d)) c = []"
    "c \<in> set (connections d) \<Longrightarrow> fst (validate_paths c) = []"
    "conflicts (rclone_onedrive_ids (connections d)) (concat (map (snd \<circ> validate_paths) (connections d))) = []"
  using assms unfolding validate_Inr validation_parts by auto

definition safe_beside :: "path \<Rightarrow> path \<Rightarrow> path \<Rightarrow> bool" where
  "safe_beside local dir r =
     (normalize_absolute dir = Some r \<and> \<not> config_paths_overlap local r \<and> \<not> is_unsafe_system_path r)"

lemma valid_paths:
  assumes "fst (validate_paths c) = []"
  shows "\<exists>local. normalize_absolute (local_path c) = Some local \<and> \<not> is_unsafe_system_path local
    \<and> (conn_id c, local, True) \<in> set (snd (validate_paths c))
    \<and> (case conn_mode c of
         OnlineMount opts \<Rightarrow> cache_directory opts = None \<or> (\<exists>q. safe_beside local (the (cache_directory opts)) q)
       | OfflineMirror opts \<Rightarrow>
           \<exists>r. safe_beside local (recovery_directory opts) r \<and> (conn_id c, r, False) \<in> set (snd (validate_paths c)))"
proof (cases "normalize_absolute (local_path c)")
  case None
  with assms show ?thesis by (simp add: validate_paths_def)
next
  case (Some local)
  with assms show ?thesis
    by (intro exI [of _ local])
       (auto simp: validate_paths_def validate_offline_mirror_def validate_online_mount_def Let_def safe_beside_def
         split: connection_mode.splits option.splits)
qed

text \<open>Targets of two connections that the conflict rule compares do not overlap.\<close>

lemma valid_no_conflict:
  assumes "validate U d = Inr ()" and "c \<in> set (connections d)" and "c' \<in> set (connections d)"
    and "conn_id c \<noteq> conn_id c'"
    and "(conn_id c, p, lp) \<in> set (snd (validate_paths c))" and "(conn_id c', q, lq) \<in> set (snd (validate_paths c'))"
    and "lp \<and> lq \<or> is_rclone_onedrive c"
  shows "\<not> config_paths_overlap p q"
proof -
  let ?ids = "rclone_onedrive_ids (connections d)"
  have w: "sorted_wrt (\<lambda>a b. conflict_with ?ids a b = []) (concat (map (snd \<circ> validate_paths) (connections d)))"
    using valid_connections(4) [OF assms(1)] unfolding conflicts_Nil .
  have "conflict_with ?ids (conn_id c, p, lp) (conn_id c', q, lq) = []"
    using sorted_wrt_pair [OF w, of "(conn_id c, p, lp)" "(conn_id c', q, lq)"] assms(2-6) conflict_with_sym
    by fastforce
  moreover have "is_rclone_onedrive c \<Longrightarrow> conn_id c \<in> set ?ids"
    using assms(2) by (auto simp: rclone_onedrive_ids_def)
  ultimately show ?thesis using assms(4,7) by (auto simp: conflict_with_def)
qed

section \<open>Samples\<close>

definition sample_mount :: connection where
  "sample_mount =
     sample_mirror\<lparr>conn_id := ConnectionId ''7d0e2c11-96a4-4b1a-8f6e-0c2b1d3e4f50'',
       conn_mode := OnlineMount default_online_mount, local_path := ''/h/u/./Mount''\<rparr>"

definition sample_document :: config_document where
  "sample_document = default_document\<lparr>connections := [sample_mirror, sample_mount]\<rparr>"

lemma sample_document_valid: "validate sample_url_lib sample_document = Inr ()"
  by code_simp

lemma sample_document_members:
  "sample_mirror \<in> set (connections sample_document)" "sample_mount \<in> set (connections sample_document)"
  "sample_mirror \<noteq> sample_mount"
proof -
  have "conn_id sample_mirror \<noteq> conn_id sample_mount" by code_simp
  then show "sample_mirror \<noteq> sample_mount" by auto
qed (simp_all add: sample_document_def)

section \<open>Properties\<close>



text \<open>
  No connection touches a system directory or its own safety copies: in a validated document each
  local path normalizes to an absolute path of plain names which is not the root and neither is nor
  lies below one of the listed system directories; a mirror's recovery directory and a mount's cache
  directory are as safe, and separate from the local path.
\<close>
theorem valid_paths_are_safe:
  assumes "validate U d = Inr ()" and "c \<in> set (connections d)"
  shows "\<exists>local. normalize_absolute (local_path c) = Some local \<and> normal_abs (components local)
    \<and> components local \<noteq> [RootDir] \<and> (\<forall>u \<in> set (tl UNSAFE). \<not> path_starts_with local u)
    \<and> (\<forall>dir. (case conn_mode c of
           OnlineMount opts \<Rightarrow> cache_directory opts = Some dir
         | OfflineMirror opts \<Rightarrow> recovery_directory opts = dir) \<longrightarrow>
         (\<exists>r. normalize_absolute dir = Some r \<and> \<not> path_starts_with local r \<and> \<not> path_starts_with r local
            \<and> (\<forall>u \<in> set (tl UNSAFE). \<not> path_starts_with r u)))"
proof -
  have root: "components ''/'' = [RootDir]" by code_simp
  have "list_all (\<lambda>u. \<not> path_eq u ''/'') (tl UNSAFE)" by code_simp
  then have ne: "\<not> path_eq u ''/''" if "u \<in> set (tl UNSAFE)" for u
    using that unfolding list_all_iff by blast
  have safe: "components r \<noteq> [RootDir] \<and> (\<forall>u \<in> set (tl UNSAFE). \<not> path_starts_with r u)"
    if "\<not> is_unsafe_system_path r" for r
    using that ne by (auto simp: is_unsafe_system_path_def UNSAFE_def path_eq_def root)
  from valid_paths [OF valid_connections(3) [OF assms]] obtain local where
    l: "normalize_absolute (local_path c) = Some local" "\<not> is_unsafe_system_path local"
    and m: "case conn_mode c of
         OnlineMount opts \<Rightarrow> cache_directory opts = None \<or> (\<exists>r. safe_beside local (the (cache_directory opts)) r)
       | OfflineMirror opts \<Rightarrow>
           \<exists>r. safe_beside local (recovery_directory opts) r \<and> (conn_id c, r, False) \<in> set (snd (validate_paths c))"
    by blast
  have beside: "\<exists>r. safe_beside local dir r"
    if "case conn_mode c of OnlineMount opts \<Rightarrow> cache_directory opts = Some dir
         | OfflineMirror opts \<Rightarrow> recovery_directory opts = dir" for dir
    using that m by (cases "conn_mode c") auto
  have kept: "normalize_absolute dir = Some r \<and> \<not> path_starts_with local r \<and> \<not> path_starts_with r local
      \<and> (\<forall>u \<in> set (tl UNSAFE). \<not> path_starts_with r u)" if "safe_beside local dir r" for dir r
    using that safe [of r] by (simp add: safe_beside_def config_paths_overlap_def)
  show ?thesis
  proof (rule exI [of _ local], intro conjI allI impI l(1) normalize_absolute_Some(1) [OF l(1)], goal_cases)
    case (3 dir)
    from beside [OF this] obtain r where "safe_beside local dir r" ..
    from kept [OF this] show ?case by (intro exI [of _ r]) simp
  qed (use safe [OF l(2)] in simp_all)
qed

lemma valid_paths_are_safe_witness:
  "\<exists>local. normalize_absolute (local_path sample_mirror) = Some local \<and> components local \<noteq> [RootDir]
     \<and> \<not> path_starts_with local ''/etc''"
proof -
  have "''/etc'' \<in> set (tl UNSAFE)" by (simp add: UNSAFE_def)
  with valid_paths_are_safe [OF sample_document_valid sample_document_members(1)] show ?thesis by blast
qed

text \<open>
  C38. References resolve: in a validated document the identifiers of the connections are distinct, those
  of the VPN profiles are distinct, and a connection that names a VPN profile names exactly one of the
  document, which has a positive timeout and well-formed readiness checks.
\<close>
theorem valid_references_resolve:
  assumes "validate U d = Inr ()"
  shows "distinct (map conn_id (connections d)) \<and> distinct (map vpn_id (vpn_profiles d))
    \<and> (\<forall>c \<in> set (connections d). \<forall>i. vpn_profile_id c = Some i \<longrightarrow>
         (\<exists>!v. v \<in> set (vpn_profiles d) \<and> vpn_id v = i)
         \<and> (\<exists>v \<in> set (vpn_profiles d). vpn_id v = i \<and> 0 < timeout_seconds v
              \<and> list_all (\<lambda>r. \<not> invalid_readiness r) (readiness_checks v)))"
proof -
  have v: "validate_vpns [] (vpn_profiles d) = []"
    using assms unfolding validate_Inr validation_parts by auto
  have dist: "distinct (map vpn_id (vpn_profiles d))" using v by (simp add: validate_vpns_Nil)
  have "(\<exists>!v. v \<in> set (vpn_profiles d) \<and> vpn_id v = i)
      \<and> (\<exists>v \<in> set (vpn_profiles d). vpn_id v = i \<and> 0 < timeout_seconds v
           \<and> list_all (\<lambda>r. \<not> invalid_readiness r) (readiness_checks v))"
    if "c \<in> set (connections d)" "vpn_profile_id c = Some i" for c i
  proof -
    from valid_connections(2) [OF assms that(1)] that(2) obtain p where p: "p \<in> set (vpn_profiles d)" "vpn_id p = i"
      by (auto simp: validate_settings_def)
    have same: "q = p" if "q \<in> set (vpn_profiles d)" "vpn_id q = i" for q
      using dist p that by (metis distinct_map inj_onD)
    have one: "\<exists>!v. v \<in> set (vpn_profiles d) \<and> vpn_id v = i"
      by (rule ex1I [of _ p]) (use p same in blast)+
    have "timeout_seconds p \<noteq> 0" "\<forall>r \<in> set (readiness_checks p). \<not> invalid_readiness r"
      using v p(1) by (auto simp: validate_vpns_Nil)
    then have "0 < timeout_seconds p \<and> list_all (\<lambda>r. \<not> invalid_readiness r) (readiness_checks p)"
      by (simp add: list_all_iff word_gt_0)
    with p one show ?thesis by (intro conjI bexI [of _ p]) blast+
  qed
  with valid_connections(1) [OF assms] dist show ?thesis by blast
qed

lemma valid_references_resolve_witness: "distinct (map conn_id (connections sample_document))"
  using valid_references_resolve [OF sample_document_valid] by blast

text \<open>
  Normalizing is a normal form: the result of \<open>normalize_absolute\<close> is an absolute path without
  empty, \<open>.\<close> and \<open>..\<close> parts that is its own normalization, so a second pass changes nothing.
\<close>
theorem normalize_absolute_idempotent:
  assumes "normalize_absolute p = Some q"
  shows "normalize_absolute q = Some q \<and> normal_abs (components q)"
proof -
  note n = normalize_absolute_Some [OF assms]
  from normalize_absolute_normal [OF n(1)] n(1,4) show ?thesis by simp
qed

lemma normalize_absolute_idempotent_witness:
  "normalize_absolute ''/a//b/./c/../d'' = Some ''/a/b/d'' \<and> normalize_absolute ''/a/b/d'' = Some ''/a/b/d''"
proof -
  have "normalize_absolute ''/a//b/./c/../d'' = Some ''/a/b/d''" by code_simp
  from this normalize_absolute_idempotent [OF this] show ?thesis by blast
qed

text \<open>
  The preload budget is bounded: in a validated document the policy that applies to a connection
  allows 5 to 600 seconds; for Google Drive and OneDrive it has no depth, for every other provider a
  depth of 1 to 10, from the document or from the connection's own override.
\<close>
theorem valid_preload_bounds:
  assumes "validate U d = Inr ()" and "c \<in> set (connections d)"
  shows "5 \<le> unat (pp_maximum_seconds (preload_policy_for d c))
    \<and> unat (pp_maximum_seconds (preload_policy_for d c)) \<le> 600
    \<and> (case pp_maximum_depth (preload_policy_for d c) of
         None \<Rightarrow> conn_provider c \<in> {GoogleDrive, OneDrive}
       | Some depth \<Rightarrow> conn_provider c \<in> {Teams, Box, Smb, Sftp} \<and> 1 \<le> unat depth \<and> unat depth \<le> 10)"
proof -
  have p: "validate_preload_policy n p r = [] \<longleftrightarrow>
      5 \<le> unat (pp_maximum_seconds p) \<and> unat (pp_maximum_seconds p) \<le> 600
      \<and> (case pp_maximum_depth p of None \<Rightarrow> \<not> r | Some k \<Rightarrow> r \<and> 1 \<le> unat k \<and> unat k \<le> 10)" for n p r
    by (auto simp: validate_preload_policy_def MIN_PRELOAD_SECONDS_def MAX_PRELOAD_SECONDS_def
        MIN_PRELOAD_DEPTH_def MAX_PRELOAD_DEPTH_def word_le_nat_alt split: option.splits if_splits)
  have doc: "validate_preload_policy n p r = []"
    if "(n, p, r) \<in> {(''google_drive'', google_drive (preload d), False), (''onedrive'', onedrive (preload d), False),
      (''box'', box_provider (preload d), True), (''sharepoint'', sharepoint (preload d), True),
      (''smb'', smb (preload d), True), (''sftp'', sftp (preload d), True)}" for n p r
    using assms(1) that unfolding validate_Inr validation_parts by auto
  have "validate_override c Smb ''smb_connection'' (InvalidSmbPreloadOverride (conn_id c)) (smb_preload_override c) = []"
    "validate_override c Sftp ''sftp_connection'' (InvalidSftpPreloadOverride (conn_id c)) (sftp_preload_override c) = []"
    using valid_connections(2) [OF assms] unfolding validate_settings_def append_is_Nil_conv by blast+
  then have own: "smb_preload_override c = Some v \<Longrightarrow> validate_preload_policy ''smb_connection'' (override_policy v) True = []"
    "sftp_preload_override c = Some v \<Longrightarrow> validate_preload_policy ''sftp_connection'' (override_policy v) True = []" for v
    by (auto simp: validate_override_def)
  have "\<exists>n r. validate_preload_policy n (preload_policy_for d c) r = []
      \<and> (r \<longleftrightarrow> conn_provider c \<in> {Teams, Box, Smb, Sftp})"
  proof (cases "conn_provider c")
    case OneDrive
    with doc [of "''onedrive''"] show ?thesis by (auto simp: preload_policy_for_def)
  next
    case Teams
    with doc [of "''sharepoint''"] show ?thesis by (auto simp: preload_policy_for_def)
  next
    case GoogleDrive
    with doc [of "''google_drive''"] show ?thesis by (auto simp: preload_policy_for_def)
  next
    case Box
    with doc [of "''box''"] show ?thesis by (auto simp: preload_policy_for_def)
  next
    case Smb
    with doc [of "''smb''"] own(1) show ?thesis
      by (cases "smb_preload_override c") (auto simp: preload_policy_for_def)
  next
    case Sftp
    with doc [of "''sftp''"] own(2) show ?thesis
      by (cases "sftp_preload_override c") (auto simp: preload_policy_for_def)
  qed
  then show ?thesis unfolding p by (cases "conn_provider c") (auto split: option.splits)
qed

lemma valid_preload_bounds_witness:
  "unat (pp_maximum_seconds (preload_policy_for sample_document sample_mirror)) \<le> 600"
  using valid_preload_bounds [OF sample_document_valid sample_document_members(1)] by blast

section \<open>From a valid document to a plan\<close>

lemma normalized_components:
  assumes "normal_abs (components p)" and "normalize_absolute p = Some q"
  shows "components q = components p"
  using normalize_absolute_normal [OF assms(1)] assms by (auto simp: components_render)

lemma paths_overlap_components:
  "components p = components p' \<Longrightarrow> components q = components q' \<Longrightarrow> config_paths_overlap p q = paths_overlap p' q'"
  by (simp add: config_paths_overlap_def paths_overlap_def path_eq_def path_starts_with_def)

lemma validate_with_work_root_Inr:
  "validate_with_work_root U d root = Inr () \<longleftrightarrow>
     validate U d = Inr () \<and> (\<forall>c \<in> set (connections d). work_root_error root c = [])"
  by (auto simp: validate_with_work_root_def validate_def Let_def split: sum.splits if_splits)

text \<open>
  What the editor accepts can be planned: when a document validates together with the work root and
  the paths are written in normal form, the directory check of the planner succeeds for every rclone
  mirror of the document, so the planner never refuses a saved mirror because of its directories.
\<close>
theorem validated_mirror_directories_plan:
  assumes "validate_with_work_root U d root = Inr ()" and "c \<in> set (connections d)"
    and "conn_mode c = OfflineMirror opts" and "conn_offline_engine c = Some Rclone"
    and "normal_abs (components root)" and "normal_abs (components (local_path c))"
    and "normal_abs (components (recovery_directory opts))"
  shows "validate_directory_roots (local_path c) root (recovery_directory opts) = Inr ()"
proof -
  from assms(1) have v: "validate U d = Inr ()" and w: "work_root_error root c = []"
    using assms(2) by (simp_all add: validate_with_work_root_Inr)
  define work where "work = render_abs (components root)"
  have work: "normalize_absolute root = Some work" "components work = components root"
    using normalize_absolute_normal [OF assms(5)] components_render [OF assms(5)] by (simp_all add: work_def)
  from valid_paths [OF valid_connections(3) [OF v assms(2)]] assms(3) obtain local r
    where l: "normalize_absolute (local_path c) = Some local" and r: "safe_beside local (recovery_directory opts) r"
    by auto
  have lc: "components local = components (local_path c)" by (rule normalized_components [OF assms(6) l])
  have rn: "normalize_absolute (recovery_directory opts) = Some r" using r by (simp add: safe_beside_def)
  have rc: "components r = components (recovery_directory opts)" by (rule normalized_components [OF assms(7) rn])
  have "\<not> historic_legacy_recovery root c opts" using assms(4) by (simp add: historic_legacy_recovery_def)
  with w work l rn assms(3) have "\<not> config_paths_overlap work local" "\<not> config_paths_overlap work r"
    by (simp_all add: work_root_error_def connection_paths_def)
  moreover have "\<not> config_paths_overlap local r" using r by (simp add: safe_beside_def)
  ultimately have "\<not> paths_overlap (local_path c) root" "\<not> paths_overlap root (recovery_directory opts)"
    "\<not> paths_overlap (local_path c) (recovery_directory opts)"
    using paths_overlap_components lc rc work(2) paths_overlap_sym by metis+
  with normal_abs_absolute assms(5,7) show ?thesis by (simp add: validate_directory_roots_def)
qed

lemma sample_normal: "normal_abs (components ''/h/u/state'')" "normal_abs (components ''/h/u/Drive'')"
  "normal_abs (components ''/h/u/rec'')"
proof -
  have c: "components ''/h/u/state'' = [RootDir, Normal ''h'', Normal ''u'', Normal ''state'']"
    "components ''/h/u/Drive'' = [RootDir, Normal ''h'', Normal ''u'', Normal ''Drive'']"
    "components ''/h/u/rec'' = [RootDir, Normal ''h'', Normal ''u'', Normal ''rec'']" by code_simp+
  have n: "normal_abs [RootDir, Normal ''h'', Normal ''u'', Normal x]" if "valid_part x" for x
    unfolding normal_abs_def by (rule exI [of _ "[''h'', ''u'', x]"]) (use that in \<open>simp add: valid_part_def\<close>)
  show "normal_abs (components ''/h/u/state'')" "normal_abs (components ''/h/u/Drive'')"
    "normal_abs (components ''/h/u/rec'')"
    unfolding c by (intro n; simp add: valid_part_def)+
qed

lemma validated_mirror_directories_plan_witness:
  "validate_directory_roots (local_path sample_mirror) ''/h/u/state'' ''/h/u/rec'' = Inr ()"
proof -
  have v: "validate_with_work_root sample_url_lib sample_document ''/h/u/state'' = Inr ()" by code_simp
  have m: "conn_mode sample_mirror = OfflineMirror (default_offline_mirror\<lparr>recovery_directory := ''/h/u/rec''\<rparr>)"
    "conn_offline_engine sample_mirror = Some Rclone" "local_path sample_mirror = ''/h/u/Drive''"
    by (simp_all add: sample_mirror_def conn_offline_engine_def default_offline_mirror_def)
  show ?thesis
    using validated_mirror_directories_plan [OF v sample_document_members(1) m(1,2) sample_normal(1)] sample_normal m(3)
    by simp
qed

text \<open>
  The planner compares paths as they are written: a mirror written with a \<open>..\<close> part can be
  accepted by the document's validation and by the planner although, normalized, it lies inside the
  engine's work root, which the planner is there to refuse.
\<close>
theorem unnormalized_mirror_meets_work_root:
  "let c = sample_mirror\<lparr>local_path := ''/h/u/x/../state/Drive''\<rparr>
   in validate sample_url_lib (default_document\<lparr>connections := [c]\<rparr>) = Inr ()
      \<and> validate_directory_roots (local_path c) ''/h/u/state'' ''/h/u/rec'' = Inr ()
      \<and> (case normalize_absolute (local_path c) of
           None \<Rightarrow> False | Some p \<Rightarrow> path_starts_with p ''/h/u/state'')"
  by code_simp

end
