(* ===== verification/Config_Store.thy ===== *)
theory Config_Store
  imports Config_Safety Atomic_Files
begin

text \<open>
  Loading and saving the document (\<open>src/src/config.rs\<close>): the host-visible file and the cosmic-config
  store, migration from version 1, and updates that roll back.  \<open>ron\<close> and \<open>cosmic_config\<close> are
  arguments; \<open>ron\<close> is a codec, the store is a record of programs.
\<close>

section \<open>Stores\<close>

record cc_error =
  cce_is_err :: bool
  cce_text :: string

record cosmic_store =
  cc_document :: "(cc_error, config_document) prog"
  cc_legacy_notifications :: "(cc_error, bool) prog"
  cc_write_entry :: "config_document \<Rightarrow> (cc_error, unit) prog"

record ron_codec =
  ron_parse :: "string \<Rightarrow> msg + config_document"
  ron_print :: "config_document \<Rightarrow> msg + string"

datatype save_error = Validation "validation_error list" | Storage cc_error | SaveIo msg | Serialize msg

fun save_error_text :: "save_error \<Rightarrow> msg" where
  "save_error_text (Validation es) =
     Fl ''ui-config-configuration-is-invalid-errors'' [(''errors'', Joined ''; '' (map validation_error_text es))]"
| "save_error_text (Storage e) = Lit (cce_text e)"
| "save_error_text (SaveIo m) = m"
| "save_error_text (Serialize m) = m"

datatype load_source = SourceCurrent | Fresh | MigratedV1 | RecoveredDefaults

record load_report =
  lr_config :: config_document
  lr_source :: load_source
  lr_warnings :: "msg list"

definition recovered :: "msg list \<Rightarrow> load_report" where
  "recovered ws = \<lparr>lr_config = default_document, lr_source = RecoveredDefaults, lr_warnings = ws\<rparr>"

text \<open>A document that was read: migrated and validated, or replaced by the defaults.\<close>

definition checked_report :: "'u url_lib \<Rightarrow> config_document \<Rightarrow> load_report" where
  "checked_report U d =
     (let m = migrate_preload_settings d in
      case validate U m of
        Inr _ \<Rightarrow> \<lparr>lr_config = m, lr_source = SourceCurrent, lr_warnings = []\<rparr>
      | Inl errors \<Rightarrow> recovered (map validation_error_text errors))"

section \<open>The host-visible file\<close>

text \<open>
  \<open>fs::write\<close>: open with create and truncate, following links, then write through the descriptor; the
  key is the file the descriptor stands for.
\<close>

fun resolve_link :: "nat \<Rightarrow> fs \<Rightarrow> key \<Rightarrow> key" where
  "resolve_link 0 f k = k"
| "resolve_link (Suc n) f k =
     (case fs_get f k of
        Some (Symlink t) \<Rightarrow> resolve_link n f (if is_absolute t then components t else butlast k @ components t)
      | _ \<Rightarrow> k)"

definition open_truncate :: "path \<Rightarrow> (io_error, key) prog" where
  "open_truncate p = fs_step (\<lambda>_ f. f) (\<lambda>f.
     let k = resolve_link SYMLINK_LIMIT f (components p)
     in if fs_get f k = Some Dir then (io OtherKind p, f)
        else if \<not> parent_ok f k then (io NotFound p, f)
        else (Inr k, fs_put k (File []) f))"

definition write_key :: "key \<Rightarrow> string \<Rightarrow> (io_error, unit) prog" where
  "write_key k c = fs_step (\<lambda>j f. fs_put k (File (take j c)) f) (\<lambda>f. (Inr (), fs_put k (File c) f))"

definition fs_write :: "path \<Rightarrow> string \<Rightarrow> (io_error, unit) prog" where
  "fs_write p c = bindP (open_truncate p) (\<lambda>k. write_key k c)"

text \<open>\<open>Path::with_extension\<close>: the last dot of the file name, unless it is its first byte, starts the extension.\<close>

definition file_stem :: "string \<Rightarrow> string" where
  "file_stem name =
     (case rfind_char (CHR ''.'') name of
        None \<Rightarrow> name | Some i \<Rightarrow> if i = 0 then name else take i name)"

definition with_extension :: "path \<Rightarrow> string \<Rightarrow> path" where
  "with_extension p ext =
     (case rev (components p) of
        Normal name # _ \<Rightarrow> path_join (parent_of p) (file_stem name @ ''.'' @ ext)
      | _ \<Rightarrow> p)"

definition host_load :: "'u url_lib \<Rightarrow> ron_codec \<Rightarrow> path \<Rightarrow> ('e, load_report) prog" where
  "host_load U R p =
     bindP (tryP (read_to_string p)) (\<lambda>r.
       ret (case r of
              Inr contents \<Rightarrow>
                (case ron_parse R contents of
                   Inr d \<Rightarrow> checked_report U d
                 | Inl e \<Rightarrow>
                     recovered [Fl ''ui-config-failed-to-parse-host-visible-applet-configuration''
                                  [(''value1'', Lit p), (''error'', e)]])
            | Inl e \<Rightarrow>
                if io_kind e = NotFound
                then \<lparr>lr_config = default_document, lr_source = Fresh, lr_warnings = []\<rparr>
                else recovered [Fl ''ui-config-failed-to-read-host-visible-applet-configuration''
                                  [(''value1'', Lit p), (''error'', io_text e)]]))"

definition save_io :: "string \<Rightarrow> path \<Rightarrow> io_error \<Rightarrow> save_error" where
  "save_io k p e = SaveIo (Fl k [(''value1'', Lit p), (''error'', io_text e)])"

text \<open>A failed rename removes the temporary file before it reports.\<close>

definition host_write :: "ron_codec \<Rightarrow> path \<Rightarrow> config_document \<Rightarrow> (save_error, unit) prog" where
  "host_write R p d =
     (if \<not> has_parent p
      then fail (SaveIo (Fl ''ui-config-configuration-path-value1-has-no-parent-directory'' [(''value1'', Lit p)]))
      else
      seqP (map_errP (save_io ''ui-config-failed-to-create-configuration-directory-value1-error'' (parent_of p))
              (create_dir_all (parent_of p)))
     (bindP (liftR (map_err Serialize (ron_print R d))) (\<lambda>content.
      let tmp = with_extension p ''tmp'' in
      seqP (map_errP (save_io ''ui-config-failed-to-write-temporary-configuration-value1-error'' tmp)
              (fs_write tmp content))
     (bindP (tryP (rename_file tmp p)) (\<lambda>r.
      case r of
        Inr _ \<Rightarrow> ret ()
      | Inl e \<Rightarrow>
          seqP (seqP (tryP (remove_file tmp)) (ret ()))
               (fail (save_io ''ui-config-failed-to-install-configuration-value1-error'' p e)))))))"

text \<open>\<open>host_visible_document_path\<close>: below \<open>HOME\<close>; the version of the store is 2.\<close>

definition host_visible_document_path :: "path option \<Rightarrow> path res" where
  "host_visible_document_path home =
     map_err (\<lambda>_. fl ''ui-config-home-is-not-set-cannot-locate-host'')
       (ok_or () (map_option (\<lambda>h.
         path_join (path_join (path_join (path_join (path_join h ''.config'') ''cosmic'') APP_ID) ''v2'') ''document'')
         home))"

section \<open>The cosmic-config store\<close>

definition validation_guard :: "'u url_lib \<Rightarrow> config_document \<Rightarrow> (save_error, unit) prog" where
  "validation_guard U d = liftR (map_err Validation (validate U d))"

definition write_validated :: "'u url_lib \<Rightarrow> cosmic_store \<Rightarrow> config_document \<Rightarrow> (save_error, unit) prog" where
  "write_validated U S d = seqP (validation_guard U d) (map_errP Storage (cc_write_entry S d))"

definition load_from :: "'u url_lib \<Rightarrow> cosmic_store \<Rightarrow> ('e, load_report) prog" where
  "load_from U S =
     bindP (tryP (cc_document S)) (\<lambda>r.
       case r of
         Inr d \<Rightarrow> ret (checked_report U d)
       | Inl e \<Rightarrow>
           if cce_is_err e then ret (recovered [Lit (cce_text e)])
           else bindP (tryP (cc_legacy_notifications S)) (\<lambda>l.
             case l of
               Inr flag \<Rightarrow>
                 let migrated = default_document\<lparr>notifications_enabled := flag\<rparr> in
                 bindP (tryP (write_validated U S migrated)) (\<lambda>saved.
                   ret \<lparr>lr_config = migrated, lr_source = MigratedV1,
                        lr_warnings = (case saved of
                          Inl e \<Rightarrow> [Fl ''ui-config-failed-to-persist-migrated-configuration-error''
                                      [(''error'', save_error_text e)]]
                        | Inr _ \<Rightarrow> [])\<rparr>)
             | Inl e' \<Rightarrow>
                 ret (if cce_is_err e' then recovered [Lit (cce_text e')]
                      else \<lparr>lr_config = default_document, lr_source = Fresh, lr_warnings = []\<rparr>)))"

section \<open>The application's store\<close>

text \<open>A cosmic store keeps the result of opening the version 1 store beside it.\<close>

datatype app_storage = CosmicStorage cosmic_store "cc_error option" | HostVisible path

definition storage_load :: "'u url_lib \<Rightarrow> ron_codec \<Rightarrow> app_storage \<Rightarrow> ('e, load_report) prog" where
  "storage_load U R st =
     (case st of
        CosmicStorage S legacy \<Rightarrow>
          (case legacy of None \<Rightarrow> load_from U S | Some e \<Rightarrow> ret (recovered [Lit (cce_text e)]))
      | HostVisible p \<Rightarrow> host_load U R p)"

definition storage_write ::
  "'u url_lib \<Rightarrow> ron_codec \<Rightarrow> app_storage \<Rightarrow> config_document \<Rightarrow> (save_error, unit) prog" where
  "storage_write U R st d =
     (case st of
        CosmicStorage S _ \<Rightarrow> write_validated U S d
      | HostVisible p \<Rightarrow> seqP (validation_guard U d) (host_write R p d))"

definition load_runtime :: "'u url_lib \<Rightarrow> ron_codec \<Rightarrow> msg + app_storage \<Rightarrow> ('e, load_report) prog" where
  "load_runtime U R runtime =
     (case runtime of Inr st \<Rightarrow> storage_load U R st | Inl e \<Rightarrow> ret (recovered [e]))"

text \<open>
  An update: the new document, and whether it was stored; an unchanged document is not written, a
  failed write restores the previous one.
\<close>

definition update_with ::
  "(config_document \<Rightarrow> (save_error, unit) prog) \<Rightarrow> (config_document \<Rightarrow> config_document)
     \<Rightarrow> config_document \<Rightarrow> (unit, (save_error + bool) \<times> config_document) prog" where
  "update_with write f d =
     (let new = f d in
      if new = d then ret (Inr False, d)
      else bindP (tryP (write new)) (\<lambda>r.
        ret (case r of Inl e \<Rightarrow> (Inl e, d) | Inr _ \<Rightarrow> (Inr True, new))))"

definition update_validated where
  "update_validated U S f d = update_with (write_validated U S) f d"

definition update_validated_with where
  "update_validated_with U R st f d = update_with (storage_write U R st) f d"

definition update_validated_runtime ::
  "'u url_lib \<Rightarrow> ron_codec \<Rightarrow> msg + app_storage \<Rightarrow> (config_document \<Rightarrow> config_document) \<Rightarrow> config_document
     \<Rightarrow> (unit, (save_error + bool) \<times> config_document) prog" where
  "update_validated_runtime U R runtime f d =
     (case runtime of
        Inl e \<Rightarrow> ret (Inl (SaveIo e), d)
      | Inr st \<Rightarrow> update_validated_with U R st f d)"

section \<open>The interface of a document writer\<close>

text \<open>A program that updates the document again and again, looking at no result.\<close>

fun update_all ::
  "(config_document \<Rightarrow> (save_error, unit) prog) \<Rightarrow> (config_document \<Rightarrow> config_document) list
     \<Rightarrow> config_document \<Rightarrow> (unit, config_document) prog" where
  "update_all write [] d = ret d"
| "update_all write (f # fs) d = bindP (update_with write f d) (\<lambda>(r, d'). update_all write fs d')"

locale document_writer =
  fixes writer :: "config_document \<Rightarrow> (save_error, unit) prog" and ok :: "config_document \<Rightarrow> bool"
  assumes accepted: "writer d env w = (Inr u, w') \<Longrightarrow> ok d"
    and refused: "\<not> ok d \<Longrightarrow> \<exists>e. writer d env w = (Inl e, w)"
begin

lemma update_outcome:
  assumes "update_with writer f d env w = (r, w')"
  shows "\<exists>res new. r = Inr (res, new)
    \<and> (case res of
         Inl e \<Rightarrow> new = d \<and> f d \<noteq> d \<and> writer (f d) env w = (Inl e, w')
       | Inr stored \<Rightarrow>
           new = f d \<and> (stored \<longleftrightarrow> f d \<noteq> d)
           \<and> (if stored then ok new \<and> (\<exists>u. writer new env w = (Inr u, w')) else w' = w))"
proof (cases "f d = d")
  case True
  with assms show ?thesis by (auto simp: update_with_def)
next
  case False
  obtain q w1 where q: "writer (f d) env w = (q, w1)" by (rule prod.exhaust)
  with False assms accepted show ?thesis
    by (cases q) (auto simp: update_with_def bindP_def tryP_def Let_def)
qed

lemma update_keeps_ok:
  "update_with writer f d env w = (Inr (res, new), w') \<Longrightarrow> ok d \<Longrightarrow> ok new"
  using update_outcome [of f d env w] by (fastforce split: sum.splits if_splits)

lemma invalid_update_changes_nothing:
  assumes "\<not> ok (f d)" and "f d \<noteq> d"
  shows "\<exists>e. update_with writer f d env w = (Inr (Inl e, d), w)"
  using refused [OF assms(1), of env w] assms(2) by (auto simp: update_with_def bindP_def tryP_def Let_def)

lemma update_all_ok:
  "update_all writer fs d env w = (Inr d', w') \<Longrightarrow> ok d \<Longrightarrow> ok d'"
proof (induction fs arbitrary: d w)
  case (Cons f fs)
  from Cons.prems(1) obtain res new w1 where
    "update_with writer f d env w = (Inr (res, new), w1)" "update_all writer fs new env w1 = (Inr d', w')"
    by (auto simp: run_simps)
  with Cons.IH Cons.prems(2) update_keeps_ok show ?case by blast
qed simp

end

lemma validation_guard_run:
  "validation_guard U d env w = (r, w') \<Longrightarrow>
     w' = w \<and> (case r of Inr _ \<Rightarrow> validate U d = Inr () | Inl _ \<Rightarrow> validate U d \<noteq> Inr ())"
  by (cases "validate U d") (auto simp: validation_guard_def)

lemma guarded_accepted: "seqP (validation_guard U d) m env w = (Inr u, w') \<Longrightarrow> validate U d = Inr ()"
  by (auto simp: seqP_Inr dest!: validation_guard_run)

lemma guarded_refused: "validate U d \<noteq> Inr () \<Longrightarrow> \<exists>e. seqP (validation_guard U d) m env w = (Inl e, w)"
  by (cases "validate U d") (auto simp: validation_guard_def seqP_def bindP_def)

lemma storage_write_accepted: "storage_write U R st d env w = (Inr u, w') \<Longrightarrow> validate U d = Inr ()"
  by (auto simp: storage_write_def write_validated_def split: app_storage.splits dest: guarded_accepted)

lemma storage_write_refused: "validate U d \<noteq> Inr () \<Longrightarrow> \<exists>e. storage_write U R st d env w = (Inl e, w)"
  using guarded_refused by (cases st) (auto simp: storage_write_def write_validated_def)

interpretation app_store: document_writer "storage_write U R st" "\<lambda>d. validate U d = Inr ()" for U R st
  by unfold_locales (auto dest: storage_write_accepted storage_write_refused)

interpretation cosmic_writer: document_writer "write_validated U S" "\<lambda>d. validate U d = Inr ()" for U S
  by unfold_locales (auto simp: write_validated_def dest: guarded_accepted guarded_refused)

section \<open>Properties\<close>

lemma default_document_valid: "validate U (default_document\<lparr>notifications_enabled := b\<rparr>) = Inr ()"
  by (simp add: validate_Inr validation_errors_def default_document_def default_preload_settings_def
      validate_preload_policy_def without_depth_def with_depth_def sftp_default_def MIN_PRELOAD_SECONDS_def
      MAX_PRELOAD_SECONDS_def MIN_PRELOAD_DEPTH_def MAX_PRELOAD_DEPTH_def DEFAULT_PRELOAD_SECONDS_def
      DEFAULT_BOX_PRELOAD_DEPTH_def DEFAULT_SMB_PRELOAD_DEPTH_def Let_def when_err_def rclone_onedrive_ids_def)

lemma default_valid: "validate U default_document = Inr ()"
  using default_document_valid [of U "notifications_enabled default_document"] by simp

lemma recovered_valid [simp]: "validate U (lr_config (recovered ws)) = Inr ()"
  by (simp add: recovered_def default_valid)

lemma checked_report_valid [simp]: "validate U (lr_config (checked_report U d)) = Inr ()"
  by (simp add: checked_report_def Let_def split: sum.split)

lemma load_from_valid:
  assumes "load_from U S env w = (Inr report, w')"
  shows "validate U (lr_config report) = Inr ()"
proof -
  obtain r w1 where r: "cc_document S env w = (r, w1)" by (rule prod.exhaust)
  obtain l w2 where l: "cc_legacy_notifications S env w1 = (l, w2)" by (rule prod.exhaust)
  obtain s w3 where s: "write_validated U S (default_document\<lparr>notifications_enabled := projr l\<rparr>) env w2 = (s, w3)"
    by (rule prod.exhaust)
  show ?thesis
  proof (cases r)
    case (Inr d)
    with assms r have "report = checked_report U d" by (simp add: load_from_def bindP_def tryP_def)
    then show ?thesis by simp
  next
    case (Inl e)
    with assms r l s show ?thesis
      by (cases l) (auto simp: load_from_def bindP_def tryP_def Let_def default_document_valid default_valid
          split: if_splits)
  qed
qed

lemma host_load_valid:
  assumes "host_load U R p env w = (Inr report, w')"
  shows "validate U (lr_config report) = Inr ()"
proof -
  obtain r w1 where r: "read_to_string p env w = (r, w1)" by (rule prod.exhaust)
  with assms show ?thesis
    by (cases r) (auto simp: host_load_def bindP_def tryP_def default_valid split: sum.splits if_splits)
qed

lemma storage_load_valid: "storage_load U R st env w = (Inr report, w') \<Longrightarrow> validate U (lr_config report) = Inr ()"
  by (auto simp: storage_load_def dest: load_from_valid host_load_valid split: app_storage.splits option.splits)

text \<open>
  C8. The document in use is valid at every moment: whatever the store contains (nothing, garbage, a
  document of version 1, an invalid document), whatever fails, and whatever functions are applied to it
  afterwards, what the application loads and what each update leaves in memory passes validation.
\<close>
theorem document_in_use_is_valid:
  assumes "load_runtime U R runtime env w = (Inr report, w1)"
    and "update_all (storage_write U R st) fs (lr_config report) env w1 = (Inr d, w2)"
  shows "validate U d = Inr ()"
proof -
  have "validate U (lr_config report) = Inr ()"
    using assms(1) by (auto simp: load_runtime_def dest: storage_load_valid split: sum.splits)
  from app_store.update_all_ok [OF assms(2) this] show ?thesis .
qed

definition sample_ron :: ron_codec where
  "sample_ron = \<lparr>ron_parse = (\<lambda>s. Inl (Lit ''bad'')), ron_print = (\<lambda>d. Inr ''doc'')\<rparr>"

lemma document_in_use_is_valid_witness:
  "\<exists>d w. update_all (storage_write sample_url_lib sample_ron (HostVisible ''/h/u/document''))
       [notifications_enabled_update (\<lambda>b. \<not> b), schema_version_update (\<lambda>v. 7)] default_document sample_env sample_world
     = (Inr d, w) \<and> validate sample_url_lib d = Inr ()"
proof -
  let ?st = "HostVisible ''/h/u/document''"
  let ?fs = "[notifications_enabled_update (\<lambda>b. \<not> b), schema_version_update (\<lambda>v. 7)]"
  have ld: "load_runtime sample_url_lib sample_ron (Inl (Lit ''no home'')) sample_env sample_world
      = ((Inr (recovered [Lit ''no home'']), sample_world) :: (unit + load_report) \<times> world)"
    by (simp add: load_runtime_def)
  obtain r w where run: "update_all (storage_write sample_url_lib sample_ron ?st) ?fs
      (lr_config (recovered [Lit ''no home''])) sample_env sample_world = (r, w)" by (rule prod.exhaust)
  from run obtain d where rd: "r = Inr d"
    by (auto simp: bindP_def update_with_def tryP_def Let_def split: prod.splits sum.splits if_splits)
  from document_in_use_is_valid [OF ld run [unfolded rd]] run rd show ?thesis by (auto simp: recovered_def)
qed


section \<open>The host-visible document is never torn\<close>

lemma document_path_components:
  assumes "normal_abs (components home)" and "host_visible_document_path (Some home) = Inr p"
  shows "\<exists>xs. components p = RootDir # map Normal (xs @ [''document'']) \<and> list_all valid_part (xs @ [''document''])"
proof -
  from assms(1) obtain xs where xs: "components home = RootDir # map Normal xs" "list_all valid_part xs"
    by (auto simp: normal_abs_def)
  have a: "is_absolute home" by (rule normal_abs_absolute [OF assms(1)])
  have v: "valid_part ''.config''" "valid_part ''cosmic''" "valid_part APP_ID" "valid_part ''v2''" "valid_part ''document''"
    by (simp_all add: valid_part_def APP_ID_def)
  from assms(2) have "components p = RootDir # map Normal ((xs @ [''.config'', ''cosmic'', APP_ID, ''v2'']) @ [''document''])"
    using a v xs(1) by (auto simp: host_visible_document_path_def components_join)
  with xs(2) v show ?thesis by (intro exI [of _ "xs @ [''.config'', ''cosmic'', APP_ID, ''v2'']"]) simp
qed

lemma tmp_key:
  assumes "components p = RootDir # map Normal (xs @ [''document''])" and "list_all valid_part (xs @ [''document''])"
  shows "components (with_extension p ''tmp'') = RootDir # map Normal (xs @ [''document.tmp''])"
    "components (parent_of p) = RootDir # map Normal xs" "has_parent p"
proof -
  have n: "normal_abs (components p)" unfolding normal_abs_def using assms by blast
  from parent_components [OF n] assms(1) show par: "components (parent_of p) = RootDir # map Normal xs" by auto
  have stem: "file_stem ''document'' @ ''.'' @ ''tmp'' = ''document.tmp''" by code_simp
  have v: "valid_part ''document.tmp''" by (simp add: valid_part_def)
  have "with_extension p ''tmp'' = path_join (parent_of p) ''document.tmp''"
    using assms(1) stem by (simp add: with_extension_def)
  with components_join [OF _ v] par show "components (with_extension p ''tmp'') = RootDir # map Normal (xs @ [''document.tmp''])"
    by (simp add: parent_of_def)
  show "has_parent p" by (simp add: has_parent_def comps_pop_def assms(1))
qed

text \<open>Writing a file that is no link touches only its own key.\<close>

lemma open_truncate_run:
  assumes "\<nexists>t. fs_get (files w) (components p) = Some (Symlink t)" and "open_truncate p env w = (r, w')"
  shows "(r = Inr (components p) \<or> is_err r) \<and> (k \<noteq> components p \<longrightarrow> fs_get (files w') k = fs_get (files w) k)"
proof -
  have "resolve_link SYMLINK_LIMIT (files w) (components p) = components p"
    using assms(1) by (simp add: SYMLINK_LIMIT_def numeral_eq_Suc split: option.split node.split)
  with assms(2) show ?thesis
    by (auto simp: open_truncate_def fs_step_def Let_def io_def fs_get_put_other split: option.splits if_splits)
qed

lemma fs_write_run:
  assumes "\<nexists>t. fs_get (files w) (components p) = Some (Symlink t)" and "components p \<noteq> [RootDir]"
    and "fs_write p c env w = (r, w')"
  shows "(k \<noteq> components p \<longrightarrow> fs_get (files w') k = fs_get (files w) k)
    \<and> (is_err r \<or> fs_get (files w') (components p) = Some (File c))"
proof -
  obtain r1 w1 where o: "open_truncate p env w = (r1, w1)" by (rule prod.exhaust)
  note op = open_truncate_run [OF assms(1) o]
  show ?thesis
  proof (cases r1)
    case (Inl e)
    with o assms(3) op [of k] show ?thesis by (auto simp: fs_write_def bindP_def)
  next
    case (Inr key)
    with op have "key = components p" by auto
    with Inr o assms(2,3) op [of k] show ?thesis
      by (auto simp: fs_write_def bindP_def write_key_def fs_step_def fs_get_put_other split: option.splits)
  qed
qed

definition install :: "path \<Rightarrow> path \<Rightarrow> (save_error, unit) prog" where
  "install tmp p =
     bindP (tryP (rename_file tmp p)) (\<lambda>r.
       case r of
         Inr _ \<Rightarrow> ret ()
       | Inl e \<Rightarrow>
           seqP (seqP (tryP (remove_file tmp)) (ret ()))
                (fail (save_io ''ui-config-failed-to-install-configuration-value1-error'' p e)))"

lemma install_run:
  assumes "install tmp p env w = (r, w')" and "components tmp \<noteq> components p" and "components p \<noteq> [RootDir]"
  shows "fs_get (files w') (components p)
    = (if is_err r then fs_get (files w) (components p) else fs_get (files w) (components tmp))"
proof -
  obtain r1 w1 where rn: "rename_file tmp p env w = (r1, w1)" by (rule prod.exhaust)
  obtain r2 w2 where rm: "remove_file tmp env w1 = (r2, w2)" by (rule prod.exhaust)
  have k: "fs_get (files w2) (components p) = fs_get (files w1) (components p)"
    using preservesD [OF node_at_remove_file [OF assms(2)] rm] by (auto simp: node_at_def)
  show ?thesis
  proof (cases r1)
    case (Inl e)
    with rename_file_Inl [OF rn [unfolded Inl], of "components p"] k rn rm assms(1) show ?thesis
      by (auto simp: install_def seqP_def bindP_def tryP_def)
  next
    case (Inr u)
    with rename_file_Inr [OF rn [unfolded Inr] assms(3)] rn assms(1) show ?thesis
      by (auto simp: install_def bindP_def tryP_def)
  qed
qed

lemma host_write_stages:
  "has_parent p \<Longrightarrow> host_write R p d =
     seqP (map_errP (save_io ''ui-config-failed-to-create-configuration-directory-value1-error'' (parent_of p))
             (create_dir_all (parent_of p)))
    (bindP (liftR (map_err Serialize (ron_print R d))) (\<lambda>content.
     seqP (map_errP (save_io ''ui-config-failed-to-write-temporary-configuration-value1-error'' (with_extension p ''tmp''))
             (fs_write (with_extension p ''tmp'') content))
          (install (with_extension p ''tmp'') p)))"
  unfolding host_write_def install_def Let_def by (simp only: simp_thms if_False if_True)

text \<open>
  Saving the host-visible document is all or nothing: as long as its temporary file is not a
  symbolic link, a save that succeeds leaves exactly the printed document, and a save that fails, at
  whichever step, leaves the file as it was.
\<close>
theorem host_document_never_torn:
  assumes "normal_abs (components home)" and "host_visible_document_path (Some home) = Inr p"
    and "\<nexists>t. fs_get (files w) (components (with_extension p ''tmp'')) = Some (Symlink t)"
    and "host_write R p d env w = (r, w')"
  shows "case r of
      Inl _ \<Rightarrow> fs_get (files w') (components p) = fs_get (files w) (components p)
    | Inr _ \<Rightarrow> \<exists>content. ron_print R d = Inr content \<and> fs_get (files w') (components p) = Some (File content)"
proof -
  from document_path_components [OF assms(1,2)] obtain xs where
    p: "components p = RootDir # map Normal (xs @ [''document''])" "list_all valid_part (xs @ [''document''])" by blast
  let ?k = "components p" and ?t = "components (with_extension p ''tmp'')"
  note tk = tmp_key [OF p]
  have ne: "?t \<noteq> ?k" "?t \<noteq> [RootDir]" "?k \<noteq> [RootDir]" using tk(1) p(1) by simp_all
  have long: "key \<notin> set (dir_prefixes (components (parent_of p)))" if "length key = Suc (length (components (parent_of p)))" for key
    using that by (auto simp: dir_prefixes_def)
  have fresh: "?k \<notin> set (dir_prefixes (components (parent_of p)))" "?t \<notin> set (dir_prefixes (components (parent_of p)))"
    using tk p(1) by (intro long; simp)+
  obtain r1 w1 where m: "create_dir_all (parent_of p) env w = (r1, w1)" by (rule prod.exhaust)
  have m': "map_errP g (create_dir_all (parent_of p)) env w = (map_err g r1, w1)" for g :: "io_error \<Rightarrow> save_error"
    by (simp add: map_errP_def m)
  have w1: "fs_get (files w1) ?k = fs_get (files w) ?k" "fs_get (files w1) ?t = fs_get (files w) ?t"
    using preservesD [OF node_at_create_dir_all [OF fresh(1)] m] preservesD [OF node_at_create_dir_all [OF fresh(2)] m]
    by (auto simp: node_at_def)
  note run = assms(4) [unfolded host_write_stages [OF tk(3)]]
  show ?thesis
  proof (cases "r1 = Inr () \<and> is_ok (ron_print R d)")
    case False
    with run w1(1) show ?thesis
      by (cases "ron_print R d"; cases r1) (auto simp: seqP_def bindP_def m')
  next
    case True
    then obtain content where pr: "ron_print R d = Inr content" "r1 = Inr ()" by (auto simp: is_ok_def split: sum.splits)
    obtain r2 w2 where fw: "fs_write (with_extension p ''tmp'') content env w1 = (r2, w2)" by (rule prod.exhaust)
    have fw': "map_errP g (fs_write (with_extension p ''tmp'') content) env w1 = (map_err g r2, w2)"
      for g :: "io_error \<Rightarrow> save_error" by (simp add: map_errP_def fw)
    have w2: "fs_get (files w2) ?k = fs_get (files w) ?k" "is_err r2 \<or> fs_get (files w2) ?t = Some (File content)"
      using fs_write_run [OF _ ne(2) fw, of ?k] assms(3) w1 ne(1) by auto
    show ?thesis
    proof (cases r2)
      case (Inl e)
      with run pr w2 show ?thesis by (auto simp: seqP_def bindP_def m' fw')
    next
      case (Inr u)
      with run pr have "install (with_extension p ''tmp'') p env w2 = (r, w')"
        by (auto simp: seqP_def bindP_def m' fw')
      from install_run [OF this ne(1,3)] w2 Inr pr show ?thesis by (cases r) auto
    qed
  qed
qed

lemma host_document_never_torn_witness:
  "\<exists>p w'. host_visible_document_path (Some ''/s'') = Inr p
     \<and> snd (host_write sample_ron p default_document sample_env sample_world) = w'
     \<and> (fs_get (files w') (components p) = None \<or> fs_get (files w') (components p) = Some (File ''doc''))"
proof -
  obtain p where p: "host_visible_document_path (Some ''/s'') = Inr p"
    by (simp add: host_visible_document_path_def)
  obtain r w' where run: "host_write sample_ron p default_document sample_env sample_world = (r, w')"
    by (rule prod.exhaust)
  from document_path_components [OF sample_root(2) p] obtain xs where
    xs: "components p = RootDir # map Normal (xs @ [''document''])" "list_all valid_part (xs @ [''document''])" by blast
  have none: "fs_get (files sample_world) (components (with_extension p ''tmp'')) = None"
    "fs_get (files sample_world) (components p) = None"
    using tmp_key [OF xs] xs(1) by (simp_all add: fs_get_def sample_world_def)
  then have "\<nexists>t. fs_get (files sample_world) (components (with_extension p ''tmp'')) = Some (Symlink t)" by simp
  from host_document_never_torn [OF sample_root(2) p this run] none(2)
  have "fs_get (files w') (components p) = None \<or> fs_get (files w') (components p) = Some (File ''doc'')"
    by (cases r) (auto simp: sample_ron_def)
  with p run show ?thesis by (intro exI [of _ p] exI [of _ w']) simp
qed

end
