(* ===== verification/Unit_Documents.thy ===== *)
theory Unit_Documents
  imports Units World
begin

text \<open>
  The text of generated systemd units and its structural validator (\<open>src/src/services.rs\<close>):
  \<open>UnitDocument::service\<close>, \<open>UnitDocument::timer\<close>, the escaping of arguments and
  \<open>StructuralUnitValidator\<close>.  Descriptions are localized; the argument \<open>tr\<close> renders a message.
  Paths are text, so the executable is always UTF-8.
\<close>

section \<open>Errors and documents\<close>

datatype service_error =
    InvalidSpec msg
  | SvcIo io_error
  | OwnershipMismatch path
  | SvcValidation msg
  | SvcRuntime msg

fun service_error_text :: "service_error \<Rightarrow> msg" where
  "service_error_text (InvalidSpec m) = m"
| "service_error_text (SvcValidation m) = m"
| "service_error_text (SvcRuntime m) = m"
| "service_error_text (SvcIo e) = io_text e"
| "service_error_text (OwnershipMismatch p) =
     Fl ''ui-services-unit-is-not-owned-by-this-applet'' [(''value1'', Lit p)]"

definition MANAGED_MARKER :: string where "MANAGED_MARKER = ''# X-Cosmic-Mounter-Managed=true''"
definition UUID_MARKER :: string where "UUID_MARKER = ''# X-Cosmic-Mounter-Connection=''"
definition METERED_GUARD_FLAG :: string where "METERED_GUARD_FLAG = ''--require-unmetered-network''"

record unit_document =
  ud_name :: unit_name
  ud_content :: string

section \<open>Rendering\<close>

definition validate_text :: "string \<Rightarrow> service_error + unit" where
  "validate_text v =
     (if trim v = [] \<or> has_control_char v
      then Inl (InvalidSpec (fl ''ui-services-unit-text-is-empty-or-contains-control'')) else Inr ())"

definition validate_absolute_executable :: "path \<Rightarrow> service_error + string" where
  "validate_absolute_executable p =
     (if \<not> is_absolute p then Inl (InvalidSpec (fl ''ui-services-unit-executable-must-be-absolute'')) else Inr p)"

definition escape_text :: "string \<Rightarrow> string" where
  "escape_text v =
     str_replace ''\"'' [CHR 0x5C, CHR 0x22]
       (str_replace [CHR 0x5C] [CHR 0x5C, CHR 0x5C] (str_replace ''%'' ''%%'' v))"

definition escape_systemd_argument :: "string \<Rightarrow> service_error + string" where
  "escape_systemd_argument v =
     (if v = [] \<or> CHR 0x00 \<in> set v \<or> CHR 0x0A \<in> set v
      then Inl (InvalidSpec (fl ''ui-services-unit-argument-is-empty-or-contains-unsafe''))
      else Inr (CHR 0x22 # escape_text v @ [CHR 0x22]))"

definition render_condition :: "service_command \<Rightarrow> service_error + string" where
  "render_condition c =
     bind_res (validate_absolute_executable (sc_executable c)) (\<lambda>exe.
     bind_res (escape_systemd_argument exe) (\<lambda>e.
     bind_res (collect_res (map escape_systemd_argument (sc_arguments c))) (\<lambda>args.
       Inr (''ExecCondition='' @ join '' '' (e # args) @ [CHR 0x0A]))))"

definition unit_heading :: "connection_id \<Rightarrow> string \<Rightarrow> string list" where
  "unit_heading cid description =
     [MANAGED_MARKER, UUID_MARKER @ conn_uuid cid, [], ''[Unit]'', ''Description='' @ description, []]"

text \<open>The lines of a document, each ended by a line feed.\<close>

definition unlines :: "string list \<Rightarrow> string" where
  "unlines ls = concat (map (\<lambda>l. l @ [CHR 0x0A]) ls)"

definition render_service :: "(msg \<Rightarrow> string) \<Rightarrow> exec_env \<Rightarrow> service_spec \<Rightarrow> service_error + unit_document" where
  "render_service tr X s =
     bind_res (validate_text (tr (ss_description s))) (\<lambda>_.
     bind_res (validate_absolute_executable (ss_executable s)) (\<lambda>executable.
     bind_res (collect_res (map escape_systemd_argument (ss_arguments s))) (\<lambda>arguments.
     bind_res (escape_systemd_argument executable) (\<lambda>exe.
     let exec = exe @ (if arguments \<noteq> [] then '' '' @ join '' '' arguments else []) in
     bind_res (case ss_pre_start_condition s of None \<Rightarrow> Inr [] | Some c \<Rightarrow> render_condition c) (\<lambda>pre.
     let restart = (if ss_restart_on_failure s then [''Restart=on-failure'', ''RestartSec=5s''] else []) in
     bind_res (if ss_skip_on_metered s
               then bind_res (map_err InvalidSpec (guard_service_command X [METERED_GUARD_FLAG])) render_condition
               else Inr []) (\<lambda>metered.
       Inr \<lparr>ud_name = \<lparr>un_connection_id = ss_connection_id s, un_kind = ServiceUnit\<rparr>,
            ud_content =
              unlines (unit_heading (ss_connection_id s) (tr (ss_description s))
                       @ [''[Service]'', ''Type=simple'', ''RuntimeDirectory=cosmic-ext-applet-mounter'',
                          ''SuccessExitStatus=130 143''])
              @ metered @ pre
              @ unlines ([''ExecStart='' @ exec] @ restart @ [[], ''[Install]'', ''WantedBy=default.target''])\<rparr>))))))"

definition as_secs :: "duration \<Rightarrow> nat" where "as_secs d = d div 1000000"

definition render_timer :: "(msg \<Rightarrow> string) \<Rightarrow> timer_spec \<Rightarrow> service_error + unit_document" where
  "render_timer tr s =
     bind_res (validate_text (tr (ts_description s))) (\<lambda>_.
       if ts_interval s = 0
       then Inl (InvalidSpec (fl ''ui-services-timer-interval-must-be-greater-than-zero''))
       else
         let secs = show_nat (as_secs (ts_interval s)) @ ''s''
         in Inr \<lparr>ud_name = \<lparr>un_connection_id = ts_connection_id s, un_kind = TimerUnit\<rparr>,
                 ud_content =
                   unlines (unit_heading (ts_connection_id s) (tr (ts_description s))
                     @ [''[Timer]'', ''OnActiveSec='' @ secs, ''OnUnitInactiveSec='' @ secs,
                        ''Persistent='' @ (if ts_persistent s then ''true'' else ''false''),
                        ''Unit='' @ file_name \<lparr>un_connection_id = ts_connection_id s, un_kind = ServiceUnit\<rparr>,
                        [], ''[Install]'', ''WantedBy=timers.target''])\<rparr>)"

section \<open>The structural validator\<close>

text \<open>The three variables of the loop over the lines; a directive is a section, a key and a value.\<close>

record unit_scan =
  us_section :: "string option"
  us_sections :: "string list"
  us_directives :: "((string \<times> string) \<times> string) list"

definition bad_unit :: "string \<Rightarrow> service_error + 'a" where
  "bad_unit k = Inl (SvcValidation (fl k))"

definition allowed_sections :: "unit_kind \<Rightarrow> string list" where
  "allowed_sections k =
     (case k of ServiceUnit \<Rightarrow> [''Unit'', ''Service'', ''Install''] | TimerUnit \<Rightarrow> [''Unit'', ''Timer'', ''Install''])"

definition allowed_directive :: "string \<Rightarrow> string \<Rightarrow> bool" where
  "allowed_directive section key =
     (if section = ''Unit'' then key = ''Description''
      else if section = ''Service''
      then key \<in> set [''Type'', ''RuntimeDirectory'', ''SuccessExitStatus'', ''ExecCondition'', ''ExecStart'',
                     ''Restart'', ''RestartSec'']
      else if section = ''Timer''
      then key \<in> set [''OnActiveSec'', ''OnUnitInactiveSec'', ''Persistent'', ''Unit'']
      else section = ''Install'' \<and> key = ''WantedBy'')"

text \<open>\<open>strip_prefix('[')\<close> and then \<open>strip_suffix(']')\<close>.\<close>

definition section_name :: "string \<Rightarrow> string option" where
  "section_name line =
     (case line of
        c # rest \<Rightarrow> if c = CHR ''['' \<and> rest \<noteq> [] \<and> last rest = CHR '']'' then Some (butlast rest) else None
      | [] \<Rightarrow> None)"

definition scan_line :: "string list \<Rightarrow> string \<Rightarrow> unit_scan \<Rightarrow> service_error + unit_scan" where
  "scan_line allowed line st =
     (if line = MANAGED_MARKER \<or> prefix UUID_MARKER line
      then bad_unit ''ui-services-generated-unit-repeats-ownership-markers''
      else if line = [] \<or> prefix ''#'' line then Inr st
      else case section_name line of
        Some name \<Rightarrow>
          if name \<notin> set allowed
          then Inl (SvcValidation (Fl ''ui-services-generated-unit-contains-unsupported-name-section'' [(''name'', Lit name)]))
          else if name \<in> set (us_sections st)
          then Inl (SvcValidation (Fl ''ui-services-generated-unit-repeats-name-section'' [(''name'', Lit name)]))
          else Inr (st\<lparr>us_sections := us_sections st @ [name], us_section := Some name\<rparr>)
      | None \<Rightarrow>
          (case us_section st of
             None \<Rightarrow> bad_unit ''ui-services-unit-directive-appears-outside-a-section''
           | Some current \<Rightarrow>
               (case split_once ''='' line of
                  None \<Rightarrow> bad_unit ''ui-services-generated-unit-contains-a-malformed-directive''
                | Some (key, value) \<Rightarrow>
                    if \<not> allowed_directive current key \<or> value = []
                    then Inl (SvcValidation (Fl ''ui-services-generated-unit-contains-unsupported-or-empty-current''
                                [(''current'', Lit current), (''key'', Lit key)]))
                    else Inr (st\<lparr>us_directives := us_directives st @ [((current, key), value)]\<rparr>))))"

fun scan_lines :: "string list \<Rightarrow> string list \<Rightarrow> unit_scan \<Rightarrow> service_error + unit_scan" where
  "scan_lines allowed [] st = Inr st"
| "scan_lines allowed (l # ls) st = bind_res (scan_line allowed l st) (scan_lines allowed ls)"

definition directive_values :: "unit_scan \<Rightarrow> string \<Rightarrow> string \<Rightarrow> string list" where
  "directive_values st section key = map snd (filter (\<lambda>d. fst d = (section, key)) (us_directives st))"

definition one_directive :: "unit_scan \<Rightarrow> string \<Rightarrow> string \<Rightarrow> service_error + string" where
  "one_directive st section key =
     (case directive_values st section key of
        [v] \<Rightarrow> Inr v
      | _ \<Rightarrow> Inl (SvcValidation (Fl ''ui-services-generated-unit-requires-exactly-one-section-key''
               [(''section'', Lit section), (''key'', Lit key)])))"

fun missing_section :: "unit_scan \<Rightarrow> string list \<Rightarrow> service_error + unit" where
  "missing_section st [] = Inr ()"
| "missing_section st (e # es) =
     (if e \<in> set (us_sections st) then missing_section st es
      else Inl (SvcValidation (Fl ''ui-services-generated-unit-lacks-expected-section'' [(''expected'', Lit e)])))"

text \<open>
  A chain of \<open>||\<close> whose operands may return early: the first error, or whether every required
  directive has its value.
\<close>

fun fixed_directives :: "unit_scan \<Rightarrow> (string \<times> string \<times> (string \<Rightarrow> bool)) list \<Rightarrow> service_error + bool" where
  "fixed_directives st [] = Inr True"
| "fixed_directives st ((section, key, ok) # rest) =
     bind_res (one_directive st section key) (\<lambda>v. if ok v then fixed_directives st rest else Inr False)"

definition service_rules :: "unit_scan \<Rightarrow> service_error + unit" where
  "service_rules st =
     bind_res (fixed_directives st
        [(''Service'', ''Type'', \<lambda>v. v = ''simple''),
         (''Service'', ''RuntimeDirectory'', \<lambda>v. v = ''cosmic-ext-applet-mounter''),
         (''Service'', ''SuccessExitStatus'', \<lambda>v. v = ''130 143''),
         (''Service'', ''ExecStart'', \<lambda>v. prefix (CHR 0x22 # ''/'') v),
         (''Install'', ''WantedBy'', \<lambda>v. v = ''default.target'')]) (\<lambda>ok.
       if \<not> ok then bad_unit ''ui-services-generated-service-has-invalid-fixed-directives''
       else
         let restart = directive_values st ''Service'' ''Restart'';
             sec = directive_values st ''Service'' ''RestartSec''
         in if restart = [] \<and> sec = [] \<or> restart = [''on-failure''] \<and> sec = [''5s''] then Inr ()
            else bad_unit ''ui-services-generated-service-has-inconsistent-restart-policy'')"

definition U64_LIMIT :: nat where "U64_LIMIT = 18446744073709551615"

definition timer_value_ok :: "string \<Rightarrow> bool" where
  "timer_value_ok v =
     (v \<noteq> [] \<and> last v = CHR ''s''
      \<and> (case parse_unsigned U64_LIMIT (butlast v) of None \<Rightarrow> False | Some n \<Rightarrow> 0 < n))"

definition timer_interval_rule :: "unit_scan \<Rightarrow> string \<Rightarrow> service_error + unit" where
  "timer_interval_rule st key =
     bind_res (one_directive st ''Timer'' key) (\<lambda>v.
       if timer_value_ok v then Inr ()
       else Inl (SvcValidation (Fl ''ui-services-generated-timer-has-invalid-key'' [(''key'', Lit key)])))"

definition timer_rules :: "unit_name \<Rightarrow> unit_scan \<Rightarrow> service_error + unit" where
  "timer_rules name st =
     bind_res (timer_interval_rule st ''OnActiveSec'') (\<lambda>_.
     bind_res (timer_interval_rule st ''OnUnitInactiveSec'') (\<lambda>_.
     bind_res (fixed_directives st
        [(''Timer'', ''Unit'', \<lambda>v. v = file_name (name\<lparr>un_kind := ServiceUnit\<rparr>)),
         (''Timer'', ''Persistent'', \<lambda>v. v = ''true'' \<or> v = ''false''),
         (''Install'', ''WantedBy'', \<lambda>v. v = ''timers.target'')]) (\<lambda>ok.
       if ok then Inr () else bad_unit ''ui-services-generated-timer-has-invalid-fixed-directives'')))"

definition structural_validate :: "unit_document \<Rightarrow> service_error + unit" where
  "structural_validate d =
     (case lines (ud_content d) of
        first # second # rest \<Rightarrow>
          if first \<noteq> MANAGED_MARKER \<or> second \<noteq> UUID_MARKER @ conn_uuid (un_connection_id (ud_name d))
          then bad_unit ''ui-services-generated-unit-has-invalid-ownership-markers''
          else if CHR 0x00 \<in> set (ud_content d) \<or> CHR 0x0D \<in> set (ud_content d)
          then bad_unit ''ui-services-generated-unit-contains-unsafe-control-characters''
          else
            let allowed = allowed_sections (un_kind (ud_name d)) in
            bind_res (scan_lines allowed rest \<lparr>us_section = None, us_sections = [], us_directives = []\<rparr>) (\<lambda>st.
            bind_res (missing_section st allowed) (\<lambda>_.
            bind_res (one_directive st ''Unit'' ''Description'') (\<lambda>description.
              if has_control_char description
              then bad_unit ''ui-services-generated-unit-description-contains-control-characters''
              else (case un_kind (ud_name d) of
                      ServiceUnit \<Rightarrow> service_rules st | TimerUnit \<Rightarrow> timer_rules (ud_name d) st))))
      | _ \<Rightarrow> bad_unit ''ui-services-generated-unit-has-invalid-ownership-markers'')"

end
