(* ===== verification/Unit_Store.thy ===== *)
theory Unit_Store
  imports Unit_Documents Atomic_Files Bisync_Dates "HOL-Library.Code_Target_Nat"
begin

text \<open>
  The store of unit files (\<open>UnitStore\<close> and \<open>FileUnitStore\<close> in \<open>src/src/services.rs\<close>): reading,
  classifying, writing and removing the applet's units, the interface \<open>unit_files\<close> that the
  controller of units relies on, and the file store as its provider.  The validator is an argument
  (a trait object in the code), and so is the UUID parser of the \<open>uuid\<close> crate.
\<close>

section \<open>Operations\<close>

datatype unit_file_state = UnitMissing | UnitExternal | UnitManaged connection_id

definition parse_owned_connection :: "(string \<Rightarrow> uuid option) \<Rightarrow> string \<Rightarrow> connection_id option" where
  "parse_owned_connection parse_uuid content =
     (if MANAGED_MARKER \<notin> set (lines content) then None
      else case filter (prefix UUID_MARKER) (lines content) of
        [] \<Rightarrow> None
      | l # _ \<Rightarrow> map_option ConnectionId (parse_uuid (drop (length UUID_MARKER) l)))"

record file_unit_store =
  fus_root :: path
  fus_pid :: nat
  fus_validate :: "unit_document \<Rightarrow> service_error + unit"
  fus_parse_uuid :: "string \<Rightarrow> uuid option"

definition store_path :: "file_unit_store \<Rightarrow> unit_name \<Rightarrow> path" where
  "store_path S name = path_join (fus_root S) (file_name name)"

definition path_file_name :: "path \<Rightarrow> string option" where
  "path_file_name p =
     (case rev (components p) of Normal n # _ \<Rightarrow> Some n | _ \<Rightarrow> None)"

definition open_directory :: "path \<Rightarrow> (io_error, unit) prog" where
  "open_directory p = fs_step (\<lambda>_ f. f) (\<lambda>f.
     (if fs_stat f (components p) = None then io NotFound p else Inr (), f))"

definition unit_temporary :: "file_unit_store \<Rightarrow> path \<Rightarrow> path" where
  "unit_temporary S p =
     path_join (fus_root S)
       (''.'' @ (case path_file_name p of Some n \<Rightarrow> n | None \<Rightarrow> ''unit'') @ ''.tmp-'' @ show_nat (fus_pid S))"

text \<open>The staged file becomes the unit; syncing the directory afterwards cannot fail the write.\<close>

definition publish_unit :: "file_unit_store \<Rightarrow> path \<Rightarrow> path \<Rightarrow> string \<Rightarrow> (service_error, unit) prog" where
  "publish_unit S temporary p content =
     seqP (map_errP SvcIo (open_create_new temporary))
    (seqP (map_errP SvcIo (write_all temporary content))
    (seqP (map_errP SvcIo (sync_all temporary))
    (seqP (map_errP SvcIo (rename_file temporary p))
    (bindP (tryP (open_directory (fus_root S))) (\<lambda>r.
       case r of Inl _ \<Rightarrow> ret () | Inr _ \<Rightarrow> seqP (tryP (sync_all (fus_root S))) (ret ()))))))"

definition write_raw :: "file_unit_store \<Rightarrow> path \<Rightarrow> string \<Rightarrow> (service_error, unit) prog" where
  "write_raw S p content =
     seqP (map_errP SvcIo (create_dir_all (fus_root S)))
    (bindP (tryP (publish_unit S (unit_temporary S p) p content)) (\<lambda>r.
       seqP (if is_err r then seqP (tryP (remove_file (unit_temporary S p))) (ret ()) else ret ()) (liftR r)))"

definition store_state :: "file_unit_store \<Rightarrow> unit_name \<Rightarrow> (service_error, unit_file_state) prog" where
  "store_state S name =
     bindP (tryP (read_to_string (store_path S name))) (\<lambda>r.
       case r of
         Inl e \<Rightarrow> if io_kind e = NotFound then ret UnitMissing else fail (SvcIo e)
       | Inr content \<Rightarrow>
           ret (case parse_owned_connection (fus_parse_uuid S) content of
                  Some cid \<Rightarrow> UnitManaged cid | None \<Rightarrow> UnitExternal))"

definition store_read :: "file_unit_store \<Rightarrow> unit_name \<Rightarrow> (service_error, string option) prog" where
  "store_read S name =
     bindP (tryP (symlink_metadata (store_path S name))) (\<lambda>r.
       case r of
         Inl e \<Rightarrow> if io_kind e = NotFound then ret None else fail (SvcIo e)
       | Inr n \<Rightarrow>
           if (case n of File _ \<Rightarrow> False | _ \<Rightarrow> True) then fail (OwnershipMismatch (store_path S name))
           else bindP (tryP (read_to_string (store_path S name))) (\<lambda>c.
             case c of
               Inr content \<Rightarrow> ret (Some content)
             | Inl e \<Rightarrow> if io_kind e = NotFound then ret None else fail (SvcIo e)))"

definition store_write :: "file_unit_store \<Rightarrow> unit_document \<Rightarrow> (service_error, unit) prog" where
  "store_write S d =
     seqP (liftR (fus_validate S d))
    (bindP (store_state S (ud_name d)) (\<lambda>st.
       case st of
         UnitExternal \<Rightarrow> fail (OwnershipMismatch (store_path S (ud_name d)))
       | UnitManaged cid \<Rightarrow>
           if cid \<noteq> un_connection_id (ud_name d) then fail (OwnershipMismatch (store_path S (ud_name d)))
           else write_raw S (store_path S (ud_name d)) (ud_content d)
       | UnitMissing \<Rightarrow> write_raw S (store_path S (ud_name d)) (ud_content d)))"

definition store_remove :: "file_unit_store \<Rightarrow> unit_name \<Rightarrow> (service_error, unit) prog" where
  "store_remove S name =
     bindP (store_state S name) (\<lambda>st.
       case st of
         UnitMissing \<Rightarrow> ret ()
       | UnitManaged cid \<Rightarrow>
           if cid = un_connection_id name then map_errP SvcIo (remove_file (store_path S name))
           else fail (OwnershipMismatch (store_path S name))
       | UnitExternal \<Rightarrow> fail (OwnershipMismatch (store_path S name)))"

section \<open>The interface of a unit store\<close>

record unit_store =
  st_state :: "unit_name \<Rightarrow> (service_error, unit_file_state) prog"
  st_read :: "unit_name \<Rightarrow> (service_error, string option) prog"
  st_write :: "unit_document \<Rightarrow> (service_error, unit) prog"
  st_remove :: "unit_name \<Rightarrow> (service_error, unit) prog"

text \<open>
  What a client may assume: reading reports the content of the unit and changes none, a write that
  succeeds leaves the document and one that fails leaves the old content, and a unit of somebody
  else is neither replaced nor removed.
\<close>

locale unit_files =
  fixes St :: unit_store
    and sees :: "fs \<Rightarrow> unit_name \<Rightarrow> string option"
    and accepted :: "unit_document \<Rightarrow> bool"
    and owned :: "unit_name \<Rightarrow> string \<Rightarrow> bool"
    and fit :: "env \<Rightarrow> unit_name \<Rightarrow> bool"
  assumes read_keeps: "fit env n \<Longrightarrow> st_read St m env w = (r, w') \<Longrightarrow> sees (files w') n = sees (files w) n"
    and read_sees: "fit env n \<Longrightarrow> st_read St n env w = (Inr found, w') \<Longrightarrow> found = sees (files w) n"
    and state_keeps: "fit env n \<Longrightarrow> st_state St m env w = (s, w') \<Longrightarrow> sees (files w') n = sees (files w) n"
    and state_owned: "fit env n \<Longrightarrow> st_state St n env w = (Inr (UnitManaged cid), w') \<Longrightarrow>
        sees (files w) n = Some c \<Longrightarrow> cid = un_connection_id n \<Longrightarrow> owned n c"
    and write_ok: "fit env (ud_name d) \<Longrightarrow> st_write St d env w = (Inr u, w') \<Longrightarrow>
        accepted d \<and> sees (files w') (ud_name d) = Some (ud_content d)
        \<and> (\<forall>c. sees (files w) (ud_name d) = Some c \<longrightarrow> owned (ud_name d) c)"
    and write_err: "fit env (ud_name d) \<Longrightarrow> st_write St d env w = (Inl e, w') \<Longrightarrow>
        sees (files w') (ud_name d) = sees (files w) (ud_name d)"
    and remove_ok: "fit env n \<Longrightarrow> st_remove St n env w = (Inr u, w') \<Longrightarrow>
        sees (files w') n = None \<and> (\<forall>c. sees (files w) n = Some c \<longrightarrow> owned n c)"
    and remove_err: "fit env n \<Longrightarrow> st_remove St n env w = (Inl e, w') \<Longrightarrow> sees (files w') n = sees (files w) n"

section \<open>The file store provides it\<close>

definition file_store :: "file_unit_store \<Rightarrow> unit_store" where
  "file_store S =
     \<lparr>st_state = store_state S, st_read = store_read S, st_write = store_write S, st_remove = store_remove S\<rparr>"

definition unit_content :: "file_unit_store \<Rightarrow> fs \<Rightarrow> unit_name \<Rightarrow> string option" where
  "unit_content S f name =
     (case fs_get f (components (store_path S name)) of Some (File c) \<Rightarrow> Some c | _ \<Rightarrow> None)"

definition unit_owned :: "file_unit_store \<Rightarrow> unit_name \<Rightarrow> string \<Rightarrow> bool" where
  "unit_owned S name c = (parse_owned_connection (fus_parse_uuid S) c = Some (un_connection_id name))"

text \<open>
  A normalized root, a canonical identifier, and an operating system that answers \<open>NotFound\<close> only
  when there is no file.
\<close>

definition store_fit :: "file_unit_store \<Rightarrow> env \<Rightarrow> unit_name \<Rightarrow> bool" where
  "store_fit S env name =
     (normal_abs (components (fus_root S)) \<and> uuid_text (conn_uuid (un_connection_id name))
      \<and> (\<forall>n e. e_fault env n = Some e \<longrightarrow> io_kind e \<noteq> NotFound))"

lemma file_name_valid: "uuid_text (conn_uuid (un_connection_id n)) \<Longrightarrow> valid_part (file_name n)"
  using uuid_text_valid_part [of "conn_uuid (un_connection_id n)"]
  by (cases "un_kind n") (auto simp: file_name_def valid_part_def)

lemma store_path_components:
  "normal_abs (components (fus_root S)) \<Longrightarrow> uuid_text (conn_uuid (un_connection_id n)) \<Longrightarrow>
     components (store_path S n) = components (fus_root S) @ [Normal (file_name n)]"
  unfolding store_path_def by (rule components_join [OF normal_abs_absolute file_name_valid])

lemma unit_temporary_components:
  assumes "normal_abs (components (fus_root S))" and "uuid_text (conn_uuid (un_connection_id n))"
  shows "components (unit_temporary S (store_path S n))
    = components (fus_root S) @ [Normal (''.'' @ file_name n @ ''.tmp-'' @ show_nat (fus_pid S))]"
proof -
  have fn: "path_file_name (store_path S n) = Some (file_name n)"
    using store_path_components [OF assms] by (simp add: path_file_name_def)
  have "digits (show_nat (fus_pid S))" using show_nat_digits by simp
  then have "CHR ''/'' \<notin> set (show_nat (fus_pid S))" by (auto simp: digits_def list_all_iff is_ascii_digit_def)
  then have "valid_part (''.'' @ file_name n @ ''.tmp-'' @ show_nat (fus_pid S))"
    using file_name_valid [OF assms(2)] by (auto simp: valid_part_def)
  from components_join [OF normal_abs_absolute [OF assms(1)] this] fn show ?thesis
    by (simp add: unit_temporary_def)
qed

text \<open>Where the unit and its temporary file are: fresh entries of the root directory.\<close>

lemma store_keys:
  assumes "store_fit S env n"
  shows "components (unit_temporary S (store_path S n)) \<noteq> components (store_path S n)"
    "components (store_path S n) \<noteq> [RootDir]"
    "components (unit_temporary S (store_path S n)) \<noteq> [RootDir]"
    "components (store_path S n) \<notin> set (dir_prefixes (components (fus_root S)))"
proof -
  from assms have a: "normal_abs (components (fus_root S))" "uuid_text (conn_uuid (un_connection_id n))"
    by (auto simp: store_fit_def)
  note k = store_path_components [OF a] unit_temporary_components [OF a]
  have "components (fus_root S) \<noteq> []" using a(1) by (auto simp: normal_abs_def)
  with k show "components (store_path S n) \<noteq> [RootDir]" "components (unit_temporary S (store_path S n)) \<noteq> [RootDir]"
    by simp_all
  from k show "components (unit_temporary S (store_path S n)) \<noteq> components (store_path S n)"
    by (simp add: file_name_def)
  have "length key \<le> length (components (fus_root S))" if "key \<in> set (dir_prefixes (components (fus_root S)))" for key
    using that by (auto simp: dir_prefixes_def)
  with k(1) show "components (store_path S n) \<notin> set (dir_prefixes (components (fus_root S)))" by fastforce
qed

lemma node_at_open_directory [node_intros]: "preserves env (node_at k v) (open_directory p)"
  unfolding open_directory_def by (rule node_at_fs_step) auto

definition sync_root :: "file_unit_store \<Rightarrow> (service_error, unit) prog" where
  "sync_root S =
     bindP (tryP (open_directory (fus_root S))) (\<lambda>r.
       case r of Inl _ \<Rightarrow> ret () | Inr _ \<Rightarrow> seqP (tryP (sync_all (fus_root S))) (ret ()))"

lemma sync_root_run: "\<exists>w'. sync_root S env w = (Inr (), w') \<and> fs_get (files w') k = fs_get (files w) k"
proof -
  have p: "preserves env (node_at k v) (sync_root S)" for v
    unfolding sync_root_def by (auto intro!: preserves_intros node_intros split: sum.split)
  obtain r w' where run: "sync_root S env w = (r, w')" by (rule prod.exhaust)
  then have "r = Inr ()"
    by (auto simp: sync_root_def bindP_def seqP_def tryP_def split: prod.splits sum.splits)
  with run preservesD [OF p run, of "fs_get (files w) k"] show ?thesis by (auto simp: node_at_def)
qed

lemma publish_unit_split:
  "publish_unit S temporary p content =
     seqP (seqP (map_errP SvcIo (open_create_new temporary))
          (seqP (map_errP SvcIo (write_all temporary content))
                (map_errP SvcIo (sync_all temporary))))
    (seqP (map_errP SvcIo (rename_file temporary p)) (sync_root S))"
  unfolding publish_unit_def sync_root_def seqP_def bindP_def
  by (intro ext) (simp split: prod.split sum.split)

lemma publish_unit_run:
  assumes "publish_unit S tmp p content env w = (r, w')"
    and "components tmp \<noteq> components p" and "components p \<noteq> [RootDir]" and "components tmp \<noteq> [RootDir]"
  shows "fs_get (files w') (components p)
    = (if is_err r then fs_get (files w) (components p) else Some (File content))"
proof -
  let ?k = "components p"
  define stage :: "(service_error, unit) prog" where "stage =
    seqP (map_errP SvcIo (open_create_new tmp))
      (seqP (map_errP SvcIo (write_all tmp content)) (map_errP SvcIo (sync_all tmp)))"
  have keeps: "preserves env (node_at ?k v) stage" for v
    unfolding stage_def using assms(2) by (intro preserves_intros node_intros) auto
  obtain r1 w1 where st: "stage env w = (r1, w1)" by (rule prod.exhaust)
  have w1: "fs_get (files w1) ?k = fs_get (files w) ?k"
    using preservesD [OF keeps st, of "fs_get (files w) ?k"] by (simp add: node_at_def)
  note run = assms(1) [unfolded publish_unit_split, folded stage_def]
  show ?thesis
  proof (cases r1)
    case (Inl e)
    with st run w1 show ?thesis by (auto simp: seqP_def bindP_def)
  next
    case (Inr u)
    have tmp: "fs_get (files w1) (components tmp) = Some (File content)"
    proof -
      from st [unfolded Inr] obtain u1 wa ub wb where
        wr: "write_all tmp content env wa = (Inr u1, wb)" and sy: "sync_all tmp env wb = (Inr ub, w1)"
        by (auto simp: stage_def seqP_Inr)
      have "node_at (components tmp) (Some (File content)) wb"
        using write_all_Inr [OF wr assms(4)] by (simp add: node_at_def)
      from preservesD [OF node_at_prims(6) sy this] show ?thesis by (simp add: node_at_def)
    qed
    obtain r2 w2 where rn: "rename_file tmp p env w1 = (r2, w2)" by (rule prod.exhaust)
    obtain w3 where sr: "sync_root S env w2 = (Inr (), w3)" "fs_get (files w3) ?k = fs_get (files w2) ?k"
      using sync_root_run by blast
    show ?thesis
    proof (cases r2)
      case (Inl e)
      with rn st run Inr rename_file_Inl [OF rn [unfolded Inl], of ?k] w1 show ?thesis
        by (auto simp: seqP_def bindP_def map_errP_def)
    next
      case (Inr u2)
      with rn st run \<open>r1 = Inr u\<close> rename_file_Inr [OF rn [unfolded Inr] assms(3)] tmp sr show ?thesis
        by (auto simp: seqP_def bindP_def map_errP_def)
    qed
  qed
qed

lemma write_raw_run:
  assumes "store_fit S env n" and "write_raw S (store_path S n) content env w = (r, w')"
  shows "fs_get (files w') (components (store_path S n))
    = (if is_err r then fs_get (files w) (components (store_path S n)) else Some (File content))"
proof -
  let ?p = "store_path S n" and ?tmp = "unit_temporary S (store_path S n)"
  note keys = store_keys [OF assms(1)]
  obtain r1 w1 where mk: "create_dir_all (fus_root S) env w = (r1, w1)" by (rule prod.exhaust)
  have w1: "fs_get (files w1) (components ?p) = fs_get (files w) (components ?p)"
    using preservesD [OF node_at_create_dir_all [OF keys(4)] mk] by (auto simp: node_at_def)
  show ?thesis
  proof (cases r1)
    case (Inl e)
    with mk assms(2) w1 show ?thesis by (auto simp: write_raw_def seqP_def bindP_def map_errP_def)
  next
    case (Inr u)
    obtain r2 w2 where pub: "publish_unit S ?tmp ?p content env w1 = (r2, w2)" by (rule prod.exhaust)
    note w2 = publish_unit_run [OF pub keys(1-3)]
    obtain r3 w3 where rm: "remove_file ?tmp env w2 = (r3, w3)" by (rule prod.exhaust)
    have w3: "fs_get (files w3) (components ?p) = fs_get (files w2) (components ?p)"
      using preservesD [OF node_at_remove_file [OF keys(1)] rm] by (auto simp: node_at_def)
    from mk assms(2) w1 Inr pub w2 rm w3 show ?thesis
      by (cases r2) (auto simp: write_raw_def seqP_def bindP_def map_errP_def tryP_def)
  qed
qed

section \<open>Its laws\<close>

lemma store_state_files: "store_state S n env w = (r, w') \<Longrightarrow> files w' = files w"
  by (auto simp: store_state_def bindP_def tryP_def read_to_string_def fs_step_def
      split: prod.splits sum.splits option.splits if_splits)

lemma store_read_files: "store_read S n env w = (r, w') \<Longrightarrow> files w' = files w"
  by (auto simp: store_read_def bindP_def tryP_def read_to_string_def symlink_metadata_def fs_step_def
      split: prod.splits sum.splits option.splits if_splits)

lemma io_cases: "io k m = Inl e \<longleftrightarrow> e = IoError k m" "Inl e = io k m \<longleftrightarrow> e = IoError k m"
  by (auto simp: io_def)

lemma store_read_sees:
  assumes "store_fit S env n" and "store_read S n env w = (Inr c, w')"
  shows "c = unit_content S (files w) n"
proof -
  have nf: "e_fault env k = Some e \<Longrightarrow> io_kind e \<noteq> NotFound" for k e using assms(1) by (auto simp: store_fit_def)
  from assms(2) nf show ?thesis
    by (auto simp: store_read_def bindP_def tryP_def read_to_string_def symlink_metadata_def fs_step_def
        unit_content_def io_cases io_def dest: fs_stat_file split: prod.splits sum.splits option.splits if_splits node.splits)
qed

text \<open>The content that the state was computed from is the one at the unit's path, if that is a file.\<close>

lemma store_state_managed:
  assumes "store_state S n env w = (Inr (UnitManaged cid), w')" and "unit_content S (files w) n = Some c"
  shows "parse_owned_connection (fus_parse_uuid S) c = Some cid"
  using assms
  by (auto simp: store_state_def bindP_def tryP_def read_to_string_def fs_step_def unit_content_def io_cases io_def
      dest: fs_stat_file split: prod.splits sum.splits option.splits if_splits node.splits)

lemma store_state_missing:
  assumes "store_fit S env n" and "store_state S n env w = (Inr UnitMissing, w')"
  shows "unit_content S (files w) n = None"
proof -
  have nf: "e_fault env k = Some e \<Longrightarrow> io_kind e \<noteq> NotFound" for k e using assms(1) by (auto simp: store_fit_def)
  from assms(2) nf show ?thesis
    by (auto simp: store_state_def bindP_def tryP_def read_to_string_def fs_step_def unit_content_def io_cases io_def
        dest: fs_stat_file split: prod.splits sum.splits option.splits if_splits node.splits)
qed

lemma store_write_run:
  assumes "store_fit S env (ud_name d)" and "store_write S d env w = (r, w')"
  shows "case r of
      Inl _ \<Rightarrow> fs_get (files w') (components (store_path S (ud_name d))) = fs_get (files w) (components (store_path S (ud_name d)))
    | Inr _ \<Rightarrow> fus_validate S d = Inr ()
        \<and> fs_get (files w') (components (store_path S (ud_name d))) = Some (File (ud_content d))
        \<and> (\<forall>c. unit_content S (files w) (ud_name d) = Some c \<longrightarrow> unit_owned S (ud_name d) c)"
proof -
  let ?p = "store_path S (ud_name d)"
  obtain r1 w1 where st: "store_state S (ud_name d) env w = (r1, w1)" by (rule prod.exhaust)
  have w1: "files w1 = files w" by (rule store_state_files [OF st])
  note run = assms(2) [unfolded store_write_def]
  show ?thesis
  proof (cases "fus_validate S d = Inr () \<and> (r1 = Inr UnitMissing \<or> r1 = Inr (UnitManaged (un_connection_id (ud_name d))))")
    case False
    have "\<exists>e. r = Inl e \<and> files w' = files w"
    proof (cases "fus_validate S d")
      case (Inl e)
      with run have "r = Inl e" "w' = w" by (simp_all add: seqP_def bindP_def)
      then show ?thesis by simp
    next
      case (Inr u)
      with False run st w1 show ?thesis
        by (cases r1) (auto simp: seqP_def bindP_def split: unit_file_state.splits if_splits)
    qed
    then show ?thesis by auto
  next
    case True
    then have "write_raw S ?p (ud_content d) env w1 = (r, w')"
      using run st by (auto simp: seqP_def bindP_def)
    note raw = write_raw_run [OF assms(1) this]
    have "unit_owned S (ud_name d) c" if "unit_content S (files w) (ud_name d) = Some c" for c
      using True that store_state_missing [OF assms(1)] store_state_managed [OF _ that] st
      by (auto simp: unit_owned_def)
    with raw w1 True show ?thesis by (cases r) auto
  qed
qed

lemma remove_file_run:
  assumes "remove_file p env w = (r, w')" and "components p \<noteq> [RootDir]"
  shows "fs_get (files w') (components p) = (if is_err r then fs_get (files w) (components p) else None)"
  using assms
  by (auto simp: remove_file_def fs_step_def io_def split: option.splits prod.splits node.splits)

lemma store_remove_run:
  assumes "store_fit S env n" and "store_remove S n env w = (r, w')"
  shows "case r of
      Inl _ \<Rightarrow> unit_content S (files w') n = unit_content S (files w) n
    | Inr _ \<Rightarrow> unit_content S (files w') n = None
        \<and> (\<forall>c. unit_content S (files w) n = Some c \<longrightarrow> unit_owned S n c)"
proof -
  obtain r1 w1 where st: "store_state S n env w = (r1, w1)" by (rule prod.exhaust)
  have w1: "files w1 = files w" by (rule store_state_files [OF st])
  note run = assms(2) [unfolded store_remove_def]
  show ?thesis
  proof (cases "r1 = Inr (UnitManaged (un_connection_id n))")
    case True
    then obtain r2 where rm: "remove_file (store_path S n) env w1 = (r2, w')" and r: "r = map_err SvcIo r2"
      using run st by (auto simp: bindP_def map_errP_def split: prod.splits)
    have "unit_owned S n c" if "unit_content S (files w) n = Some c" for c
      using store_state_managed [OF st [unfolded True] that] by (simp add: unit_owned_def)
    with remove_file_run [OF rm store_keys(2) [OF assms(1)]] r w1 show ?thesis
      by (cases r2) (auto simp: unit_content_def)
  next
    case False
    with run st w1 store_state_missing [OF assms(1), of w w1] show ?thesis
      by (cases r1) (auto simp: bindP_def split: unit_file_state.splits if_splits)
  qed
qed

interpretation managed_units: unit_files "file_store S" "unit_content S" "\<lambda>d. fus_validate S d = Inr ()"
    "unit_owned S" "store_fit S" for S
proof (unfold_locales, goal_cases)
  case (1 env n m w r w')
  then show ?case by (simp add: file_store_def store_read_files)
next
  case (2 env n w found w')
  then show ?case by (simp add: file_store_def store_read_sees)
next
  case (3 env n m w s w')
  then show ?case by (simp add: file_store_def store_state_files)
next
  case (4 env n w cid w' c)
  then show ?case by (simp add: file_store_def store_state_managed unit_owned_def)
next
  case (5 env d w u w')
  then show ?case using store_write_run [of S env d w "Inr u" w'] by (simp add: file_store_def unit_content_def)
next
  case (6 env d w e w')
  then show ?case using store_write_run [of S env d w "Inl e" w'] by (simp add: file_store_def unit_content_def)
next
  case (7 env n w u w')
  then show ?case using store_remove_run [of S env n w "Inr u" w'] by (simp add: file_store_def)
next
  case (8 env n w e w')
  then show ?case using store_remove_run [of S env n w "Inl e" w'] by (simp add: file_store_def)
qed

section \<open>Units of others\<close>

lemma other_keys:
  assumes "store_fit S env n" and "store_fit S env m" and "n \<noteq> m"
  shows "components (store_path S n) \<noteq> components (store_path S m)"
    "components (unit_temporary S (store_path S n)) \<noteq> components (store_path S m)"
proof -
  from assms have a: "normal_abs (components (fus_root S))" "uuid_text (conn_uuid (un_connection_id n))"
    "uuid_text (conn_uuid (un_connection_id m))" by (auto simp: store_fit_def)
  show "components (store_path S n) \<noteq> components (store_path S m)"
    using assms(3) file_name_inj [OF a(2,3)] by (auto simp: store_path_components a)
  show "components (unit_temporary S (store_path S n)) \<noteq> components (store_path S m)"
    by (simp add: store_path_components unit_temporary_components a) (simp add: file_name_def)
qed

lemma store_write_other:
  assumes "store_fit S env (ud_name d)" and "store_fit S env m" and "ud_name d \<noteq> m"
  shows "preserves env (node_at (components (store_path S m)) v) (store_write S d)"
proof -
  note k = other_keys [OF assms] and up = store_keys(4) [OF assms(2)]
  have st: "preserves env (node_at key v) (store_state S n)" for key n
    using store_state_files by (auto simp: preserves_def node_at_def) (metis prod.collapse)
  have "preserves env (node_at (components (store_path S m)) v) (sync_root S)"
    unfolding sync_root_def by (auto intro!: preserves_intros node_intros split: sum.split)
  then show ?thesis
    unfolding store_write_def write_raw_def publish_unit_split
    using k up by (auto intro!: preserves_intros node_intros st split: unit_file_state.split)
qed

lemma store_remove_other:
  assumes "store_fit S env n" and "store_fit S env m" and "n \<noteq> m"
  shows "preserves env (node_at (components (store_path S m)) v) (store_remove S n)"
proof -
  have st: "preserves env (node_at key v) (store_state S n)" for key
    using store_state_files by (auto simp: preserves_def node_at_def) (metis prod.collapse)
  show ?thesis
    unfolding store_remove_def using other_keys(1) [OF assms]
    by (auto intro!: preserves_intros node_intros st split: unit_file_state.split)
qed

datatype unit_op = WriteUnit unit_document | RemoveUnit unit_name

primrec op_unit :: "unit_op \<Rightarrow> unit_name" where
  "op_unit (WriteUnit d) = ud_name d"
| "op_unit (RemoveUnit n) = n"

primrec run_op :: "file_unit_store \<Rightarrow> unit_op \<Rightarrow> (service_error, unit) prog" where
  "run_op S (WriteUnit d) = store_write S d"
| "run_op S (RemoveUnit n) = store_remove S n"

text \<open>A series of operations, whatever the results of the earlier ones are.\<close>

fun run_unit_ops :: "file_unit_store \<Rightarrow> unit_op list \<Rightarrow> (service_error, unit) prog" where
  "run_unit_ops S [] = ret ()"
| "run_unit_ops S (a # as) = seqP (tryP (run_op S a)) (run_unit_ops S as)"

lemma run_op_foreign:
  assumes "store_fit S env n" and "store_fit S env (op_unit a)" and "unit_content S (files w) n = Some c"
    and "\<not> unit_owned S n c" and "run_op S a env w = (r, w')"
  shows "unit_content S (files w') n = Some c"
proof (cases "op_unit a = n")
  case False
  have "preserves env (node_at (components (store_path S n)) v) (run_op S a)" for v
    using False assms(1,2) store_write_other store_remove_other by (cases a) auto
  from preservesD [OF this assms(5), of "fs_get (files w) (components (store_path S n))"] assms(3)
  show ?thesis by (simp add: node_at_def unit_content_def)
next
  case True
  with assms show ?thesis
    using store_write_run [of S env _ w r w'] store_remove_run [of S env n w r w']
    by (cases a; cases r) (auto simp: unit_content_def)
qed

text \<open>
  C30. The applet never touches a unit that is not its own: whatever series of writes and removals of
  units is carried out, with every kind of I/O error on the way, a unit file that does not carry the
  ownership markers of its connection keeps its content.
\<close>
theorem foreign_unit_is_kept:
  assumes "store_fit S env n" and "list_all (\<lambda>a. store_fit S env (op_unit a)) ops"
    and "unit_content S (files w) n = Some c"
    and "parse_owned_connection (fus_parse_uuid S) c \<noteq> Some (un_connection_id n)"
    and "run_unit_ops S ops env w = (r, w')"
  shows "unit_content S (files w') n = Some c"
  using assms(2,3,5)
proof (induction ops arbitrary: w)
  case Nil
  then show ?case by simp
next
  case (Cons a as)
  obtain r1 w1 where first: "run_op S a env w = (r1, w1)" by (rule prod.exhaust)
  with Cons.prems have "run_unit_ops S as env w1 = (r, w')"
    by (simp add: seqP_def bindP_def tryP_def)
  with Cons.IH run_op_foreign [OF assms(1) _ Cons.prems(2) _ first] Cons.prems(1) assms(4) show ?case
    by (simp add: unit_owned_def)
qed

definition sample_store :: file_unit_store where
  "sample_store =
     \<lparr>fus_root = ''/s'', fus_pid = 7, fus_validate = structural_validate, fus_parse_uuid = Some\<rparr>"

definition sample_unit :: unit_name where
  "sample_unit = \<lparr>un_connection_id = ConnectionId sample_uuid, un_kind = ServiceUnit\<rparr>"

lemma sample_store_fit: "store_fit sample_store sample_env n \<longleftrightarrow> uuid_text (conn_uuid (un_connection_id n))"
  using sample_root(2) by (auto simp: store_fit_def sample_store_def sample_env_def)

lemma foreign_unit_is_kept_witness:
  "let w = sample_world\<lparr>files := [(components (store_path sample_store sample_unit), File ''[Unit]''), ([RootDir, Normal ''s''], Dir)]\<rparr>
   in unit_content sample_store (files (snd (run_unit_ops sample_store
        [RemoveUnit sample_unit, WriteUnit \<lparr>ud_name = sample_unit, ud_content = ''x''\<rparr>] sample_env w))) sample_unit
      = Some ''[Unit]''"
proof -
  let ?w = "sample_world\<lparr>files := [(components (store_path sample_store sample_unit), File ''[Unit]''), ([RootDir, Normal ''s''], Dir)]\<rparr>"
  let ?ops = "[RemoveUnit sample_unit, WriteUnit \<lparr>ud_name = sample_unit, ud_content = ''x''\<rparr>]"
  obtain r w' where run: "run_unit_ops sample_store ?ops sample_env ?w = (r, w')" by (rule prod.exhaust)
  have fit: "store_fit sample_store sample_env sample_unit"
    by (simp add: sample_store_fit sample_unit_def sample_uuid_text)
  have c: "unit_content sample_store (files ?w) sample_unit = Some ''[Unit]''"
    using store_keys(2) [OF fit] by (simp add: unit_content_def fs_get_def)
  have o: "parse_owned_connection (fus_parse_uuid sample_store) ''[Unit]'' \<noteq> Some (un_connection_id sample_unit)"
    by code_simp
  have "list_all (\<lambda>a. store_fit sample_store sample_env (op_unit a)) ?ops" using fit by simp
  from foreign_unit_is_kept [OF fit this c o run] run show ?thesis by (simp add: Let_def)
qed

lemma validated_unit_owned:
  assumes "structural_validate d = Inr ()" and "uuid_text (conn_uuid (un_connection_id (ud_name d)))"
    and "\<And>u. uuid_text u \<Longrightarrow> fus_parse_uuid S u = Some u"
  shows "unit_owned S (ud_name d) (ud_content d)"
proof -
  from assms(1) obtain rest where
    l: "lines (ud_content d) = MANAGED_MARKER # (UUID_MARKER @ conn_uuid (un_connection_id (ud_name d))) # rest"
    by (auto simp: structural_validate_def bad_unit_def split: list.splits if_splits)
  have "\<not> prefix UUID_MARKER MANAGED_MARKER" by (simp add: UUID_MARKER_def MANAGED_MARKER_def)
  with l assms(2,3) show ?thesis by (simp add: unit_owned_def parse_owned_connection_def)
qed

lemma store_state_of_file:
  assumes "store_fit S env n" and "fs_get (files w) (components (store_path S n)) = Some (File c)"
    and "store_state S n env w = (Inr st, w')"
  shows "st = (case parse_owned_connection (fus_parse_uuid S) c of Some cid \<Rightarrow> UnitManaged cid | None \<Rightarrow> UnitExternal)"
proof -
  have nf: "e_fault env k = Some e \<Longrightarrow> io_kind e \<noteq> NotFound" for k e using assms(1) by (auto simp: store_fit_def)
  from assms(2,3) nf show ?thesis
    by (auto simp: store_state_def bindP_def tryP_def read_to_string_def fs_step_def fs_stat_file
        split: prod.splits sum.splits option.splits if_splits)
qed

text \<open>
  What the store wrote, it reads back and recognizes as its own: after a successful write, reading
  returns the document's content and the state is managed by the document's connection, if these steps
  do not fail themselves.
\<close>
theorem written_unit_is_ours:
  assumes "store_fit S env (ud_name d)" and "fus_validate S = structural_validate"
    and "\<And>u. uuid_text u \<Longrightarrow> fus_parse_uuid S u = Some u"
    and "store_write S d env w = (Inr (), w')"
  shows "(case fst (store_read S (ud_name d) env w') of Inl _ \<Rightarrow> True | Inr found \<Rightarrow> found = Some (ud_content d))
    \<and> (case fst (store_state S (ud_name d) env w') of
         Inl _ \<Rightarrow> True | Inr st \<Rightarrow> st = UnitManaged (un_connection_id (ud_name d)))"
proof -
  from store_write_run [OF assms(1,4)] assms(2) have ok: "structural_validate d = Inr ()"
    and node: "fs_get (files w') (components (store_path S (ud_name d))) = Some (File (ud_content d))" by auto
  have owned: "unit_owned S (ud_name d) (ud_content d)"
    using validated_unit_owned [OF ok _ assms(3)] assms(1) by (simp add: store_fit_def)
  have "found = Some (ud_content d)" if "store_read S (ud_name d) env w' = (Inr found, w'')" for found w''
    using store_read_sees [OF assms(1) that] node by (simp add: unit_content_def)
  moreover have "st = UnitManaged (un_connection_id (ud_name d))"
    if "store_state S (ud_name d) env w' = (Inr st, w'')" for st w''
    using store_state_of_file [OF assms(1) node that] owned by (simp add: unit_owned_def)
  moreover obtain r1 w1 where "store_read S (ud_name d) env w' = (r1, w1)" by (rule prod.exhaust)
  moreover obtain r2 w2 where "store_state S (ud_name d) env w' = (r2, w2)" by (rule prod.exhaust)
  ultimately show ?thesis by (cases r1; cases r2) simp_all
qed

definition sample_unit_document :: unit_document where
  "sample_unit_document =
     \<lparr>ud_name = sample_unit,
      ud_content = unlines ([MANAGED_MARKER, UUID_MARKER @ sample_uuid, ''[Unit]'', ''Description=m'', ''[Service]'',
        ''Type=simple'', ''RuntimeDirectory=cosmic-ext-applet-mounter'', ''SuccessExitStatus=130 143'',
        ''ExecStart='' @ [CHR 0x22] @ ''/usr/bin/rclone'' @ [CHR 0x22], ''[Install]'', ''WantedBy=default.target''])\<rparr>"

lemma written_unit_is_ours_witness:
  "\<exists>w'. store_write sample_store sample_unit_document (sample_env\<lparr>e_fault := \<lambda>_. None\<rparr>) sample_world = (Inr (), w')
     \<and> (case fst (store_read sample_store sample_unit (sample_env\<lparr>e_fault := \<lambda>_. None\<rparr>) w') of
          Inl _ \<Rightarrow> True | Inr found \<Rightarrow> found = Some (ud_content sample_unit_document))"
proof -
  let ?env = "sample_env\<lparr>e_fault := \<lambda>_. None\<rparr>"
  have fit: "store_fit sample_store ?env (ud_name sample_unit_document)"
    using sample_store_fit [of sample_unit]
    by (simp add: store_fit_def sample_unit_document_def sample_unit_def sample_uuid_text sample_env_def)
  have "fst (store_write sample_store sample_unit_document ?env sample_world) = Inr ()"
    by code_simp
  then obtain w' where run: "store_write sample_store sample_unit_document ?env sample_world = (Inr (), w')"
    by (metis prod.collapse)
  have "fus_validate sample_store = structural_validate" "\<And>u. uuid_text u \<Longrightarrow> fus_parse_uuid sample_store u = Some u"
    by (simp_all add: sample_store_def)
  from written_unit_is_ours [OF fit this run] run show ?thesis by (simp add: sample_unit_document_def)
qed

end
