(* ===== verification/Unit_Controller.thy ===== *)
theory Unit_Controller
  imports Unit_Store
begin

text \<open>
  \<open>UnitController\<close> of \<open>src/src/services.rs\<close>: installing, removing and retiring a unit through a store
  and the systemd manager, with their rollbacks.  Store and manager are the code's traits: arguments
  of the operations, with their contracts as the locales \<open>unit_files\<close> and \<open>unit_system\<close>.
\<close>

datatype active_state = Active | Activating | Inactive | UnitFailed | UnitUnknown

record unit_status =
  us_active :: active_state
  us_enabled :: bool
  us_detail :: string
  us_result :: string

datatype systemd_action =
    DaemonReload | ValidateLoaded | ValidateRetirementLoaded | Enable | Disable | Start | Stop | Restart
  | ResetFailed | Status

text \<open>
  A manager performs an action on a unit; the flag says whether it runs under a child of the
  operation's cancellation token (or under a fresh token).
\<close>

type_synonym systemd_manager =
  "systemd_action \<Rightarrow> unit_name option \<Rightarrow> bool \<Rightarrow> (service_error, unit_status option) prog"

section \<open>Operations\<close>

definition restore :: "unit_store \<Rightarrow> unit_name \<Rightarrow> string option \<Rightarrow> (service_error, unit) prog" where
  "restore St name previous =
     (case previous of
        Some content \<Rightarrow> st_write St \<lparr>ud_name = name, ud_content = content\<rparr>
      | None \<Rightarrow> st_remove St name)"

text \<open>The block of \<open>install\<close> whose failure is rolled back.\<close>

definition load_check :: "systemd_manager \<Rightarrow> unit_name \<Rightarrow> (service_error, unit) prog" where
  "load_check M name =
     seqP (M DaemonReload None True) (seqP (M ValidateLoaded (Some name) True) (ret ()))"

definition unit_install :: "unit_store \<Rightarrow> systemd_manager \<Rightarrow> unit_document \<Rightarrow> (service_error, unit) prog" where
  "unit_install St M d =
     bindP (st_read St (ud_name d)) (\<lambda>previous.
     seqP (st_write St d)
    (bindP (tryP (load_check M (ud_name d))) (\<lambda>r.
       case r of
         Inr _ \<Rightarrow> ret ()
       | Inl e \<Rightarrow>
           seqP (restore St (ud_name d) previous)
          (bindP (tryP (M DaemonReload None False)) (\<lambda>rollback.
             case rollback of
               Inl e' \<Rightarrow>
                 fail (SvcRuntime (Fl ''ui-services-error-unit-file-was-restored-but-systemd''
                         [(''error'', service_error_text e), (''rollback_error'', service_error_text e')]))
             | Inr _ \<Rightarrow> fail e)))))"

definition unit_remove :: "unit_store \<Rightarrow> systemd_manager \<Rightarrow> unit_name \<Rightarrow> (service_error, unit) prog" where
  "unit_remove St M name =
     bindP (st_read St name) (\<lambda>previous.
     seqP (st_remove St name)
    (bindP (tryP (M DaemonReload None True)) (\<lambda>r.
       case r of
         Inr _ \<Rightarrow> ret ()
       | Inl e \<Rightarrow>
           (case previous of
              Some content \<Rightarrow> seqP (restore St name (Some content)) (fail e)
            | None \<Rightarrow> fail e))))"

definition RETIRED_EXEC :: string where
  "RETIRED_EXEC = ''ExecStart='' @ [CHR 0x22] @ ''/usr/bin/onedrive'' @ [CHR 0x22] @ '' ''"

definition retirement_step ::
  "unit_store \<Rightarrow> systemd_manager \<Rightarrow> unit_name \<Rightarrow> string \<Rightarrow> systemd_action \<Rightarrow> (service_error, unit) prog" where
  "retirement_step St M name content action =
     bindP is_cancelled (\<lambda>c.
       if c then fail (SvcRuntime (fl ''legacy-retirement-incomplete''))
       else bindP (st_read St name) (\<lambda>now.
         if now \<noteq> Some content then fail (SvcValidation (fl ''legacy-retirement-ownership''))
         else seqP (M action (Some name) True) (ret ())))"

definition stopped_status :: "unit_status option \<Rightarrow> bool" where
  "stopped_status st =
     (case st of None \<Rightarrow> False | Some s \<Rightarrow> \<not> us_enabled s \<and> us_active s \<in> {Inactive, UnitFailed})"

definition retire_legacy_mirror :: "unit_store \<Rightarrow> systemd_manager \<Rightarrow> connection_id \<Rightarrow> (service_error, unit) prog" where
  "retire_legacy_mirror St M cid =
     (let name = \<lparr>un_connection_id = cid, un_kind = ServiceUnit\<rparr> in
      bindP (st_read St name) (\<lambda>found.
        case found of
          None \<Rightarrow> ret ()
        | Some content \<Rightarrow>
            seqP (liftR (structural_validate \<lparr>ud_name = name, ud_content = content\<rparr>))
           (bindP (st_state St name) (\<lambda>st.
              if st \<noteq> UnitManaged cid \<or> \<not> list_ex (prefix RETIRED_EXEC) (lines content)
              then fail (SvcValidation (fl ''legacy-retirement-ownership''))
              else
                seqP (retirement_step St M name content ValidateRetirementLoaded)
               (seqP (retirement_step St M name content Disable)
               (seqP (retirement_step St M name content Stop)
               (bindP (M Status (Some name) True) (\<lambda>status.
                bindP (if stopped_status status then is_cancelled else ret True) (\<lambda>incomplete.
                  if incomplete then fail (SvcRuntime (fl ''legacy-retirement-incomplete''))
                  else bindP (st_read St name) (\<lambda>now.
                    if now \<noteq> Some content then fail (SvcValidation (fl ''legacy-retirement-ownership''))
                    else unit_remove St M name))))))))))"

section \<open>The contract of the manager\<close>

text \<open>A manager never writes a unit file: enabling and disabling make links beside it.\<close>

locale unit_system = unit_files +
  fixes M :: systemd_manager
  assumes manager_keeps: "fit env n \<Longrightarrow> M a u t env w = (r, w') \<Longrightarrow> sees (files w') n = sees (files w) n"
begin

lemma restore_run:
  assumes "fit env n" and "restore St n previous env w = (r, w')"
  shows "case r of
      Inl _ \<Rightarrow> sees (files w') n = sees (files w) n
    | Inr _ \<Rightarrow> sees (files w') n = previous \<and> (\<forall>c. previous = Some c \<longrightarrow> accepted \<lparr>ud_name = n, ud_content = c\<rparr>)"
proof (cases previous)
  case None
  with assms remove_ok [OF assms(1)] remove_err [OF assms(1)] show ?thesis
    by (cases r) (auto simp: restore_def)
next
  case (Some c)
  let ?d = "\<lparr>ud_name = n, ud_content = c\<rparr>"
  from Some assms have "st_write St ?d env w = (r, w')" by (simp add: restore_def)
  with Some write_ok [of env ?d] write_err [of env ?d] assms(1) show ?thesis
    by (cases r) auto
qed

lemma load_check_keeps:
  assumes "fit env n" and "load_check M n env w = (r, w')"
  shows "sees (files w') n = sees (files w) n"
  using assms(2) manager_keeps [OF assms(1)]
  by (auto simp: load_check_def seqP_def bindP_def split: prod.splits sum.splits)

text \<open>
  Installing succeeds with the new content, or fails with the old one, or fails with the error of the
  rollback and the new content.
\<close>

lemma install_outcome:
  assumes fit: "fit env (ud_name d)" and run: "unit_install St M d env w = (r, w')"
  shows "case r of
      Inr _ \<Rightarrow> accepted d \<and> sees (files w') (ud_name d) = Some (ud_content d)
    | Inl e \<Rightarrow> sees (files w') (ud_name d) = sees (files w) (ud_name d)
        \<or> sees (files w') (ud_name d) = Some (ud_content d)
          \<and> (\<exists>w2. restore St (ud_name d) (sees (files w) (ud_name d)) env w2 = (Inl e, w'))"
proof -
  let ?n = "ud_name d"
  note run = run [unfolded unit_install_def]
  obtain r0 w0 where rd: "st_read St ?n env w = (r0, w0)" by (rule prod.exhaust)
  have w0: "sees (files w0) ?n = sees (files w) ?n" by (rule read_keeps [OF fit rd])
  show ?thesis
  proof (cases r0)
    case (Inl e)
    with run rd w0 show ?thesis by (auto simp: bindP_def)
  next
    case (Inr previous)
    have prev: "previous = sees (files w) ?n" using read_sees [OF fit] rd Inr by blast
    obtain r1 w1 where wr: "st_write St d env w0 = (r1, w1)" by (rule prod.exhaust)
    show ?thesis
    proof (cases r1)
      case (Inl e)
      with run rd Inr wr write_err [OF fit, of w0 e w1] w0 show ?thesis by (auto simp: bindP_def seqP_def)
    next
      case (Inr u)
      from write_ok [OF fit] wr Inr have new: "accepted d" "sees (files w1) ?n = Some (ud_content d)" by blast+
      obtain r2 w2 where ch: "load_check M ?n env w1 = (r2, w2)" by (rule prod.exhaust)
      have w2: "sees (files w2) ?n = Some (ud_content d)" using load_check_keeps [OF fit ch] new(2) by simp
      show ?thesis
      proof (cases r2)
        case (Inr x)
        with run rd \<open>r0 = Inr previous\<close> wr \<open>r1 = Inr u\<close> ch w2 new(1) show ?thesis
          by (auto simp: bindP_def seqP_def tryP_def)
      next
        case (Inl e)
        obtain r3 w3 where rs: "restore St ?n previous env w2 = (r3, w3)" by (rule prod.exhaust)
        obtain r4 w4 where dr: "M DaemonReload None False env w3 = (r4, w4)" by (rule prod.exhaust)
        have w4: "sees (files w4) ?n = sees (files w3) ?n" by (rule manager_keeps [OF fit dr])
        from run rd \<open>r0 = Inr previous\<close> wr \<open>r1 = Inr u\<close> ch Inl rs dr
        have "(\<exists>e'. r3 = Inl e' \<and> r = Inl e' \<and> w' = w3) \<or> (\<exists>v. r3 = Inr v \<and> is_err r \<and> w' = w4)"
          by (cases r3; cases r4) (auto simp: bindP_def seqP_def tryP_def)
        with restore_run [OF fit rs] w2 w4 prev rs show ?thesis by (cases r) auto
      qed
    qed
  qed
qed

text \<open>A previous content that the validator refuses cannot be rolled back to.\<close>

lemma install_loses_previous:
  assumes fit: "fit env (ud_name d)" and "sees (files w) (ud_name d) = Some c"
    and bad: "\<not> accepted \<lparr>ud_name = ud_name d, ud_content = c\<rparr>" and acc: "accepted d"
    and wrote: "\<And>w1. st_read St (ud_name d) env w = (Inr (Some c), w1) \<Longrightarrow> \<exists>u w2. st_write St d env w1 = (Inr u, w2)"
    and read: "\<exists>w1. st_read St (ud_name d) env w = (Inr (Some c), w1)"
    and run: "unit_install St M d env w = (Inl e, w')"
  shows "sees (files w') (ud_name d) = Some (ud_content d)"
proof -
  let ?n = "ud_name d"
  from read wrote obtain w1 u w2 where rd: "st_read St ?n env w = (Inr (Some c), w1)"
    and wr: "st_write St d env w1 = (Inr u, w2)" by blast
  obtain r3 w3 where ch: "load_check M ?n env w2 = (r3, w3)" by (rule prod.exhaust)
  have w3: "sees (files w3) ?n = Some (ud_content d)" using load_check_keeps [OF fit ch] write_ok [OF fit wr] by simp
  obtain r4 w4 where rs: "restore St ?n (Some c) env w3 = (r4, w4)" by (rule prod.exhaust)
  obtain e4 where r4: "r4 = Inl e4" using restore_run [OF fit rs] bad by (cases r4) auto
  have "w' = w4"
    using run rd wr ch rs r4
    by (cases r3) (auto simp: unit_install_def bindP_def seqP_def tryP_def)
  with restore_run [OF fit rs] r4 w3 show ?thesis by simp
qed

end

context unit_system
begin

lemma retirement_step_keeps:
  assumes "fit env n" and "retirement_step St M n content a env w = (r, w')"
  shows "sees (files w') n = sees (files w) n"
  using assms(2) manager_keeps [OF assms(1)] read_keeps [OF assms(1)]
  by (auto simp: retirement_step_def seqP_def bindP_def is_cancelled_def split: prod.splits sum.splits if_splits)

text \<open>A unit changes under retirement only after it was validated, ours and seen stopped and disabled.\<close>

lemma retirement_needs_stopped:
  assumes fit: "fit env \<lparr>un_connection_id = cid, un_kind = ServiceUnit\<rparr>"
    and run: "retire_legacy_mirror St M cid env w = (r, w')"
    and changed: "sees (files w') \<lparr>un_connection_id = cid, un_kind = ServiceUnit\<rparr>
        \<noteq> sees (files w) \<lparr>un_connection_id = cid, un_kind = ServiceUnit\<rparr>"
  shows "\<exists>content w1 w2 status.
      sees (files w) \<lparr>un_connection_id = cid, un_kind = ServiceUnit\<rparr> = Some content
    \<and> structural_validate \<lparr>ud_name = \<lparr>un_connection_id = cid, un_kind = ServiceUnit\<rparr>, ud_content = content\<rparr> = Inr ()
    \<and> list_ex (prefix RETIRED_EXEC) (lines content)
    \<and> M Status (Some \<lparr>un_connection_id = cid, un_kind = ServiceUnit\<rparr>) True env w1 = (Inr status, w2)
    \<and> stopped_status status"
proof -
  let ?n = "\<lparr>un_connection_id = cid, un_kind = ServiceUnit\<rparr>"
  obtain r0 w0 where rd: "st_read St ?n env w = (r0, w0)" by (rule prod.exhaust)
  have w0: "sees (files w0) ?n = sees (files w) ?n" by (rule read_keeps [OF fit rd])
  have "\<exists>content. r0 = Inr (Some content)"
  proof (cases r0)
    case (Inl e)
    with run rd changed w0 show ?thesis by (simp add: retire_legacy_mirror_def Let_def bindP_def)
  next
    case (Inr found)
    with run rd changed w0 show ?thesis by (cases found) (simp_all add: retire_legacy_mirror_def Let_def bindP_def)
  qed
  then obtain content where r0: "r0 = Inr (Some content)" ..
  with read_sees [OF fit] rd have seen: "sees (files w) ?n = Some content" by metis
  obtain v where val: "structural_validate \<lparr>ud_name = ?n, ud_content = content\<rparr> = v" by simp
  obtain r1 w1 where st: "st_state St ?n env w0 = (r1, w1)" by (rule prod.exhaust)
  have w1: "sees (files w1) ?n = sees (files w) ?n" using state_keeps [OF fit st] w0 by simp
  have v: "v = Inr ()" and r1: "r1 = Inr (UnitManaged cid)" "list_ex (prefix RETIRED_EXEC) (lines content)"
    using run rd changed w0 r0 val st w1
    by (cases v; cases r1; auto simp: retire_legacy_mirror_def Let_def bindP_def seqP_def split: if_splits)+
  define steps :: "(service_error, unit) prog" where "steps =
    seqP (retirement_step St M ?n content ValidateRetirementLoaded)
      (seqP (retirement_step St M ?n content Disable) (retirement_step St M ?n content Stop))"
  obtain r2 w2 where ss: "steps env w1 = (r2, w2)" by (rule prod.exhaust)
  have w2: "sees (files w2) ?n = sees (files w) ?n"
    using ss w1 retirement_step_keeps [OF fit]
    by (auto simp: steps_def seqP_def bindP_def split: prod.splits sum.splits)
  have rest: "retire_legacy_mirror St M cid env w =
      seqP steps (bindP (M Status (Some ?n) True) (\<lambda>status.
        bindP (if stopped_status status then is_cancelled else ret True) (\<lambda>incomplete.
          if incomplete then fail (SvcRuntime (fl ''legacy-retirement-incomplete''))
          else bindP (st_read St ?n) (\<lambda>now.
            if now \<noteq> Some content then fail (SvcValidation (fl ''legacy-retirement-ownership''))
            else unit_remove St M ?n)))) env w1"
    using rd r0 val v st r1
    by (simp add: retire_legacy_mirror_def Let_def steps_def bindP_def seqP_def split: prod.split sum.split)
  obtain r3 w3 where ms: "M Status (Some ?n) True env w2 = (r3, w3)" by (rule prod.exhaust)
  have w3: "sees (files w3) ?n = sees (files w) ?n" using manager_keeps [OF fit ms] w2 by simp
  have "\<exists>status. r3 = Inr status \<and> stopped_status status"
    using run changed rest ss ms w2 w3
    by (cases r2; cases r3) (auto simp: seqP_def bindP_def split: if_splits)
  with seen val v r1 ms show ?thesis by blast
qed

end

end
