(* ===== verification/Systemd_Manager.thy ===== *)
theory Systemd_Manager
  imports Unit_Controller
begin

text \<open>
  The manager over D-Bus (\<open>DbusSystemdManager\<close> and the \<open>systemd_user_*\<close> functions of
  \<open>src/src/services.rs\<close>), and starting a managed Online mount.  The bus is an argument: what each
  call, property read and signal stream answers at each step.  A future that is dropped by
  \<open>select!\<close> or by a timeout is cut at one of its calls.
\<close>

section \<open>The bus\<close>

datatype cut = CutCancelled | CutTimeout | CutRead

datatype 'a reply = Reply 'a | BusError "string option" string | Dropped cut

record job_removed =
  jr_job :: path
  jr_unit :: string
  jr_result :: string

text \<open>
  \<open>b_call\<close> is a method of the manager with its arguments, answering text (a path, a state or
  nothing); a signal that cannot be decoded is a \<open>BusError\<close>.
\<close>

record systemd_bus =
  b_session :: "nat \<Rightarrow> unit reply"
  b_manager :: "nat \<Rightarrow> unit reply"
  b_proxy :: "nat \<Rightarrow> path \<Rightarrow> string \<Rightarrow> unit reply"
  b_call :: "nat \<Rightarrow> string \<Rightarrow> string list \<Rightarrow> string reply"
  b_text :: "nat \<Rightarrow> path \<Rightarrow> string \<Rightarrow> string reply"
  b_texts :: "nat \<Rightarrow> path \<Rightarrow> string \<Rightarrow> string list reply"
  b_pair :: "nat \<Rightarrow> path \<Rightarrow> string \<Rightarrow> (string \<times> string) reply"
  b_flag :: "nat \<Rightarrow> path \<Rightarrow> string \<Rightarrow> bool reply"
  b_number :: "nat \<Rightarrow> path \<Rightarrow> string \<Rightarrow> int reply"
  b_bytes :: "nat \<Rightarrow> path \<Rightarrow> string \<Rightarrow> nat list reply"
  b_signals :: "nat \<Rightarrow> job_removed reply list reply"

datatype op_error = OpFailed service_error | OpCut cut

type_synonym 'a bus_prog = "(op_error, 'a) prog"

definition bus_step :: "(string \<Rightarrow> service_error) \<Rightarrow> (nat \<Rightarrow> 'a reply) \<Rightarrow> 'a bus_prog" where
  "bus_step wrap answer = (\<lambda>env w.
     (case answer (tick w) of
        Reply x \<Rightarrow> Inr x | BusError _ t \<Rightarrow> Inl (OpFailed (wrap t)) | Dropped c \<Rightarrow> Inl (OpCut c),
      w\<lparr>tick := Suc (tick w)\<rparr>))"

definition runtime_text :: "string \<Rightarrow> service_error" where
  "runtime_text t = SvcRuntime (Lit t)"

definition bus_error :: "string \<Rightarrow> service_error" where
  "bus_error t = SvcRuntime (Fl ''ui-services-systemd-user-d-bus-error'' [(''error'', Lit t)])"

definition systemd_user_connection :: "systemd_bus \<Rightarrow> unit bus_prog" where
  "systemd_user_connection B = bus_step bus_error (b_session B)"

definition systemd_user_manager :: "systemd_bus \<Rightarrow> unit bus_prog" where
  "systemd_user_manager B = bus_step bus_error (b_manager B)"

definition UNIT_INTERFACE :: string where "UNIT_INTERFACE = ''org.freedesktop.systemd1.Unit''"
definition SERVICE_INTERFACE :: string where "SERVICE_INTERFACE = ''org.freedesktop.systemd1.Service''"

definition systemd_user_unit_proxy :: "systemd_bus \<Rightarrow> path \<Rightarrow> string \<Rightarrow> unit bus_prog" where
  "systemd_user_unit_proxy B p interface = bus_step bus_error (\<lambda>n. b_proxy B n p interface)"

definition manager_call :: "systemd_bus \<Rightarrow> string \<Rightarrow> string list \<Rightarrow> string bus_prog" where
  "manager_call B method arguments = bus_step runtime_text (\<lambda>n. b_call B n method arguments)"

definition systemd_user_unit_path :: "systemd_bus \<Rightarrow> string \<Rightarrow> path bus_prog" where
  "systemd_user_unit_path B unit =
     seqP (systemd_user_manager B)
       (bus_step (\<lambda>t. SvcRuntime (Fl ''ui-services-systemd-unit-unit-error'' [(''unit'', Lit unit), (''error'', Lit t)]))
          (\<lambda>n. b_call B n ''LoadUnit'' [unit]))"

section \<open>Jobs\<close>

text \<open>The signals after the subscription, up to the end of the stream.\<close>

fun await_job :: "string \<Rightarrow> string \<Rightarrow> path \<Rightarrow> job_removed reply list \<Rightarrow> unit bus_prog" where
  "await_job method unit job [] =
     fail (OpFailed (SvcRuntime (Fl ''ui-services-systemd-method-job-for-unit-ended-without''
       [(''method'', Lit method), (''unit'', Lit unit)])))"
| "await_job method unit job (s # ss) =
     (case s of
        Dropped c \<Rightarrow> fail (OpCut c)
      | BusError _ t \<Rightarrow> fail (OpFailed (runtime_text t))
      | Reply j \<Rightarrow>
          if jr_job j = job
          then (if jr_result j = ''done'' then ret ()
                else fail (OpFailed (SvcRuntime (Fl ''ui-services-systemd-method-job-for-finished-unit-finished''
                       [(''method'', Lit method), (''finished_unit'', Lit (jr_unit j)), (''result'', Lit (jr_result j))]))))
          else await_job method unit job ss)"

definition systemd_user_run_job :: "systemd_bus \<Rightarrow> string \<Rightarrow> string \<Rightarrow> unit bus_prog" where
  "systemd_user_run_job B method unit =
     seqP (manager_call B ''Subscribe'' [])
    (bindP (bus_step runtime_text (b_signals B)) (\<lambda>signals.
     bindP (manager_call B method [unit, ''replace'']) (\<lambda>job.
       await_job method unit job signals)))"

definition valid_systemd_service_name :: "string \<Rightarrow> bool" where
  "valid_systemd_service_name unit =
     (unit \<noteq> [] \<and> suffix ''.service'' unit
      \<and> \<not> (\<exists>g \<in> set (utf8_chars unit). is_white_space g \<or> g = ''/''))"

text \<open>The two operations on named units report their errors as text.\<close>

definition op_text :: "op_error \<Rightarrow> msg" where
  "op_text e = (case e of OpFailed s \<Rightarrow> service_error_text s | OpCut _ \<Rightarrow> Lit [])"

definition run_named_unit :: "systemd_bus \<Rightarrow> string \<Rightarrow> string \<Rightarrow> string \<Rightarrow> (msg, unit) prog" where
  "run_named_unit B method key unit =
     (if \<not> valid_systemd_service_name unit
      then fail (Fl ''ui-services-invalid-systemd-user-service-name-unit'' [(''unit'', Lit unit)])
      else
        seqP (map_errP op_text (systemd_user_connection B))
       (seqP (map_errP op_text (systemd_user_manager B))
             (map_errP (\<lambda>e. Fl key [(''unit'', Lit unit), (''error'', op_text e)])
                (systemd_user_run_job B method unit))))"

definition systemd_user_start_named_unit :: "systemd_bus \<Rightarrow> string \<Rightarrow> (msg, unit) prog" where
  "systemd_user_start_named_unit B = run_named_unit B ''StartUnit'' ''ui-services-systemd-start-unit-error''"

definition systemd_user_restart_named_unit :: "systemd_bus \<Rightarrow> string \<Rightarrow> (msg, unit) prog" where
  "systemd_user_restart_named_unit B = run_named_unit B ''RestartUnit'' ''ui-services-systemd-restart-unit-error''"

text \<open>\<open>systemd_user_invocation_id\<close>: sixteen bytes in hexadecimal.\<close>

definition hex_digit :: "nat \<Rightarrow> char" where
  "hex_digit n = (if n < 10 then char_of (48 + n) else char_of (87 + n))"

definition hex_byte :: "nat \<Rightarrow> string" where
  "hex_byte b = [hex_digit (b div 16), hex_digit (b mod 16)]"

definition systemd_user_invocation_id :: "systemd_bus \<Rightarrow> string \<Rightarrow> (msg, string) prog" where
  "systemd_user_invocation_id B unit =
     seqP (map_errP op_text (systemd_user_connection B))
    (bindP (map_errP op_text (systemd_user_unit_path B unit)) (\<lambda>p.
     seqP (map_errP op_text (systemd_user_unit_proxy B p UNIT_INTERFACE))
    (bindP (map_errP op_text (bus_step (\<lambda>t. SvcRuntime (Fl ''ui-services-systemd-unit-unit-invocation-error''
                [(''unit'', Lit unit), (''error'', Lit t)])) (\<lambda>n. b_bytes B n p ''InvocationID''))) (\<lambda>bytes.
       if length bytes \<noteq> 16
       then fail (Fl ''ui-services-systemd-unit-unit-has-no-current-invocation'' [(''unit'', Lit unit)])
       else ret (concat (map hex_byte bytes))))))"

section \<open>Reading a status\<close>

definition parse_active_state :: "string \<Rightarrow> active_state" where
  "parse_active_state s =
     (if s = ''active'' then Active
      else if s = ''activating'' then Activating
      else if s = ''inactive'' then Inactive
      else if s = ''failed'' then UnitFailed
      else UnitUnknown)"

definition enabled_state :: "string \<Rightarrow> bool" where
  "enabled_state s = (s \<in> set [''enabled'', ''enabled-runtime'', ''linked'', ''linked-runtime''])"

definition read_result :: "systemd_bus \<Rightarrow> unit_name \<Rightarrow> path \<Rightarrow> string bus_prog" where
  "read_result B unit p =
     (if un_kind unit = ServiceUnit
      then seqP (systemd_user_unit_proxy B p SERVICE_INTERFACE) (bus_step runtime_text (\<lambda>n. b_text B n p ''Result''))
      else ret [])"

definition read_status :: "systemd_bus \<Rightarrow> unit_name \<Rightarrow> unit_status bus_prog" where
  "read_status B unit =
     bindP (systemd_user_unit_path B (file_name unit)) (\<lambda>p.
     seqP (systemd_user_unit_proxy B p UNIT_INTERFACE)
    (bindP (bus_step runtime_text (\<lambda>n. b_text B n p ''ActiveState'')) (\<lambda>active.
     bindP (bus_step runtime_text (\<lambda>n. b_text B n p ''SubState'')) (\<lambda>detail.
     bindP (manager_call B ''GetUnitFileState'' [file_name unit]) (\<lambda>enabled.
     bindP (read_result B unit p) (\<lambda>result.
       ret \<lparr>us_active = parse_active_state active, us_enabled = enabled_state enabled,
            us_detail = detail, us_result = result\<rparr>))))))"

section \<open>Observing many units\<close>

datatype unit_observation = ObsPresent unit_status | ObsMissing | ObsUnavailable

definition bus_reply :: "(nat \<Rightarrow> 'a reply) \<Rightarrow> ('e, 'a reply) prog" where
  "bus_reply answer = (\<lambda>env w. (Inr (answer (tick w)), w\<lparr>tick := Suc (tick w)\<rparr>))"

definition unit_load_reports_missing :: "string option \<Rightarrow> bool" where
  "unit_load_reports_missing name = (name = Some ''org.freedesktop.systemd1.NoSuchUnit'')"

definition observed_unit_file_enabled :: "string reply \<Rightarrow> op_error + bool" where
  "observed_unit_file_enabled r =
     (case r of
        Reply state \<Rightarrow> Inr (enabled_state state)
      | BusError name t \<Rightarrow>
          if name = Some ''org.freedesktop.systemd1.NoSuchUnitFile'' then Inr False
          else Inl (OpFailed (runtime_text t))
      | Dropped c \<Rightarrow> Inl (OpCut c))"

definition read_observation :: "systemd_bus \<Rightarrow> unit_name \<Rightarrow> unit_observation bus_prog" where
  "read_observation B unit =
     bindP (bus_reply (\<lambda>n. b_call B n ''LoadUnit'' [file_name unit])) (\<lambda>loaded.
       case loaded of
         Dropped c \<Rightarrow> fail (OpCut c)
       | BusError name t \<Rightarrow>
           if unit_load_reports_missing name then ret ObsMissing else fail (OpFailed (runtime_text t))
       | Reply p \<Rightarrow>
           seqP (systemd_user_unit_proxy B p UNIT_INTERFACE)
          (bindP (bus_step runtime_text (\<lambda>n. b_text B n p ''ActiveState'')) (\<lambda>active.
           bindP (bus_step runtime_text (\<lambda>n. b_text B n p ''SubState'')) (\<lambda>detail.
           bindP (bus_reply (\<lambda>n. b_call B n ''GetUnitFileState'' [file_name unit])) (\<lambda>state.
           bindP (liftR (observed_unit_file_enabled state)) (\<lambda>enabled.
           bindP (read_result B unit p) (\<lambda>result.
             if parse_active_state active = UnitUnknown
             then fail (OpFailed (SvcRuntime (fl ''unit-status-refresh-unavailable'')))
             else ret (ObsPresent \<lparr>us_active = parse_active_state active, us_enabled = enabled,
                                   us_detail = detail, us_result = result\<rparr>))))))))"

text \<open>
  A read that fails, or that its own timeout cuts, is unavailable; the timeout or the cancellation of
  the whole batch ends it.
\<close>

fun observe_units :: "systemd_bus \<Rightarrow> unit_name list \<Rightarrow> (unit_name \<times> unit_observation) list bus_prog" where
  "observe_units B [] = ret []"
| "observe_units B (u # us) =
     bindP (tryP (read_observation B u)) (\<lambda>r.
       case r of
         Inl (OpCut CutCancelled) \<Rightarrow> fail (OpCut CutCancelled)
       | Inl (OpCut CutTimeout) \<Rightarrow> fail (OpCut CutTimeout)
       | Inl _ \<Rightarrow> bindP (observe_units B us) (\<lambda>rest. ret ((u, ObsUnavailable) # rest))
       | Inr obs \<Rightarrow> bindP (observe_units B us) (\<lambda>rest. ret ((u, obs) # rest)))"

definition batch_text :: "op_error \<Rightarrow> msg" where
  "batch_text e =
     (case e of OpFailed s \<Rightarrow> service_error_text s | OpCut _ \<Rightarrow> fl ''unit-status-refresh-unavailable'')"

definition systemd_user_status_batch ::
  "systemd_bus \<Rightarrow> unit_name list \<Rightarrow> (msg, (unit_name \<times> unit_observation) list) prog" where
  "systemd_user_status_batch B units =
     bindP is_cancelled (\<lambda>c.
       if c then fail (fl ''unit-status-refresh-unavailable'')
       else if units = [] then ret []
       else map_errP batch_text
         (seqP (systemd_user_connection B) (seqP (systemd_user_manager B) (observe_units B units))))"

section \<open>Actions\<close>

definition unit_or :: "string \<Rightarrow> unit_name option \<Rightarrow> unit_name bus_prog" where
  "unit_or key unit = liftR (ok_or (OpFailed (InvalidSpec (fl key))) unit)"

definition home_directory :: "('e, path option) prog" where
  "home_directory = (\<lambda>env w. (Inr (e_var env ''HOME''), w))"

definition load_accepted :: "string \<Rightarrow> string \<times> string \<Rightarrow> path \<Rightarrow> path \<Rightarrow> bool \<Rightarrow> bool" where
  "load_accepted state error fragment expected needs_reload =
     (state = ''loaded'' \<and> fst error = [] \<and> snd error = [] \<and> path_eq fragment expected \<and> \<not> needs_reload)"

definition validate_loaded :: "systemd_bus \<Rightarrow> bool \<Rightarrow> unit_name option \<Rightarrow> unit bus_prog" where
  "validate_loaded B retirement unit =
     bindP (unit_or ''ui-services-load-validation-requires-a-unit'' unit) (\<lambda>u.
     let name = file_name u in
     bindP (manager_call B ''LoadUnit'' [name]) (\<lambda>p.
     seqP (systemd_user_unit_proxy B p UNIT_INTERFACE)
    (bindP (bus_step runtime_text (\<lambda>n. b_text B n p ''LoadState'')) (\<lambda>load_state.
     bindP (bus_step runtime_text (\<lambda>n. b_pair B n p ''LoadError'')) (\<lambda>load_error.
     bindP (bus_step runtime_text (\<lambda>n. b_text B n p ''FragmentPath'')) (\<lambda>fragment.
     bindP (bus_step runtime_text (\<lambda>n. b_flag B n p ''NeedDaemonReload'')) (\<lambda>needs_reload.
     bindP (if retirement then bus_step runtime_text (\<lambda>n. b_texts B n p ''DropInPaths'') else ret []) (\<lambda>dropins.
       if dropins \<noteq> [] then fail (OpFailed (SvcValidation (fl ''legacy-retirement-ownership'')))
       else bindP home_directory (\<lambda>found.
         (case found of
            None \<Rightarrow> fail (OpFailed (SvcRuntime (fl ''ui-services-home-is-unavailable-for-systemd-unit-validation'')))
          | Some home \<Rightarrow>
              if load_accepted load_state load_error fragment
                   (path_join (path_join home ''.config/systemd/user'') name) needs_reload
              then ret ()
              else fail (OpFailed (SvcValidation (Fl ''ui-services-systemd-rejected-name-load-state-load-state''
                     [(''name'', Lit name), (''load_state'', Lit load_state),
                      (''error_name'', Lit (if fst load_error = [] then ''none'' else fst load_error))])))))))))))))"

definition job_method :: "systemd_action \<Rightarrow> string" where
  "job_method a =
     (case a of Start \<Rightarrow> ''StartUnit'' | Stop \<Rightarrow> ''StopUnit'' | _ \<Rightarrow> ''RestartUnit'')"

definition dbus_operation :: "systemd_bus \<Rightarrow> systemd_action \<Rightarrow> unit_name option \<Rightarrow> unit_status option bus_prog" where
  "dbus_operation B action unit =
     seqP (systemd_user_connection B)
    (seqP (systemd_user_manager B)
      (case action of
         DaemonReload \<Rightarrow> seqP (manager_call B ''Reload'' []) (ret None)
       | ValidateLoaded \<Rightarrow> seqP (validate_loaded B False unit) (ret None)
       | ValidateRetirementLoaded \<Rightarrow> seqP (validate_loaded B True unit) (ret None)
       | Status \<Rightarrow>
           bindP (unit_or ''ui-services-status-requires-a-unit'' unit) (\<lambda>u.
             bindP (read_status B u) (\<lambda>st. ret (Some st)))
       | ResetFailed \<Rightarrow>
           bindP (unit_or ''ui-services-systemd-action-requires-a-unit'' unit) (\<lambda>u.
             seqP (manager_call B ''ResetFailedUnit'' [file_name u]) (ret None))
       | _ \<Rightarrow>
           bindP (unit_or ''ui-services-systemd-action-requires-a-unit'' unit) (\<lambda>u.
             if action \<in> {Enable, Disable}
             then seqP (manager_call B (if action = Enable then ''EnableUnitFiles'' else ''DisableUnitFiles'') [file_name u])
                 (seqP (manager_call B ''Reload'' []) (ret None))
             else seqP (systemd_user_run_job B (job_method action) (file_name u)) (ret None))))"

definition dbus_manager :: "systemd_bus \<Rightarrow> systemd_manager" where
  "dbus_manager B action unit child =
     map_errP (\<lambda>e.
         case e of
           OpFailed s \<Rightarrow> s
         | OpCut c \<Rightarrow>
             SvcRuntime (Lit (if c = CutCancelled then ''systemd operation cancelled'' else ''systemd operation timed out'')))
       (dbus_operation B action unit)"

section \<open>Starting a managed Online mount\<close>

text \<open>
  The monotonic clock in milliseconds: \<open>instant s n\<close> is its value at step \<open>n\<close>, after \<open>s\<close> sleeps of the
  polling loop.  The loop has fuel; \<open>None\<close> means that it is still polling.
\<close>

type_synonym clock = "nat \<Rightarrow> nat \<Rightarrow> nat"

definition read_instant :: "clock \<Rightarrow> nat \<Rightarrow> ('e, nat) prog" where
  "read_instant instant s = (\<lambda>env w. (Inr (instant s (tick w)), w\<lparr>tick := Suc (tick w)\<rparr>))"

definition transitional :: "service_error + unit_status option \<Rightarrow> bool" where
  "transitional status =
     (case status of
        Inr (Some s) \<Rightarrow> us_active s = Activating \<or> us_active s = Inactive \<and> us_result s \<in> {[], ''success''}
      | _ \<Rightarrow> False)"

fun poll_status ::
  "nat \<Rightarrow> systemd_manager \<Rightarrow> clock \<Rightarrow> nat \<Rightarrow> unit_name \<Rightarrow> nat
     \<Rightarrow> (msg, (service_error + unit_status option) option) prog" where
  "poll_status 0 M instant deadline unit s = ret None"
| "poll_status (Suc fuel) M instant deadline unit s =
     bindP (tryP (M Status (Some unit) True)) (\<lambda>status.
       if \<not> transitional status then ret (Some status)
       else bindP (read_instant instant s) (\<lambda>now.
         if deadline \<le> now then ret (Some status)
         else bindP is_cancelled (\<lambda>cancelled.
           if cancelled then ret (Some (Inl (SvcRuntime (Lit ''systemd operation cancelled''))))
           else poll_status fuel M instant deadline unit (Suc s))))"

definition online_cause :: "unit_status \<Rightarrow> msg" where
  "online_cause s =
     (if str_contains ''start-limit'' (us_result s) then fl ''online-service-rate-limit''
      else if us_result s = ''exec-condition'' \<or> us_detail s = ''condition'' then fl ''online-service-preflight-blocked''
      else fl ''online-service-not-active'')"

definition online_detail :: "unit_status \<Rightarrow> msg" where
  "online_detail s = Lit (if us_result s = [] then us_detail s else us_result s)"

definition online_outcome ::
  "service_error + unit_status option \<Rightarrow> service_error + unit_status option \<Rightarrow> msg + unit" where
  "online_outcome start after =
     (case after of
        Inr (Some s) \<Rightarrow>
          if us_active s \<in> {Active, Activating}
          then (case start of
                  Inr _ \<Rightarrow> Inr ()
                | Inl e \<Rightarrow> Inl (Fl ''online-service-start-failed'' [(''error'', service_error_text e)]))
          else
            let plain = msg.Cat [online_cause s, Lit '' ('', online_detail s, Lit '')''] in
            (case start of
               Inr _ \<Rightarrow> Inl plain
             | Inl e \<Rightarrow>
                 if str_contains ''start-limit'' (us_result s) \<or> us_result s = ''exec-condition'' then Inl plain
                 else Inl (msg.Cat [online_cause s, Lit '' ('', online_detail s, Lit ''; '', service_error_text e, Lit '')'']))
      | Inr None \<Rightarrow> Inl (fl ''online-service-unknown-after-start'')
      | Inl e \<Rightarrow>
          (case start of
             Inl e' \<Rightarrow> Inl (Fl ''online-service-start-and-read-failed''
                         [(''start_error'', service_error_text e'), (''error'', service_error_text e)])
           | Inr _ \<Rightarrow> Inl (Fl ''online-service-read-after-start'' [(''error'', service_error_text e)])))"

definition start_managed_online_service ::
  "nat \<Rightarrow> systemd_manager \<Rightarrow> clock \<Rightarrow> unit_name \<Rightarrow> (msg, unit option) prog" where
  "start_managed_online_service fuel M instant unit =
     bindP (map_errP (\<lambda>e. Fl ''online-service-read-state'' [(''error'', service_error_text e)]) (M Status (Some unit) True)) (\<lambda>found.
     bindP (liftR (ok_or (fl ''online-service-unknown-state'') found)) (\<lambda>status.
       if us_active status = UnitUnknown then fail (fl ''online-service-state-unavailable'')
       else
         seqP (if us_active status = UnitFailed
               then seqP (map_errP (\<lambda>e. Fl ''online-service-reset-failed'' [(''error'', service_error_text e)])
                            (M ResetFailed (Some unit) True)) (ret ())
               else ret ())
        (bindP (tryP (M Start (Some unit) True)) (\<lambda>start.
         bindP (read_instant instant 0) (\<lambda>begun.
         bindP (poll_status fuel M instant (begun + 2000) unit 0) (\<lambda>after.
           case after of
             None \<Rightarrow> ret None
           | Some status' \<Rightarrow> bindP (liftR (online_outcome start status')) (\<lambda>_. ret (Some ()))))))))"

lemma poll_status_result:
  "poll_status fuel M instant deadline unit s env w = (r, w') \<Longrightarrow> \<exists>a. r = Inr a"
proof (induction fuel arbitrary: s w)
  case 0
  then show ?case by auto
next
  case (Suc fuel)
  then show ?case
    by (auto simp: bindP_def tryP_def read_instant_def is_cancelled_def split: prod.splits sum.splits if_splits)
qed

lemma poll_status_ends:
  assumes "\<And>m. deadline \<le> instant (s + fuel) m"
  shows "\<exists>status w'. poll_status (Suc fuel) M instant deadline unit s env w = (Inr (Some status), w')"
  using assms
proof (induction fuel arbitrary: s w)
  case 0
  then show ?case
    by (auto simp: bindP_def tryP_def read_instant_def split: prod.split)
next
  case (Suc fuel)
  then have "\<exists>status w'. poll_status (Suc fuel) M instant deadline unit (Suc s) env v = (Inr (Some status), w')" for v
    by simp
  then show ?case
    by (subst poll_status.simps)
       (auto simp: bindP_def tryP_def read_instant_def is_cancelled_def simp del: poll_status.simps split: prod.split)
qed

text \<open>Every sleep lasts at least its fifty milliseconds, so forty of them pass the deadline of two seconds.\<close>

lemma sleeps_pass:
  assumes "\<And>s n m. (instant :: clock) s n + 50 \<le> instant (Suc s) m" and "0 < s"
  shows "instant 0 n + 50 * s \<le> instant s m"
  using assms(2)
proof (induction s arbitrary: m)
  case (Suc s)
  then show ?case
  proof (cases "s = 0")
    case True
    then show ?thesis using assms(1) [of 0 n m] by simp
  next
    case False
    with Suc.IH [of 0] assms(1) [of s 0 m] show ?thesis by simp
  qed
qed simp

lemma poll_fuel_mono:
  "poll_status fuel M instant deadline unit s env w = (Inr (Some status), w') \<Longrightarrow>
     poll_status (fuel + k) M instant deadline unit s env w = (Inr (Some status), w')"
proof (induction fuel arbitrary: s w)
  case 0
  then show ?case by simp
next
  case (Suc fuel)
  then show ?case
    by (auto simp: bindP_def tryP_def read_instant_def is_cancelled_def split: prod.splits sum.splits if_splits)
qed

text \<open>What the loop returns is what the manager last answered, unless the wait was cancelled.\<close>

lemma poll_status_origin:
  "poll_status fuel M instant deadline unit s env w = (Inr (Some (Inr st)), w') \<Longrightarrow>
     \<exists>v v'. M Status (Some unit) True env v = (Inr st, v')"
proof (induction fuel arbitrary: s w)
  case 0
  then show ?case by simp
next
  case (Suc fuel)
  obtain status w1 where status: "M Status (Some unit) True env w = (status, w1)" by (rule prod.exhaust)
  with Suc show ?case
    by (auto simp: bindP_def tryP_def read_instant_def is_cancelled_def split: if_splits)
qed

end
