(* ===== verification/Unit_Rendering.thy ===== *)
theory Unit_Rendering
  imports Unit_Documents Atomic_Files Bisync_Dates
begin

text \<open>
  What the generated units satisfy: every rendered service and timer passes the structural
  validator, exactly when no argument smuggles in a carriage return.
\<close>

section \<open>Lines\<close>

definition plain_line :: "string \<Rightarrow> bool" where
  "plain_line l = (CHR 0x0A \<notin> set l \<and> \<not> (l \<noteq> [] \<and> last l = CHR 0x0D))"

lemma split_char_unlines:
  "\<forall>l \<in> set ls. CHR 0x0A \<notin> set l \<Longrightarrow> split_char (CHR 0x0A) (unlines ls) = ls @ [[]]"
proof (induction ls)
  case Nil
  then show ?case by (simp add: unlines_def split_char_def)
next
  case (Cons l ls)
  then have "split_char (CHR 0x0A) (l @ CHR 0x0A # unlines ls) = l # split_char (CHR 0x0A) (unlines ls)"
    unfolding split_char_def by (intro split_on_append_sep) auto
  with Cons show ?case by (simp add: unlines_def)
qed

lemma lines_unlines: "\<forall>l \<in> set ls. plain_line l \<Longrightarrow> lines (unlines ls) = ls"
proof -
  assume a: "\<forall>l \<in> set ls. plain_line l"
  then have "split_char (CHR 0x0A) (unlines ls) = ls @ [[]]"
    by (intro split_char_unlines) (auto simp: plain_line_def)
  moreover have "map strip_cr ls = ls"
    using a by (intro map_idI) (auto simp: plain_line_def strip_cr_def)
  ultimately show ?thesis by (simp add: lines_def butlast_append)
qed

lemma unlines_append: "unlines (xs @ ys) = unlines xs @ unlines ys"
  by (simp add: unlines_def)

lemma set_unlines: "set (unlines ls) \<subseteq> insert (CHR 0x0A) (\<Union> (set ` set ls))"
  by (auto simp: unlines_def)

section \<open>Escaped arguments\<close>

lemma set_str_replace: "set (str_replace pat r s) \<subseteq> set s \<union> set r"
proof (induction pat r s rule: str_replace.induct)
  case (1 pat r)
  then show ?case by simp
next
  case (2 pat r c s)
  have "set (drop (length pat - 1) s) \<subseteq> set s" by (rule set_drop_subset)
  with 2 show ?case by auto
qed

lemma set_escape_text: "set (escape_text v) \<subseteq> set v \<union> {CHR ''%'', CHR 0x5C, CHR 0x22}"
  using set_str_replace [of "''%''" "''%%''" v]
    set_str_replace [of "[CHR 0x5C]" "[CHR 0x5C, CHR 0x5C]" "str_replace ''%'' ''%%'' v"]
    set_str_replace [of "''\"''" "[CHR 0x5C, CHR 0x22]" "str_replace [CHR 0x5C] [CHR 0x5C, CHR 0x5C] (str_replace ''%'' ''%%'' v)"]
  by (auto simp: escape_text_def)

text \<open>A quoted value of a command line: it starts and ends with a quote and stays on its line.\<close>

definition quoted_value :: "string \<Rightarrow> bool" where
  "quoted_value v = (v \<noteq> [] \<and> hd v = CHR 0x22 \<and> last v = CHR 0x22 \<and> CHR 0x0A \<notin> set v \<and> CHR 0x00 \<notin> set v)"

lemma escape_quoted: "escape_systemd_argument v = Inr e \<Longrightarrow> quoted_value e"
  using set_escape_text [of v] by (auto simp: escape_systemd_argument_def quoted_value_def split: if_splits)

lemma join_quoted:
  assumes "es \<noteq> []" and "\<forall>e \<in> set es. quoted_value e"
  shows "quoted_value (join '' '' es)"
  using assms
proof (induction es rule: induct_list012)
  case (3 x y zs)
  then have "quoted_value x" "quoted_value (join '' '' (y # zs))" by simp_all
  then show ?case by (auto simp: quoted_value_def)
qed auto

lemma collect_escaped:
  "collect_res (map escape_systemd_argument vs) = Inr es \<Longrightarrow> \<forall>e \<in> set es. quoted_value e"
proof -
  assume "collect_res (map escape_systemd_argument vs) = Inr es"
  then have "map escape_systemd_argument vs = map Inr es" by (simp add: collect_res_Inr)
  then have "Inr e \<in> escape_systemd_argument ` set vs" if "e \<in> set es" for e
    using that by (metis image_eqI image_set list.set_map)
  then show ?thesis using escape_quoted by (metis imageE)
qed

lemma render_condition_line:
  assumes "render_condition c = Inr t"
  shows "\<exists>v. quoted_value v \<and> t = unlines [''ExecCondition='' @ v]"
proof -
  from assms obtain e args where e: "escape_systemd_argument (sc_executable c) = Inr e"
    and args: "collect_res (map escape_systemd_argument (sc_arguments c)) = Inr args"
    and t: "t = ''ExecCondition='' @ join '' '' (e # args) @ [CHR 0x0A]"
    by (auto simp: render_condition_def validate_absolute_executable_def bind_res_Inr split: if_splits)
  from escape_quoted [OF e] collect_escaped [OF args] have "quoted_value (join '' '' (e # args))"
    by (intro join_quoted) auto
  with t show ?thesis by (intro exI [of _ "join '' '' (e # args)"]) (simp add: unlines_def)
qed

text \<open>The optional conditions of a service are lines of the form \<open>ExecCondition=\<close>.\<close>

definition condition_lines :: "string list \<Rightarrow> bool" where
  "condition_lines ls = (\<forall>l \<in> set ls. \<exists>v. quoted_value v \<and> l = ''ExecCondition='' @ v)"

lemma escape_slash:
  assumes "is_absolute p" and "escape_systemd_argument p = Inr e"
  shows "prefix (CHR 0x22 # ''/'') e"
proof -
  from assms(1) obtain q where "p = CHR ''/'' # q" by (cases p) (auto simp: is_absolute_def)
  with assms(2) show ?thesis
    by (auto simp: escape_systemd_argument_def escape_text_def split: if_splits)
qed

section \<open>Scanning rendered lines\<close>

lemma find_sub_key: "c \<notin> set key \<Longrightarrow> find_sub [c] (key @ c # v) = Some (length key)"
  by (induction key) auto

lemma split_once_key: "c \<notin> set key \<Longrightarrow> split_once [c] (key @ c # v) = Some (key, v)"
  by (simp add: split_once_def find_sub_key)

lemma scan_lines_append:
  "scan_lines a (xs @ ys) st = bind_res (scan_lines a xs st) (scan_lines a ys)"
proof (induction xs arbitrary: st)
  case (Cons x xs)
  then show ?case by (cases "scan_line a x st") auto
qed simp

lemma scan_directive:
  assumes "us_section st = Some cur" and "allowed_directive cur key" and "v \<noteq> []"
    and "key \<noteq> []" and "CHR ''='' \<notin> set key" and "hd key \<noteq> CHR ''#''" and "hd key \<noteq> CHR ''[''"
  shows "scan_line a (key @ ''='' @ v) st = Inr (st\<lparr>us_directives := us_directives st @ [((cur, key), v)]\<rparr>)"
proof -
  obtain k ks where key: "key = k # ks" using assms(4) by (cases key) auto
  have "split_once ''='' (key @ ''='' @ v) = Some (key, v)" using split_once_key [OF assms(5)] by simp
  moreover have "section_name (key @ ''='' @ v) = None" using assms(7) by (simp add: section_name_def key)
  moreover have "key @ ''='' @ v \<noteq> MANAGED_MARKER" "\<not> prefix UUID_MARKER (key @ ''='' @ v)" "\<not> prefix ''#'' (key @ ''='' @ v)"
    using assms(6) by (auto simp: MANAGED_MARKER_def UUID_MARKER_def key)
  ultimately show ?thesis using assms(1-4) by (simp add: scan_line_def)
qed

definition condition_directives :: "string list \<Rightarrow> ((string \<times> string) \<times> string) list" where
  "condition_directives ls = map (\<lambda>l. ((''Service'', ''ExecCondition''), drop 14 l)) ls"

lemma scan_conditions:
  "condition_lines ls \<Longrightarrow> us_section st = Some ''Service'' \<Longrightarrow>
     scan_lines a ls st = Inr (st\<lparr>us_directives := us_directives st @ condition_directives ls\<rparr>)"
proof (induction ls arbitrary: st)
  case Nil
  then show ?case by (simp add: condition_directives_def)
next
  case (Cons l ls)
  then obtain v where v: "quoted_value v" "l = ''ExecCondition'' @ ''='' @ v"
    by (auto simp: condition_lines_def)
  let ?st = "st\<lparr>us_directives := us_directives st @ [((''Service'', ''ExecCondition''), v)]\<rparr>"
  have "scan_line a l st = Inr ?st"
    unfolding v(2) using Cons.prems(2) v(1)
    by (intro scan_directive) (auto simp: allowed_directive_def quoted_value_def)
  moreover have "scan_lines a ls ?st = Inr (?st\<lparr>us_directives := us_directives ?st @ condition_directives ls\<rparr>)"
    using Cons.prems by (intro Cons.IH) (auto simp: condition_lines_def)
  ultimately show ?case by (simp add: condition_directives_def v(2))
qed

lemma filter_conditions: "key \<noteq> (''Service'', ''ExecCondition'') \<Longrightarrow> filter (\<lambda>d. fst d = key) (condition_directives ls) = []"
  by (induction ls) (auto simp: condition_directives_def)

text \<open>The state after the lines of a service and of a timer.\<close>

definition service_scan :: "string \<Rightarrow> string list \<Rightarrow> string \<Rightarrow> string list \<Rightarrow> unit_scan" where
  "service_scan description conditions exec restart =
     \<lparr>us_section = Some ''Install'', us_sections = [''Unit'', ''Service'', ''Install''],
      us_directives =
        [((''Unit'', ''Description''), description), ((''Service'', ''Type''), ''simple''),
         ((''Service'', ''RuntimeDirectory''), ''cosmic-ext-applet-mounter''),
         ((''Service'', ''SuccessExitStatus''), ''130 143'')]
        @ condition_directives conditions @ [((''Service'', ''ExecStart''), exec)]
        @ (if restart = [] then [] else [((''Service'', ''Restart''), ''on-failure''), ((''Service'', ''RestartSec''), ''5s'')])
        @ [((''Install'', ''WantedBy''), ''default.target'')]\<rparr>"

definition service_lines :: "string \<Rightarrow> string list \<Rightarrow> string \<Rightarrow> string list \<Rightarrow> string list" where
  "service_lines description conditions exec restart =
     [[], ''[Unit]'', ''Description='' @ description, [], ''[Service]'', ''Type=simple'',
      ''RuntimeDirectory=cosmic-ext-applet-mounter'', ''SuccessExitStatus=130 143'']
     @ conditions @ [''ExecStart='' @ exec] @ restart @ [[], ''[Install]'', ''WantedBy=default.target'']"

lemma scan_service_lines:
  assumes "description \<noteq> []" and "condition_lines conditions" and "exec \<noteq> []"
    and "restart = [] \<or> restart = [''Restart=on-failure'', ''RestartSec=5s'']"
  shows "scan_lines (allowed_sections ServiceUnit) (service_lines description conditions exec restart)
           \<lparr>us_section = None, us_sections = [], us_directives = []\<rparr>
         = Inr (service_scan description conditions exec restart)"
proof -
  note line_simps = scan_line_def section_name_def allowed_sections_def allowed_directive_def
    MANAGED_MARKER_def UUID_MARKER_def split_once_def
  have head: "scan_lines (allowed_sections ServiceUnit)
      [[], ''[Unit]'', ''Description='' @ description, [], ''[Service]'', ''Type=simple'',
       ''RuntimeDirectory=cosmic-ext-applet-mounter'', ''SuccessExitStatus=130 143'']
      \<lparr>us_section = None, us_sections = [], us_directives = []\<rparr>
    = Inr \<lparr>us_section = Some ''Service'', us_sections = [''Unit'', ''Service''], us_directives =
        [((''Unit'', ''Description''), description), ((''Service'', ''Type''), ''simple''),
         ((''Service'', ''RuntimeDirectory''), ''cosmic-ext-applet-mounter''),
         ((''Service'', ''SuccessExitStatus''), ''130 143'')]\<rparr>"
    using assms(1) by (simp add: line_simps)
  have tail: "scan_lines (allowed_sections ServiceUnit) ((''ExecStart='' @ exec) # restart @ [[], ''[Install]'', ''WantedBy=default.target''])
      \<lparr>us_section = Some ''Service'', us_sections = [''Unit'', ''Service''], us_directives = ds\<rparr>
    = Inr \<lparr>us_section = Some ''Install'', us_sections = [''Unit'', ''Service'', ''Install''], us_directives = ds
        @ [((''Service'', ''ExecStart''), exec)]
        @ (if restart = [] then [] else [((''Service'', ''Restart''), ''on-failure''), ((''Service'', ''RestartSec''), ''5s'')])
        @ [((''Install'', ''WantedBy''), ''default.target'')]\<rparr>" for ds
    using assms(3,4) by (auto simp: line_simps)
  have cond: "scan_lines (allowed_sections ServiceUnit) conditions
      \<lparr>us_section = Some ''Service'', us_sections = [''Unit'', ''Service''], us_directives = ds\<rparr>
    = Inr \<lparr>us_section = Some ''Service'', us_sections = [''Unit'', ''Service''], us_directives = ds @ condition_directives conditions\<rparr>" for ds
    by (simp add: scan_conditions [OF assms(2)])
  let ?t = "(''ExecStart='' @ exec) # restart @ [[], ''[Install]'', ''WantedBy=default.target'']"
  have parts: "service_lines description conditions exec restart =
      [[], ''[Unit]'', ''Description='' @ description, [], ''[Service]'', ''Type=simple'',
       ''RuntimeDirectory=cosmic-ext-applet-mounter'', ''SuccessExitStatus=130 143''] @ (conditions @ ?t)"
    by (simp add: service_lines_def)
  show ?thesis
    unfolding parts scan_lines_append [of _ _ "conditions @ ?t"] scan_lines_append [of _ conditions ?t] head
      bind_res_simps cond tail service_scan_def
    by simp
qed

section \<open>Rendered services\<close>

lemma validate_text_Inr: "validate_text v = Inr u \<Longrightarrow> v \<noteq> [] \<and> \<not> has_control_char v"
  by (auto simp: validate_text_def split: if_splits)

lemma uuid_text_chars: "uuid_text s \<Longrightarrow> c \<in> set s \<Longrightarrow> c = CHR ''-'' \<or> is_lower_hex c"
proof -
  assume u: "uuid_text s" and c: "c \<in> set s"
  then obtain i where i: "i < 36" "s ! i = c" by (auto simp: uuid_text_def in_set_conv_nth)
  with u have "if i \<in> {8, 13, 18, 23} then s ! i = CHR ''-'' else is_lower_hex (s ! i)"
    unfolding uuid_text_def list_all_iff by auto
  with i show ?thesis by (auto split: if_splits)
qed

lemma uuid_text_plain: "uuid_text s \<Longrightarrow> CHR 0x0A \<notin> set s \<and> CHR 0x0D \<notin> set s \<and> CHR 0x00 \<notin> set s"
  using uuid_text_chars [of s] by (force simp: is_lower_hex_def)

lemma render_service_shape:
  assumes "render_service tr X s = Inr d"
  shows "\<exists>conditions exec restart. condition_lines conditions \<and> quoted_value exec \<and> prefix (CHR 0x22 # ''/'') exec
    \<and> (restart = [] \<or> restart = [''Restart=on-failure'', ''RestartSec=5s''])
    \<and> tr (ss_description s) \<noteq> [] \<and> \<not> has_control_char (tr (ss_description s))
    \<and> ud_name d = \<lparr>un_connection_id = ss_connection_id s, un_kind = ServiceUnit\<rparr>
    \<and> ud_content d = unlines ([MANAGED_MARKER, UUID_MARKER @ conn_uuid (ss_connection_id s)]
         @ service_lines (tr (ss_description s)) conditions exec restart)"
proof -
  from assms obtain args e pre metered where
    desc: "validate_text (tr (ss_description s)) = Inr ()" and abs: "is_absolute (ss_executable s)"
    and args: "collect_res (map escape_systemd_argument (ss_arguments s)) = Inr args"
    and e: "escape_systemd_argument (ss_executable s) = Inr e"
    and pre: "(case ss_pre_start_condition s of None \<Rightarrow> Inr [] | Some c \<Rightarrow> render_condition c) = Inr pre"
    and met: "(if ss_skip_on_metered s
               then bind_res (map_err InvalidSpec (guard_service_command X [METERED_GUARD_FLAG])) render_condition
               else Inr []) = Inr metered"
    and d: "d = \<lparr>ud_name = \<lparr>un_connection_id = ss_connection_id s, un_kind = ServiceUnit\<rparr>,
            ud_content =
              unlines (unit_heading (ss_connection_id s) (tr (ss_description s))
                       @ [''[Service]'', ''Type=simple'', ''RuntimeDirectory=cosmic-ext-applet-mounter'',
                          ''SuccessExitStatus=130 143''])
              @ metered @ pre
              @ unlines ([''ExecStart='' @ e @ (if args \<noteq> [] then '' '' @ join '' '' args else [])]
                  @ (if ss_restart_on_failure s then [''Restart=on-failure'', ''RestartSec=5s''] else [])
                  @ [[], ''[Install]'', ''WantedBy=default.target''])\<rparr>"
    by (auto simp: render_service_def bind_res_Inr Let_def validate_absolute_executable_def split: if_splits)
  have line: "\<exists>ls. condition_lines ls \<and> t = unlines ls" if "t = [] \<or> (\<exists>c. render_condition c = Inr t)" for t
  proof (cases "t = []")
    case True
    then show ?thesis by (intro exI [of _ "[]"]) (simp add: condition_lines_def unlines_def)
  next
    case False
    with that render_condition_line obtain v where "quoted_value v" "t = unlines [''ExecCondition='' @ v]" by blast
    then show ?thesis by (intro exI [of _ "[''ExecCondition='' @ v]"]) (simp add: condition_lines_def)
  qed
  obtain P M where P: "condition_lines P" "pre = unlines P" and M: "condition_lines M" "metered = unlines M"
    using line [of pre] line [of metered] pre met by (auto simp: bind_res_Inr split: option.splits if_splits)
  let ?exec = "e @ (if args \<noteq> [] then '' '' @ join '' '' args else [])"
  have exec: "?exec = join '' '' (e # args)" by (cases args) auto
  have "quoted_value ?exec" unfolding exec
    using escape_quoted [OF e] collect_escaped [OF args] by (intro join_quoted) auto
  moreover have "prefix (CHR 0x22 # ''/'') ?exec" using escape_slash [OF abs e] by (auto simp: prefix_def)
  moreover have "condition_lines (M @ P)" using M P by (auto simp: condition_lines_def)
  ultimately show ?thesis
    using validate_text_Inr [OF desc]
    by (intro exI [of _ "M @ P"] exI [of _ ?exec]
          exI [of _ "if ss_restart_on_failure s then [''Restart=on-failure'', ''RestartSec=5s''] else []"])
       (simp add: d M(2) P(2) unit_heading_def service_lines_def flip: unlines_append)
qed

text \<open>The rest of a rendered document splits into its lines, and the only bytes to fear are carriage returns.\<close>

lemma quoted_plain: "quoted_value v \<Longrightarrow> plain_line (k @ v) \<longleftrightarrow> CHR 0x0A \<notin> set k"
  by (auto simp: quoted_value_def plain_line_def)

lemma service_lines_plain:
  assumes "condition_lines conditions" and "quoted_value exec"
    and "restart = [] \<or> restart = [''Restart=on-failure'', ''RestartSec=5s'']"
    and "CHR 0x0A \<notin> set description" and "CHR 0x0D \<notin> set description"
  shows "\<forall>l \<in> set (service_lines description conditions exec restart). plain_line l"
proof -
  have "plain_line l" if "l \<in> set conditions" for l
    using assms(1) that quoted_plain [of _ "''ExecCondition=''"] by (fastforce simp: condition_lines_def)
  moreover have "plain_line (''ExecStart='' @ exec)" using quoted_plain [OF assms(2), of "''ExecStart=''"] by simp
  moreover have "plain_line (''Description='' @ description)" using assms(4,5) by (auto simp: plain_line_def dest: last_in_set)
  ultimately show ?thesis using assms(3) by (auto simp: service_lines_def plain_line_def)
qed

lemma filter_condition_pairs [simp]:
  "filter (\<lambda>d. fst d = (a, b)) (condition_directives ls) = (if a = ''Service'' \<and> b = ''ExecCondition'' then condition_directives ls else [])"
  by (induction ls) (auto simp: condition_directives_def)

lemma service_scan_accepted:
  assumes "restart = [] \<or> restart = [''Restart=on-failure'', ''RestartSec=5s'']" and "prefix (CHR 0x22 # ''/'') exec"
  shows "missing_section (service_scan description conditions exec restart) (allowed_sections ServiceUnit) = Inr ()"
    "one_directive (service_scan description conditions exec restart) ''Unit'' ''Description'' = Inr description"
    "service_rules (service_scan description conditions exec restart) = Inr ()"
  using assms
  by (auto simp: service_scan_def allowed_sections_def one_directive_def directive_values_def service_rules_def)

lemma validate_lines:
  assumes "\<forall>l \<in> set ls. plain_line l" and "uuid_text (conn_uuid (un_connection_id (ud_name d)))"
    and "ud_content d = unlines ([MANAGED_MARKER, UUID_MARKER @ conn_uuid (un_connection_id (ud_name d))] @ ls)"
  shows "structural_validate d =
     (if CHR 0x00 \<in> set (ud_content d) \<or> CHR 0x0D \<in> set (ud_content d)
      then bad_unit ''ui-services-generated-unit-contains-unsafe-control-characters''
      else
        bind_res (scan_lines (allowed_sections (un_kind (ud_name d))) ls \<lparr>us_section = None, us_sections = [], us_directives = []\<rparr>) (\<lambda>st.
        bind_res (missing_section st (allowed_sections (un_kind (ud_name d)))) (\<lambda>_.
        bind_res (one_directive st ''Unit'' ''Description'') (\<lambda>description.
          if has_control_char description
          then bad_unit ''ui-services-generated-unit-description-contains-control-characters''
          else (case un_kind (ud_name d) of
                  ServiceUnit \<Rightarrow> service_rules st | TimerUnit \<Rightarrow> timer_rules (ud_name d) st)))))"
proof -
  have "plain_line MANAGED_MARKER" by (simp add: plain_line_def MANAGED_MARKER_def)
  moreover have "plain_line (UUID_MARKER @ conn_uuid (un_connection_id (ud_name d)))"
    using uuid_text_plain [OF assms(2)] by (auto simp: plain_line_def UUID_MARKER_def dest: last_in_set)
  ultimately have "lines (ud_content d) =
      MANAGED_MARKER # (UUID_MARKER @ conn_uuid (un_connection_id (ud_name d))) # ls"
    unfolding assms(3) using assms(1) by (subst lines_unlines) auto
  then show ?thesis by (simp add: structural_validate_def Let_def)
qed

text \<open>
  C31. Every service unit the applet renders passes its structural validator, whatever the description,
  the arguments and the conditions are, except that a carriage return in an argument, which the
  escaping lets through, makes the validator refuse the document.
\<close>
theorem rendered_service_validates:
  assumes "render_service tr X s = Inr d" and "uuid_text (conn_uuid (ss_connection_id s))"
    and "utf8_complete (tr (ss_description s))"
  shows "structural_validate d =
    (if CHR 0x00 \<in> set (ud_content d) \<or> CHR 0x0D \<in> set (ud_content d)
     then bad_unit ''ui-services-generated-unit-contains-unsafe-control-characters'' else Inr ())"
proof -
  from render_service_shape [OF assms(1)] obtain conditions exec restart where
    c: "condition_lines conditions" and q: "quoted_value exec" and slash: "prefix (CHR 0x22 # ''/'') exec"
    and r: "restart = [] \<or> restart = [''Restart=on-failure'', ''RestartSec=5s'']"
    and desc: "tr (ss_description s) \<noteq> []" "\<not> has_control_char (tr (ss_description s))"
    and name: "ud_name d = \<lparr>un_connection_id = ss_connection_id s, un_kind = ServiceUnit\<rparr>"
    and content: "ud_content d = unlines ([MANAGED_MARKER, UUID_MARKER @ conn_uuid (ss_connection_id s)]
         @ service_lines (tr (ss_description s)) conditions exec restart)"
    by auto
  have nl: "CHR 0x0A \<notin> set (tr (ss_description s))" "CHR 0x0D \<notin> set (tr (ss_description s))"
    by (rule no_control_ascii [OF desc(2) assms(3)]; simp)+
  have "exec \<noteq> []" using q by (simp add: quoted_value_def)
  with validate_lines [OF service_lines_plain [OF c q r nl], of d] scan_service_lines [OF desc(1) c _ r, of exec]
    service_scan_accepted [OF r slash] desc(2) assms(2) name content
  show ?thesis by simp
qed

definition sample_service :: service_spec where
  "sample_service =
     \<lparr>ss_connection_id = ConnectionId sample_uuid, ss_description = Lit ''mount'', ss_executable = ''/usr/bin/rclone'',
      ss_arguments = [''mount'', ''box:a'', ''/home/u/Box''], ss_pre_start_condition = None,
      ss_restart_on_failure = True, ss_skip_on_metered = False\<rparr>"

definition sample_tr :: "msg \<Rightarrow> string" where
  "sample_tr m = (case m of Lit s \<Rightarrow> s | _ \<Rightarrow> ''text'')"

lemma rendered_service_validates_witness:
  "\<exists>d. render_service sample_tr \<lparr>xe_mode = Native, xe_current_exe = None\<rparr> sample_service = Inr d
     \<and> structural_validate d = Inr ()"
proof -
  have "is_ok (render_service sample_tr \<lparr>xe_mode = Native, xe_current_exe = None\<rparr> sample_service)
     \<and> (case render_service sample_tr \<lparr>xe_mode = Native, xe_current_exe = None\<rparr> sample_service of
          Inl e \<Rightarrow> False | Inr d \<Rightarrow> CHR 0x00 \<notin> set (ud_content d) \<and> CHR 0x0D \<notin> set (ud_content d))"
    by code_simp
  then obtain d where d: "render_service sample_tr \<lparr>xe_mode = Native, xe_current_exe = None\<rparr> sample_service = Inr d"
    and clean: "CHR 0x00 \<notin> set (ud_content d)" "CHR 0x0D \<notin> set (ud_content d)"
    by (auto simp: is_ok_def split: sum.splits)
  have "utf8_complete (sample_tr (ss_description sample_service))" by code_simp
  with rendered_service_validates [OF d] clean d show ?thesis
    by (simp add: sample_service_def sample_uuid_text)
qed

section \<open>Rendered timers\<close>

definition timer_lines :: "unit_name \<Rightarrow> string \<Rightarrow> string \<Rightarrow> bool \<Rightarrow> string list" where
  "timer_lines service description secs persistent =
     [[], ''[Unit]'', ''Description='' @ description, [], ''[Timer]'', ''OnActiveSec='' @ secs, ''OnUnitInactiveSec='' @ secs,
      ''Persistent='' @ (if persistent then ''true'' else ''false''), ''Unit='' @ file_name service, [],
      ''[Install]'', ''WantedBy=timers.target'']"

definition timer_scan :: "unit_name \<Rightarrow> string \<Rightarrow> string \<Rightarrow> bool \<Rightarrow> unit_scan" where
  "timer_scan service description secs persistent =
     \<lparr>us_section = Some ''Install'', us_sections = [''Unit'', ''Timer'', ''Install''], us_directives =
        [((''Unit'', ''Description''), description), ((''Timer'', ''OnActiveSec''), secs),
         ((''Timer'', ''OnUnitInactiveSec''), secs),
         ((''Timer'', ''Persistent''), if persistent then ''true'' else ''false''),
         ((''Timer'', ''Unit''), file_name service), ((''Install'', ''WantedBy''), ''timers.target'')]\<rparr>"

lemma scan_timer_lines:
  assumes "description \<noteq> []" and "secs \<noteq> []"
  shows "scan_lines (allowed_sections TimerUnit) (timer_lines service description secs persistent)
           \<lparr>us_section = None, us_sections = [], us_directives = []\<rparr>
         = Inr (timer_scan service description secs persistent)"
proof -
  have "file_name service \<noteq> []" by (simp add: file_name_def)
  with assms show ?thesis
    by (cases persistent)
       (simp_all add: timer_lines_def timer_scan_def scan_line_def section_name_def allowed_sections_def
          allowed_directive_def MANAGED_MARKER_def UUID_MARKER_def split_once_def)
qed

lemma show_nat_timer_value: "0 < n \<Longrightarrow> n \<le> U64_LIMIT \<Longrightarrow> timer_value_ok (show_nat n @ ''s'')"
proof -
  assume n: "0 < n" "n \<le> U64_LIMIT"
  have d: "list_all is_ascii_digit (show_nat n)" "digits_value (show_nat n) = n" "show_nat n \<noteq> []"
    using show_nat_digits [of n] by (simp_all add: digits_def)
  obtain c s where c: "show_nat n = c # s" using d(3) by (cases "show_nat n") auto
  with d(1) have "c \<noteq> CHR ''+''" by (auto simp: is_ascii_digit_def)
  with d c n have "parse_unsigned U64_LIMIT (show_nat n) = Some n" by (simp add: parse_unsigned_def)
  with n show ?thesis by (simp add: timer_value_ok_def)
qed

text \<open>
  Every timer unit the applet renders passes its structural validator when its interval is at
  least one second; an interval below that is written as zero seconds and refused.
\<close>
theorem rendered_timer_validates:
  assumes "render_timer tr s = Inr d" and "uuid_text (conn_uuid (ts_connection_id s))"
    and "utf8_complete (tr (ts_description s))" and "CHR 0x00 \<notin> set (tr (ts_description s))"
    and "as_secs (ts_interval s) \<le> U64_LIMIT"
  shows "structural_validate d =
    (if as_secs (ts_interval s) = 0
     then Inl (SvcValidation (Fl ''ui-services-generated-timer-has-invalid-key'' [(''key'', Lit ''OnActiveSec'')]))
     else Inr ())"
proof -
  let ?secs = "show_nat (as_secs (ts_interval s)) @ ''s''"
  let ?service = "\<lparr>un_connection_id = ts_connection_id s, un_kind = ServiceUnit\<rparr>"
  let ?ls = "timer_lines ?service (tr (ts_description s)) ?secs (ts_persistent s)"
  from assms(1) have desc: "tr (ts_description s) \<noteq> []" "\<not> has_control_char (tr (ts_description s))"
    and name: "ud_name d = \<lparr>un_connection_id = ts_connection_id s, un_kind = TimerUnit\<rparr>"
    and content: "ud_content d = unlines ([MANAGED_MARKER, UUID_MARKER @ conn_uuid (ts_connection_id s)] @ ?ls)"
    using validate_text_Inr [of "tr (ts_description s)"]
    by (auto simp: render_timer_def bind_res_Inr Let_def unit_heading_def timer_lines_def split: if_splits)
  have nl: "CHR 0x0A \<notin> set (tr (ts_description s))" "CHR 0x0D \<notin> set (tr (ts_description s))"
    by (rule no_control_ascii [OF desc(2) assms(3)]; simp)+
  have dig: "list_all is_ascii_digit (show_nat (as_secs (ts_interval s)))"
    using show_nat_digits [of "as_secs (ts_interval s)"] by (simp add: digits_def)
  have secs: "c \<notin> set ?secs" if "(of_char c :: nat) < 48" for c
    using dig that by (auto simp: list_all_iff is_ascii_digit_def)
  note uid = uuid_text_plain [OF assms(2)]
  have fname: "c \<notin> set (file_name ?service)" if "c \<in> {CHR 0x0A, CHR 0x0D, CHR 0x00}" for c
    using that uid by (auto simp: file_name_def)
  have clean_lines: "\<forall>l \<in> set ?ls. c \<notin> set l" if "c \<in> {CHR 0x0A, CHR 0x0D}" for c
    using nl secs [of c] fname [of c] that by (cases "ts_persistent s") (auto simp: timer_lines_def)
  have plain: "\<forall>l \<in> set ?ls. plain_line l"
  proof
    fix l
    assume "l \<in> set ?ls"
    with clean_lines have "CHR 0x0A \<notin> set l" "CHR 0x0D \<notin> set l" by blast+
    then show "plain_line l" unfolding plain_line_def by (metis last_in_set)
  qed
  have clean: "CHR 0x00 \<notin> set (ud_content d) \<and> CHR 0x0D \<notin> set (ud_content d)"
    using nl assms(4) secs [of "CHR 0x00"] secs [of "CHR 0x0D"] fname uid
    by (auto simp: content unlines_def timer_lines_def MANAGED_MARKER_def UUID_MARKER_def split: if_splits)
  have rules: "timer_rules (ud_name d) (timer_scan ?service (tr (ts_description s)) ?secs (ts_persistent s)) =
    (if as_secs (ts_interval s) = 0
     then Inl (SvcValidation (Fl ''ui-services-generated-timer-has-invalid-key'' [(''key'', Lit ''OnActiveSec'')]))
     else Inr ())"
  proof (cases "as_secs (ts_interval s) = 0")
    case True
    have "\<not> timer_value_ok (show_nat 0 @ ''s'')"
      by (simp add: timer_value_ok_def show_nat.simps digit_char_def parse_unsigned_def is_ascii_digit_def digits_value_def)
    with True show ?thesis
      by (simp add: timer_rules_def timer_interval_rule_def one_directive_def directive_values_def timer_scan_def)
  next
    case False
    with show_nat_timer_value assms(5) have "timer_value_ok ?secs" by blast
    with False show ?thesis
      by (simp add: timer_rules_def timer_interval_rule_def one_directive_def directive_values_def timer_scan_def name)
  qed
  have "missing_section (timer_scan ?service (tr (ts_description s)) ?secs (ts_persistent s)) (allowed_sections TimerUnit) = Inr ()"
    "one_directive (timer_scan ?service (tr (ts_description s)) ?secs (ts_persistent s)) ''Unit'' ''Description'' = Inr (tr (ts_description s))"
    by (simp_all add: timer_scan_def allowed_sections_def one_directive_def directive_values_def)
  with validate_lines [OF plain, of d] scan_timer_lines [OF desc(1), of ?secs] desc(2) assms(2) name content clean rules
  show ?thesis by simp
qed

lemma rendered_timer_validates_witness:
  "\<exists>d. render_timer sample_tr \<lparr>ts_connection_id = ConnectionId sample_uuid, ts_description = Lit ''sync'',
          ts_interval = from_secs 900, ts_persistent = True\<rparr> = Inr d
     \<and> structural_validate d = Inr ()"
proof -
  let ?s = "\<lparr>ts_connection_id = ConnectionId sample_uuid, ts_description = Lit ''sync'',
          ts_interval = from_secs 900, ts_persistent = True\<rparr>"
  have "validate_text (sample_tr (Lit ''sync'')) = Inr ()" by code_simp
  moreover have "from_secs 900 \<noteq> 0" by (simp add: from_secs_def)
  ultimately have "is_ok (render_timer sample_tr ?s)" by (simp add: render_timer_def Let_def is_ok_def del: One_nat_def)
  then obtain d where d: "render_timer sample_tr ?s = Inr d" by (auto simp: is_ok_def split: sum.splits)
  have "utf8_complete (sample_tr (Lit ''sync''))" "CHR 0x00 \<notin> set (sample_tr (Lit ''sync''))" by code_simp+
  moreover have "as_secs (ts_interval ?s) \<le> U64_LIMIT" "as_secs (ts_interval ?s) \<noteq> 0"
    by (simp_all add: as_secs_def from_secs_def U64_LIMIT_def)
  ultimately show ?thesis using rendered_timer_validates [OF d] d by (simp add: sample_uuid_text)
qed

end
