(* ===== verification/Unit_Safety.thy ===== *)
theory Unit_Safety
  imports Systemd_Manager Unit_Rendering
begin

text \<open>
  The properties of unit management: installation, rollback, retirement and observation of units with
  the file store and the D-Bus manager, and the start of an Online mount.
\<close>

section \<open>The D-Bus manager leaves unit files alone\<close>

definition same_files :: "fs \<Rightarrow> world \<Rightarrow> bool" where
  "same_files f w = (files w = f)"

named_theorems bus_intros \<open>rules that keep the files\<close>

lemma same_files_steps [bus_intros]:
  "preserves env (same_files f) (bus_step wrap answer)"
  "preserves env (same_files f) (bus_reply answer')"
  "preserves env (same_files f) is_cancelled"
  "preserves env (same_files f) home_directory"
  by (auto simp: preserves_def same_files_def bus_step_def bus_reply_def is_cancelled_def home_directory_def)

lemma same_files_await [bus_intros]: "preserves env (same_files f) (await_job m u j ss)"
proof (induction ss)
  case Nil
  show ?case unfolding await_job.simps by (rule preserves_fail)
next
  case (Cons s ss)
  show ?case unfolding await_job.simps
    by (cases s; simp only: reply.case; intro preserves_intros Cons)
qed

lemma same_files_calls [bus_intros]:
  "preserves env (same_files f) (systemd_user_connection B)"
  "preserves env (same_files f) (systemd_user_manager B)"
  "preserves env (same_files f) (systemd_user_unit_proxy B p i)"
  "preserves env (same_files f) (manager_call B m as)"
  "preserves env (same_files f) (systemd_user_unit_path B u)"
  "preserves env (same_files f) (systemd_user_run_job B m u)"
  "preserves env (same_files f) (read_result B n p)"
  unfolding systemd_user_connection_def systemd_user_manager_def systemd_user_unit_proxy_def
    manager_call_def systemd_user_unit_path_def systemd_user_run_job_def read_result_def
  by (intro preserves_intros bus_intros)+

lemma same_files_read_status [bus_intros]: "preserves env (same_files f) (read_status B n)"
  unfolding read_status_def by (intro preserves_intros bus_intros)

lemma same_files_validate [bus_intros]: "preserves env (same_files f) (validate_loaded B r u)"
  unfolding validate_loaded_def unit_or_def Let_def
  by (intro preserves_intros bus_intros allI impI; split option.split; intro conjI allI impI preserves_intros)

lemma same_files_operation [bus_intros]: "preserves env (same_files f) (dbus_operation B a u)"
  unfolding dbus_operation_def unit_or_def
  by (cases a; simp only: systemd_action.case; intro preserves_intros bus_intros)

lemma dbus_manager_files: "dbus_manager B a u t env w = (r, w') \<Longrightarrow> files w' = files w"
proof -
  assume run: "dbus_manager B a u t env w = (r, w')"
  have "preserves env (same_files (files w)) (dbus_manager B a u t)"
    unfolding dbus_manager_def by (intro preserves_intros bus_intros)
  from preservesD [OF this run] show ?thesis by (simp add: same_files_def)
qed

interpretation managed_system: unit_system "file_store S" "unit_content S" "\<lambda>d. fus_validate S d = Inr ()"
    "unit_owned S" "store_fit S" "dbus_manager B" for S B
  by unfold_locales (simp add: dbus_manager_files)

section \<open>Installation\<close>

text \<open>
  C29. Installing a unit is all or nothing up to the rollback: it succeeds with the validated document in
  place, or it fails with the unit file as it was, or it reports the error of the rollback itself, and
  only then may the new content stay.
\<close>
theorem install_commits_or_rolls_back:
  assumes "store_fit S env (ud_name d)"
    and "unit_install (file_store S) (dbus_manager B) d env w = (r, w')"
  shows "case r of
      Inr _ \<Rightarrow> fus_validate S d = Inr () \<and> unit_content S (files w') (ud_name d) = Some (ud_content d)
    | Inl e \<Rightarrow> unit_content S (files w') (ud_name d) = unit_content S (files w) (ud_name d)
        \<or> unit_content S (files w') (ud_name d) = Some (ud_content d)
          \<and> (\<exists>w2. restore (file_store S) (ud_name d) (unit_content S (files w) (ud_name d)) env w2 = (Inl e, w'))"
  by (rule managed_system.install_outcome [OF assms])

text \<open>
  C32. The rollback of an installation goes through the validator: a previous unit that is ours but does
  not have today's structure, as an older release may have written it, is not restored when systemd
  rejects its replacement.  The installation fails and the rejected unit stays on disk.
\<close>
theorem old_unit_is_not_restored:
  assumes "store_fit S env (ud_name d)" and "unit_content S (files w) (ud_name d) = Some c"
    and "fus_validate S \<lparr>ud_name = ud_name d, ud_content = c\<rparr> \<noteq> Inr ()"
    and "store_read S (ud_name d) env w = (Inr (Some c), w1)" and "store_write S d env w1 = (Inr (), w2)"
    and "unit_install (file_store S) (dbus_manager B) d env w = (Inl e, w')"
  shows "unit_content S (files w') (ud_name d) = Some (ud_content d)"
proof (rule managed_system.install_loses_previous [OF assms(1,2)])
  show "fus_validate S d = Inr ()" using store_write_run [OF assms(1,5)] by simp
  show "\<exists>w1. st_read (file_store S) (ud_name d) env w = (Inr (Some c), w1)"
    using assms(4) by (auto simp: file_store_def)
  show "\<exists>u w2. st_write (file_store S) d env v = (Inr u, w2)"
    if "st_read (file_store S) (ud_name d) env w = (Inr (Some c), v)" for v
    using that assms(4,5) by (auto simp: file_store_def)
qed (use assms in auto)

text \<open>A bus that answers every call, and says that the unit could not be loaded when \<open>ok\<close> is false.\<close>

definition sample_bus :: "bool \<Rightarrow> systemd_bus" where
  "sample_bus ok =
     \<lparr>b_session = (\<lambda>n. Reply ()), b_manager = (\<lambda>n. Reply ()), b_proxy = (\<lambda>n p i. Reply ()),
      b_call = (\<lambda>n m as. Reply ''/u''),
      b_text = (\<lambda>n p t. Reply (if t = ''LoadState'' then (if ok then ''loaded'' else ''error'')
                                else if t = ''FragmentPath''
                                then path_join (path_join ''/h'' ''.config/systemd/user'') (file_name sample_unit)
                                else ''inactive'')),
      b_texts = (\<lambda>n p t. Reply []), b_pair = (\<lambda>n p t. Reply ([], [])), b_flag = (\<lambda>n p t. Reply False),
      b_number = (\<lambda>n p t. Reply 0),
      b_bytes = (\<lambda>n p t. Reply []), b_signals = (\<lambda>n. Reply [Reply \<lparr>jr_job = ''/u'', jr_unit = [], jr_result = ''done''\<rparr>])\<rparr>"

definition calm_env :: env where
  "calm_env = sample_env\<lparr>e_fault := (\<lambda>_. None), e_var := (\<lambda>_. Some ''/h'')\<rparr>"

definition unit_world :: "string \<Rightarrow> world" where
  "unit_world content =
     sample_world\<lparr>files := [([RootDir, Normal ''s'', Normal (file_name sample_unit)], File content), ([RootDir, Normal ''s''], Dir)]\<rparr>"

definition old_content :: string where
  "old_content =
     unlines [MANAGED_MARKER, UUID_MARKER @ sample_uuid, ''[Service]'', ''Environment=A=b'', ''ExecStart=/usr/bin/rclone'']"

lemma calm_fit: "store_fit sample_store calm_env (ud_name sample_unit_document)"
  using sample_root(2)
  by (auto simp: store_fit_def sample_store_def calm_env_def sample_unit_document_def sample_unit_def sample_uuid_text)

lemma install_commits_or_rolls_back_witness:
  "\<exists>r w'. unit_install (file_store sample_store) (dbus_manager (sample_bus True)) sample_unit_document calm_env sample_world = (r, w')
     \<and> (case r of
          Inr _ \<Rightarrow> unit_content sample_store (files w') sample_unit = Some (ud_content sample_unit_document)
        | Inl e \<Rightarrow> False)"
proof -
  obtain r w' where run: "unit_install (file_store sample_store) (dbus_manager (sample_bus True)) sample_unit_document calm_env sample_world = (r, w')"
    by (rule prod.exhaust)
  have "is_ok (fst (unit_install (file_store sample_store) (dbus_manager (sample_bus True)) sample_unit_document calm_env sample_world))"
    by code_simp
  with run install_commits_or_rolls_back [OF calm_fit run] show ?thesis
    by (cases r) (auto simp: sample_unit_document_def)
qed

lemma old_unit_is_not_restored_witness:
  "\<exists>e w'. unit_owned sample_store sample_unit old_content
     \<and> unit_install (file_store sample_store) (dbus_manager (sample_bus False)) sample_unit_document calm_env (unit_world old_content) = (Inl e, w')
     \<and> unit_content sample_store (files w') sample_unit = Some (ud_content sample_unit_document)"
proof -
  let ?S = sample_store and ?d = sample_unit_document and ?w = "unit_world old_content"
  have own: "unit_owned ?S sample_unit old_content" by code_simp
  have "is_err (fus_validate ?S \<lparr>ud_name = ud_name ?d, ud_content = old_content\<rparr>)" by code_simp
  then have bad: "fus_validate ?S \<lparr>ud_name = ud_name ?d, ud_content = old_content\<rparr> \<noteq> Inr ()"
    by (auto simp: is_err_def)
  have "fst (store_read ?S (ud_name ?d) calm_env ?w) = Inr (Some old_content)" by code_simp
  then obtain w1 where rd: "store_read ?S (ud_name ?d) calm_env ?w = (Inr (Some old_content), w1)"
    by (metis prod.collapse)
  have "fst (store_write ?S ?d calm_env (snd (store_read ?S (ud_name ?d) calm_env ?w))) = Inr ()" by code_simp
  then obtain w2 where wr: "store_write ?S ?d calm_env w1 = (Inr (), w2)"
    using rd by (metis prod.collapse snd_conv)
  have "is_err (fst (unit_install (file_store ?S) (dbus_manager (sample_bus False)) ?d calm_env ?w))" by code_simp
  then obtain e w' where run: "unit_install (file_store ?S) (dbus_manager (sample_bus False)) ?d calm_env ?w = (Inl e, w')"
    by (cases "unit_install (file_store ?S) (dbus_manager (sample_bus False)) ?d calm_env ?w") (auto simp: is_err_def split: sum.splits)
  have name: "ud_name ?d = sample_unit" by (simp add: sample_unit_document_def)
  have "unit_content ?S (files ?w) (ud_name ?d) = Some old_content" by code_simp
  from old_unit_is_not_restored [OF calm_fit this _ rd wr run] bad own run name show ?thesis by auto
qed

section \<open>Retirement\<close>

text \<open>
  Retiring the legacy monitor of a mirror is safe: its unit file stays as it is, or the file was a
  structurally valid unit that runs \<open>/usr/bin/onedrive\<close> and systemd was seen reporting the unit disabled
  and stopped.  A unit that is still active, or that somebody replaced, keeps its file.
\<close>
theorem retirement_only_when_stopped:
  assumes "store_fit S env \<lparr>un_connection_id = cid, un_kind = ServiceUnit\<rparr>"
    and "retire_legacy_mirror (file_store S) (dbus_manager B) cid env w = (r, w')"
  shows "unit_content S (files w') \<lparr>un_connection_id = cid, un_kind = ServiceUnit\<rparr> = unit_content S (files w) \<lparr>un_connection_id = cid, un_kind = ServiceUnit\<rparr>
    \<or> (\<exists>content w1 w2 status.
          unit_content S (files w) \<lparr>un_connection_id = cid, un_kind = ServiceUnit\<rparr> = Some content
        \<and> structural_validate \<lparr>ud_name = \<lparr>un_connection_id = cid, un_kind = ServiceUnit\<rparr>, ud_content = content\<rparr> = Inr ()
        \<and> list_ex (prefix RETIRED_EXEC) (lines content)
        \<and> dbus_manager B Status (Some \<lparr>un_connection_id = cid, un_kind = ServiceUnit\<rparr>) True env w1 = (Inr (Some status), w2)
        \<and> us_enabled status = False \<and> us_active status \<in> {Inactive, UnitFailed})"
proof (cases "unit_content S (files w') \<lparr>un_connection_id = cid, un_kind = ServiceUnit\<rparr> = unit_content S (files w) \<lparr>un_connection_id = cid, un_kind = ServiceUnit\<rparr>")
  case False
  from managed_system.retirement_needs_stopped [OF assms False] obtain content w1 w2 status where
    r: "unit_content S (files w) \<lparr>un_connection_id = cid, un_kind = ServiceUnit\<rparr> = Some content"
    "structural_validate \<lparr>ud_name = \<lparr>un_connection_id = cid, un_kind = ServiceUnit\<rparr>, ud_content = content\<rparr> = Inr ()"
    "list_ex (prefix RETIRED_EXEC) (lines content)"
    "dbus_manager B Status (Some \<lparr>un_connection_id = cid, un_kind = ServiceUnit\<rparr>) True env w1 = (Inr status, w2)"
    and st: "stopped_status status" by blast
  from st obtain s where "status = Some s" "us_enabled s = False" "us_active s \<in> {Inactive, UnitFailed}"
    by (auto simp: stopped_status_def split: option.splits)
  with r have "\<exists>content w1 w2 status.
          unit_content S (files w) \<lparr>un_connection_id = cid, un_kind = ServiceUnit\<rparr> = Some content
        \<and> structural_validate \<lparr>ud_name = \<lparr>un_connection_id = cid, un_kind = ServiceUnit\<rparr>, ud_content = content\<rparr> = Inr ()
        \<and> list_ex (prefix RETIRED_EXEC) (lines content)
        \<and> dbus_manager B Status (Some \<lparr>un_connection_id = cid, un_kind = ServiceUnit\<rparr>) True env w1 = (Inr (Some status), w2)
        \<and> us_enabled status = False \<and> us_active status \<in> {Inactive, UnitFailed}"
    by blast
  then show ?thesis by blast
qed simp

text \<open>A unit that does not run the retired engine keeps its file.\<close>

lemma retirement_only_when_stopped_witness:
  "\<exists>r w'. retire_legacy_mirror (file_store sample_store) (dbus_manager (sample_bus True)) (ConnectionId sample_uuid) calm_env
        (unit_world old_content) = (r, w')
     \<and> unit_content sample_store (files w') sample_unit = Some old_content"
proof -
  obtain r w' where run: "retire_legacy_mirror (file_store sample_store) (dbus_manager (sample_bus True)) (ConnectionId sample_uuid) calm_env (unit_world old_content) = (r, w')"
    by (rule prod.exhaust)
  have before: "unit_content sample_store (files (unit_world old_content)) sample_unit = Some old_content" by code_simp
  have "\<not> list_ex (prefix RETIRED_EXEC) (lines old_content)" by code_simp
  moreover have fit: "store_fit sample_store calm_env \<lparr>un_connection_id = ConnectionId sample_uuid, un_kind = ServiceUnit\<rparr>"
    using calm_fit by (simp add: sample_unit_document_def sample_unit_def)
  ultimately have "unit_content sample_store (files w') sample_unit = Some old_content"
    using retirement_only_when_stopped [OF fit run, folded sample_unit_def] before by auto
  with run show ?thesis by blast
qed

section \<open>Starting an Online mount\<close>

text \<open>
  C33. Starting an Online mount comes to an end: with sleeps of at least their fifty milliseconds, 41 polls
  are enough whatever systemd answers, and the start is reported as successful only if systemd accepted
  it and then reported the unit active or activating.
\<close>
theorem online_start_ends_truthfully:
  assumes "\<And>s n m. instant s n + 50 \<le> (instant :: clock) (Suc s) m"
  shows "case fst (start_managed_online_service 41 M instant unit env w) of
      Inl _ \<Rightarrow> True
    | Inr None \<Rightarrow> False
    | Inr (Some _) \<Rightarrow>
        (\<exists>w1 w2 st. M Status (Some unit) True env w1 = (Inr (Some st), w2) \<and> us_active st \<in> {Active, Activating})
        \<and> (\<exists>w1 w2 x. M Start (Some unit) True env w1 = (Inr x, w2))"
proof -
  let ?st = "start_managed_online_service 41 M instant unit"
  obtain r w' where run: "?st env w = (r, w')" by (rule prod.exhaust)
  show ?thesis
  proof (cases r)
    case (Inl e)
    with run show ?thesis by simp
  next
    case (Inr x)
    define rest :: "(msg, unit option) prog" where "rest =
      bindP (tryP (M Start (Some unit) True)) (\<lambda>start.
        bindP (read_instant instant 0) (\<lambda>begun.
        bindP (poll_status 41 M instant (begun + 2000) unit 0) (\<lambda>after.
          case after of
            None \<Rightarrow> ret None
          | Some st \<Rightarrow> bindP (liftR (online_outcome start st)) (\<lambda>_. ret (Some ())))))"
    have "\<exists>v1. rest env v1 = (Inr x, w')"
      using run [unfolded Inr]
      by (auto simp: start_managed_online_service_def bindP_Inr seqP_Inr simp flip: rest_def split: if_splits)
    then obtain start v1 v2 v3 after v4 where
      start: "M Start (Some unit) True env v1 = (start, v2)"
      and poll: "poll_status 41 M instant (instant 0 (tick v2) + 2000) unit 0 env v3 = (Inr after, v4)"
      and fin: "(case after of None \<Rightarrow> ret None | Some st \<Rightarrow> bindP (liftR (online_outcome start st)) (\<lambda>_. ret (Some ()))) env v4 = (Inr x, w')"
      by (auto simp: rest_def bindP_Inr read_instant_def)
    have "\<And>m. instant 0 (tick v2) + 2000 \<le> instant (0 + 40) m"
      using sleeps_pass [of instant 40 "tick v2", OF assms] by simp
    from poll_status_ends [where s = 0 and fuel = 40 and instant = instant and deadline = "instant 0 (tick v2) + 2000", OF this]
    obtain st v5 where end41: "poll_status (Suc 40) M instant (instant 0 (tick v2) + 2000) unit 0 env v3 = (Inr (Some st), v5)"
      by blast
    have "(41::nat) = Suc 40" by simp
    from poll [unfolded this] end41 have st: "after = Some st" by (metis Pair_inject sum.inject(2))
    from fin st obtain s v where s: "st = Inr (Some s)" "us_active s \<in> {Active, Activating}"
      and acc: "start = Inr v" and x: "x = Some ()"
      by (auto simp: run_simps online_outcome_def Let_def split: sum.splits option.splits if_splits)
    from poll_status_origin [OF poll [unfolded st s(1)]] s start acc run Inr x show ?thesis by auto
  qed
qed

lemma online_start_ends_truthfully_witness:
  "fst (start_managed_online_service 41 (dbus_manager (sample_bus True)) (\<lambda>s n. 50 * s) sample_unit calm_env sample_world) \<noteq> Inr None"
proof -
  have "\<And>s n m. (\<lambda>s n. 50 * s) s n + 50 \<le> ((\<lambda>s n. 50 * s) :: clock) (Suc s) m" by simp
  from online_start_ends_truthfully [where instant = "\<lambda>s n. 50 * s" and M = "dbus_manager (sample_bus True)"
      and unit = sample_unit and env = calm_env and w = sample_world, OF this] show ?thesis
    by (auto split: sum.splits option.splits)
qed

section \<open>Observations\<close>

text \<open>
  A batch of observations answers for every unit, in order, and never guesses: a unit is reported
  present only with an activity that systemd itself named, so a failed read is not reported as inactive.
\<close>
theorem observations_are_complete:
  assumes "systemd_user_status_batch B units env w = (Inr found, w')"
  shows "map fst found = units
    \<and> (\<forall>u status. (u, ObsPresent status) \<in> set found \<longrightarrow>
         us_active status \<noteq> UnitUnknown
         \<and> (\<exists>n p text. b_text B n p ''ActiveState'' = Reply text \<and> us_active status = parse_active_state text))"
proof -
  have bus: "bus_step wrap answer env v = (Inr x, v') \<Longrightarrow> answer (tick v) = Reply x" for wrap and answer :: "nat \<Rightarrow> 'x reply" and v x v'
    by (auto simp: bus_step_def split: reply.splits)
  define honest where "honest status \<longleftrightarrow> us_active status \<noteq> UnitUnknown
      \<and> (\<exists>n p text. b_text B n p ''ActiveState'' = Reply text \<and> us_active status = parse_active_state text)" for status :: unit_status
  have one: "honest status"
    if "read_observation B u env v = (Inr (ObsPresent status), v')" for u v v' status
  proof -
    obtain loaded v1 where "(bus_reply (\<lambda>n. b_call B n ''LoadUnit'' [file_name u]) :: (op_error, string reply) prog) env v = (Inr loaded, v1)"
      by (auto simp: bus_reply_def)
    with that show ?thesis
      by (cases loaded) (auto simp: honest_def read_observation_def bindP_Inr seqP_Inr split: if_splits dest!: bus, blast+)
  qed
  have "map fst found = units \<and> (\<forall>u status. (u, ObsPresent status) \<in> set found \<longrightarrow> honest status)"
    if "observe_units B units env v = (Inr found, v')" for v v'
    using that
  proof (induction units arbitrary: v v' found)
    case Nil
    then show ?case by simp
  next
    case (Cons u us)
    obtain r v1 where r: "read_observation B u env v = (r, v1)" by (rule prod.exhaust)
    have "\<exists>rest obs v2. observe_units B us env v1 = (Inr rest, v2) \<and> found = (u, obs) # rest
        \<and> (obs = ObsUnavailable \<or> r = Inr obs)"
    proof (cases r)
      case (Inl e)
      with r Cons.prems show ?thesis
        by (cases e) (auto simp: bindP_Inr split: cut.splits)
    next
      case (Inr obs)
      with r Cons.prems show ?thesis by (auto simp: bindP_Inr)
    qed
    then obtain rest obs where rest: "\<exists>v2. observe_units B us env v1 = (Inr rest, v2)"
      and found: "found = (u, obs) # rest" and obs: "obs = ObsUnavailable \<or> r = Inr obs" by blast
    from rest Cons.IH have "map fst rest = us \<and> (\<forall>u status. (u, ObsPresent status) \<in> set rest \<longrightarrow> honest status)" by blast
    with found obs one r show ?case by auto
  qed
  with assms show ?thesis
    by (auto simp: systemd_user_status_batch_def run_simps honest_def split: if_splits)
qed

lemma observations_are_complete_witness:
  "\<exists>found w'. systemd_user_status_batch (sample_bus True) [sample_unit] calm_env sample_world = (Inr found, w')
     \<and> map fst found = [sample_unit]"
proof -
  have "is_ok (fst (systemd_user_status_batch (sample_bus True) [sample_unit] calm_env sample_world))" by code_simp
  then obtain found w' where run: "systemd_user_status_batch (sample_bus True) [sample_unit] calm_env sample_world = (Inr found, w')"
    by (metis is_ok_def prod.collapse sum.case_eq_if sum.collapse(2))
  from observations_are_complete [OF run] run show ?thesis by (intro exI [of _ found] exI [of _ w']) simp
qed

end
