(* ===== verification/Online_Mounts.thy ===== *)
theory Online_Mounts
  imports Unit_Controller Sharepoint Mounts Config_Store Pending_Count
begin

text \<open>
  The adapters of the Online mount engines (\<open>src/src/providers.rs\<close>): the plans of rclone and onedriver
  mounts, remote inventories, the health of a VFS, the decisions on detaching and the mount statuses;
  and the guard that runs before a mount covers a directory (\<open>src/src/mount_guard.rs\<close>).
\<close>

section \<open>Errors and backends\<close>

datatype provider_error =
    PvUnsupportedProvider provider
  | PvInvalidMode
  | PvName provider_name_error
  | PvMissingExecutable executable
  | PvCommand command_error
  | PvInvalidResponse msg
  | PvInvalidSharePointIdentity msg
  | PvInvalidMountpointGuard msg
  | PvUnauthenticated

fun provider_error_text :: "provider_error \<Rightarrow> msg" where
  "provider_error_text (PvUnsupportedProvider p) =
     Fl ''ui-providers-unsupported-provider-provider'' [(''provider'', Lit (provider_debug p))]"
| "provider_error_text PvInvalidMode = fl ''ui-providers-connection-is-not-an-online-mount''"
| "provider_error_text (PvName PInvalidRemoteReference) = fl ''ui-providers-invalid-remote-reference''"
| "provider_error_text (PvName PInvalidRemoteSubpath) = fl ''ui-providers-invalid-remote-subpath''"
| "provider_error_text (PvMissingExecutable e) =
     Fl ''ui-providers-value1-was-not-found'' [(''value1'', Lit (display_name e))]"
| "provider_error_text (PvCommand e) = command_error_text e"
| "provider_error_text (PvInvalidResponse m) =
     Fl ''ui-providers-invalid-provider-response-message'' [(''message'', m)]"
| "provider_error_text (PvInvalidSharePointIdentity m) = m"
| "provider_error_text (PvInvalidMountpointGuard m) = m"
| "provider_error_text PvUnauthenticated = fl ''ui-providers-provider-is-not-authenticated''"

datatype rclone_backend = BackendOneDrive | BackendTeams | BackendGoogleDrive | BackendBox | BackendSmb | BackendSftp

fun expected_type :: "rclone_backend \<Rightarrow> string" where
  "expected_type BackendOneDrive = ''onedrive''"
| "expected_type BackendTeams = ''onedrive''"
| "expected_type BackendGoogleDrive = ''drive''"
| "expected_type BackendBox = ''box''"
| "expected_type BackendSmb = ''smb''"
| "expected_type BackendSftp = ''sftp''"

fun backend_of_provider :: "provider \<Rightarrow> provider_error + rclone_backend" where
  "backend_of_provider Teams = Inr BackendTeams"
| "backend_of_provider GoogleDrive = Inr BackendGoogleDrive"
| "backend_of_provider Box = Inr BackendBox"
| "backend_of_provider Smb = Inr BackendSmb"
| "backend_of_provider Sftp = Inr BackendSftp"
| "backend_of_provider OneDrive = Inl (PvUnsupportedProvider OneDrive)"

definition backend_of_connection :: "connection \<Rightarrow> provider_error + rclone_backend" where
  "backend_of_connection c =
     (if conn_provider c = OneDrive
      then if conn_offline_engine c = Some Rclone
              \<and> (case conn_onedrive_identity c of None \<Rightarrow> False | Some i \<Rightarrow> onedrive_identity_valid i)
           then Inr BackendOneDrive
           else Inl (PvUnsupportedProvider (conn_provider c))
      else if conn_offline_engine c = Some LegacyOnedrive then Inl (PvUnsupportedProvider (conn_provider c))
      else backend_of_provider (conn_provider c))"

section \<open>Mount plans\<close>

record rclone_mount =
  rm_connection_id :: connection_id
  rm_remote :: string
  rm_mountpoint :: path
  rm_cache_directory :: path
  rm_rc_socket :: path
  rm_service :: service_spec

record onedriver_mount =
  om_connection_id :: connection_id
  om_mountpoint :: path
  om_cache_directory :: path
  om_config_file :: path
  om_service :: service_spec

definition online_options :: "connection \<Rightarrow> provider_error + online_mount_config" where
  "online_options c =
     (case conn_mode c of OnlineMount opts \<Rightarrow> Inr opts | OfflineMirror _ \<Rightarrow> Inl PvInvalidMode)"

definition GIB :: nat where "GIB = 1073741824"

definition format_cache_limit :: "u64 \<Rightarrow> string" where
  "format_cache_limit b =
     (if unat b mod GIB = 0 then show_nat (unat b div GIB) @ ''G'' else show_nat (unat b))"

definition rclone_mount_timeouts :: "provider \<Rightarrow> string \<times> string" where
  "rclone_mount_timeouts p = (if p = Smb then (''90s'', ''15s'') else (''10s'', ''5s''))"

definition teams_service_guard_command ::
  "exec_env \<Rightarrow> 'u url_lib \<Rightarrow> json_codec \<Rightarrow> connection \<Rightarrow> service_command res" where
  "teams_service_guard_command X U J c =
     bind_res (service_binding_from U c) (\<lambda>b. guard_service_command X (service_binding_arguments J b))"

definition rclone_mount_arguments :: "connection \<Rightarrow> online_mount_config \<Rightarrow> string \<Rightarrow> path \<Rightarrow> path \<Rightarrow> string list" where
  "rclone_mount_arguments c opts remote cache socket =
     [''mount'', remote, local_path c, ''--vfs-cache-mode'', ''full'', ''--vfs-cache-max-age'', ''168h'',
      ''--vfs-cache-max-size'', format_cache_limit (cache_limit_bytes opts), ''--vfs-cache-poll-interval'', ''5m'',
      ''--dir-cache-time'', ''5m'', ''--timeout'', fst (rclone_mount_timeouts (conn_provider c)), ''--contimeout'',
      snd (rclone_mount_timeouts (conn_provider c)), ''--low-level-retries'', ''1'', ''--retries'', ''1'',
      ''--retries-sleep'', ''5s'', ''--umask'', ''002'', ''--log-level'', ''INFO'', ''--cache-dir'', cache,
      ''--rc'', ''--rc-no-auth'', ''--rc-addr'', ''unix://'' @ socket]
     @ (if conn_provider c = GoogleDrive then [''--fast-list''] else [])
     @ [''--no-modtime'']
     @ (if conn_provider c = Teams
        then [''--ignore-checksum'', ''--ignore-size'', ''--transfers'', ''1''] else [])"

definition rclone_mount_plan ::
  "exec_env \<Rightarrow> 'u url_lib \<Rightarrow> json_codec \<Rightarrow> connection \<Rightarrow> path \<Rightarrow> path \<Rightarrow> provider_error + rclone_mount" where
  "rclone_mount_plan X U J c runtime_directory default_cache_root =
     bind_res (backend_of_provider (conn_provider c)) (\<lambda>_.
     bind_res (online_options c) (\<lambda>opts.
     bind_res (map_err PvName (provider_rclone_remote_path (remote_reference c) (remote_subpath c) (conn_provider c = Sftp))) (\<lambda>remote.
     let cache = (case cache_directory opts of
                    Some p \<Rightarrow> p
                  | None \<Rightarrow> path_join (path_join default_cache_root ''rclone'') (conn_uuid (conn_id c)));
         socket = path_join runtime_directory (''rclone-'' @ conn_uuid (conn_id c) @ ''.sock'')
     in bind_res (if conn_provider c = Teams
                  then map_err PvInvalidSharePointIdentity (teams_service_guard_command X U J c)
                  else map_err PvInvalidMountpointGuard (online_guard_command X c)) (\<lambda>guard.
       Inr \<lparr>rm_connection_id = conn_id c, rm_remote = remote, rm_mountpoint = local_path c,
            rm_cache_directory = cache, rm_rc_socket = socket,
            rm_service =
              \<lparr>ss_connection_id = conn_id c,
               ss_description = Fl ''ui-providers-cloud-mounter-value1'' [(''value1'', Lit (conn_name c))],
               ss_executable = ''/usr/bin/rclone'',
               ss_arguments = rclone_mount_arguments c opts remote cache socket,
               ss_pre_start_condition = Some guard, ss_restart_on_failure = True, ss_skip_on_metered = False\<rparr>\<rparr>))))"

definition onedriver_mount_plan ::
  "exec_env \<Rightarrow> connection \<Rightarrow> path \<Rightarrow> path \<Rightarrow> provider_error + onedriver_mount" where
  "onedriver_mount_plan X c default_cache_root default_config_root =
     (if conn_provider c \<noteq> OneDrive then Inl (PvUnsupportedProvider (conn_provider c))
      else
     bind_res (online_options c) (\<lambda>opts.
     let cache = (case cache_directory opts of
                    Some p \<Rightarrow> p
                  | None \<Rightarrow> path_join (path_join default_cache_root ''onedriver'') (conn_uuid (conn_id c)));
         config = path_join (path_join (path_join default_config_root ''onedriver'') (conn_uuid (conn_id c))) ''config.json''
     in bind_res (map_err PvInvalidMountpointGuard (online_guard_command X c)) (\<lambda>guard.
       Inr \<lparr>om_connection_id = conn_id c, om_mountpoint = local_path c, om_cache_directory = cache,
            om_config_file = config,
            om_service =
              \<lparr>ss_connection_id = conn_id c,
               ss_description = Fl ''ui-providers-cloud-mounter-value1'' [(''value1'', Lit (conn_name c))],
               ss_executable = ''/usr/bin/onedriver'',
               ss_arguments = [''--config-file'', config, ''--cache-dir'', cache, local_path c],
               ss_pre_start_condition = Some guard, ss_restart_on_failure = True, ss_skip_on_metered = False\<rparr>\<rparr>)))"

definition clean_unmount_request :: "path \<Rightarrow> command_error + command_request" where
  "clean_unmount_request p =
     bind_res (add_args [''-u'', p] (new_request Fusermount3)) (\<lambda>r.
       Inr (r\<lparr>req_timeout := from_secs 10,
               req_retry := \<lparr>max_attempts = 1, retry_delay = 0, retry_nonzero = False\<rparr>\<rparr>))"

definition lazy_unmount_request :: "path \<Rightarrow> command_error + command_request" where
  "lazy_unmount_request p =
     bind_res (add_args [''-uz'', p] (new_request Fusermount3)) (\<lambda>r. Inr (r\<lparr>req_timeout := from_secs 10\<rparr>))"

section \<open>Inventories\<close>

record rclone_remote =
  rr_name :: string
  rr_backend :: "string option"

definition parse_rclone_config_dump :: "(string \<Rightarrow> string + json) \<Rightarrow> string \<Rightarrow> provider_error + rclone_remote list" where
  "parse_rclone_config_dump parse output =
     bind_res (map_err (\<lambda>t. PvInvalidResponse (Lit t)) (parse output)) (\<lambda>v.
       case v of
         JObject members \<Rightarrow>
           Inr (sort_key rr_name
             (map (\<lambda>(name, settings).
                \<lparr>rr_name = name, rr_backend = Option.bind (json_get ''type'' settings) as_str\<rparr>) members))
       | _ \<Rightarrow> Inl (PvInvalidResponse (fl ''ui-providers-rclone-config-dump-is-not-an-object'')))"

definition list_remotes :: "(string \<Rightarrow> string + json) \<Rightarrow> (provider_error, rclone_remote list) prog" where
  "list_remotes parse =
     bindP (liftR (map_err PvCommand (add_args [''config'', ''dump''] (new_request RcloneExe)))) (\<lambda>r.
     bindP (map_errP PvCommand (run_cmd (r\<lparr>req_timeout := from_secs 5\<rparr>))) (\<lambda>out.
       liftR (parse_rclone_config_dump parse (co_text (out_stdout out)))))"

definition validate_remote :: "(string \<Rightarrow> string + json) \<Rightarrow> connection \<Rightarrow> (provider_error, unit) prog" where
  "validate_remote parse c =
     bindP (liftR (backend_of_connection c)) (\<lambda>backend.
     bindP (list_remotes parse) (\<lambda>remotes.
       case List.find (\<lambda>r. rr_name r = remote_reference c) remotes of
         None \<Rightarrow> fail (PvName PInvalidRemoteReference)
       | Some r \<Rightarrow>
           if rr_backend r = Some (expected_type backend) then ret ()
           else fail (PvUnsupportedProvider (conn_provider c))))"

section \<open>Health of a VFS\<close>

record vfs_health =
  queued_uploads :: nat
  active_uploads :: nat
  cache_errors :: nat
  cache_exhausted :: bool

definition pending_or_active_writes :: "vfs_health \<Rightarrow> bool" where
  "pending_or_active_writes h = (0 < queued_uploads h \<or> 0 < active_uploads h)"

definition healthy_cache :: "vfs_health \<Rightarrow> bool" where
  "healthy_cache h = (cache_errors h = 0 \<and> \<not> cache_exhausted h)"

definition json_u64 :: "json \<Rightarrow> nat" where
  "json_u64 v =
     (case v of
        JNumber s \<Rightarrow> (case as_u64 v of Some n \<Rightarrow> n | None \<Rightarrow> 0)
      | JArray xs \<Rightarrow> length xs
      | _ \<Rightarrow> 0)"

text \<open>The leaves of a value with their paths; an array adds the count of its items that are not null.\<close>

fun collect_json_paths :: "json \<Rightarrow> string \<Rightarrow> (string \<times> json) list"
  and collect_members :: "(string \<times> json) list \<Rightarrow> string \<Rightarrow> (string \<times> json) list"
  and collect_items :: "nat \<Rightarrow> json list \<Rightarrow> string \<Rightarrow> (string \<times> json) list" where
  "collect_json_paths (JObject members) pre = collect_members members pre"
| "collect_json_paths (JArray items) pre =
     (pre @ ''.count'', JNumber (show_nat (length (filter (\<lambda>v. v \<noteq> JNull) items)))) # collect_items 0 items pre"
| "collect_json_paths v pre = [(pre, v)]"
| "collect_members [] pre = []"
| "collect_members ((key, v) # members) pre =
     collect_json_paths v (if pre = [] then key else pre @ ''.'' @ key) @ collect_members members pre"
| "collect_items n [] pre = []"
| "collect_items n (v # items) pre =
     collect_json_paths v (pre @ ''.'' @ show_nat n) @ collect_items (Suc n) items pre"

definition count_stat :: "string \<times> json \<Rightarrow> vfs_health \<Rightarrow> vfs_health" where
  "count_stat leaf h =
     (case leaf of (path, v) \<Rightarrow>
        let key = ascii_lowercase path; has = (\<lambda>t. str_contains t key) in
        if has ''queued'' \<and> has ''upload'' then h\<lparr>queued_uploads := max (queued_uploads h) (json_u64 v)\<rparr>
        else if (has ''active'' \<or> has ''inprogress'') \<and> (has ''upload'' \<or> has ''transfer'')
        then h\<lparr>active_uploads := max (active_uploads h) (json_u64 v)\<rparr>
        else if has ''error'' then h\<lparr>cache_errors := max (cache_errors h) (json_u64 v)\<rparr>
        else if has ''outofspace'' \<or> has ''out_of_space'' \<or> has ''exhaust''
        then h\<lparr>cache_exhausted := (cache_exhausted h
               \<or> (case as_bool v of Some b \<Rightarrow> b | None \<Rightarrow> 0 < json_u64 v))\<rparr>
        else h)"

definition parse_vfs_stats :: "(string \<Rightarrow> string + json) \<Rightarrow> string \<Rightarrow> provider_error + vfs_health" where
  "parse_vfs_stats parse output =
     bind_res (map_err (\<lambda>t. PvInvalidResponse (Lit t)) (parse output)) (\<lambda>v.
       Inr (foldl (\<lambda>h leaf. count_stat leaf h)
              \<lparr>queued_uploads = 0, active_uploads = 0, cache_errors = 0, cache_exhausted = False\<rparr>
              (collect_json_paths v [])))"

definition vfs_health_of :: "(string \<Rightarrow> string + json) \<Rightarrow> path \<Rightarrow> (provider_error, vfs_health) prog" where
  "vfs_health_of parse socket =
     bindP (liftR (map_err PvCommand (add_args [''rc'', ''--unix-socket'', socket, ''vfs/stats''] (new_request RcloneExe)))) (\<lambda>r.
     bindP (map_errP PvCommand (run_cmd (r\<lparr>req_timeout := from_secs 5\<rparr>))) (\<lambda>out.
       liftR (parse_vfs_stats parse (co_text (out_stdout out)))))"

section \<open>Decisions and statuses\<close>

datatype detach_decision = CleanUnmount | AutoDetachSafe | DetachBlockedByPendingWrites | DetachBlockedByCacheError

datatype lazy_unmount_decision = OfferAfterConfirmation | LazyBlockedByPendingWrites | LazyBlockedByCacheError

definition detach_decision_for :: "vfs_health \<Rightarrow> bool \<Rightarrow> detach_decision" where
  "detach_decision_for h connectivity_lost =
     (if pending_or_active_writes h then DetachBlockedByPendingWrites
      else if \<not> healthy_cache h then DetachBlockedByCacheError
      else if connectivity_lost then AutoDetachSafe
      else CleanUnmount)"

definition lazy_unmount_decision_for :: "vfs_health \<Rightarrow> lazy_unmount_decision" where
  "lazy_unmount_decision_for h =
     (if pending_or_active_writes h then LazyBlockedByPendingWrites
      else if \<not> healthy_cache h then LazyBlockedByCacheError
      else OfferAfterConfirmation)"

record readiness_snapshot =
  rd_network_ready :: bool
  rd_vpn_ready :: bool

record online_runtime =
  or_readiness :: readiness_snapshot
  or_service :: "unit_status option"
  or_mount_present :: bool
  or_rclone_health :: "vfs_health option"

datatype onedriver_cache_state = NoCache | CachedReadOnlyCandidate

record onedriver_runtime =
  odr_readiness :: readiness_snapshot
  odr_authenticated :: bool
  odr_service :: "unit_status option"
  odr_mount_present :: bool
  odr_cache_state :: onedriver_cache_state

definition service_in :: "unit_status option \<Rightarrow> active_state list \<Rightarrow> bool" where
  "service_in service states = (case service of None \<Rightarrow> False | Some s \<Rightarrow> us_active s \<in> set states)"

definition rclone_online_status :: "online_runtime \<Rightarrow> online_mount_status" where
  "rclone_online_status r =
     (if or_mount_present r \<and> service_in (or_service r) [Inactive, UnitFailed] then OnlineError
      else if \<not> rd_network_ready (or_readiness r) then WaitingForNetwork
      else if \<not> rd_vpn_ready (or_readiness r) then OnlineWaitingForVpn
      else if service_in (or_service r) [UnitFailed] then OnlineError
      else if (case or_rclone_health r of None \<Rightarrow> False | Some h \<Rightarrow> pending_or_active_writes h) then PendingWrites
      else if or_mount_present r then Mounted
      else if service_in (or_service r) [Active, Activating] then Mounting
      else Unmounted)"

definition onedriver_online_status :: "onedriver_runtime \<Rightarrow> online_mount_status" where
  "onedriver_online_status r =
     (if \<not> odr_authenticated r then OnlineUnavailable
      else if odr_mount_present r \<and> service_in (odr_service r) [Inactive, UnitFailed] then OnlineError
      else if \<not> rd_network_ready (odr_readiness r) \<and> odr_cache_state r = CachedReadOnlyCandidate \<and> odr_mount_present r
      then Mounted
      else if \<not> rd_network_ready (odr_readiness r) then WaitingForNetwork
      else if \<not> rd_vpn_ready (odr_readiness r) then OnlineWaitingForVpn
      else if service_in (odr_service r) [UnitFailed] then OnlineError
      else if odr_mount_present r then Mounted
      else if service_in (odr_service r) [Active, Activating] then Mounting
      else Unmounted)"

text \<open>The delay between remounts; \<open>Duration\<close> saturates at its largest value.\<close>

record remount_backoff =
  rb_current :: duration
  rb_max :: duration

definition after_failure :: "duration \<Rightarrow> remount_backoff \<Rightarrow> remount_backoff" where
  "after_failure limit b = b\<lparr>rb_current := min (min (2 * rb_current b) limit) (rb_max b)\<rparr>"

definition after_success :: "remount_backoff \<Rightarrow> remount_backoff" where
  "after_success b = b\<lparr>rb_current := from_secs 5\<rparr>"

definition default_backoff :: remount_backoff where
  "default_backoff = \<lparr>rb_current = from_secs 5, rb_max = from_secs 300\<rparr>"

section \<open>Authentication of onedriver\<close>

datatype onedriver_auth_state = Unauthenticated | Authenticated path

definition onedriver_auth_state_of :: "path \<Rightarrow> ('e, onedriver_auth_state) prog" where
  "onedriver_auth_state_of config =
     bindP (path_is_file config) (\<lambda>b. ret (if b then Authenticated config else Unauthenticated))"

fun first_token_file :: "path \<Rightarrow> string list \<Rightarrow> ('e, onedriver_auth_state) prog" where
  "first_token_file directory [] = ret Unauthenticated"
| "first_token_file directory (n # ns) =
     bindP (tryP (next_entry n)) (\<lambda>entry.
       case entry of
         Inl _ \<Rightarrow> first_token_file directory ns
       | Inr name \<Rightarrow>
           (let token = path_join (path_join directory name) ''auth_tokens.json'' in
            bindP (path_is_file token) (\<lambda>b.
              if b then ret (Authenticated token) else first_token_file directory ns)))"

definition onedriver_auth_state_for_plan :: "onedriver_mount \<Rightarrow> ('e, onedriver_auth_state) prog" where
  "onedriver_auth_state_for_plan plan =
     bindP (onedriver_auth_state_of (om_config_file plan)) (\<lambda>config.
       if config \<noteq> Unauthenticated then ret config
       else
         let direct = path_join (om_cache_directory plan) ''auth_tokens.json'' in
         bindP (path_is_file direct) (\<lambda>b.
           if b then ret (Authenticated direct)
           else bindP (tryP (read_dir (om_cache_directory plan))) (\<lambda>entries.
             case entries of
               Inl _ \<Rightarrow> ret Unauthenticated
             | Inr names \<Rightarrow> first_token_file (om_cache_directory plan) names)))"

definition onedriver_cache_state_of :: "path \<Rightarrow> ('e, onedriver_cache_state) prog" where
  "onedriver_cache_state_of directory = (\<lambda>env w.
     (Inr (if e_fault env (tick w) = None \<and> fs_stat (files w) (components directory) = Some Dir
           then CachedReadOnlyCandidate else NoCache),
      w\<lparr>tick := Suc (tick w)\<rparr>))"

section \<open>The mountpoint guard\<close>

definition captured_bad :: "command_output \<Rightarrow> bool" where
  "captured_bad out = (co_truncated (out_stdout out) \<or> co_invalid_utf8 (out_stdout out))"

fun refuse_mounted :: "path \<Rightarrow> string list \<Rightarrow> unit res" where
  "refuse_mounted mountpoint [] = Inr ()"
| "refuse_mounted mountpoint (l # ls) =
     bind_res (map_err (\<lambda>e. Fl ''mount-guard-inspect-mounts'' [(''error'', e)]) (parse_mountinfo_line l)) (\<lambda>entry.
       if path_eq (me_target entry) mountpoint
       then Inl (Fl ''mount-guard-already-mounted'' [(''path'', Lit mountpoint)])
       else refuse_mounted mountpoint ls)"

definition guard_request :: "executable \<Rightarrow> string list \<Rightarrow> nat option \<Rightarrow> command_request res" where
  "guard_request exe arguments limit =
     map_err command_error_text
       (bind_res (add_args arguments (new_request exe)) (\<lambda>r.
          Inr (r\<lparr>req_timeout := from_secs 5,
                  req_output_limit := (case limit of Some n \<Rightarrow> n | None \<Rightarrow> req_output_limit r)\<rparr>)))"

definition check_empty_mountpoint :: "path \<Rightarrow> (msg, unit) prog" where
  "check_empty_mountpoint mountpoint =
     bindP (liftR (guard_request Cat [''/proc/self/mountinfo''] (Some (4 * 1024 * 1024)))) (\<lambda>r1.
     bindP (map_errP (\<lambda>e. Fl ''mount-guard-inspect-mounts'' [(''error'', command_error_text e)]) (run_cmd r1)) (\<lambda>mountinfo.
     if captured_bad mountinfo then fail (fl ''mount-guard-unreadable-table'')
     else
     seqP (liftR (refuse_mounted mountpoint (lines (co_text (out_stdout mountinfo)))))
    (bindP (liftR (guard_request Find [mountpoint, ''-maxdepth'', ''0'', ''-type'', ''d'', ''-print''] None)) (\<lambda>r2.
     bindP (map_errP (\<lambda>e. Fl ''mount-guard-inspect-directory'' [(''error'', command_error_text e)]) (run_cmd r2)) (\<lambda>directory.
     if captured_bad directory \<or> co_text (out_stdout directory) = []
     then fail (Fl ''mount-guard-not-directory'' [(''path'', Lit mountpoint)])
     else
     bindP (liftR (guard_request Find [mountpoint, ''-mindepth'', ''1'', ''-maxdepth'', ''1'', ''-print'', ''-quit''] (Some 4096))) (\<lambda>r3.
     bindP (map_errP (\<lambda>e. Fl ''mount-guard-inspect-contents'' [(''error'', command_error_text e)]) (run_cmd r3)) (\<lambda>entries.
     if captured_bad entries \<or> co_text (out_stdout entries) \<noteq> []
     then fail (Fl ''mount-guard-local-entries'' [(''path'', Lit mountpoint)])
     else ret ())))))))"

text \<open>The configuration that \<open>load_runtime\<close> finds is an argument: a storage, or the error of opening it.\<close>

definition run_service_guard ::
  "'u url_lib \<Rightarrow> ron_codec \<Rightarrow> msg + app_storage \<Rightarrow> (string \<Rightarrow> uuid option) \<Rightarrow> string list \<Rightarrow> (msg, unit) prog" where
  "run_service_guard U R storage parse_uuid arguments =
     (case arguments of
        [cid, mountpoint] \<Rightarrow>
          bindP (liftR (ok_or (fl ''mount-guard-invalid-id'') (parse_uuid cid))) (\<lambda>u.
          bindP (load_runtime U R storage) (\<lambda>report.
            if lr_source report \<noteq> SourceCurrent then fail (fl ''mount-guard-load-failed'')
            else
            bindP (liftR (ok_or (fl ''mount-guard-connection-removed'')
                (List.find (\<lambda>c. conn_id c = ConnectionId u) (connections (lr_config report))))) (\<lambda>c.
            if \<not> conn_enabled c \<or> \<not> is_online c \<or> \<not> path_eq (local_path c) mountpoint
            then fail (fl ''mount-guard-connection-changed'')
            else check_empty_mountpoint (local_path c))))
      | _ \<Rightarrow> fail (fl ''mount-guard-invalid-arguments''))"

end
