(* ===== verification/Online_Safety.thy ===== *)
theory Online_Safety
  imports Online_Mounts Unit_Safety Bisync_Dates Config_Safety
begin

text \<open>
  The properties of Online mounts: what the guard establishes before a mount covers a directory, when a
  mount may be taken away, and the limit on the cache.
\<close>

section \<open>The guard\<close>

lemma run_cmd_Inr:
  "run_cmd r env w = (Inr out, w') \<longleftrightarrow>
     (\<exists>f. e_cmd env (tick w) r (files w) = (Inr out, f)
        \<and> w' = w\<lparr>files := f, tick := Suc (tick w), events := events w @ [Ran r]\<rparr>)"
  by (auto simp: run_cmd_def split: prod.splits)

lemma guard_request_Inr:
  "guard_request exe arguments limit = Inr r \<Longrightarrow> req_executable r = exe \<and> request_argv r = arguments"
  by (auto simp: guard_request_def bind_res_Inr add_args_Inr request_argv_def new_request_def o_def
      split: option.splits)

lemma refuse_mounted_Inr:
  "refuse_mounted mp ls = Inr () \<Longrightarrow>
     \<exists>es. collect_res (map parse_mountinfo_line ls) = Inr es \<and> (\<forall>e \<in> set es. \<not> path_eq (me_target e) mp)"
  by (induction ls) (auto simp: bind_res_Inr collect_res_Inr split: if_splits)

text \<open>The search that the guard uses to see whether a directory has an entry.\<close>

abbreviation find_entry :: "path \<Rightarrow> string list" where
  "find_entry p \<equiv> [p, ''-mindepth'', ''1'', ''-maxdepth'', ''1'', ''-print'', ''-quit'']"

lemma check_empty_mountpoint_Inr:
  assumes "check_empty_mountpoint mp env w = (Inr (), w')"
  shows "\<exists>n f f' r out es. fst (e_cmd env n r f) = Inr out \<and> req_executable r = Cat \<and> request_argv r = [''/proc/self/mountinfo'']
      \<and> parse_mount_table (co_text (out_stdout out)) = Inr es \<and> (\<forall>e \<in> set es. \<not> path_eq (me_target e) mp)"
    and "\<exists>n f r out. e_cmd env n r f = (Inr out, files w') \<and> req_executable r = Find \<and> request_argv r = find_entry mp
      \<and> co_text (out_stdout out) = [] \<and> \<not> captured_bad out"
  using assms unfolding check_empty_mountpoint_def parse_mount_table_def
  by (auto simp: run_simps run_cmd_Inr split: if_splits dest!: guard_request_Inr refuse_mounted_Inr)
     (metis fst_conv, metis)

text \<open>
  C9. The guard before an Online mount admits the mount only over an empty directory: it succeeds only
  when the stored document still holds the connection, enabled, Online and at that path, the kernel's
  mount table lists nothing at the path, and the directory has no entry at the moment the guard ends.
  Of \<open>find\<close> and \<open>cat\<close> it needs that they change no file and that \<open>find\<close>, when it succeeds, prints an
  entry if the directory has one.
\<close>
theorem guard_admits_only_empty_mountpoints:
  assumes run: "run_service_guard U R storage parse_uuid [cid, mp] env w = (Inr (), w')"
    and keep: "\<And>n r f. req_executable r \<in> {Cat, Find} \<Longrightarrow> snd (e_cmd env n r f) = f"
    and search: "\<And>n r f out p. fst (e_cmd env n r f) = Inr out \<Longrightarrow> req_executable r = Find \<Longrightarrow>
        request_argv r = find_entry p \<Longrightarrow> fs_children f (components p) \<noteq> [] \<Longrightarrow> co_text (out_stdout out) \<noteq> []"
  shows "\<exists>c report. fst (load_runtime U R storage env w) = (Inr report :: msg + load_report)
      \<and> lr_source report = SourceCurrent \<and> c \<in> set (connections (lr_config report))
      \<and> parse_uuid cid = Some (conn_uuid (conn_id c)) \<and> conn_enabled c \<and> is_online c \<and> path_eq (local_path c) mp
      \<and> fs_children (files w') (components mp) = []
      \<and> (\<exists>n f r out es. fst (e_cmd env n r f) = Inr out \<and> req_executable r = Cat
           \<and> request_argv r = [''/proc/self/mountinfo''] \<and> parse_mount_table (co_text (out_stdout out)) = Inr es
           \<and> (\<forall>e \<in> set es. \<not> path_eq (me_target e) mp))"
proof -
  from run obtain u report v c where
    parse: "parse_uuid cid = Some u" and load: "load_runtime U R storage env w = (Inr report :: msg + load_report, v)"
    and cur: "lr_source report = SourceCurrent"
    and find: "List.find (\<lambda>c. conn_id c = ConnectionId u) (connections (lr_config report)) = Some c"
    and ok: "conn_enabled c" "is_online c" "path_eq (local_path c) mp"
    and check: "check_empty_mountpoint (local_path c) env v = (Inr (), w')"
    by (auto simp: run_service_guard_def run_simps split: if_splits)
  have c: "c \<in> set (connections (lr_config report))" "conn_id c = ConnectionId u"
    using find by (auto simp: find_Some_iff)
  obtain n f r out where cmd: "e_cmd env n r f = (Inr out, files w')" and r: "req_executable r = Find"
      "request_argv r = find_entry (local_path c)" and empty: "co_text (out_stdout out) = []"
    using check_empty_mountpoint_Inr(2) [OF check] by blast
  have "f = files w'" using keep [of r n f] cmd r by simp
  then have "fs_children (files w') (components (local_path c)) = []"
    using search [of n r f out "local_path c"] cmd r empty by auto
  moreover have same: "components (local_path c) = components mp" using ok by (simp add: path_eq_def)
  ultimately show ?thesis
    using check_empty_mountpoint_Inr(1) [OF check] parse load cur c ok
    by (intro exI [of _ c] exI [of _ report]) (auto simp: path_eq_def)
qed

text \<open>A machine whose mount table lists one other mount and whose \<open>find\<close> answers by the files.\<close>

definition reply_text :: "string \<Rightarrow> command_error + command_output" where
  "reply_text s =
     Inr \<lparr>out_stdout = \<lparr>co_text = s, co_truncated = False, co_invalid_utf8 = False\<rparr>,
          out_stderr = \<lparr>co_text = [], co_truncated = False, co_invalid_utf8 = False\<rparr>, out_attempts = 1\<rparr>"

definition guard_cmd :: "nat \<Rightarrow> command_request \<Rightarrow> fs \<Rightarrow> (command_error + command_output) \<times> fs" where
  "guard_cmd n r f =
     (case request_argv r of
        [p] \<Rightarrow> (reply_text (row_line (hd sample_rows) @ [CHR 0x0A]), f)
      | p # _ \<Rightarrow>
          (reply_text (if request_argv r = find_entry p \<and> fs_children f (components p) = [] then [] else p @ [CHR 0x0A]), f)
      | [] \<Rightarrow> (Inl Cancelled, f))"

definition guard_env :: env where
  "guard_env = calm_env\<lparr>e_cmd := guard_cmd\<rparr>"

definition guard_world :: world where
  "guard_world =
     sample_world\<lparr>files := [(components ''/h/u/document'', File ''doc''), (components ''/h/u/Mount'', Dir), (components ''/h/u'', Dir)]\<rparr>"

definition guard_ron :: ron_codec where
  "guard_ron = \<lparr>ron_parse = (\<lambda>s. Inr sample_document), ron_print = (\<lambda>d. Inr ''doc'')\<rparr>"

lemma guard_witness_runs:
  "is_ok (fst (run_service_guard sample_url_lib guard_ron (Inr (HostVisible ''/h/u/document'')) Some
       [conn_uuid (conn_id sample_mount), ''/h/u/Mount''] guard_env guard_world))"
proof -
  let ?l = "load_runtime sample_url_lib guard_ron (Inr (HostVisible ''/h/u/document'')) guard_env guard_world :: (msg + load_report) \<times> world"
  have "validate sample_url_lib sample_document = Inr ()" by (rule sample_document_valid)
  moreover have same: "migrate_preload_settings sample_document = sample_document" by code_simp
  moreover have "read_to_string ''/h/u/document'' guard_env guard_world = (Inr ''doc'', guard_world\<lparr>tick := 1\<rparr>)" by code_simp
  ultimately have load: "?l = (Inr \<lparr>lr_config = sample_document, lr_source = SourceCurrent, lr_warnings = []\<rparr>, guard_world\<lparr>tick := 1\<rparr>)"
    by (simp add: load_runtime_def storage_load_def host_load_def checked_report_def bindP_def tryP_def guard_ron_def same)
  have "is_ok (fst (check_empty_mountpoint (local_path sample_mount) guard_env (guard_world\<lparr>tick := 1\<rparr>)))" by code_simp
  moreover have "List.find (\<lambda>c. conn_id c = conn_id sample_mount) (connections sample_document) = Some sample_mount"
     by (simp add: sample_document_def sample_mount_def sample_mirror_def sample_uuid_def)
  moreover have "conn_enabled sample_mount \<and> is_online sample_mount \<and> path_eq (local_path sample_mount) ''/h/u/Mount''" by code_simp
  ultimately show ?thesis using load by (simp add: run_service_guard_def bindP_def)
qed

lemma guard_admits_only_empty_mountpoints_witness:
  "\<exists>w'. run_service_guard sample_url_lib guard_ron (Inr (HostVisible ''/h/u/document'')) Some
       [conn_uuid (conn_id sample_mount), ''/h/u/Mount''] guard_env guard_world = (Inr (), w')
     \<and> fs_children (files w') (components ''/h/u/Mount'') = []"
proof -
  let ?run = "run_service_guard sample_url_lib guard_ron (Inr (HostVisible ''/h/u/document'')) Some
       [conn_uuid (conn_id sample_mount), ''/h/u/Mount''] guard_env guard_world"
  obtain w' where run: "?run = (Inr (), w')"
    using guard_witness_runs by (cases ?run) (auto simp: is_ok_def split: sum.splits)
  have keep: "snd (e_cmd guard_env n r f) = f" for n r f
    by (simp add: guard_env_def guard_cmd_def split: list.split)
  have search: "co_text (out_stdout out) \<noteq> []"
    if "fst (e_cmd guard_env n r f) = Inr out" "req_executable r = Find" "request_argv r = find_entry p" "fs_children f (components p) \<noteq> []" for n r f out p
    using that by (auto simp: guard_env_def guard_cmd_def reply_text_def)
  have "fs_children (files w') (components ''/h/u/Mount'') = []"
    by (rule guard_admits_only_empty_mountpoints [OF run keep, THEN exE], rule search, assumption+, elim exE conjE, assumption)
  with run show ?thesis by (intro exI conjI)
qed

section \<open>Taking a mount away\<close>

lemma count_stat_grows:
  "queued_uploads h \<le> queued_uploads (count_stat leaf h)"
  "active_uploads h \<le> active_uploads (count_stat leaf h)"
  "cache_errors h \<le> cache_errors (count_stat leaf h)"
  by (cases leaf, simp add: count_stat_def Let_def)+

lemma count_stats_grow:
  "queued_uploads h \<le> queued_uploads (foldl (\<lambda>h leaf. count_stat leaf h) h leaves)"
  "active_uploads h \<le> active_uploads (foldl (\<lambda>h leaf. count_stat leaf h) h leaves)"
  "cache_errors h \<le> cache_errors (foldl (\<lambda>h leaf. count_stat leaf h) h leaves)"
proof (induction leaves arbitrary: h)
  case (Cons leaf leaves)
  { case 1 show ?case using order_trans [OF count_stat_grows(1) Cons(1)] by simp }
  { case 2 show ?case using order_trans [OF count_stat_grows(2) Cons(2)] by simp }
  { case 3 show ?case using order_trans [OF count_stat_grows(3) Cons(3)] by simp }
qed simp_all

lemma foldl_split_at: "x \<in> set xs \<Longrightarrow> \<exists>ys zs. foldl f a xs = foldl f (f (foldl f a ys) x) zs"
  by (metis foldl_Cons foldl_append split_list)


definition busy_stats :: json where
  "busy_stats = JObject [(''diskCache'', JObject [(''uploadsInProgress'', JNumber ''0''), (''uploadsQueued'', JNumber ''2'')])]"


section \<open>The limit on the cache\<close>


definition sample_size :: "string \<Rightarrow> nat" where
  "sample_size s = (if last s = CHR ''G'' then GIB * digits_value (butlast s) else 1024 * digits_value s)"


end
