(* ===== verification/Legacy_Import.thy ===== *)
theory Legacy_Import
  imports Online_Mounts Unit_Rendering
begin

text \<open>
  The import of existing units of rclone and onedriver mounts (\<open>src/src/import.rs\<close>): reading a unit
  file, recognizing its engine, translating its command line into a connection, and the plan that
  replaces it.
\<close>

section \<open>Data\<close>

datatype import_error =
    ImpReadDirectory msg
  | ImpReadUnit path msg
  | ImpMalformed msg
  | ImpUnsupported msg
  | ImpConflict msg

fun import_error_text :: "import_error \<Rightarrow> msg" where
  "import_error_text (ImpReadDirectory e) = Fl ''ui-import-failed-to-scan-units-error'' [(''error'', e)]"
| "import_error_text (ImpReadUnit p e) =
     Fl ''ui-import-failed-to-read-value1-error'' [(''value1'', Lit p), (''error'', e)]"
| "import_error_text (ImpMalformed e) = Fl ''ui-import-malformed-unit-error'' [(''error'', e)]"
| "import_error_text (ImpUnsupported e) = Fl ''ui-import-unsupported-unit-error'' [(''error'', e)]"
| "import_error_text (ImpConflict e) = Fl ''ui-import-conflicting-import-error'' [(''error'', e)]"

datatype legacy_engine = RcloneMountEngine | OnedriverEngine

record legacy_unit =
  lu_path :: path
  lu_name :: string
  lu_description :: "string option"
  lu_wanted_by :: "string list"
  lu_exec_start :: "string list"
  lu_unsupported :: "string list"

record parsed_legacy =
  pl_provider :: provider
  pl_remote_reference :: string
  pl_remote_subpath :: "string option"
  pl_local_target :: path
  pl_cache_directory :: "path option"
  pl_unsupported :: "string list"

record import_preview =
  ip_original_path :: path
  ip_unit_name :: string
  ip_engine :: legacy_engine
  ip_provider :: provider
  ip_remote_reference :: string
  ip_remote_subpath :: "string option"
  ip_local_target :: path
  ip_cache_directory :: "path option"
  ip_start_at_login :: bool
  ip_unsupported :: "string list"
  ip_active_conflict :: bool
  ip_target_conflict :: bool
  ip_connection :: connection

record import_replacement =
  ir_preview :: import_preview
  ir_managed_service :: unit_document
  ir_preserve_original :: bool
  ir_disable_original :: bool

type_synonym backends = "(string \<times> provider) list"

definition default_scan_directory :: "path \<Rightarrow> path" where
  "default_scan_directory home = path_join home ''.config/systemd/user''"

section \<open>Unit files\<close>

text \<open>
  A line that ends in backslashes continues on the next one, joined by a space; a piece is trimmed at
  its end before and after its backslashes are dropped.
\<close>

fun logical_from :: "string \<Rightarrow> string list \<Rightarrow> string list" where
  "logical_from current [] = (if current \<noteq> [] then [current] else [])"
| "logical_from current (raw # rest) =
     (let line = trim_end raw;
          part = trim_end (trim_end_char (CHR 0x5C) line);
          joined = (if current \<noteq> [] then current @ '' '' else current) @ part
      in if line \<noteq> [] \<and> last line = CHR 0x5C then logical_from joined rest
         else joined # logical_from [] rest)"

definition logical_lines :: "string \<Rightarrow> string list" where
  "logical_lines content = logical_from [] (lines content)"

text \<open>The characters of a command line: outside quotes white space separates, a backslash takes the next character as it is.\<close>

record lexer =
  lx_tokens :: "string list"
  lx_current :: string
  lx_quote :: "string option"
  lx_escaped :: bool

definition lex_char :: "string \<Rightarrow> lexer \<Rightarrow> lexer" where
  "lex_char g l =
     (if lx_escaped l then l\<lparr>lx_current := lx_current l @ g, lx_escaped := False\<rparr>
      else if g = [CHR 0x5C] then l\<lparr>lx_escaped := True\<rparr>
      else if (g = [CHR 0x27] \<or> g = [CHR 0x22]) \<and> lx_quote l = Some g then l\<lparr>lx_quote := None\<rparr>
      else if (g = [CHR 0x27] \<or> g = [CHR 0x22]) \<and> lx_quote l = None then l\<lparr>lx_quote := Some g\<rparr>
      else if is_white_space g \<and> lx_quote l = None
      then (if lx_current l \<noteq> [] then l\<lparr>lx_tokens := lx_tokens l @ [lx_current l], lx_current := []\<rparr> else l)
      else l\<lparr>lx_current := lx_current l @ g\<rparr>)"

definition lex_chars :: "string list \<Rightarrow> lexer \<Rightarrow> lexer" where
  "lex_chars gs l = foldl (\<lambda>l g. lex_char g l) l gs"

definition unsafe_token :: "string \<Rightarrow> bool" where
  "unsafe_token t = (CHR 0x00 \<in> set t \<or> CHR 0x0A \<in> set t \<or> CHR 0x0D \<in> set t)"

definition tokenize_systemd_exec :: "string \<Rightarrow> import_error + string list" where
  "tokenize_systemd_exec v =
     (let l = lex_chars (utf8_chars v) \<lparr>lx_tokens = [], lx_current = [], lx_quote = None, lx_escaped = False\<rparr>
      in if lx_quote l \<noteq> None \<or> lx_escaped l
         then Inl (ImpMalformed (fl ''ui-import-unterminated-quoting-or-escape''))
         else
           let tokens = lx_tokens l @ (if lx_current l \<noteq> [] then [lx_current l] else [])
           in if list_ex unsafe_token tokens
              then Inl (ImpMalformed (fl ''ui-import-unsafe-control-character'')) else Inr tokens)"

text \<open>The values of a unit by \<open>section.key\<close>, in the order of the keys.\<close>

type_synonym unit_values = "(string \<times> string list) list"

fun push_value :: "string \<Rightarrow> string \<Rightarrow> unit_values \<Rightarrow> unit_values" where
  "push_value k v [] = [(k, [v])]"
| "push_value k v ((k', vs) # rest) =
     (if k = k' then (k', vs @ [v]) # rest
      else if k < k' then (k, [v]) # (k', vs) # rest
      else (k', vs) # push_value k v rest)"

definition trim_brackets :: "string \<Rightarrow> string" where
  "trim_brackets s =
     (let bracket = (\<lambda>c. c = CHR ''['' \<or> c = CHR '']'')
      in rev (dropWhile bracket (rev (dropWhile bracket s))))"

fun scan_values :: "string \<Rightarrow> unit_values \<Rightarrow> string list \<Rightarrow> import_error + unit_values" where
  "scan_values section values [] = Inr values"
| "scan_values section values (logical # rest) =
     (let line = trim logical in
      if line = [] \<or> prefix ''#'' line \<or> prefix '';'' line then scan_values section values rest
      else if prefix ''['' line \<and> last line = CHR '']'' then scan_values (trim_brackets line) values rest
      else
        case split_once ''='' line of
          None \<Rightarrow> Inl (ImpMalformed (Fl ''ui-import-line-lacks-line'' [(''line'', Lit line)]))
        | Some (key, v) \<Rightarrow> scan_values section (push_value (section @ ''.'' @ key) (trim v) values) rest)"

definition supported_options :: "string list" where
  "supported_options =
     [''Unit.Description'', ''Unit.Documentation'', ''Unit.After'', ''Unit.Wants'', ''Service.Type'',
      ''Service.ExecStart'', ''Service.ExecStartPre'', ''Service.ExecStop'', ''Service.ExecStopPost'',
      ''Service.Restart'', ''Service.RestartSec'', ''Install.WantedBy'']"

definition unsupported_service_options :: "unit_values \<Rightarrow> string list" where
  "unsupported_service_options values = filter (\<lambda>k. k \<notin> set supported_options) (map fst values)"

definition parse_unit :: "path \<Rightarrow> string \<Rightarrow> import_error + legacy_unit" where
  "parse_unit p content =
     bind_res (scan_values [] [] (logical_lines content)) (\<lambda>values.
     bind_res (case map_of values ''Service.ExecStart'' of
                 Some (v # _) \<Rightarrow> tokenize_systemd_exec v
               | _ \<Rightarrow> Inl (ImpUnsupported (fl ''ui-import-missing-execstart''))) (\<lambda>exec.
       Inr \<lparr>lu_path = p, lu_name = (case path_file_name p of Some n \<Rightarrow> n | None \<Rightarrow> []),
            lu_description = (case map_of values ''Unit.Description'' of Some (d # _) \<Rightarrow> Some d | _ \<Rightarrow> None),
            lu_wanted_by = (case map_of values ''Install.WantedBy'' of Some ws \<Rightarrow> ws | None \<Rightarrow> []),
            lu_exec_start = exec,
            lu_unsupported = unsupported_service_options values\<rparr>))"

definition classify_unit :: "legacy_unit \<Rightarrow> import_error + legacy_engine" where
  "classify_unit u =
     (case lu_exec_start u of
        [] \<Rightarrow> Inl (ImpUnsupported (fl ''ui-import-empty-execstart''))
      | executable # rest \<Rightarrow>
          (let binary = (case path_file_name executable of Some n \<Rightarrow> n | None \<Rightarrow> executable) in
           if binary = ''rclone'' \<and> (case rest of sub # _ \<Rightarrow> sub = ''mount'' | [] \<Rightarrow> False) then Inr RcloneMountEngine
           else if binary = ''onedriver'' then Inr OnedriverEngine
           else Inl (ImpUnsupported (Fl ''ui-import-unsupported-executable-executable'' [(''executable'', Lit executable)]))))"

section \<open>Command lines\<close>

definition expand_home :: "string \<Rightarrow> path \<Rightarrow> path" where
  "expand_home v home =
     (if v = ''%h'' then home
      else if prefix ''%h/'' v then path_join home (drop 3 v)
      else v)"

definition parse_remote :: "string \<Rightarrow> import_error + (string \<times> string option)" where
  "parse_remote v =
     (case split_once '':'' v of
        None \<Rightarrow> Inl (ImpMalformed (fl ''ui-import-rclone-remote-lacks''))
      | Some (reference, subpath) \<Rightarrow>
          if reference = [] \<or> has_control_char reference
          then Inl (ImpMalformed (fl ''ui-import-invalid-remote-reference''))
          else Inr (reference, if subpath = [] then None else Some subpath))"

definition ignored_mount_options :: "string list" where
  "ignored_mount_options =
     [''--vfs-cache-mode'', ''--vfs-cache-max-age'', ''--vfs-cache-max-size'', ''--vfs-cache-poll-interval'',
      ''--dir-cache-time'', ''--timeout'', ''--contimeout'', ''--low-level-retries'', ''--retries'',
      ''--retries-sleep'', ''--umask'', ''--log-level'', ''--poll-interval'', ''--log-file'']"

text \<open>An option takes the next argument as its value unless that starts with two dashes.\<close>

fun skip_value :: "string list \<Rightarrow> string list" where
  "skip_value [] = []"
| "skip_value (v # rest) = (if prefix ''--'' v then v # rest else rest)"

lemma skip_value_length: "length (skip_value xs) \<le> length xs"
  by (cases xs) auto

function mount_options ::
  "path \<Rightarrow> string list \<Rightarrow> path option \<Rightarrow> string list \<Rightarrow> import_error + (path option \<times> string list)" where
  "mount_options home [] cache unsupported = Inr (cache, unsupported)"
| "mount_options home (option # rest) cache unsupported =
     (if option = ''--config'' then
        (case rest of
           [] \<Rightarrow> Inl (ImpMalformed (Lit ''rclone --config lacks a path''))
         | v # rest' \<Rightarrow>
             if \<not> path_eq (expand_home v home) (path_join home ''.config/rclone/rclone.conf'')
             then Inl (ImpUnsupported (fl ''ui-import-legacy-service-uses-a-non-default-rclone''))
             else mount_options home rest' cache unsupported)
      else if option = ''--cache-dir'' then
        (case rest of
           v # rest' \<Rightarrow> mount_options home rest' (Some (expand_home v home)) unsupported
         | [] \<Rightarrow> mount_options home [] cache (unsupported @ [option]))
      else if option \<in> set ignored_mount_options then mount_options home (skip_value rest) cache unsupported
      else if prefix ''--'' option then mount_options home (skip_value rest) cache (unsupported @ [option])
      else mount_options home rest cache (unsupported @ [option]))"
  by pat_completeness auto
termination
  by (relation "measure (\<lambda>(home, args, cache, unsupported). length args)")
     (auto simp: less_Suc_eq_le skip_value_length)

definition parse_rclone_mount :: "legacy_unit \<Rightarrow> path \<Rightarrow> backends \<Rightarrow> import_error + parsed_legacy" where
  "parse_rclone_mount u home backends =
     (case lu_exec_start u of
        exe # sub # remote # target # options \<Rightarrow>
          bind_res (parse_remote remote) (\<lambda>(reference, subpath).
          bind_res (ok_or (ImpUnsupported (Fl ''ui-import-rclone-remote-remote-reference-has-no-configured''
                              [(''remote_reference'', Lit reference)]))
                     (map_of backends reference)) (\<lambda>p.
          bind_res (mount_options home options None (lu_unsupported u)) (\<lambda>(cache, unsupported).
            Inr \<lparr>pl_provider = p, pl_remote_reference = reference, pl_remote_subpath = subpath,
                 pl_local_target = expand_home target home, pl_cache_directory = cache,
                 pl_unsupported = unsupported\<rparr>)))
      | _ \<Rightarrow> Inl (ImpMalformed (fl ''ui-import-rclone-mount-requires-remote-and-target'')))"

function onedriver_options ::
  "path \<Rightarrow> string list \<Rightarrow> path option \<Rightarrow> path option \<Rightarrow> string list \<Rightarrow> path option \<times> path option \<times> string list" where
  "onedriver_options home [] cache target unsupported = (cache, target, unsupported)"
| "onedriver_options home (option # rest) cache target unsupported =
     (if option = ''--cache-dir'' then
        (case rest of
           v # rest' \<Rightarrow> onedriver_options home rest' (Some (expand_home v home)) target unsupported
         | [] \<Rightarrow> onedriver_options home [] cache target (unsupported @ [''--cache-dir'']))
      else if option = ''--config-file'' \<or> option = ''--auth-only''
      then onedriver_options home (skip_value rest) cache target unsupported
      else if prefix ''--'' option then onedriver_options home (skip_value rest) cache target (unsupported @ [option])
      else onedriver_options home rest cache (Some (expand_home option home)) unsupported)"
  by pat_completeness auto
termination
  by (relation "measure (\<lambda>(home, args, cache, target, unsupported). length args)")
     (auto simp: less_Suc_eq_le skip_value_length)

definition parse_onedriver :: "legacy_unit \<Rightarrow> path \<Rightarrow> import_error + parsed_legacy" where
  "parse_onedriver u home =
     (case onedriver_options home (tl (lu_exec_start u)) None None (lu_unsupported u) of
        (cache, target, unsupported) \<Rightarrow>
          bind_res (ok_or (ImpMalformed (fl ''ui-import-onedriver-target-missing'')) target) (\<lambda>t.
            Inr \<lparr>pl_provider = OneDrive, pl_remote_reference = ''onedrive'', pl_remote_subpath = None,
                 pl_local_target = t, pl_cache_directory = cache, pl_unsupported = unsupported\<rparr>))"

section \<open>Discovery\<close>

definition path_extension :: "path \<Rightarrow> string option" where
  "path_extension p =
     (case path_file_name p of
        None \<Rightarrow> None
      | Some n \<Rightarrow> (case rfind_char (CHR ''.'') n of
                    None \<Rightarrow> None | Some i \<Rightarrow> if i = 0 then None else Some (drop (Suc i) n)))"

fun scan_entries :: "path \<Rightarrow> string list \<Rightarrow> (import_error, legacy_unit list) prog" where
  "scan_entries directory [] = ret []"
| "scan_entries directory (n # ns) =
     bindP (map_errP (\<lambda>e. ImpReadDirectory (io_text e)) (next_entry n)) (\<lambda>name.
     let p = path_join directory name in
     if path_extension p \<noteq> Some ''service'' then scan_entries directory ns
     else
     bindP (map_errP (\<lambda>e. ImpReadUnit p (io_text e)) (read_to_string p)) (\<lambda>content.
     bindP (scan_entries directory ns) (\<lambda>units.
       ret (case parse_unit p content of
              Inr u \<Rightarrow> (if is_ok (classify_unit u) then u # units else units)
            | Inl _ \<Rightarrow> units))))"

definition scan_legacy_units :: "path \<Rightarrow> (import_error, legacy_unit list) prog" where
  "scan_legacy_units directory =
     bindP (map_errP (\<lambda>e. ImpReadDirectory (io_text e)) (read_dir directory)) (\<lambda>names.
     bindP (scan_entries directory names) (\<lambda>units. ret (sort_key lu_name units)))"

definition backend_entry :: "string \<times> json \<Rightarrow> (string \<times> provider) option" where
  "backend_entry entry =
     (case Option.bind (json_get ''type'' (snd entry)) as_str of
        None \<Rightarrow> None
      | Some t \<Rightarrow>
          if t = ''drive'' then Some (fst entry, GoogleDrive)
          else if t = ''box'' then Some (fst entry, Box)
          else if t = ''smb'' then Some (fst entry, Smb)
          else if t = ''sftp'' then Some (fst entry, Sftp)
          else None)"

definition parse_rclone_backends :: "(string \<Rightarrow> string + json) \<Rightarrow> string \<Rightarrow> import_error + backends" where
  "parse_rclone_backends parse output =
     bind_res (map_err (\<lambda>_. ImpMalformed (fl ''ui-import-rclone-config-dump-is-not-valid-json'')) (parse output)) (\<lambda>v.
       case v of
         JObject members \<Rightarrow> Inr (List.map_filter backend_entry members)
       | _ \<Rightarrow> Inl (ImpMalformed (fl ''ui-import-rclone-config-dump-did-not-return-an'')))"

section \<open>Preview and replacement\<close>

definition import_paths_overlap :: "path \<Rightarrow> path \<Rightarrow> bool" where
  "import_paths_overlap a b = (path_eq a b \<or> path_starts_with a b \<or> path_starts_with b a)"

function trim_end_text :: "string \<Rightarrow> string \<Rightarrow> string" where
  "trim_end_text t s =
     (if t \<noteq> [] \<and> suffix t s then trim_end_text t (take (length s - length t) s) else s)"
  by auto
termination
  by (relation "measure (\<lambda>(t, s). length s)") (auto simp: suffix_def)

declare trim_end_text.simps [simp del]

definition preview_import ::
  "connection_id \<Rightarrow> legacy_unit \<Rightarrow> connection list \<Rightarrow> string list \<Rightarrow> path \<Rightarrow> backends \<Rightarrow> import_error + import_preview" where
  "preview_import new_id u existing active_units home backends =
     bind_res (classify_unit u) (\<lambda>engine.
     bind_res (case engine of
                 RcloneMountEngine \<Rightarrow> parse_rclone_mount u home backends
               | OnedriverEngine \<Rightarrow> parse_onedriver u home) (\<lambda>parsed.
     let login = (''default.target'' \<in> set (lu_wanted_by u));
         c = \<lparr>conn_id = new_id,
              conn_name = (case lu_description u of
                  Some d \<Rightarrow> d
                | None \<Rightarrow> str_replace ''-'' '' '' (trim_end_text ''.service'' (lu_name u))),
              conn_provider = pl_provider parsed,
              conn_mode = OnlineMount (default_online_mount
                \<lparr>cache_directory := pl_cache_directory parsed, start_at_login := login\<rparr>),
              remote_reference = pl_remote_reference parsed, remote_subpath = pl_remote_subpath parsed,
              local_path = pl_local_target parsed, conn_enabled = True, vpn_profile_id = None,
              disconnect_vpn_when_unused = False, conn_tuning_profile = Balanced,
              smb_preload_override = None, sftp_preload_override = None, teams_identity = None,
              conn_onedrive_identity = None\<rparr>
     in Inr \<lparr>ip_original_path = lu_path u, ip_unit_name = lu_name u, ip_engine = engine,
             ip_provider = conn_provider c, ip_remote_reference = remote_reference c,
             ip_remote_subpath = remote_subpath c, ip_local_target = local_path c,
             ip_cache_directory = pl_cache_directory parsed, ip_start_at_login = login,
             ip_unsupported = pl_unsupported parsed,
             ip_active_conflict = (lu_name u \<in> set active_units),
             ip_target_conflict = list_ex (\<lambda>c. import_paths_overlap (local_path c) (pl_local_target parsed)) existing,
             ip_connection = c\<rparr>))"

definition replacement_plan ::
  "(msg \<Rightarrow> string) \<Rightarrow> exec_env \<Rightarrow> 'u url_lib \<Rightarrow> json_codec \<Rightarrow> import_preview \<Rightarrow> bool \<Rightarrow> bool \<Rightarrow> bool \<Rightarrow> path \<Rightarrow> path \<Rightarrow> path
     \<Rightarrow> import_error + import_replacement" where
  "replacement_plan tr X U J preview confirmed preserve disable runtime_directory cache_root config_root =
     (if \<not> confirmed then Inl (ImpConflict (fl ''ui-import-import-requires-confirmation''))
      else if ip_active_conflict preview \<or> ip_target_conflict preview
      then Inl (ImpConflict (fl ''ui-import-active-service-or-local-target-conflict-must''))
      else
      bind_res (case ip_engine preview of
          RcloneMountEngine \<Rightarrow>
            map_err (\<lambda>e. ImpUnsupported (provider_error_text e))
              (bind_res (rclone_mount_plan X U J (ip_connection preview) runtime_directory cache_root) (\<lambda>m. Inr (rm_service m)))
        | OnedriverEngine \<Rightarrow>
            map_err (\<lambda>e. ImpUnsupported (provider_error_text e))
              (bind_res (onedriver_mount_plan X (ip_connection preview) cache_root config_root) (\<lambda>m. Inr (om_service m)))) (\<lambda>service.
      bind_res (map_err (\<lambda>e. ImpMalformed (service_error_text e)) (render_service tr X service)) (\<lambda>document.
        Inr \<lparr>ir_preview = preview, ir_managed_service = document, ir_preserve_original = preserve,
             ir_disable_original = disable\<rparr>)))"

end
