(* ===== verification/Import_Safety.thy ===== *)
theory Import_Safety
  imports Legacy_Import Online_Safety
begin

text \<open>
  The properties of the import: what the importer reads back from command lines that the applet's own
  renderer writes, and when a replacement is planned.
\<close>

section \<open>Encoded characters of escaped text\<close>

definition whole_char :: "string \<Rightarrow> bool" where
  "whole_char g = (utf8_chars g = [g] \<and> utf8_complete g)"

lemma utf8_complete_chars: "utf8_complete s \<Longrightarrow> g \<in> set (utf8_chars s) \<Longrightarrow> whole_char g"
proof -
  assume s: "utf8_complete s" and g: "g \<in> set (utf8_chars s)"
  obtain c t where ct: "g = c # t" using utf8_chars_nonempty [OF g] by (cases g) auto
  have "length g = utf8_len c" and tl: "\<forall>x \<in> set t. 128 \<le> (of_char x :: nat)"
    using s g ct by (auto simp: utf8_complete_def)
  with ct have "utf8_chars g = [g]" by simp
  with tl ct \<open>length g = utf8_len c\<close> show ?thesis by (simp add: whole_char_def utf8_complete_def)
qed

lemma utf8_chars_concat: "\<forall>g \<in> set gs. whole_char g \<Longrightarrow> utf8_chars (concat gs) = gs"
  by (induction gs) (auto simp: whole_char_def utf8_chars_append)

lemma whole_ascii: "(of_char c :: nat) < 128 \<Longrightarrow> whole_char [c]"
  by (simp add: whole_char_def utf8_complete_def utf8_len_def)

lemma whole_char_cases: "whole_char g \<Longrightarrow> c \<in> set g \<Longrightarrow> (of_char c :: nat) < 128 \<Longrightarrow> g = [c]"
  using ascii_byte_char [of g c] by (simp add: whole_char_def)

lemma str_replace_char: "str_replace [c] r s = concat (map (\<lambda>x. if x = c then r else [x]) s)"
  by (induction s) auto

definition escape_group :: "string \<Rightarrow> string list" where
  "escape_group g =
     (if g = ''%'' then [''%'', ''%''] else if g = [CHR 0x5C] then [[CHR 0x5C], [CHR 0x5C]]
      else if g = [CHR 0x22] then [[CHR 0x5C], [CHR 0x22]] else [g])"

definition double_percent :: "string \<Rightarrow> string" where
  "double_percent v = str_replace ''%'' ''%%'' v"

lemma escape_text_bytes:
  "escape_text v = concat (map (\<lambda>x. if x = CHR ''%'' then ''%%'' else if x = CHR 0x5C then [CHR 0x5C, CHR 0x5C]
     else if x = CHR 0x22 then [CHR 0x5C, CHR 0x22] else [x]) v)"
  unfolding escape_text_def str_replace_char by (induction v) auto

lemma escape_whole: "whole_char g \<Longrightarrow> escape_text g = concat (escape_group g)"
proof -
  assume g: "whole_char g"
  show ?thesis
  proof (cases "\<exists>c \<in> {CHR ''%'', CHR 0x5C, CHR 0x22}. c \<in> set g")
    case True
    then obtain c where c: "c \<in> {CHR ''%'', CHR 0x5C, CHR 0x22}" "g = [c]"
      using whole_char_cases [OF g] by fastforce
    then show ?thesis by (auto simp: escape_text_bytes escape_group_def)
  next
    case False
    then have "escape_text g = concat (map (\<lambda>x. [x]) g)"
      unfolding escape_text_bytes by (intro arg_cong [where f = concat] map_cong) auto
    with False show ?thesis by (auto simp: escape_group_def)
  qed
qed

lemma whole_escape_group: "whole_char g \<Longrightarrow> h \<in> set (escape_group g) \<Longrightarrow> whole_char h"
  by (auto simp: escape_group_def whole_ascii split: if_splits)

lemma escape_text_append: "escape_text (a @ b) = escape_text a @ escape_text b"
  by (simp add: escape_text_bytes)

lemma escape_text_groups:
  "\<forall>g \<in> set gs. whole_char g \<Longrightarrow> escape_text (concat gs) = concat (concat (map escape_group gs))"
proof (induction gs)
  case Nil
  show ?case by (simp add: escape_text_bytes)
next
  case (Cons g gs)
  then show ?case by (simp add: escape_text_append escape_whole)
qed

lemma utf8_chars_escaped:
  assumes "utf8_complete v"
  shows "utf8_chars (escape_text v) = concat (map escape_group (utf8_chars v))" "utf8_complete (escape_text v)"
proof -
  have gs: "\<forall>g \<in> set (utf8_chars v). whole_char g" using utf8_complete_chars [OF assms] by blast
  have h: "\<forall>h \<in> set (concat (map escape_group (utf8_chars v))). whole_char h"
    using gs whole_escape_group by fastforce
  have e: "escape_text v = concat (concat (map escape_group (utf8_chars v)))"
    using escape_text_groups [OF gs] by simp
  show c: "utf8_chars (escape_text v) = concat (map escape_group (utf8_chars v))"
    unfolding e using utf8_chars_concat [OF h] .
  have "length g = utf8_len (hd g) \<and> (\<forall>c \<in> set (tl g). 128 \<le> (of_char c :: nat))" if "whole_char g" for g
    using that unfolding whole_char_def utf8_complete_def by auto
  with h show "utf8_complete (escape_text v)" unfolding utf8_complete_def c by blast
qed

lemma double_percent_append: "double_percent (a @ b) = double_percent a @ double_percent b"
  by (simp add: double_percent_def str_replace_char)

lemma double_percent_plain: "CHR ''%'' \<notin> set g \<Longrightarrow> double_percent g = g"
  unfolding double_percent_def str_replace_char by (induction g) auto

section \<open>Tokens of a rendered command line\<close>

lemma lex_chars_append: "lex_chars (a @ b) l = lex_chars b (lex_chars a l)"
  by (simp add: lex_chars_def)

lemma lex_chars_simps [simp]: "lex_chars [] l = l" "lex_chars (g # gs) l = lex_chars gs (lex_char g l)"
  by (simp_all add: lex_chars_def)

lemma lex_escaped_group:
  assumes "whole_char g" and "lx_quote l = Some [CHR 0x22]" and "\<not> lx_escaped l"
  shows "lex_chars (escape_group g) l = l\<lparr>lx_current := lx_current l @ double_percent g\<rparr>"
proof -
  have plain: "double_percent g = g" if "g \<noteq> ''%''"
    using that whole_char_cases [OF assms(1), of "CHR ''%''"] double_percent_plain by auto
  show ?thesis
    using assms(2,3) plain
    by (cases l) (auto simp: escape_group_def lex_char_def double_percent_def)
qed

lemma lex_escaped:
  assumes "\<forall>g \<in> set gs. whole_char g" and "lx_quote l = Some [CHR 0x22]" and "\<not> lx_escaped l"
  shows "lex_chars (concat (map escape_group gs)) l = l\<lparr>lx_current := lx_current l @ double_percent (concat gs)\<rparr>"
  using assms
proof (induction gs arbitrary: l)
  case Nil
  then show ?case by (simp add: double_percent_def)
next
  case (Cons g gs)
  then show ?case by (simp add: lex_chars_append lex_escaped_group double_percent_append)
qed

definition start_lexer :: "string list \<Rightarrow> lexer" where
  "start_lexer ts = \<lparr>lx_tokens = ts, lx_current = [], lx_quote = None, lx_escaped = False\<rparr>"

abbreviation quoted :: "string \<Rightarrow> string" where
  "quoted v \<equiv> CHR 0x22 # escape_text v @ [CHR 0x22]"

lemma utf8_chars_quoted:
  assumes "utf8_complete v"
  shows "utf8_chars (quoted v @ rest)
    = [[CHR 0x22]] @ concat (map escape_group (utf8_chars v)) @ [[CHR 0x22]] @ utf8_chars rest"
  using utf8_chars_append [OF utf8_chars_escaped(2) [OF assms], of "CHR 0x22 # rest"] utf8_chars_escaped(1) [OF assms]
  by (simp add: utf8_len_def)

lemma lex_quoted:
  assumes "utf8_complete v"
  shows "lex_chars (utf8_chars (quoted v @ rest)) (start_lexer ts)
    = lex_chars (utf8_chars rest) ((start_lexer ts)\<lparr>lx_current := double_percent v\<rparr>)"
proof -
  have gs: "\<forall>g \<in> set (utf8_chars v). whole_char g" using utf8_complete_chars [OF assms] by blast
  show ?thesis
    unfolding utf8_chars_quoted [OF assms] lex_chars_append
    using lex_escaped [OF gs] by (simp add: lex_char_def start_lexer_def is_white_space_def)
qed

lemma double_percent_ne [simp]: "double_percent v = [] \<longleftrightarrow> v = []"
  by (cases v) (auto simp: double_percent_def str_replace_char)

lemma lex_join:
  assumes "vs \<noteq> []" and "\<forall>v \<in> set vs. v \<noteq> [] \<and> utf8_complete v"
  shows "lex_chars (utf8_chars (join '' '' (map quoted vs))) (start_lexer ts)
    = (start_lexer (ts @ map double_percent (butlast vs)))\<lparr>lx_current := double_percent (last vs)\<rparr>"
  using assms
proof (induction vs arbitrary: ts)
  case Nil
  then show ?case by simp
next
  case (Cons v vs)
  show ?case
  proof (cases vs)
    case Nil
    then show ?thesis using lex_quoted [of v "[]" ts] Cons.prems by simp
  next
    case (Cons w ws)
    let ?rest = "join '' '' (map quoted vs)"
    have "join '' '' (map quoted (v # vs)) = quoted v @ CHR '' '' # ?rest" using Cons by simp
    moreover have "utf8_chars (CHR '' '' # ?rest) = '' '' # utf8_chars ?rest" by (simp add: utf8_len_def)
    ultimately have "lex_chars (utf8_chars (join '' '' (map quoted (v # vs)))) (start_lexer ts)
        = lex_chars (utf8_chars ?rest) (start_lexer (ts @ [double_percent v]))"
      using lex_quoted [of v "CHR '' '' # ?rest" ts] Cons.prems
      by (simp add: lex_char_def start_lexer_def)
    with Cons.IH [of "ts @ [double_percent v]"] Cons.prems Cons show ?thesis by simp
  qed
qed

section \<open>Properties\<close>

text \<open>
  C35. The importer reads back what the applet writes, up to the percent signs: the command line that the
  renderer makes of an executable and arguments without carriage returns is split into exactly those
  texts, quotes and backslashes undone, but with every percent sign doubled, because the importer does
  not undo the escape of systemd's specifiers.
\<close>
theorem import_reads_rendered_command:
  assumes "collect_res (map escape_systemd_argument vs) = Inr texts" and "vs \<noteq> []"
    and "\<forall>v \<in> set vs. utf8_complete v \<and> CHR 0x0D \<notin> set v"
  shows "tokenize_systemd_exec (join '' '' texts) = Inr (map (str_replace ''%'' ''%%'') vs)"
proof -
  have ok: "\<forall>v \<in> set vs. v \<noteq> [] \<and> CHR 0x00 \<notin> set v \<and> CHR 0x0A \<notin> set v" and texts: "texts = map quoted vs"
    using assms(1) [unfolded collect_res_Inr]
    by (induction vs arbitrary: texts) (auto simp: escape_systemd_argument_def split: if_splits)
  have "lex_chars (utf8_chars (join '' '' texts)) (start_lexer [])
      = (start_lexer (map double_percent (butlast vs)))\<lparr>lx_current := double_percent (last vs)\<rparr>"
    using lex_join [OF assms(2), of "[]"] assms(3) ok texts by simp
  moreover have "map double_percent (butlast vs) @ [double_percent (last vs)] = map double_percent vs"
    using assms(2) by (metis append_butlast_last_id map_append list.map)
  moreover have "\<not> list_ex unsafe_token (map double_percent vs)"
    using ok assms(3) by (auto simp: list_ex_iff unsafe_token_def double_percent_def str_replace_char split: if_splits)
  moreover have "double_percent (last vs) \<noteq> []" using ok assms(2) by simp
  ultimately show ?thesis
    by (simp add: tokenize_systemd_exec_def start_lexer_def Let_def double_percent_def [abs_def])
qed
lemma import_reads_rendered_command_witness:
  "tokenize_systemd_exec (join '' '' [CHR 0x22 # ''/usr/bin/rclone'' @ [CHR 0x22], CHR 0x22 # ''/h/100%% a'' @ [CHR 0x22]])
     = Inr [''/usr/bin/rclone'', ''/h/100%% a'']"
proof -
  have "collect_res (map escape_systemd_argument [''/usr/bin/rclone'', ''/h/100% a''])
      = Inr [CHR 0x22 # ''/usr/bin/rclone'' @ [CHR 0x22], CHR 0x22 # ''/h/100%% a'' @ [CHR 0x22]]" by code_simp
  from import_reads_rendered_command [OF this] show ?thesis
    by (simp add: utf8_complete_def utf8_len_def)
qed

lemma preview_import_fields:
  assumes "preview_import new_id u existing active_units home backends = Inr p"
  shows "ip_active_conflict p = (lu_name u \<in> set active_units)"
    and "ip_target_conflict p = list_ex (\<lambda>c. import_paths_overlap (local_path c) (local_path (ip_connection p))) existing"
    and "conn_id (ip_connection p) = new_id" and "is_online (ip_connection p)" and "conn_enabled (ip_connection p)"
  using assms by (auto simp: preview_import_def bind_res_Inr Let_def is_online_def)

text \<open>
  A replacement is only planned for a free target: after a preview against the existing connections
  and the running units, a plan that is confirmed and made replaces a unit that is not running, its
  connection is Online and enabled, its local path is neither equal to nor above or below that of an
  existing connection, and the unit it writes is the service of the new connection.
\<close>
theorem import_replaces_only_free_targets:
  assumes "preview_import new_id u existing active_units home backends = Inr preview"
    and "replacement_plan tr X U J preview confirmed preserve disable runtime cache_root config_root = Inr plan"
  shows "confirmed \<and> lu_name u \<notin> set active_units
    \<and> is_online (ip_connection preview) \<and> conn_enabled (ip_connection preview)
    \<and> (\<forall>c \<in> set existing. \<not> prefix (components (local_path c)) (components (local_path (ip_connection preview)))
          \<and> \<not> prefix (components (local_path (ip_connection preview))) (components (local_path c)))
    \<and> ud_name (ir_managed_service plan) = \<lparr>un_connection_id = new_id, un_kind = ServiceUnit\<rparr>"
proof -
  note preview = preview_import_fields [OF assms(1)]
  from assms(2) have ok: "confirmed" "\<not> ip_active_conflict preview" "\<not> ip_target_conflict preview"
    by (auto simp: replacement_plan_def split: if_splits)
  from assms(2) ok obtain service d where
    "(case ip_engine preview of
        RcloneMountEngine \<Rightarrow>
          map_err (\<lambda>e. ImpUnsupported (provider_error_text e))
            (bind_res (rclone_mount_plan X U J (ip_connection preview) runtime cache_root) (\<lambda>m. Inr (rm_service m)))
      | OnedriverEngine \<Rightarrow>
          map_err (\<lambda>e. ImpUnsupported (provider_error_text e))
            (bind_res (onedriver_mount_plan X (ip_connection preview) cache_root config_root) (\<lambda>m. Inr (om_service m)))) = Inr service"
    and d: "render_service tr X service = Inr d" "ir_managed_service plan = d"
    by (auto simp: replacement_plan_def bind_res_Inr)
  then have "ss_connection_id service = new_id"
    using preview(3)
    by (auto simp: rclone_mount_plan_def onedriver_mount_plan_def bind_res_Inr Let_def split: legacy_engine.splits if_splits)
  with d have "ud_name (ir_managed_service plan) = \<lparr>un_connection_id = new_id, un_kind = ServiceUnit\<rparr>"
    by (auto simp: render_service_def bind_res_Inr Let_def dest: sym)
  with preview ok show ?thesis
    by (auto simp: list_ex_iff import_paths_overlap_def path_starts_with_def)
qed

definition sample_legacy :: legacy_unit where
  "sample_legacy =
     \<lparr>lu_path = ''/h/u/onedriver.service'', lu_name = ''onedriver.service'', lu_description = None,
      lu_wanted_by = [''default.target''], lu_exec_start = [''/usr/bin/onedriver'', ''/h/u/One''], lu_unsupported = []\<rparr>"

definition blank_codec :: json_codec where
  "blank_codec = \<lparr>json_opt_string = (\<lambda>s. []), json_opt_string_parse = (\<lambda>s. None)\<rparr>"

lemma import_replaces_only_free_targets_witness:
  "\<exists>preview plan. preview_import (ConnectionId sample_uuid) sample_legacy [sample_mirror] [] ''/h/u'' [] = Inr preview
     \<and> replacement_plan sample_tr \<lparr>xe_mode = FlatpakSpawnHost, xe_current_exe = None\<rparr> sample_url_lib blank_codec preview True True False
          ''/run'' ''/c'' ''/e'' = Inr plan
     \<and> ud_name (ir_managed_service plan) = sample_unit"
proof -
  let ?P = "preview_import (ConnectionId sample_uuid) sample_legacy [sample_mirror] [] ''/h/u'' []"
  let ?R = "\<lambda>p. replacement_plan sample_tr \<lparr>xe_mode = FlatpakSpawnHost, xe_current_exe = None\<rparr> sample_url_lib blank_codec p True True False
          ''/run'' ''/c'' ''/e''"
  have "is_ok ?P \<and> is_ok (bind_res ?P ?R)" by code_simp
  then obtain preview plan where p: "?P = Inr preview" and r: "?R preview = Inr plan"
    by (auto simp: is_ok_def bind_res_def split: sum.splits)
  from import_replaces_only_free_targets [OF p r] p r show ?thesis
    by (auto simp: sample_unit_def)
qed

end
