(* ===== verification/Diagnostics.thy ===== *)
theory Diagnostics
  imports Config Process
begin

text \<open>
  The inventory of the tools that the applet depends on (\<open>src/src/diagnostics.rs\<close>): which tool the
  configured connections need, and the report on each.  A version is its text; the applet itself
  never fills one in.
\<close>

datatype dependency_kind = DepRclone | DepOnedriver | DepFuse3 | DepNetworkManager | DepSystemdUser

datatype dependency_state =
  DepAvailable | DepMissing | DepOutdated (minimum_version: string) | DepMissingCapabilities | DepError

record dependency_report =
  dr_kind :: dependency_kind
  dr_required :: bool
  dr_state :: dependency_state
  dr_version :: "string option"
  dr_path :: "string option"
  dr_capabilities :: "string list"
  dr_missing_capabilities :: "string list"
  dr_summary :: msg
  dr_guidance_url :: string

type_synonym dependency_inventory = "dependency_report list"

fun required_for :: "dependency_kind \<Rightarrow> connection list \<Rightarrow> bool" where
  "required_for DepNetworkManager cs = True"
| "required_for DepSystemdUser cs = True"
| "required_for DepRclone cs =
     list_ex (\<lambda>c. conn_provider c \<noteq> OneDrive \<or> conn_offline_engine c = Some Rclone) cs"
| "required_for DepOnedriver cs = list_ex (\<lambda>c. conn_provider c = OneDrive \<and> is_online c) cs"
| "required_for DepFuse3 cs = list_ex is_online cs"

definition usable :: "dependency_report \<Rightarrow> bool" where
  "usable r = (dr_state r = DepAvailable)"

definition inventory_get :: "dependency_inventory \<Rightarrow> dependency_kind \<Rightarrow> dependency_report option" where
  "inventory_get reports k = List.find (\<lambda>r. dr_kind r = k) reports"

definition missing_report :: "dependency_kind \<Rightarrow> bool \<Rightarrow> string \<Rightarrow> dependency_report" where
  "missing_report k required url =
     \<lparr>dr_kind = k, dr_required = required, dr_state = DepMissing, dr_version = None, dr_path = None,
      dr_capabilities = [], dr_missing_capabilities = [],
      dr_summary = fl ''ui-diagnostics-not-installed-or-not-discoverable'', dr_guidance_url = url\<rparr>"

text \<open>What \<open>CommandRunner::resolve\<close> answers for each executable is an argument.\<close>

definition inspect_executable ::
  "(executable \<Rightarrow> path option) \<Rightarrow> dependency_kind \<Rightarrow> executable \<Rightarrow> bool \<Rightarrow> string \<Rightarrow> dependency_report" where
  "inspect_executable resolve k exe required url =
     (case resolve exe of
        None \<Rightarrow> missing_report k required url
      | Some p \<Rightarrow>
          \<lparr>dr_kind = k, dr_required = required, dr_state = DepAvailable, dr_version = None, dr_path = Some p,
           dr_capabilities = [], dr_missing_capabilities = [],
           dr_summary =
             (if prefix ''host:'' p
              then fl ''ui-diagnostics-host-execution-route-available-installation-and-compatibility''
              else fl ''ui-diagnostics-executable-available-compatibility-is-enforced-by-packaging''),
           dr_guidance_url = url\<rparr>)"

text \<open>The answer of a bus, or nothing when the cancellation came first.\<close>

definition bus_report :: "dependency_kind \<Rightarrow> string \<Rightarrow> string \<Rightarrow> (msg + unit) option \<Rightarrow> dependency_report" where
  "bus_report k place url answer =
     (case (case answer of None \<Rightarrow> Inl (fl ''dependency-inspection-cancelled'') | Some r \<Rightarrow> r) of
        Inr _ \<Rightarrow>
          \<lparr>dr_kind = k, dr_required = True, dr_state = DepAvailable, dr_version = None, dr_path = Some place,
           dr_capabilities = [''dbus''], dr_missing_capabilities = [],
           dr_summary = fl ''ui-diagnostics-available-through-d-bus'', dr_guidance_url = url\<rparr>
      | Inl e \<Rightarrow>
          \<lparr>dr_kind = k, dr_required = True, dr_state = DepError, dr_version = None, dr_path = None,
           dr_capabilities = [], dr_missing_capabilities = [''dbus''], dr_summary = e, dr_guidance_url = url\<rparr>)"

definition inspect_network_manager :: "(msg + unit) option \<Rightarrow> dependency_report" where
  "inspect_network_manager answer =
     bus_report DepNetworkManager ''org.freedesktop.NetworkManager (system bus)'' ''https://networkmanager.dev/'' answer"

definition inspect_systemd_user :: "(msg + unit) option \<Rightarrow> dependency_report" where
  "inspect_systemd_user answer =
     bus_report DepSystemdUser ''org.freedesktop.systemd1 (user bus)'' ''https://systemd.io/'' answer"

definition inspect_inventory ::
  "(executable \<Rightarrow> path option) \<Rightarrow> (msg + unit) option \<Rightarrow> (msg + unit) option \<Rightarrow> dependency_inventory" where
  "inspect_inventory resolve network_manager systemd =
     [inspect_executable resolve DepRclone RcloneExe True ''https://rclone.org/downloads/'',
      inspect_executable resolve DepOnedriver Onedriver True ''https://github.com/jstaf/onedriver'',
      inspect_executable resolve DepFuse3 Fusermount3 True ''https://github.com/libfuse/libfuse'',
      inspect_network_manager network_manager,
      inspect_systemd_user systemd]"

end
