(* ===== verification/Controller.thy ===== *)
theory Controller
  imports Diagnostics Legacy_Import Mounts
begin

text \<open>
  What the applet shows of its connections (\<open>src/src/controller.rs\<close>): the statuses derived from one
  snapshot of observations, the operations each status offers, warnings, and the aggregate.
\<close>

section \<open>Snapshots and views\<close>

record log_entry =
  le_stage :: string
  le_summary :: string

record controller_snapshot =
  sn_config :: config_document
  sn_network_ready :: bool
  sn_metered_network :: bool
  sn_vpn_ready :: "vpn_profile_id \<Rightarrow> bool option"
  sn_service_status :: "connection_id \<Rightarrow> unit_status option"
  sn_mount_entries :: "mount_entry list"
  sn_repair_required :: "connection_id list"
  sn_sync_state :: "connection_id \<Rightarrow> sync_runtime_state option"
  sn_paused_syncs :: "connection_id list"
  sn_offline_warnings :: "connection_id \<Rightarrow> msg list option"
  sn_conflicts :: "conflict_record list"
  sn_recoveries :: "recovery_record list"
  sn_dependencies :: "dependency_inventory option"
  sn_import_previews :: "import_preview list"
  sn_logs :: "log_entry list"

definition default_snapshot :: controller_snapshot where
  "default_snapshot =
     \<lparr>sn_config = default_document, sn_network_ready = True, sn_metered_network = False,
      sn_vpn_ready = (\<lambda>_. None), sn_service_status = (\<lambda>_. None), sn_mount_entries = [],
      sn_repair_required = [], sn_sync_state = (\<lambda>_. None), sn_paused_syncs = [],
      sn_offline_warnings = (\<lambda>_. None), sn_conflicts = [], sn_recoveries = [], sn_dependencies = None,
      sn_import_previews = [], sn_logs = []\<rparr>"

datatype aggregate_kind = AggEmpty | AggHealthy | AggAttention | AggBusy | AggError

record aggregate_status =
  ag_kind :: aggregate_kind
  ag_total :: nat
  ag_active :: nat
  ag_warnings :: nat

record operation_action =
  act_operation :: operation
  act_enabled :: bool

record settings_summary =
  set_remote :: string
  set_remote_subpath :: "string option"
  set_start_at_login :: "bool option"
  set_sync_interval_minutes :: "u32 option"
  set_sync_on_metered :: "bool option"

record connection_row =
  row_id :: connection_id
  row_name :: string
  row_provider :: provider
  row_mode :: access_mode
  row_persistent_active :: bool
  row_local_path :: path
  row_vpn_profile_id :: "vpn_profile_id option"
  row_status :: connection_status
  row_warnings :: "msg list"
  row_actions :: "operation_action list"
  row_settings :: settings_summary

record operation_decision =
  dec_operation :: operation
  dec_allowed :: bool
  dec_reason :: "msg option"

record import_row =
  imr_unit_name :: string
  imr_engine :: legacy_engine
  imr_provider :: provider
  imr_remote :: string
  imr_remote_subpath :: "string option"
  imr_local_target :: path
  imr_cache_directory :: "path option"
  imr_start_at_login :: bool
  imr_unsupported :: "string list"
  imr_blocked :: bool
  imr_warnings :: "msg list"

record controller_view =
  vw_aggregate :: aggregate_status
  vw_rows :: "connection_row list"
  vw_dependency_warnings :: "msg list"
  vw_import_previews :: "import_row list"
  vw_logs :: "log_entry list"

datatype popup_layout = Narrow | Wide

section \<open>Statuses\<close>

definition vpn_is_ready :: "controller_snapshot \<Rightarrow> vpn_profile_id option \<Rightarrow> bool" where
  "vpn_is_ready s profile =
     (case Option.bind profile (sn_vpn_ready s) of None \<Rightarrow> True | Some b \<Rightarrow> b)"

definition mount_is_present :: "controller_snapshot \<Rightarrow> connection \<Rightarrow> bool" where
  "mount_is_present s c = list_ex (\<lambda>e. path_eq (me_target e) (local_path c)) (sn_mount_entries s)"

definition online_status :: "controller_snapshot \<Rightarrow> connection \<Rightarrow> online_mount_status" where
  "online_status s c =
     (if \<not> conn_enabled c then OnlineUnavailable
      else if conn_id c \<in> set (sn_repair_required s) then OnlineError
      else if mount_is_present s c \<and> service_in (sn_service_status s (conn_id c)) [Inactive, UnitFailed] then OnlineError
      else if mount_is_present s c \<and> (\<not> sn_network_ready s \<or> \<not> vpn_is_ready s (vpn_profile_id c)) then Degraded
      else if mount_is_present s c then Mounted
      else if \<not> sn_network_ready s then WaitingForNetwork
      else if \<not> vpn_is_ready s (vpn_profile_id c) then OnlineWaitingForVpn
      else (case sn_service_status s (conn_id c) of
              None \<Rightarrow> Unmounted
            | Some st \<Rightarrow> if us_active st = UnitFailed then OnlineError
                        else if us_active st \<in> {Active, Activating} then Mounting
                        else Unmounted))"

definition offline_status :: "controller_snapshot \<Rightarrow> connection \<Rightarrow> offline_mirror_status" where
  "offline_status s c =
     (let runtime = sn_sync_state s (conn_id c); observed_active = (runtime = Some RtIdle) in
      if runtime = Some RtRunning then Syncing
      else if runtime = Some RtFailed then OfflineError
      else if is_err (ensure_supported_engine c) \<and> \<not> observed_active then OfflineUnavailable
      else if \<not> conn_enabled c \<and> \<not> observed_active then OfflineUnavailable
      else if list_ex (\<lambda>r. cf_connection_id r = conn_id c) (sn_conflicts s) then Conflict
      else if conn_id c \<in> set (sn_paused_syncs s) then Paused
      else if \<not> sn_network_ready s then Offline
      else if \<not> vpn_is_ready s (vpn_profile_id c) then OfflineWaitingForVpn
      else if sn_metered_network s
              \<and> (case conn_mode c of OfflineMirror opts \<Rightarrow> \<not> sync_on_metered opts | OnlineMount _ \<Rightarrow> False)
      then MeteredPaused
      else Idle)"

section \<open>Operations\<close>

definition action :: "operation \<Rightarrow> bool \<Rightarrow> operation_action" where
  "action op b = \<lparr>act_operation = op, act_enabled = b\<rparr>"

fun actions :: "connection_status \<Rightarrow> operation_action list" where
  "actions (OnlineStatus Degraded) = [action Unmount True, action Repair True]"
| "actions (OnlineStatus OnlineError) = [action Mount True, action Repair True]"
| "actions (OnlineStatus Mounted) = [action Unmount True]"
| "actions (OnlineStatus Unmounted) = [action Mount True]"
| "actions (OnlineStatus Mounting) = [action Unmount True, action Repair False]"
| "actions (OnlineStatus PendingWrites) = [action Repair False]"
| "actions (OnlineStatus Detaching) = [action Repair False]"
| "actions (OnlineStatus OnlineWaitingForVpn) = [action Mount True]"
| "actions (OnlineStatus _) = [action Mount False]"
| "actions (OfflineStatus st) =
     (if st \<in> {Idle, Offline, MeteredPaused}
      then [action SyncNow True, action PauseSync True, action PreviewInitialSync True]
      else if st = Paused
      then [action ResumeSync True, action SyncNow True, action PreviewInitialSync True]
      else if st = Syncing then [action PauseSync True, action SyncNow False, action Repair True]
      else if st = Previewing then [action PauseSync False, action Repair False]
      else [action SyncNow False, action Repair True])"

definition unavailable_reason :: "connection_status \<Rightarrow> msg" where
  "unavailable_reason st =
     (if st = OnlineStatus WaitingForNetwork \<or> st = OfflineStatus Offline then fl ''operation-unavailable-network''
      else if st = OnlineStatus OnlineWaitingForVpn \<or> st = OfflineStatus OfflineWaitingForVpn
      then fl ''operation-unavailable-vpn''
      else if st = OnlineStatus PendingWrites then fl ''operation-unavailable-pending-writes''
      else if st = OfflineStatus Syncing then fl ''operation-unavailable-sync-running''
      else if st = OnlineStatus OnlineUnavailable \<or> st = OfflineStatus OfflineUnavailable
      then fl ''operation-unavailable-connection''
      else fl ''operation-unavailable-state'')"

definition decide_operation :: "connection_row \<Rightarrow> operation \<Rightarrow> operation_decision" where
  "decide_operation row op =
     (let allowed = (case List.find (\<lambda>a. act_operation a = op) (row_actions row) of
                       None \<Rightarrow> False | Some a \<Rightarrow> act_enabled a)
      in \<lparr>dec_operation = op, dec_allowed = allowed,
          dec_reason = (if allowed then None else Some (unavailable_reason (row_status row)))\<rparr>)"

section \<open>Rows\<close>

definition settings_of :: "connection \<Rightarrow> settings_summary" where
  "settings_of c =
     (case conn_mode c of
        OnlineMount opts \<Rightarrow>
          \<lparr>set_remote = remote_reference c, set_remote_subpath = remote_subpath c,
           set_start_at_login = Some (start_at_login opts), set_sync_interval_minutes = None,
           set_sync_on_metered = None\<rparr>
      | OfflineMirror opts \<Rightarrow>
          \<lparr>set_remote = remote_reference c, set_remote_subpath = remote_subpath c,
           set_start_at_login = None, set_sync_interval_minutes = Some (sync_interval_minutes opts),
           set_sync_on_metered = Some (sync_on_metered opts)\<rparr>)"

definition row_warnings_of :: "controller_snapshot \<Rightarrow> connection \<Rightarrow> connection_status \<Rightarrow> msg list" where
  "row_warnings_of s c st =
     (case sn_offline_warnings s (conn_id c) of None \<Rightarrow> [] | Some ws \<Rightarrow> ws)
     @ (if st = OnlineStatus OnlineError \<or> st = OfflineStatus OfflineError then [fl ''warning-runtime-error''] else [])
     @ (if st = OnlineStatus Degraded
        then (if \<not> sn_network_ready s then [fl ''warning-mounted-network-unavailable'']
              else if \<not> vpn_is_ready s (vpn_profile_id c) then [fl ''warning-mounted-vpn-unavailable''] else [])
        else [])
     @ (if list_ex (\<lambda>r. recovery_record.rr_connection_id r = conn_id c) (sn_recoveries s) then [fl ''warning-recovery-files''] else [])
     @ (if list_ex (\<lambda>r. cf_connection_id r = conn_id c) (sn_conflicts s) then [fl ''warning-conflicts''] else [])"

definition persistent_active :: "controller_snapshot \<Rightarrow> connection \<Rightarrow> connection_status \<Rightarrow> bool" where
  "persistent_active s c st =
     (case conn_mode c of
        OnlineMount opts \<Rightarrow>
          (case st of
             OnlineStatus o' \<Rightarrow> start_at_login opts \<or> o' \<in> {Mounting, Mounted, Degraded, PendingWrites, Detaching}
           | OfflineStatus _ \<Rightarrow> False)
      | OfflineMirror _ \<Rightarrow>
          if is_err (ensure_supported_engine c)
          then sn_sync_state s (conn_id c) \<in> {Some RtIdle, Some RtRunning}
          else conn_id c \<notin> set (sn_paused_syncs s))"

definition unsupported_engine_text :: "unsupported_engine \<Rightarrow> msg" where
  "unsupported_engine_text e = fl ''onedrive-legacy-engine-retired''"

definition restore_connection :: "controller_snapshot \<Rightarrow> connection \<Rightarrow> connection_row" where
  "restore_connection s c =
     (let unsupported = ensure_supported_engine c;
          st = (case conn_mode c of
                  OnlineMount _ \<Rightarrow> OnlineStatus (online_status s c)
                | OfflineMirror _ \<Rightarrow> OfflineStatus (offline_status s c))
      in \<lparr>row_id = conn_id c, row_name = conn_name c, row_provider = conn_provider c,
          row_mode = mode_kind (conn_mode c), row_persistent_active = persistent_active s c st,
          row_local_path = local_path c, row_vpn_profile_id = vpn_profile_id c, row_status = st,
          row_warnings = row_warnings_of s c st
            @ (case unsupported of Inl e \<Rightarrow> [unsupported_engine_text e] | Inr _ \<Rightarrow> []),
          row_actions =
            (if is_err unsupported
             then map (\<lambda>a. if act_operation a \<noteq> PauseSync then a\<lparr>act_enabled := False\<rparr> else a) (actions st)
             else actions st),
          row_settings = settings_of c\<rparr>)"

section \<open>The aggregate\<close>

definition counts_active :: "connection_row \<Rightarrow> bool" where
  "counts_active r = (row_status r \<in> {OnlineStatus Mounted, OnlineStatus Degraded, OfflineStatus Idle})"

definition row_failed :: "connection_row \<Rightarrow> bool" where
  "row_failed r = (row_status r \<in> {OnlineStatus OnlineError, OfflineStatus OfflineError})"

definition row_busy :: "connection_row \<Rightarrow> bool" where
  "row_busy r =
     (row_status r \<in> {OnlineStatus Mounting, OnlineStatus Detaching, OfflineStatus Previewing, OfflineStatus Syncing})"

definition row_attention :: "connection_row \<Rightarrow> bool" where
  "row_attention r =
     (row_status r \<in> {OnlineStatus WaitingForNetwork, OnlineStatus OnlineWaitingForVpn, OnlineStatus Degraded,
        OnlineStatus OnlineUnavailable, OfflineStatus Offline, OfflineStatus OfflineWaitingForVpn,
        OfflineStatus MeteredPaused, OfflineStatus Conflict, OfflineStatus OfflineUnavailable})"

definition aggregate :: "connection_row list \<Rightarrow> nat \<Rightarrow> aggregate_status" where
  "aggregate rows dependency_count =
     (let warnings = sum_list (map (\<lambda>r. length (row_warnings r)) rows) + dependency_count
      in \<lparr>ag_kind =
            (if rows = [] then AggEmpty
             else if list_ex row_failed rows then AggError
             else if list_ex row_busy rows then AggBusy
             else if 0 < warnings \<or> list_ex row_attention rows then AggAttention
             else AggHealthy),
          ag_total = length rows, ag_active = length (filter counts_active rows), ag_warnings = warnings\<rparr>)"

fun dependency_label :: "dependency_kind \<Rightarrow> msg" where
  "dependency_label DepRclone = Lit ''rclone''"
| "dependency_label DepOnedriver = Lit ''onedriver''"
| "dependency_label DepFuse3 = fl ''dependency-fuse3''"
| "dependency_label DepNetworkManager = Lit ''NetworkManager''"
| "dependency_label DepSystemdUser = fl ''dependency-systemd-user''"

definition dependency_warnings :: "dependency_inventory option \<Rightarrow> connection list \<Rightarrow> msg list" where
  "dependency_warnings inventory cs =
     map (\<lambda>r. Fl ''dependency-warning'' [(''dependency'', dependency_label (dr_kind r)), (''summary'', dr_summary r)])
       (filter (\<lambda>r. dr_required r \<and> required_for (dr_kind r) cs \<and> dr_state r \<noteq> DepAvailable)
         (case inventory of None \<Rightarrow> [] | Some reports \<Rightarrow> reports))"

definition import_preview_row :: "import_preview \<Rightarrow> import_row" where
  "import_preview_row p =
     \<lparr>imr_unit_name = ip_unit_name p, imr_engine = ip_engine p, imr_provider = ip_provider p,
      imr_remote = ip_remote_reference p, imr_remote_subpath = ip_remote_subpath p,
      imr_local_target = ip_local_target p, imr_cache_directory = ip_cache_directory p,
      imr_start_at_login = ip_start_at_login p, imr_unsupported = ip_unsupported p,
      imr_blocked = (ip_active_conflict p \<or> ip_target_conflict p),
      imr_warnings =
        (if ip_active_conflict p then [fl ''import-warning-active-service''] else [])
        @ (if ip_target_conflict p then [fl ''import-warning-target-conflict''] else [])
        @ (if ip_unsupported p \<noteq> []
           then [Fl ''import-warning-unsupported'' [(''options'', Lit (join '', '' (ip_unsupported p)))]] else [])\<rparr>"

section \<open>Redaction\<close>

definition redact_log_word :: "string \<Rightarrow> string" where
  "redact_log_word token =
     (let lower = ascii_lowercase token in
      if prefix ''http://'' lower \<or> prefix ''https://'' lower then ''[REDACTED_URL]''
      else if list_ex (\<lambda>w. str_contains w lower) [''token'', ''secret'', ''password'', ''credential'']
      then (case split_once ''='' token of Some (key, _) \<Rightarrow> key @ ''=[REDACTED]'' | None \<Rightarrow> ''[REDACTED]'')
      else token)"

definition redact :: "string \<Rightarrow> string" where
  "redact v = join '' '' (map redact_log_word (split_whitespace v))"

definition sanitize_log :: "log_entry \<Rightarrow> log_entry" where
  "sanitize_log e = \<lparr>le_stage = redact (le_stage e), le_summary = redact (le_summary e)\<rparr>"

section \<open>The view\<close>

definition restore_view :: "controller_snapshot \<Rightarrow> controller_view" where
  "restore_view s =
     (let dependencies = dependency_warnings (sn_dependencies s) (connections (sn_config s));
          rows = map (restore_connection s) (connections (sn_config s))
      in \<lparr>vw_aggregate = aggregate rows (length dependencies), vw_rows = rows,
          vw_dependency_warnings = dependencies,
          vw_import_previews = map import_preview_row (sn_import_previews s),
          vw_logs = map sanitize_log (sn_logs s)\<rparr>)"

definition popup_layout_of :: "16 word \<Rightarrow> popup_layout" where
  "popup_layout_of width = (if width < 360 then Narrow else Wide)"

section \<open>Labels\<close>

fun provider_label :: "provider \<Rightarrow> msg" where
  "provider_label OneDrive = fl ''provider-onedrive''"
| "provider_label Teams = fl ''provider-teams''"
| "provider_label GoogleDrive = fl ''provider-google-drive''"
| "provider_label Box = fl ''provider-box''"
| "provider_label Smb = fl ''provider-smb''"
| "provider_label Sftp = fl ''sftp-provider''"

fun status_label :: "connection_status \<Rightarrow> msg" where
  "status_label (OnlineStatus Unmounted) = fl ''status-unmounted''"
| "status_label (OnlineStatus WaitingForNetwork) = fl ''status-waiting-network''"
| "status_label (OnlineStatus OnlineWaitingForVpn) = fl ''status-waiting-vpn''"
| "status_label (OnlineStatus Mounting) = fl ''status-mounting''"
| "status_label (OnlineStatus Mounted) = fl ''status-mounted''"
| "status_label (OnlineStatus Degraded) = fl ''status-mounted-connection-unavailable''"
| "status_label (OnlineStatus PendingWrites) = fl ''status-pending-writes''"
| "status_label (OnlineStatus Detaching) = fl ''status-detaching''"
| "status_label (OnlineStatus OnlineError) = fl ''status-error''"
| "status_label (OnlineStatus OnlineUnavailable) = fl ''status-unavailable''"
| "status_label (OfflineStatus Idle) = fl ''status-idle''"
| "status_label (OfflineStatus Offline) = fl ''status-offline''"
| "status_label (OfflineStatus OfflineWaitingForVpn) = fl ''status-waiting-vpn''"
| "status_label (OfflineStatus Previewing) = fl ''status-previewing''"
| "status_label (OfflineStatus Syncing) = fl ''status-syncing''"
| "status_label (OfflineStatus Paused) = fl ''status-paused''"
| "status_label (OfflineStatus MeteredPaused) = fl ''status-metered-paused''"
| "status_label (OfflineStatus Conflict) = fl ''status-conflict''"
| "status_label (OfflineStatus OfflineError) = fl ''status-error''"
| "status_label (OfflineStatus OfflineUnavailable) = fl ''status-unavailable''"

definition aggregate_label :: "aggregate_status \<Rightarrow> msg" where
  "aggregate_label a =
     (case ag_kind a of
        AggEmpty \<Rightarrow> fl ''no-connections''
      | AggHealthy \<Rightarrow> Fl ''aggregate-active''
          [(''active'', Lit (show_nat (ag_active a))), (''total'', Lit (show_nat (ag_total a)))]
      | AggAttention \<Rightarrow> Fl ''aggregate-warnings'' [(''count'', Lit (show_nat (ag_warnings a)))]
      | AggBusy \<Rightarrow> fl ''aggregate-busy''
      | AggError \<Rightarrow> fl ''aggregate-error'')"

fun operation_key :: "operation \<Rightarrow> string" where
  "operation_key Mount = ''operation-mount''"
| "operation_key Unmount = ''operation-unmount''"
| "operation_key SyncNow = ''operation-sync-now''"
| "operation_key PauseSync = ''operation-pause''"
| "operation_key ResumeSync = ''operation-resume''"
| "operation_key PreviewInitialSync = ''operation-preview''"
| "operation_key Repair = ''operation-repair''"

definition operation_label :: "operation \<Rightarrow> msg" where
  "operation_label op = fl (operation_key op)"

definition keyboard_label :: "operation_action \<Rightarrow> msg" where
  "keyboard_label a =
     (if act_enabled a then operation_label (act_operation a)
      else fl (operation_key (act_operation a) @ ''-unavailable''))"

definition row_accessible_text :: "connection_row \<Rightarrow> msg" where
  "row_accessible_text row =
     Fl ''connection-accessible''
       [(''name'', Lit (row_name row)), (''provider'', provider_label (row_provider row)),
        (''status'', status_label (row_status row)), (''path'', Lit (row_local_path row)),
        (''actions'', Joined '', '' (map keyboard_label (row_actions row))),
        (''warnings'',
          if row_warnings row = [] then fl ''no-warnings''
          else Fl ''warnings-list'' [(''warnings'', Joined ''; '' (row_warnings row))])]"

definition import_preview_label :: "import_row \<Rightarrow> msg" where
  "import_preview_label row =
     Fl ''import-preview-label''
       [(''provider'', provider_label (imr_provider row)), (''remote'', Lit (imr_remote row)),
        (''target'', Lit (imr_local_target row)),
        (''state'', if imr_blocked row then fl ''import-state-blocked'' else fl ''import-state-ready'')]"

end
