(* ===== verification/Controller_Safety.thy ===== *)
theory Controller_Safety
  imports Controller Config_Safety
begin

text \<open>
  The properties of the applet's view of its connections: running work stays controllable, what the
  engines' and the controller's readings of an Online mount have in common, and what a healthy view means.
\<close>

section \<open>Offered operations\<close>

text \<open>Each row offers an operation at most once.\<close>

lemma actions_distinct: "distinct (map act_operation (actions st))"
  by (cases st rule: actions.cases) (auto simp: action_def)

lemma restore_connection_mirror:
  assumes "conn_mode c = OfflineMirror opts"
  shows "row_status (restore_connection s c) = OfflineStatus (offline_status s c)"
  using assms by (simp add: restore_connection_def Let_def)

text \<open>
  Running work stays controllable: a mirror whose worker is observed running is shown as syncing and
  can be paused, whatever else the snapshot and the configuration say (disabled, paused, in conflict,
  without network, with a retired engine), and neither a second synchronization nor a preview, a resume
  or a mount can be started; the refusal of a synchronization names the running one.
\<close>
theorem running_mirror_stays_controllable:
  assumes "conn_mode c = OfflineMirror opts" and "sn_sync_state s (conn_id c) = Some RtRunning"
  shows "row_status (restore_connection s c) = OfflineStatus Syncing
    \<and> dec_allowed (decide_operation (restore_connection s c) PauseSync)
    \<and> decide_operation (restore_connection s c) SyncNow
        = \<lparr>dec_operation = SyncNow, dec_allowed = False, dec_reason = Some (fl ''operation-unavailable-sync-running'')\<rparr>
    \<and> (\<forall>op. dec_allowed (decide_operation (restore_connection s c) op) \<longrightarrow> op \<in> {PauseSync, Repair})
    \<and> dec_allowed (decide_operation (restore_connection s c) Repair) = is_ok (ensure_supported_engine c)"
proof -
  let ?row = "restore_connection s c"
  have st: "row_status ?row = OfflineStatus Syncing"
    using assms by (simp add: restore_connection_mirror offline_status_def)
  have acts: "row_actions ?row
      = [action PauseSync True, action SyncNow False, action Repair (is_ok (ensure_supported_engine c))]"
    using assms by (simp add: restore_connection_def Let_def offline_status_def action_def is_err_def is_ok_def
      split: sum.split)
  show ?thesis
    by (simp add: decide_operation_def Let_def st acts action_def unavailable_reason_def)
qed

definition running_snapshot :: controller_snapshot where
  "running_snapshot = default_snapshot\<lparr>sn_sync_state := (\<lambda>_. Some RtRunning), sn_network_ready := False\<rparr>"

lemma running_mirror_stays_controllable_witness:
  "row_status (restore_connection running_snapshot sample_mirror) = OfflineStatus Syncing
   \<and> dec_allowed (decide_operation (restore_connection running_snapshot sample_mirror) PauseSync)"
proof -
  obtain opts where m: "conn_mode sample_mirror = OfflineMirror opts"
    by (cases "conn_mode sample_mirror") (simp_all add: sample_mirror_def)
  have "sn_sync_state running_snapshot (conn_id sample_mirror) = Some RtRunning" by (simp add: running_snapshot_def)
  from running_mirror_stays_controllable [OF m this] show ?thesis by blast
qed

section \<open>A retired engine\<close>

text \<open>
  A retired engine is never started again: for a mirror that the legacy engine would run, no snapshot
  lets any operation but the pause be carried out, and the row tells why.
\<close>
theorem retired_engine_offers_only_pause:
  assumes "conn_offline_engine c = Some LegacyOnedrive"
  shows "(\<forall>op. dec_allowed (decide_operation (restore_connection s c) op) \<longrightarrow> op = PauseSync)
    \<and> fl ''onedrive-legacy-engine-retired'' \<in> set (row_warnings (restore_connection s c))"
proof -
  have bad: "ensure_supported_engine c = Inl (UnsupportedEngine LegacyOnedrive)"
    using assms by (simp add: ensure_supported_engine_def)
  have "\<not> act_enabled a"
    if "List.find (\<lambda>a. act_operation a = op) (map (\<lambda>a. if act_operation a \<noteq> PauseSync then a\<lparr>act_enabled := False\<rparr> else a) as) = Some a"
      and "op \<noteq> PauseSync" for op a and as :: "operation_action list"
    using that by (induction as) (auto split: if_splits)
  then show ?thesis
    by (auto simp: restore_connection_def Let_def bad is_err_def decide_operation_def unsupported_engine_text_def
        split: option.splits)
qed

section \<open>Two readings of an Online mount\<close>

definition runtime_of :: "controller_snapshot \<Rightarrow> connection \<Rightarrow> online_runtime" where
  "runtime_of s c =
     \<lparr>or_readiness = \<lparr>rd_network_ready = sn_network_ready s, rd_vpn_ready = vpn_is_ready s (vpn_profile_id c)\<rparr>,
      or_service = sn_service_status s (conn_id c), or_mount_present = mount_is_present s c,
      or_rclone_health = None\<rparr>"

text \<open>
  The controller and the rclone adapter read an Online mount the same way: the controller's status of
  an enabled connection without a pending repair is the adapter's status of the same observations (no
  VFS statistics), with one exact exception: a present mount whose service is not stopped, while the
  network or the VPN is missing, is degraded for the controller and waiting for the adapter.
\<close>
theorem controller_reads_like_adapter:
  "online_status s c =
     (if \<not> conn_enabled c then OnlineUnavailable
      else if conn_id c \<in> set (sn_repair_required s) then OnlineError
      else if mount_is_present s c \<and> \<not> service_in (sn_service_status s (conn_id c)) [Inactive, UnitFailed]
              \<and> \<not> (sn_network_ready s \<and> vpn_is_ready s (vpn_profile_id c))
      then Degraded
      else rclone_online_status (runtime_of s c))"
  by (auto simp: online_status_def rclone_online_status_def runtime_of_def service_in_def split: option.splits)

section \<open>The aggregate\<close>

text \<open>
  A healthy view hides nothing: the aggregate is healthy only if there is a connection, no connection
  and no required dependency has a warning, every mirror is idle or paused with its engine supported, and
  every Online connection is enabled, needs no repair, and is either mounted with network and VPN ready
  or not mounted at all.
\<close>
theorem healthy_view_hides_nothing:
  assumes "ag_kind (vw_aggregate (restore_view s)) = AggHealthy" and "c \<in> set (connections (sn_config s))"
  shows "vw_dependency_warnings (restore_view s) = []
    \<and> row_warnings_of s c (row_status (restore_connection s c)) = [] \<and> is_ok (ensure_supported_engine c)
    \<and> (case conn_mode c of
         OnlineMount _ \<Rightarrow> conn_enabled c \<and> conn_id c \<notin> set (sn_repair_required s)
           \<and> (online_status s c = Unmounted
              \<or> online_status s c = Mounted \<and> mount_is_present s c \<and> sn_network_ready s \<and> vpn_is_ready s (vpn_profile_id c))
       | OfflineMirror _ \<Rightarrow> offline_status s c \<in> {Idle, Paused}
           \<and> \<not> list_ex (\<lambda>r. cf_connection_id r = conn_id c) (sn_conflicts s))"
proof -
  define rows where "rows = map (restore_connection s) (connections (sn_config s))"
  have row: "restore_connection s c \<in> set rows" using assms(2) by (simp add: rows_def)
  from assms(1) have deps: "vw_dependency_warnings (restore_view s) = []"
    and calm: "list_all (\<lambda>r. \<not> row_failed r \<and> \<not> row_busy r \<and> \<not> row_attention r) rows"
    and warn: "sum_list (map (\<lambda>r. length (row_warnings r)) rows) = 0"
    by (auto simp: restore_view_def Let_def aggregate_def rows_def list_ex_iff list_all_iff split: if_splits)
  have none: "row_warnings (restore_connection s c) = []" using warn row by (auto simp: sum_list_eq_0_iff)
  from calm row have "\<not> row_failed (restore_connection s c)" "\<not> row_busy (restore_connection s c)"
    "\<not> row_attention (restore_connection s c)" by (auto simp: list_all_iff)
  note st = this [unfolded row_failed_def row_busy_def row_attention_def]
  have engine: "is_ok (ensure_supported_engine c)"
    using none by (cases "ensure_supported_engine c") (auto simp: restore_connection_def Let_def is_ok_def)
  have own: "row_warnings_of s c (row_status (restore_connection s c)) = []"
    using none by (simp add: restore_connection_def Let_def)
  show ?thesis
  proof (cases "conn_mode c")
    case (OnlineMount opts)
    then have r: "row_status (restore_connection s c) = OnlineStatus (online_status s c)"
      by (simp add: restore_connection_def Let_def)
    have en: "conn_enabled c" using st unfolding r by (rule_tac ccontr) (simp add: online_status_def)
    moreover from en have "conn_id c \<notin> set (sn_repair_required s)"
      using st unfolding r by (rule_tac notI) (simp add: online_status_def)
    moreover have "online_status s c = Unmounted
       \<or> online_status s c = Mounted \<and> mount_is_present s c \<and> sn_network_ready s \<and> vpn_is_ready s (vpn_profile_id c)"
      using st unfolding r by (auto simp: online_status_def split: if_splits option.splits)
    ultimately show ?thesis using deps own engine OnlineMount by simp
  next
    case (OfflineMirror opts)
    then have r: "row_status (restore_connection s c) = OfflineStatus (offline_status s c)"
      by (simp add: restore_connection_def Let_def)
    have "offline_status s c \<in> {Idle, Paused}"
      using st unfolding r by (cases "offline_status s c") auto
    moreover have "\<not> list_ex (\<lambda>r. cf_connection_id r = conn_id c) (sn_conflicts s)"
      using own by (simp add: row_warnings_of_def split: if_splits)
    ultimately show ?thesis using deps own engine OfflineMirror by simp
  qed
qed

definition healthy_snapshot :: controller_snapshot where
  "healthy_snapshot = default_snapshot\<lparr>sn_config := default_document\<lparr>connections := [sample_mount]\<rparr>\<rparr>"

lemma healthy_view_hides_nothing_witness:
  "ag_kind (vw_aggregate (restore_view healthy_snapshot)) = AggHealthy \<and> online_status healthy_snapshot sample_mount = Unmounted"
proof -
  have h: "ag_kind (vw_aggregate (restore_view healthy_snapshot)) = AggHealthy" by code_simp
  have c: "sample_mount \<in> set (connections (sn_config healthy_snapshot))" by (simp add: healthy_snapshot_def)
  have "\<not> mount_is_present healthy_snapshot sample_mount" by code_simp
  moreover have "is_online sample_mount" by code_simp
  ultimately show ?thesis
    using healthy_view_hides_nothing [OF h c] h by (auto simp: is_online_def split: connection_mode.splits)
qed

end
