(* ===== verification/Unit_Refinement.thy ===== *)
theory Unit_Refinement
  imports Unit_Store
begin

text \<open>
  The file store of units as a refinement of a map from unit names to contents: the abstract
  operations, the abstraction of a file system, and the simulation.
\<close>

section \<open>The abstract store\<close>

type_synonym unit_map = "unit_name \<Rightarrow> string option"

text \<open>
  An operation of the abstract store, when it is admitted: a valid document replaces only an absent or
  owned unit, and only an owned unit is removed.
\<close>

primrec abs_op :: "file_unit_store \<Rightarrow> unit_op \<Rightarrow> unit_map \<Rightarrow> unit_map option" where
  "abs_op S (WriteUnit d) m =
     (if fus_validate S d = Inr () \<and> (case m (ud_name d) of None \<Rightarrow> True | Some c \<Rightarrow> unit_owned S (ud_name d) c)
      then Some (m(ud_name d \<mapsto> ud_content d)) else None)"
| "abs_op S (RemoveUnit n) m =
     (if (case m n of None \<Rightarrow> True | Some c \<Rightarrow> unit_owned S n c) then Some (m(n := None)) else None)"

text \<open>A series of operations, told which of them are carried out.\<close>

fun abs_runs :: "file_unit_store \<Rightarrow> (unit_op \<times> bool) list \<Rightarrow> unit_map \<Rightarrow> unit_map option" where
  "abs_runs S [] m = Some m"
| "abs_runs S ((a, carried_out) # as) m =
     (if carried_out then Option.bind (abs_op S a m) (abs_runs S as) else abs_runs S as m)"

text \<open>Which operations of a series of the file store succeed.\<close>

fun op_results :: "file_unit_store \<Rightarrow> unit_op list \<Rightarrow> env \<Rightarrow> world \<Rightarrow> (unit_op \<times> bool) list" where
  "op_results S [] env w = []"
| "op_results S (a # as) env w =
     (case run_op S a env w of (r, w') \<Rightarrow> (a, is_ok r) # op_results S as env w')"

definition abs_units :: "file_unit_store \<Rightarrow> fs \<Rightarrow> unit_map" where
  "abs_units S f = (\<lambda>n. if uuid_text (conn_uuid (un_connection_id n)) then unit_content S f n else None)"

section \<open>The simulation\<close>

lemma run_op_other:
  assumes "store_fit S env (op_unit a)" and "uuid_text (conn_uuid (un_connection_id n))" and "n \<noteq> op_unit a"
    and "run_op S a env w = (r, w')"
  shows "unit_content S (files w') n = unit_content S (files w) n"
proof -
  have "store_fit S env n" using assms(1,2) by (simp add: store_fit_def)
  then have "preserves env (node_at (components (store_path S n)) v) (run_op S a)" for v
    using assms(1,3) store_write_other store_remove_other by (cases a) auto
  from preservesD [OF this assms(4), of "fs_get (files w) (components (store_path S n))"] show ?thesis
    by (simp add: node_at_def unit_content_def)
qed

lemma abs_units_update:
  assumes "\<And>n. uuid_text (conn_uuid (un_connection_id n)) \<Longrightarrow> n \<noteq> k \<Longrightarrow> unit_content S f' n = unit_content S f n"
    and "uuid_text (conn_uuid (un_connection_id k))" and "unit_content S f' k = v"
  shows "abs_units S f' = (abs_units S f)(k := v)"
  using assms by (auto simp: abs_units_def)

text \<open>A success is the admitted operation of the map, on all units at once; an error changes no unit.\<close>

lemma run_op_refines:
  assumes "store_fit S env (op_unit a)" and "run_op S a env w = (r, w')"
  shows "case r of
      Inr _ \<Rightarrow> abs_op S a (abs_units S (files w)) = Some (abs_units S (files w'))
    | Inl _ \<Rightarrow> abs_units S (files w') = abs_units S (files w)"
proof -
  have id: "uuid_text (conn_uuid (un_connection_id (op_unit a)))" using assms(1) by (simp add: store_fit_def)
  note upd = abs_units_update [OF run_op_other [OF assms(1) _ _ assms(2)] id refl]
  have here: "abs_units S f (op_unit a) = unit_content S f (op_unit a)" for f using id by (simp add: abs_units_def)
  show ?thesis
  proof (cases a)
    case (WriteUnit d)
    with store_write_run [of S env d w r w'] assms upd here show ?thesis
      by (cases r) (auto simp: unit_content_def split: option.splits)
  next
    case (RemoveUnit n)
    with store_remove_run [of S env n w r w'] assms upd here show ?thesis
      by (cases r) (auto split: option.splits)
  qed
qed
text \<open>
  C28. The file store refines a map of units: for every series of writes and removals, and whatever fault
  occurs at any step, the operations that succeed are exactly the admitted operations of the map, applied
  in order to all units at once, and those that report an error change no unit; so each is atomic.
\<close>
theorem unit_store_refines_map:
  assumes "list_all (\<lambda>a. store_fit S env (op_unit a)) ops" and "run_unit_ops S ops env w = (r, w')"
  shows "abs_runs S (op_results S ops env w) (abs_units S (files w)) = Some (abs_units S (files w'))"
  using assms
proof (induction ops arbitrary: w)
  case Nil
  then show ?case by simp
next
  case (Cons a as)
  obtain r1 w1 where first: "run_op S a env w = (r1, w1)" by (rule prod.exhaust)
  with Cons.prems have "run_unit_ops S as env w1 = (r, w')" by (simp add: seqP_def bindP_def tryP_def)
  with Cons.prems(1) have "abs_runs S (op_results S as env w1) (abs_units S (files w1)) = Some (abs_units S (files w'))"
    by (intro Cons.IH) auto
  with Cons.prems(1) run_op_refines [OF _ first] first show ?case
    by (cases r1) (auto simp: is_ok_def)
qed

lemma unit_store_refines_map_witness:
  "\<exists>r w'. run_unit_ops sample_store [WriteUnit sample_unit_document, RemoveUnit sample_unit] sample_env sample_world = (r, w')
     \<and> abs_runs sample_store (op_results sample_store [WriteUnit sample_unit_document, RemoveUnit sample_unit] sample_env sample_world)
          (abs_units sample_store []) = Some (abs_units sample_store (files w'))"
proof -
  let ?ops = "[WriteUnit sample_unit_document, RemoveUnit sample_unit]"
  obtain r w' where run: "run_unit_ops sample_store ?ops sample_env sample_world = (r, w')" by (rule prod.exhaust)
  have "list_all (\<lambda>a. store_fit sample_store sample_env (op_unit a)) ?ops"
    by (simp add: sample_store_fit sample_unit_document_def sample_unit_def sample_uuid_text)
  from unit_store_refines_map [OF this run] run show ?thesis by (simp add: sample_world_def)
qed

end
