(* ===== verification/Sleep.thy ===== *)
theory Sleep
  imports Online_Mounts Systemd_Manager Bisync_Coordinator
begin

text \<open>
  Preparing Online mounts for the sleep of the machine (\<open>src/src/sleep.rs\<close>): the gate that holds back
  mount operations, the clean stop of one mount, its stop policy, the report of a cleanup, and the
  listener for logind's signals.  A future that \<open>timeout_at\<close> drops is cut at one of its awaits, before
  or after the awaited effect.  The cleanups of different connections run concurrently in the code;
  here each one is a program of its own and the report takes their results in the order they finish.
\<close>

section \<open>The gate of Online operations\<close>

text \<open>
  Tokens are children of the token of a generation; a new generation starts only after the old one was
  cancelled, so a token is cancelled when it is of an older generation or the current one is cancelled.
\<close>

record online_gate =
  gt_preparing :: bool
  gt_generation :: nat
  gt_cancelled :: bool
  gt_active :: nat

definition default_gate :: online_gate where
  "default_gate = \<lparr>gt_preparing = False, gt_generation = 0, gt_cancelled = False, gt_active = 0\<rparr>"

definition gate_paused :: msg where
  "gate_paused = fl ''ui-sleep-online-mounts-are-paused-while-preparing-for''"

definition online_operation_token :: "online_gate \<Rightarrow> nat res" where
  "online_operation_token g = (if gt_preparing g then Inl gate_paused else Inr (gt_generation g))"

definition begin_online_operation :: "online_gate \<Rightarrow> nat res \<times> online_gate" where
  "begin_online_operation g =
     (if gt_preparing g then (Inl gate_paused, g)
      else (Inr (gt_generation g), g\<lparr>gt_active := Suc (gt_active g)\<rparr>))"

definition end_online_operation :: "online_gate \<Rightarrow> online_gate" where
  "end_online_operation g = g\<lparr>gt_active := gt_active g - 1\<rparr>"

definition token_cancelled :: "online_gate \<Rightarrow> nat \<Rightarrow> bool" where
  "token_cancelled g t = (t < gt_generation g \<or> gt_cancelled g)"

definition online_idle :: "online_gate \<Rightarrow> bool" where
  "online_idle g = (gt_active g = 0)"

definition preparing :: "online_gate \<Rightarrow> online_gate" where
  "preparing g = g\<lparr>gt_preparing := True, gt_cancelled := True\<rparr>"

definition awake :: "online_gate \<Rightarrow> online_gate" where
  "awake g =
     (if gt_cancelled g
      then g\<lparr>gt_preparing := False, gt_generation := Suc (gt_generation g), gt_cancelled := False\<rparr>
      else g\<lparr>gt_preparing := False\<rparr>)"

section \<open>Services over D-Bus\<close>

definition systemd_user_reload :: "systemd_bus \<Rightarrow> unit bus_prog" where
  "systemd_user_reload B =
     seqP (systemd_user_connection B)
    (seqP (systemd_user_manager B)
    (bindP (bus_step (\<lambda>t. SvcRuntime (Fl ''ui-services-systemd-user-reload-error'' [(''error'', Lit t)]))
        (\<lambda>n. b_call B n ''Reload'' [])) (\<lambda>_. ret ())))"

definition systemd_user_active_state :: "systemd_bus \<Rightarrow> string \<Rightarrow> string bus_prog" where
  "systemd_user_active_state B unit =
     seqP (systemd_user_connection B)
    (bindP (systemd_user_unit_path B unit) (\<lambda>p.
     seqP (systemd_user_unit_proxy B p UNIT_INTERFACE)
       (bus_step (\<lambda>t. SvcRuntime (Fl ''ui-services-systemd-unit-unit-state-error''
           [(''unit'', Lit unit), (''error'', Lit t)])) (\<lambda>n. b_text B n p ''ActiveState''))))"

text \<open>The call that enqueues the stop job is logged, whatever its reply is.\<close>

definition systemd_user_stop_no_wait :: "systemd_bus \<Rightarrow> string \<Rightarrow> unit bus_prog" where
  "systemd_user_stop_no_wait B unit =
     seqP (systemd_user_connection B)
    (seqP (systemd_user_manager B)
    (seqP (log_event (Called ''StopUnit'' [unit, ''replace'']))
    (bindP (bus_step (\<lambda>t. SvcRuntime (Fl ''ui-services-systemd-stop-unit-error''
          [(''unit'', Lit unit), (''error'', Lit t)])) (\<lambda>n. b_call B n ''StopUnit'' [unit, ''replace'']))
       (\<lambda>_. ret ()))))"

record stop_policy =
  pol_send_sigkill :: bool
  pol_timeout_usec :: int
  pol_failure_mode :: string
  pol_kill_signal :: int

definition systemd_user_stop_policy :: "systemd_bus \<Rightarrow> string \<Rightarrow> stop_policy bus_prog" where
  "systemd_user_stop_policy B unit =
     seqP (systemd_user_connection B)
    (bindP (systemd_user_unit_path B unit) (\<lambda>p.
     seqP (systemd_user_unit_proxy B p SERVICE_INTERFACE)
    (bindP (bus_step runtime_text (\<lambda>n. b_flag B n p ''SendSIGKILL'')) (\<lambda>kill.
     bindP (bus_step runtime_text (\<lambda>n. b_number B n p ''TimeoutStopUSec'')) (\<lambda>usec.
     bindP (bus_step runtime_text (\<lambda>n. b_text B n p ''TimeoutStopFailureMode'')) (\<lambda>mode.
     bindP (bus_step runtime_text (\<lambda>n. b_number B n p ''KillSignal'')) (\<lambda>signal.
       ret \<lparr>pol_send_sigkill = kill, pol_timeout_usec = usec, pol_failure_mode = mode,
            pol_kill_signal = signal\<rparr>)))))))"

section \<open>Awaits under a deadline\<close>

datatype sleep_error = DeadlineReached | SleepFailed msg

datatype deadline_cut = NotCut | CutBefore | CutAfter

record sleep_clock =
  sc_cut :: "nat \<Rightarrow> deadline_cut"
  sc_remaining :: "nat \<Rightarrow> duration"

definition await_step :: "sleep_clock \<Rightarrow> (msg, 'a) prog \<Rightarrow> (sleep_error, 'a) prog" where
  "await_step T m = (\<lambda>env w.
     case sc_cut T (tick w) of
       CutBefore \<Rightarrow> (Inl DeadlineReached, w)
     | NotCut \<Rightarrow> (case m env w of (r, w') \<Rightarrow> (map_err SleepFailed r, w'))
     | CutAfter \<Rightarrow> (case m env w of (r, w') \<Rightarrow> (Inl DeadlineReached, w')))"

definition await_cmd :: "sleep_clock \<Rightarrow> command_request \<Rightarrow> (sleep_error, command_output) prog" where
  "await_cmd T r = await_step T (map_errP command_error_text (run_cmd r))"

definition sleep_bus_error :: "op_error \<Rightarrow> sleep_error" where
  "sleep_bus_error e = (case e of OpFailed s \<Rightarrow> SleepFailed (service_error_text s) | OpCut _ \<Rightarrow> DeadlineReached)"

definition await_bus :: "'a bus_prog \<Rightarrow> (sleep_error, 'a) prog" where
  "await_bus m = map_errP sleep_bus_error m"

definition remaining :: "sleep_clock \<Rightarrow> (sleep_error, duration) prog" where
  "remaining T = (\<lambda>env w. (Inr (sc_remaining T (tick w)), w\<lparr>tick := Suc (tick w)\<rparr>))"

definition sleep_request :: "executable \<Rightarrow> string list \<Rightarrow> (sleep_error, command_request) prog" where
  "sleep_request exe arguments =
     liftR (map_err (\<lambda>e. SleepFailed (command_error_text e)) (add_args arguments (new_request exe)))"

section \<open>One connection\<close>

definition host_mounts :: "sleep_clock \<Rightarrow> (sleep_error, mount_entry list) prog" where
  "host_mounts T =
     bindP (sleep_request Cat [''/proc/self/mountinfo'']) (\<lambda>r.
     bindP (await_cmd T (r\<lparr>req_output_limit := 4 * 1024 * 1024\<rparr>)) (\<lambda>out.
       if co_truncated (out_stdout out) then fail (SleepFailed (fl ''ui-sleep-host-mount-table-is-truncated''))
       else liftR (map_err SleepFailed (collect_res (map parse_mountinfo_line (lines (co_text (out_stdout out))))))))"

definition unit_is_active :: "systemd_bus \<Rightarrow> string \<Rightarrow> (sleep_error, bool) prog" where
  "unit_is_active B unit =
     bindP (await_bus (systemd_user_active_state B unit)) (\<lambda>state.
       if trim state \<in> {''inactive'', ''failed''} then ret False
       else if trim state \<in> {''active'', ''activating'', ''deactivating'', ''reloading''} then ret True
       else fail (SleepFailed (Fl ''ui-sleep-unknown-service-state-value1'' [(''value1'', Lit (trim state))])))"

definition nonforcing :: "stop_policy \<Rightarrow> bool" where
  "nonforcing p =
     (\<not> pol_send_sigkill p \<and> pol_timeout_usec p = 2000000 \<and> pol_failure_mode p = ''terminate''
      \<and> pol_kill_signal p = 15)"

definition stop_policy_matches :: "systemd_bus \<Rightarrow> string \<Rightarrow> (sleep_error, bool) prog" where
  "stop_policy_matches B unit = bindP (await_bus (systemd_user_stop_policy B unit)) (\<lambda>p. ret (nonforcing p))"

definition uploads_idle :: "(string \<Rightarrow> string + json) \<Rightarrow> string \<Rightarrow> bool res" where
  "uploads_idle parse text =
     bind_res (map_err Lit (parse text)) (\<lambda>v.
     bind_res (ok_or (fl ''ui-sleep-upload-status-unavailable-mount-left-active'') (json_get ''diskCache'' v)) (\<lambda>disk.
     bind_res (ok_or (fl ''ui-sleep-upload-queue-unknown-mount-left-active'')
        (Option.bind (json_get ''uploadsQueued'' disk) as_u64)) (\<lambda>queued.
     bind_res (ok_or (fl ''ui-sleep-active-uploads-unknown-mount-left-active'')
        (Option.bind (json_get ''uploadsInProgress'' disk) as_u64)) (\<lambda>active.
       Inr (queued = 0 \<and> active = 0)))))"

definition target_of :: "connection \<Rightarrow> mount_entry list \<Rightarrow> mount_entry option" where
  "target_of c mounts = List.find (\<lambda>e. path_eq (me_target e) (local_path c)) mounts"

definition expected_filesystem :: "connection \<Rightarrow> string" where
  "expected_filesystem c = (if conn_provider c = OneDrive then ''fuse.onedriver'' else ''fuse.rclone'')"

definition check_uploads :: "sleep_clock \<Rightarrow> (string \<Rightarrow> string + json) \<Rightarrow> connection \<Rightarrow> (sleep_error, unit) prog" where
  "check_uploads T parse c =
     bindP (env_var ''XDG_RUNTIME_DIR'') (\<lambda>dir.
     bindP (liftR (ok_or (SleepFailed (fl ''ui-sleep-runtime-directory-unavailable'')) dir)) (\<lambda>runtime.
     let socket = path_join (path_join runtime ''cosmic-ext-applet-mounter'') (''rclone-'' @ conn_uuid (conn_id c) @ ''.sock'') in
     bindP (sleep_request RcloneExe [''rc'', ''--unix-socket'', socket, ''vfs/stats'']) (\<lambda>r.
     bindP (await_cmd T r) (\<lambda>health.
     bindP (liftR (map_err SleepFailed (uploads_idle parse (co_text (out_stdout health))))) (\<lambda>idle.
       if idle then ret () else fail (SleepFailed (fl ''ui-sleep-pending-uploads-mount-left-active'')))))))"

text \<open>onedriver is detached before its service is stopped, so that a busy mount keeps it.\<close>

definition detach_onedrive :: "sleep_clock \<Rightarrow> connection \<Rightarrow> (sleep_error, unit) prog" where
  "detach_onedrive T c =
     bindP (remaining T) (\<lambda>left.
     if left < from_millis 2500
     then fail (SleepFailed (fl ''ui-sleep-insufficient-sleep-delay-for-a-clean-onedrive''))
     else
     bindP (liftR (map_err (\<lambda>e. SleepFailed (command_error_text e)) (clean_unmount_request (local_path c)))) (\<lambda>r.
     bindP (tryP (await_cmd T (r\<lparr>req_timeout := min (left - from_secs 2) (from_secs 2)\<rparr>))) (\<lambda>detach.
     if detach = Inl DeadlineReached then fail DeadlineReached
     else
     bindP (host_mounts T) (\<lambda>mounts.
       if target_of c mounts = None then ret ()
       else fail (SleepFailed (case detach of
           Inl (SleepFailed e) \<Rightarrow> Fl ''ui-sleep-onedrive-mount-is-busy-error-service-left'' [(''error'', e)]
         | _ \<Rightarrow> fl ''ui-sleep-onedrive-mount-did-not-detach-service-left''))))))"

text \<open>Everything before the stop; false when there is nothing to stop.\<close>

definition clean_checks ::
  "sleep_clock \<Rightarrow> systemd_bus \<Rightarrow> (string \<Rightarrow> string + json) \<Rightarrow> connection \<Rightarrow> string \<Rightarrow> (sleep_error, bool) prog" where
  "clean_checks T B parse c unit =
     bindP (host_mounts T) (\<lambda>mounts.
     let mounted = target_of c mounts in
     if (case mounted of None \<Rightarrow> False | Some m \<Rightarrow> me_filesystem m \<noteq> expected_filesystem c)
     then fail (SleepFailed (fl ''ui-sleep-unexpected-filesystem-at-mountpoint-left-untouched''))
     else
     bindP (if mounted \<noteq> None then ret True else unit_is_active B unit) (\<lambda>was_active.
     if \<not> was_active then ret False
     else
     seqP (whenP (mounted \<noteq> None \<and> conn_provider c \<noteq> OneDrive) (check_uploads T parse c))
    (bindP (remaining T) (\<lambda>left.
     if left < from_millis 2500 then fail (SleepFailed (fl ''ui-sleep-insufficient-sleep-delay-for-a-clean-stop''))
     else
     bindP (stop_policy_matches B unit) (\<lambda>ok.
     if \<not> ok then fail (SleepFailed (fl ''ui-sleep-nonforcing-sleep-stop-policy-was-not-applied''))
     else
     seqP (whenP (mounted \<noteq> None \<and> conn_provider c = OneDrive) (detach_onedrive T c))
    (bindP (remaining T) (\<lambda>left2.
     if left2 < from_millis 500
     then fail (SleepFailed (fl ''ui-sleep-sleep-cleanup-deadline-reached-after-detaching-inspect''))
     else ret True)))))))"

text \<open>Polls of the stop every 100 ms; the deadline ends them when the fuel is spent.\<close>

fun await_stop :: "nat \<Rightarrow> sleep_clock \<Rightarrow> systemd_bus \<Rightarrow> connection \<Rightarrow> string \<Rightarrow> (sleep_error, unit) prog" where
  "await_stop 0 T B c unit = fail DeadlineReached"
| "await_stop (Suc n) T B c unit =
     bindP (unit_is_active B unit) (\<lambda>still_active.
     bindP (host_mounts T) (\<lambda>mounts.
     if \<not> still_active \<and> target_of c mounts = None then ret ()
     else
     seqP (whenP (\<not> still_active)
        (bindP (liftR (map_err (\<lambda>e. SleepFailed (command_error_text e)) (clean_unmount_request (local_path c)))) (\<lambda>r.
         bindP (await_cmd T r) (\<lambda>_. ret ()))))
     (await_stop n T B c unit)))"

text \<open>The polls that fit into the largest budget of thirty seconds.\<close>

definition STOP_POLLS :: nat where "STOP_POLLS = 300"

definition clean_owned ::
  "sleep_clock \<Rightarrow> systemd_bus \<Rightarrow> (string \<Rightarrow> string + json) \<Rightarrow> connection \<Rightarrow> string \<Rightarrow> (sleep_error, bool) prog" where
  "clean_owned T B parse c unit =
     bindP (clean_checks T B parse c unit) (\<lambda>stop.
     if \<not> stop then ret False
     else
     seqP (await_bus (systemd_user_stop_no_wait B unit))
    (seqP (await_stop STOP_POLLS T B c unit) (ret True)))"

section \<open>The stop policy\<close>

definition STOP_POLICY :: string where
  "STOP_POLICY =
     unlines [''# Cloud Mounter Online sleep cleanup'', ''[Service]'', ''TimeoutStopSec=2s'',
       ''TimeoutStopFailureMode=terminate'', ''KillSignal=SIGTERM'', ''SendSIGKILL=no'']"

definition prepare_stop_policy :: "path \<Rightarrow> unit_name \<Rightarrow> (msg, bool) prog" where
  "prepare_stop_policy root unit =
     (let directory = path_join root (file_name unit @ ''.d'');
          p = path_join directory ''90-cosmic-mounter-sleep.conf'' in
      bindP (tryP (read_to_string p)) (\<lambda>existing.
      case existing of
        Inr text \<Rightarrow>
          if text = STOP_POLICY then ret False
          else fail (fl ''ui-sleep-sleep-stop-policy-file-was-modified-left'')
      | Inl e \<Rightarrow>
          if io_kind e \<noteq> NotFound then fail (io_text e)
          else
          seqP (map_errP io_text (create_dir_all directory))
         (bindP new_uuid (\<lambda>u.
          let temporary = path_join directory (''.sleep-'' @ u) in
          bindP (tryP (seqP (open_create_new temporary)
                      (seqP (write_all temporary STOP_POLICY) (rename_file temporary p)))) (\<lambda>r.
          seqP (if is_err r then seqP (tryP (remove_file temporary)) (ret ()) else ret ())
            (case r of Inl e \<Rightarrow> fail (io_text e) | Inr _ \<Rightarrow> ret True))))))"

definition user_unit_store :: "nat \<Rightarrow> (string \<Rightarrow> uuid option) \<Rightarrow> path option \<Rightarrow> service_error + file_unit_store" where
  "user_unit_store pid parse_uuid home =
     bind_res (ok_or (SvcRuntime (fl ''ui-services-home-is-unavailable'')) home) (\<lambda>h.
       Inr \<lparr>fus_root = path_join h ''.config/systemd/user'', fus_pid = pid, fus_validate = structural_validate,
            fus_parse_uuid = parse_uuid\<rparr>)"

definition clean_one ::
  "sleep_clock \<Rightarrow> systemd_bus \<Rightarrow> nat \<Rightarrow> (string \<Rightarrow> uuid option) \<Rightarrow> (string \<Rightarrow> string + json) \<Rightarrow> connection
     \<Rightarrow> (sleep_error, bool) prog" where
  "clean_one T B pid parse_uuid parse c =
     (let unit = \<lparr>un_connection_id = conn_id c, un_kind = ServiceUnit\<rparr>;
          service = map_err (\<lambda>e. SleepFailed (service_error_text e)) in
      bindP home_directory (\<lambda>home.
      bindP (liftR (service (user_unit_store pid parse_uuid home))) (\<lambda>S.
      bindP (map_errP (\<lambda>e. SleepFailed (service_error_text e)) (store_state S unit)) (\<lambda>st.
      if st \<noteq> UnitManaged (conn_id c)
      then fail (SleepFailed (fl ''ui-sleep-service-ownership-could-not-be-verified-left''))
      else
      bindP (env_var ''XDG_RUNTIME_DIR'') (\<lambda>dir.
      bindP (liftR (ok_or (SleepFailed (fl ''ui-sleep-runtime-directory-unavailable'')) dir)) (\<lambda>runtime.
      seqP (map_errP SleepFailed (prepare_stop_policy (path_join runtime ''systemd/user'') unit))
     (seqP (await_bus (systemd_user_reload B))
           (clean_owned T B parse c (file_name unit)))))))))"

section \<open>The report\<close>

record cleanup_report =
  cr_needs_attention :: bool
  cr_active :: "connection_id list"
  cr_summary :: msg

definition online_connections :: "connection list \<Rightarrow> connection list" where
  "online_connections cs = filter is_online cs"

definition cleanup_text :: "sleep_error \<Rightarrow> msg" where
  "cleanup_text e =
     (case e of
        DeadlineReached \<Rightarrow> fl ''ui-sleep-sleep-cleanup-deadline-reached-inspect-mount-service''
      | SleepFailed m \<Rightarrow> m)"

text \<open>
  The results of the connections in the order they finish.  A cleanup that succeeds was active: the code
  answers \<open>Ok(true)\<close> only after it set \<open>was_active\<close>.
\<close>

definition cleanup_report_of :: "(connection \<times> (sleep_error + bool)) list \<Rightarrow> cleanup_report" where
  "cleanup_report_of results =
     (let cleaned = filter (\<lambda>(c, r). r = Inr True) results;
          failures = List.map_filter (\<lambda>(c, r). case r of
            Inl e \<Rightarrow> Some (msg.Cat [Lit (conn_name c), Lit '': '', cleanup_text e]) | Inr _ \<Rightarrow> None) results
      in \<lparr>cr_needs_attention = (failures \<noteq> []), cr_active = map (\<lambda>(c, r). conn_id c) cleaned,
          cr_summary =
            (if failures = []
             then Fl ''ui-sleep-sleep-cleanup-cleaned-online-connection-s-unmounted''
                    [(''cleaned'', Lit (show_nat (length cleaned)))]
             else Fl ''ui-sleep-sleep-cleanup-incomplete-cleaned-unmounted-value2-caches''
                    [(''cleaned'', Lit (show_nat (length cleaned))), (''value2'', Joined ''; '' failures)])\<rparr>)"

definition cleanup_budget :: "duration \<Rightarrow> duration" where
  "cleanup_budget host_limit = min (host_limit - from_millis 500) (from_secs 30)"

section \<open>The listener\<close>

datatype sleep_event = SleepStatus msg bool | SleepWake "connection_id list"

text \<open>
  What the listener meets, by the number of the signal: the delay that logind allows in microseconds
  (nothing when reading it times out), the inhibitor, the operations ending in time, the report of the
  cleanup, the setting, and whether the channel takes an event.
\<close>

record sleep_host =
  sh_limit :: "nat \<Rightarrow> nat res option"
  sh_inhibit :: "nat \<Rightarrow> unit res"
  sh_idle :: "nat \<Rightarrow> duration \<Rightarrow> bool"
  sh_cleanup :: "nat \<Rightarrow> duration \<Rightarrow> cleanup_report"
  sh_restore_after_wake :: "nat \<Rightarrow> bool"
  sh_accepts :: "nat \<Rightarrow> sleep_event \<Rightarrow> bool"

record listener =
  ln_sleeping :: bool
  ln_inhibitor :: bool
  ln_restore :: "connection_id list"
  ln_gate :: online_gate
  ln_sent :: "sleep_event list"

definition try_send :: "sleep_host \<Rightarrow> nat \<Rightarrow> sleep_event \<Rightarrow> listener \<Rightarrow> listener" where
  "try_send H n e l = (if sh_accepts H n e then l\<lparr>ln_sent := ln_sent l @ [e]\<rparr> else l)"

definition busy_report :: cleanup_report where
  "busy_report =
     \<lparr>cr_needs_attention = True, cr_active = [],
      cr_summary = fl ''ui-sleep-sleep-cleanup-incomplete-an-online-operation-did''\<rparr>"

definition fall_asleep :: "sleep_host \<Rightarrow> nat \<Rightarrow> listener \<Rightarrow> msg option \<times> listener" where
  "fall_asleep H n l0 =
     (let l = try_send H n (SleepStatus (fl ''ui-sleep-preparing-for-sleep-unmounting-online-connections'') False)
                (l0\<lparr>ln_sleeping := True, ln_gate := preparing (ln_gate l0)\<rparr>) in
      case sh_limit H n of
        None \<Rightarrow> (Some (fl ''ui-sleep-could-not-read-sleep-delay-deadline''), l)
      | Some (Inl e) \<Rightarrow> (Some e, l)
      | Some (Inr limit) \<Rightarrow>
          (let budget = cleanup_budget limit;
               report = (if sh_idle H n budget then sh_cleanup H n budget else busy_report)
           in (None, try_send H n (SleepStatus (cr_summary report) (cr_needs_attention report))
                 (l\<lparr>ln_restore := (if sh_restore_after_wake H n then cr_active report else []),
                    ln_inhibitor := False\<rparr>))))"

definition wake_up :: "sleep_host \<Rightarrow> nat \<Rightarrow> listener \<Rightarrow> msg option \<times> listener" where
  "wake_up H n l0 =
     (let l = l0\<lparr>ln_sleeping := False, ln_gate := awake (ln_gate l0)\<rparr> in
      case sh_inhibit H n of
        Inl e \<Rightarrow> (Some e, l)
      | Inr _ \<Rightarrow> (None, try_send H n (SleepWake (ln_restore l)) (l\<lparr>ln_inhibitor := True, ln_restore := []\<rparr>)))"

definition listen_signal :: "sleep_host \<Rightarrow> nat \<Rightarrow> bool res \<Rightarrow> listener \<Rightarrow> msg option \<times> listener" where
  "listen_signal H n signal l =
     (case signal of
        Inl e \<Rightarrow> (Some e, l)
      | Inr going_to_sleep \<Rightarrow>
          if going_to_sleep then (if ln_sleeping l then (None, l) else fall_asleep H n l)
          else (if \<not> ln_sleeping l then (None, l) else wake_up H n l))"

fun listen_from :: "sleep_host \<Rightarrow> nat \<Rightarrow> bool res list \<Rightarrow> listener \<Rightarrow> msg \<times> listener" where
  "listen_from H n [] l = (fl ''ui-sleep-logind-signal-stream-ended'', l)"
| "listen_from H n (s # ss) l =
     (case listen_signal H n s l of
        (Some e, l') \<Rightarrow> (e, l')
      | (None, l') \<Rightarrow> listen_from H (Suc n) ss l')"

text \<open>
  One run of \<open>listen\<close>: the first inhibitor, the state of the machine, then the signals.  It keeps the
  gate and the channel of the process; the list to restore and the inhibitor are its own.
\<close>

definition listen :: "sleep_host \<Rightarrow> nat \<Rightarrow> unit res \<Rightarrow> bool res \<Rightarrow> bool res list \<Rightarrow> listener \<Rightarrow> msg \<times> listener" where
  "listen H n first sleeping signals l0 =
     (let l = l0\<lparr>ln_sleeping := False, ln_inhibitor := False, ln_restore := []\<rparr> in
      case first of
        Inl e \<Rightarrow> (e, l)
      | Inr _ \<Rightarrow>
          (case sleeping of
             Inl e \<Rightarrow> (e, l)
           | Inr b \<Rightarrow>
               listen_from H (Suc n) signals
                 (try_send H n
                    (SleepStatus (if b then fl ''ui-sleep-sleep-already-in-progress-cleanup-will-be''
                                  else fl ''ui-sleep-online-mount-cleanup-before-sleep-is-ready'') b)
                    (l\<lparr>ln_sleeping := b, ln_inhibitor := \<not> b,
                       ln_gate := (if b then preparing (ln_gate l) else awake (ln_gate l))\<rparr>))))"

end
