(* ===== verification/Sleep_Safety.thy ===== *)
theory Sleep_Safety
  imports Sleep Coordinator_Events Unit_Safety
begin

text \<open>
  The properties of the preparation for sleep: the gate as a transition system, what is known of a mount
  before its service is stopped, and what a wake restores.
\<close>

section \<open>The gate as a transition system\<close>

text \<open>
  The gate, the tokens of the operations in progress, all tokens handed out so far, and whether the
  listener is between seeing the gate idle and the end of its cleanup.
\<close>

record sleep_system =
  sy_gate :: online_gate
  sy_ops :: "nat list"
  sy_tokens :: "nat list"
  sy_cleaning :: bool

definition start_system :: sleep_system where
  "start_system = \<lparr>sy_gate = default_gate, sy_ops = [], sy_tokens = [], sy_cleaning = False\<rparr>"

text \<open>
  Any thread may ask for a token, register or end an operation; the listener prepares, sees the gate
  idle, cleans and wakes in this order, and may be dropped at any time, which opens the gate.
\<close>

inductive sleep_step :: "sleep_system \<Rightarrow> sleep_system \<Rightarrow> bool" where
  take_token: "online_operation_token (sy_gate s) = Inr t \<Longrightarrow>
    sleep_step s (s\<lparr>sy_tokens := t # sy_tokens s\<rparr>)"
| begin_op: "begin_online_operation (sy_gate s) = (Inr t, g) \<Longrightarrow>
    sleep_step s (s\<lparr>sy_gate := g, sy_ops := t # sy_ops s, sy_tokens := t # sy_tokens s\<rparr>)"
| end_op: "sy_ops s = xs @ t # ys \<Longrightarrow>
    sleep_step s (s\<lparr>sy_gate := end_online_operation (sy_gate s), sy_ops := xs @ ys\<rparr>)"
| prepare: "\<not> sy_cleaning s \<Longrightarrow> sleep_step s (s\<lparr>sy_gate := preparing (sy_gate s)\<rparr>)"
| seen_idle: "gt_preparing (sy_gate s) \<Longrightarrow> online_idle (sy_gate s) \<Longrightarrow> sleep_step s (s\<lparr>sy_cleaning := True\<rparr>)"
| cleaned: "sleep_step s (s\<lparr>sy_cleaning := False\<rparr>)"
| wake: "\<not> sy_cleaning s \<Longrightarrow> sleep_step s (s\<lparr>sy_gate := awake (sy_gate s)\<rparr>)"
| dropped: "sleep_step s (s\<lparr>sy_gate := awake (sy_gate s), sy_cleaning := False\<rparr>)"

definition gate_inv :: "sleep_system \<Rightarrow> bool" where
  "gate_inv s =
     (gt_active (sy_gate s) = length (sy_ops s)
      \<and> (sy_cleaning s \<longrightarrow> gt_preparing (sy_gate s) \<and> sy_ops s = [])
      \<and> (gt_preparing (sy_gate s) \<longrightarrow> gt_cancelled (sy_gate s))
      \<and> (\<forall>t \<in> set (sy_tokens s). t \<le> gt_generation (sy_gate s)))"

lemmas gate_defs = online_operation_token_def begin_online_operation_def end_online_operation_def
  preparing_def awake_def online_idle_def token_cancelled_def

lemma gate_inv_step: "sleep_step s s' \<Longrightarrow> gate_inv s \<Longrightarrow> gate_inv s'"
  by (induction rule: sleep_step.induct) (auto simp: gate_inv_def gate_defs split: if_splits)

lemma gate_inv_steps: "sleep_step\<^sup>*\<^sup>* s s' \<Longrightarrow> gate_inv s \<Longrightarrow> gate_inv s'"
  by (induction rule: rtranclp_induct) (auto intro: gate_inv_step)

lemma cancelled_step:
  "sleep_step s s' \<Longrightarrow> t \<le> gt_generation (sy_gate s) \<Longrightarrow> token_cancelled (sy_gate s) t \<Longrightarrow>
     t \<le> gt_generation (sy_gate s') \<and> token_cancelled (sy_gate s') t"
  by (induction rule: sleep_step.induct) (auto simp: gate_defs split: if_splits)

lemma cancelled_steps:
  "sleep_step\<^sup>*\<^sup>* s s' \<Longrightarrow> t \<le> gt_generation (sy_gate s) \<Longrightarrow> token_cancelled (sy_gate s) t \<Longrightarrow>
     t \<le> gt_generation (sy_gate s') \<and> token_cancelled (sy_gate s') t"
  by (induction rule: rtranclp_induct) (auto dest: cancelled_step)

text \<open>
  C11. A cleanup never meets a mount operation: in every reachable state of the gate, whatever the
  interleaving, the counter is the number of operations in progress, so it never goes below zero; while
  the listener cleans up none is in progress and none can begin; and a token that was handed out before a
  sleep was prepared is cancelled for good, also after the wake.
\<close>
theorem sleep_gate_sound:
  assumes "sleep_step\<^sup>*\<^sup>* start_system s" and "sleep_step\<^sup>*\<^sup>* s s'"
  shows "gt_active (sy_gate s) = length (sy_ops s)
    \<and> (sy_cleaning s \<longrightarrow> sy_ops s = [] \<and> fst (begin_online_operation (sy_gate s)) = Inl gate_paused
        \<and> online_operation_token (sy_gate s) = Inl gate_paused)
    \<and> (gt_preparing (sy_gate s) \<longrightarrow> (\<forall>t \<in> set (sy_tokens s). token_cancelled (sy_gate s') t))"
proof -
  have "gate_inv start_system" by (simp add: gate_inv_def start_system_def default_gate_def)
  then have inv: "gate_inv s" using gate_inv_steps assms(1) by blast
  have "token_cancelled (sy_gate s') t" if "gt_preparing (sy_gate s)" "t \<in> set (sy_tokens s)" for t
    using that inv cancelled_steps [OF assms(2), of t] by (simp add: gate_inv_def token_cancelled_def)
  with inv show ?thesis by (simp add: gate_inv_def gate_defs)
qed

text \<open>An operation begins, the machine prepares for sleep, the operation ends, the cleanup begins, the machine wakes.\<close>

lemma sleep_gate_sound_witness:
  "\<exists>s s'. sleep_step\<^sup>*\<^sup>* start_system s \<and> sleep_step\<^sup>*\<^sup>* s s' \<and> sy_cleaning s \<and> \<not> gt_preparing (sy_gate s')
     \<and> token_cancelled (sy_gate s') 0"
proof -
  define s1 where "s1 = start_system\<lparr>sy_gate := default_gate\<lparr>gt_active := 1\<rparr>, sy_ops := [0], sy_tokens := [0]\<rparr>"
  define s2 where "s2 = s1\<lparr>sy_gate := preparing (sy_gate s1)\<rparr>"
  define s3 where "s3 = s2\<lparr>sy_gate := end_online_operation (sy_gate s2), sy_ops := []\<rparr>"
  define s4 where "s4 = s3\<lparr>sy_cleaning := True\<rparr>"
  define s5 where "s5 = s4\<lparr>sy_gate := awake (sy_gate s4), sy_cleaning := False\<rparr>"
  note defs = s1_def s2_def s3_def s4_def s5_def start_system_def default_gate_def gate_defs
  have "sleep_step start_system s1"
    using begin_op [of start_system 0 "default_gate\<lparr>gt_active := 1\<rparr>"] by (simp add: defs)
  moreover have "sleep_step s1 s2" unfolding s2_def by (rule prepare) (simp add: defs)
  moreover have "sleep_step s2 s3" unfolding s3_def using end_op [of s2 "[]" 0 "[]"] by (simp add: defs)
  moreover have "sleep_step s3 s4" unfolding s4_def by (rule seen_idle) (simp_all add: defs)
  moreover have "sleep_step s4 s5" unfolding s5_def by (rule dropped)
  ultimately have r: "sleep_step\<^sup>*\<^sup>* start_system s4" "sleep_step\<^sup>*\<^sup>* s4 s5" by (auto intro: rtranclp.rtrancl_into_rtrancl)
  have "gt_preparing (sy_gate s4)" "0 \<in> set (sy_tokens s4)" by (simp_all add: defs)
  with sleep_gate_sound [OF r] have "token_cancelled (sy_gate s5) 0" by blast
  with r show ?thesis by (intro exI [of _ s4] exI [of _ s5]) (simp add: defs)
qed

section \<open>What is known before a stop\<close>

definition no_call :: "event \<Rightarrow> bool" where
  "no_call ev = (\<forall>m arguments. ev \<noteq> Called m arguments)"

lemma emits_await [emits_intros]: "emits env P m \<Longrightarrow> emits env P (await_step T m)"
  by (rule emitsI)
     (auto simp: await_step_def dest: emitsD split: deadline_cut.splits prod.splits)

lemma emits_sleep_prims [emits_intros]:
  "emits env P (bus_step wrap answer)" "emits env P (remaining T)" "emits env P (sleep_request exe as)"
  by (auto intro!: emits_silent simp: bus_step_def remaining_def sleep_request_def)

lemma emits_await_cmd [emits_intros]: "emits env no_call (await_cmd T r)"
  unfolding await_cmd_def by (intro emits_intros) (simp add: no_call_def)

lemma emits_sleep_bus [emits_intros]:
  "emits env P (systemd_user_active_state B unit)" "emits env P (systemd_user_stop_policy B unit)"
  unfolding systemd_user_active_state_def systemd_user_stop_policy_def systemd_user_connection_def
    systemd_user_unit_path_def systemd_user_manager_def systemd_user_unit_proxy_def
  by (intro emits_intros)+

lemma emits_host_mounts [emits_intros]: "emits env no_call (host_mounts T)"
  unfolding host_mounts_def by (intro emits_intros)

lemma emits_reads [emits_intros]: "emits env P (unit_is_active B unit)" "emits env P (stop_policy_matches B unit)"
  unfolding unit_is_active_def stop_policy_matches_def await_bus_def by (intro emits_intros)+

lemma emits_clean_checks: "emits env no_call (clean_checks T B parse c unit)"
  unfolding clean_checks_def check_uploads_def detach_onedrive_def
  by (intro emits_intros)

lemma await_cmd_Inr: "await_cmd T r env w = (Inr out, w') \<Longrightarrow> \<exists>n f. fst (e_cmd env n r f) = Inr out"
  by (auto simp: await_cmd_def await_step_def run_cmd_def map_errP_def map_err_def
      split: deadline_cut.splits prod.splits sum.splits) (metis fst_conv)

lemma sleep_request_Inr:
  "sleep_request exe as env w = (Inr r, w') \<Longrightarrow> req_executable r = exe \<and> request_argv r = as"
  by (auto simp: sleep_request_def add_args_Inr request_argv_def new_request_def o_def)

lemma check_uploads_Inr:
  assumes "check_uploads T parse c env w = (Inr u, w')"
  shows "\<exists>n f r out. fst (e_cmd env n r f) = Inr out \<and> req_executable r = RcloneExe \<and> last (request_argv r) = ''vfs/stats''
    \<and> uploads_idle parse (co_text (out_stdout out)) = Inr True"
  using assms unfolding check_uploads_def Let_def
  by (auto simp: run_simps split: if_splits dest!: await_cmd_Inr sleep_request_Inr) (metis last.simps list.distinct(1))

lemma detach_onedrive_Inr:
  assumes "detach_onedrive T c env w = (Inr u, w')"
  shows "\<exists>v v' ms. host_mounts T env v = (Inr ms, v') \<and> target_of c ms = None"
  using assms unfolding detach_onedrive_def by (auto simp: run_simps split: if_splits)


text \<open>A service that is active without a mount until it is told to stop, on a machine without other mounts.\<close>

definition sleep_bus :: systemd_bus where
  "sleep_bus =
     (sample_bus True)\<lparr>
       b_text := (\<lambda>n p t. Reply (if t = ''ActiveState'' then (if n < 12 then ''active'' else ''inactive'') else ''terminate'')),
       b_number := (\<lambda>n p t. Reply (if t = ''KillSignal'' then 15 else 2000000))\<rparr>"

definition sleep_env :: env where
  "sleep_env = calm_env\<lparr>e_cmd := (\<lambda>n r f.
     (Inr \<lparr>out_stdout = \<lparr>co_text = [], co_truncated = False, co_invalid_utf8 = False\<rparr>,
           out_stderr = \<lparr>co_text = [], co_truncated = False, co_invalid_utf8 = False\<rparr>, out_attempts = 1\<rparr>, f))\<rparr>"

definition calm_clock :: sleep_clock where
  "calm_clock = \<lparr>sc_cut = (\<lambda>n. NotCut), sc_remaining = (\<lambda>n. from_secs 9)\<rparr>"

definition sleep_sample :: connection where
  "sleep_sample = sample_mirror\<lparr>conn_mode := OnlineMount default_online_mount\<rparr>"

lemma sleep_sample_run:
  "case clean_owned calm_clock sleep_bus (\<lambda>s. Inl []) sleep_sample ''u.service'' sleep_env sample_world of
     (r, w') \<Rightarrow> r = Inr True \<and> Called ''StopUnit'' [''u.service'', ''replace''] \<in> set (events w')"
  by code_simp


section \<open>What a wake restores\<close>

definition wake_lists :: "sleep_event list \<Rightarrow> connection_id list list" where
  "wake_lists es = List.map_filter (\<lambda>e. case e of SleepWake ids \<Rightarrow> Some ids | SleepStatus _ _ \<Rightarrow> None) es"

lemma wake_lists_simps [simp]:
  "wake_lists [] = []" "wake_lists (xs @ ys) = wake_lists xs @ wake_lists ys"
  "wake_lists (SleepWake ids # es) = ids # wake_lists es" "wake_lists (SleepStatus m b # es) = wake_lists es"
  by (simp_all add: wake_lists_def map_filter_def)

text \<open>
  C37. A wake restores what the sleep cleaned only if the inhibitor can be taken again: for a listener that
  is awake, with a channel that takes every event, a sleep whose delay could be read, and the setting on,
  the wake asks to restore exactly the connections the cleanup stopped when logind grants the new
  inhibitor; when it refuses, the listener ends with that error, nothing is asked for, and the next run
  of the listener starts with nothing to restore, so the stopped mounts stay stopped.
\<close>
theorem wake_restores_only_with_inhibitor:
  assumes "\<not> ln_sleeping l" and "\<And>m e. sh_accepts H m e" and "sh_limit H n = Some (Inr limit)"
    and "sh_restore_after_wake H n" and "sh_idle H n (cleanup_budget limit)"
  shows "case listen_from H n [Inr True, Inr False] l of (e, l') \<Rightarrow>
      gt_preparing (ln_gate l') = False
      \<and> (case sh_inhibit H (Suc n) of
           Inr _ \<Rightarrow> wake_lists (ln_sent l') = wake_lists (ln_sent l) @ [cr_active (sh_cleanup H n (cleanup_budget limit))]
         | Inl err \<Rightarrow> e = err \<and> wake_lists (ln_sent l') = wake_lists (ln_sent l)
             \<and> ln_restore (snd (listen H m first sleeping [] l')) = [])"
  using assms
  by (auto simp: listen_signal_def fall_asleep_def wake_up_def try_send_def Let_def listen_def awake_def preparing_def
      split: sum.split)

definition broken_host :: sleep_host where
  "broken_host =
     \<lparr>sh_limit = (\<lambda>n. Some (Inr 5000000)), sh_inhibit = (\<lambda>n. Inl (Lit ''refused'')), sh_idle = (\<lambda>n d. True),
      sh_cleanup = (\<lambda>n d. cleanup_report_of [(sleep_sample, Inr True)]), sh_restore_after_wake = (\<lambda>n. True),
      sh_accepts = (\<lambda>n e. True)\<rparr>"

definition awake_listener :: listener where
  "awake_listener = \<lparr>ln_sleeping = False, ln_inhibitor = True, ln_restore = [], ln_gate = default_gate, ln_sent = []\<rparr>"

lemma wake_restores_only_with_inhibitor_witness:
  "fst (listen_from broken_host 0 [Inr True, Inr False] awake_listener) = Lit ''refused''
   \<and> wake_lists (ln_sent (snd (listen_from broken_host 0 [Inr True, Inr False] awake_listener))) = []
   \<and> cr_active (sh_cleanup broken_host 0 1) = [conn_id sleep_sample]"
proof -
  have "\<not> ln_sleeping awake_listener" "\<And>m e. sh_accepts broken_host m e"
    "sh_limit broken_host 0 = Some (Inr 5000000)" "sh_restore_after_wake broken_host 0"
    "sh_idle broken_host 0 (cleanup_budget 5000000)"
    by (simp_all add: awake_listener_def broken_host_def)
  note result = wake_restores_only_with_inhibitor [OF this, where m = 0 and first = "Inr ()" and sleeping = "Inr False"]
  obtain e l' where run: "listen_from broken_host 0 [Inr True, Inr False] awake_listener = (e, l')" by (rule prod.exhaust)
  have refused: "sh_inhibit broken_host (Suc 0) = Inl (Lit ''refused'')" by (simp add: broken_host_def)
  have "cr_active (sh_cleanup broken_host 0 1) = [conn_id sleep_sample]" by (simp add: broken_host_def cleanup_report_of_def)
  moreover have "wake_lists (ln_sent awake_listener) = []" by (simp add: awake_listener_def)
  ultimately show ?thesis using result by (simp add: run refused del: listen_from.simps)
qed

end
