(* ===== verification/Vpn.thy ===== *)
theory Vpn
  imports Systemd_Manager
begin

text \<open>
  NetworkManager and the readiness of a VPN (\<open>src/src/vpn.rs\<close>).  NetworkManager's answers are functions
  of the number of the call, like those of systemd; an answer \<open>Dropped\<close> is a future dropped by the
  timeout or the cancellation around it.  Activations and deactivations are logged when they are called.
\<close>

datatype vpn_error =
    InvalidProfileKind
  | MissingExternalProfileId
  | InvalidEndpoint
  | ReadinessCancelled
  | VpnMissingExecutable executable
  | VpnCommand command_error
  | Dbus msg
  | AuthenticationAgent msg

fun vpn_error_text :: "vpn_error \<Rightarrow> msg" where
  "vpn_error_text InvalidProfileKind = fl ''ui-vpn-invalid-vpn-profile-kind''"
| "vpn_error_text MissingExternalProfileId = fl ''ui-vpn-missing-external-vpn-profile-id''"
| "vpn_error_text InvalidEndpoint = fl ''ui-vpn-invalid-endpoint-readiness-check''"
| "vpn_error_text ReadinessCancelled = fl ''ui-vpn-readiness-check-was-cancelled''"
| "vpn_error_text (VpnMissingExecutable e) = Fl ''ui-vpn-value1-was-not-found'' [(''value1'', Lit (display_name e))]"
| "vpn_error_text (VpnCommand e) = command_error_text e"
| "vpn_error_text (Dbus e) = Fl ''ui-vpn-networkmanager-d-bus-error-error'' [(''error'', e)]"
| "vpn_error_text (AuthenticationAgent e) = Fl ''ui-vpn-openconnect-authentication-agent-error'' [(''error'', e)]"

section \<open>Saved profiles\<close>

record nm_profile =
  np_name :: string
  np_uuid :: string
  np_vpn_type :: string
  np_service_type :: "string option"

definition OPENCONNECT_SERVICE_TYPE :: string where
  "OPENCONNECT_SERVICE_TYPE = ''org.freedesktop.NetworkManager.openconnect''"

definition OPENCONNECT_AGENT_UNIT :: string where
  "OPENCONNECT_AGENT_UNIT = ''cosmic-mounter-openconnect-agent.service''"

definition is_openconnect :: "nm_profile \<Rightarrow> bool" where
  "is_openconnect p = (np_service_type p = Some OPENCONNECT_SERVICE_TYPE)"

definition requires_openconnect_agent :: "nm_profile \<Rightarrow> bool" where
  "requires_openconnect_agent p = is_openconnect p"

definition is_vpn_type :: "string \<Rightarrow> bool" where
  "is_vpn_type v =
     (let l = ascii_lowercase v in
      str_contains ''vpn'' l \<or> str_contains ''wireguard'' l \<or> str_contains ''openvpn'' l \<or> str_contains ''anyconnect'' l)"

text \<open>A settings value is a text or something else.\<close>

type_synonym nm_settings = "string \<Rightarrow> (string \<Rightarrow> string option option) option"

definition setting_text :: "(string \<Rightarrow> string option option) \<Rightarrow> string \<Rightarrow> string option" where
  "setting_text values k = Option.bind (values k) id"

definition profile_from_settings :: "nm_settings \<Rightarrow> nm_profile option" where
  "profile_from_settings values =
     Option.bind (values ''connection'') (\<lambda>c.
     Option.bind (setting_text c ''id'') (\<lambda>name.
     Option.bind (setting_text c ''uuid'') (\<lambda>uuid.
     Option.bind (setting_text c ''type'') (\<lambda>kind.
       if is_vpn_type kind
       then Some \<lparr>np_name = name, np_uuid = uuid, np_vpn_type = kind,
                  np_service_type = Option.bind (values ''vpn'') (\<lambda>v. setting_text v ''service-type'')\<rparr>
       else None))))"

section \<open>NetworkManager over D-Bus\<close>

record nm_bus =
  nm_connect :: "nat \<Rightarrow> unit reply"
  nm_proxy :: "nat \<Rightarrow> path \<Rightarrow> string \<Rightarrow> unit reply"
  nm_paths :: "nat \<Rightarrow> path \<Rightarrow> string \<Rightarrow> path list reply"
  nm_settings_of :: "nat \<Rightarrow> path \<Rightarrow> nm_settings reply"
  nm_text :: "nat \<Rightarrow> path \<Rightarrow> string \<Rightarrow> string reply"
  nm_number :: "nat \<Rightarrow> path \<Rightarrow> string \<Rightarrow> nat reply"
  nm_call :: "nat \<Rightarrow> string \<Rightarrow> path list \<Rightarrow> unit reply"
  nm_cut :: "nat \<Rightarrow> cut option"

datatype vpn_stop = VpnFailed vpn_error | VpnDropped cut

type_synonym 'a vpn_prog = "(vpn_stop, 'a) prog"

definition nm_step :: "(nat \<Rightarrow> 'a reply) \<Rightarrow> 'a vpn_prog" where
  "nm_step answer = (\<lambda>env w.
     (case answer (tick w) of
        Reply x \<Rightarrow> Inr x | BusError _ t \<Rightarrow> Inl (VpnFailed (Dbus (Lit t))) | Dropped c \<Rightarrow> Inl (VpnDropped c),
      w\<lparr>tick := Suc (tick w)\<rparr>))"

definition NM_PATH :: string where "NM_PATH = ''/org/freedesktop/NetworkManager''"
definition NM_INTERFACE :: string where "NM_INTERFACE = ''org.freedesktop.NetworkManager''"
definition NM_SETTINGS_PATH :: string where "NM_SETTINGS_PATH = ''/org/freedesktop/NetworkManager/Settings''"
definition NM_SETTINGS_INTERFACE :: string where
  "NM_SETTINGS_INTERFACE = ''org.freedesktop.NetworkManager.Settings''"

definition nm_manager :: "nm_bus \<Rightarrow> unit vpn_prog" where
  "nm_manager N = seqP (nm_step (nm_connect N)) (nm_step (\<lambda>n. nm_proxy N n NM_PATH NM_INTERFACE))"

fun read_profiles :: "nm_bus \<Rightarrow> path list \<Rightarrow> (nm_profile \<times> path) list vpn_prog" where
  "read_profiles N [] = ret []"
| "read_profiles N (p # ps) =
     seqP (nm_step (\<lambda>n. nm_proxy N n p ''org.freedesktop.NetworkManager.Settings.Connection''))
    (bindP (nm_step (\<lambda>n. nm_settings_of N n p)) (\<lambda>values.
     bindP (read_profiles N ps) (\<lambda>rest.
       ret (case profile_from_settings values of Some profile \<Rightarrow> (profile, p) # rest | None \<Rightarrow> rest))))"

definition saved_profiles :: "nm_bus \<Rightarrow> (nm_profile \<times> path) list vpn_prog" where
  "saved_profiles N =
     seqP (nm_step (nm_connect N))
    (seqP (nm_step (\<lambda>n. nm_proxy N n NM_SETTINGS_PATH NM_SETTINGS_INTERFACE))
    (bindP (nm_step (\<lambda>n. nm_paths N n NM_SETTINGS_PATH ''ListConnections'')) (\<lambda>ps.
       read_profiles N ps)))"

definition find_profile :: "nm_bus \<Rightarrow> string \<Rightarrow> (nm_profile \<times> path) vpn_prog" where
  "find_profile N uuid =
     bindP (saved_profiles N) (\<lambda>ps.
       liftR (ok_or (VpnFailed (Dbus (fl ''ui-vpn-saved-vpn-profile-was-not-found'')))
         (List.find (\<lambda>(p, _). np_uuid p = uuid) ps)))"

definition profile_is_openconnect :: "nm_bus \<Rightarrow> string \<Rightarrow> bool vpn_prog" where
  "profile_is_openconnect N uuid = bindP (find_profile N uuid) (\<lambda>(p, _). ret (is_openconnect p))"

text \<open>
  The restart of the agent's user service; the future around it may be dropped during it, which
  \<open>nm_cut\<close> decides.
\<close>

definition restart_openconnect_agent :: "nm_bus \<Rightarrow> systemd_bus \<Rightarrow> unit vpn_prog" where
  "restart_openconnect_agent N B = (\<lambda>env w.
     case systemd_user_restart_named_unit B OPENCONNECT_AGENT_UNIT env w of (r, w') \<Rightarrow>
       (case nm_cut N (tick w') of
          Some c \<Rightarrow> Inl (VpnDropped c)
        | None \<Rightarrow> map_err (\<lambda>e. VpnFailed (AuthenticationAgent
                    (Fl ''ui-vpn-the-user-service-could-not-be-restarted'' [(''error'', e)]))) r,
        w'))"

fun search_active :: "nm_bus \<Rightarrow> string \<Rightarrow> path list \<Rightarrow> path option vpn_prog" where
  "search_active N uuid [] = ret None"
| "search_active N uuid (p # ps) =
     seqP (nm_step (\<lambda>n. nm_proxy N n p ''org.freedesktop.NetworkManager.Connection.Active''))
    (bindP (nm_step (\<lambda>n. nm_text N n p ''Uuid'')) (\<lambda>u.
       if u = uuid then ret (Some p) else search_active N uuid ps))"

definition active_path :: "nm_bus \<Rightarrow> string \<Rightarrow> path option vpn_prog" where
  "active_path N uuid =
     seqP (nm_manager N)
    (bindP (nm_step (\<lambda>n. nm_paths N n NM_PATH ''ActiveConnections'')) (\<lambda>ps. search_active N uuid ps))"

definition nm_connected :: "nm_bus \<Rightarrow> bool vpn_prog" where
  "nm_connected N = seqP (nm_manager N)
     (bindP (nm_step (\<lambda>n. nm_number N n NM_PATH ''State'')) (\<lambda>s. ret (s = 60 \<or> s = 70)))"

definition nm_metered :: "nm_bus \<Rightarrow> bool vpn_prog" where
  "nm_metered N = seqP (nm_manager N)
     (bindP (nm_step (\<lambda>n. nm_number N n NM_PATH ''Metered'')) (\<lambda>s. ret (s = 1 \<or> s = 3)))"

fun search_device :: "nm_bus \<Rightarrow> string \<Rightarrow> path list \<Rightarrow> bool vpn_prog" where
  "search_device N name [] = ret False"
| "search_device N name (p # ps) =
     seqP (nm_step (\<lambda>n. nm_proxy N n p ''org.freedesktop.NetworkManager.Device''))
    (bindP (nm_step (\<lambda>n. nm_text N n p ''Interface'')) (\<lambda>i.
       if i = name then bindP (nm_step (\<lambda>n. nm_number N n p ''State'')) (\<lambda>s. ret (s = 100))
       else search_device N name ps))"

definition interface_ready :: "nm_bus \<Rightarrow> string \<Rightarrow> bool vpn_prog" where
  "interface_ready N name =
     seqP (nm_manager N)
    (bindP (nm_step (\<lambda>n. nm_paths N n NM_PATH ''GetDevices'')) (\<lambda>ps. search_device N name ps))"

section \<open>Operations on a profile\<close>

definition ensure_kind :: "vpn_profile \<Rightarrow> vpn_kind \<Rightarrow> vpn_error + unit" where
  "ensure_kind profile expected = (if vpn_kind_of profile = expected then Inr () else Inl InvalidProfileKind)"

definition external_id :: "vpn_profile \<Rightarrow> vpn_error + string" where
  "external_id profile =
     ok_or MissingExternalProfileId
       (case external_profile_id profile of
          Some v \<Rightarrow> if trim v \<noteq> [] then Some v else None | None \<Rightarrow> None)"

text \<open>\<open>select!\<close> of the cancellation and of the operation with its timeout.\<close>

definition select_error :: "string \<Rightarrow> vpn_stop \<Rightarrow> vpn_error" where
  "select_error late stop =
     (case stop of
        VpnFailed e \<Rightarrow> e
      | VpnDropped CutCancelled \<Rightarrow> Dbus (Lit ''operation cancelled'')
      | VpnDropped _ \<Rightarrow> Dbus (Lit late))"

definition list_profiles :: "nm_bus \<Rightarrow> (vpn_error, nm_profile list) prog" where
  "list_profiles N =
     map_errP (select_error ''saved-profile discovery timed out'') (bindP (saved_profiles N) (\<lambda>ps. ret (map fst ps)))"

definition with_external_id :: "vpn_profile \<Rightarrow> (string \<Rightarrow> (vpn_error, 'a) prog) \<Rightarrow> (vpn_error, 'a) prog" where
  "with_external_id profile m =
     seqP (liftR (ensure_kind profile NetworkManagerVpn)) (bindP (liftR (external_id profile)) m)"

definition activate :: "nm_bus \<Rightarrow> systemd_bus \<Rightarrow> vpn_profile \<Rightarrow> (vpn_error, unit) prog" where
  "activate N B profile = with_external_id profile (\<lambda>uuid.
     map_errP (select_error ''activation timed out'')
       (bindP (find_profile N uuid) (\<lambda>(saved, p).
        seqP (whenP (requires_openconnect_agent saved) (restart_openconnect_agent N B))
       (seqP (nm_manager N)
       (seqP (log_event (Called ''ActivateConnection'' [p, ''/'', ''/'']))
             (nm_step (\<lambda>n. nm_call N n ''ActivateConnection'' [p, ''/'', ''/'']))))))) "

definition deactivate :: "nm_bus \<Rightarrow> vpn_profile \<Rightarrow> (vpn_error, unit) prog" where
  "deactivate N profile = with_external_id profile (\<lambda>uuid.
     map_errP (select_error ''deactivation timed out'')
       (bindP (active_path N uuid) (\<lambda>found.
        case found of
          None \<Rightarrow> ret ()
        | Some p \<Rightarrow>
            seqP (nm_manager N)
           (seqP (log_event (Called ''DeactivateConnection'' [p]))
                 (nm_step (\<lambda>n. nm_call N n ''DeactivateConnection'' [p]))))))"

datatype vpn_connection_state = VpnUnknown | VpnDisconnected | VpnActivating | VpnActivated | VpnFailedState

definition state_ready :: "vpn_connection_state \<Rightarrow> bool" where
  "state_ready s = (s = VpnActivated)"

definition active_state_of :: "nat \<Rightarrow> vpn_connection_state" where
  "active_state_of n =
     (if n = 1 then VpnActivating else if n = 2 then VpnActivated
      else if n = 3 then VpnDisconnected else if n = 4 then VpnFailedState else VpnUnknown)"

definition vpn_state :: "nm_bus \<Rightarrow> vpn_profile \<Rightarrow> (vpn_error, vpn_connection_state) prog" where
  "vpn_state N profile = with_external_id profile (\<lambda>uuid.
     map_errP (select_error ''state query timed out'')
       (bindP (active_path N uuid) (\<lambda>found.
        case found of
          None \<Rightarrow> ret VpnDisconnected
        | Some p \<Rightarrow>
            seqP (nm_step (nm_connect N))
           (seqP (nm_step (\<lambda>n. nm_proxy N n p ''org.freedesktop.NetworkManager.Connection.Active''))
           (bindP (nm_step (\<lambda>n. nm_number N n p ''State'')) (\<lambda>s. ret (active_state_of s)))))))"

text \<open>Outside a \<open>select!\<close> no future is dropped.\<close>

definition awaited :: "vpn_stop \<Rightarrow> vpn_error" where
  "awaited stop = (case stop of VpnFailed e \<Rightarrow> e | VpnDropped _ \<Rightarrow> Dbus (Lit []))"

definition run_unmetered_guard :: "nm_bus \<Rightarrow> (msg, unit) prog" where
  "run_unmetered_guard N =
     bindP (tryP (map_errP awaited (nm_metered N))) (\<lambda>r.
       case r of
         Inr False \<Rightarrow> ret ()
       | Inr True \<Rightarrow> fail (fl ''ui-vpn-automatic-synchronization-is-paused-on-a-metered'')
       | Inl e \<Rightarrow> fail (Fl ''ui-vpn-could-not-inspect-networkmanager-metered-state-error''
                         [(''error'', vpn_error_text e)]))"

section \<open>Readiness checks\<close>

text \<open>
  The network of the host: name resolution, local UDP sockets (by address family) and their routes, TCP
  connections; \<open>nw_cut\<close> is the timeout or the cancellation of a whole check.
\<close>

datatype ip_addr = V4 string | V6 string

record network =
  nw_parse_ip :: "string \<Rightarrow> ip_addr option"
  nw_lookup :: "nat \<Rightarrow> string \<Rightarrow> ip_addr list option"
  nw_bind :: "nat \<Rightarrow> bool \<Rightarrow> bool"
  nw_route :: "nat \<Rightarrow> ip_addr \<Rightarrow> bool"
  nw_tcp :: "nat \<Rightarrow> string \<Rightarrow> nat \<Rightarrow> bool"
  nw_cut :: "nat \<Rightarrow> cut option"

definition ask_host :: "(nat \<Rightarrow> 'a) \<Rightarrow> ('e, 'a) prog" where
  "ask_host answer = (\<lambda>env w. (Inr (answer (tick w)), w\<lparr>tick := Suc (tick w)\<rparr>))"

definition is_v4 :: "ip_addr \<Rightarrow> bool" where
  "is_v4 a = (case a of V4 _ \<Rightarrow> True | V6 _ \<Rightarrow> False)"

fun any_route :: "network \<Rightarrow> ip_addr list \<Rightarrow> ('e, bool) prog" where
  "any_route W [] = ret False"
| "any_route W (a # as) =
     bindP (ask_host (\<lambda>n. nw_bind W n (is_v4 a))) (\<lambda>bound.
     if \<not> bound then any_route W as
     else bindP (ask_host (\<lambda>n. nw_route W n a)) (\<lambda>ok. if ok then ret True else any_route W as))"

definition route_ready :: "network \<Rightarrow> string \<Rightarrow> ('e, bool) prog" where
  "route_ready W target =
     (case nw_parse_ip W target of
        Some a \<Rightarrow> any_route W [a]
      | None \<Rightarrow> bindP (ask_host (\<lambda>n. nw_lookup W n target)) (\<lambda>found.
          case found of Some as \<Rightarrow> any_route W as | None \<Rightarrow> ret False))"

definition dns_ready :: "network \<Rightarrow> string \<Rightarrow> ('e, bool) prog" where
  "dns_ready W name =
     bindP (ask_host (\<lambda>n. nw_lookup W n name)) (\<lambda>found.
       ret (case found of Some as \<Rightarrow> as \<noteq> [] | None \<Rightarrow> False))"

definition endpoint_ready :: "network \<Rightarrow> string \<Rightarrow> nat \<Rightarrow> ('e, bool) prog" where
  "endpoint_ready W host port = ask_host (\<lambda>n. nw_tcp W n host port)"

definition bounded_readiness :: "network \<Rightarrow> (vpn_error, bool) prog \<Rightarrow> (vpn_error, bool) prog" where
  "bounded_readiness W check = (\<lambda>env w.
     case nw_cut W (tick w) of
       Some CutCancelled \<Rightarrow> (Inl ReadinessCancelled, w\<lparr>tick := Suc (tick w)\<rparr>)
     | Some _ \<Rightarrow> (Inr False, w\<lparr>tick := Suc (tick w)\<rparr>)
     | None \<Rightarrow> check env (w\<lparr>tick := Suc (tick w)\<rparr>))"

text \<open>\<open>rsplit_once(':')\<close>, then the brackets of an IPv6 literal.\<close>

definition rsplit_colon :: "string \<Rightarrow> (string \<times> string) option" where
  "rsplit_colon s =
     (if CHR '':'' \<in> set s
      then Some (rev (tl (dropWhile (\<lambda>c. c \<noteq> CHR '':'') (rev s))), rev (takeWhile (\<lambda>c. c \<noteq> CHR '':'') (rev s)))
      else None)"

definition trim_host_brackets :: "string \<Rightarrow> string" where
  "trim_host_brackets s =
     (let b = (\<lambda>c. c = CHR ''['' \<or> c = CHR '']'') in rev (dropWhile b (rev (dropWhile b s))))"

definition parse_endpoint :: "string \<Rightarrow> vpn_error + (string \<times> nat)" where
  "parse_endpoint endpoint =
     (case rsplit_colon endpoint of
        None \<Rightarrow> Inl InvalidEndpoint
      | Some (h, p) \<Rightarrow>
          bind_res (ok_or InvalidEndpoint (parse_unsigned 65535 p)) (\<lambda>port.
            let host = trim_host_brackets h in if host = [] then Inl InvalidEndpoint else Inr (host, port)))"

record check_result =
  ck_check :: readiness_check
  ck_ready :: bool
  ck_detail :: msg

text \<open>The two D-Bus checks are raced with the cancellation only.\<close>

definition probe_ready :: "nm_bus \<Rightarrow> network \<Rightarrow> readiness_check \<Rightarrow> (vpn_error, bool) prog" where
  "probe_ready N W check =
     (case check of
        NetworkManagerState \<Rightarrow> map_errP (select_error []) (nm_connected N)
      | Interface name \<Rightarrow> map_errP (select_error []) (interface_ready N name)
      | Route target \<Rightarrow> bounded_readiness W (route_ready W target)
      | DnsName name \<Rightarrow> bounded_readiness W (dns_ready W name)
      | Endpoint endpoint \<Rightarrow>
          bindP (liftR (parse_endpoint endpoint)) (\<lambda>(host, port).
            bounded_readiness W (endpoint_ready W host port)))"

definition probe_check :: "nm_bus \<Rightarrow> network \<Rightarrow> readiness_check \<Rightarrow> (vpn_error, check_result) prog" where
  "probe_check N W check =
     bindP (probe_ready N W check) (\<lambda>ready.
       ret \<lparr>ck_check = check, ck_ready = ready,
            ck_detail = fl (if ready then ''readiness-ready'' else ''readiness-not-ready'')\<rparr>)"

record readiness_report =
  rr_ready :: bool
  rr_checks :: "check_result list"

fun probe_all ::
  "(readiness_check \<Rightarrow> (vpn_error, check_result) prog) \<Rightarrow> readiness_check list \<Rightarrow> (vpn_error, check_result list) prog" where
  "probe_all probe [] = ret []"
| "probe_all probe (c # cs) =
     bindP (probe c) (\<lambda>r. bindP (probe_all probe cs) (\<lambda>rs. ret (r # rs)))"

definition readiness_report_of ::
  "(readiness_check \<Rightarrow> (vpn_error, check_result) prog) \<Rightarrow> readiness_check list \<Rightarrow> (vpn_error, readiness_report) prog" where
  "readiness_report_of probe checks =
     bindP (probe_all probe checks) (\<lambda>results.
       ret \<lparr>rr_ready = list_all ck_ready results, rr_checks = results\<rparr>)"

section \<open>Decisions\<close>

datatype vpn_action_decision = NoVpnRequired | AlreadyReady | ActivateVpn | WaitForReadiness | TimedOut

definition activation_decision :: "vpn_profile option \<Rightarrow> readiness_report \<Rightarrow> bool \<Rightarrow> vpn_action_decision" where
  "activation_decision profile readiness activation_timed_out =
     (if profile = None then NoVpnRequired
      else if rr_ready readiness then AlreadyReady
      else if activation_timed_out then TimedOut
      else if rr_checks readiness = [] then ActivateVpn
      else WaitForReadiness)"

record vpn_usage_snapshot =
  vu_profile_id :: vpn_profile_id
  vu_applet_activated :: bool
  vu_active_connection_ids :: "connection_id set"

datatype vpn_shutdown_decision = NoAction | KeepAliveShared | KeepAlivePreExisting | Disconnect

definition shutdown_decision :: "vpn_usage_snapshot \<Rightarrow> vpn_shutdown_decision" where
  "shutdown_decision s =
     (if vu_active_connection_ids s \<noteq> {} then KeepAliveShared
      else if vu_applet_activated s then Disconnect
      else KeepAlivePreExisting)"

text \<open>The users of a profile; of two profiles with one identifier the map keeps one entry.\<close>

definition usage_snapshots ::
  "vpn_profile list \<Rightarrow> connection list \<Rightarrow> vpn_profile_id set \<Rightarrow> vpn_profile_id \<Rightarrow> vpn_usage_snapshot option" where
  "usage_snapshots ps cs activated i =
     (if i \<in> vpn_id ` set ps
      then Some \<lparr>vu_profile_id = i, vu_applet_activated = (i \<in> activated),
                 vu_active_connection_ids =
                   conn_id ` set (filter (\<lambda>c. conn_enabled c \<and> vpn_profile_id c = Some i) cs)\<rparr>
      else None)"

end
