(* ===== verification/Host_Inspection.thy ===== *)
theory Host_Inspection
  imports Vpn Online_Mounts Bisync_Coordinator
begin

text \<open>
  The fixed inspections of the host (\<open>src/src/host_inspection.rs\<close>), the blocking status read of
  \<open>src/src/services.rs\<close>, and what \<open>src/src/app.rs\<close> reads with them: the mount table, the state of a
  unit, the directories of the applet.
\<close>

section \<open>Inspections\<close>

datatype host_inspection = RcloneConfigDump | HostMountInfo

definition inspection_request :: "host_inspection \<Rightarrow> command_request" where
  "inspection_request i =
     (let (exe, arguments, limit) = (case i of
            RcloneConfigDump \<Rightarrow> (RcloneExe, [''config'', ''dump''], 1024 * 1024)
          | HostMountInfo \<Rightarrow> (Cat, [''/proc/self/mountinfo''], 4 * 1024 * 1024))
      in (new_request exe)\<lparr>req_watch_host_bus := True, req_timeout := from_secs 10, req_output_limit := limit,
           req_args := map (\<lambda>v. \<lparr>arg_value = v, arg_sensitive = False\<rparr>) arguments\<rparr>)"

text \<open>The arguments are those that \<open>arg\<close> would have added; its \<open>expect\<close> cannot panic.\<close>

lemma inspection_request_args:
  "add_args (request_argv (inspection_request i)) (new_request (req_executable (inspection_request i)))
     = Inr (new_request (req_executable (inspection_request i))\<lparr>req_args := req_args (inspection_request i)\<rparr>)"
  by (cases i) (simp_all add: inspection_request_def request_argv_def add_arg_def command_arg_new_def
      unsafe_arg_char_def new_request_def bind_res_def)

definition inspection_text :: "(string \<Rightarrow> string + json) \<Rightarrow> host_inspection \<Rightarrow> command_output \<Rightarrow> string res" where
  "inspection_text parse i out =
     (if co_truncated (out_stdout out) \<or> co_truncated (out_stderr out)
      then Inl (fl ''host-inspection-output-too-large'')
      else if co_invalid_utf8 (out_stdout out) \<or> co_invalid_utf8 (out_stderr out)
      then Inl (fl ''host-inspection-invalid-output'')
      else if i = RcloneConfigDump
           \<and> (case parse (co_text (out_stdout out)) of Inr (JObject _) \<Rightarrow> False | _ \<Rightarrow> True)
      then Inl (fl ''host-inspection-invalid-output'')
      else Inr (co_text (out_stdout out)))"

definition run_inspection :: "(string \<Rightarrow> string + json) \<Rightarrow> host_inspection \<Rightarrow> (msg, string) prog" where
  "run_inspection parse i =
     bindP is_cancelled (\<lambda>stop.
     if stop then fail (command_error_text Cancelled)
     else bindP (map_errP command_error_text (run_cmd (inspection_request i))) (\<lambda>out.
       liftR (inspection_text parse i out)))"

text \<open>A native read of the kernel's table: its bytes and whether they are UTF-8, or how the read ended.\<close>

datatype native_read = ReadBytes string bool | ReadFailed string | ReadCancelled | ReadLate

record host_view =
  hv_mode :: execution_mode
  hv_mountinfo :: "nat \<Rightarrow> native_read"
  hv_json :: "string \<Rightarrow> string + json"

definition native_text :: "command_request \<Rightarrow> native_read \<Rightarrow> string res" where
  "native_text r answer =
     (case answer of
        ReadBytes text utf8 \<Rightarrow>
          if req_output_limit r < length text then Inl (fl ''host-inspection-output-too-large'')
          else if utf8 then Inr text else Inl (fl ''host-inspection-invalid-output'')
      | ReadFailed t \<Rightarrow> Inl (Lit t)
      | ReadCancelled \<Rightarrow> Inl (command_error_text Cancelled)
      | ReadLate \<Rightarrow> Inl (command_error_text (Timeout (req_timeout r))))"

definition run_current :: "host_view \<Rightarrow> host_inspection \<Rightarrow> (msg, string) prog" where
  "run_current V i =
     (if i = HostMountInfo \<and> hv_mode V = Native
      then bindP (ask_host (hv_mountinfo V)) (\<lambda>answer. liftR (native_text (inspection_request i) answer))
      else run_inspection (hv_json V) i)"

section \<open>What the applet reads\<close>

definition host_mount_entries :: "host_view \<Rightarrow> (msg, mount_entry list) prog" where
  "host_mount_entries V =
     bindP (run_current V HostMountInfo) (\<lambda>text. liftR (collect_res (map parse_mountinfo_line (lines text))))"

text \<open>The status of a unit read on a thread of its own, which is taken to start and not to panic.\<close>

definition plain_step :: "(nat \<Rightarrow> 'a reply) \<Rightarrow> (string \<Rightarrow> msg) \<Rightarrow> (msg, 'a) prog" where
  "plain_step answer wrap = (\<lambda>env w.
     (case answer (tick w) of
        Reply x \<Rightarrow> Inr x | BusError _ t \<Rightarrow> Inl (wrap t) | Dropped _ \<Rightarrow> Inl (wrap []),
      w\<lparr>tick := Suc (tick w)\<rparr>))"

definition bus_text :: "string \<Rightarrow> msg" where
  "bus_text t = Fl ''ui-services-systemd-user-d-bus-error'' [(''error'', Lit t)]"

definition systemd_user_status_blocking :: "systemd_bus \<Rightarrow> unit_name \<Rightarrow> (msg, unit_status) prog" where
  "systemd_user_status_blocking B unit =
     (let name = file_name unit in
      seqP (plain_step (b_session B) bus_text)
     (seqP (plain_step (b_manager B) bus_text)
     (bindP (plain_step (\<lambda>n. b_call B n ''LoadUnit'' [name])
         (\<lambda>t. Fl ''ui-services-systemd-unit-name-error'' [(''name'', Lit name), (''error'', Lit t)])) (\<lambda>p.
      seqP (plain_step (\<lambda>n. b_proxy B n p UNIT_INTERFACE) bus_text)
     (bindP (plain_step (\<lambda>n. b_text B n p ''ActiveState'') Lit) (\<lambda>active.
      bindP (plain_step (\<lambda>n. b_text B n p ''SubState'') Lit) (\<lambda>detail.
      bindP (plain_step (\<lambda>n. b_call B n ''GetUnitFileState'' [name]) Lit) (\<lambda>enabled.
      bindP (if un_kind unit = ServiceUnit
             then seqP (plain_step (\<lambda>n. b_proxy B n p SERVICE_INTERFACE) Lit)
                       (plain_step (\<lambda>n. b_text B n p ''Result'') Lit)
             else ret []) (\<lambda>result.
        ret \<lparr>us_active = parse_active_state active, us_enabled = enabled_state enabled,
             us_detail = detail, us_result = result\<rparr>)))))))))"

definition runtime_unit_status :: "systemd_bus \<Rightarrow> connection_id \<Rightarrow> unit_kind \<Rightarrow> ('e, unit_status option) prog" where
  "runtime_unit_status B cid kind =
     bindP (tryP (systemd_user_status_blocking B \<lparr>un_connection_id = cid, un_kind = kind\<rparr>)) (\<lambda>r.
       ret (case r of Inr s \<Rightarrow> Some s | Inl _ \<Rightarrow> None))"

definition runtime_service_status :: "systemd_bus \<Rightarrow> connection_id \<Rightarrow> ('e, unit_status option) prog" where
  "runtime_service_status B cid = runtime_unit_status B cid ServiceUnit"

text \<open>\<open>home\<close>, \<open>variable\<close> and \<open>temporary\<close> are \<open>HOME\<close>, the XDG variable and the directory for temporary files.\<close>

definition APP_DIRECTORY :: string where "APP_DIRECTORY = ''cosmic-ext-applet-mounter''"

definition app_root_for :: "string \<Rightarrow> bool \<Rightarrow> path option \<Rightarrow> path option \<Rightarrow> path \<Rightarrow> path" where
  "app_root_for sub flatpak home variable temporary =
     (let below = map_option (\<lambda>h. path_join h sub) home;
          base = (if flatpak then below else case variable of Some v \<Rightarrow> Some v | None \<Rightarrow> below)
      in path_join (case base of Some b \<Rightarrow> b | None \<Rightarrow> temporary) APP_DIRECTORY)"

definition default_cache_root_for :: "bool \<Rightarrow> path option \<Rightarrow> path option \<Rightarrow> path \<Rightarrow> path" where
  "default_cache_root_for = app_root_for ''.cache''"

definition default_config_root_for :: "bool \<Rightarrow> path option \<Rightarrow> path option \<Rightarrow> path \<Rightarrow> path" where
  "default_config_root_for = app_root_for ''.config''"

definition default_work_root_for :: "bool \<Rightarrow> path option \<Rightarrow> path option \<Rightarrow> path \<Rightarrow> path" where
  "default_work_root_for = app_root_for ''.local/state''"

definition default_runtime_root_of :: "path option \<Rightarrow> path \<Rightarrow> path" where
  "default_runtime_root_of variable temporary =
     path_join (case variable of Some v \<Rightarrow> v | None \<Rightarrow> temporary) APP_DIRECTORY"

definition temp_dir :: "('e, path) prog" where
  "temp_dir = bindP (env_var ''TMPDIR'') (\<lambda>v. ret (case v of Some d \<Rightarrow> d | None \<Rightarrow> ''/tmp''))"

definition running_in_flatpak :: "('e, bool) prog" where
  "running_in_flatpak = path_exists ''/.flatpak-info''"

definition app_root :: "string \<Rightarrow> (bool \<Rightarrow> path option \<Rightarrow> path option \<Rightarrow> path \<Rightarrow> path) \<Rightarrow> ('e, path) prog" where
  "app_root variable root =
     bindP running_in_flatpak (\<lambda>flatpak. bindP home_directory (\<lambda>home.
     bindP (env_var variable) (\<lambda>v. bindP temp_dir (\<lambda>t. ret (root flatpak home v t)))))"

definition default_cache_root :: "('e, path) prog" where
  "default_cache_root = app_root ''XDG_CACHE_HOME'' default_cache_root_for"

definition default_config_root :: "('e, path) prog" where
  "default_config_root = app_root ''XDG_CONFIG_HOME'' default_config_root_for"

definition default_work_root :: "('e, path) prog" where
  "default_work_root = app_root ''XDG_STATE_HOME'' default_work_root_for"

definition default_runtime_root :: "('e, path) prog" where
  "default_runtime_root =
     bindP (env_var ''XDG_RUNTIME_DIR'') (\<lambda>v. bindP temp_dir (\<lambda>t. ret (default_runtime_root_of v t)))"

end
