(* ===== verification/Vpn_Lifecycle.thy ===== *)
theory Vpn_Lifecycle
  imports Host_Inspection Controller
begin

text \<open>
  The VPN of a connection as the applet handles it (\<open>src/src/app.rs\<close>): the readiness guard of scheduled
  mirrors, bringing a VPN up before a connection is used, and releasing it after the last use.  The
  activations of one profile are serialized by a lock in the code; here one caller runs at a time.  The
  mirrors that hold a VPN during a finite operation are a map in the memory of the process and are
  passed explicitly.
\<close>

record 'u app_host =
  ah_url :: "'u url_lib"
  ah_ron :: ron_codec
  ah_storage :: "msg + app_storage"
  ah_view :: host_view
  ah_bus :: systemd_bus
  ah_nm :: nm_bus
  ah_net :: network
  ah_clock :: clock
  ah_parse_uuid :: "string \<Rightarrow> uuid option"
  ah_encode_ids :: "vpn_profile_id list \<Rightarrow> string option"
  ah_decode_ids :: "string \<Rightarrow> vpn_profile_id list option"

definition load_report_of :: "'u app_host \<Rightarrow> ('e, load_report) prog" where
  "load_report_of A = load_runtime (ah_url A) (ah_ron A) (ah_storage A)"

definition load_runtime_config :: "'u app_host \<Rightarrow> (msg, config_document) prog" where
  "load_runtime_config A =
     bindP (load_report_of A) (\<lambda>report.
       if lr_warnings report = [] then ret (lr_config report)
       else fail (Fl ''ui-app-could-not-reload-configuration-value1'' [(''value1'', Joined ''; '' (lr_warnings report))]))"

section \<open>The VPNs that the applet activated\<close>

text \<open>
  The set is kept in a file in the work directory.  A set is a list of its elements in their order of
  insertion here; errors of writing it are ignored.
\<close>

definition applet_activated_vpns_path :: "('e, path) prog" where
  "applet_activated_vpns_path = bindP default_work_root (\<lambda>root. ret (path_join root ''vpn-applet-activated.ron''))"

definition applet_activated_vpns :: "'u app_host \<Rightarrow> ('e, vpn_profile_id list) prog" where
  "applet_activated_vpns A =
     bindP applet_activated_vpns_path (\<lambda>p.
     bindP (tryP (read_to_string p)) (\<lambda>r.
       ret (case r of
              Inl _ \<Rightarrow> []
            | Inr text \<Rightarrow> (case ah_decode_ids A text of Some ids \<Rightarrow> ids | None \<Rightarrow> []))))"

definition ignored :: "(io_error, 'a) prog \<Rightarrow> ('e, unit) prog" where
  "ignored m = bindP (tryP m) (\<lambda>_. ret ())"

definition write_applet_activated_vpns :: "'u app_host \<Rightarrow> vpn_profile_id list \<Rightarrow> ('e, unit) prog" where
  "write_applet_activated_vpns A ids =
     bindP applet_activated_vpns_path (\<lambda>p.
     seqP (whenP (has_parent p) (ignored (create_dir_all (parent_of p))))
       (if ids = [] then ignored (remove_file p)
        else case ah_encode_ids A ids of
               Some text \<Rightarrow> ignored (fs_write p text)
             | None \<Rightarrow> ret ()))"

definition mark_vpn_applet_activated :: "'u app_host \<Rightarrow> vpn_profile_id \<Rightarrow> ('e, unit) prog" where
  "mark_vpn_applet_activated A i =
     bindP (applet_activated_vpns A) (\<lambda>ids. write_applet_activated_vpns A (List.insert i ids))"

definition unmark_vpn_applet_activated :: "'u app_host \<Rightarrow> vpn_profile_id \<Rightarrow> ('e, unit) prog" where
  "unmark_vpn_applet_activated A i =
     bindP (applet_activated_vpns A) (\<lambda>ids. write_applet_activated_vpns A (removeAll i ids))"

section \<open>Bringing a VPN up\<close>

definition find_vpn_profile :: "vpn_profile_id \<Rightarrow> config_document \<Rightarrow> vpn_profile option" where
  "find_vpn_profile i d = List.find (\<lambda>p. vpn_id p = i) (vpn_profiles d)"

definition apply_openconnect_timeout :: "bool \<Rightarrow> vpn_profile \<Rightarrow> vpn_profile" where
  "apply_openconnect_timeout openconnect p =
     (if openconnect then p\<lparr>timeout_seconds := max (timeout_seconds p) 90\<rparr> else p)"

definition vpn_tunnel_ready :: "'u app_host \<Rightarrow> vpn_profile \<Rightarrow> (msg, bool) prog" where
  "vpn_tunnel_ready A p =
     (case vpn_kind_of p of
        NetworkManagerVpn \<Rightarrow> map_errP vpn_error_text (bindP (vpn_state (ah_nm A) p) (\<lambda>s. ret (state_ready s)))
      | LegacyCisco \<Rightarrow> fail (fl ''ui-app-legacy-cisco-profiles-are-unsupported-select-a''))"

definition vpn_profile_ready :: "'u app_host \<Rightarrow> vpn_profile \<Rightarrow> (msg, bool) prog" where
  "vpn_profile_ready A p =
     bindP (vpn_tunnel_ready A p) (\<lambda>connected.
     if \<not> connected then ret False
     else map_errP vpn_error_text
       (bindP (readiness_report_of (probe_check (ah_nm A) (ah_net A)) (readiness_checks p)) (\<lambda>report.
          ret (rr_ready report))))"

definition vpn_activation_terminal_error :: "vpn_connection_state \<Rightarrow> bool \<Rightarrow> msg option" where
  "vpn_activation_terminal_error s activation_requested =
     (case s of
        VpnFailedState \<Rightarrow> Some (fl ''vpn-activation-failed'')
      | VpnDisconnected \<Rightarrow> if activation_requested then Some (fl ''vpn-activation-cancelled'') else None
      | _ \<Rightarrow> None)"

definition or_false :: "(msg, bool) prog \<Rightarrow> ('e, bool) prog" where
  "or_false m = bindP (tryP m) (\<lambda>r. ret (r = Inr True))"

text \<open>One look at the VPN: ready, not yet, or an error that ends the wait.\<close>

definition look_at_vpn :: "'u app_host \<Rightarrow> vpn_profile \<Rightarrow> bool \<Rightarrow> (msg, bool) prog" where
  "look_at_vpn A p activation_requested =
     bindP (tryP (vpn_state (ah_nm A) p)) (\<lambda>r.
     case r of
       Inl _ \<Rightarrow> ret False
     | Inr s \<Rightarrow>
         (case vpn_activation_terminal_error s activation_requested of
            Some e \<Rightarrow> fail e
          | None \<Rightarrow> if state_ready s then or_false (vpn_profile_ready A p) else ret False))"

text \<open>
  The wait polls every two seconds up to the deadline; \<open>s\<close> counts its sleeps.  \<open>None\<close> means that the
  fuel is spent while it is still polling.
\<close>

fun wait_for_vpn_ready ::
  "nat \<Rightarrow> 'u app_host \<Rightarrow> vpn_profile \<Rightarrow> nat \<Rightarrow> bool \<Rightarrow> nat \<Rightarrow> (msg, bool option) prog" where
  "wait_for_vpn_ready 0 A p deadline activation_requested s = ret None"
| "wait_for_vpn_ready (Suc fuel) A p deadline activation_requested s =
     bindP (read_instant (ah_clock A) s) (\<lambda>now.
     if deadline \<le> now then ret (Some False)
     else if vpn_kind_of p = LegacyCisco then bindP (vpn_profile_ready A p) (\<lambda>b. ret (Some b))
     else bindP (look_at_vpn A p activation_requested) (\<lambda>ready.
       if ready then ret (Some True)
       else wait_for_vpn_ready fuel A p deadline activation_requested (Suc s)))"

definition cleanup_timed_out_vpn_activation :: "'u app_host \<Rightarrow> vpn_profile \<Rightarrow> bool \<Rightarrow> (msg, unit) prog" where
  "cleanup_timed_out_vpn_activation A p openconnect =
     seqP (map_errP (\<lambda>e. Fl ''ui-app-could-not-deactivate-timed-out-vpn-error'' [(''error'', vpn_error_text e)])
             (deactivate (ah_nm A) p))
          (whenP openconnect
            (map_errP (\<lambda>e. Fl ''ui-app-could-not-close-the-timed-out-authentication'' [(''error'', vpn_error_text (awaited e))])
               (restart_openconnect_agent (ah_nm A) (ah_bus A))))"

definition request_activation :: "'u app_host \<Rightarrow> vpn_profile \<Rightarrow> (msg, unit) prog" where
  "request_activation A p =
     (case vpn_kind_of p of
        NetworkManagerVpn \<Rightarrow>
          map_errP (\<lambda>e. Fl ''ui-app-could-not-activate-networkmanager-vpn-error'' [(''error'', vpn_error_text e)])
            (activate (ah_nm A) (ah_bus A) p)
      | LegacyCisco \<Rightarrow> fail (fl ''ui-app-this-connection-still-references-an-unsupported-legacy''))"

definition not_ready_error :: "vpn_profile \<Rightarrow> unit res \<Rightarrow> msg" where
  "not_ready_error p cleanup =
     (let late = Fl ''ui-app-value1-did-not-become-ready-within-value2''
                   [(''value1'', Lit (vpn_name p)), (''value2'', Lit (show_nat (unat (timeout_seconds p))))]
      in case cleanup of
           Inr _ \<Rightarrow> late
         | Inl e \<Rightarrow> msg.Cat [late, Fl ''ui-app-timeout-cleanup-failed-cleanup-error'' [(''cleanup_error'', e)]])"

text \<open>The result \<open>None\<close> again means that the fuel of the wait is spent.\<close>

definition after_wait :: "'u app_host \<Rightarrow> vpn_profile \<Rightarrow> bool \<Rightarrow> bool \<Rightarrow> bool option \<Rightarrow> (msg, unit option) prog" where
  "after_wait A p openconnect already_connected waited =
     (case waited of
        None \<Rightarrow> ret None
      | Some True \<Rightarrow>
          seqP (whenP (\<not> already_connected) (mark_vpn_applet_activated A (vpn_id p))) (ret (Some ()))
      | Some False \<Rightarrow>
          bindP (if already_connected then ret (Inr ())
                 else tryP (cleanup_timed_out_vpn_activation A p openconnect)) (\<lambda>cleanup.
            fail (not_ready_error p cleanup)))"

definition ensure_vpn_profile_ready ::
  "nat \<Rightarrow> 'u app_host \<Rightarrow> vpn_profile \<Rightarrow> nat \<Rightarrow> bool \<Rightarrow> (msg, unit option) prog" where
  "ensure_vpn_profile_ready fuel A p deadline openconnect =
     bindP (or_false (vpn_tunnel_ready A p)) (\<lambda>already_connected.
     seqP (whenP (\<not> already_connected) (request_activation A p))
    (bindP (wait_for_vpn_ready fuel A p deadline (\<not> already_connected) 0)
       (after_wait A p openconnect already_connected)))"

definition openconnect_profile :: "'u app_host \<Rightarrow> vpn_profile \<Rightarrow> ('e, bool) prog" where
  "openconnect_profile A p =
     (case (vpn_kind_of p, external_profile_id p) of
        (NetworkManagerVpn, Some uuid) \<Rightarrow>
          bindP (tryP (profile_is_openconnect (ah_nm A) uuid)) (\<lambda>r. ret (r = Inr True))
      | _ \<Rightarrow> ret False)"

text \<open>The polls that fit into a timeout: one every two seconds and the one that meets the deadline.\<close>

definition vpn_polls :: "vpn_profile \<Rightarrow> nat" where
  "vpn_polls p = Suc ((unat (timeout_seconds p) + 1) div 2)"

definition ensure_vpn_ready_for_connection :: "'u app_host \<Rightarrow> connection \<Rightarrow> (msg, unit option) prog" where
  "ensure_vpn_ready_for_connection A c =
     (case vpn_profile_id c of
        None \<Rightarrow> ret (Some ())
      | Some i \<Rightarrow>
          bindP (load_report_of A) (\<lambda>report.
          case find_vpn_profile i (lr_config report) of
            None \<Rightarrow> fail (fl ''ui-app-configured-vpn-profile-is-no-longer-available'')
          | Some saved \<Rightarrow>
              bindP (openconnect_profile A saved) (\<lambda>openconnect.
              let p = apply_openconnect_timeout openconnect saved in
              bindP (read_instant (ah_clock A) 0) (\<lambda>now.
                ensure_vpn_profile_ready (vpn_polls p) A p (now + 1000 * unat (timeout_seconds p)) openconnect))))"

section \<open>Releasing a VPN\<close>

type_synonym vpn_users = "vpn_profile_id \<Rightarrow> connection_id set"

definition register_finite_offline_vpn_user :: "vpn_profile_id \<Rightarrow> connection_id \<Rightarrow> vpn_users \<Rightarrow> vpn_users" where
  "register_finite_offline_vpn_user i cid users = users(i := insert cid (users i))"

definition unregister_finite_offline_vpn_user :: "vpn_profile_id \<Rightarrow> connection_id \<Rightarrow> vpn_users \<Rightarrow> vpn_users" where
  "unregister_finite_offline_vpn_user i cid users = users(i := users i - {cid})"

definition service_up :: "unit_status option \<Rightarrow> bool" where
  "service_up s = service_in s [Active, Activating]"

definition connection_appears_active :: "'u app_host \<Rightarrow> mount_entry list \<Rightarrow> connection \<Rightarrow> ('e, bool) prog" where
  "connection_appears_active A mounts c =
     (case conn_mode c of
        OnlineMount _ \<Rightarrow>
          if list_ex (\<lambda>e. path_eq (me_target e) (local_path c)) mounts then ret True
          else bindP (runtime_service_status (ah_bus A) (conn_id c)) (\<lambda>s. ret (service_up s))
      | OfflineMirror _ \<Rightarrow>
          bindP (runtime_service_status (ah_bus A) (conn_id c)) (\<lambda>s.
          if service_up s then ret True
          else bindP (runtime_unit_status (ah_bus A) (conn_id c) TimerUnit) (\<lambda>t. ret (service_up t))))"

fun active_among :: "'u app_host \<Rightarrow> mount_entry list \<Rightarrow> connection list \<Rightarrow> ('e, connection_id set) prog" where
  "active_among A mounts [] = ret {}"
| "active_among A mounts (c # cs) =
     bindP (connection_appears_active A mounts c) (\<lambda>b.
     bindP (active_among A mounts cs) (\<lambda>rest. ret (if b then insert (conn_id c) rest else rest)))"

definition active_connections_using_vpn ::
  "'u app_host \<Rightarrow> vpn_users \<Rightarrow> vpn_profile_id \<Rightarrow> connection_id option \<Rightarrow> (msg, connection_id set) prog" where
  "active_connections_using_vpn A users i excluded =
     bindP (load_report_of A) (\<lambda>report.
     bindP (host_mount_entries (ah_view A)) (\<lambda>mounts.
     bindP (active_among A mounts
        (filter (\<lambda>c. Some (conn_id c) \<noteq> excluded)
          (filter (\<lambda>c. vpn_profile_id c = Some i) (connections (lr_config report))))) (\<lambda>active.
       ret (active \<union> {cid \<in> users i. Some cid \<noteq> excluded}))))"

definition disconnect_vpn_profile :: "'u app_host \<Rightarrow> vpn_profile_id \<Rightarrow> (msg, unit) prog" where
  "disconnect_vpn_profile A i =
     bindP (load_report_of A) (\<lambda>report.
     case find_vpn_profile i (lr_config report) of
       None \<Rightarrow> ret ()
     | Some p \<Rightarrow>
         (case vpn_kind_of p of
            NetworkManagerVpn \<Rightarrow>
              map_errP (\<lambda>e. Fl ''ui-app-could-not-disconnect-networkmanager-vpn-error'' [(''error'', vpn_error_text e)])
                (deactivate (ah_nm A) p)
          | LegacyCisco \<Rightarrow> fail (fl ''ui-app-legacy-cisco-profiles-are-unsupported-no-proprietary'')))"

definition maybe_shutdown_vpn_after_unmount :: "'u app_host \<Rightarrow> vpn_users \<Rightarrow> connection \<Rightarrow> (msg, unit) prog" where
  "maybe_shutdown_vpn_after_unmount A users c =
     (case vpn_profile_id c of
        None \<Rightarrow> ret ()
      | Some i \<Rightarrow>
          if \<not> disconnect_vpn_when_unused c then ret ()
          else
          bindP (applet_activated_vpns A) (\<lambda>activated.
          bindP (active_connections_using_vpn A users i (Some (conn_id c))) (\<lambda>active.
          if shutdown_decision \<lparr>vu_profile_id = i, vu_applet_activated = (i \<in> set activated),
                                vu_active_connection_ids = active\<rparr> = Disconnect
          then seqP (disconnect_vpn_profile A i) (unmark_vpn_applet_activated A i)
          else ret ())))"

section \<open>Finite use by an Offline Mirror, and its guard\<close>

definition strict_network_ready :: "'u app_host \<Rightarrow> (msg, bool) prog" where
  "strict_network_ready A =
     map_errP (\<lambda>e. Fl ''ui-app-could-not-inspect-networkmanager-readiness-error'' [(''error'', vpn_error_text (awaited e))])
       (nm_connected (ah_nm A))"

definition current_network_ready :: "'u app_host \<Rightarrow> ('e, bool) prog" where
  "current_network_ready A = bindP (tryP (nm_connected (ah_nm A))) (\<lambda>r. ret (r \<noteq> Inr False))"

definition current_metered_network :: "'u app_host \<Rightarrow> ('e, bool) prog" where
  "current_metered_network A = bindP (tryP (nm_metered (ah_nm A))) (\<lambda>r. ret (r = Inr True))"

definition begin_finite_offline_vpn_use ::
  "'u app_host \<Rightarrow> connection \<Rightarrow> vpn_users \<Rightarrow> (msg, vpn_users option) prog" where
  "begin_finite_offline_vpn_use A c users =
     bindP (strict_network_ready A) (\<lambda>ready.
     if \<not> ready then fail (fl ''ui-app-offline-synchronization-is-waiting-for-network-readiness'')
     else bindP (ensure_vpn_ready_for_connection A c) (\<lambda>ok.
       ret (map_option (\<lambda>_. case vpn_profile_id c of
              Some i \<Rightarrow> register_finite_offline_vpn_user i (conn_id c) users | None \<Rightarrow> users) ok)))"

definition finish_offline_vpn_use :: "'u app_host \<Rightarrow> connection \<Rightarrow> vpn_users \<Rightarrow> (msg, unit) prog \<times> vpn_users" where
  "finish_offline_vpn_use A c users =
     (let left = (case vpn_profile_id c of
            Some i \<Rightarrow> unregister_finite_offline_vpn_user i (conn_id c) users | None \<Rightarrow> users)
      in (maybe_shutdown_vpn_after_unmount A left c, left))"

definition merge_offline_vpn_release :: "msg res \<Rightarrow> unit res \<Rightarrow> msg res" where
  "merge_offline_vpn_release operation release =
     (case (operation, release) of
        (result, Inr _) \<Rightarrow> result
      | (Inr summary, Inl e) \<Rightarrow>
          Inr (Fl ''ui-app-summary-vpn-remains-connected-because-automatic-release'' [(''summary'', summary), (''error'', e)])
      | (Inl operation_error, Inl release_error) \<Rightarrow>
          Inl (Fl ''ui-app-operation-error-vpn-remains-connected-because-automatic''
                 [(''operation_error'', operation_error), (''release_error'', release_error)]))"

text \<open>The guard of a scheduled mirror: it never activates a VPN.\<close>

definition guard_network :: "'u app_host \<Rightarrow> (msg, unit) prog" where
  "guard_network A =
     bindP (tryP (nm_connected (ah_nm A))) (\<lambda>r.
     case r of
       Inr True \<Rightarrow> ret ()
     | Inr False \<Rightarrow> fail (fl ''ui-app-offline-synchronization-is-waiting-for-network-readiness'')
     | Inl e \<Rightarrow> fail (Fl ''ui-app-could-not-inspect-networkmanager-readiness-before-offline''
                       [(''error'', vpn_error_text (awaited e))]))"

definition guard_vpn :: "'u app_host \<Rightarrow> config_document \<Rightarrow> vpn_profile_id \<Rightarrow> (msg, unit) prog" where
  "guard_vpn A d i =
     bindP (liftR (ok_or (fl ''ui-app-configured-vpn-profile-is-no-longer-available'') (find_vpn_profile i d))) (\<lambda>p.
     if vpn_kind_of p \<noteq> NetworkManagerVpn
     then fail (fl ''ui-app-scheduled-offline-mirror-requires-a-saved-networkmanager'')
     else bindP (vpn_profile_ready A p) (\<lambda>ready.
       if ready then ret ()
       else fail (Fl ''ui-app-scheduled-offline-mirror-is-waiting-for-vpn'' [(''value1'', Lit (vpn_name p))])))"

definition run_offline_readiness_guard :: "'u app_host \<Rightarrow> string list \<Rightarrow> (msg, unit) prog" where
  "run_offline_readiness_guard A arguments =
     (case arguments of
        [text] \<Rightarrow>
          bindP (liftR (ok_or (fl ''ui-app-offline-readiness-guard-received-an-invalid-connection'')
             (ah_parse_uuid A text))) (\<lambda>u.
          bindP (load_runtime_config A) (\<lambda>d.
          bindP (liftR (ok_or (fl ''ui-app-saved-enabled-offline-mirror-connection-was-not'')
             (List.find (\<lambda>c. conn_id c = ConnectionId u \<and> conn_enabled c \<and> \<not> is_online c) (connections d)))) (\<lambda>c.
          seqP (liftR (map_err unsupported_engine_text (ensure_supported_engine c)))
         (seqP (guard_network A)
            (case vpn_profile_id c of None \<Rightarrow> ret () | Some i \<Rightarrow> guard_vpn A d i)))))
      | _ \<Rightarrow> fail (fl ''ui-app-offline-readiness-guard-requires-exactly-one-saved''))"

end
