(* ===== verification/Vpn_Safety.thy ===== *)
theory Vpn_Safety
  imports Vpn_Lifecycle Sleep_Safety
begin

text \<open>
  The properties of the VPN of a connection: when the applet takes a VPN down, what a successful wait
  means, that every wait ends, and which checks can never become ready.
\<close>

section \<open>Programs that only read\<close>

definition reads :: "env \<Rightarrow> ('e, 'a) prog \<Rightarrow> bool" where
  "reads env m =
     (\<forall>w. files (snd (m env w)) = files w \<and> events (snd (m env w)) = events w \<and> locks (snd (m env w)) = locks w)"

named_theorems reads_intros \<open>rules for programs that only read\<close>

lemma readsD:
  "reads env m \<Longrightarrow> m env w = (r, w') \<Longrightarrow> files w' = files w \<and> events w' = events w \<and> locks w' = locks w"
  unfolding reads_def by (metis snd_conv)

lemma emits_reading: "reads env m \<Longrightarrow> emits env P m"
  by (rule emits_silent) (simp add: reads_def)

lemma reads_prims [reads_intros]:
  "reads env (ret x)" "reads env (fail e)" "reads env (liftR r)" "reads env (\<lambda>_. Pair r)"
  "reads env (nm_step answer)" "reads env (ask_host h)" "reads env (plain_step f g)"
  "reads env (read_instant instant s)" "reads env home_directory" "reads env (env_var v)" "reads env (path_exists p)"
  by (simp_all add: reads_def nm_step_def ask_host_def plain_step_def read_instant_def home_directory_def
      env_var_def path_exists_def)

lemma reads_read_file [reads_intros]: "reads env (read_to_string p)"
  by (auto simp: reads_def read_to_string_def fs_step_def split: option.split)

lemma reads_bind [reads_intros]: "reads env m \<Longrightarrow> (\<And>x. reads env (f x)) \<Longrightarrow> reads env (bindP m f)"
  by (auto simp: reads_def bindP_def split: prod.split sum.split) (metis snd_conv)+

lemma reads_seq [reads_intros]: "reads env m \<Longrightarrow> reads env n \<Longrightarrow> reads env (seqP m n)"
  unfolding seqP_def by (rule reads_bind)

lemma reads_wrap [reads_intros]:
  "reads env m \<Longrightarrow> reads env (map_errP g m)" "reads env m \<Longrightarrow> reads env (tryP m)"
  by (auto simp: reads_def map_errP_def tryP_def split: prod.split) (metis snd_conv)+

lemma reads_branch [reads_intros]:
  "(b \<Longrightarrow> reads env m) \<Longrightarrow> (\<not> b \<Longrightarrow> reads env n) \<Longrightarrow> reads env (if b then m else n)"
  "reads env (f x) \<Longrightarrow> reads env (let y = x in f y)"
  by simp_all

lemma reads_cases [reads_intros]:
  "(\<And>a b. reads env (g a b)) \<Longrightarrow> reads env (case p of (a, b) \<Rightarrow> g a b)"
  "reads env m \<Longrightarrow> (\<And>x. reads env (h x)) \<Longrightarrow> reads env (case v of None \<Rightarrow> m | Some x \<Rightarrow> h x)"
  by (auto split: prod.split option.split)

lemma reads_sum [reads_intros]:
  "(\<And>e. reads env (f e)) \<Longrightarrow> (\<And>x. reads env (g x)) \<Longrightarrow> reads env (case v of Inl e \<Rightarrow> f e | Inr x \<Rightarrow> g x)"
  by (auto split: sum.split)

lemma reads_manager [reads_intros]: "reads env (nm_manager N)"
  unfolding nm_manager_def by (intro reads_intros)

lemma reads_lists [reads_intros]:
  "reads env (read_profiles N ps)" "reads env (search_active N uuid ps)" "reads env (search_device N name ps)"
  "reads env (any_route W as)"
proof -
  show "reads env (read_profiles N ps)" by (induction ps) (auto intro!: reads_intros)
  show "reads env (search_active N uuid ps)" by (induction ps) (auto intro!: reads_intros)
  show "reads env (search_device N name ps)" by (induction ps) (auto intro!: reads_intros)
  show "reads env (any_route W as)" by (induction as) (auto intro!: reads_intros)
qed

lemma reads_network_manager [reads_intros]:
  "reads env (find_profile N uuid)" "reads env (active_path N uuid)" "reads env (nm_connected N)"
  "reads env (interface_ready N name)"
  unfolding find_profile_def saved_profiles_def active_path_def nm_connected_def interface_ready_def
  by (intro reads_intros)+

lemma reads_vpn_state [reads_intros]: "reads env (vpn_state N p)"
  unfolding vpn_state_def with_external_id_def by (intro reads_intros)

lemma reads_bounded [reads_intros]: "reads env m \<Longrightarrow> reads env (bounded_readiness W m)"
  by (auto simp: reads_def bounded_readiness_def split: option.split cut.split)

lemma reads_probe [reads_intros]: "reads env (probe_check N W c)"
  unfolding probe_check_def probe_ready_def route_ready_def dns_ready_def endpoint_ready_def
  by (cases c) (auto intro!: reads_intros)

lemma reads_probe_all [reads_intros]: "reads env (probe_all (probe_check N W) cs)"
  by (induction cs) (auto intro!: reads_intros)

lemma reads_profile_ready [reads_intros]:
  "reads env (vpn_tunnel_ready A p)" "reads env (vpn_profile_ready A p)" "reads env (look_at_vpn A p b)"
  unfolding look_at_vpn_def or_false_def vpn_profile_ready_def vpn_tunnel_ready_def readiness_report_of_def state_ready_def
  by (cases "vpn_kind_of p"; auto intro!: reads_intros)+

lemma reads_wait [reads_intros]: "reads env (wait_for_vpn_ready fuel A p deadline b s)"
  by (induction fuel arbitrary: s) (auto intro!: reads_intros)

lemma reads_record [reads_intros]: "reads env applet_activated_vpns_path" "reads env (applet_activated_vpns A)"
  unfolding applet_activated_vpns_def applet_activated_vpns_path_def default_work_root_def app_root_def
    running_in_flatpak_def temp_dir_def
  by (intro reads_intros)+

lemma reads_blocking [reads_intros]:
  "reads env (systemd_user_status_blocking B unit)" "reads env (runtime_unit_status B cid kind)"
  "reads env (runtime_service_status B cid)"
  unfolding runtime_service_status_def runtime_unit_status_def systemd_user_status_blocking_def
  by (intro reads_intros)+

lemma reads_appears [reads_intros]: "reads env (connection_appears_active A mounts c)"
  by (cases "conn_mode c") (auto simp: connection_appears_active_def intro!: reads_intros)

lemma reads_among [reads_intros]: "reads env (active_among A mounts cs)"
  by (induction cs) (auto intro!: reads_intros)

lemma emits_host_entries [emits_intros]: "(\<And>r. P (Ran r)) \<Longrightarrow> emits env P (host_mount_entries V)"
  unfolding host_mount_entries_def run_current_def run_inspection_def
  by (intro emits_intros emits_reading reads_intros)

section \<open>Releasing a VPN\<close>

lemma search_active_Some:
  "search_active N uuid ps env w = (Inr (Some q), w') \<Longrightarrow> \<exists>n. nm_text N n q ''Uuid'' = Reply uuid"
proof (induction ps arbitrary: w)
  case (Cons p ps)
  then show ?case by (auto simp: run_simps nm_step_def split: reply.splits if_splits)
qed simp

lemma active_path_Some:
  "active_path N uuid env w = (Inr (Some q), w') \<Longrightarrow> \<exists>n. nm_text N n q ''Uuid'' = Reply uuid"
  by (auto simp: active_path_def run_simps dest: search_active_Some)

text \<open>A deactivation calls nothing or deactivates a connection that NetworkManager named as the profile's.\<close>

definition own_connection :: "nm_bus \<Rightarrow> vpn_profile \<Rightarrow> path \<Rightarrow> bool" where
  "own_connection N p q = (\<exists>uuid n. external_profile_id p = Some uuid \<and> nm_text N n q ''Uuid'' = Reply uuid)"

lemma deactivate_events:
  assumes "deactivate N p env w = (r, w')"
  shows "events w' = events w
    \<or> (\<exists>q. events w' = events w @ [Called ''DeactivateConnection'' [q]] \<and> own_connection N p q)"
proof (cases "ensure_kind p NetworkManagerVpn")
  case (Inl e)
  with assms show ?thesis by (simp add: deactivate_def with_external_id_def seqP_def bindP_def)
next
  case kind: (Inr u)
  show ?thesis
  proof (cases "external_id p")
    case (Inl e)
    with assms kind show ?thesis by (simp add: deactivate_def with_external_id_def seqP_def bindP_def)
  next
    case (Inr uuid)
    then have ext: "external_profile_id p = Some uuid"
      by (auto simp: external_id_def ok_or_def split: option.splits if_splits)
    obtain s w1 where active: "active_path N uuid env w = (s, w1)" by (rule prod.exhaust)
    have e1: "events w1 = events w" using readsD [OF reads_network_manager(2) active] by simp
    show ?thesis
    proof (cases "\<exists>q. s = Inr (Some q)")
      case False
      with assms kind Inr active e1 show ?thesis
        by (auto simp: deactivate_def with_external_id_def seqP_def bindP_def map_errP_def split: sum.splits option.splits)
    next
      case True
      then obtain q where s: "s = Inr (Some q)" ..
      from active_path_Some [OF active [unfolded s]] ext have own: "own_connection N p q"
        by (auto simp: own_connection_def)
      obtain m w2 where m: "nm_manager N env w1 = (m, w2)" by (rule prod.exhaust)
      have "events w2 = events w1" using readsD [OF reads_manager m] by simp
      with assms kind Inr active e1 s m own show ?thesis
        by (auto simp: deactivate_def with_external_id_def seqP_def bindP_def map_errP_def log_event_def nm_step_def
            split: sum.splits reply.splits)
    qed
  qed
qed

lemma active_among_none:
  "active_among A mounts cs env w = ((Inr {} :: 'e + _), w') \<Longrightarrow> c \<in> set cs \<Longrightarrow>
     \<exists>v v'. connection_appears_active A mounts c env v = ((Inr False :: 'e + bool), v')"
proof (induction cs arbitrary: w)
  case (Cons d cs)
  then show ?case by (auto simp: run_simps split: if_splits)
qed simp

lemma active_using_none:
  assumes "active_connections_using_vpn A users i (Some cid) env w = (Inr {}, w')"
  shows "users i \<subseteq> {cid}
    \<and> (\<exists>report mounts v v' u u'. load_report_of A env v = ((Inr report :: msg + load_report), v')
        \<and> host_mount_entries (ah_view A) env u = (Inr mounts, u')
        \<and> (\<forall>other \<in> set (connections (lr_config report)). vpn_profile_id other = Some i \<longrightarrow> conn_id other \<noteq> cid \<longrightarrow>
             (\<exists>x x'. connection_appears_active A mounts other env x = ((Inr False :: msg + bool), x'))))"
proof -
  let ?other = "\<lambda>report. filter (\<lambda>c. Some (conn_id c) \<noteq> Some cid)
      (filter (\<lambda>c. vpn_profile_id c = Some i) (connections (lr_config report)))"
  from assms obtain report mounts active v1 v2 where
    r: "load_report_of A env w = ((Inr report :: msg + load_report), v1)"
    and m: "host_mount_entries (ah_view A) env v1 = (Inr mounts, v2)"
    and a: "active_among A mounts (?other report) env v2 = ((Inr active :: msg + connection_id set), w')"
    and e: "active \<union> {c \<in> users i. Some c \<noteq> Some cid} = {}"
    unfolding active_connections_using_vpn_def bindP_Inr prog_simps by blast
  from e have none: "active = {}" and users: "users i \<subseteq> {cid}" by auto
  have "\<exists>x x'. connection_appears_active A mounts c env x = ((Inr False :: msg + bool), x')"
    if "c \<in> set (connections (lr_config report))" "vpn_profile_id c = Some i" "conn_id c \<noteq> cid" for c
    by (rule active_among_none [OF a [unfolded none]]) (use that in simp)
  with r m users show ?thesis by blast
qed

lemma emits_fs_step [emits_intros]: "emits env P (fs_step part op)"
  by (rule emits_silent) (auto simp: fs_step_def split: option.split prod.split)

lemma emits_write_record [emits_intros]:
  "emits env P (write_applet_activated_vpns A ids)" "emits env P (mark_vpn_applet_activated A i)"
  "emits env P (unmark_vpn_applet_activated A i)"
proof -
  show w: "emits env P (write_applet_activated_vpns A ids)" for ids
    unfolding write_applet_activated_vpns_def ignored_def fs_write_def open_truncate_def write_key_def
    by (intro emits_intros emits_reading reads_intros)
  show "emits env P (mark_vpn_applet_activated A i)" "emits env P (unmark_vpn_applet_activated A i)"
    unfolding mark_vpn_applet_activated_def unmark_vpn_applet_activated_def
    by (intro emits_intros w emits_reading reads_intros)+
qed

lemma silentD: "emits env (\<lambda>_. False) m \<Longrightarrow> m env w = (r, w') \<Longrightarrow> events w' = events w"
  using emitsD [of env "\<lambda>_. False" m w r w'] by (cases rule: prod.exhaust [of "m env w"]) (auto simp: list_all_iff)

lemma disconnect_events:
  assumes "emits env no_call (load_report_of A :: (msg, load_report) prog)"
    and "disconnect_vpn_profile A i env w = (r, w')"
  shows "\<exists>reading. list_all no_call reading
    \<and> (events w' = events w @ reading
       \<or> (\<exists>q profile. events w' = events w @ reading @ [Called ''DeactivateConnection'' [q]]
            \<and> vpn_id profile = i \<and> own_connection (ah_nm A) profile q))"
proof -
  obtain report w1 where load: "load_report_of A env w = ((report :: msg + load_report), w1)" by (rule prod.exhaust)
  from emitsD [OF assms(1) load] obtain n1 where n1: "events w1 = events w @ n1" "list_all no_call n1" by blast
  show ?thesis
  proof (cases "w' = w1")
    case True
    with n1 show ?thesis by auto
  next
    case False
    with assms(2) load obtain p where p: "find_vpn_profile i (lr_config (projr report)) = Some p"
      and kind: "vpn_kind_of p = NetworkManagerVpn"
      by (auto simp: disconnect_vpn_profile_def bindP_def split: sum.splits option.splits vpn_kind.splits)
    obtain s where s: "deactivate (ah_nm A) p env w1 = (s, w')"
      using assms(2) load p kind False
      by (auto simp: disconnect_vpn_profile_def bindP_def map_errP_def split: sum.splits prod.splits)
    have "vpn_id p = i" using p by (auto simp: find_vpn_profile_def find_Some_iff)
    with deactivate_events [OF s] n1 show ?thesis by auto
  qed
qed


text \<open>A VPN that is connected and recorded, with no user left.\<close>

definition vpn_sample_profile :: vpn_profile where
  "vpn_sample_profile =
     \<lparr>vpn_id = VpnProfileId sample_uuid, vpn_name = ''v'', vpn_kind_of = NetworkManagerVpn, external_profile_id = Some ''u'',
      readiness_checks = [], timeout_seconds = 30\<rparr>"

definition vpn_sample_nm :: nm_bus where
  "vpn_sample_nm =
     \<lparr>nm_connect = (\<lambda>n. Reply ()), nm_proxy = (\<lambda>n p i. Reply ()), nm_paths = (\<lambda>n p m. Reply [''/a'']),
      nm_settings_of = (\<lambda>n p. Reply (\<lambda>k. None)), nm_text = (\<lambda>n p t. Reply ''u''), nm_number = (\<lambda>n p t. Reply 2),
      nm_call = (\<lambda>n m ps. Reply ()), nm_cut = (\<lambda>n. None)\<rparr>"

definition vpn_sample_host :: "string app_host" where
  "vpn_sample_host =
     \<lparr>ah_url = sample_url_lib, ah_ron = \<lparr>ron_parse = (\<lambda>s. Inl (Lit [])), ron_print = (\<lambda>d. Inl (Lit []))\<rparr>,
      ah_storage = Inr (CosmicStorage
        \<lparr>cc_document = ret (default_document\<lparr>vpn_profiles := [vpn_sample_profile]\<rparr>),
         cc_legacy_notifications = ret True, cc_write_entry = (\<lambda>d. ret ())\<rparr> None),
      ah_view = \<lparr>hv_mode = Native, hv_mountinfo = (\<lambda>n. ReadBytes [] True), hv_json = (\<lambda>s. Inl [])\<rparr>,
      ah_bus = sample_bus True, ah_nm = vpn_sample_nm,
      ah_net = \<lparr>nw_parse_ip = (\<lambda>s. None), nw_lookup = (\<lambda>n s. None), nw_bind = (\<lambda>n b. True), nw_route = (\<lambda>n a. True),
                nw_tcp = (\<lambda>n h p. True), nw_cut = (\<lambda>n. None)\<rparr>,
      ah_clock = (\<lambda>s n. 2000 * s), ah_parse_uuid = (\<lambda>s. Some s), ah_encode_ids = (\<lambda>ids. Some []),
      ah_decode_ids = (\<lambda>s. Some [VpnProfileId sample_uuid])\<rparr>"

definition vpn_sample_connection :: connection where
  "vpn_sample_connection =
     sample_mirror\<lparr>vpn_profile_id := Some (VpnProfileId sample_uuid), disconnect_vpn_when_unused := True\<rparr>"

definition vpn_sample_world :: world where
  "vpn_sample_world =
     sample_world\<lparr>files := [(components ''/h/cosmic-ext-applet-mounter/vpn-applet-activated.ron'', File [])]\<rparr>"

definition vpn_sample_document :: config_document where
  "vpn_sample_document = migrate_preload_settings (default_document\<lparr>vpn_profiles := [vpn_sample_profile]\<rparr>)"

lemma vpn_sample_valid:
  "validate sample_url_lib vpn_sample_document = Inr ()" "vpn_profiles vpn_sample_document = [vpn_sample_profile]"
  "connections vpn_sample_document = []"
  by code_simp+

lemma vpn_sample_load [simp]:
  "load_report_of vpn_sample_host env w =
     (Inr \<lparr>lr_config = vpn_sample_document, lr_source = SourceCurrent, lr_warnings = []\<rparr>, w)"
  using vpn_sample_valid(1)
  by (simp add: load_report_of_def vpn_sample_host_def load_runtime_def storage_load_def load_from_def bindP_def tryP_def
      checked_report_def Let_def vpn_sample_document_def)

lemma vpn_sample_quiet: "emits env no_call (load_report_of vpn_sample_host :: (msg, load_report) prog)"
  by (rule emits_silent) simp

lemma vpn_sample_ids:
  "case applet_activated_vpns vpn_sample_host calm_env vpn_sample_world of
     (r, w') \<Rightarrow> r = (Inr [VpnProfileId sample_uuid] :: msg + _)"
  by code_simp

lemma vpn_sample_active: "active_path vpn_sample_nm ''u'' env w = (Inr (Some ''/a''), w\<lparr>tick := tick w + 5\<rparr>)"
  by (simp add: active_path_def nm_manager_def vpn_sample_nm_def nm_step_def seqP_def bindP_def)

lemma vpn_sample_external: "ensure_kind vpn_sample_profile NetworkManagerVpn = Inr ()" "external_id vpn_sample_profile = Inr ''u''"
  by code_simp+

lemma vpn_sample_deactivate:
  "events (snd (deactivate vpn_sample_nm vpn_sample_profile env w)) = events w @ [Called ''DeactivateConnection'' [''/a'']]"
  "fst (deactivate vpn_sample_nm vpn_sample_profile env w) = Inr ()"
  by (simp_all add: deactivate_def with_external_id_def vpn_sample_external vpn_sample_active
      map_errP_def seqP_def bindP_def nm_manager_def nm_step_def log_event_def map_err_def)
     (simp_all add: vpn_sample_nm_def)

lemma vpn_sample_fields:
  "ah_view vpn_sample_host = \<lparr>hv_mode = Native, hv_mountinfo = (\<lambda>n. ReadBytes [] True), hv_json = (\<lambda>s. Inl [])\<rparr>"
  "ah_nm vpn_sample_host = vpn_sample_nm" "vpn_profile_id vpn_sample_connection = Some (VpnProfileId sample_uuid)"
  "disconnect_vpn_when_unused vpn_sample_connection" "vpn_kind_of vpn_sample_profile = NetworkManagerVpn"
  "vpn_id vpn_sample_profile = VpnProfileId sample_uuid"
  by (simp_all add: vpn_sample_host_def vpn_sample_connection_def vpn_sample_profile_def)

lemma vpn_sample_using:
  "active_connections_using_vpn vpn_sample_host (\<lambda>i. {}) i x env w = (Inr {}, w\<lparr>tick := Suc (tick w)\<rparr>)"
proof -
  have "lines [] = []" by code_simp
  then show ?thesis
    by (simp add: active_connections_using_vpn_def bindP_def host_mount_entries_def run_current_def vpn_sample_fields
        ask_host_def native_text_def inspection_request_def vpn_sample_valid)
qed

lemma vpn_sample_release:
  "events (snd (maybe_shutdown_vpn_after_unmount vpn_sample_host (\<lambda>i. {}) vpn_sample_connection calm_env vpn_sample_world))
     = [Called ''DeactivateConnection'' [''/a'']]"
proof -
  let ?i = "VpnProfileId sample_uuid"
  obtain w1 where rec: "applet_activated_vpns vpn_sample_host calm_env vpn_sample_world = ((Inr [?i] :: msg + _), w1)"
    using vpn_sample_ids by (auto split: prod.splits)
  have e1: "events w1 = []" using readsD [OF reads_record(2) rec] by (simp add: vpn_sample_world_def sample_world_def)
  define w2 where "w2 = w1\<lparr>tick := Suc (tick w1)\<rparr>"
  obtain d w3 where d: "disconnect_vpn_profile vpn_sample_host ?i calm_env w2 = (d, w3)" by (rule prod.exhaust)
  then have d': "d = Inr ()" "events w3 = [Called ''DeactivateConnection'' [''/a'']]"
    using vpn_sample_deactivate [of calm_env w2] e1
    by (auto simp: disconnect_vpn_profile_def bindP_def find_vpn_profile_def vpn_sample_valid vpn_sample_fields map_errP_def
        map_err_def w2_def split: prod.splits sum.splits)
  obtain u w4 where u: "unmark_vpn_applet_activated vpn_sample_host ?i calm_env w3 = ((u :: msg + unit), w4)" by (rule prod.exhaust)
  have "events w4 = events w3" using silentD [OF emits_write_record(3) u] .
  with rec d d' u show ?thesis
    by (simp add: maybe_shutdown_vpn_after_unmount_def vpn_sample_fields bindP_def vpn_sample_using shutdown_decision_def
        seqP_def flip: w2_def)
qed


section \<open>Bringing a VPN up\<close>

definition activation_call :: "event \<Rightarrow> bool" where
  "activation_call ev = (\<exists>arguments. ev = Called ''ActivateConnection'' arguments)"

lemma probe_all_checks: "probe_all (probe_check N W) cs env w = (Inr rs, w') \<Longrightarrow> map ck_check rs = cs"
  by (induction cs arbitrary: w rs) (auto simp: run_simps probe_check_def)

lemma profile_ready_means:
  assumes "vpn_profile_ready A p env v = (Inr True, v')"
  shows "\<exists>v1 report. vpn_state (ah_nm A) p env v = (Inr VpnActivated, v1)
    \<and> readiness_report_of (probe_check (ah_nm A) (ah_net A)) (readiness_checks p) env v1 = (Inr report, v')
    \<and> list_all ck_ready (rr_checks report) \<and> map ck_check (rr_checks report) = readiness_checks p"
  using assms
  by (auto simp: vpn_profile_ready_def vpn_tunnel_ready_def run_simps state_ready_def readiness_report_of_def
      split: vpn_kind.splits if_splits dest: probe_all_checks)

lemma look_ready:
  assumes "look_at_vpn A p b env w = (Inr True, w')"
  shows "\<exists>v. vpn_profile_ready A p env v = (Inr True, w')"
proof -
  from assms obtain r v where v: "vpn_state (ah_nm A) p env w = (r, v)"
    and rest: "(case r of Inl _ \<Rightarrow> ret False
      | Inr s \<Rightarrow> (case vpn_activation_terminal_error s b of Some e \<Rightarrow> fail e
          | None \<Rightarrow> if state_ready s then or_false (vpn_profile_ready A p) else ret False)) env v = (Inr True, w')"
    unfolding look_at_vpn_def bindP_Inr tryP_Inr by blast
  from rest have "or_false (vpn_profile_ready A p) env v = ((Inr True :: msg + bool), w')"
    by (auto split: sum.splits option.splits if_splits)
  then show ?thesis by (auto simp: or_false_def bindP_Inr)
qed

lemma wait_success:
  "wait_for_vpn_ready fuel A p deadline b s env w = (Inr (Some True), w') \<Longrightarrow>
     \<exists>v v'. vpn_profile_ready A p env v = (Inr True, v')"
proof (induction fuel arbitrary: s w)
  case (Suc fuel)
  from Suc.prems obtain now v where v:
    "(if deadline \<le> now then ret (Some False)
      else if vpn_kind_of p = LegacyCisco then bindP (vpn_profile_ready A p) (\<lambda>b. ret (Some b))
      else bindP (look_at_vpn A p b) (\<lambda>ready.
        if ready then ret (Some True) else wait_for_vpn_ready fuel A p deadline b (Suc s))) env v = (Inr (Some True), w')"
    unfolding wait_for_vpn_ready.simps bindP_Inr by blast
  then consider v1 where "vpn_profile_ready A p env v1 = (Inr True, w')" | v1 where "look_at_vpn A p b env v1 = (Inr True, w')"
    | v1 where "wait_for_vpn_ready fuel A p deadline b (Suc s) env v1 = (Inr (Some True), w')"
    by (auto simp: bindP_Inr split: if_splits)
  then show ?case by cases (use Suc.IH look_ready in blast)+
qed simp

lemma emits_pair: "emits env P (\<lambda>_. Pair r)"
  by (rule emits_silent) simp

lemma systemd_named_quiet: "emits env P (systemd_user_restart_named_unit B unit)"
proof -
  have job: "emits env P (await_job call unit job signals)" for call unit job signals
    by (induction call unit job signals rule: await_job.induct) (auto intro!: emits_intros emits_pair split: reply.split)
  show ?thesis
    unfolding systemd_user_restart_named_unit_def run_named_unit_def systemd_user_run_job_def manager_call_def
      systemd_user_connection_def systemd_user_manager_def
    by (intro emits_intros job)
qed

text \<open>Programs that log at most \<open>k\<close> events.\<close>

definition emits_upto :: "env \<Rightarrow> nat \<Rightarrow> ('e, 'a) prog \<Rightarrow> bool" where
  "emits_upto env k m = (\<forall>w. \<exists>new. events (snd (m env w)) = events w @ new \<and> length new \<le> k)"

lemma upto_after:
  assumes "emits env (\<lambda>_. False) m" and "\<And>x. emits_upto env k (f x)"
  shows "emits_upto env k (bindP m f)"
  unfolding emits_upto_def
proof
  fix w
  obtain r w1 where m: "m env w = (r, w1)" by (rule prod.exhaust)
  show "\<exists>new. events (snd (bindP m f env w)) = events w @ new \<and> length new \<le> k"
  proof (cases r)
    case (Inl e)
    with silentD [OF assms(1) m] m show ?thesis by (simp add: bindP_def)
  next
    case (Inr x)
    have "\<exists>new. events (snd (f x env w1)) = events w1 @ new \<and> length new \<le> k"
      using assms(2) unfolding emits_upto_def by blast
    with Inr silentD [OF assms(1) m] m show ?thesis by (simp add: bindP_def)
  qed
qed

lemma upto_log:
  assumes "emits env (\<lambda>_. False) m"
  shows "emits_upto env 1 (seqP (log_event ev) m)"
  unfolding emits_upto_def
proof
  fix w
  obtain r w' where m: "m env (w\<lparr>events := events w @ [ev]\<rparr>) = (r, w')" by (rule prod.exhaust)
  with silentD [OF assms m] show "\<exists>new. events (snd (seqP (log_event ev) m env w)) = events w @ new \<and> length new \<le> 1"
    by (simp add: seqP_def bindP_def log_event_def)
qed

lemma upto_map_err: "emits_upto env k m \<Longrightarrow> emits_upto env k (map_errP g m)"
  by (auto simp: emits_upto_def map_errP_def split: prod.split) (metis snd_conv)

lemma restart_quiet: "emits env P (restart_openconnect_agent N B)"
proof (rule emitsI)
  fix w r w' assume "restart_openconnect_agent N B env w = (r, w')"
  then obtain s where "systemd_user_restart_named_unit B OPENCONNECT_AGENT_UNIT env w = (s, w')"
    by (auto simp: restart_openconnect_agent_def split: prod.splits)
  from emitsD [OF systemd_named_quiet this]
  show "\<exists>new. events w' = events w @ new \<and> list_all P new \<and> locks w' = locks w" .
qed

lemma activate_upto: "emits_upto env 1 (activate N B p)"
  unfolding activate_def with_external_id_def seqP_def [of "liftR _"]
proof (intro upto_after upto_map_err emits_prims emits_reading reads_intros)
  fix u uuid x
  show "emits_upto env 1 (case x of (saved, q) \<Rightarrow>
      seqP (whenP (requires_openconnect_agent saved) (restart_openconnect_agent N B))
       (seqP (nm_manager N) (seqP (log_event (Called ''ActivateConnection'' [q, ''/'', ''/'']))
         (nm_step (\<lambda>n. nm_call N n ''ActivateConnection'' [q, ''/'', ''/''])))))"
    unfolding seqP_def [of "whenP _ _"] seqP_def [of "nm_manager _"]
    unfolding split_def by (intro upto_after upto_log emits_when restart_quiet emits_reading [OF reads_manager] emits_reading [OF reads_prims(5)])
qed

lemma cleanup_no_activation: "emits env (\<lambda>ev. \<not> activation_call ev) (cleanup_timed_out_vpn_activation A p oc)"
  unfolding cleanup_timed_out_vpn_activation_def deactivate_def with_external_id_def
  by (intro emits_intros restart_quiet emits_reading reads_intros) (simp add: activation_call_def)

lemma request_upto:
  assumes "whenP b (request_activation A p) env w = (r, w')"
  shows "\<exists>new. events w' = events w @ new \<and> length new \<le> 1 \<and> (new \<noteq> [] \<longrightarrow> b \<and> vpn_kind_of p = NetworkManagerVpn)"
proof (cases "\<not> b \<or> vpn_kind_of p = LegacyCisco")
  case True
  with assms show ?thesis by (auto simp: request_activation_def whenP_def split: if_splits)
next
  case False
  then have kind: "vpn_kind_of p = NetworkManagerVpn" by (cases "vpn_kind_of p") auto
  with assms False have "map_errP (\<lambda>e. Fl ''ui-app-could-not-activate-networkmanager-vpn-error'' [(''error'', vpn_error_text e)])
      (activate (ah_nm A) (ah_bus A) p) env w = (r, w')"
    by (simp add: request_activation_def)
  moreover have "emits_upto env 1 (map_errP g (activate (ah_nm A) (ah_bus A) p))" for g :: "vpn_error \<Rightarrow> msg"
    by (rule upto_map_err [OF activate_upto])
  ultimately have "\<exists>new. events w' = events w @ new \<and> length new \<le> 1"
    unfolding emits_upto_def by (metis snd_conv)
  with kind False show ?thesis by blast
qed

lemma after_wait_quiet: "emits env (\<lambda>ev. \<not> activation_call ev) (after_wait A p oc b waited)"
  unfolding after_wait_def
  by (intro emits_intros emits_write_record cleanup_no_activation)
     (auto split: bool.split intro!: emits_intros emits_write_record cleanup_no_activation)

text \<open>
  C14. A VPN that is reported as ready is ready: when bringing it up succeeds, NetworkManager was last seen
  to report the profile's connection as activated, and then every readiness check of the profile was made
  and answered ready; at most one activation is requested, and only for a NetworkManager profile whose
  connection was not seen activated before.
\<close>
theorem vpn_ready_means_checked:
  assumes "ensure_vpn_profile_ready fuel A p deadline oc env w = (r, w')" and "events w' = events w @ new"
  shows "(r = Inr (Some ()) \<longrightarrow> (\<exists>v v1 v2 report. vpn_state (ah_nm A) p env v = (Inr VpnActivated, v1)
        \<and> readiness_report_of (probe_check (ah_nm A) (ah_net A)) (readiness_checks p) env v1 = (Inr report, v2)
        \<and> list_all ck_ready (rr_checks report) \<and> map ck_check (rr_checks report) = readiness_checks p))
    \<and> length (filter activation_call new) \<le> 1
    \<and> (filter activation_call new \<noteq> [] \<longrightarrow>
         fst (vpn_tunnel_ready A p env w) \<noteq> Inr True \<and> vpn_kind_of p = NetworkManagerVpn)"
proof -
  obtain t w1 where t: "vpn_tunnel_ready A p env w = (t, w1)" by (rule prod.exhaust)
  have e1: "events w1 = events w" using readsD [OF reads_profile_ready(1) t] by simp
  define already where "already \<longleftrightarrow> t = Inr True"
  obtain q w2 where q: "whenP (\<not> already) (request_activation A p) env w1 = (q, w2)" by (rule prod.exhaust)
  from request_upto [OF q] e1 obtain n2 where n2: "events w2 = events w @ n2" "length n2 \<le> 1"
    "n2 \<noteq> [] \<longrightarrow> \<not> already \<and> vpn_kind_of p = NetworkManagerVpn" by auto
  obtain x w3 where x: "wait_for_vpn_ready fuel A p deadline (\<not> already) 0 env w2 = (x, w3)" by (rule prod.exhaust)
  have e3: "events w3 = events w2" using readsD [OF reads_wait x] by simp
  define rest where "rest = after_wait A p oc already"
  have run: "(case q of Inl e \<Rightarrow> (Inl e, w2) | Inr _ \<Rightarrow>
      (case x of Inl e \<Rightarrow> (Inl e, w3) | Inr waited \<Rightarrow> rest waited env w3)) = (r, w')"
    using assms(1) t q x unfolding already_def rest_def ensure_vpn_profile_ready_def
    by (simp add: or_false_def bindP_def seqP_def tryP_def split: sum.splits)
  have "\<exists>n3. events w' = events w @ n2 @ n3 \<and> list_all (\<lambda>ev. \<not> activation_call ev) n3"
    using run e3 n2(1) emitsD [OF after_wait_quiet [of env A p oc already], folded rest_def] by (fastforce split: sum.splits)
  then have calls: "filter activation_call new = filter activation_call n2"
    using assms(2) by (auto simp: list_all_iff)
  have "length (filter activation_call new) \<le> 1" using n2(2) calls length_filter_le le_trans by metis
  moreover have "\<exists>v v'. vpn_profile_ready A p env v = (Inr True, v')" if "r = Inr (Some ())"
    using run that x by (auto simp: rest_def after_wait_def bindP_def split: sum.splits option.splits bool.splits prod.splits intro: wait_success)
  moreover from this have "\<exists>v v1 v2 report. vpn_state (ah_nm A) p env v = (Inr VpnActivated, v1)
        \<and> readiness_report_of (probe_check (ah_nm A) (ah_net A)) (readiness_checks p) env v1 = (Inr report, v2)
        \<and> list_all ck_ready (rr_checks report) \<and> map ck_check (rr_checks report) = readiness_checks p"
    if "r = Inr (Some ())" using that profile_ready_means by blast
  ultimately show ?thesis using calls n2(3) t by (auto simp: already_def)
qed

lemma vpn_sample_state: "\<exists>w'. vpn_state vpn_sample_nm vpn_sample_profile env w = (Inr VpnActivated, w')"
  by (simp add: vpn_state_def with_external_id_def vpn_sample_external vpn_sample_active
      map_errP_def seqP_def bindP_def nm_step_def map_err_def active_state_of_def)
     (simp add: vpn_sample_nm_def active_state_of_def)

lemma vpn_sample_ready:
  "\<exists>w'. vpn_tunnel_ready vpn_sample_host vpn_sample_profile env w = (Inr True, w')"
  "\<exists>w'. vpn_profile_ready vpn_sample_host vpn_sample_profile env w = (Inr True, w')"
  "\<exists>w'. look_at_vpn vpn_sample_host vpn_sample_profile b env w = (Inr True, w')"
proof -
  show tunnel: "\<exists>w'. vpn_tunnel_ready vpn_sample_host vpn_sample_profile env w = (Inr True, w')" for w
    using vpn_sample_state [of env w]
    by (auto simp: vpn_tunnel_ready_def vpn_sample_fields map_errP_def bindP_def state_ready_def map_err_def)
  have none: "readiness_checks vpn_sample_profile = []" by (simp add: vpn_sample_profile_def)
  show profile: "\<exists>w'. vpn_profile_ready vpn_sample_host vpn_sample_profile env w = (Inr True, w')" for w
    using tunnel [of w]
    by (auto simp: vpn_profile_ready_def none map_errP_def bindP_def readiness_report_of_def map_err_def)
  obtain w1 where s: "vpn_state vpn_sample_nm vpn_sample_profile env w = (Inr VpnActivated, w1)"
    using vpn_sample_state by blast
  obtain w2 where "vpn_profile_ready vpn_sample_host vpn_sample_profile env w1 = (Inr True, w2)" using profile by blast
  with s show "\<exists>w'. look_at_vpn vpn_sample_host vpn_sample_profile b env w = (Inr True, w')"
    by (simp add: look_at_vpn_def or_false_def tryP_def bindP_def vpn_sample_fields state_ready_def
        vpn_activation_terminal_error_def)
qed

lemma vpn_sample_ensure:
  "fst (ensure_vpn_profile_ready (vpn_polls vpn_sample_profile) vpn_sample_host vpn_sample_profile 30000 oc env w) = Inr (Some ())"
proof -
  obtain w1 where t: "vpn_tunnel_ready vpn_sample_host vpn_sample_profile env w = (Inr True, w1)"
    using vpn_sample_ready by blast
  have now: "ah_clock vpn_sample_host 0 n = 0" for n by (simp add: vpn_sample_host_def)
  obtain w2 where "look_at_vpn vpn_sample_host vpn_sample_profile False env (w1\<lparr>tick := Suc (tick w1)\<rparr>) = (Inr True, w2)"
    using vpn_sample_ready by blast
  with t now show ?thesis
    by (simp add: ensure_vpn_profile_ready_def or_false_def bindP_def seqP_def tryP_def vpn_polls_def after_wait_def vpn_sample_fields
        read_instant_def)
qed

lemma vpn_ready_means_checked_witness:
  "\<exists>v v1. vpn_state vpn_sample_nm vpn_sample_profile calm_env v = (Inr VpnActivated, v1)"
proof -
  let ?run = "ensure_vpn_profile_ready (vpn_polls vpn_sample_profile) vpn_sample_host vpn_sample_profile 30000 False"
  have ok: "fst (?run calm_env vpn_sample_world) = Inr (Some ())" by (rule vpn_sample_ensure)
  obtain r w' where run: "?run calm_env vpn_sample_world = (r, w')" by (rule prod.exhaust)
  have "events w' = events vpn_sample_world @ events w'" by (simp add: vpn_sample_world_def sample_world_def)
  from vpn_ready_means_checked [OF run this] ok run show ?thesis by (auto simp: vpn_sample_fields)
qed

lemma wait_ends:
  assumes "\<And>m. deadline \<le> ah_clock A (s + fuel) m"
  shows "fst (wait_for_vpn_ready (Suc fuel) A p deadline b s env w) \<noteq> Inr None"
  using assms
proof (induction fuel arbitrary: s w)
  case 0
  then show ?case by (simp add: bindP_def read_instant_def)
next
  case (Suc fuel)
  then have "\<And>w. fst (wait_for_vpn_ready (Suc fuel) A p deadline b (Suc s) env w) \<noteq> Inr None" by simp
  then show ?case
    by (subst wait_for_vpn_ready.simps)
       (auto simp: bindP_def read_instant_def simp del: wait_for_vpn_ready.simps split: prod.split sum.split)
qed

lemma after_wait_ends: "fst (after_wait A p oc b (Some x) env w) \<noteq> Inr None"
  by (cases x) (auto simp: after_wait_def seqP_def bindP_def split: prod.split sum.split)

lemma bind_ends: "(\<And>x w. fst (g x env w) \<noteq> Inr None) \<Longrightarrow> fst (bindP m g env w) \<noteq> Inr None"
  by (auto simp: bindP_def split: prod.split sum.split)

text \<open>
  The wait for a VPN ends: with a clock on which a sleep takes its two seconds or reaches the deadline,
  and a timeout of at least one second, \<open>(timeout + 1) div 2 + 1\<close> looks are enough whatever
  NetworkManager answers, so bringing the VPN up returns.
\<close>
theorem vpn_wait_ends:
  assumes "\<And>s n m. min (ah_clock A s n + 2000) (ah_clock A 0 start + 1000 * unat (timeout_seconds p)) \<le> ah_clock A (Suc s) m"
    and "timeout_seconds p \<noteq> 0"
  shows "fst (ensure_vpn_profile_ready (vpn_polls p) A p (ah_clock A 0 start + 1000 * unat (timeout_seconds p)) oc env w)
    \<noteq> Inr None"
proof -
  define t where "t = unat (timeout_seconds p)"
  define deadline where "deadline = ah_clock A 0 start + 1000 * t"
  have t: "0 < t" using assms(2) by (simp add: t_def unat_gt_0)
  have passed: "min (ah_clock A 0 start + 2000 * Suc k) deadline \<le> ah_clock A (Suc k) m" for k m
  proof (induction k arbitrary: m)
    case 0
    then show ?case using assms(1) [of 0 start m] by (simp add: deadline_def t_def)
  next
    case (Suc k)
    from Suc.IH [of 0] assms(1) [of "Suc k" 0 m] show ?case by (simp add: deadline_def t_def min_def split: if_splits)
  qed
  have late: "deadline \<le> ah_clock A ((t + 1) div 2) m" for m
  proof -
    obtain k where k: "(t + 1) div 2 = Suc k" using t by (cases "(t + 1) div 2") auto
    then have "t \<le> 2 * Suc k" by presburger
    then have "1000 * t \<le> 2000 * Suc k" by simp
    with passed [of k m] k show ?thesis by (simp add: deadline_def)
  qed
  have fin: "fst (bindP (wait_for_vpn_ready (Suc ((t + 1) div 2)) A p deadline b 0) (after_wait A p oc b') env v) \<noteq> Inr None" for b b' v
    using wait_ends [of deadline A 0 "(t + 1) div 2" p b env v] late after_wait_ends [of A p oc b' _ env]
    by (cases "wait_for_vpn_ready (Suc ((t + 1) div 2)) A p deadline b 0 env v")
       (auto simp: bindP_def simp del: wait_for_vpn_ready.simps split: sum.split option.split)
  show ?thesis
    unfolding ensure_vpn_profile_ready_def vpn_polls_def seqP_def deadline_def [symmetric] t_def [symmetric]
    by (rule bind_ends, rule bind_ends, rule fin)
qed

text \<open>A clock that advances by two seconds with every sleep.\<close>

lemma vpn_wait_ends_witness:
  "fst (ensure_vpn_profile_ready (vpn_polls vpn_sample_profile) vpn_sample_host vpn_sample_profile 30000 False calm_env sample_world)
     \<noteq> Inr None"
proof -
  have start: "ah_clock vpn_sample_host 0 0 + 1000 * unat (timeout_seconds vpn_sample_profile) = 30000"
    by (simp add: vpn_sample_host_def vpn_sample_profile_def)
  have "min (ah_clock vpn_sample_host s n + 2000) (ah_clock vpn_sample_host 0 0 + 1000 * unat (timeout_seconds vpn_sample_profile))
      \<le> ah_clock vpn_sample_host (Suc s) m" for s n m
    by (simp add: vpn_sample_host_def)
  from vpn_wait_ends [OF this] show ?thesis unfolding start by (simp add: vpn_sample_profile_def)
qed

section \<open>What stays wrong\<close>

lemma endpoint_fails:
  "Endpoint e \<in> set cs \<Longrightarrow> CHR '':'' \<notin> set e \<Longrightarrow> probe_all (probe_check N W) cs env w \<noteq> (Inr rs, w')"
proof (induction cs arbitrary: w rs)
  case (Cons c cs)
  then show ?case
    by (auto simp: run_simps probe_check_def probe_ready_def parse_endpoint_def rsplit_colon_def)
qed simp

text \<open>
  A profile with an endpoint check that has no port can never become ready: the document accepts every
  such endpoint that is not blank, but its check is an error each time, and the wait takes an error of the
  checks for \<open>not ready\<close>, so bringing the VPN up never succeeds, however good the network is.
\<close>
theorem endpoint_without_port_never_ready:
  assumes "Endpoint e \<in> set (readiness_checks p)" and "CHR '':'' \<notin> set e" and "trim e \<noteq> []" and "\<not> has_control_char e"
  shows "\<not> invalid_readiness (Endpoint e) \<and> fst (ensure_vpn_profile_ready fuel A p deadline oc env w) \<noteq> Inr (Some ())"
proof -
  obtain r w' where run: "ensure_vpn_profile_ready fuel A p deadline oc env w = (r, w')" by (rule prod.exhaust)
  have "r \<noteq> Inr (Some ())"
  proof
    assume "r = Inr (Some ())"
    with run obtain v v' where "vpn_profile_ready A p env v = (Inr True, v')"
      by (auto simp: ensure_vpn_profile_ready_def run_simps after_wait_def split: option.splits bool.splits dest!: wait_success)
    then show False
      using endpoint_fails [OF assms(1,2)]
      by (auto simp: vpn_profile_ready_def run_simps readiness_report_of_def split: if_splits)
  qed
  with run assms(3,4) show ?thesis by simp
qed

lemma endpoint_without_port_never_ready_witness:
  "fst (ensure_vpn_profile_ready 16 vpn_sample_host (vpn_sample_profile\<lparr>readiness_checks := [Endpoint ''host'']\<rparr>) 30000 False
      calm_env sample_world) \<noteq> Inr (Some ())"
proof -
  have "Endpoint ''host'' \<in> set (readiness_checks (vpn_sample_profile\<lparr>readiness_checks := [Endpoint ''host'']\<rparr>))" by simp
  moreover have "CHR '':'' \<notin> set ''host''" "trim ''host'' \<noteq> []" "\<not> has_control_char ''host''" by code_simp+
  ultimately show ?thesis using endpoint_without_port_never_ready by blast
qed

text \<open>
  The record of activations is never corrected: a VPN that is found connected when a connection is
  brought up leaves every file as it was, so an entry of an earlier activation stays although the VPN went
  down and was brought up by the user since, and the release after the last use then disconnects it.
\<close>
theorem connected_vpn_keeps_record:
  assumes "ensure_vpn_profile_ready fuel A p deadline oc env w = (r, w')" and "fst (vpn_tunnel_ready A p env w) = Inr True"
  shows "files w' = files w \<and> events w' = events w
    \<and> (vpn_id p \<in> set ids \<longrightarrow> shutdown_decision
         \<lparr>vu_profile_id = vpn_id p, vu_applet_activated = (vpn_id p \<in> set ids), vu_active_connection_ids = {}\<rparr> = Disconnect)"
proof -
  obtain w1 where t: "vpn_tunnel_ready A p env w = (Inr True, w1)"
    using assms(2) by (cases "vpn_tunnel_ready A p env w") auto
  have "reads env (bindP (wait_for_vpn_ready fuel A p deadline False 0) (after_wait A p oc True))"
    unfolding after_wait_def by (intro reads_intros) (auto intro!: reads_intros split: bool.split)
  moreover have "bindP (wait_for_vpn_ready fuel A p deadline False 0) (after_wait A p oc True) env w1 = (r, w')"
    using assms(1) t by (simp add: ensure_vpn_profile_ready_def or_false_def bindP_def seqP_def tryP_def)
  ultimately show ?thesis
    using readsD [OF reads_profile_ready(1) t] readsD by (fastforce simp: shutdown_decision_def)
qed

lemma connected_vpn_keeps_record_witness:
  "files (snd (ensure_vpn_profile_ready 16 vpn_sample_host vpn_sample_profile 30000 False calm_env vpn_sample_world))
     = files vpn_sample_world"
proof -
  obtain r w' where run: "ensure_vpn_profile_ready 16 vpn_sample_host vpn_sample_profile 30000 False calm_env vpn_sample_world = (r, w')"
    by (rule prod.exhaust)
  have "fst (vpn_tunnel_ready vpn_sample_host vpn_sample_profile calm_env vpn_sample_world) = Inr True"
    using vpn_sample_ready(1) [of calm_env vpn_sample_world] by auto
  from connected_vpn_keeps_record [OF run this] run show ?thesis by simp
qed

end
