(* ===== verification/Directory_Preload.thy ===== *)
theory Directory_Preload
  imports Vpn_Lifecycle Sleep
begin

text \<open>
  The warm-up of the directories of an Online mount (\<open>src/src/directory_preload.rs\<close>) and its report
  (\<open>src/src/preload_report.rs\<close>): the registry of the preloads in progress, the probes that wait for
  the mount and its entries, the traversal, and how a preload is cancelled.  A control is named by its
  generation, which the code draws from a counter; the registry is a value that the operations pass on.
\<close>

section \<open>Reports\<close>

record preload_report =
  pt_duration :: duration
  pt_limit :: duration
  pt_maximum_depth :: "u8 option"
  pt_excluded_paths :: nat

datatype preload_outcome = PreloadCompleted preload_report | PreloadTimedOut preload_report | PreloadSkipped | PreloadCancelled

definition preload_notice :: "preload_outcome \<Rightarrow> string \<Rightarrow> msg option" where
  "preload_notice outcome name =
     map_option (\<lambda>status. Fl ''ui-preload-report-name-preload-status'' [(''name'', Lit name), (''status'', status)])
       (case outcome of
          PreloadCompleted r \<Rightarrow> Some (case pt_maximum_depth r of
              Some depth \<Rightarrow> Fl ''ui-preload-report-complete-through-depth-depth'' [(''depth'', Lit (show_nat (unat depth)))]
            | None \<Rightarrow> fl ''preload-complete-status'')
        | PreloadTimedOut _ \<Rightarrow> Some (fl ''ui-preload-report-time-limit-reached-scan-incomplete'')
        | PreloadSkipped \<Rightarrow> Some (fl ''ui-preload-report-skipped-excluded-system-directory'')
        | PreloadCancelled \<Rightarrow> None)"

section \<open>The registry\<close>

record preload_job =
  pj_connection_id :: connection_id
  pj_generation :: nat
  pj_mountpoint :: path
  pj_timeout :: duration
  pj_maximum_depth :: "u8 option"
  pj_wait_for_root :: bool
  pj_excluded_paths :: "path list"

record active_preload =
  ap_cancelled :: bool
  ap_done :: bool

record preload_registry =
  pg_next :: nat
  pg_controls :: "nat \<Rightarrow> active_preload"
  pg_active :: "connection_id \<Rightarrow> nat option"

definition fresh_preload :: active_preload where
  "fresh_preload = \<lparr>ap_cancelled = False, ap_done = False\<rparr>"

definition empty_preloads :: preload_registry where
  "empty_preloads = \<lparr>pg_next = 1, pg_controls = (\<lambda>g. fresh_preload), pg_active = (\<lambda>c. None)\<rparr>"

definition cancel_control :: "nat \<Rightarrow> preload_registry \<Rightarrow> preload_registry" where
  "cancel_control g G = G\<lparr>pg_controls := (pg_controls G)(g := (pg_controls G g)\<lparr>ap_cancelled := True\<rparr>)\<rparr>"

definition start_preload ::
  "connection_id \<Rightarrow> path \<Rightarrow> duration \<Rightarrow> u8 option \<Rightarrow> bool \<Rightarrow> preload_registry \<Rightarrow> preload_job res \<times> preload_registry" where
  "start_preload cid mountpoint limit depth wait_for_root G =
     (if limit = 0 then (Inl (fl ''ui-directory-preload-directory-preload-time-must-be-greater-than''), G)
      else
        let G1 = (case pg_active G cid of Some g \<Rightarrow> cancel_control g G | None \<Rightarrow> G);
            generation = pg_next G1
        in (Inr \<lparr>pj_connection_id = cid, pj_generation = generation, pj_mountpoint = mountpoint, pj_timeout = limit,
                 pj_maximum_depth = depth, pj_wait_for_root = wait_for_root, pj_excluded_paths = []\<rparr>,
            G1\<lparr>pg_next := Suc generation, pg_controls := (pg_controls G1)(generation := fresh_preload),
               pg_active := (pg_active G1)(cid \<mapsto> generation)\<rparr>))"

definition current_preload :: "connection_id \<Rightarrow> nat \<Rightarrow> preload_registry \<Rightarrow> bool" where
  "current_preload cid g G = (pg_active G cid = Some g)"

definition finish_preload :: "connection_id \<Rightarrow> nat \<Rightarrow> preload_registry \<Rightarrow> preload_registry" where
  "finish_preload cid g G =
     G\<lparr>pg_controls := (pg_controls G)(g := (pg_controls G g)\<lparr>ap_done := True\<rparr>),
       pg_active := (if pg_active G cid = Some g then (pg_active G)(cid := None) else pg_active G)\<rparr>"

text \<open>
  Cancelling the registered preload and waiting for it; \<open>others\<close> is what the other tasks do to the
  registry during the wait.  A completion is signalled after it is stored, so the wait ends in time exactly
  when the control is done at its end.
\<close>

definition cancel_with_timeout ::
  "connection_id \<Rightarrow> (preload_registry \<Rightarrow> preload_registry) \<Rightarrow> preload_registry \<Rightarrow> bool res \<times> preload_registry" where
  "cancel_with_timeout cid others G =
     (case pg_active G cid of
        None \<Rightarrow> (Inr False, G)
      | Some g \<Rightarrow>
          let waited = others (cancel_control g G) in
          if \<not> ap_done (pg_controls waited g)
          then (Inl (fl ''ui-directory-preload-directory-preload-is-still-stopping-the-mount''), waited)
          else (Inr True, finish_preload cid g waited))"

definition cancel_preload ::
  "connection_id \<Rightarrow> (preload_registry \<Rightarrow> preload_registry) \<Rightarrow> preload_registry \<Rightarrow> bool \<times> preload_registry" where
  "cancel_preload cid others G = (case cancel_with_timeout cid others G of (r, G') \<Rightarrow> (r = Inr True, G'))"

definition cancel_before_unmount ::
  "connection_id \<Rightarrow> (preload_registry \<Rightarrow> preload_registry) \<Rightarrow> preload_registry \<Rightarrow> unit res \<times> preload_registry" where
  "cancel_before_unmount cid others G =
     (case cancel_with_timeout cid others G of (r, G') \<Rightarrow> (bind_res r (\<lambda>_. Inr ()), G'))"

section \<open>Excluded directories\<close>

fun sftp_exclusions :: "path \<Rightarrow> path \<Rightarrow> path list \<Rightarrow> path list \<Rightarrow> path list" where
  "sftp_exclusions local_root remote [] excluded = excluded"
| "sftp_exclusions local_root remote (system # rest) excluded =
     (if path_starts_with remote system then [local_root]
      else if path_starts_with system remote
      then sftp_exclusions local_root remote rest
             (excluded @ [path_join local_root
                (join ''/'' (map comp_text (drop (length (components remote)) (components system))))])
      else sftp_exclusions local_root remote rest excluded)"

definition sftp_excluded_paths :: "connection \<Rightarrow> path list" where
  "sftp_excluded_paths c =
     (if conn_provider c \<noteq> Sftp then []
      else case remote_subpath c of
             None \<Rightarrow> []
           | Some remote \<Rightarrow>
               if \<not> is_absolute remote then []
               else sftp_exclusions (local_path c) remote [''/proc'', ''/sys'', ''/dev''] [])"

definition start_for_connection ::
  "connection \<Rightarrow> duration \<Rightarrow> u8 option \<Rightarrow> bool \<Rightarrow> preload_registry \<Rightarrow> preload_job res \<times> preload_registry" where
  "start_for_connection c limit depth wait_for_root G =
     (case start_preload (conn_id c) (local_path c) limit depth wait_for_root G of
        (r, G') \<Rightarrow> (bind_res r (\<lambda>job. Inr (job\<lparr>pj_excluded_paths := sftp_excluded_paths c\<rparr>)), G'))"

section \<open>Requests\<close>

definition glob_meta :: "char \<Rightarrow> bool" where
  "glob_meta c = (c \<in> set ''*?[]'' \<or> c = CHR 0x5C)"

definition glob_pattern :: "path \<Rightarrow> string" where
  "glob_pattern p = concat (map (\<lambda>c. if glob_meta c then [CHR 0x5C, c] else [c]) p)"

definition excluding_args :: "path list \<Rightarrow> string list" where
  "excluding_args excluded =
     (if excluded = [] then []
      else [''(''] @ tl (concat (map (\<lambda>p. [''-o'', ''-path'', glob_pattern p]) excluded)) @ ['')'', ''-prune'', ''-o''])"

definition traversal_args :: "path \<Rightarrow> u8 option \<Rightarrow> path list \<Rightarrow> string list" where
  "traversal_args mountpoint depth excluded =
     [''-P'', mountpoint, ''-xdev'']
     @ (case depth of Some d \<Rightarrow> [''-maxdepth'', show_nat (unat d)] | None \<Rightarrow> [])
     @ excluding_args excluded @ [''-type'', ''d'', ''-printf'', []]"

definition preload_request :: "executable \<Rightarrow> string list \<Rightarrow> duration \<Rightarrow> command_request res" where
  "preload_request exe arguments limit =
     map_err command_error_text
       (bind_res (add_args arguments (new_request exe)) (\<lambda>r. Inr (r\<lparr>req_timeout := limit\<rparr>)))"

definition small_output :: "command_request \<Rightarrow> command_request" where
  "small_output r = r\<lparr>req_output_limit := 1024\<rparr>"

definition traversal_request_excluding :: "path \<Rightarrow> duration \<Rightarrow> u8 option \<Rightarrow> path list \<Rightarrow> command_request res" where
  "traversal_request_excluding mountpoint limit depth excluded =
     bind_res (preload_request Find (traversal_args mountpoint depth excluded) limit) (\<lambda>r. Inr (small_output r))"

definition root_probe_args :: "path \<Rightarrow> string list" where
  "root_probe_args mountpoint = [''-P'', mountpoint, ''-mindepth'', ''1'', ''-maxdepth'', ''1'', ''-print'', ''-quit'']"

section \<open>Waiting\<close>

text \<open>
  What a preload meets, by the number of the step: its clock in microseconds, the steps that pass while it
  sleeps between two probes, its own cancellation, and that of the Online operation that it holds.
\<close>

record preload_host =
  ph_instant :: "nat \<Rightarrow> nat"
  ph_slept :: "nat \<Rightarrow> nat"
  ph_cancelled :: "nat \<Rightarrow> bool"
  ph_operation_cancelled :: "nat \<Rightarrow> bool"

definition MOUNT_READY_TIMEOUT :: duration where "MOUNT_READY_TIMEOUT = from_secs 15"
definition MOUNT_PROBE_INTERVAL :: duration where "MOUNT_PROBE_INTERVAL = from_millis 250"
definition MOUNT_PROBE_TIMEOUT :: duration where "MOUNT_PROBE_TIMEOUT = from_secs 2"
definition ROOT_READY_TIMEOUT :: duration where "ROOT_READY_TIMEOUT = from_secs 30"
definition ROOT_READY_PROBE_TIMEOUT :: duration where "ROOT_READY_PROBE_TIMEOUT = from_secs 5"

definition CANCELLED_TEXT :: string where "CANCELLED_TEXT = ''Directory preload canceled''"
definition TIMED_OUT_TEXT :: string where "TIMED_OUT_TEXT = ''Directory preload deadline reached''"

text \<open>A command that the cancelled operation kills is waited for and reported as cancelled.\<close>

definition run_preload_command :: "preload_host \<Rightarrow> command_request \<Rightarrow> (command_error, command_output) prog" where
  "run_preload_command H r = (\<lambda>env w.
     case run_cmd r env w of (res, w') \<Rightarrow>
       (if ph_operation_cancelled H (tick w) then Inl Cancelled else res, w'))"

definition preload_now :: "preload_host \<Rightarrow> ('e, nat) prog" where
  "preload_now H = ask_host (ph_instant H)"

definition sleep_probe_interval :: "preload_host \<Rightarrow> ('e, unit) prog" where
  "sleep_probe_interval H = (\<lambda>env w. (Inr (), w\<lparr>tick := tick w + ph_slept H (tick w)\<rparr>))"

definition stop_seen :: "preload_host \<Rightarrow> (command_error + 'a) \<Rightarrow> ('e, bool) prog" where
  "stop_seen H r = bindP (ask_host (ph_cancelled H)) (\<lambda>c. ret (c \<or> (case r of Inl Cancelled \<Rightarrow> True | _ \<Rightarrow> False)))"

text \<open>
  One loop for both waits: \<open>give_up\<close> is the result when the wait's own deadline passes, \<open>ready\<close> says
  that a probe succeeded.  \<open>None\<close> means that the fuel is spent.
\<close>

fun wait_loop ::
  "nat \<Rightarrow> preload_host \<Rightarrow> (duration \<Rightarrow> command_request res) \<Rightarrow> (command_error + command_output \<Rightarrow> bool) \<Rightarrow> unit res
     \<Rightarrow> nat \<Rightarrow> nat \<Rightarrow> (msg, unit option) prog" where
  "wait_loop 0 H probe ready give_up own overall = ret None"
| "wait_loop (Suc fuel) H probe ready give_up own overall =
     (let deadline = min own overall;
          ending = bindP (liftR (if deadline = overall then Inl (Lit TIMED_OUT_TEXT) else give_up)) (\<lambda>u. ret (Some u)) in
      bindP (preload_now H) (\<lambda>now.
      if deadline - now = 0 then ending
      else
      bindP (liftR (probe (deadline - now))) (\<lambda>r.
      bindP (tryP (run_preload_command H r)) (\<lambda>result.
      bindP (stop_seen H result) (\<lambda>stopped.
      if stopped then fail (Lit CANCELLED_TEXT)
      else if ready result then ret (Some ())
      else
      bindP (preload_now H) (\<lambda>later.
      if deadline \<le> later then ending
      else
      bindP (ask_host (\<lambda>n. ph_cancelled H n \<or> ph_operation_cancelled H n)) (\<lambda>stop.
      if stop then fail (Lit CANCELLED_TEXT)
      else seqP (sleep_probe_interval H) (wait_loop fuel H probe ready give_up own overall))))))))"

definition mount_probe :: "path \<Rightarrow> duration \<Rightarrow> command_request res" where
  "mount_probe mountpoint time_left =
     preload_request Mountpoint [''--quiet'', mountpoint] (min MOUNT_PROBE_TIMEOUT time_left)"

definition root_probe :: "path \<Rightarrow> duration \<Rightarrow> command_request res" where
  "root_probe mountpoint time_left =
     bind_res (preload_request Find (root_probe_args mountpoint) (min ROOT_READY_PROBE_TIMEOUT time_left))
       (\<lambda>r. Inr (small_output r))"

definition has_entries :: "command_error + command_output \<Rightarrow> bool" where
  "has_entries r = (case r of Inr out \<Rightarrow> trim (co_text (out_stdout out)) \<noteq> [] | Inl _ \<Rightarrow> False)"

text \<open>Fuel: the probes that fit into the fifteen and the thirty seconds, one every 250 ms, and the last one.\<close>

definition wait_for_mount :: "preload_host \<Rightarrow> path \<Rightarrow> nat \<Rightarrow> (msg, unit option) prog" where
  "wait_for_mount H mountpoint overall =
     bindP (preload_now H) (\<lambda>now.
       wait_loop 61 H (mount_probe mountpoint) is_ok
         (Inl (fl ''ui-directory-preload-online-mount-did-not-become-ready-within'')) (now + MOUNT_READY_TIMEOUT) overall)"

definition wait_for_root_entries :: "preload_host \<Rightarrow> path \<Rightarrow> nat \<Rightarrow> (msg, unit option) prog" where
  "wait_for_root_entries H mountpoint overall =
     bindP (preload_now H) (\<lambda>now.
       wait_loop 121 H (root_probe mountpoint) has_entries (Inr ()) (now + ROOT_READY_TIMEOUT) overall)"

section \<open>One preload\<close>

definition report_at :: "preload_host \<Rightarrow> preload_job \<Rightarrow> nat \<Rightarrow> ('e, preload_report) prog" where
  "report_at H job started =
     bindP (preload_now H) (\<lambda>now.
       ret \<lparr>pt_duration = now - started, pt_limit = pj_timeout job, pt_maximum_depth = pj_maximum_depth job,
            pt_excluded_paths = length (pj_excluded_paths job)\<rparr>)"

definition timed_out :: "preload_host \<Rightarrow> preload_job \<Rightarrow> nat \<Rightarrow> (msg, preload_outcome option) prog" where
  "timed_out H job started = bindP (report_at H job started) (\<lambda>r. ret (Some (PreloadTimedOut r)))"

text \<open>The error of a wait as an outcome, or the error itself.\<close>

definition wait_failed :: "preload_host \<Rightarrow> preload_job \<Rightarrow> nat \<Rightarrow> msg \<Rightarrow> (msg, preload_outcome option) prog" where
  "wait_failed H job started e =
     (if e = Lit CANCELLED_TEXT then ret (Some PreloadCancelled)
      else if e = Lit TIMED_OUT_TEXT then timed_out H job started
      else fail e)"

definition traversal_outcome ::
  "preload_host \<Rightarrow> preload_job \<Rightarrow> nat \<Rightarrow> command_error + command_output \<Rightarrow> (msg, preload_outcome option) prog" where
  "traversal_outcome H job started result =
     (case result of
        Inr _ \<Rightarrow> bindP (report_at H job started) (\<lambda>rep. ret (Some (PreloadCompleted rep)))
      | Inl (Timeout _) \<Rightarrow> timed_out H job started
      | Inl Cancelled \<Rightarrow> ret (Some PreloadCancelled)
      | Inl e \<Rightarrow> fail (command_error_text e))"

definition traverse :: "preload_host \<Rightarrow> preload_job \<Rightarrow> nat \<Rightarrow> (msg, preload_outcome option) prog" where
  "traverse H job started =
     bindP (preload_now H) (\<lambda>now.
     let time_left = (started + pj_timeout job) - now in
     if time_left = 0 then timed_out H job started
     else
     bindP (liftR (traversal_request_excluding (pj_mountpoint job) time_left (pj_maximum_depth job) (pj_excluded_paths job))) (\<lambda>r.
     bindP (tryP (run_preload_command H r)) (\<lambda>result.
     bindP (ask_host (ph_cancelled H)) (\<lambda>cancelled.
     if cancelled then ret (Some PreloadCancelled) else traversal_outcome H job started result))))"

definition after_entries :: "preload_host \<Rightarrow> preload_job \<Rightarrow> nat \<Rightarrow> msg + unit option \<Rightarrow> (msg, preload_outcome option) prog" where
  "after_entries H job started entries =
     (case entries of
        Inl e \<Rightarrow> wait_failed H job started e
      | Inr None \<Rightarrow> ret None
      | Inr (Some _) \<Rightarrow> traverse H job started)"

definition after_mount :: "preload_host \<Rightarrow> preload_job \<Rightarrow> nat \<Rightarrow> msg + unit option \<Rightarrow> (msg, preload_outcome option) prog" where
  "after_mount H job started mounted =
     (case mounted of
        Inl e \<Rightarrow> wait_failed H job started e
      | Inr None \<Rightarrow> ret None
      | Inr (Some _) \<Rightarrow>
          if \<not> pj_wait_for_root job then traverse H job started
          else bindP (tryP (wait_for_root_entries H (pj_mountpoint job) (started + pj_timeout job)))
                 (after_entries H job started))"

definition run_preload :: "preload_host \<Rightarrow> preload_job \<Rightarrow> (msg, preload_outcome option) prog" where
  "run_preload H job =
     bindP (preload_now H) (\<lambda>started.
       if pj_mountpoint job \<in> set (pj_excluded_paths job) then ret (Some PreloadSkipped)
       else bindP (tryP (wait_for_mount H (pj_mountpoint job) (started + pj_timeout job))) (after_mount H job started))"

text \<open>
  \<open>monitor\<close>: it runs the job if its control is still the registered one and an Online operation may
  begin, and finishes the control at the end.  What others did to the registry meanwhile is the argument
  \<open>others\<close>.
\<close>

definition monitor_preload ::
  "preload_host \<Rightarrow> (preload_registry \<Rightarrow> preload_registry) \<Rightarrow> preload_job \<Rightarrow> online_gate \<Rightarrow> preload_registry
     \<Rightarrow> (msg, preload_outcome option) prog \<times> online_gate \<times> preload_registry" where
  "monitor_preload H others job gate G =
     (if \<not> current_preload (pj_connection_id job) (pj_generation job) G then (ret (Some PreloadCancelled), gate, G)
      else case begin_online_operation gate of
             (Inl _, gate') \<Rightarrow>
               (ret (Some PreloadCancelled), gate', finish_preload (pj_connection_id job) (pj_generation job) G)
           | (Inr _, gate') \<Rightarrow>
               (run_preload H job, end_online_operation gate',
                finish_preload (pj_connection_id job) (pj_generation job) (others G)))"

end
