(* ===== verification/Preload_Safety.thy ===== *)
theory Preload_Safety
  imports Directory_Preload Vpn_Safety
begin

text \<open>
  The properties of the directory preload: what it runs, that it ends, that its exclusions are literal, and
  what cancelling it guarantees, over every interleaving of the tasks that share the registry.
\<close>

section \<open>Literal exclusions\<close>

text \<open>
  How \<open>find -path\<close> reads a pattern: the star and the question mark match as usual, a backslash quotes, and
  a bracket expression is left to the argument \<open>bracket\<close>.
\<close>

fun find_matches :: "(string \<Rightarrow> string \<Rightarrow> bool) \<Rightarrow> string \<Rightarrow> string \<Rightarrow> bool" where
  "find_matches bracket [] s = (s = [])"
| "find_matches bracket (c # ps) s =
     (if c = CHR ''*'' then (\<exists>k \<in> set [0..<Suc (length s)]. find_matches bracket ps (drop k s))
      else if c = CHR ''?'' then s \<noteq> [] \<and> find_matches bracket ps (tl s)
      else if c = CHR ''['' then bracket (c # ps) s
      else if c = CHR 0x5C
      then (case ps of [] \<Rightarrow> s = [c] | q # rest \<Rightarrow> s \<noteq> [] \<and> hd s = q \<and> find_matches bracket rest (tl s))
      else s \<noteq> [] \<and> hd s = c \<and> find_matches bracket ps (tl s))"

lemma glob_pattern_simps [simp]:
  "glob_pattern [] = []"
  "glob_pattern (c # p) = (if glob_meta c then [CHR 0x5C, c] else [c]) @ glob_pattern p"
  by (simp_all add: glob_pattern_def)

lemma literal_pattern: "find_matches bracket (glob_pattern p) s \<longleftrightarrow> s = p"
proof (induction p arbitrary: s)
  case (Cons c p)
  then show ?case by (cases s) (auto simp: glob_meta_def)
qed simp

text \<open>
  An exclusion of a directory preload matches exactly the excluded directory, whatever characters its
  name holds: for \<open>find -path\<close> the pattern is a literal.
\<close>
theorem exclusions_are_literal:
  "sublist [''-path'', glob_pattern p] (traversal_args mountpoint depth (xs @ p # ys))
   \<and> (\<forall>bracket s. find_matches bracket (glob_pattern p) s \<longleftrightarrow> s = p)"
proof -
  let ?f = "\<lambda>p. [''-o'', ''-path'', glob_pattern p]"
  obtain a where "tl (concat (map ?f (xs @ p # ys))) = a @ [''-path'', glob_pattern p] @ concat (map ?f ys)"
    by (cases xs) auto
  then have "excluding_args (xs @ p # ys) = ([''(''] @ a) @ [''-path'', glob_pattern p] @ (concat (map ?f ys) @ ['')'', ''-prune'', ''-o''])"
    by (simp add: excluding_args_def)
  then have "sublist [''-path'', glob_pattern p] (excluding_args (xs @ p # ys))"
    unfolding sublist_def by blast
  then have "sublist [''-path'', glob_pattern p] (traversal_args mountpoint depth (xs @ p # ys))"
    unfolding traversal_args_def by (meson sublist_append)
  then show ?thesis by (simp add: literal_pattern)
qed

section \<open>What a preload runs\<close>

definition preload_clock :: "preload_host \<Rightarrow> bool" where
  "preload_clock H =
     (\<forall>n. ph_instant H n \<le> ph_instant H (Suc n) \<and> ph_instant H n + MOUNT_PROBE_INTERVAL \<le> ph_instant H (n + ph_slept H n))"

lemma clock_mono: "preload_clock H \<Longrightarrow> n \<le> m \<Longrightarrow> ph_instant H n \<le> ph_instant H m"
  by (rule lift_Suc_mono_le[of "ph_instant H"]) (auto simp: preload_clock_def)

definition looks_at :: "path \<Rightarrow> duration \<Rightarrow> event \<Rightarrow> bool" where
  "looks_at mountpoint limit ev =
     (case ev of
        Ran r \<Rightarrow>
          req_timeout r \<le> limit
          \<and> (req_executable r = Mountpoint \<and> request_argv r = [''--quiet'', mountpoint]
             \<or> req_executable r = Find \<and> request_argv r = root_probe_args mountpoint
             \<or> req_executable r = Find
               \<and> (\<exists>depth excluded. request_argv r = traversal_args mountpoint depth excluded))
      | _ \<Rightarrow> False)"

text \<open>Programs whose events satisfy a condition when they start at or after a step.\<close>

definition since :: "env \<Rightarrow> nat \<Rightarrow> (event \<Rightarrow> bool) \<Rightarrow> ('e, 'a) prog \<Rightarrow> bool" where
  "since env t P m =
     (\<forall>w. t \<le> tick w \<longrightarrow> t \<le> tick (snd (m env w))
          \<and> (\<exists>new. events (snd (m env w)) = events w @ new \<and> list_all P new))"

named_theorems since_intros \<open>rules that push a condition on later events through a program\<close>

lemma since_prims [since_intros]:
  "since env t P (ret x)" "since env t P (fail e)" "since env t P (liftR r)" "since env t P (sleep_probe_interval H)"
  by (auto simp: since_def sleep_probe_interval_def)

lemma since_run [since_intros]: "P (Ran r) \<Longrightarrow> since env t P (run_preload_command H r)"
  by (auto simp: since_def run_preload_command_def run_cmd_def split: prod.split)

lemma since_bind [since_intros]:
  assumes "since env t P m" and "\<And>x. since env t P (f x)"
  shows "since env t P (bindP m f)"
  unfolding since_def
proof (intro allI impI)
  fix w :: world assume t: "t \<le> tick w"
  obtain r1 w1 where m: "m env w = (r1, w1)" by (cases "m env w")
  from assms(1) t m obtain n1 where 1: "t \<le> tick w1" "events w1 = events w @ n1" "list_all P n1"
    unfolding since_def by (metis snd_conv)
  show "t \<le> tick (snd (bindP m f env w)) \<and> (\<exists>new. events (snd (bindP m f env w)) = events w @ new \<and> list_all P new)"
  proof (cases r1)
    case (Inr x)
    from assms(2)[of x] 1(1) obtain n2 where
      "t \<le> tick (snd (f x env w1))" "events (snd (f x env w1)) = events w1 @ n2" "list_all P n2"
      unfolding since_def by blast
    then show ?thesis using m 1 Inr by (auto simp: bindP_def)
  qed (use m 1 in \<open>auto simp: bindP_def\<close>)
qed

lemma since_ask [since_intros]: "(\<And>n. t \<le> n \<Longrightarrow> since env t P (f (h n))) \<Longrightarrow> since env t P (bindP (ask_host h) f)"
proof -
  assume f: "\<And>n. t \<le> n \<Longrightarrow> since env t P (f (h n))"
  show "since env t P (bindP (ask_host h) f)"
    unfolding since_def
  proof (intro allI impI)
    fix w :: world assume t: "t \<le> tick w"
    let ?w = "w\<lparr>tick := Suc (tick w)\<rparr>"
    from f[OF t, unfolded since_def, rule_format, of ?w] t
    have "t \<le> tick (snd (f (h (tick w)) env ?w))
        \<and> (\<exists>new. events (snd (f (h (tick w)) env ?w)) = events w @ new \<and> list_all P new)" by simp
    then show "t \<le> tick (snd (bindP (ask_host h) f env w))
        \<and> (\<exists>new. events (snd (bindP (ask_host h) f env w)) = events w @ new \<and> list_all P new)"
      by (simp add: ask_host_def bindP_def)
  qed
qed

lemma since_lift_bind: "(\<And>x. r = Inr x \<Longrightarrow> since env t P (f x)) \<Longrightarrow> since env t P (bindP (liftR r) f)"
  by (cases r) (auto simp: since_def bindP_def)

lemma since_try [since_intros]: "since env t P m \<Longrightarrow> since env t P (tryP m)"
  by (auto simp: since_def tryP_def split: prod.split)

lemma since_seq [since_intros]: "since env t P m \<Longrightarrow> since env t P n \<Longrightarrow> since env t P (seqP m n)"
  unfolding seqP_def by (rule since_bind)

lemma since_if [since_intros]: "(b \<Longrightarrow> since env t P m) \<Longrightarrow> (\<not> b \<Longrightarrow> since env t P n) \<Longrightarrow> since env t P (if b then m else n)"
  by simp

lemma since_stop_seen [since_intros]:
  "(\<And>b. since env t P (f b)) \<Longrightarrow> since env t P (bindP (stop_seen H r) f)"
  unfolding stop_seen_def by (intro since_bind since_ask since_prims)

lemma since_wait_loop:
  assumes probes: "\<And>d r. d \<le> limit \<Longrightarrow> probe d = Inr r \<Longrightarrow> P (Ran r)"
    and clock: "preload_clock H" and overall: "overall \<le> ph_instant H t + limit"
  shows "since env t P (wait_loop fuel H probe ready give_up own overall)"
proof (induction fuel)
  case (Suc fuel)
  have bound: "min own overall - ph_instant H n \<le> limit" if "t \<le> n" for n
    using clock_mono[OF clock that] overall by linarith
  show ?case
    unfolding wait_loop.simps Let_def preload_now_def
    by (intro since_ask since_if since_prims since_lift_bind since_bind since_try since_run since_stop_seen since_seq Suc)
      (auto intro: probes bound)
qed (simp add: since_def)

lemma preload_request_Inr:
  "preload_request exe args limit = Inr r \<Longrightarrow> req_executable r = exe \<and> request_argv r = args \<and> req_timeout r = limit"
  by (auto simp: preload_request_def bind_res_Inr add_args_Inr request_argv_def new_request_def o_def)

lemma probe_looks:
  "mount_probe mp d = Inr r \<Longrightarrow> d \<le> limit \<Longrightarrow> looks_at mp limit (Ran r)"
  "root_probe mp d = Inr r \<Longrightarrow> d \<le> limit \<Longrightarrow> looks_at mp limit (Ran r)"
  by (auto simp: mount_probe_def root_probe_def small_output_def bind_res_Inr looks_at_def
      request_argv_def dest!: preload_request_Inr)

lemma traversal_looks:
  "traversal_request_excluding mp d depth ex = Inr r \<Longrightarrow> d \<le> limit \<Longrightarrow> looks_at mp limit (Ran r)"
  unfolding looks_at_def event.case
  by (intro conjI disjI2) (auto simp: traversal_request_excluding_def small_output_def bind_res_Inr request_argv_def
      dest!: preload_request_Inr intro!: exI[of _ depth] exI[of _ ex])

lemma since_wait:
  assumes "preload_clock H" "overall \<le> ph_instant H t + limit"
  shows "since env t (looks_at mp limit) (wait_for_mount H mp overall)"
    and "since env t (looks_at mp limit) (wait_for_root_entries H mp overall)"
  unfolding wait_for_mount_def wait_for_root_entries_def preload_now_def
  by (intro since_ask since_wait_loop[OF _ assms]; auto intro: probe_looks)+

lemma since_reports [since_intros]:
  "since env t P (report_at H job started)" "since env t P (timed_out H job started)"
  "since env t P (wait_failed H job started e)" "since env t P (traversal_outcome H job started result)"
proof -
  show report: "since env t P (report_at H job started)"
    unfolding report_at_def preload_now_def by (intro since_intros)
  then show late: "since env t P (timed_out H job started)"
    unfolding timed_out_def by (intro since_intros)
  then show "since env t P (wait_failed H job started e)"
    unfolding wait_failed_def by (intro since_intros)
  show "since env t P (traversal_outcome H job started result)"
    unfolding traversal_outcome_def
    by (auto intro!: since_intros report late split: sum.split command_error.split)
qed

lemma since_traverse:
  assumes "preload_clock H" "started \<le> ph_instant H t"
  shows "since env t (looks_at (pj_mountpoint job) (pj_timeout job)) (traverse H job started)"
proof -
  have bound: "started + pj_timeout job - ph_instant H n \<le> pj_timeout job" if "t \<le> n" for n
    using clock_mono[OF assms(1) that] assms(2) by linarith
  show ?thesis
    unfolding traverse_def preload_now_def Let_def
    by (intro since_ask since_if since_lift_bind since_bind since_try since_run since_reports since_prims)
      (auto intro: traversal_looks bound)
qed

lemma since_after:
  assumes "preload_clock H" "started \<le> ph_instant H t"
  shows "since env t (looks_at (pj_mountpoint job) (pj_timeout job)) (after_entries H job started x)"
    and "since env t (looks_at (pj_mountpoint job) (pj_timeout job)) (after_mount H job started y)"
proof -
  show entries: "since env t (looks_at (pj_mountpoint job) (pj_timeout job)) (after_entries H job started x)" for x
    using since_traverse[OF assms] by (auto simp: after_entries_def intro!: since_intros split: sum.split option.split)
  show "since env t (looks_at (pj_mountpoint job) (pj_timeout job)) (after_mount H job started y)"
    using since_traverse[OF assms] entries assms(2)
    by (auto simp: after_mount_def intro!: since_intros since_wait[OF assms(1)] split: sum.split option.split)
qed

lemma run_preload_steps:
  "run_preload H job env w =
     (if pj_mountpoint job \<in> set (pj_excluded_paths job) then ret (Some PreloadSkipped)
      else bindP (tryP (wait_for_mount H (pj_mountpoint job) (ph_instant H (tick w) + pj_timeout job)))
             (after_mount H job (ph_instant H (tick w)))) env (w\<lparr>tick := Suc (tick w)\<rparr>)"
  by (simp add: run_preload_def preload_now_def ask_host_def bindP_def)

text \<open>
  A directory preload only looks: every command that it runs is the mount probe, the probe of the root or
  the directory listing of its own mount point, with a timeout within the limit of the job, and a job whose
  mount point is excluded runs nothing.
\<close>
theorem preload_only_lists:
  assumes "preload_clock H" and "run_preload H job env w = (r, w')"
  shows "\<exists>new. events w' = events w @ new
           \<and> list_all (looks_at (pj_mountpoint job) (pj_timeout job)) new
           \<and> (new = [] \<or> pj_mountpoint job \<notin> set (pj_excluded_paths job))"
proof -
  let ?t = "Suc (tick w)" and ?s = "ph_instant H (tick w)"
  have s: "?s \<le> ph_instant H ?t" using assms(1) by (simp add: preload_clock_def)
  then have "since env ?t (looks_at (pj_mountpoint job) (pj_timeout job))
      (bindP (tryP (wait_for_mount H (pj_mountpoint job) (?s + pj_timeout job))) (after_mount H job ?s))"
    by (intro since_bind since_try since_wait[OF assms(1)] since_after[OF assms(1)]) simp_all
  with assms(2) show ?thesis
    unfolding run_preload_steps since_def
    by (auto split: if_splits dest!: spec[of _ "w\<lparr>tick := ?t\<rparr>"])
qed

section \<open>A preload ends\<close>

lemma stop_seen_tick: "stop_seen H r env w = (x, w') \<Longrightarrow> tick w \<le> tick w'"
  by (auto simp: stop_seen_def bindP_def ask_host_def)

lemma run_preload_command_tick: "run_preload_command H r env w = (x, w') \<Longrightarrow> tick w \<le> tick w'"
  by (auto simp: run_preload_command_def run_cmd_def split: prod.splits)

lemma bind_None:
  "fst (bindP m f env w) = Inr (None :: 'a option) \<Longrightarrow>
     (\<And>x w1. m env w = (Inr x, w1) \<Longrightarrow> fst (f x env w1) = Inr None \<Longrightarrow> thesis) \<Longrightarrow> thesis"
  by (cases "m env w") (auto simp: bindP_def split: sum.splits)

lemma bind_ask_None:
  "fst (bindP (ask_host h) f env w) = Inr (None :: 'a option) \<Longrightarrow>
     fst (f (h (tick w)) env (w\<lparr>tick := Suc (tick w)\<rparr>)) = Inr None"
  by (simp add: bindP_def ask_host_def)

lemma ending_not_None: "fst (bindP (liftR r) (\<lambda>u. ret (Some x)) env w) \<noteq> Inr None"
  by (cases r) (simp_all add: bindP_def)

lemma wait_loop_step:
  assumes "preload_clock H" "fst (wait_loop (Suc fuel) H probe ready give_up own overall env w) = Inr None"
  obtains w1 where "fst (wait_loop fuel H probe ready give_up own overall env w1) = Inr None"
    "ph_instant H (tick w) + MOUNT_PROBE_INTERVAL \<le> ph_instant H (tick w1)" "ph_instant H (tick w) < min own overall"
proof -
  let ?d = "min own overall" and ?n = "ph_instant H (tick w)" and ?w = "w\<lparr>tick := Suc (tick w)\<rparr>"
  have early: "?n < ?d"
    using bind_ask_None[OF assms(2)[unfolded wait_loop.simps Let_def preload_now_def]]
    by (auto simp: ending_not_None split: if_splits)
  have "\<exists>r x w2 b w3 w4. run_preload_command H r env ?w = (x, w2) \<and> stop_seen H x env w2 = (Inr b :: msg + bool, w3)
      \<and> fst (seqP (sleep_probe_interval H) (wait_loop fuel H probe ready give_up own overall) env w4) = Inr None
      \<and> tick w3 \<le> tick w4"
    using bind_ask_None[OF assms(2)[unfolded wait_loop.simps Let_def preload_now_def]] early
    by (auto simp: ending_not_None split: if_splits elim!: bind_None dest!: bind_ask_None)
      (intro exI conjI, assumption, assumption, assumption, simp)+
  then obtain r x w2 b w3 w4 where cmd: "run_preload_command H r env ?w = (x, w2)"
      and stop: "stop_seen H x env w2 = (Inr b :: msg + bool, w3)"
      and rest: "fst (seqP (sleep_probe_interval H) (wait_loop fuel H probe ready give_up own overall) env w4) = Inr None"
      and w4: "tick w3 \<le> tick w4"
    by blast
  from cmd stop w4 have "tick w \<le> tick w4"
    using run_preload_command_tick[OF cmd] stop_seen_tick[OF stop] by simp
  then have "?n + MOUNT_PROBE_INTERVAL \<le> ph_instant H (tick w4 + ph_slept H (tick w4))"
    using assms(1) clock_mono[OF assms(1)] by (metis add_le_cancel_right order_trans preload_clock_def)
  with rest early that show thesis by (auto simp: seqP_def bindP_def sleep_probe_interval_def)
qed

lemma wait_loop_returns:
  assumes "preload_clock H" and "0 < fuel"
    and "min own overall \<le> ph_instant H (tick w) + (fuel - 1) * MOUNT_PROBE_INTERVAL"
  shows "fst (wait_loop fuel H probe ready give_up own overall env w) \<noteq> Inr None"
  using assms(2,3)
proof (induction fuel arbitrary: w)
  case (Suc fuel)
  show ?case
  proof
    assume "fst (wait_loop (Suc fuel) H probe ready give_up own overall env w) = Inr None"
    then obtain w1 where go: "fst (wait_loop fuel H probe ready give_up own overall env w1) = Inr None"
        and later: "ph_instant H (tick w) + MOUNT_PROBE_INTERVAL \<le> ph_instant H (tick w1)"
        and early: "ph_instant H (tick w) < min own overall"
      using wait_loop_step[OF assms(1)] by blast
    from early Suc.prems(2) have fuel: "0 < fuel" by (cases fuel) auto
    with later Suc.prems(2) have "min own overall \<le> ph_instant H (tick w1) + (fuel - 1) * MOUNT_PROBE_INTERVAL"
      by (cases fuel) auto
    with Suc.IH[OF fuel] go show False by blast
  qed
qed simp

lemma waits_return:
  assumes "preload_clock H"
  shows "fst (wait_for_mount H mp overall env w) \<noteq> Inr None" "fst (wait_for_root_entries H mp overall env w) \<noteq> Inr None"
proof -
  have "ph_instant H (tick w) \<le> ph_instant H (Suc (tick w))" using assms by (simp add: preload_clock_def)
  then show "fst (wait_for_mount H mp overall env w) \<noteq> Inr None" "fst (wait_for_root_entries H mp overall env w) \<noteq> Inr None"
    unfolding wait_for_mount_def wait_for_root_entries_def preload_now_def
    by (auto dest!: bind_ask_None, insert wait_loop_returns[OF assms], fastforce simp: MOUNT_READY_TIMEOUT_def ROOT_READY_TIMEOUT_def
        MOUNT_PROBE_INTERVAL_def from_secs_def from_millis_def)+
qed

lemma reports_return:
  "fst (timed_out H job started env w) \<noteq> Inr None" "fst (wait_failed H job started e env w) \<noteq> Inr None"
  "fst (traversal_outcome H job started res env w) \<noteq> Inr None" "fst (traverse H job started env w) \<noteq> Inr None"
proof -
  show late: "fst (timed_out H job started env w) \<noteq> Inr None" for w
    by (simp add: timed_out_def report_at_def preload_now_def bindP_def ask_host_def)
  then show "fst (wait_failed H job started e env w) \<noteq> Inr None" by (simp add: wait_failed_def)
  show outcome: "fst (traversal_outcome H job started res env w) \<noteq> Inr None" for w res
    by (auto simp: traversal_outcome_def report_at_def preload_now_def bindP_def ask_host_def late
        split: sum.split command_error.split)
  show "fst (traverse H job started env w) \<noteq> Inr None"
    unfolding traverse_def preload_now_def Let_def
    by (auto simp: late outcome split: if_splits elim!: bind_None dest!: bind_ask_None)
qed

lemma tryP_value: "tryP m env w = (Inr x, w1) \<Longrightarrow> x = fst (m env w)"
  by (auto simp: tryP_def split: prod.splits)

text \<open>
  A directory preload returns whatever the probes answer: with a clock that passes 250 milliseconds in
  each wait between two probes, the 61 probes of the mount and the 121 probes of the root are never spent.
\<close>
theorem preload_ends:
  assumes "preload_clock H"
  shows "fst (run_preload H job env w) \<noteq> Inr None"
proof
  assume "fst (run_preload H job env w) = Inr None"
  then show False
    unfolding run_preload_steps
    by (auto simp: after_mount_def after_entries_def reports_return waits_return[OF assms] split: if_splits sum.splits option.splits
        elim!: bind_None dest!: tryP_value)
qed

definition slow_host :: preload_host where
  "slow_host = \<lparr>ph_instant = (\<lambda>n. n * MOUNT_PROBE_INTERVAL), ph_slept = (\<lambda>n. 1), ph_cancelled = (\<lambda>n. False),
     ph_operation_cancelled = (\<lambda>n. False)\<rparr>"

lemma slow_clock: "preload_clock slow_host"
  by (simp add: preload_clock_def slow_host_def)

definition example_preload :: preload_job where
  "example_preload = \<lparr>pj_connection_id = ConnectionId ''a'', pj_generation = 1, pj_mountpoint = ''/home/u/Box'',
     pj_timeout = from_secs 60, pj_maximum_depth = Some 2, pj_wait_for_root = True, pj_excluded_paths = []\<rparr>"

lemma preload_only_lists_witness:
  "list_all (looks_at ''/home/u/Box'' (from_secs 60)) (events (snd (run_preload slow_host example_preload calm_env sample_world)))"
proof -
  obtain r w' where run: "run_preload slow_host example_preload calm_env sample_world = (r, w')" by (rule prod.exhaust)
  from preload_only_lists [OF slow_clock run] run show ?thesis by (auto simp: example_preload_def sample_world_def)
qed

lemma preload_ends_witness: "fst (run_preload slow_host example_preload calm_env sample_world) \<noteq> Inr None"
  by (rule preload_ends [OF slow_clock])

section \<open>Cancelling\<close>

text \<open>
  The tasks that share the registry: a preload is registered, its monitor takes it up and at its end finishes
  it, and a canceller cancels the registered control and later finishes the one it waited for.  \<open>sy_running\<close>
  holds the controls whose monitor is between the two, the only time in which its commands run.
\<close>

record preload_system =
  sy_registry :: preload_registry
  sy_issued :: "(connection_id \<times> nat) set"
  sy_running :: "(connection_id \<times> nat) set"

definition idle_preloads :: preload_system where
  "idle_preloads = \<lparr>sy_registry = empty_preloads, sy_issued = {}, sy_running = {}\<rparr>"

inductive preload_step :: "preload_system \<Rightarrow> preload_system \<Rightarrow> bool" where
  Register: "start_preload cid mp limit depth wait (sy_registry s) = (Inr job, G) \<Longrightarrow>
     preload_step s (s\<lparr>sy_registry := G, sy_issued := insert (cid, pj_generation job) (sy_issued s)\<rparr>)"
| Take_Up: "current_preload cid g (sy_registry s) \<Longrightarrow> (cid, g) \<notin> sy_running s \<Longrightarrow>
     preload_step s (s\<lparr>sy_running := insert (cid, g) (sy_running s)\<rparr>)"
| Refused: "current_preload cid g (sy_registry s) \<Longrightarrow> (cid, g) \<notin> sy_running s \<Longrightarrow>
     preload_step s (s\<lparr>sy_registry := finish_preload cid g (sy_registry s)\<rparr>)"
| End: "(cid, g) \<in> sy_running s \<Longrightarrow>
     preload_step s (s\<lparr>sy_registry := finish_preload cid g (sy_registry s), sy_running := sy_running s - {(cid, g)}\<rparr>)"
| Cancel: "pg_active (sy_registry s) cid = Some g \<Longrightarrow> preload_step s (s\<lparr>sy_registry := cancel_control g (sy_registry s)\<rparr>)"
| Cancelled: "(cid, g) \<in> sy_issued s \<Longrightarrow> ap_done (pg_controls (sy_registry s) g) \<Longrightarrow>
     preload_step s (s\<lparr>sy_registry := finish_preload cid g (sy_registry s)\<rparr>)"

definition preloads_consistent :: "preload_system \<Rightarrow> bool" where
  "preloads_consistent s =
     ((\<forall>c g. (c, g) \<in> sy_issued s \<longrightarrow> g < pg_next (sy_registry s))
      \<and> (\<forall>c d g. (c, g) \<in> sy_issued s \<longrightarrow> (d, g) \<in> sy_issued s \<longrightarrow> c = d)
      \<and> sy_running s \<subseteq> sy_issued s
      \<and> (\<forall>c g. pg_active (sy_registry s) c = Some g \<longrightarrow> (c, g) \<in> sy_issued s \<and> \<not> ap_done (pg_controls (sy_registry s) g))
      \<and> (\<forall>c g. (c, g) \<in> sy_running s \<longrightarrow> \<not> ap_done (pg_controls (sy_registry s) g)))"

lemma consistent_step: "preload_step s t \<Longrightarrow> preloads_consistent s \<Longrightarrow> preloads_consistent t"
proof (induction rule: preload_step.induct)
  case (Register cid mp limit depth wait s job G)
  then show ?case
    by (auto simp: start_preload_def Let_def preloads_consistent_def cancel_control_def fresh_preload_def
        split: if_splits option.splits) (metis less_SucI less_irrefl)+
next
  case (Take_Up cid g s)
  then show ?case by (auto simp: preloads_consistent_def current_preload_def)
next
  case (Refused cid g s)
  then show ?case by (auto simp: preloads_consistent_def current_preload_def finish_preload_def) blast+
next
  case (End cid g s)
  then show ?case by (auto simp: preloads_consistent_def finish_preload_def) blast+
next
  case (Cancel s cid g)
  then show ?case by (auto simp: preloads_consistent_def cancel_control_def)
next
  case (Cancelled cid g s)
  then show ?case by (auto simp: preloads_consistent_def finish_preload_def)
qed

lemma done_step:
  "preload_step s t \<Longrightarrow> preloads_consistent s \<Longrightarrow> (c, g) \<in> sy_issued s \<Longrightarrow> ap_done (pg_controls (sy_registry s) g) \<Longrightarrow>
     (c, g) \<in> sy_issued t \<and> ap_done (pg_controls (sy_registry t) g)"
  by (induction rule: preload_step.induct)
    (auto simp: start_preload_def cancel_control_def finish_preload_def preloads_consistent_def Let_def
      split: if_splits option.splits)

lemma consistent_steps: "preload_step\<^sup>*\<^sup>* s t \<Longrightarrow> preloads_consistent s \<Longrightarrow> preloads_consistent t"
  by (induction rule: rtranclp_induct) (auto intro: consistent_step)

lemma done_steps:
  "preload_step\<^sup>*\<^sup>* s t \<Longrightarrow> preloads_consistent s \<Longrightarrow> (c, g) \<in> sy_issued s \<Longrightarrow> ap_done (pg_controls (sy_registry s) g) \<Longrightarrow>
     (c, g) \<in> sy_issued t \<and> ap_done (pg_controls (sy_registry t) g)"
  by (induction rule: rtranclp_induct) (use done_step consistent_steps in blast)+

lemma issued_steps: "preload_step\<^sup>*\<^sup>* s t \<Longrightarrow> sy_issued s \<subseteq> sy_issued t"
proof (induction rule: rtranclp_induct)
  case (step t u)
  from step(2) have "sy_issued t \<subseteq> sy_issued u" by (rule preload_step.cases) auto
  with step(3) show ?case by blast
qed simp

lemma consistent_idle: "preloads_consistent idle_preloads"
  by (simp add: preloads_consistent_def idle_preloads_def empty_preloads_def)

text \<open>
  C27. When \<open>cancel_before_unmount\<close> succeeds, the preload that was registered when it was called runs no
  command any more, and never will, in every interleaving of the tasks.
\<close>
theorem cancelled_preload_is_over:
  assumes "preload_step\<^sup>*\<^sup>* idle_preloads s" and "pg_active (sy_registry s) cid = Some g"
    and "preload_step\<^sup>*\<^sup>* (s\<lparr>sy_registry := cancel_control g (sy_registry s)\<rparr>) t"
    and "cancel_before_unmount cid (\<lambda>G. sy_registry t) (sy_registry s) = (Inr (), G)"
    and "preload_step\<^sup>*\<^sup>* (t\<lparr>sy_registry := G\<rparr>) u"
  shows "(cid, g) \<notin> sy_running u"
proof -
  have s: "preloads_consistent s" using consistent_steps[OF assms(1) consistent_idle] .
  then have issued: "(cid, g) \<in> sy_issued t"
    using assms(2) issued_steps[OF assms(3)] by (auto simp: preloads_consistent_def)
  have "preload_step\<^sup>*\<^sup>* s t" using Cancel[OF assms(2)] assms(3) by (meson converse_rtranclp_into_rtranclp)
  then have t: "preloads_consistent t" using s consistent_steps by blast
  from assms(2,4) have finished: "ap_done (pg_controls (sy_registry t) g)" and G: "G = finish_preload cid g (sy_registry t)"
    by (auto simp: cancel_before_unmount_def cancel_with_timeout_def Let_def split: if_splits)
  have step: "preload_step t (t\<lparr>sy_registry := G\<rparr>)" unfolding G by (rule Cancelled[OF issued finished])
  from done_step[OF step t issued finished] consistent_step[OF step t] assms(5)
  have "ap_done (pg_controls (sy_registry u) g)" "preloads_consistent u"
    using done_steps consistent_steps by blast+
  then show ?thesis by (auto simp: preloads_consistent_def)
qed

section \<open>A replaced preload\<close>

text \<open>The registry after one registration and after a second one of the same connection.\<close>

definition once :: "connection_id \<Rightarrow> preload_registry" where
  "once cid = snd (start_preload cid ''/m'' 60 None False empty_preloads)"

definition twice :: "connection_id \<Rightarrow> preload_registry" where
  "twice cid = snd (start_preload cid ''/m'' 60 None False (once cid))"

lemmas registered_simps = once_def twice_def start_preload_def empty_preloads_def fresh_preload_def cancel_control_def
  current_preload_def finish_preload_def Let_def numeral_2_eq_2

text \<open>
  A preload that another one replaced is only cancelled, not awaited: \<open>start\<close> drops its registration, so
  a later \<open>cancel_before_unmount\<close> succeeds while its command may still run and hold the mount.
\<close>
theorem replaced_preload_is_not_awaited:
  "\<exists>s t G. preload_step\<^sup>*\<^sup>* idle_preloads s \<and> pg_active (sy_registry s) cid = Some 2
     \<and> preload_step\<^sup>*\<^sup>* (s\<lparr>sy_registry := cancel_control 2 (sy_registry s)\<rparr>) t
     \<and> cancel_before_unmount cid (\<lambda>G. sy_registry t) (sy_registry s) = (Inr (), G)
     \<and> (cid, 1) \<in> sy_running t"
proof -
  let ?a = "\<lparr>sy_registry = once cid, sy_issued = {(cid, 1)}, sy_running = {}\<rparr>"
  let ?b = "?a\<lparr>sy_running := {(cid, 1)}\<rparr>"
  let ?s = "\<lparr>sy_registry = twice cid, sy_issued = {(cid, 2), (cid, 1)}, sy_running = {(cid, 1)}\<rparr>"
  let ?c = "?s\<lparr>sy_registry := cancel_control 2 (twice cid)\<rparr>"
  let ?t = "?c\<lparr>sy_registry := finish_preload cid 2 (cancel_control 2 (twice cid))\<rparr>"
  have "preload_step idle_preloads ?a"
    using Register[of cid "''/m''" 60 None False idle_preloads _ "once cid"]
    by (simp add: idle_preloads_def registered_simps)
  moreover have "preload_step ?a ?b" using Take_Up[of cid 1 ?a] by (simp add: registered_simps)
  moreover have "preload_step ?b ?s"
    using Register[of cid "''/m''" 60 None False ?b _ "twice cid"] by (simp add: registered_simps)
  ultimately have s: "preload_step\<^sup>*\<^sup>* idle_preloads ?s"
    by (meson converse_rtranclp_into_rtranclp rtranclp.rtrancl_refl)
  have t: "preload_step ?c ?t" using Refused[of cid 2 ?c] by (simp add: registered_simps)
  have "cancel_before_unmount cid (\<lambda>G. sy_registry ?t) (sy_registry ?s) = (Inr (), finish_preload cid 2 (sy_registry ?t))"
    by (simp add: cancel_before_unmount_def cancel_with_timeout_def registered_simps)
  with s t show ?thesis by (intro exI[of _ ?s] exI[of _ ?t]) (auto simp: registered_simps)
qed

lemma cancelled_preload_is_over_witness:
  "(ConnectionId ''a'', 1) \<notin> sy_running
     \<lparr>sy_registry = finish_preload (ConnectionId ''a'') 1 (cancel_control 1 (once (ConnectionId ''a''))),
      sy_issued = {(ConnectionId ''a'', 1)}, sy_running = {}\<rparr>"
proof -
  let ?c = "ConnectionId ''a''"
  let ?s = "\<lparr>sy_registry = once ?c, sy_issued = {(?c, 1)}, sy_running = {}\<rparr>"
  let ?k = "?s\<lparr>sy_registry := cancel_control 1 (once ?c)\<rparr>"
  let ?t = "?k\<lparr>sy_registry := finish_preload ?c 1 (cancel_control 1 (once ?c))\<rparr>"
  have s: "preload_step\<^sup>*\<^sup>* idle_preloads ?s"
    using Register[of ?c "''/m''" 60 None False idle_preloads _ "once ?c"]
    by (auto simp: idle_preloads_def registered_simps)
  have "preload_step ?k ?t" using Refused[of ?c 1 ?k] by (simp add: registered_simps)
  then have t: "preload_step\<^sup>*\<^sup>* (?s\<lparr>sy_registry := cancel_control 1 (sy_registry ?s)\<rparr>) ?t" by simp
  have active: "pg_active (sy_registry ?s) ?c = Some 1" by (simp add: registered_simps)
  have "cancel_before_unmount ?c (\<lambda>G. sy_registry ?t) (sy_registry ?s) = (Inr (), sy_registry ?t)"
    by (simp add: cancel_before_unmount_def cancel_with_timeout_def registered_simps)
  from cancelled_preload_is_over [OF s active t this, of ?t] show ?thesis by simp
qed

end
