(* ===== verification/Rclone_Refresh.thy ===== *)
theory Rclone_Refresh
  imports Directory_Preload Pending_Count
begin

text \<open>
  The refresh of the directory cache of a Google Drive mount (\<open>src/src/rclone_refresh.rs\<close>): the registry
  of the refreshes in progress, the remote-control requests and their answers, the wait for the socket, and
  the two phases, first the root and then the whole tree.
\<close>

section \<open>The registry\<close>

record active_refresh =
  ar_socket :: path
  ar_cancelled :: bool
  ar_job_id :: "nat option"

record refresh_registry =
  rg_next :: nat
  rg_controls :: "nat \<Rightarrow> active_refresh"
  rg_active :: "connection_id \<Rightarrow> nat option"

definition empty_refreshes :: refresh_registry where
  "empty_refreshes = \<lparr>rg_next = 1, rg_controls = (\<lambda>g. \<lparr>ar_socket = [], ar_cancelled = False, ar_job_id = None\<rparr>),
     rg_active = (\<lambda>c. None)\<rparr>"

definition register_refresh :: "connection_id \<Rightarrow> path \<Rightarrow> refresh_registry \<Rightarrow> nat \<times> refresh_registry" where
  "register_refresh cid socket G =
     (rg_next G,
      G\<lparr>rg_next := Suc (rg_next G),
        rg_controls := (rg_controls G)(rg_next G := \<lparr>ar_socket = socket, ar_cancelled = False, ar_job_id = None\<rparr>),
        rg_active := (rg_active G)(cid \<mapsto> rg_next G)\<rparr>)"

definition current_refresh :: "connection_id \<Rightarrow> nat \<Rightarrow> refresh_registry \<Rightarrow> nat option" where
  "current_refresh cid job_id G =
     (case rg_active G cid of
        Some g \<Rightarrow> if ar_job_id (rg_controls G g) = Some job_id then Some g else None
      | None \<Rightarrow> None)"

definition is_current_refresh :: "connection_id \<Rightarrow> nat \<Rightarrow> refresh_registry \<Rightarrow> bool" where
  "is_current_refresh cid g G = (rg_active G cid = Some g)"

text \<open>The number of the job that the control stands for, recorded when rclone has answered.\<close>

definition note_job :: "nat \<Rightarrow> nat \<Rightarrow> refresh_registry \<Rightarrow> refresh_registry" where
  "note_job g job_id G = G\<lparr>rg_controls := (rg_controls G)(g := (rg_controls G g)\<lparr>ar_job_id := Some job_id\<rparr>)\<rparr>"

definition finish_refresh :: "connection_id \<Rightarrow> nat \<Rightarrow> refresh_registry \<Rightarrow> refresh_registry" where
  "finish_refresh cid g G = (if rg_active G cid = Some g then G\<lparr>rg_active := (rg_active G)(cid := None)\<rparr> else G)"

section \<open>Requests and answers\<close>

definition RC_READY_TIMEOUT :: duration where "RC_READY_TIMEOUT = from_secs 15"
definition RC_PROBE_INTERVAL :: duration where "RC_PROBE_INTERVAL = from_millis 250"
definition JOB_POLL_INTERVAL :: duration where "JOB_POLL_INTERVAL = from_secs 1"
definition RC_COMMAND_TIMEOUT :: duration where "RC_COMMAND_TIMEOUT = from_secs 5"

definition rc_request_for :: "path \<Rightarrow> string list \<Rightarrow> command_request res" where
  "rc_request_for socket words =
     map_err command_error_text
       (bind_res (add_args ([''rc'', ''--unix-socket'', socket] @ words) (new_request RcloneExe))
         (\<lambda>r. Inr (r\<lparr>req_timeout := RC_COMMAND_TIMEOUT\<rparr>)))"

definition submit_words :: "bool \<Rightarrow> string list" where
  "submit_words recursive = [''vfs/refresh'', ''recursive='' @ (if recursive then ''true'' else ''false''), ''_async=true'']"

definition jobid_argument :: "nat \<Rightarrow> string" where
  "jobid_argument job_id = ''jobid='' @ show_nat job_id"

definition parse_job_start :: "(string \<Rightarrow> string + json) \<Rightarrow> string \<Rightarrow> (nat \<times> string) res" where
  "parse_job_start parse output =
     bind_res (map_err (\<lambda>e. Fl ''ui-rclone-refresh-invalid-rclone-refresh-response-error'' [(''error'', Lit e)]) (parse output)) (\<lambda>v.
     bind_res (ok_or (fl ''ui-rclone-refresh-rclone-refresh-response-did-not-contain-a'')
         (Option.bind (json_get ''jobid'' v) as_u64)) (\<lambda>job_id.
     bind_res (ok_or (fl ''ui-rclone-refresh-rclone-refresh-response-did-not-contain-an'')
         (case Option.bind (json_get ''executeId'' v) as_str of
            Some s \<Rightarrow> if s = [] then None else Some s
          | None \<Rightarrow> None)) (\<lambda>execute_id.
       Inr (job_id, execute_id))))"

record job_status =
  jb_finished :: bool
  jb_success :: bool
  jb_error :: msg

text \<open>Every string among the results of the provider that is not an OK, in whatever case, is a failure.\<close>

definition provider_result_failed :: "json \<Rightarrow> bool" where
  "provider_result_failed v =
     (case Option.bind (json_get ''output'' v) (json_get ''result'') of
        Some (JObject members) \<Rightarrow>
          list_ex (\<lambda>k. case Option.bind (json_get k (JObject members)) as_str of
              Some m \<Rightarrow> ascii_lowercase m \<noteq> ''ok'' | None \<Rightarrow> False) (map fst members)
      | _ \<Rightarrow> False)"

definition or_empty :: "string option \<Rightarrow> string" where
  "or_empty s = (case s of Some t \<Rightarrow> t | None \<Rightarrow> [])"

definition or_no :: "bool option \<Rightarrow> bool" where
  "or_no b = (b = Some True)"

definition parse_job_status :: "(string \<Rightarrow> string + json) \<Rightarrow> string \<Rightarrow> string \<Rightarrow> nat \<Rightarrow> job_status res" where
  "parse_job_status parse output execute_id job_id =
     bind_res (map_err (\<lambda>e. Fl ''ui-rclone-refresh-invalid-rclone-job-status-error'' [(''error'', Lit e)]) (parse output)) (\<lambda>v.
       if Option.bind (json_get ''id'' v) as_u64 \<noteq> Some job_id
       then Inl (fl ''ui-rclone-refresh-rclone-job-status-returned-a-different-job'')
       else if or_empty (Option.bind (json_get ''executeId'' v) as_str) \<noteq> execute_id
       then Inl (fl ''ui-rclone-refresh-rclone-restarted-while-the-directory-refresh-was'')
       else
         let rejected = provider_result_failed v in
         Inr \<lparr>jb_finished = or_no (Option.bind (json_get ''finished'' v) as_bool),
              jb_success = (\<not> rejected \<and> or_no (Option.bind (json_get ''success'' v) as_bool)),
              jb_error = (if rejected then fl ''ui-rclone-refresh-the-storage-provider-rejected-part-of-the''
                          else Lit (or_empty (Option.bind (json_get ''error'' v) as_str)))\<rparr>)"

section \<open>Commands\<close>

text \<open>
  What a refresh meets: its clock, the steps that pass in a sleep, its own cancellation, that of the Online
  operation, and whether its control is still the registered one.
\<close>

record refresh_host =
  rh_parse :: "string \<Rightarrow> string + json"
  rh_instant :: "nat \<Rightarrow> nat"
  rh_slept :: "duration \<Rightarrow> nat \<Rightarrow> nat"
  rh_cancelled :: "nat \<Rightarrow> bool"
  rh_operation_cancelled :: "nat \<Rightarrow> bool"
  rh_current :: "nat \<Rightarrow> bool"

definition refresh_stopped :: "refresh_host \<Rightarrow> nat \<Rightarrow> bool" where
  "refresh_stopped H n = (rh_cancelled H n \<or> rh_operation_cancelled H n)"

text \<open>
  A biased \<open>select!\<close> of the two cancellations and a command: None when it was cancelled before the command
  or while it ran, and then the command is dropped, which does not undo what it did.
\<close>

definition unless_stopped :: "refresh_host \<Rightarrow> ('e, 'a) prog \<Rightarrow> ('e, 'a option) prog" where
  "unless_stopped H m = (\<lambda>env w.
     if refresh_stopped H (tick w) then (Inr None, w)
     else case m env w of (r, w') \<Rightarrow>
            if refresh_stopped H (tick w') then (Inr None, w') else (map_sum id Some r, w'))"

definition rc_now :: "refresh_host \<Rightarrow> ('e, nat) prog" where
  "rc_now H = ask_host (rh_instant H)"

definition rc_sleep :: "refresh_host \<Rightarrow> duration \<Rightarrow> ('e, unit) prog" where
  "rc_sleep H d = (\<lambda>env w. (Inr (), w\<lparr>tick := tick w + rh_slept H d (tick w)\<rparr>))"

definition run_text :: "command_request \<Rightarrow> (msg, string) prog" where
  "run_text r = bindP (map_errP command_error_text (run_cmd r)) (\<lambda>out. ret (co_text (out_stdout out)))"

definition submit_refresh :: "refresh_host \<Rightarrow> path \<Rightarrow> bool \<Rightarrow> (msg, nat \<times> string) prog" where
  "submit_refresh H socket recursive =
     bindP (liftR (rc_request_for socket (submit_words recursive))) (\<lambda>r.
     bindP (run_text r) (\<lambda>text. liftR (parse_job_start (rh_parse H) text)))"

definition stop_job :: "path \<Rightarrow> nat \<Rightarrow> (msg, unit) prog" where
  "stop_job socket job_id =
     bindP (liftR (rc_request_for socket [''job/stop'', jobid_argument job_id])) (\<lambda>r. bindP (run_text r) (\<lambda>_. ret ()))"

definition stop_quietly :: "path \<Rightarrow> nat \<Rightarrow> ('e, unit) prog" where
  "stop_quietly socket job_id = bindP (tryP (stop_job socket job_id)) (\<lambda>_. ret ())"

definition cancel_refresh :: "connection_id \<Rightarrow> refresh_registry \<Rightarrow> (msg, bool) prog \<times> refresh_registry" where
  "cancel_refresh cid G =
     (case rg_active G cid of
        None \<Rightarrow> (ret False, G)
      | Some g \<Rightarrow>
          let control = rg_controls G g in
          (case ar_job_id control of
             Some job_id \<Rightarrow> bindP (stop_job (ar_socket control) job_id) (\<lambda>_. ret True)
           | None \<Rightarrow> ret True,
           finish_refresh cid g (G\<lparr>rg_controls := (rg_controls G)(g := control\<lparr>ar_cancelled := True\<rparr>)\<rparr>)))"

section \<open>Starting\<close>

definition rc_mount_probe :: "path \<Rightarrow> command_request res" where
  "rc_mount_probe mountpoint = preload_request Mountpoint [''--quiet'', mountpoint] RC_COMMAND_TIMEOUT"

definition refresh_cancelled :: "(msg, 'a) prog" where
  "refresh_cancelled = fail (fl ''refresh-cancelled'')"

definition probe_ok :: "refresh_host \<Rightarrow> command_request res \<Rightarrow> (msg, bool option) prog" where
  "probe_ok H request =
     bindP (liftR request) (\<lambda>r. bindP (unless_stopped H (tryP (run_cmd r))) (\<lambda>result. ret (map_option is_ok result)))"

definition socket_answers :: "refresh_host \<Rightarrow> path \<Rightarrow> path \<Rightarrow> (msg, bool option) prog" where
  "socket_answers H socket mountpoint =
     bindP (probe_ok H (rc_mount_probe mountpoint)) (\<lambda>mounted.
       case mounted of
         Some True \<Rightarrow> probe_ok H (rc_request_for socket [''rc/noop''])
       | other \<Rightarrow> ret other)"

fun await_socket :: "nat \<Rightarrow> refresh_host \<Rightarrow> path \<Rightarrow> path \<Rightarrow> nat \<Rightarrow> (msg, unit option) prog" where
  "await_socket 0 H socket mountpoint deadline = ret None"
| "await_socket (Suc fuel) H socket mountpoint deadline =
     bindP (socket_answers H socket mountpoint) (\<lambda>ready.
       case ready of
         None \<Rightarrow> refresh_cancelled
       | Some True \<Rightarrow> ret (Some ())
       | Some False \<Rightarrow>
           bindP (rc_now H) (\<lambda>now.
           if deadline \<le> now then fail (fl ''ui-rclone-refresh-rclone-rc-socket-did-not-become-ready'')
           else
           bindP (ask_host (refresh_stopped H)) (\<lambda>stopped.
           if stopped then refresh_cancelled
           else seqP (rc_sleep H RC_PROBE_INTERVAL) (await_socket fuel H socket mountpoint deadline))))"

record refresh_job =
  rj_connection_id :: connection_id
  rj_job_id :: nat
  rj_execute_id :: string
  rj_rc_socket :: path
  rj_timeout :: duration
  rj_started :: nat

definition submit_root :: "refresh_host \<Rightarrow> connection_id \<Rightarrow> path \<Rightarrow> duration \<Rightarrow> (msg, refresh_job option) prog" where
  "submit_root H cid socket limit =
     bindP (rc_now H) (\<lambda>started.
     bindP (unless_stopped H (submit_refresh H socket False)) (\<lambda>submitted.
       case submitted of
         None \<Rightarrow> refresh_cancelled
       | Some (job_id, execute_id) \<Rightarrow>
           bindP (ask_host (\<lambda>n. rh_cancelled H n \<or> \<not> rh_current H n)) (\<lambda>stale.
           if stale then seqP (stop_quietly socket job_id) refresh_cancelled
           else ret (Some \<lparr>rj_connection_id = cid, rj_job_id = job_id, rj_execute_id = execute_id, rj_rc_socket = socket,
                           rj_timeout = limit, rj_started = started\<rparr>))))"

text \<open>Fuel: the probes of fifteen seconds, one every 250 ms, and the last one.\<close>

definition start_refresh ::
  "refresh_host \<Rightarrow> connection_id \<Rightarrow> path \<Rightarrow> path \<Rightarrow> duration \<Rightarrow> (msg, refresh_job option) prog" where
  "start_refresh H cid socket mountpoint limit =
     bindP (rc_now H) (\<lambda>now.
     bindP (await_socket 61 H socket mountpoint (now + RC_READY_TIMEOUT)) (\<lambda>ready.
       case ready of None \<Rightarrow> ret None | Some _ \<Rightarrow> submit_root H cid socket limit))"

section \<open>Monitoring\<close>

definition refresh_report :: "refresh_host \<Rightarrow> refresh_job \<Rightarrow> ('e, preload_report) prog" where
  "refresh_report H job =
     bindP (rc_now H) (\<lambda>now.
       ret \<lparr>pt_duration = now - rj_started job, pt_limit = rj_timeout job, pt_maximum_depth = None, pt_excluded_paths = 0\<rparr>)"

definition refresh_late :: "refresh_host \<Rightarrow> refresh_job \<Rightarrow> (msg, preload_outcome option) prog" where
  "refresh_late H job = bindP (refresh_report H job) (\<lambda>r. ret (Some (PreloadTimedOut r)))"

definition job_failed :: "job_status \<Rightarrow> msg" where
  "job_failed s =
     (if jb_error s = Lit [] then fl ''ui-rclone-refresh-rclone-directory-refresh-finished-without-success''
      else Fl ''ui-rclone-refresh-rclone-directory-refresh-failed-value1'' [(''value1'', jb_error s)])"

text \<open>The answer of one job, or None when the monitor was cancelled.\<close>

definition job_status_of :: "refresh_host \<Rightarrow> refresh_job \<Rightarrow> nat \<Rightarrow> (msg, job_status option) prog" where
  "job_status_of H job active =
     bindP (liftR (rc_request_for (rj_rc_socket job) [''job/status'', jobid_argument active])) (\<lambda>r.
     bindP (unless_stopped H (run_text r)) (\<lambda>answer.
       case answer of
         None \<Rightarrow> ret None
       | Some text \<Rightarrow> bindP (liftR (parse_job_status (rh_parse H) text (rj_execute_id job) active)) (\<lambda>s. ret (Some s))))"

text \<open>
  The change from the root to the whole tree: the number of the new job, or the outcome with which the
  monitor leaves.
\<close>

definition take_over :: "refresh_host \<Rightarrow> refresh_job \<Rightarrow> (nat \<times> string) option \<Rightarrow> (msg, nat + preload_outcome) prog" where
  "take_over H job submitted =
     (case submitted of
        None \<Rightarrow> ret (Inr PreloadCancelled)
      | Some (active, execute_id) \<Rightarrow>
          if execute_id \<noteq> rj_execute_id job
          then seqP (stop_quietly (rj_rc_socket job) active)
                 (fail (fl ''ui-rclone-refresh-rclone-restarted-while-the-directory-refresh-was''))
          else
          bindP (ask_host (\<lambda>n. rh_cancelled H n \<or> \<not> rh_current H n)) (\<lambda>stale.
            if stale then seqP (stop_quietly (rj_rc_socket job) active) (ret (Inr PreloadCancelled))
            else ret (Inl active)))"

definition go_recursive :: "refresh_host \<Rightarrow> refresh_job \<Rightarrow> (msg, nat + preload_outcome) prog" where
  "go_recursive H job =
     bindP (rc_now H) (\<lambda>now.
     if rj_started job + rj_timeout job \<le> now
     then bindP (refresh_report H job) (\<lambda>r. ret (Inr (PreloadTimedOut r)))
     else bindP (unless_stopped H (submit_refresh H (rj_rc_socket job) True)) (take_over H job))"

definition leave_cancelled :: "path \<Rightarrow> nat \<Rightarrow> (msg, preload_outcome option) prog" where
  "leave_cancelled socket active = seqP (stop_quietly socket active) (ret (Some PreloadCancelled))"

text \<open>What the monitor does with an answer: leave with an outcome, go on with a job and a phase, or look again.\<close>

datatype next_look = Leave preload_outcome | Go_On nat | Look_Again

definition after_status :: "refresh_host \<Rightarrow> refresh_job \<Rightarrow> bool \<Rightarrow> job_status \<Rightarrow> (msg, next_look) prog" where
  "after_status H job recursive status =
     (if \<not> jb_finished status then ret Look_Again
      else if \<not> jb_success status then fail (job_failed status)
      else if recursive then bindP (refresh_report H job) (\<lambda>r. ret (Leave (PreloadCompleted r)))
      else bindP (go_recursive H job) (\<lambda>next. ret (case next of Inl active \<Rightarrow> Go_On active | Inr outcome \<Rightarrow> Leave outcome)))"

fun monitor_loop :: "nat \<Rightarrow> refresh_host \<Rightarrow> refresh_job \<Rightarrow> nat \<Rightarrow> bool \<Rightarrow> (msg, preload_outcome option) prog" where
  "monitor_loop 0 H job active recursive = ret None"
| "monitor_loop (Suc fuel) H job active recursive =
     bindP (rc_now H) (\<lambda>now.
     if rj_started job + rj_timeout job \<le> now
     then seqP (stop_quietly (rj_rc_socket job) active) (refresh_late H job)
     else
     bindP (job_status_of H job active) (\<lambda>answer.
       case answer of
         None \<Rightarrow> leave_cancelled (rj_rc_socket job) active
       | Some status \<Rightarrow>
           bindP (after_status H job recursive status) (\<lambda>look.
           case look of
             Leave outcome \<Rightarrow> ret (Some outcome)
           | Go_On active' \<Rightarrow> monitor_loop fuel H job active' True
           | Look_Again \<Rightarrow>
               bindP (ask_host (refresh_stopped H)) (\<lambda>stopped.
               if stopped then leave_cancelled (rj_rc_socket job) active
               else seqP (rc_sleep H JOB_POLL_INTERVAL) (monitor_loop fuel H job active recursive)))))"

text \<open>Fuel: one look per second of the limit, the change of phase, and the look after the deadline.\<close>

definition refresh_polls :: "refresh_job \<Rightarrow> nat" where
  "refresh_polls job = (rj_timeout job + JOB_POLL_INTERVAL - 1) div JOB_POLL_INTERVAL + 3"

definition monitor_refresh ::
  "refresh_host \<Rightarrow> refresh_job \<Rightarrow> online_gate \<Rightarrow> refresh_registry \<Rightarrow> (msg, preload_outcome option) prog" where
  "monitor_refresh H job gate G =
     (case current_refresh (rj_connection_id job) (rj_job_id job) G of
        None \<Rightarrow> ret (Some PreloadCancelled)
      | Some g \<Rightarrow>
          (case begin_online_operation gate of
             (Inl _, _) \<Rightarrow> leave_cancelled (rj_rc_socket job) (rj_job_id job)
           | (Inr _, _) \<Rightarrow> monitor_loop (refresh_polls job) H job (rj_job_id job) False))"

end
