(* ===== verification/Refresh_Safety.thy ===== *)
theory Refresh_Safety
  imports Rclone_Refresh Preload_Safety Coordinator_Outcome
begin

text \<open>The properties of the refresh of a directory cache: what its success means, and that it ends.\<close>

section \<open>What success means\<close>

definition answered :: "env \<Rightarrow> path \<Rightarrow> string list \<Rightarrow> string \<Rightarrow> bool" where
  "answered env socket words text =
     (\<exists>n f r out. fst (e_cmd env n r f) = Inr out \<and> req_executable r = RcloneExe
        \<and> request_argv r = [''rc'', ''--unix-socket'', socket] @ words \<and> text = co_text (out_stdout out))"

definition job_succeeded :: "env \<Rightarrow> refresh_host \<Rightarrow> refresh_job \<Rightarrow> nat \<Rightarrow> bool" where
  "job_succeeded env H job active =
     (\<exists>text s. answered env (rj_rc_socket job) [''job/status'', jobid_argument active] text
        \<and> parse_job_status (rh_parse H) text (rj_execute_id job) active = Inr s \<and> jb_finished s \<and> jb_success s)"

definition tree_submitted :: "env \<Rightarrow> refresh_host \<Rightarrow> refresh_job \<Rightarrow> nat \<Rightarrow> bool" where
  "tree_submitted env H job active =
     (\<exists>text. answered env (rj_rc_socket job) (submit_words True) text
        \<and> parse_job_start (rh_parse H) text = Inr (active, rj_execute_id job))"

lemma ask_run: "ask_host h env w = (r, w') \<longleftrightarrow> r = Inr (h (tick w)) \<and> w' = w\<lparr>tick := Suc (tick w)\<rparr>"
  by (auto simp: ask_host_def)

lemma rc_request_for_Inr:
  "rc_request_for socket words = Inr r \<Longrightarrow> req_executable r = RcloneExe \<and> request_argv r = [''rc'', ''--unix-socket'', socket] @ words"
proof -
  let ?words = "[''rc'', ''--unix-socket'', socket] @ words"
  assume "rc_request_for socket words = Inr r"
  then obtain x where x: "add_args ?words (new_request RcloneExe) = Inr x" and r: "r = x\<lparr>req_timeout := RC_COMMAND_TIMEOUT\<rparr>"
    unfolding rc_request_for_def by (simp only: map_err_Inr bind_res_Inr) blast
  from x have "req_executable x = RcloneExe" by (auto simp only: add_args_Inr new_request_def command_request.simps)
  with add_args_argv[OF x] r show ?thesis by (simp add: request_argv_def new_request_def)
qed

lemma run_text_Inr: "run_text r env w = (Inr text, w') \<Longrightarrow> \<exists>n f out. fst (e_cmd env n r f) = Inr out \<and> text = co_text (out_stdout out)"
  by (auto simp: run_text_def run_simps run_cmd_def split: prod.splits) (metis fst_conv)

lemma answeredI: "rc_request_for socket words = Inr r \<Longrightarrow> run_text r env w = (Inr text, w') \<Longrightarrow> answered env socket words text"
  using rc_request_for_Inr run_text_Inr unfolding answered_def by metis

lemma unless_stopped_Some: "unless_stopped H m env w = (Inr (Some x), w') \<Longrightarrow> m env w = (Inr x, w')"
  by (cases "m env w"; cases "fst (m env w)") (auto simp: unless_stopped_def split: if_splits)

lemma status_success:
  "job_status_of H job active env w = (Inr (Some s), w') \<Longrightarrow> jb_finished s \<Longrightarrow> jb_success s \<Longrightarrow> job_succeeded env H job active"
  by (auto simp: job_status_of_def run_simps job_succeeded_def dest!: unless_stopped_Some answeredI split: option.splits)

lemma take_over_Inl: "take_over H job submitted env w = (Inr (Inl active), w') \<Longrightarrow> submitted = Some (active, rj_execute_id job)"
  by (cases submitted) (auto simp: take_over_def run_simps ask_run split: if_splits)

lemma take_over_Completed: "take_over H job submitted env w \<noteq> (Inr (Inr (PreloadCompleted r)), w')"
  by (cases submitted) (auto simp: take_over_def run_simps ask_run split: if_splits)

lemma recursive_started:
  "go_recursive H job env w = (Inr (Inl active), w') \<Longrightarrow> tree_submitted env H job active"
  unfolding go_recursive_def
  by (auto simp: run_simps rc_now_def ask_run refresh_report_def submit_refresh_def tree_submitted_def
      dest!: take_over_Inl unless_stopped_Some answeredI split: if_splits)

lemma recursive_not_completed: "go_recursive H job env w \<noteq> (Inr (Inr (PreloadCompleted r)), w')"
  by (auto simp: go_recursive_def run_simps rc_now_def ask_run refresh_report_def take_over_Completed split: if_splits)

lemma bindE:
  "bindP m f env w = (Inr y, w') \<Longrightarrow> (\<And>x w1. m env w = (Inr x, w1) \<Longrightarrow> f x env w1 = (Inr y, w') \<Longrightarrow> thesis) \<Longrightarrow> thesis"
  by (auto simp: bindP_Inr)

lemma seqE:
  "seqP m n env w = (Inr y, w') \<Longrightarrow> (\<And>x w1. m env w = (Inr x, w1) \<Longrightarrow> n env w1 = (Inr y, w') \<Longrightarrow> thesis) \<Longrightarrow> thesis"
  unfolding seqP_def by (rule bindE)

lemma after_status_cases:
  "after_status H job rec s env w = (Inr (Leave (PreloadCompleted rep)), w') \<Longrightarrow> rec \<and> jb_finished s \<and> jb_success s"
  "after_status H job rec s env w = (Inr (Go_On tree), w') \<Longrightarrow>
     \<not> rec \<and> jb_finished s \<and> jb_success s \<and> tree_submitted env H job tree"
  by (auto simp: after_status_def recursive_not_completed dest: recursive_started elim!: bindE split: if_split_asm sum.split_asm)

lemma after_answer:
  "job_status_of H job active env w = (Inr (Some s), w1) \<Longrightarrow> after_status H job rec s env w2 = (Inr (Leave (PreloadCompleted rep)), w3) \<Longrightarrow>
     rec \<and> job_succeeded env H job active"
  "job_status_of H job active env w = (Inr (Some s), w1) \<Longrightarrow> after_status H job rec s env w2 = (Inr (Go_On tree), w3) \<Longrightarrow>
     \<not> rec \<and> job_succeeded env H job active \<and> tree_submitted env H job tree"
  using after_status_cases status_success by metis+

lemma completed_step:
  assumes "monitor_loop (Suc fuel) H job active rec env w = (Inr (Some (PreloadCompleted rep)), w')"
  shows "job_succeeded env H job active \<and> rec
       \<or> (\<exists>tree w1. \<not> rec \<and> job_succeeded env H job active \<and> tree_submitted env H job tree
            \<and> monitor_loop fuel H job tree True env w1 = (Inr (Some (PreloadCompleted rep)), w'))
       \<or> (\<exists>w1. monitor_loop fuel H job active rec env w1 = (Inr (Some (PreloadCompleted rep)), w'))"
  using assms
  by (auto simp: rc_now_def ask_run refresh_late_def refresh_report_def leave_cancelled_def
      elim!: bindE seqE split: if_split_asm option.split_asm next_look.split_asm) (blast dest: after_answer)+

lemma completed_root:
  "monitor_loop fuel H job active True env w = (Inr (Some (PreloadCompleted rep)), w') \<Longrightarrow> job_succeeded env H job active"
  by (induction fuel arbitrary: w) (auto simp del: monitor_loop.simps(2) dest: completed_step)

lemma completed_both:
  "monitor_loop fuel H job active False env w = (Inr (Some (PreloadCompleted rep)), w') \<Longrightarrow>
     \<exists>tree. job_succeeded env H job active \<and> tree_submitted env H job tree \<and> job_succeeded env H job tree"
  by (induction fuel arbitrary: w) (auto simp del: monitor_loop.simps(2) dest!: completed_step dest: completed_root)

text \<open>
  A refresh completes only after rclone reported the job of the root as finished with success, accepted
  the refresh of the whole tree under the same execution, and reported that job as finished with success.
\<close>
theorem refresh_completed_truthfully:
  assumes "monitor_refresh H job gate G env w = (Inr (Some (PreloadCompleted rep)), w')"
  shows "\<exists>tree. job_succeeded env H job (rj_job_id job) \<and> tree_submitted env H job tree \<and> job_succeeded env H job tree"
  using assms
  by (auto simp: monitor_refresh_def leave_cancelled_def run_simps split: option.splits prod.splits sum.splits dest: completed_both)

text \<open>A server that answers every request by its last word, and the answers that those words stand for.\<close>

definition echo_env :: env where
  "echo_env = calm_env\<lparr>e_cmd := (\<lambda>n r f.
     (Inr (quiet_output\<lparr>out_stdout := (out_stdout quiet_output)\<lparr>co_text := last (request_argv r)\<rparr>\<rparr>), f))\<rparr>"

definition echo_parse :: "string \<Rightarrow> string + json" where
  "echo_parse s =
     (if s = ''_async=true'' then Inr (JObject [(''jobid'', JNumber ''2''), (''executeId'', JString ''x'')])
      else Inr (JObject [(''id'', JNumber (if s = ''jobid=1'' then ''1'' else ''2'')), (''executeId'', JString ''x''),
             (''finished'', JBool True), (''success'', JBool True)]))"

definition echo_host :: refresh_host where
  "echo_host = \<lparr>rh_parse = echo_parse, rh_instant = (\<lambda>n. n), rh_slept = (\<lambda>d n. d), rh_cancelled = (\<lambda>n. False),
     rh_operation_cancelled = (\<lambda>n. False), rh_current = (\<lambda>n. True)\<rparr>"

definition echo_job :: refresh_job where
  "echo_job = \<lparr>rj_connection_id = ConnectionId ''a'', rj_job_id = 1, rj_execute_id = ''x'', rj_rc_socket = ''/run/rc'',
     rj_timeout = from_secs 10, rj_started = 0\<rparr>"

definition echo_registry :: refresh_registry where
  "echo_registry = note_job 1 1 (snd (register_refresh (ConnectionId ''a'') ''/run/rc'' empty_refreshes))"

lemma refresh_completed_truthfully_witness:
  "\<exists>tree. job_succeeded echo_env echo_host echo_job 1 \<and> tree_submitted echo_env echo_host echo_job tree
     \<and> job_succeeded echo_env echo_host echo_job tree"
proof -
  have "case fst (monitor_refresh echo_host echo_job default_gate echo_registry echo_env sample_world) of
      Inr (Some (PreloadCompleted _)) \<Rightarrow> True | _ \<Rightarrow> False" by code_simp
  then obtain rep w' where "monitor_refresh echo_host echo_job default_gate echo_registry echo_env sample_world
      = (Inr (Some (PreloadCompleted rep)), w')"
    by (cases "monitor_refresh echo_host echo_job default_gate echo_registry echo_env sample_world")
      (auto split: sum.splits option.splits preload_outcome.splits)
  from refresh_completed_truthfully [OF this] show ?thesis by (simp add: echo_job_def)
qed

section \<open>A refresh ends\<close>

definition refresh_clock :: "refresh_host \<Rightarrow> bool" where
  "refresh_clock H =
     (\<forall>n d. rh_instant H n \<le> rh_instant H (Suc n) \<and> rh_instant H n + d \<le> rh_instant H (n + rh_slept H d n))"

lemma refresh_clock_mono: "refresh_clock H \<Longrightarrow> n \<le> m \<Longrightarrow> rh_instant H n \<le> rh_instant H m"
  by (rule lift_Suc_mono_le[of "rh_instant H"]) (auto simp: refresh_clock_def)

lemma since_cmd [since_intros]: "P (Ran r) \<Longrightarrow> since env t P (run_cmd r)"
  by (auto simp: since_def run_cmd_def split: prod.split)

lemma since_map_err [since_intros]: "since env t P m \<Longrightarrow> since env t P (map_errP g m)"
  by (auto simp: since_def map_errP_def split: prod.split)

lemma since_unless [since_intros]: "since env t P m \<Longrightarrow> since env t P (unless_stopped H m)"
  by (auto simp: since_def unless_stopped_def split: prod.split)

lemma since_ask_alone [since_intros]: "since env t P (ask_host h)"
  by (auto simp: since_def ask_host_def)

lemma since_cases [since_intros]:
  "since env t P m \<Longrightarrow> (\<And>x. since env t P (g x)) \<Longrightarrow> since env t P (case v of None \<Rightarrow> m | Some x \<Rightarrow> g x)"
  "(\<And>a b. since env t P (k a b)) \<Longrightarrow> since env t P (case p of (a, b) \<Rightarrow> k a b)"
  by (auto split: option.split prod.split)

lemma since_refresh:
  "since env t (\<lambda>_. True) (job_status_of H job active)" "since env t (\<lambda>_. True) (after_status H job rec s)"
proof -
  show "since env t (\<lambda>_. True) (job_status_of H job active)"
    unfolding job_status_of_def run_text_def by (intro since_intros TrueI)
  have "since env t (\<lambda>_. True) (stop_quietly socket n)" for socket n
    unfolding stop_quietly_def stop_job_def run_text_def by (intro since_intros TrueI)
  then show "since env t (\<lambda>_. True) (after_status H job rec s)"
    unfolding after_status_def go_recursive_def take_over_def refresh_report_def rc_now_def submit_refresh_def run_text_def
    by (intro since_intros TrueI)
qed

lemma sinceD: "since env t P m \<Longrightarrow> t \<le> tick w \<Longrightarrow> m env w = (r, w') \<Longrightarrow> t \<le> tick w'"
  unfolding since_def by (metis snd_conv)

lemma leave_returns: "leave_cancelled socket n env w \<noteq> (Inr None, w')" "refresh_late H job env w \<noteq> (Inr None, w')"
  by (auto simp: leave_cancelled_def refresh_late_def refresh_report_def elim!: bindE seqE)

lemma monitor_step:
  assumes clock: "refresh_clock H" and run: "monitor_loop (Suc fuel) H job active rec env w = (Inr None, w')"
  shows "rh_instant H (tick w) < rj_started job + rj_timeout job
     \<and> (\<exists>w1. rh_instant H (tick w) + JOB_POLL_INTERVAL \<le> rh_instant H (tick w1)
              \<and> monitor_loop fuel H job active rec env w1 = (Inr None, w')
            \<or> \<not> rec \<and> rh_instant H (tick w) \<le> rh_instant H (tick w1)
              \<and> (\<exists>tree. monitor_loop fuel H job tree True env w1 = (Inr None, w')))"
proof -
  let ?w = "w\<lparr>tick := Suc (tick w)\<rparr>"
  have early: "rh_instant H (tick w) < rj_started job + rj_timeout job"
    using run by (auto simp: rc_now_def ask_run leave_returns elim!: bindE seqE split: if_split_asm)
  then obtain s w1 l w2 where st: "job_status_of H job active env ?w = (Inr (Some s), w1)"
      and l: "after_status H job rec s env w1 = (Inr l, w2)" and cont: "(case l of
           Leave outcome \<Rightarrow> ret (Some outcome)
         | Go_On active' \<Rightarrow> monitor_loop fuel H job active' True
         | Look_Again \<Rightarrow>
             bindP (ask_host (refresh_stopped H)) (\<lambda>stopped.
             if stopped then leave_cancelled (rj_rc_socket job) active
             else seqP (rc_sleep H JOB_POLL_INTERVAL) (monitor_loop fuel H job active rec))) env w2 = (Inr None, w')"
    using run by (auto simp: rc_now_def ask_run leave_returns elim!: bindE split: if_split_asm option.split_asm)
  have "tick w \<le> tick w2"
    using sinceD[OF since_refresh(1) _ st, of "tick w"] sinceD[OF since_refresh(2) _ l, of "tick w"] by simp
  then have mono: "rh_instant H (tick w) \<le> rh_instant H (tick w2)" "rh_instant H (tick w) \<le> rh_instant H (Suc (tick w2))"
    using refresh_clock_mono[OF clock] by simp_all
  show ?thesis
  proof (cases l)
    case (Go_On tree)
    with cont l mono early show ?thesis using after_status_cases(2) by (fastforce simp: Go_On)
  next
    case Look_Again
    let ?u = "w2\<lparr>tick := Suc (tick w2)\<rparr>"
    have "rh_instant H (Suc (tick w2)) + JOB_POLL_INTERVAL \<le> rh_instant H (Suc (tick w2) + rh_slept H JOB_POLL_INTERVAL (Suc (tick w2)))"
      using clock unfolding refresh_clock_def by blast
    with cont mono early Look_Again show ?thesis
      by (auto simp: ask_run leave_returns rc_sleep_def elim!: bindE seqE split: if_split_asm intro!: exI)
  qed (use cont in auto)
qed

lemma monitor_loop_returns:
  assumes "refresh_clock H" and "(if rec then 1 else 2) \<le> fuel"
    and "rj_started job + rj_timeout job \<le> rh_instant H (tick w) + (fuel - (if rec then 1 else 2)) * JOB_POLL_INTERVAL"
  shows "monitor_loop fuel H job active rec env w \<noteq> (Inr None, w')"
  using assms(2,3)
proof (induction fuel arbitrary: w active rec)
  case (Suc fuel)
  show ?case
  proof
    assume "monitor_loop (Suc fuel) H job active rec env w = (Inr None, w')"
    from monitor_step[OF assms(1) this] obtain w1 rec' active' where
        early: "rh_instant H (tick w) < rj_started job + rj_timeout job"
      and rest: "monitor_loop fuel H job active' rec' env w1 = (Inr None, w')"
      and move: "rec' = rec \<and> rh_instant H (tick w) + JOB_POLL_INTERVAL \<le> rh_instant H (tick w1)
        \<or> \<not> rec \<and> rec' \<and> rh_instant H (tick w) \<le> rh_instant H (tick w1)" by blast
    let ?k = "\<lambda>r. if r then 1 else 2 :: nat"
    from early Suc.prems have "?k rec < Suc fuel" by (cases "Suc fuel - ?k rec") auto
    then have fuel: "?k rec' \<le> fuel" using move by (auto split: if_splits)
    have "rj_started job + rj_timeout job \<le> rh_instant H (tick w1) + (fuel - ?k rec') * JOB_POLL_INTERVAL"
    proof (cases "rec' = rec")
      case True
      with \<open>?k rec < Suc fuel\<close> have "Suc fuel - ?k rec = Suc (fuel - ?k rec')" by simp
      with True move Suc.prems(2) show ?thesis by (auto split: if_splits)
    next
      case False
      with move have "Suc fuel - ?k rec = fuel - ?k rec'" by auto
      with False move Suc.prems(2) show ?thesis by auto
    qed
    with Suc.IH[OF fuel] rest show False by blast
  qed
qed (auto split: if_splits)

text \<open>
  Monitoring a refresh ends: with a clock that passes a second in each wait, the polls of the time limit
  and three more are never spent.
\<close>
theorem refresh_ends:
  assumes "refresh_clock H" and "rj_started job \<le> rh_instant H (tick w)"
  shows "fst (monitor_refresh H job gate G env w) \<noteq> Inr None"
proof -
  have polls: "2 \<le> refresh_polls job" "rj_timeout job \<le> (refresh_polls job - 2) * JOB_POLL_INTERVAL"
    using div_mult_mod_eq[of "rj_timeout job + JOB_POLL_INTERVAL - 1" JOB_POLL_INTERVAL]
      mod_less_divisor[of JOB_POLL_INTERVAL "rj_timeout job + JOB_POLL_INTERVAL - 1"]
    by (simp_all add: refresh_polls_def JOB_POLL_INTERVAL_def from_secs_def algebra_simps)
  then have "fst (monitor_loop (refresh_polls job) H job (rj_job_id job) False env w) \<noteq> Inr None"
    using monitor_loop_returns[OF assms(1), of False "refresh_polls job" job w] assms(2)
    by (cases "monitor_loop (refresh_polls job) H job (rj_job_id job) False env w") auto
  then show ?thesis
    using leave_returns(1) by (auto simp: monitor_refresh_def split: option.split prod.split sum.split) (metis prod.collapse)+
qed

lemma refresh_ends_witness: "fst (monitor_refresh echo_host echo_job default_gate echo_registry echo_env sample_world) \<noteq> Inr None"
  by (rule refresh_ends) (auto simp: refresh_clock_def echo_host_def echo_job_def)

end
