(* ===== verification/Mirror_Units.thy ===== *)
theory Mirror_Units
  imports Systemd_Manager Sync
begin

text \<open>
  The units of an offline mirror as the applet handles them (\<open>src/src/app.rs\<close>): the plan of a repair,
  stopping and disabling with a check of the state that results, installing a mirror paused, and starting
  and stopping its background synchronization.  Store and manager are arguments, as in the code.
\<close>

datatype offline_repair_engine = RcloneBisync

record offline_repair_plan =
  rp_engine :: offline_repair_engine
  rp_service :: unit_name
  rp_timer :: "unit_name option"

definition service_unit :: "connection_id \<Rightarrow> unit_name" where
  "service_unit cid = \<lparr>un_connection_id = cid, un_kind = ServiceUnit\<rparr>"

definition timer_unit :: "connection_id \<Rightarrow> unit_name" where
  "timer_unit cid = \<lparr>un_connection_id = cid, un_kind = TimerUnit\<rparr>"

definition mirror_repair :: "connection_id \<Rightarrow> offline_repair_plan" where
  "mirror_repair cid = \<lparr>rp_engine = RcloneBisync, rp_service = service_unit cid, rp_timer = Some (timer_unit cid)\<rparr>"

definition is_rclone_offline_mirror :: "connection \<Rightarrow> bool" where
  "is_rclone_offline_mirror c = (conn_offline_engine c = Some Rclone)"

definition is_legacy_onedrive_mirror :: "connection \<Rightarrow> bool" where
  "is_legacy_onedrive_mirror c = (conn_provider c = OneDrive \<and> conn_offline_engine c = Some LegacyOnedrive)"

definition offline_repair_plan_of :: "connection \<Rightarrow> offline_repair_plan res" where
  "offline_repair_plan_of c =
     (if \<not> is_rclone_offline_mirror c then Inl (fl ''ui-app-repair-is-only-available-for-supported-offline'')
      else Inr (mirror_repair (conn_id c)))"

section \<open>Actions and the states they leave\<close>

definition staged :: "msg \<Rightarrow> service_error \<Rightarrow> msg" where
  "staged stage e = Joined '': '' [stage, service_error_text e]"

definition offline_repair_action ::
  "systemd_manager \<Rightarrow> systemd_action \<Rightarrow> unit_name \<Rightarrow> string \<Rightarrow> (msg, unit_status option) prog" where
  "offline_repair_action M action unit stage = map_errP (staged (fl stage)) (M action (Some unit) True)"

definition offline_repair_status :: "systemd_manager \<Rightarrow> unit_name \<Rightarrow> string \<Rightarrow> (msg, unit_status) prog" where
  "offline_repair_status M unit stage =
     bindP (offline_repair_action M Status unit stage) (\<lambda>found.
       liftR (ok_or (Fl ''ui-app-stage-unit-state-is-unavailable'' [(''stage'', fl stage)]) found))"

fun active_debug :: "active_state \<Rightarrow> string" where
  "active_debug Active = ''Active''"
| "active_debug Activating = ''Activating''"
| "active_debug Inactive = ''Inactive''"
| "active_debug UnitFailed = ''Failed''"
| "active_debug UnitUnknown = ''Unknown''"

definition require_repaired_unit :: "unit_status \<Rightarrow> string \<Rightarrow> bool \<Rightarrow> unit res" where
  "require_repaired_unit status role must_be_disabled =
     (if us_active status \<noteq> Inactive
      then Inl (Fl ''ui-app-role-did-not-become-inactive-observed-value2''
                  [(''role'', fl role), (''value2'', Lit (active_debug (us_active status)))])
      else if must_be_disabled \<and> us_enabled status then Inl (Fl ''ui-app-role-remains-enabled'' [(''role'', fl role)])
      else Inr ())"

definition repair_requires_failed_reset :: "unit_status option \<Rightarrow> bool" where
  "repair_requires_failed_reset status = (case status of Some s \<Rightarrow> us_active s = UnitFailed | None \<Rightarrow> False)"

definition pause_timer :: "systemd_manager \<Rightarrow> unit_name \<Rightarrow> (msg, unit) prog" where
  "pause_timer M timer =
     seqP (offline_repair_action M Stop timer ''ui-app-could-not-stop-offline-mirror-timer'')
    (seqP (offline_repair_action M Disable timer ''ui-app-could-not-disable-offline-mirror-timer'')
    (bindP (offline_repair_status M timer ''ui-app-could-not-inspect-paused-offline-mirror-timer'') (\<lambda>status.
       liftR (require_repaired_unit status ''offline-timer-role'' True))))"

definition pause_offline_repair_trigger :: "systemd_manager \<Rightarrow> offline_repair_plan \<Rightarrow> (msg, unit) prog" where
  "pause_offline_repair_trigger M plan = (case rp_timer plan of Some timer \<Rightarrow> pause_timer M timer | None \<Rightarrow> ret ())"

definition stop_and_disable_service :: "systemd_manager \<Rightarrow> unit_name \<Rightarrow> (msg, unit_status) prog" where
  "stop_and_disable_service M service =
     seqP (offline_repair_action M Stop service ''ui-app-could-not-stop-offline-mirror-service'')
    (seqP (offline_repair_action M Disable service ''ui-app-could-not-disable-offline-mirror-service'')
          (offline_repair_status M service ''ui-app-could-not-inspect-stopped-offline-mirror-service''))"

definition stop_disable_and_reconcile_offline_service :: "systemd_manager \<Rightarrow> unit_name \<Rightarrow> (msg, unit) prog" where
  "stop_disable_and_reconcile_offline_service M service =
     bindP (stop_and_disable_service M service) (\<lambda>status.
     bindP (if repair_requires_failed_reset (Some status)
            then seqP (offline_repair_action M ResetFailed service ''ui-app-could-not-reset-failed-offline-mirror-service'')
                      (offline_repair_status M service ''ui-app-could-not-verify-reset-offline-mirror-service'')
            else ret status) (\<lambda>final.
       liftR (require_repaired_unit final ''offline-service-role'' True)))"

section \<open>Installing a mirror, paused\<close>

definition owned_or_missing :: "unit_store \<Rightarrow> unit_name \<Rightarrow> (msg, unit) prog" where
  "owned_or_missing St name =
     bindP (map_errP service_error_text (st_state St name)) (\<lambda>s.
       case s of
         UnitExternal \<Rightarrow> fail (fl ''onedrive-runtime-unit-not-owned'')
       | UnitManaged owner \<Rightarrow>
           if owner \<noteq> un_connection_id name then fail (fl ''onedrive-runtime-unit-not-owned'') else ret ()
       | UnitMissing \<Rightarrow> ret ())"

definition undo_service :: "unit_store \<Rightarrow> systemd_manager \<Rightarrow> unit_name \<Rightarrow> string option \<Rightarrow> service_error \<Rightarrow> (msg, unit) prog" where
  "undo_service St M service previous e =
     bindP (tryP (case previous of
                    Some content \<Rightarrow> unit_install St M \<lparr>ud_name = service, ud_content = content\<rparr>
                  | None \<Rightarrow> unit_remove St M service)) (\<lambda>rollback.
       fail (if is_err rollback then fl ''onedrive-runtime-install-rollback-failed'' else service_error_text e))"

definition install_both ::
  "unit_store \<Rightarrow> systemd_manager \<Rightarrow> unit_document \<Rightarrow> unit_document \<Rightarrow> string option \<Rightarrow> (msg, unit) prog" where
  "install_both St M service timer previous =
     seqP (map_errP service_error_text (unit_install St M service))
    (bindP (tryP (unit_install St M timer)) (\<lambda>r.
       case r of Inr _ \<Rightarrow> ret () | Inl e \<Rightarrow> undo_service St M (ud_name service) previous e))"

definition install_paused_rclone_units ::
  "unit_store \<Rightarrow> systemd_manager \<Rightarrow> unit_document \<Rightarrow> unit_document \<Rightarrow> (msg, unit) prog" where
  "install_paused_rclone_units St M service timer =
     (let repair = \<lparr>rp_engine = RcloneBisync, rp_service = ud_name service, rp_timer = Some (ud_name timer)\<rparr> in
      seqP (owned_or_missing St (ud_name service))
     (seqP (owned_or_missing St (ud_name timer))
     (bindP (map_errP service_error_text (st_read St (ud_name service))) (\<lambda>previous.
      bindP (map_errP service_error_text (st_state St (ud_name timer))) (\<lambda>trigger.
      seqP (if trigger = UnitMissing then ret () else pause_offline_repair_trigger M repair)
     (seqP (install_both St M service timer previous)
     (seqP (map_errP service_error_text (M Disable (Some (ud_name service)) True))
           (pause_offline_repair_trigger M repair))))))))"

section \<open>The background synchronization\<close>

definition start_incomplete :: msg where
  "start_incomplete = fl ''mirror-background-start-incomplete''"

definition start_timer :: "systemd_manager \<Rightarrow> unit_name \<Rightarrow> (msg, unit) prog" where
  "start_timer M timer =
     map_errP (\<lambda>_. start_incomplete)
       (seqP (M Enable (Some timer) True)
       (seqP (M Start (Some timer) True)
       (bindP (M Status (Some timer) True) (\<lambda>found.
          case found of
            Some s \<Rightarrow> if us_enabled s \<and> us_active s = Active then ret () else fail (SvcRuntime start_incomplete)
          | None \<Rightarrow> fail (SvcRuntime start_incomplete)))))"

definition resume_rclone_timer_with :: "systemd_manager \<Rightarrow> unit_name \<Rightarrow> (msg, unit) prog" where
  "resume_rclone_timer_with M timer =
     bindP is_cancelled (\<lambda>stop.
     if stop then fail (fl ''microsoft-oauth-cancelled'')
     else
     bindP (tryP (start_timer M timer)) (\<lambda>result.
     case result of
       Inr _ \<Rightarrow> ret ()
     | Inl e \<Rightarrow>
         bindP (tryP (M Stop (Some timer) False)) (\<lambda>stopped.
         bindP (tryP (M Disable (Some timer) False)) (\<lambda>disabled.
           fail (if is_err stopped \<or> is_err disabled then fl ''mirror-background-start-rollback-failed'' else e)))))"

definition pause_rclone_background_with :: "systemd_manager \<Rightarrow> bisync_plan \<Rightarrow> (msg, msg) prog" where
  "pause_rclone_background_with M plan =
     (let repair = mirror_repair (bp_connection_id plan) in
      seqP (pause_offline_repair_trigger M repair)
     (bindP (stop_and_disable_service M (rp_service repair)) (\<lambda>status.
      seqP (liftR (require_repaired_unit status ''offline-service-role'' True))
           (ret (fl ''ui-app-background-sync-timer-stopped-manual-sync-now'')))))"

end
