(* ===== verification/App_Units.thy ===== *)
theory App_Units
  imports Mirror_Units Vpn_Lifecycle Legacy_Import Bisync_Coordinator Sleep Rclone_Refresh
begin

text \<open>
  The managed units as the applet writes them (\<open>src/src/app.rs\<close>, with the worker command of
  \<open>bisync_worker.rs\<close> and \<open>mirror_script.rs\<close>): the directories of a runtime, the installation of the unit
  of an Online mount and of the units of a mirror, their removal, and the startup policy that the popup saves.
\<close>

section \<open>The runtime\<close>

text \<open>
  What the applet uses beside its host: the coordinator's collaborators, the text of a message, its process
  number, and the access check of a remote, which asks the storage provider.
\<close>

record 'u app_runtime =
  ar_host :: "'u app_host"
  ar_lib :: "'u coordinator_lib"
  ar_codec :: json_codec
  ar_tr :: "msg \<Rightarrow> string"
  ar_pid :: nat
  ar_verify :: "connection \<Rightarrow> (msg, msg) prog"

definition app_exec :: "'u app_runtime \<Rightarrow> exec_env" where
  "app_exec A = pl_exec (cl_plan (ar_lib A))"

definition app_store :: "'u app_runtime \<Rightarrow> (msg, unit_store) prog" where
  "app_store A =
     bindP home_directory (\<lambda>home.
       liftR (map_err service_error_text
         (bind_res (user_unit_store (ar_pid A) (ah_parse_uuid (ar_host A)) home) (\<lambda>S. Inr (file_store S)))))"

definition app_manager :: "'u app_runtime \<Rightarrow> systemd_manager" where
  "app_manager A = dbus_manager (ah_bus (ar_host A))"

definition created :: "string \<Rightarrow> path \<Rightarrow> (msg, unit) prog" where
  "created key p = map_errP (\<lambda>e. Fl key [(''value1'', Lit p), (''error'', io_text e)]) (create_dir_all p)"

definition prepare_online_mount_runtime :: "connection \<Rightarrow> (msg, unit) prog" where
  "prepare_online_mount_runtime c =
     seqP (created ''ui-app-failed-to-create-mountpoint-value1-error'' (local_path c))
    (bindP default_runtime_root (\<lambda>runtime.
     seqP (created ''ui-app-failed-to-create-runtime-directory-value1-error'' runtime)
    (bindP default_cache_root (\<lambda>cache.
       map_errP (err1 ''ui-app-failed-to-create-rclone-cache-directory-error'')
         (create_dir_all (path_join (path_join cache ''rclone'') (conn_uuid (conn_id c))))))))"

definition prepare_onedriver_online_mount_runtime_with ::
  "exec_env \<Rightarrow> connection \<Rightarrow> path \<Rightarrow> path \<Rightarrow> (msg, unit) prog" where
  "prepare_onedriver_online_mount_runtime_with X c cache_root config_root =
     bindP (liftR (map_err provider_error_text (onedriver_mount_plan X c cache_root config_root))) (\<lambda>plan.
     seqP (created ''ui-app-failed-to-create-mountpoint-value1-error'' (om_mountpoint plan))
    (seqP (created ''ui-app-failed-to-create-onedriver-cache-directory-value1'' (om_cache_directory plan))
       (whenP (has_parent (om_config_file plan))
         (created ''ui-app-failed-to-create-onedriver-config-directory-value1'' (parent_of (om_config_file plan))))))"

definition prepare_onedriver_online_mount_runtime :: "exec_env \<Rightarrow> connection \<Rightarrow> (msg, unit) prog" where
  "prepare_onedriver_online_mount_runtime X c =
     bindP default_cache_root (\<lambda>cache. bindP default_config_root (\<lambda>config.
       prepare_onedriver_online_mount_runtime_with X c cache config))"

text \<open>\<open>LocalMirrorPaths::resolve\<close> under a token that nobody cancels.\<close>

definition resolve_uncancelled :: "'u coordinator_lib \<Rightarrow> connection \<Rightarrow> (msg, path \<times> path) prog" where
  "resolve_uncancelled L c =
     bindP (liftR (native_paths c)) (\<lambda>(mirror, recovery).
     if xe_mode (pl_exec (cl_plan L)) = Native then ret (mirror, recovery)
     else bindP (cl_portal L mirror) (\<lambda>m. bindP (cl_portal L recovery) (\<lambda>r. ret (m, r))))"

definition created_as :: "string \<Rightarrow> path \<Rightarrow> path \<Rightarrow> (msg, unit) prog" where
  "created_as key shown p = map_errP (\<lambda>e. Fl key [(''value1'', Lit shown), (''error'', io_text e)]) (create_dir_all p)"

definition prepare_offline_mirror_runtime :: "'u coordinator_lib \<Rightarrow> connection \<Rightarrow> (msg, unit) prog" where
  "prepare_offline_mirror_runtime L c =
     seqP (liftR (map_err unsupported_engine_text (ensure_supported_engine c)))
    (bindP (resolve_uncancelled L c) (\<lambda>(mirror, recovery).
     seqP (created_as ''ui-app-failed-to-create-mirror-directory-value1-error'' (local_path c) mirror)
    (bindP default_work_root (\<lambda>work.
     seqP (created ''ui-app-failed-to-create-work-directory-value1-error'' work)
          (case conn_mode c of
             OfflineMirror opts \<Rightarrow>
               created_as ''ui-app-failed-to-create-recovery-directory-value1-error'' (recovery_directory opts) recovery
           | OnlineMount _ \<Rightarrow> ret ())))))"

definition prepare_rclone_bisync_work_files :: "connection \<Rightarrow> bisync_plan \<Rightarrow> (msg, unit) prog" where
  "prepare_rclone_bisync_work_files c plan =
     seqP (created ''ui-app-failed-to-create-rclone-bisync-work-directory'' (work_directory plan))
    (bindP new_uuid (\<lambda>u.
     let staging = with_extension (filters_file plan) (''txt.tmp.'' @ u) in
     seqP (map_errP (err1 ''ui-app-could-not-stage-managed-mirror-filter-error'') (open_create_new staging))
    (seqP (map_errP (err1 ''ui-app-could-not-restrict-managed-mirror-filter-error'') (set_permissions staging))
    (seqP (map_errP (err1 ''ui-app-could-not-write-managed-mirror-filter-error'')
             (write_all staging (rclone_bisync_filter_file_for_connection c)))
    (seqP (map_errP (err1 ''ui-app-could-not-sync-managed-mirror-filter-error'') (sync_all staging))
          (map_errP (err1 ''ui-app-could-not-install-managed-mirror-filter-error'')
             (rename_file staging (filters_file plan))))))))"

section \<open>The worker's command\<close>

definition WORKER_FLAG :: string where "WORKER_FLAG = ''--run-bisync''"
definition PROBE_MODE :: string where "PROBE_MODE = ''probe''"

definition bisync_service_command :: "exec_env \<Rightarrow> bisync_mode \<Rightarrow> connection_id \<Rightarrow> service_command res" where
  "bisync_service_command X mode cid = guard_service_command X [WORKER_FLAG, mode_str mode, conn_uuid cid]"

definition probe_service_command :: "exec_env \<Rightarrow> connection_id \<Rightarrow> service_command res" where
  "probe_service_command X cid = guard_service_command X [WORKER_FLAG, PROBE_MODE, conn_uuid cid]"

definition mirror_service_spec :: "exec_env \<Rightarrow> bisync_plan \<Rightarrow> service_spec res" where
  "mirror_service_spec X plan =
     bind_res (bisync_service_command X Scheduled (bp_connection_id plan)) (\<lambda>command.
       Inr ((bp_service plan)\<lparr>ss_executable := sc_executable command, ss_arguments := sc_arguments command\<rparr>))"

section \<open>The unit of an Online mount\<close>

datatype online_mount_engine = EngineRclone | EngineOnedriver

definition engine_of_online_mount :: "connection \<Rightarrow> online_mount_engine option" where
  "engine_of_online_mount c =
     (if \<not> is_online c then None else if conn_provider c = OneDrive then Some EngineOnedriver else Some EngineRclone)"

definition starts_at_login :: "connection \<Rightarrow> bool" where
  "starts_at_login c = (case conn_mode c of OnlineMount opts \<Rightarrow> start_at_login opts | OfflineMirror _ \<Rightarrow> False)"

text \<open>What every installation of an Online unit does with its document.\<close>

definition install_and_set_login ::
  "'u app_runtime \<Rightarrow> connection \<Rightarrow> unit_document \<Rightarrow> (msg, bool) prog" where
  "install_and_set_login A c document =
     bindP (app_store A) (\<lambda>St.
     seqP (map_errP service_error_text (unit_install St (app_manager A) document))
    (seqP (map_errP service_error_text
             (app_manager A (if starts_at_login c then Enable else Disable) (Some (ud_name document)) False))
          (ret (starts_at_login c))))"

definition install_rclone_online_mount_unit_result ::
  "'u app_runtime \<Rightarrow> connection \<Rightarrow> (msg, bool) prog" where
  "install_rclone_online_mount_unit_result A c =
     seqP (prepare_online_mount_runtime c)
    (bindP default_runtime_root (\<lambda>runtime. bindP default_cache_root (\<lambda>cache.
     bindP (liftR (map_err provider_error_text
       (rclone_mount_plan (app_exec A) (pl_url (cl_plan (ar_lib A))) (ar_codec A) c runtime cache))) (\<lambda>plan.
     bindP (liftR (map_err service_error_text (render_service (ar_tr A) (app_exec A) (rm_service plan))))
       (install_and_set_login A c)))))"

definition install_onedriver_online_mount_unit_result ::
  "'u app_runtime \<Rightarrow> connection \<Rightarrow> (msg, bool) prog" where
  "install_onedriver_online_mount_unit_result A c =
     seqP (prepare_onedriver_online_mount_runtime (app_exec A) c)
    (bindP default_cache_root (\<lambda>cache. bindP default_config_root (\<lambda>config.
     bindP (liftR (map_err provider_error_text (onedriver_mount_plan (app_exec A) c cache config))) (\<lambda>plan.
     bindP (liftR (map_err service_error_text (render_service (ar_tr A) (app_exec A) (om_service plan))))
       (install_and_set_login A c)))))"

definition named_notice :: "string \<Rightarrow> connection \<Rightarrow> msg" where
  "named_notice key c = Fl key [(''name'', Lit (conn_name c))]"

definition install_notice :: "string \<Rightarrow> string \<Rightarrow> string \<Rightarrow> connection \<Rightarrow> bool res \<Rightarrow> msg" where
  "install_notice at_login manual failed c r =
     (case r of
        Inr True \<Rightarrow> named_notice at_login c
      | Inr False \<Rightarrow> named_notice manual c
      | Inl e \<Rightarrow> Fl failed [(''name'', Lit (conn_name c)), (''error'', e)])"

definition install_rclone_online_mount_unit :: "'u app_runtime \<Rightarrow> connection \<Rightarrow> (unit, msg) prog" where
  "install_rclone_online_mount_unit A c =
     bindP (tryP (install_rclone_online_mount_unit_result A c)) (\<lambda>r.
       ret (install_notice ''ui-app-name-saved-and-managed-mount-unit-installed''
              ''ui-app-name-saved-and-managed-mount-unit-installed-2''
              ''ui-app-name-was-saved-but-managed-mount-unit'' c r))"

definition install_onedriver_online_mount_unit :: "'u app_runtime \<Rightarrow> connection \<Rightarrow> (unit, msg) prog" where
  "install_onedriver_online_mount_unit A c =
     bindP (tryP (install_onedriver_online_mount_unit_result A c)) (\<lambda>r.
       ret (install_notice ''ui-app-name-saved-and-managed-onedriver-mount-unit''
              ''ui-app-name-saved-and-managed-onedriver-mount-unit-2''
              ''ui-app-name-was-saved-but-managed-onedriver-unit'' c r))"

text \<open>The unit that replaces an imported one: its document comes from the import.\<close>

definition install_import_replacement_unit_result :: "'u app_runtime \<Rightarrow> import_replacement \<Rightarrow> (msg, bool) prog" where
  "install_import_replacement_unit_result A plan =
     (let c = ip_connection (ir_preview plan) in
      seqP (if conn_provider c = OneDrive then prepare_onedriver_online_mount_runtime (app_exec A) c
            else prepare_online_mount_runtime c)
           (install_and_set_login A c (ir_managed_service plan)))"

definition install_import_replacement_unit :: "'u app_runtime \<Rightarrow> import_replacement \<Rightarrow> (unit, msg) prog" where
  "install_import_replacement_unit A plan =
     (let name = (''name'', Lit (conn_name (ip_connection (ir_preview plan)))) in
      bindP (tryP (install_import_replacement_unit_result A plan)) (\<lambda>r.
        ret (case r of
          Inr enabled \<Rightarrow> Fl ''ui-app-name-imported-and-applet-managed-replacement-unit''
            [name, (''login'', fl (if enabled then ''value-enabled'' else ''value-disabled'')),
             (''original'', if ir_preserve_original plan then fl ''legacy-service-preserved'' else Lit [])]
        | Inl e \<Rightarrow> Fl ''ui-app-name-was-imported-into-applet-configuration-but'' [name, (''error'', e)])))"

section \<open>The units of a mirror\<close>

definition app_plan :: "'u app_runtime \<Rightarrow> connection \<Rightarrow> (msg, bisync_plan) prog" where
  "app_plan A c =
     bindP default_work_root (\<lambda>work.
       liftR (map_err sync_error_text (rclone_bisync_plan (cl_plan (ar_lib A)) c work)))"

definition install_rclone_offline_mirror_units_result ::
  "'u app_runtime \<Rightarrow> connection \<Rightarrow> (msg, unit) prog" where
  "install_rclone_offline_mirror_units_result A c =
     seqP (prepare_offline_mirror_runtime (ar_lib A) c)
    (bindP (app_plan A c) (\<lambda>plan.
     seqP (prepare_rclone_bisync_work_files c plan)
    (bindP (liftR (mirror_service_spec (app_exec A) plan)) (\<lambda>spec.
     bindP (liftR (map_err service_error_text (render_service (ar_tr A) (app_exec A) spec))) (\<lambda>service.
     bindP (liftR (map_err service_error_text (render_timer (ar_tr A) (bp_timer plan)))) (\<lambda>timer.
     bindP (app_store A) (\<lambda>St.
       install_paused_rclone_units St (app_manager A) service timer)))))))"

definition offline_mirror_saved_notice :: "connection \<Rightarrow> bool \<Rightarrow> msg" where
  "offline_mirror_saved_notice c initialized =
     named_notice (if \<not> conn_enabled c then ''offline-mirror-saved-disabled''
                   else if initialized then ''rclone-mirror-saved-initialized''
                   else ''rclone-mirror-saved-uninitialized'') c"

definition mirror_initialized :: "'u app_runtime \<Rightarrow> connection \<Rightarrow> (unit, bool) prog" where
  "mirror_initialized A c =
     bindP (tryP (app_plan A c)) (\<lambda>r.
       case r of Inl _ \<Rightarrow> ret False | Inr plan \<Rightarrow> path_is_file (initial_sync_marker plan))"

definition install_rclone_offline_mirror_units :: "'u app_runtime \<Rightarrow> connection \<Rightarrow> (unit, msg) prog" where
  "install_rclone_offline_mirror_units A c =
     bindP (tryP (install_rclone_offline_mirror_units_result A c)) (\<lambda>r.
       case r of
         Inr _ \<Rightarrow> bindP (mirror_initialized A c) (\<lambda>initialized. ret (offline_mirror_saved_notice c initialized))
       | Inl e \<Rightarrow> ret (Fl ''ui-app-name-was-saved-but-managed-mirror-unit'' [(''name'', Lit (conn_name c)), (''error'', e)]))"

section \<open>All units\<close>

definition retire_legacy_mirror_unit :: "'u app_runtime \<Rightarrow> connection \<Rightarrow> (msg, unit) prog" where
  "retire_legacy_mirror_unit A c =
     bindP (app_store A) (\<lambda>St. map_errP service_error_text (retire_legacy_mirror St (app_manager A) (conn_id c)))"

definition guard_refresh :: "'u app_runtime \<Rightarrow> connection \<Rightarrow> (msg, unit) prog" where
  "guard_refresh A c =
     (if is_legacy_onedrive_mirror c then retire_legacy_mirror_unit A c
      else case engine_of_online_mount c of
             Some EngineOnedriver \<Rightarrow> bindP (install_onedriver_online_mount_unit_result A c) (\<lambda>_. ret ())
           | Some EngineRclone \<Rightarrow> bindP (install_rclone_online_mount_unit_result A c) (\<lambda>_. ret ())
           | None \<Rightarrow> ret ())"

fun refresh_online_mount_guards :: "'u app_runtime \<Rightarrow> connection list \<Rightarrow> (unit, msg list) prog" where
  "refresh_online_mount_guards A [] = ret []"
| "refresh_online_mount_guards A (c # cs) =
     bindP (tryP (guard_refresh A c)) (\<lambda>r.
     bindP (refresh_online_mount_guards A cs) (\<lambda>failures.
       ret ((case r of Inl e \<Rightarrow> [Joined '': '' [Lit (conn_name c), e]] | Inr _ \<Rightarrow> []) @ failures)))"

definition managed_unit_names_for_connection :: "connection \<Rightarrow> unit_name list" where
  "managed_unit_names_for_connection c =
     (if is_rclone_offline_mirror c then [timer_unit (conn_id c), service_unit (conn_id c)] else [service_unit (conn_id c)])"

definition remove_unit :: "unit_store \<Rightarrow> systemd_manager \<Rightarrow> unit_name \<Rightarrow> (msg, unit) prog" where
  "remove_unit St M unit =
     bindP (tryP (M Stop (Some unit) True)) (\<lambda>_.
     bindP (tryP (M Disable (Some unit) True)) (\<lambda>_.
       map_errP service_error_text (unit_remove St M unit)))"

fun remove_units :: "unit_store \<Rightarrow> systemd_manager \<Rightarrow> unit_name list \<Rightarrow> (msg, nat) prog" where
  "remove_units St M [] = ret 0"
| "remove_units St M (unit # units) = seqP (remove_unit St M unit) (bindP (remove_units St M units) (\<lambda>n. ret (Suc n)))"

definition uses_directory_preload :: "connection \<Rightarrow> bool" where
  "uses_directory_preload c = (is_online c \<and> conn_provider c \<noteq> GoogleDrive)"

definition directory_preload_waits_for_root :: "connection \<Rightarrow> bool" where
  "directory_preload_waits_for_root c = (is_online c \<and> conn_provider c \<in> {Teams, Box, Smb, Sftp})"

text \<open>
  The registries that the tasks of the applet share are read when an operation cancels the background work of a
  connection; \<open>ts_others\<close> is what the tasks do to the preloads while the canceller waits.
\<close>

record shared_tasks =
  ts_refreshes :: "nat \<Rightarrow> refresh_registry"
  ts_preloads :: "nat \<Rightarrow> preload_registry"
  ts_others :: "nat \<Rightarrow> preload_registry \<Rightarrow> preload_registry"

definition cancel_refresh_quietly :: "shared_tasks \<Rightarrow> connection \<Rightarrow> ('e, unit) prog" where
  "cancel_refresh_quietly T c =
     bindP (ask_host (ts_refreshes T)) (\<lambda>G. bindP (tryP (fst (cancel_refresh (conn_id c) G))) (\<lambda>_. ret ()))"

definition preloads_seen :: "shared_tasks \<Rightarrow> ('e, preload_registry \<times> (preload_registry \<Rightarrow> preload_registry)) prog" where
  "preloads_seen T = ask_host (\<lambda>n. (ts_preloads T n, ts_others T n))"

definition await_preload :: "shared_tasks \<Rightarrow> connection \<Rightarrow> (msg, unit) prog" where
  "await_preload T c = bindP (preloads_seen T) (\<lambda>(G, others). liftR (fst (cancel_before_unmount (conn_id c) others G)))"

definition cancel_preload_quietly :: "shared_tasks \<Rightarrow> connection \<Rightarrow> ('e, unit) prog" where
  "cancel_preload_quietly T c =
     bindP (preloads_seen T) (\<lambda>(G, others). let cancelled = fst (cancel_preload (conn_id c) others G) in ret ())"

definition remove_generated_units_for_connection_result ::
  "'u app_runtime \<Rightarrow> shared_tasks \<Rightarrow> connection \<Rightarrow> (msg, nat) prog" where
  "remove_generated_units_for_connection_result A T c =
     seqP (whenP (conn_provider c = GoogleDrive \<and> is_online c) (cancel_refresh_quietly T c))
    (seqP (whenP (uses_directory_preload c) (cancel_preload_quietly T c))
    (bindP (app_store A) (\<lambda>St. remove_units St (app_manager A) (managed_unit_names_for_connection c))))"

definition removal_notice :: "connection \<Rightarrow> nat res \<Rightarrow> msg" where
  "removal_notice c r =
     (case r of
        Inr removed \<Rightarrow>
          if removed = 0 then named_notice ''ui-app-name-was-removed-no-applet-owned-generated'' c
          else Fl ''ui-app-name-was-removed-removed-removed-applet-owned''
                 [(''name'', Lit (conn_name c)), (''removed'', Lit (show_nat removed))]
      | Inl e \<Rightarrow> Fl ''ui-app-name-was-removed-from-applet-configuration-but'' [(''name'', Lit (conn_name c)), (''error'', e)])"

definition remove_generated_units_for_connection ::
  "'u app_runtime \<Rightarrow> shared_tasks \<Rightarrow> connection \<Rightarrow> (unit, msg) prog" where
  "remove_generated_units_for_connection A T c =
     bindP (tryP (remove_generated_units_for_connection_result A T c)) (\<lambda>r. ret (removal_notice c r))"

section \<open>The startup policy of the popup\<close>

definition set_start_at_login :: "connection_id \<Rightarrow> bool \<Rightarrow> connection \<Rightarrow> connection" where
  "set_start_at_login cid on c =
     (case conn_mode c of
        OnlineMount opts \<Rightarrow> if conn_id c = cid then c\<lparr>conn_mode := OnlineMount (opts\<lparr>start_at_login := on\<rparr>)\<rparr> else c
      | OfflineMirror _ \<Rightarrow> c)"

text \<open>The first connection with the identifier, as \<open>iter_mut().find\<close> has it.\<close>

fun update_first :: "('a \<Rightarrow> bool) \<Rightarrow> ('a \<Rightarrow> 'a) \<Rightarrow> 'a list \<Rightarrow> 'a list" where
  "update_first p f [] = []"
| "update_first p f (x # xs) = (if p x then f x # xs else x # update_first p f xs)"

definition login_action :: "bool \<Rightarrow> systemd_action" where
  "login_action on = (if on then Enable else Disable)"

definition undo_login :: "systemd_manager \<Rightarrow> unit_name \<Rightarrow> bool \<Rightarrow> save_error \<Rightarrow> (msg, unit) prog" where
  "undo_login M unit previous_on e =
     bindP (tryP (M (login_action previous_on) (Some unit) False)) (\<lambda>rollback.
       fail (Fl ''ui-app-could-not-persist-popup-startup-state-error''
         [(''error'', save_error_text e),
          (''rollback_note'', fl (if is_ok rollback then ''startup-policy-restored'' else ''startup-policy-restore-failed''))]))"

definition persist_online_popup_state_with ::
  "'u app_runtime \<Rightarrow> config_document \<Rightarrow> app_storage \<Rightarrow> systemd_manager \<Rightarrow> connection_id \<Rightarrow> bool \<Rightarrow> (msg, unit) prog" where
  "persist_online_popup_state_with A d storage M cid desired_on =
     bindP (liftR (ok_or (fl ''ui-app-connection-is-no-longer-available'')
       (List.find (\<lambda>c. conn_id c = cid) (connections d)))) (\<lambda>previous.
     if \<not> is_online previous then fail (fl ''ui-app-persistent-popup-state-applies-only-to-online'')
     else
     seqP (map_errP (\<lambda>e. Fl ''ui-app-could-not-save-popup-startup-state-error'' [(''error'', service_error_text e)])
             (M (login_action desired_on) (Some (service_unit cid)) False))
    (bindP (tryP (update_validated_with (ah_url (ar_host A)) (ah_ron (ar_host A)) storage
        (\<lambda>d. d\<lparr>connections := update_first (\<lambda>c. conn_id c = cid) (set_start_at_login cid desired_on) (connections d)\<rparr>) d))
       (\<lambda>r. case r of
              Inr (Inl e, _) \<Rightarrow> undo_login M (service_unit cid) (starts_at_login previous) e
            | _ \<Rightarrow> ret ())))"

definition persist_online_popup_state ::
  "'u app_runtime \<Rightarrow> connection_id \<Rightarrow> bool \<Rightarrow> (msg, unit) prog" where
  "persist_online_popup_state A cid desired_on =
     bindP (liftR (ah_storage (ar_host A))) (\<lambda>storage.
     bindP (load_runtime_config (ar_host A)) (\<lambda>d.
       persist_online_popup_state_with A d storage (app_manager A) cid desired_on))"

end
