(* ===== verification/Online_Operations.thy ===== *)
theory Online_Operations
  imports App_Units Controller
begin

text \<open>
  Mounting, unmounting and repairing an Online connection, and its restoration after a wake
  (\<open>src/src/app.rs\<close>).  The token of the operation drops it where it awaits; here it is asked
  before each step of an operation, so a cancellation takes effect at the next step.
\<close>

section \<open>Steps of an operation\<close>

text \<open>
  What the operations share: the tasks of the applet, the gate that sleep closes, the mirrors that use a VPN,
  whether the token of the operation is cancelled, and the clock in milliseconds, with the steps that pass
  in a sleep.
\<close>

record operation_host = shared_tasks +
  oh_gate :: "nat \<Rightarrow> online_gate"
  oh_users :: "nat \<Rightarrow> vpn_users"
  oh_cancelled :: "nat \<Rightarrow> bool"
  oh_instant :: "nat \<Rightarrow> nat"
  oh_slept :: "nat \<Rightarrow> nat \<Rightarrow> nat"

definition tasks_of :: "operation_host \<Rightarrow> shared_tasks" where
  "tasks_of H = shared_tasks.truncate H"

definition step_of :: "operation_host \<Rightarrow> (msg, 'a) prog \<Rightarrow> ('a \<Rightarrow> (msg, 'b) prog) \<Rightarrow> (msg, 'b) prog" where
  "step_of H m k =
     bindP (ask_host (oh_cancelled H)) (\<lambda>stop.
       if stop then fail (fl ''online-operation-cancelled-for-sleep'') else bindP m k)"

definition sleep_ms :: "operation_host \<Rightarrow> nat \<Rightarrow> ('e, unit) prog" where
  "sleep_ms H d = (\<lambda>env w. (Inr (), w\<lparr>tick := tick w + oh_slept H d (tick w)\<rparr>))"

definition now_ms :: "operation_host \<Rightarrow> ('e, nat) prog" where
  "now_ms H = ask_host (oh_instant H)"

definition CLEAN_UNMOUNT_SETTLE_TIMEOUT :: nat where "CLEAN_UNMOUNT_SETTLE_TIMEOUT = 2000"
definition CLEAN_UNMOUNT_POLL_INTERVAL :: nat where "CLEAN_UNMOUNT_POLL_INTERVAL = 100"

text \<open>The polls of two seconds, one every 100 ms, and the last one.\<close>

definition settle_polls :: nat where "settle_polls = 21"

definition mount_present :: "'u app_runtime \<Rightarrow> connection \<Rightarrow> (msg \<Rightarrow> msg) \<Rightarrow> (msg, bool) prog" where
  "mount_present A c g =
     bindP (map_errP g (host_mount_entries (ah_view (ar_host A)))) (\<lambda>entries.
       ret (list_ex (\<lambda>e. path_eq (me_target e) (local_path c)) entries))"

section \<open>Detaching\<close>

definition unmount_failed :: "connection \<Rightarrow> command_error \<Rightarrow> msg" where
  "unmount_failed c e =
     Fl ''ui-app-clean-unmount-could-not-detach-value1-error''
       [(''value1'', Lit (local_path c)), (''error'', command_error_text e)]"

definition check_failed :: "connection \<Rightarrow> command_error \<Rightarrow> msg \<Rightarrow> msg" where
  "check_failed c e check =
     Fl ''ui-app-clean-unmount-failed-for-value1-error-could''
       [(''value1'', Lit (local_path c)), (''error'', command_error_text e), (''check_error'', check)]"

definition is_non_zero :: "command_error \<Rightarrow> bool" where
  "is_non_zero e = (case e of NonZero _ _ _ _ \<Rightarrow> True | _ \<Rightarrow> False)"

text \<open>One round: detached, or the error of the helper when the mount is still there.\<close>

definition try_detach :: "'u app_runtime \<Rightarrow> connection \<Rightarrow> (msg, command_error option) prog" where
  "try_detach A c =
     bindP (mount_present A c (\<lambda>e. Fl ''ui-app-could-not-check-mount-before-unmount-error'' [(''error'', e)])) (\<lambda>mounted.
     if \<not> mounted then ret None
     else
     bindP (liftR (map_err command_error_text (clean_unmount_request (local_path c)))) (\<lambda>request.
     bindP (tryP (run_cmd request)) (\<lambda>result.
     case result of
       Inr _ \<Rightarrow> ret None
     | Inl e \<Rightarrow>
         bindP (mount_present A c (check_failed c e)) (\<lambda>still.
           ret (if still then Some e else None)))))"

fun detach_loop :: "nat \<Rightarrow> 'u app_runtime \<Rightarrow> operation_host \<Rightarrow> connection \<Rightarrow> nat \<Rightarrow> (msg, unit option) prog" where
  "detach_loop 0 A H c deadline = ret None"
| "detach_loop (Suc fuel) A H c deadline =
     bindP (try_detach A c) (\<lambda>outcome.
     case outcome of
       None \<Rightarrow> ret (Some ())
     | Some e \<Rightarrow>
         bindP (now_ms H) (\<lambda>now.
           if deadline \<le> now \<or> \<not> is_non_zero e then fail (unmount_failed c e)
           else seqP (sleep_ms H CLEAN_UNMOUNT_POLL_INTERVAL) (detach_loop fuel A H c deadline)))"

definition clean_detach_before_service_stop ::
  "'u app_runtime \<Rightarrow> operation_host \<Rightarrow> connection \<Rightarrow> (msg, unit option) prog" where
  "clean_detach_before_service_stop A H c =
     bindP (now_ms H) (\<lambda>now. detach_loop settle_polls A H c (now + CLEAN_UNMOUNT_SETTLE_TIMEOUT))"

fun disappearance_loop :: "nat \<Rightarrow> 'u app_runtime \<Rightarrow> operation_host \<Rightarrow> connection \<Rightarrow> nat \<Rightarrow> (msg, unit option) prog" where
  "disappearance_loop 0 A H c deadline = ret None"
| "disappearance_loop (Suc fuel) A H c deadline =
     bindP (mount_present A c (\<lambda>e. Fl ''ui-app-could-not-verify-unmount-error'' [(''error'', e)])) (\<lambda>mounted.
     if \<not> mounted then ret (Some ())
     else
     bindP (now_ms H) (\<lambda>now.
       if deadline \<le> now
       then fail (Fl ''ui-app-clean-unmount-left-a-busy-fuse-endpoint'' [(''value1'', Lit (local_path c))])
       else seqP (sleep_ms H CLEAN_UNMOUNT_POLL_INTERVAL) (disappearance_loop fuel A H c deadline)))"

definition require_mount_disappearance_after_clean_stop ::
  "'u app_runtime \<Rightarrow> operation_host \<Rightarrow> connection \<Rightarrow> (msg, unit option) prog" where
  "require_mount_disappearance_after_clean_stop A H c =
     bindP (now_ms H) (\<lambda>now. disappearance_loop settle_polls A H c (now + CLEAN_UNMOUNT_SETTLE_TIMEOUT))"

section \<open>Mounting and unmounting\<close>

text \<open>The continuation of a program that may run out of fuel.\<close>

definition bindF :: "(msg, 'a option) prog \<Rightarrow> ('a \<Rightarrow> (msg, 'b option) prog) \<Rightarrow> (msg, 'b option) prog" where
  "bindF m k = bindP m (\<lambda>x. case x of None \<Rightarrow> ret None | Some y \<Rightarrow> k y)"

definition lifted :: "(msg, 'a) prog \<Rightarrow> (msg, 'a option) prog" where
  "lifted m = bindP m (\<lambda>x. ret (Some x))"

definition start_online_service_and_persist ::
  "'u app_runtime \<Rightarrow> operation_host \<Rightarrow> connection \<Rightarrow> (msg, unit option) prog" where
  "start_online_service_and_persist A H c =
     bindF (start_managed_online_service 41 (app_manager A) (ah_clock (ar_host A)) (service_unit (conn_id c))) (\<lambda>_.
     step_of H (map_errP (\<lambda>e. Fl ''ui-app-mount-is-active-for-this-session-but'' [(''error'', e)])
                  (persist_online_popup_state A (conn_id c) True)) (\<lambda>_. ret (Some ())))"

definition stop_online_service_and_release_vpn ::
  "'u app_runtime \<Rightarrow> operation_host \<Rightarrow> connection \<Rightarrow> (msg, unit option) prog" where
  "stop_online_service_and_release_vpn A H c =
     bindP (map_errP service_error_text (app_manager A Stop (Some (service_unit (conn_id c))) False)) (\<lambda>_.
     bindF (require_mount_disappearance_after_clean_stop A H c) (\<lambda>_.
     step_of H (bindP (ask_host (oh_users H)) (\<lambda>users. maybe_shutdown_vpn_after_unmount (ar_host A) users c))
       (\<lambda>_. ret (Some ()))))"

definition still_saved :: "'u app_runtime \<Rightarrow> connection \<Rightarrow> (msg, unit) prog" where
  "still_saved A c =
     bindP (load_report_of (ar_host A)) (\<lambda>report.
       if list_ex (\<lambda>saved. saved = c \<and> conn_enabled saved) (connections (lr_config report)) then ret ()
       else fail (fl ''ui-app-connection-was-disabled-removed-or-changed-while''))"

definition verified :: "'u app_runtime \<Rightarrow> connection \<Rightarrow> (msg, unit) prog" where
  "verified A c =
     bindP (map_errP (\<lambda>e. Fl ''ui-app-remote-access-check-failed-before-mounting-error'' [(''error'', e)]) (ar_verify A c))
       (\<lambda>_. ret ())"

definition refreshed :: "(msg, bool) prog \<Rightarrow> (msg, bool) prog" where
  "refreshed m = map_errP (\<lambda>e. Fl ''online-service-refresh-failed'' [(''error'', e)]) m"

definition rclone_mount_service :: "'u app_runtime \<Rightarrow> operation_host \<Rightarrow> connection \<Rightarrow> (msg, unit option) prog" where
  "rclone_mount_service A H c =
     step_of H (prepare_online_mount_runtime c) (\<lambda>_.
     step_of H (check_empty_mountpoint (local_path c)) (\<lambda>_.
     step_of H (ensure_vpn_ready_for_connection (ar_host A) c) (\<lambda>vpn.
     case vpn of
       None \<Rightarrow> ret None
     | Some _ \<Rightarrow>
         step_of H (verified A c) (\<lambda>_.
         step_of H (still_saved A c) (\<lambda>_.
         step_of H (refreshed (install_rclone_online_mount_unit_result A c)) (\<lambda>_.
           start_online_service_and_persist A H c))))))"

definition onedriver_mount_service :: "'u app_runtime \<Rightarrow> operation_host \<Rightarrow> connection \<Rightarrow> (msg, unit option) prog" where
  "onedriver_mount_service A H c =
     step_of H (prepare_onedriver_online_mount_runtime (app_exec A) c) (\<lambda>_.
     step_of H (check_empty_mountpoint (local_path c)) (\<lambda>_.
     step_of H (ensure_vpn_ready_for_connection (ar_host A) c) (\<lambda>vpn.
     case vpn of
       None \<Rightarrow> ret None
     | Some _ \<Rightarrow>
         step_of H (still_saved A c) (\<lambda>_.
         step_of H (refreshed (install_onedriver_online_mount_unit_result A c)) (\<lambda>_.
         step_of H (map_errP service_error_text (app_manager A DaemonReload None False)) (\<lambda>_.
           start_online_service_and_persist A H c))))))"

definition unmount_service :: "'u app_runtime \<Rightarrow> operation_host \<Rightarrow> connection \<Rightarrow> bool \<Rightarrow> bool \<Rightarrow> (msg, unit option) prog" where
  "unmount_service A H c refreshes preloads =
     step_of H (persist_online_popup_state A (conn_id c) False) (\<lambda>_.
     step_of H (whenP refreshes (cancel_refresh_quietly (tasks_of H) c)) (\<lambda>_.
     step_of H (whenP preloads (await_preload (tasks_of H) c)) (\<lambda>_.
     step_of H (clean_detach_before_service_stop A H c) (\<lambda>detached.
     case detached of
       None \<Rightarrow> ret None
     | Some _ \<Rightarrow> step_of H (ret ()) (\<lambda>_. stop_online_service_and_release_vpn A H c)))))"

definition run_managed_rclone_online_mount_operation_result_inner ::
  "'u app_runtime \<Rightarrow> operation_host \<Rightarrow> connection \<Rightarrow> operation \<Rightarrow> (msg, unit option) prog" where
  "run_managed_rclone_online_mount_operation_result_inner A H c operation =
     (case operation of
        Mount \<Rightarrow> rclone_mount_service A H c
      | Unmount \<Rightarrow> unmount_service A H c (conn_provider c = GoogleDrive) (uses_directory_preload c)
      | _ \<Rightarrow> fail (Fl ''ui-app-value1-is-not-a-managed-mount-operation'' [(''value1'', operation_label operation)]))"

definition run_managed_onedriver_online_mount_operation_result_inner ::
  "'u app_runtime \<Rightarrow> operation_host \<Rightarrow> connection \<Rightarrow> operation \<Rightarrow> (msg, unit option) prog" where
  "run_managed_onedriver_online_mount_operation_result_inner A H c operation =
     (case operation of
        Mount \<Rightarrow> onedriver_mount_service A H c
      | Unmount \<Rightarrow> unmount_service A H c False True
      | _ \<Rightarrow> fail (Fl ''ui-app-value1-is-not-a-managed-onedriver-mount'' [(''value1'', operation_label operation)]))"

definition run_managed_online_mount_operation_result ::
  "'u app_runtime \<Rightarrow> operation_host \<Rightarrow> connection \<Rightarrow> operation \<Rightarrow> (msg, unit option) prog" where
  "run_managed_online_mount_operation_result A H c operation =
     bindP (liftR (ok_or (Fl ''ui-app-value1-is-not-an-online-mount'' [(''value1'', Lit (conn_name c))])
       (engine_of_online_mount c))) (\<lambda>engine.
     bindP (ask_host (oh_gate H)) (\<lambda>gate.
     bindP (liftR (fst (begin_online_operation gate))) (\<lambda>_.
     case engine of
       EngineRclone \<Rightarrow> run_managed_rclone_online_mount_operation_result_inner A H c operation
     | EngineOnedriver \<Rightarrow> run_managed_onedriver_online_mount_operation_result_inner A H c operation)))"

section \<open>Restoring after a wake\<close>

definition wake_error :: "string \<Rightarrow> connection \<Rightarrow> msg" where
  "wake_error key c = Fl key [(''value1'', Lit (conn_name c))]"

text \<open>The restoration has a token of its own, asked before each step here as well.\<close>

definition wake_step :: "operation_host \<Rightarrow> connection \<Rightarrow> (msg, 'a) prog \<Rightarrow> ('a \<Rightarrow> (msg, 'b) prog) \<Rightarrow> (msg, 'b) prog" where
  "wake_step H c m k =
     bindP (ask_host (oh_cancelled H)) (\<lambda>stop.
       if stop then fail (named_notice ''wake-restoration-cancelled'' c) else bindP m k)"

text \<open>One look at the network every two seconds, for ninety seconds, and the last one.\<close>

fun wake_network :: "nat \<Rightarrow> 'u app_runtime \<Rightarrow> operation_host \<Rightarrow> connection \<Rightarrow> nat \<Rightarrow> (msg, unit option) prog" where
  "wake_network 0 A H c deadline = ret None"
| "wake_network (Suc fuel) A H c deadline =
     wake_step H c (current_network_ready (ar_host A)) (\<lambda>ready.
     if ready then ret (Some ())
     else
     bindP (now_ms H) (\<lambda>now.
       if deadline \<le> now then fail (wake_error ''ui-app-wake-restoration-for-value1-is-waiting-for'' c)
       else seqP (sleep_ms H 2000) (wake_network fuel A H c deadline)))"

definition restorable :: "connection_id \<Rightarrow> connection \<Rightarrow> bool" where
  "restorable cid item = (conn_id item = cid \<and> conn_enabled item \<and> is_online item)"

definition wake_target :: "'u app_runtime \<Rightarrow> connection \<Rightarrow> (msg, connection) prog" where
  "wake_target A c =
     bindP (load_report_of (ar_host A)) (\<lambda>report.
     let d = lr_config report in
     if \<not> unmount_before_sleep d \<or> \<not> restore_after_wake d then fail (wake_error ''ui-app-wake-restoration-disabled-for-value1'' c)
     else liftR (ok_or (wake_error ''ui-app-wake-restoration-skipped-for-value1'' c)
            (List.find (restorable (conn_id c)) (connections d))))"

definition restore_online_after_wake_result ::
  "'u app_runtime \<Rightarrow> operation_host \<Rightarrow> connection \<Rightarrow> (msg, unit option) prog" where
  "restore_online_after_wake_result A H c =
     bindP (ask_host (oh_gate H)) (\<lambda>gate.
     bindP (liftR (map_err (\<lambda>_. wake_error ''ui-app-wake-restoration-canceled-for-value1'' c) (online_operation_token gate))) (\<lambda>_.
     bindP (now_ms H) (\<lambda>now.
     bindF (wake_network 46 A H c (now + 90000)) (\<lambda>_.
     wake_step H c (wake_target A c) (\<lambda>current.
       run_managed_online_mount_operation_result A H current Mount)))))"

section \<open>Repairing\<close>

record online_repair_plan =
  op_engine :: online_mount_engine
  op_cancel_rclone_refresh :: bool
  op_cancel_directory_preload :: bool

fun repair_filesystem :: "online_mount_engine \<Rightarrow> string" where
  "repair_filesystem EngineRclone = ''fuse.rclone''"
| "repair_filesystem EngineOnedriver = ''fuse.onedriver''"

definition online_repair_plan_of :: "connection \<Rightarrow> online_repair_plan option" where
  "online_repair_plan_of c =
     map_option (\<lambda>e. \<lparr>op_engine = e, op_cancel_rclone_refresh = (conn_provider c = GoogleDrive),
       op_cancel_directory_preload = uses_directory_preload c\<rparr>) (engine_of_online_mount c)"

definition repair_unavailable :: msg where
  "repair_unavailable = fl ''ui-app-repair-is-only-available-for-online-mounts''"

definition repair_needs_lazy_detach :: "connection \<Rightarrow> mount_entry list \<Rightarrow> bool res" where
  "repair_needs_lazy_detach c mounts =
     (case List.find (\<lambda>e. path_eq (me_target e) (local_path c)) mounts of
        None \<Rightarrow> Inr False
      | Some mount \<Rightarrow>
          bind_res (ok_or repair_unavailable (online_repair_plan_of c)) (\<lambda>plan.
            if me_filesystem mount \<noteq> repair_filesystem (op_engine plan)
            then Inl (fl ''ui-app-repair-found-an-unexpected-filesystem-at-the'')
            else Inr True))"

definition lazy_detach_needed :: "'u app_runtime \<Rightarrow> connection \<Rightarrow> (msg, bool) prog" where
  "lazy_detach_needed A c =
     bindP (host_mount_entries (ah_view (ar_host A))) (\<lambda>mounts. liftR (repair_needs_lazy_detach c mounts))"

fun lazy_loop :: "nat \<Rightarrow> 'u app_runtime \<Rightarrow> operation_host \<Rightarrow> connection \<Rightarrow> nat \<Rightarrow> (msg, unit option) prog" where
  "lazy_loop 0 A H c deadline = ret None"
| "lazy_loop (Suc fuel) A H c deadline =
     bindP (lazy_detach_needed A c) (\<lambda>needed.
     if \<not> needed then ret (Some ())
     else
     bindP (now_ms H) (\<lambda>now.
       if deadline \<le> now then fail (fl ''ui-app-repair-could-not-detach-the-mountpoint-inspect'')
       else seqP (sleep_ms H CLEAN_UNMOUNT_POLL_INTERVAL) (lazy_loop fuel A H c deadline)))"

definition lazy_detach :: "'u app_runtime \<Rightarrow> connection \<Rightarrow> (msg, unit) prog" where
  "lazy_detach A c =
     bindP (lazy_detach_needed A c) (\<lambda>needed.
       whenP needed
         (bindP (liftR (map_err command_error_text (lazy_unmount_request (local_path c)))) (\<lambda>request.
          bindP (map_errP command_error_text (run_cmd request)) (\<lambda>_. ret ()))))"

definition reconcile_online_repair_service :: "systemd_manager \<Rightarrow> unit_name \<Rightarrow> (msg, unit) prog" where
  "reconcile_online_repair_service M unit =
     bindP (map_errP (\<lambda>e. Fl ''online-service-repair-read-failed'' [(''error'', service_error_text e)])
       (M Status (Some unit) False)) (\<lambda>found.
     bindP (liftR (ok_or (fl ''online-service-repair-unknown-state'') found)) (\<lambda>status.
       if repair_requires_failed_reset (Some status)
       then bindP (map_errP (\<lambda>e. Fl ''online-service-repair-reset-failed'' [(''error'', service_error_text e)])
              (M ResetFailed (Some unit) False)) (\<lambda>_. ret ())
       else ret ()))"

definition run_online_mount_repair_operation_result ::
  "'u app_runtime \<Rightarrow> operation_host \<Rightarrow> connection \<Rightarrow> (msg, unit option) prog" where
  "run_online_mount_repair_operation_result A H c =
     bindP (liftR (ok_or repair_unavailable (online_repair_plan_of c))) (\<lambda>plan.
     seqP (persist_online_popup_state A (conn_id c) False)
    (seqP (whenP (op_cancel_rclone_refresh plan) (cancel_refresh_quietly (tasks_of H) c))
    (seqP (whenP (op_cancel_directory_preload plan) (cancel_preload_quietly (tasks_of H) c))
    (bindP (tryP (app_manager A Stop (Some (service_unit (conn_id c))) False)) (\<lambda>_.
     seqP (lazy_detach A c)
    (bindP (now_ms H) (\<lambda>now.
     bindF (lazy_loop settle_polls A H c (now + CLEAN_UNMOUNT_SETTLE_TIMEOUT)) (\<lambda>_.
       lifted (reconcile_online_repair_service (app_manager A) (service_unit (conn_id c)))))))))))"

definition run_online_mount_repair_operation ::
  "'u app_runtime \<Rightarrow> operation_host \<Rightarrow> connection \<Rightarrow> (unit, msg option) prog" where
  "run_online_mount_repair_operation A H c =
     bindP (tryP (run_online_mount_repair_operation_result A H c)) (\<lambda>r.
       ret (case r of
              Inr None \<Rightarrow> None
            | Inr (Some _) \<Rightarrow> Some (Fl ''ui-app-repair-completed-for-value1-the-mountpoint-is'' [(''value1'', Lit (conn_name c))])
            | Inl e \<Rightarrow> Some (Fl ''ui-app-repair-failed-for-value1-error'' [(''value1'', Lit (conn_name c)), (''error'', e)])))"

end
