(* ===== verification/Preview_Summary.thy ===== *)
theory Preview_Summary
  imports Pending_Count
begin

text \<open>
  The summary of a bisync run (\<open>src/src/sync.rs\<close>: \<open>PreviewSummary\<close>, \<open>parse_preview\<close>) and its texts
  (\<open>preview_summary_text\<close>, \<open>sync_output_summary\<close>, \<open>human_bytes\<close> of \<open>src/src/app.rs\<close>).  The counters count
  lines of an output whose length is bounded by the runner, so their width is never reached; the
  transferred bytes saturate as the code says.
\<close>

record preview_summary =
  ps_uploads :: nat
  ps_downloads :: nat
  ps_deletes :: nat
  ps_conflicts :: nat
  ps_skipped :: nat
  ps_transfer_bytes :: "nat option"
  ps_google_native_skips :: "path list"
  ps_destructive :: bool

definition empty_summary :: preview_summary where
  "empty_summary =
     \<lparr>ps_uploads = 0, ps_downloads = 0, ps_deletes = 0, ps_conflicts = 0, ps_skipped = 0,
      ps_transfer_bytes = None, ps_google_native_skips = [], ps_destructive = False\<rparr>"

definition sat_mul_u64 :: "nat \<Rightarrow> nat \<Rightarrow> nat" where
  "sat_mul_u64 a b = min (a * b) U64_MAX"

definition is_google_native_document :: "string \<Rightarrow> bool" where
  "is_google_native_document line =
     list_ex (\<lambda>e. str_contains e line)
       [''.gdoc'', ''.gsheet'', ''.gslides'', ''.gdraw'', ''.gform'', ''.gmap'', ''.gsite'']"

definition byte_multiplier :: "string \<Rightarrow> nat option" where
  "byte_multiplier unit =
     (if unit \<in> {''b'', ''byte'', ''bytes''} then Some 1
      else if unit \<in> {''kb'', ''kib''} then Some 1024
      else if unit \<in> {''mb'', ''mib''} then Some (1024 * 1024)
      else if unit \<in> {''gb'', ''gib''} then Some (1024 * 1024 * 1024)
      else None)"

definition window_bytes :: "string \<Rightarrow> string \<Rightarrow> nat option" where
  "window_bytes value unit =
     (case parse_unsigned U64_MAX (str_replace '','' [] value) of
        None \<Rightarrow> None
      | Some v \<Rightarrow> map_option (sat_mul_u64 v) (byte_multiplier unit))"

fun first_bytes :: "string list \<Rightarrow> nat option" where
  "first_bytes (value # unit # rest) =
     (case window_bytes value unit of Some n \<Rightarrow> Some n | None \<Rightarrow> first_bytes (unit # rest))"
| "first_bytes _ = None"

definition parse_first_bytes :: "string \<Rightarrow> nat option" where
  "parse_first_bytes line = first_bytes (split_whitespace line)"

section \<open>Reading the output line by line\<close>

text \<open>
  The copies and deletions announced by a queue line are reported once more when they are skipped by the
  dry run; \<open>pp_copies\<close> and \<open>pp_deletes\<close> hold those still to be reported.
\<close>

record preview_parser =
  pp_summary :: preview_summary
  pp_direction :: "bool option"
  pp_copies :: nat
  pp_deletes :: nat

definition add_upload :: "preview_parser \<Rightarrow> preview_parser" where
  "add_upload p = p\<lparr>pp_summary := (pp_summary p)\<lparr>ps_uploads := Suc (ps_uploads (pp_summary p))\<rparr>\<rparr>"

definition add_download :: "preview_parser \<Rightarrow> preview_parser" where
  "add_download p = p\<lparr>pp_summary := (pp_summary p)\<lparr>ps_downloads := Suc (ps_downloads (pp_summary p))\<rparr>\<rparr>"

definition add_delete :: "preview_parser \<Rightarrow> preview_parser" where
  "add_delete p =
     p\<lparr>pp_summary := (pp_summary p)\<lparr>ps_deletes := Suc (ps_deletes (pp_summary p)), ps_destructive := True\<rparr>\<rparr>"

definition add_skip :: "preview_parser \<Rightarrow> preview_parser" where
  "add_skip p = p\<lparr>pp_summary := (pp_summary p)\<lparr>ps_skipped := Suc (ps_skipped (pp_summary p))\<rparr>\<rparr>"

definition add_conflict :: "preview_parser \<Rightarrow> preview_parser" where
  "add_conflict p = p\<lparr>pp_summary := (pp_summary p)\<lparr>ps_conflicts := Suc (ps_conflicts (pp_summary p))\<rparr>\<rparr>"

definition add_native :: "string \<Rightarrow> preview_parser \<Rightarrow> preview_parser" where
  "add_native line p =
     (let s = pp_summary p
      in p\<lparr>pp_summary := s\<lparr>ps_skipped := Suc (ps_skipped s),
                           ps_google_native_skips := ps_google_native_skips s @ [trim line]\<rparr>\<rparr>)"

definition add_bytes :: "nat option \<Rightarrow> preview_parser \<Rightarrow> preview_parser" where
  "add_bytes b p =
     (case b of
        None \<Rightarrow> p
      | Some n \<Rightarrow>
          (let s = pp_summary p;
               sum = sat_add_u64 (case ps_transfer_bytes s of Some m \<Rightarrow> m | None \<Rightarrow> 0) n
           in p\<lparr>pp_summary := s\<lparr>ps_transfer_bytes := Some sum\<rparr>\<rparr>))"

definition is_totals_line :: "string \<Rightarrow> bool" where
  "is_totals_line l =
     (str_contains '' changes:'' l \<or> str_contains ''skipped move to'' l
      \<or> str_contains ''file was deleted'' l \<or> str_contains ''deleted:'' l)"

definition is_delete_line :: "string \<Rightarrow> bool" where
  "is_delete_line l =
     (str_contains ''would delete'' l \<or> str_contains ''would remove'' l
      \<or> str_contains '': deleting '' l \<or> str_contains '': removing '' l
      \<or> prefix ''delete '' (trim_start l) \<or> prefix ''remove '' (trim_start l))"

definition copy_direction :: "string \<Rightarrow> bool option" where
  "copy_direction l =
     (if str_contains ''copying files to'' l \<or> str_contains ''copying path'' l
      then case (find_sub ''path1'' l, find_sub ''path2'' l) of
             (Some path1, Some path2) \<Rightarrow> Some (path2 < path1)
           | _ \<Rightarrow> None
      else None)"

definition transfer_line :: "string \<Rightarrow> preview_parser \<Rightarrow> preview_parser" where
  "transfer_line l p =
     (if str_contains ''path2 to path1'' l \<and> str_contains ''copy'' l then add_upload p
      else if str_contains ''path1 to path2'' l \<and> str_contains ''copy'' l then add_download p
      else if str_contains ''would upload'' l \<or> str_contains '': uploading '' l then add_upload p
      else if str_contains ''would download'' l \<or> str_contains '': downloading '' l then add_download p
      else p)"

definition other_line :: "string \<Rightarrow> preview_parser \<Rightarrow> preview_parser" where
  "other_line l p =
     (let p1 = (if str_contains ''conflict'' l then add_conflict p else p);
          p2 = (if str_contains ''skip'' l \<or> str_contains ''excluded'' l \<or> str_contains ''filtered'' l
                then add_skip p1 else p1);
          p3 = (if is_delete_line l then add_delete p2 else p2)
      in add_bytes (parse_first_bytes l) (transfer_line l p3))"

definition queued_line :: "string \<Rightarrow> preview_parser \<Rightarrow> preview_parser option" where
  "queued_line l p =
     (if str_contains ''queue delete'' l then Some ((add_delete p)\<lparr>pp_deletes := Suc (pp_deletes p)\<rparr>)
      else if str_contains ''skipped delete as --dry-run is set'' l then
        Some (if 0 < pp_deletes p then p\<lparr>pp_deletes := pp_deletes p - 1\<rparr> else add_delete p)
      else if str_contains ''queue copy to'' l \<and> str_contains ''path1'' l then
        Some ((add_upload p)\<lparr>pp_copies := Suc (pp_copies p)\<rparr>)
      else if str_contains ''queue copy to'' l \<and> str_contains ''path2'' l then
        Some ((add_download p)\<lparr>pp_copies := Suc (pp_copies p)\<rparr>)
      else if copy_direction l \<noteq> None then Some (p\<lparr>pp_direction := copy_direction l\<rparr>)
      else if str_contains ''skipped copy as --dry-run is set'' l then
        Some (if 0 < pp_copies p then p\<lparr>pp_copies := pp_copies p - 1\<rparr>
              else case pp_direction p of
                     Some True \<Rightarrow> add_upload p | Some False \<Rightarrow> add_download p | None \<Rightarrow> p)
      else None)"

definition preview_line :: "string \<Rightarrow> preview_parser \<Rightarrow> preview_parser" where
  "preview_line line p =
     (let l = ascii_lowercase line
      in if is_totals_line l then p
         else case queued_line l p of
                Some p' \<Rightarrow> p'
              | None \<Rightarrow>
                  if str_contains ''skipped storing filters file hash'' l then p
                  else if is_google_native_document l then add_native line p
                  else other_line l p)"

definition preview_start :: preview_parser where
  "preview_start = \<lparr>pp_summary = empty_summary, pp_direction = None, pp_copies = 0, pp_deletes = 0\<rparr>"

definition parse_preview :: "string \<Rightarrow> preview_summary" where
  "parse_preview output = pp_summary (fold preview_line (lines output) preview_start)"

section \<open>The texts of a summary\<close>

text \<open>
  \<open>{:.1}\<close> of the quotient of a byte count and a power of two: the count as \<open>f64\<close> (53 bits, ties to
  even), an exact division, and the decimal rounding of \<open>format!\<close> (ties to even).
\<close>

definition round_div_even :: "nat \<Rightarrow> nat \<Rightarrow> nat" where
  "round_div_even n d =
     (let q = n div d; r = n mod d
      in if 2 * r < d then q else if d < 2 * r then Suc q else if even q then q else Suc q)"

fun bit_length :: "nat \<Rightarrow> nat" where
  "bit_length n = (if n = 0 then 0 else Suc (bit_length (n div 2)))"

declare bit_length.simps [simp del]

definition f64_of_u64 :: "nat \<Rightarrow> nat" where
  "f64_of_u64 n = (let e = bit_length n - 53 in round_div_even n (2 ^ e) * 2 ^ e)"

definition one_decimal :: "nat \<Rightarrow> nat \<Rightarrow> string" where
  "one_decimal n d =
     (let t = round_div_even (10 * f64_of_u64 n) d in show_nat (t div 10) @ ''.'' @ show_nat (t mod 10))"

definition human_bytes :: "nat \<Rightarrow> msg" where
  "human_bytes n =
     (if 1024 * 1024 * 1024 \<le> n
      then Fl ''ui-app-value1-gib'' [(''value1'', Lit (one_decimal n (1024 * 1024 * 1024)))]
      else if 1024 * 1024 \<le> n
      then Fl ''ui-app-value1-mib'' [(''value1'', Lit (one_decimal n (1024 * 1024)))]
      else Fl ''ui-app-bytes-bytes'' [(''bytes'', Lit (show_nat n))])"

definition combined_output :: "command_output \<Rightarrow> string" where
  "combined_output out = co_text (out_stdout out) @ [CHR 0x0A] @ co_text (out_stderr out)"

definition preview_summary_text :: "command_output \<Rightarrow> msg" where
  "preview_summary_text out =
     (let s = parse_preview (combined_output out)
      in Fl ''ui-app-preview-uploads-value1-downloads-value2-deletes-value3''
           [(''value1'', Lit (show_nat (ps_uploads s))), (''value2'', Lit (show_nat (ps_downloads s))),
            (''value3'', Lit (show_nat (ps_deletes s))), (''value4'', Lit (show_nat (ps_conflicts s))),
            (''value5'', Lit (show_nat (ps_skipped s))),
            (''value6'', case ps_transfer_bytes s of
                           Some b \<Rightarrow> Fl ''preview-transfer-estimate'' [(''bytes'', human_bytes b)]
                         | None \<Rightarrow> Lit []),
            (''value7'', if ps_destructive s then fl ''preview-destructive-changes'' else Lit [])])"

definition sync_output_summary :: "command_output \<Rightarrow> msg" where
  "sync_output_summary out =
     (let s = parse_preview (combined_output out)
      in if 0 < ps_uploads s + ps_downloads s + ps_deletes s + ps_conflicts s + ps_skipped s
         then Fl ''ui-app-sync-summary-uploads-value1-downloads-value2-deletes''
                [(''value1'', Lit (show_nat (ps_uploads s))), (''value2'', Lit (show_nat (ps_downloads s))),
                 (''value3'', Lit (show_nat (ps_deletes s))), (''value4'', Lit (show_nat (ps_conflicts s))),
                 (''value5'', Lit (show_nat (ps_skipped s)))]
         else fl ''ui-app-sync-completed-rclone-did-not-report-transfer'')"

section \<open>What a summary says\<close>

text \<open>
  A summary is marked destructive exactly when it counts a deletion, whatever the output of the run was: the
  mark and the counter are set together on every line, and on no line alone.
\<close>

definition marked :: "preview_parser \<Rightarrow> bool" where
  "marked p = (ps_destructive (pp_summary p) = (0 < ps_deletes (pp_summary p)))"

lemma marked_adds [simp]:
  "marked (add_upload p) = marked p" "marked (add_download p) = marked p" "marked (add_skip p) = marked p"
  "marked (add_conflict p) = marked p" "marked (add_native l p) = marked p" "marked (add_bytes b p) = marked p"
  "marked (add_delete p)" "marked (p\<lparr>pp_deletes := n\<rparr>) = marked p" "marked (p\<lparr>pp_copies := n\<rparr>) = marked p"
  "marked (p\<lparr>pp_direction := d\<rparr>) = marked p"
  by (simp_all add: marked_def add_upload_def add_download_def add_skip_def add_conflict_def add_native_def
      add_bytes_def add_delete_def Let_def split: option.split)

lemma marked_queued: "marked p \<Longrightarrow> queued_line l p = Some p' \<Longrightarrow> marked p'"
  by (auto simp: queued_line_def split: if_split_asm option.split_asm bool.split_asm)

lemma marked_other: "marked p \<Longrightarrow> marked (other_line l p)"
  by (simp add: other_line_def transfer_line_def Let_def)

lemma marked_line: "marked p \<Longrightarrow> marked (preview_line line p)"
  by (simp add: preview_line_def Let_def marked_other marked_queued split: option.split)

theorem destructive_iff_deletes:
  "ps_destructive (parse_preview output) \<longleftrightarrow> 0 < ps_deletes (parse_preview output)"
proof -
  have "marked (fold preview_line ls p)" if "marked p" for ls p
    using that by (induction ls arbitrary: p) (simp_all add: marked_line)
  from this [of preview_start] show ?thesis
    by (simp add: parse_preview_def marked_def preview_start_def empty_summary_def)
qed

text \<open>A deletion that a queue line announced is not counted again when the dry run skips it.\<close>

lemma queued_delete_counted_once:
  "ps_deletes (parse_preview (''Queue delete a'' @ [CHR 0x0A] @ ''Skipped delete as --dry-run is set'')) = 1"
  by code_simp

end
