(* ===== verification/Offline_Operations.thy ===== *)
theory Offline_Operations
  imports Online_Operations Preview_Summary
begin

text \<open>
  The operations on an Offline Mirror as the applet runs them (\<open>src/src/app.rs\<close>): a preview or a
  synchronization through the coordinator, the start and the stop of the background synchronization, the
  repair, and the restricted worker of systemd (\<open>src/src/bisync_worker.rs\<close>).  The mirrors that use a VPN are
  passed from operation to operation, as the code keeps them in one shared set.
\<close>

text \<open>\<open>CancellationToken::new()\<close>: a token that nobody else holds is never cancelled.\<close>

definition under_fresh_token :: "('e, 'a) prog \<Rightarrow> ('e, 'a) prog" where
  "under_fresh_token m = (\<lambda>env w. m (env\<lparr>e_cancelled := \<lambda>_. False\<rparr>) w)"

section \<open>The coordinator on the saved connection\<close>

definition work_root_for :: "execution_mode \<Rightarrow> path option \<Rightarrow> path option \<Rightarrow> path \<Rightarrow> path" where
  "work_root_for mode home state temporary =
     (let host_state = map_option (\<lambda>h. path_join h ''.local/state'') home;
          base = (if mode = FlatpakSpawnHost then host_state
                  else case state of Some s \<Rightarrow> Some s | None \<Rightarrow> host_state)
      in path_join (case base of Some b \<Rightarrow> b | None \<Rightarrow> temporary) ''cosmic-ext-applet-mounter'')"

definition coordinator_work_root :: "exec_env \<Rightarrow> ('e, path) prog" where
  "coordinator_work_root X =
     bindP (env_var ''HOME'') (\<lambda>home. bindP (env_var ''XDG_STATE_HOME'') (\<lambda>state.
     bindP temp_dir (\<lambda>temporary. ret (work_root_for (xe_mode X) home state temporary))))"

definition run_saved ::
  "'u app_runtime \<Rightarrow> connection_id \<Rightarrow> bisync_mode \<Rightarrow> path \<Rightarrow> (msg, bisync_outcome) prog" where
  "run_saved A cid mode work_root =
     bindP (load_report_of (ar_host A)) (\<lambda>report.
     if lr_source report \<noteq> SourceCurrent
     then fail (fl ''ui-bisync-coordinator-could-not-load-the-saved-offline-mirror'')
     else
     bindP (liftR (ok_or (fl ''ui-bisync-coordinator-the-offline-mirror-connection-was-removed'')
       (find (\<lambda>c. conn_id c = cid) (connections (lr_config report))))) (\<lambda>c.
     run_bisync (ar_lib A) c mode work_root))"

section \<open>The worker\<close>

datatype worker_request = Probe connection_id | RunMode bisync_mode connection_id

definition parse_request :: "(string \<Rightarrow> uuid option) \<Rightarrow> string list \<Rightarrow> worker_request res" where
  "parse_request parse_uuid arguments =
     (case arguments of
        [mode, text] \<Rightarrow>
          (case parse_uuid text of
             None \<Rightarrow> Inl (fl ''ui-bisync-worker-bisync-worker-received-an-invalid-connection-uuid'')
           | Some u \<Rightarrow>
               if mode = PROBE_MODE then Inr (Probe (ConnectionId u))
               else ok_or (fl ''ui-bisync-worker-bisync-worker-received-an-unsupported-mode'')
                      (map_option (\<lambda>m. RunMode m (ConnectionId u)) (mode_parse mode)))
      | _ \<Rightarrow> Inl (fl ''ui-bisync-worker-bisync-worker-requires-exactly-one-mode-and''))"

definition worker_completed :: "bisync_mode \<Rightarrow> connection_id \<Rightarrow> bisync_outcome \<Rightarrow> msg" where
  "worker_completed mode cid outcome =
     msg.Cat (Lit (''bisync-worker-completed '' @ mode_str mode @ '' '' @ conn_uuid cid)
          # (if bo_warnings outcome = [] then []
             else [Lit '' warning: '', Joined '' '' (bo_warnings outcome)]))"

definition run_worker :: "'u app_runtime \<Rightarrow> string list \<Rightarrow> (msg, msg) prog" where
  "run_worker A arguments =
     bindP (liftR (parse_request (ah_parse_uuid (ar_host A)) arguments)) (\<lambda>request.
     case request of
       Probe cid \<Rightarrow> ret (Lit (''bisync-worker-probe-ok '' @ conn_uuid cid))
     | RunMode mode cid \<Rightarrow>
         bindP (coordinator_work_root (app_exec A)) (\<lambda>work_root.
         bindP (under_fresh_token (run_saved A cid mode work_root)) (\<lambda>outcome.
           ret (worker_completed mode cid outcome))))"

text \<open>
  The command that a unit runs is read back by the worker as the mode and the connection it was written for,
  when a connection's identifier reads back as itself.
\<close>

theorem worker_command_roundtrip:
  assumes "bisync_service_command X mode cid = Inr command"
    and "parse_uuid (conn_uuid cid) = Some (conn_uuid cid)"
  shows "\<exists>launcher rest. sc_arguments command = launcher @ WORKER_FLAG # rest
     \<and> parse_request parse_uuid rest = Inr (RunMode mode cid)"
proof -
  have "parse_request parse_uuid [mode_str mode, conn_uuid cid] = Inr (RunMode mode cid)"
    using assms(2) by (cases mode; cases cid; simp add: parse_request_def PROBE_MODE_def mode_parse_def ok_or_def)
  moreover from assms(1) obtain launcher where
    "sc_arguments command = launcher @ [WORKER_FLAG, mode_str mode, conn_uuid cid]"
    by (auto simp: bisync_service_command_def guard_service_command_def service_command_for_mode_def bind_res_def ok_or_def
        split: execution_mode.split_asm sum.split_asm option.split_asm
        intro: that [of "[]"] that [of "[''run'', ''--command=cosmic-ext-applet-mounter'', APP_ID]"])
  ultimately show ?thesis by auto
qed

section \<open>The state of an operation\<close>

definition offline_coordinator_state_path :: "connection_id \<Rightarrow> ('e, path) prog" where
  "offline_coordinator_state_path cid = bindP default_work_root (\<lambda>work. ret (state_path work cid))"

definition record_operation ::
  "'u app_runtime \<Rightarrow> path \<Rightarrow> connection_id \<Rightarrow> offline_operation \<Rightarrow> offline_operation_state \<Rightarrow> (msg, unit) prog" where
  "record_operation A p cid oper st =
     bindP (new_state cid oper st) (\<lambda>s. write_state (cl_state (ar_lib A)) p s)"

fun tracked_offline_operation :: "operation \<Rightarrow> offline_operation" where
  "tracked_offline_operation PreviewInitialSync = OpPreview"
| "tracked_offline_operation SyncNow = OpSync"
| "tracked_offline_operation ResumeSync = OpResume"
| "tracked_offline_operation PauseSync = OpPause"
| "tracked_offline_operation _ = OpRepair"

text \<open>The first error of two results: that of the operation before that of the state.\<close>

definition first_error :: "'a res \<Rightarrow> unit res \<Rightarrow> 'a res" where
  "first_error result state_result =
     (case (result, state_result) of
        (Inr x, Inr _) \<Rightarrow> Inr x
      | (Inl e, _) \<Rightarrow> Inl e
      | (Inr _, Inl e) \<Rightarrow> Inl e)"

definition final_state :: "'a res \<Rightarrow> bool \<Rightarrow> offline_operation_state" where
  "final_state result cancelled =
     (if \<not> is_err result then StSucceeded else if cancelled then StCancelled else StFailed)"

text \<open>\<open>control.finish()\<close> follows on every path and is not shown: it wakes who waits for the operation.\<close>

definition run_tracked_offline_operation ::
  "'u app_runtime \<Rightarrow> connection \<Rightarrow> operation \<Rightarrow> (msg, 'a) prog \<Rightarrow> (msg, 'a) prog" where
  "run_tracked_offline_operation A c operation future =
     bindP (offline_coordinator_state_path (conn_id c)) (\<lambda>p.
     let tracked = tracked_offline_operation operation in
     bindP (tryP (seqP (record_operation A p (conn_id c) tracked StRunning) future)) (\<lambda>result.
     bindP is_cancelled (\<lambda>cancelled.
     bindP (tryP (record_operation A p (conn_id c) tracked (final_state result cancelled))) (\<lambda>state_result.
       liftR (first_error result state_result)))))"

section \<open>Finite runs\<close>

definition rclone_bisync_mode :: "'u app_runtime \<Rightarrow> connection \<Rightarrow> operation \<Rightarrow> (msg, bisync_mode) prog" where
  "rclone_bisync_mode A c operation =
     bindP (app_plan A c) (\<lambda>plan.
     bindP (path_is_file (initial_sync_marker plan)) (\<lambda>initialized.
     case operation of
       PreviewInitialSync \<Rightarrow> ret (if initialized then Preview else InitialPreview)
     | SyncNow \<Rightarrow> ret (if initialized then SyncRun else InitialSync)
     | _ \<Rightarrow> fail (fl ''ui-app-operation-is-not-a-finite-rclone-bisync'')))"

definition not_run_yet :: "bisync_mode \<Rightarrow> msg \<Rightarrow> msg" where
  "not_run_yet mode summary =
     (if mode = InitialPreview then Fl ''ui-app-summary-initial-sync-has-not-run-yet'' [(''summary'', summary)]
      else summary)"

definition onedrive_outcome_summary :: "bisync_mode \<Rightarrow> bisync_outcome \<Rightarrow> msg" where
  "onedrive_outcome_summary mode outcome =
     (let summary =
        (if mode \<in> {InitialPreview, Preview}
         then (case bo_preview_pending outcome of
                 Some (Inr n) \<Rightarrow> Fl ''onedrive-preview-differences'' [(''count'', Lit (show_nat n))]
               | _ \<Rightarrow> fl ''onedrive-preview-count-unavailable'')
         else if mode = Scheduled then fl ''onedrive-sync-completed''
         else fl ''onedrive-sync-checksum-verified'');
        told = not_run_yet mode summary
      in if bo_warnings outcome = [] then told
         else Fl ''onedrive-runtime-warning''
                [(''summary'', told), (''warning'', Joined '' '' (bo_warnings outcome))])"

definition rclone_bisync_outcome_summary :: "connection \<Rightarrow> bisync_mode \<Rightarrow> bisync_outcome \<Rightarrow> msg" where
  "rclone_bisync_outcome_summary c mode outcome =
     (if is_rclone_onedrive c then onedrive_outcome_summary mode outcome
      else
      let summary =
        (if mode \<in> {InitialPreview, Preview} then not_run_yet mode (preview_summary_text (bo_output outcome))
         else if mode = InitialSync
         then Fl ''ui-app-summary-initial-synchronization-is-now-recorded-as''
                [(''summary'', sync_output_summary (bo_output outcome))]
         else sync_output_summary (bo_output outcome))
      in if bo_warnings outcome = [] then summary
         else msg.Cat [summary, Lit '' Warning: '', Joined '' '' (bo_warnings outcome)])"

section \<open>The background synchronization\<close>

fun sync_rejection_message :: "sync_rejection \<Rightarrow> msg" where
  "sync_rejection_message RejectConcurrentRun = fl ''sync-rejection-concurrent''"
| "sync_rejection_message PreviewRequired = fl ''sync-rejection-preview''"
| "sync_rejection_message ConfirmationRequired = fl ''sync-rejection-confirmation''"
| "sync_rejection_message RejectResyncPreviewRequired = fl ''sync-rejection-resync''"

definition background_decision ::
  "'u app_runtime \<Rightarrow> connection \<Rightarrow> sync_decision \<Rightarrow> (msg, unit option) prog" where
  "background_decision A c decision =
     (case decision of
        Run \<Rightarrow> ensure_vpn_ready_for_connection (ar_host A) c
      | WaitForNetwork \<Rightarrow> fail (fl ''ui-app-background-sync-is-waiting-for-network-readiness'')
      | WaitForVpn \<Rightarrow> fail (fl ''ui-app-background-sync-is-waiting-for-vpn-readiness'')
      | PauseMetered \<Rightarrow> fail (fl ''ui-app-background-sync-is-paused-on-metered-networks'')
      | Reject rejection \<Rightarrow> fail (sync_rejection_message rejection))"

definition ensure_background_sync_may_start :: "'u app_runtime \<Rightarrow> connection \<Rightarrow> (msg, unit option) prog" where
  "ensure_background_sync_may_start A c =
     (case conn_mode c of
        OnlineMount _ \<Rightarrow> fail (fl ''ui-app-connection-is-not-an-offline-mirror'')
      | OfflineMirror options \<Rightarrow>
          bindP (strict_network_ready (ar_host A)) (\<lambda>ready.
          bindP (current_metered_network (ar_host A)) (\<lambda>metered.
          bindP (liftR (map_err sync_error_text (sync_now_request
             \<lparr>sr_trigger = ScheduledTrigger, preview_completed = True, user_confirmed = True,
              metered_network = metered, sr_running = False,
              readiness = \<lparr>network_ready = ready, vpn_ready = True\<rparr>\<rparr> options)))
            (background_decision A c))))"

definition release_after :: "'u app_runtime \<Rightarrow> operation_host \<Rightarrow> connection \<Rightarrow> msg res \<Rightarrow> (msg, msg) prog" where
  "release_after A H c result =
     bindP (ask_host (oh_users H)) (\<lambda>users.
     bindP (tryP (fst (finish_offline_vpn_use (ar_host A) c users))) (\<lambda>released.
       liftR (merge_offline_vpn_release result released)))"

definition start_background_units :: "'u app_runtime \<Rightarrow> connection \<Rightarrow> bisync_plan \<Rightarrow> (msg, msg) prog" where
  "start_background_units A c plan =
     seqP (whenP (is_rclone_onedrive c) (bindP (ar_verify A c) (\<lambda>_. ret ())))
    (seqP (install_rclone_offline_mirror_units_result A c)
    (bindP (liftR (map_err service_error_text (render_timer (ar_tr A) (bp_timer plan)))) (\<lambda>timer.
     seqP (map_errP service_error_text (app_manager A DaemonReload None True))
    (seqP (resume_rclone_timer_with (app_manager A) (ud_name timer))
          (ret (fl ''ui-app-background-sync-timer-started-use-sync-now''))))))"

text \<open>A VPN that the start connected is released when the rest of the start fails.\<close>

definition start_rclone_offline_mirror_background ::
  "'u app_runtime \<Rightarrow> operation_host \<Rightarrow> connection \<Rightarrow> bisync_plan \<Rightarrow> (msg, msg option) prog" where
  "start_rclone_offline_mirror_background A H c plan =
     bindP (path_exists (initial_sync_marker plan)) (\<lambda>initialized.
     if \<not> initialized then fail (fl ''ui-app-background-sync-requires-a-successful-preview-and'')
     else
     bindF (ensure_background_sync_may_start A c) (\<lambda>_.
     bindP (tryP (start_background_units A c plan)) (\<lambda>result.
       lifted (case result of Inr summary \<Rightarrow> ret summary | Inl e \<Rightarrow> release_after A H c (Inl e)))))"

section \<open>The operations of the popup\<close>

definition run_managed_offline_mirror_operation_result ::
  "'u app_runtime \<Rightarrow> operation_host \<Rightarrow> connection \<Rightarrow> operation \<Rightarrow> (msg, msg option) prog" where
  "run_managed_offline_mirror_operation_result A H c operation =
     seqP (prepare_offline_mirror_runtime (ar_lib A) c)
    (bindP (app_plan A c) (\<lambda>plan.
     if operation \<in> {PreviewInitialSync, SyncNow}
     then bindP (rclone_bisync_mode A c operation) (\<lambda>mode.
          bindP default_work_root (\<lambda>work.
          bindP (run_bisync (ar_lib A) c mode work) (\<lambda>outcome.
            ret (Some (rclone_bisync_outcome_summary c mode outcome)))))
     else if operation = ResumeSync then start_rclone_offline_mirror_background A H c plan
     else if operation = PauseSync then lifted (pause_rclone_background_with (app_manager A) plan)
     else fail (Fl ''ui-app-value1-is-not-a-managed-offline-mirror'' [(''value1'', operation_label operation)])))"

definition finite_operation :: "operation \<Rightarrow> bool" where
  "finite_operation operation = (operation \<in> {PreviewInitialSync, SyncNow})"

text \<open>A finite run goes through the coordinator, which keeps the state itself; the others are tracked here.\<close>

definition offline_operation_body ::
  "'u app_runtime \<Rightarrow> operation_host \<Rightarrow> connection \<Rightarrow> operation \<Rightarrow> (msg, msg option) prog" where
  "offline_operation_body A H c operation =
     (if operation \<in> {PauseSync, ResumeSync}
      then run_tracked_offline_operation A c operation (run_managed_offline_mirror_operation_result A H c operation)
      else bindP (rclone_bisync_mode A c operation) (\<lambda>mode.
           bindP default_work_root (\<lambda>work.
           bindP (run_saved A (conn_id c) mode work) (\<lambda>outcome.
             ret (Some (rclone_bisync_outcome_summary c mode outcome))))))"

definition operation_failed :: "operation \<Rightarrow> connection \<Rightarrow> msg \<Rightarrow> msg" where
  "operation_failed operation c e =
     Fl ''ui-app-label-failed-for-value2-error''
       [(''label'', operation_label operation), (''value2'', Lit (conn_name c)), (''error'', e)]"

definition operation_completed :: "operation \<Rightarrow> connection \<Rightarrow> msg \<Rightarrow> msg" where
  "operation_completed operation c summary =
     Fl ''ui-app-label-completed-for-value2-summary''
       [(''label'', operation_label operation), (''value2'', Lit (conn_name c)), (''summary'', summary)]"

definition operation_notice :: "operation \<Rightarrow> connection \<Rightarrow> msg res \<Rightarrow> msg" where
  "operation_notice operation c r =
     (case r of Inr summary \<Rightarrow> operation_completed operation c summary | Inl e \<Rightarrow> operation_failed operation c e)"

definition begin_use :: "'u app_runtime \<Rightarrow> operation_host \<Rightarrow> connection \<Rightarrow> (msg, unit option) prog" where
  "begin_use A H c =
     bindP (ask_host (oh_users H)) (\<lambda>users.
     bindF (begin_finite_offline_vpn_use (ar_host A) c users) (\<lambda>_. ret (Some ())))"

text \<open>After a finite run, and after a pause that succeeded, the VPN is released if nothing else uses it.\<close>

definition released_result ::
  "'u app_runtime \<Rightarrow> operation_host \<Rightarrow> connection \<Rightarrow> operation \<Rightarrow> msg res \<Rightarrow> (msg, msg) prog" where
  "released_result A H c operation result =
     (if finite_operation operation \<or> operation = PauseSync \<and> \<not> is_err result
      then release_after A H c result else liftR result)"

definition run_managed_offline_mirror_operation_with ::
  "(msg, msg option) prog \<Rightarrow> 'u app_runtime \<Rightarrow> operation_host \<Rightarrow> connection \<Rightarrow> operation
     \<Rightarrow> (msg, msg option) prog" where
  "run_managed_offline_mirror_operation_with body A H c operation =
     bindF (if finite_operation operation then begin_use A H c else ret (Some ())) (\<lambda>_.
     bindP (tryP body) (\<lambda>result.
     case result of
       Inr None \<Rightarrow> ret None
     | Inr (Some summary) \<Rightarrow> lifted (released_result A H c operation (Inr summary))
     | Inl e \<Rightarrow> lifted (released_result A H c operation (Inl e))))"

definition told_operation ::
  "operation \<Rightarrow> connection \<Rightarrow> (msg, msg option) prog \<Rightarrow> (unit, msg option) prog" where
  "told_operation operation c m =
     bindP (tryP m) (\<lambda>r.
       ret (case r of
              Inr None \<Rightarrow> None
            | Inr (Some summary) \<Rightarrow> Some (operation_completed operation c summary)
            | Inl e \<Rightarrow> Some (operation_failed operation c e)))"

definition run_managed_offline_mirror_operation ::
  "'u app_runtime \<Rightarrow> operation_host \<Rightarrow> connection \<Rightarrow> operation \<Rightarrow> (unit, msg option) prog" where
  "run_managed_offline_mirror_operation A H c operation =
     told_operation operation c
       (run_managed_offline_mirror_operation_with (offline_operation_body A H c operation) A H c operation)"

section \<open>A mirror of the former OneDrive client\<close>

definition onedrive_operation_result ::
  "'u app_runtime \<Rightarrow> connection \<Rightarrow> operation \<Rightarrow> (msg, msg option) prog" where
  "onedrive_operation_result A c operation =
     (if operation = PauseSync \<and> is_legacy_onedrive_mirror c
      then bindP is_cancelled (\<lambda>stop.
           if stop then fail (fl ''legacy-retirement-incomplete'')
           else seqP (retire_legacy_mirror_unit A c) (ret (Some (fl ''legacy-retirement-complete''))))
      else seqP (liftR (map_err unsupported_engine_text (ensure_supported_engine c)))
                (fail (fl ''ui-app-connection-is-not-an-offline-mirror'')))"

definition run_managed_onedrive_offline_mirror_operation ::
  "'u app_runtime \<Rightarrow> operation_host \<Rightarrow> connection \<Rightarrow> operation \<Rightarrow> (unit, msg option) prog" where
  "run_managed_onedrive_offline_mirror_operation A H c operation =
     (if operation \<noteq> PauseSync \<and> is_err (ensure_supported_engine c)
      then told_operation operation c
             (liftR (map_err unsupported_engine_text
                (case ensure_supported_engine c of Inl e \<Rightarrow> Inl e | Inr _ \<Rightarrow> Inr None)))
      else told_operation operation c
             (run_managed_offline_mirror_operation_with
                (run_tracked_offline_operation A c operation (onedrive_operation_result A c operation))
                A H c operation))"

section \<open>Repair\<close>

definition authoritative_offline_repair_connection :: "'u app_runtime \<Rightarrow> connection_id \<Rightarrow> (msg, connection) prog" where
  "authoritative_offline_repair_connection A cid =
     bindP (load_report_of (ar_host A)) (\<lambda>report.
     bindP (liftR (ok_or (fl ''ui-app-offline-mirror-connection-is-no-longer-available'')
       (find (\<lambda>c. conn_id c = cid) (connections (lr_config report))))) (\<lambda>c.
     seqP (liftR (offline_repair_plan_of c)) (ret c)))"

definition unit_problem :: "string \<Rightarrow> unit_name \<Rightarrow> msg" where
  "unit_problem key name = Fl key [(''value1'', Lit (file_name name))]"

definition verify_owned_unit :: "unit_store \<Rightarrow> unit_name \<Rightarrow> (msg, unit) prog" where
  "verify_owned_unit St name =
     bindP (map_errP service_error_text (st_state St name)) (\<lambda>s.
     if s = UnitManaged (un_connection_id name)
     then bindP (map_errP service_error_text (st_read St name)) (\<lambda>found.
          bindP (liftR (ok_or (unit_problem ''ui-app-managed-offline-mirror-unit-value1-is-missing'' name) found)) (\<lambda>content.
            map_errP (\<lambda>e. Fl ''ui-app-managed-offline-mirror-unit-value1-is-invalid''
                        [(''value1'', Lit (file_name name)), (''error'', service_error_text e)])
              (liftR (structural_validate \<lparr>ud_name = name, ud_content = content\<rparr>))))
     else if s = UnitMissing then fail (unit_problem ''ui-app-managed-offline-mirror-unit-value1-is-missing'' name)
     else fail (unit_problem ''ui-app-offline-mirror-unit-value1-is-not-owned'' name))"

definition verify_offline_repair_unit_ownership :: "'u app_runtime \<Rightarrow> offline_repair_plan \<Rightarrow> (msg, unit) prog" where
  "verify_offline_repair_unit_ownership A plan =
     bindP (app_store A) (\<lambda>St.
       seqP (verify_owned_unit St (rp_service plan))
            (case rp_timer plan of Some timer \<Rightarrow> verify_owned_unit St timer | None \<Rightarrow> ret ()))"

text \<open>
  \<open>manual\<close>: the control of a manual operation that is still known, and what \<open>cancel_and_wait\<close> answers,
  the value \<open>b\<close> of \<open>WDone b\<close> that the two tasks of the control reach.
\<close>

definition cancel_manual_offline_operation :: "(nat \<Rightarrow> bool) option \<Rightarrow> (msg, unit) prog" where
  "cancel_manual_offline_operation manual =
     (case manual of
        None \<Rightarrow> ret ()
      | Some completed \<Rightarrow>
          bindP (ask_host completed) (\<lambda>ended.
            if ended then ret () else fail (fl ''ui-app-the-manual-offline-mirror-operation-did-not'')))"

definition repair_locked ::
  "'u app_runtime \<Rightarrow> connection_id \<Rightarrow> path \<Rightarrow> (msg, unit) prog" where
  "repair_locked A cid p =
     bindP (map_errP (\<lambda>_. fl ''ui-app-another-process-still-owns-a-running-offline'')
       (acquire_operation_guard_for_state p)) (\<lambda>lock.
     bindP (tryP (record_operation A p cid OpRepair StRunning)) (\<lambda>r. seqP (unlock lock) (liftR r)))"

definition execute_coordinated_offline_repair ::
  "'u app_runtime \<Rightarrow> systemd_manager \<Rightarrow> offline_repair_plan \<Rightarrow> connection_id \<Rightarrow> (nat \<Rightarrow> bool) option \<Rightarrow> path
     \<Rightarrow> (msg, unit) prog" where
  "execute_coordinated_offline_repair A M plan cid manual p =
     seqP (pause_offline_repair_trigger M plan)
    (seqP (cancel_manual_offline_operation manual)
    (seqP (stop_disable_and_reconcile_offline_service M (rp_service plan))
          (repair_locked A cid p)))"

definition run_offline_mirror_repair_operation_result ::
  "'u app_runtime \<Rightarrow> connection \<Rightarrow> (nat \<Rightarrow> bool) option \<Rightarrow> (msg, offline_repair_engine) prog" where
  "run_offline_mirror_repair_operation_result A saved manual =
     bindP (authoritative_offline_repair_connection A (conn_id saved)) (\<lambda>c.
     seqP (liftR (map_err unsupported_engine_text (ensure_supported_engine c)))
    (bindP (liftR (offline_repair_plan_of c)) (\<lambda>plan.
     seqP (verify_offline_repair_unit_ownership A plan)
    (bindP (offline_coordinator_state_path (conn_id c)) (\<lambda>p.
     seqP (under_fresh_token (execute_coordinated_offline_repair A (app_manager A) plan (conn_id c) manual p))
          (ret (rp_engine plan)))))))"

definition repair_outcome :: "'a res \<Rightarrow> offline_operation_state" where
  "repair_outcome result = (if is_err result then StFailed else StPaused)"

text \<open>The outcome is recorded whatever the result was, and without the lock.\<close>

definition record_repair ::
  "'u app_runtime \<Rightarrow> connection_id \<Rightarrow> path \<Rightarrow> (msg, 'a) prog \<Rightarrow> (msg, 'a) prog" where
  "record_repair A cid p repair =
     bindP (tryP repair) (\<lambda>result.
     bindP (tryP (record_operation A p cid OpRepair (repair_outcome result))) (\<lambda>state_result.
       liftR (first_error result state_result)))"

definition repair_notice :: "connection \<Rightarrow> offline_repair_engine res \<Rightarrow> msg option \<Rightarrow> msg" where
  "repair_notice c result release =
     (let notice = (case result of
            Inr RcloneBisync \<Rightarrow> Fl ''ui-app-repair-completed-for-value1-its-timer-and'' [(''value1'', Lit (conn_name c))]
          | Inl e \<Rightarrow> Fl ''ui-app-repair-failed-for-value1-error'' [(''value1'', Lit (conn_name c)), (''error'', e)])
      in case release of
           None \<Rightarrow> notice
         | Some e \<Rightarrow> msg.Cat [notice, Lit '' VPN remains connected because automatic release failed: '', e])"

definition err_of :: "'e + 'a \<Rightarrow> 'e option" where
  "err_of r = (case r of Inl e \<Rightarrow> Some e | Inr _ \<Rightarrow> None)"

definition release_after_repair ::
  "'u app_runtime \<Rightarrow> operation_host \<Rightarrow> connection \<Rightarrow> 'a res \<Rightarrow> (unit, msg option) prog" where
  "release_after_repair A H c result =
     (if is_err result then ret None
      else bindP (ask_host (oh_users H)) (\<lambda>users.
           bindP (tryP (fst (finish_offline_vpn_use (ar_host A) c users))) (\<lambda>r. ret (err_of r))))"

definition run_offline_mirror_repair_operation ::
  "'u app_runtime \<Rightarrow> operation_host \<Rightarrow> connection \<Rightarrow> (nat \<Rightarrow> bool) option \<Rightarrow> (unit, msg) prog" where
  "run_offline_mirror_repair_operation A H c manual =
     bindP (offline_coordinator_state_path (conn_id c)) (\<lambda>p.
     bindP (tryP (record_repair A (conn_id c) p (run_offline_mirror_repair_operation_result A c manual))) (\<lambda>result.
     bindP (release_after_repair A H c result) (\<lambda>release. ret (repair_notice c result release))))"

end
