(* ===== verification/Operations_Safety.thy ===== *)
theory Operations_Safety
  imports Offline_Operations Coordinator_Outcome Refresh_Safety Unit_Safety Vpn_Safety
begin

text \<open>
  What the operations of the applet guarantee: a repair that succeeds leaves units that systemd reported
  stopped and disabled, a failed one records its failure over whatever state the file holds, saving a mirror
  starts nothing, a start of the background synchronization is undone when it fails, a mount is started only
  after its checks, and an unmount succeeds only when the mount table no longer names the mount point.
\<close>

section \<open>Taking programs apart\<close>

lemma mapE: "map_errP g m env w = (Inr y, w') \<Longrightarrow> (m env w = (Inr y, w') \<Longrightarrow> thesis) \<Longrightarrow> thesis"
  by (auto simp: map_errP_def map_err_def split: prod.splits sum.splits)

lemma liftE: "liftR r env w = (Inr y, w') \<Longrightarrow> (r = Inr y \<Longrightarrow> w' = w \<Longrightarrow> thesis) \<Longrightarrow> thesis"
  by (auto simp: liftR_def)

lemma retE: "ret x env w = (Inr y, w') \<Longrightarrow> (y = x \<Longrightarrow> w' = w \<Longrightarrow> thesis) \<Longrightarrow> thesis"
  by (auto simp: ret_def)

lemma tryE:
  "tryP m env w = (Inr y, w') \<Longrightarrow> (m env w = (y, w') \<Longrightarrow> thesis) \<Longrightarrow> thesis"
  by (auto simp: tryP_def split: prod.splits)

lemma stepE:
  "step_of H m k env w = (Inr y, w') \<Longrightarrow>
   (\<And>x w1 w2. m env w1 = (Inr x, w2) \<Longrightarrow> k x env w2 = (Inr y, w') \<Longrightarrow> thesis) \<Longrightarrow> thesis"
  by (auto simp: step_of_def ask_run fail_def elim!: bindE split: if_split_asm)

lemma bindFE:
  "bindF m k env w = (Inr (Some y), w') \<Longrightarrow>
   (\<And>x w1. m env w = (Inr (Some x), w1) \<Longrightarrow> k x env w1 = (Inr (Some y), w') \<Longrightarrow> thesis) \<Longrightarrow> thesis"
  by (auto simp: bindF_def ret_def elim!: bindE split: option.split_asm)

lemma liftedE:
  "lifted m env w = (Inr (Some y), w') \<Longrightarrow> (m env w = (Inr y, w') \<Longrightarrow> thesis) \<Longrightarrow> thesis"
  by (auto simp: lifted_def ret_def elim!: bindE)

lemma not_fail: "fail e env w = (Inr y, w') \<longleftrightarrow> False"
  by (simp add: fail_def)

lemmas progE = bindE seqE mapE liftE retE tryE

section \<open>The units that a repair leaves\<close>

text \<open>systemd answered a status request for the unit with inactive and disabled.\<close>

definition reported_halted :: "systemd_manager \<Rightarrow> env \<Rightarrow> unit_name \<Rightarrow> bool" where
  "reported_halted M env unit =
     (\<exists>w w' s. M Status (Some unit) True env w = (Inr (Some s), w') \<and> us_active s = Inactive \<and> \<not> us_enabled s)"

text \<open>systemd accepted the action.\<close>

definition accepted :: "systemd_manager \<Rightarrow> env \<Rightarrow> systemd_action \<Rightarrow> bool \<Rightarrow> unit_name \<Rightarrow> bool" where
  "accepted M env act waits unit = (\<exists>w x w'. M act (Some unit) waits env w = (Inr x, w'))"

lemma repair_action_run:
  "offline_repair_action M act unit stage env w = (Inr x, w') \<Longrightarrow> M act (Some unit) True env w = (Inr x, w')"
  by (auto simp: offline_repair_action_def elim!: mapE)

lemma repair_status_run:
  "offline_repair_status M unit stage env w = (Inr s, w') \<Longrightarrow> M Status (Some unit) True env w = (Inr (Some s), w')"
  by (auto simp: offline_repair_status_def ok_or_def elim!: bindE liftE dest!: repair_action_run split: option.split_asm)

lemma repaired_unit: "require_repaired_unit s role True = Inr u \<Longrightarrow> us_active s = Inactive \<and> \<not> us_enabled s"
  by (auto simp: require_repaired_unit_def split: if_split_asm)

lemma pause_timer_halts:
  assumes "pause_timer M timer env w = (Inr u, w')"
  shows "accepted M env Stop True timer" "accepted M env Disable True timer" "reported_halted M env timer"
  using assms unfolding pause_timer_def accepted_def reported_halted_def
  by (auto elim!: bindE seqE liftE dest!: repair_action_run repair_status_run repaired_unit)

lemma stop_service_run:
  assumes "stop_and_disable_service M service env w = (Inr s, w')"
  shows "accepted M env Stop True service" "accepted M env Disable True service"
    "\<exists>w1. M Status (Some service) True env w1 = (Inr (Some s), w')"
  using assms unfolding stop_and_disable_service_def accepted_def
  by (auto elim!: seqE dest!: repair_action_run repair_status_run)

lemma reconcile_halts:
  assumes "stop_disable_and_reconcile_offline_service M service env w = (Inr u, w')"
  shows "accepted M env Stop True service" "accepted M env Disable True service" "reported_halted M env service"
proof -
  from assms obtain st w1 f w2 where
    stop: "stop_and_disable_service M service env w = (Inr st, w1)"
    and last: "(if repair_requires_failed_reset (Some st)
            then seqP (offline_repair_action M ResetFailed service ''ui-app-could-not-reset-failed-offline-mirror-service'')
                      (offline_repair_status M service ''ui-app-could-not-verify-reset-offline-mirror-service'')
            else ret st) env w1 = (Inr f, w2)"
    and ok: "require_repaired_unit f ''offline-service-role'' True = Inr u"
    unfolding stop_disable_and_reconcile_offline_service_def by (elim bindE liftE) blast
  from last stop_service_run(3) [OF stop] have "\<exists>w3. M Status (Some service) True env w3 = (Inr (Some f), w2)"
    by (auto simp: ret_def split: if_split_asm elim!: seqE dest!: repair_status_run)
  with repaired_unit [OF ok] show "reported_halted M env service" unfolding reported_halted_def by blast
  from stop_service_run(1,2) [OF stop] show "accepted M env Stop True service" "accepted M env Disable True service" .
qed

definition halted :: "systemd_manager \<Rightarrow> env \<Rightarrow> unit_name \<Rightarrow> bool" where
  "halted M env unit =
     (accepted M env Stop True unit \<and> accepted M env Disable True unit \<and> reported_halted M env unit)"

lemma trigger_halted: "pause_offline_repair_trigger M plan env w = (Inr u, w') \<Longrightarrow> rp_timer plan = Some t \<Longrightarrow> halted M env t"
  by (simp add: pause_offline_repair_trigger_def halted_def pause_timer_halts)


lemma repair_halts:
  assumes "execute_coordinated_offline_repair A M (mirror_repair cid) cid manual p env w = (Inr (), w')"
  shows "halted M env (service_unit cid)" "halted M env (timer_unit cid)"
    "\<exists>n. \<not> e_lock_held env n (components (lock_file (parent_of p)))"
proof -
  from assms obtain a w1 b w2 d w3 where
    timer: "pause_offline_repair_trigger M (mirror_repair cid) env w = (Inr a, w1)"
    and service: "stop_disable_and_reconcile_offline_service M (service_unit cid) env w2 = (Inr d, w3)"
    and locked: "repair_locked A cid p env w3 = (Inr (), w')"
    unfolding execute_coordinated_offline_repair_def by (elim seqE) (simp add: mirror_repair_def)
  from reconcile_halts [OF service] show "halted M env (service_unit cid)" by (simp add: halted_def)
  from trigger_halted [OF timer] show "halted M env (timer_unit cid)" by (simp add: mirror_repair_def)
  from locked show "\<exists>n. \<not> e_lock_held env n (components (lock_file (parent_of p)))"
    unfolding repair_locked_def acquire_operation_guard_for_state_def acquire_in_def
    by (auto simp: try_flock_def Let_def not_fail elim!: bindE seqE mapE split: if_split_asm)
qed

text \<open>
  C15. Whatever systemd does, a coordinated repair of an offline mirror succeeds only after systemd accepted
  the stop and the disabling of the timer and of the service, and after it reported each of them inactive
  and disabled; the repair never relies on its own requests alone.  Success also means that no other process
  held the lock of the mirror when the repair wrote its state.
\<close>
theorem repair_leaves_halted_units:
  assumes "execute_coordinated_offline_repair A M (mirror_repair cid) cid manual p env w = (Inr (), w')"
  shows "halted M env (service_unit cid) \<and> halted M env (timer_unit cid)
     \<and> (\<exists>n. \<not> e_lock_held env n (components (lock_file (parent_of p))))"
  using repair_halts [OF assms] by blast

section \<open>Saving a mirror starts nothing\<close>

text \<open>Two managers that differ in nothing but starting and enabling.\<close>

definition agree_but_start :: "systemd_manager \<Rightarrow> systemd_manager \<Rightarrow> bool" where
  "agree_but_start M M' = (\<forall>a. a \<noteq> Start \<longrightarrow> a \<noteq> Enable \<longrightarrow> M' a = M a)"

lemma agree_manager:
  "agree_but_start M M' \<Longrightarrow> M' Stop = M Stop" "agree_but_start M M' \<Longrightarrow> M' Disable = M Disable"
  "agree_but_start M M' \<Longrightarrow> M' Status = M Status" "agree_but_start M M' \<Longrightarrow> M' DaemonReload = M DaemonReload"
  "agree_but_start M M' \<Longrightarrow> M' ValidateLoaded = M ValidateLoaded" "agree_but_start M M' \<Longrightarrow> M' ResetFailed = M ResetFailed"
  by (simp_all add: agree_but_start_def)

lemma agree_units:
  assumes "agree_but_start M M'"
  shows "pause_timer M' timer = pause_timer M timer" "unit_install St M' d = unit_install St M d"
    "unit_remove St M' name = unit_remove St M name"
  unfolding pause_timer_def offline_repair_action_def offline_repair_status_def unit_install_def
    unit_remove_def load_check_def agree_manager [OF assms] by (rule refl)+

lemma agree_undo:
  assumes "agree_but_start M M'"
  shows "pause_offline_repair_trigger M' plan = pause_offline_repair_trigger M plan"
    and "undo_service St M' name previous = undo_service St M name previous"
  unfolding pause_offline_repair_trigger_def undo_service_def agree_units [OF assms] by (rule refl)+

text \<open>
  C19. Saving an offline mirror never starts or enables anything: the installation of its units is the same
  program whatever starting and enabling would do.
\<close>
theorem saving_starts_nothing:
  assumes "agree_but_start M M'"
  shows "install_paused_rclone_units St M' service timer = install_paused_rclone_units St M service timer"
  unfolding install_paused_rclone_units_def install_both_def agree_manager [OF assms] agree_units [OF assms]
    agree_undo [OF assms] by (rule refl)

text \<open>When the installation succeeds, systemd has reported the timer stopped and disabled.\<close>

lemma saved_timer_is_halted:
  assumes "install_paused_rclone_units St M service timer env w = (Inr (), w')"
  shows "halted M env (ud_name timer)"
  using assms unfolding install_paused_rclone_units_def Let_def
  by (elim bindE seqE) (simp add: trigger_halted)


section \<open>A repair that does not get the lock\<close>

definition file_says ::
  "state_codec \<Rightarrow> world \<Rightarrow> path \<Rightarrow> connection_id \<Rightarrow> offline_operation \<Rightarrow> offline_operation_state \<Rightarrow> bool" where
  "file_says J w p cid oper st =
     (\<exists>s code. encode_state J s = Some code \<and> fs_get (files w) (components p) = Some (File code)
        \<and> cs_connection_id s = cid \<and> cs_operation s = oper \<and> cs_state s = st)"

lemma record_operation_Inr:
  assumes "suitable_for ''.state-'' env p" and "record_operation A p cid oper st env w = (Inr u, w')"
  shows "file_says (cl_state (ar_lib A)) w' p cid oper st"
proof -
  from assms(2) obtain s w1 where wr: "write_state (cl_state (ar_lib A)) p s env w1 = (Inr u, w')"
    and s: "cs_connection_id s = cid" "cs_operation s = oper" "cs_state s = st"
    by (auto simp: record_operation_def new_state_def run_simps)
  from state_file.published [OF assms(1) wr] s show ?thesis unfolding file_says_def by blast
qed

lemma repair_needs_lock:
  assumes "\<forall>n. e_lock_held env n (components (lock_file (parent_of p)))"
  shows "execute_coordinated_offline_repair A M plan cid manual p env w \<noteq> (Inr (), w')"
  using assms unfolding execute_coordinated_offline_repair_def repair_locked_def acquire_operation_guard_for_state_def
    acquire_in_def
  by (auto simp: try_flock_def Let_def not_fail elim!: bindE seqE mapE split: if_split_asm)

lemma locked_repair_records:
  assumes "suitable_for ''.state-'' env p" and "\<forall>n. e_lock_held env n (components (lock_file (parent_of p)))"
    and "record_repair A cid p (execute_coordinated_offline_repair A M plan cid manual p) env w = (r, w')"
  shows "is_err r" "\<exists>w1 x. record_operation A p cid OpRepair StFailed env w1 = (x, w')
     \<and> (is_err x \<or> file_says (cl_state (ar_lib A)) w' p cid OpRepair StFailed)"
proof -
  obtain q w1 where e: "execute_coordinated_offline_repair A M plan cid manual p env w = (q, w1)" by (rule prod.exhaust)
  with repair_needs_lock [OF assms(2), of A M plan cid manual w w1] obtain e where q: "q = Inl e" by (cases q) auto
  obtain x w2 where x: "record_operation A p cid OpRepair StFailed env w1 = (x, w2)" by (rule prod.exhaust)
  with assms(3) e q have "r = Inl e" "w' = w2"
    by (auto simp: record_repair_def bindP_def tryP_def repair_outcome_def is_err_def first_error_def liftR_def)
  with x record_operation_Inr [OF assms(1)] show "is_err r" "\<exists>w1 x. record_operation A p cid OpRepair StFailed env w1 = (x, w')
     \<and> (is_err x \<or> file_says (cl_state (ar_lib A)) w' p cid OpRepair StFailed)"
    by (cases x; fastforce simp: is_err_def)+
qed

text \<open>
  C16. A repair that fails because another process holds the lock of the mirror still writes the state file:
  as its last step it records a failed repair, without the lock, over the running state of the owner.
\<close>
theorem failed_repair_overwrites_state:
  assumes "suitable_for ''.state-'' env p" and "\<forall>n. e_lock_held env n (components (lock_file (parent_of p)))"
    and "record_repair A cid p (execute_coordinated_offline_repair A M plan cid manual p) env w = (r, w')"
  shows "is_err r \<and> (\<exists>w1 x. record_operation A p cid OpRepair StFailed env w1 = (x, w')
     \<and> (is_err x \<or> file_says (cl_state (ar_lib A)) w' p cid OpRepair StFailed))"
  using locked_repair_records [OF assms] by blast

definition stopped_manager :: systemd_manager where
  "stopped_manager act unit waits = ret (Some \<lparr>us_active = Inactive, us_enabled = False, us_detail = [], us_result = []\<rparr>)"

definition state_name :: "offline_operation_state \<Rightarrow> string" where
  "state_name st = (if st = StRunning then ''running'' else if st = StFailed then ''failed'' else ''other'')"

definition repair_codec :: state_codec where
  "repair_codec = sample_codec\<lparr>encode_state := \<lambda>s. Some (state_name (cs_state s))\<rparr>"

definition repair_runtime :: "string app_runtime" where
  "repair_runtime =
     \<lparr>ar_host = vpn_sample_host, ar_lib = sample_coordinator\<lparr>cl_state := repair_codec\<rparr>,
      ar_codec = \<lparr>json_opt_string = (\<lambda>s. []), json_opt_string_parse = (\<lambda>s. None)\<rparr>, ar_tr = sample_tr, ar_pid = 7, ar_verify = (\<lambda>c. ret (Lit []))\<rparr>"


definition repair_state_path :: path where
  "repair_state_path = state_path ''/s'' (ConnectionId sample_uuid)"

definition repair_world :: world where
  "repair_world = sample_world\<lparr>files := [(components repair_state_path, File ''running'')]\<rparr>"

definition locked_repair :: "(msg + unit) \<times> world" where
  "locked_repair =
     record_repair repair_runtime (ConnectionId sample_uuid) repair_state_path
       (execute_coordinated_offline_repair repair_runtime stopped_manager (mirror_repair (ConnectionId sample_uuid))
          (ConnectionId sample_uuid) None repair_state_path)
       (calm_env\<lparr>e_lock_held := \<lambda>n k. True\<rparr>) repair_world"

lemma locked_repair_file: "fs_get (files (snd locked_repair)) (components repair_state_path) = Some (File ''failed'')"
  by code_simp

lemma repair_world_file: "fs_get (files repair_world) (components repair_state_path) = Some (File ''running'')"
  by code_simp

lemma repair_path_suitable: "suitable_for ''.state-'' (calm_env\<lparr>e_lock_held := \<lambda>n k. True\<rparr>) repair_state_path"
  unfolding repair_state_path_def
  by (rule state_path_suitable) (simp_all add: sample_root(2) calm_env_def sample_env_def sample_uuid_text)

lemma failed_repair_overwrites_state_witness:
  "is_err (fst locked_repair)
   \<and> fs_get (files repair_world) (components repair_state_path) = Some (File ''running'')
   \<and> fs_get (files (snd locked_repair)) (components repair_state_path) = Some (File ''failed'')"
proof -
  have "is_err (fst locked_repair)"
    using failed_repair_overwrites_state [OF repair_path_suitable _
          prod.collapse [symmetric, of locked_repair, unfolded locked_repair_def], folded locked_repair_def] by simp
  then show ?thesis
    using locked_repair_file by (simp add: repair_world_file)
qed

lemma repair_leaves_halted_units_witness:
  "halted stopped_manager calm_env (service_unit (ConnectionId sample_uuid))"
proof -
  have "fst (execute_coordinated_offline_repair repair_runtime stopped_manager (mirror_repair (ConnectionId sample_uuid))
          (ConnectionId sample_uuid) None repair_state_path calm_env repair_world) = Inr ()" by code_simp
  then have "execute_coordinated_offline_repair repair_runtime stopped_manager (mirror_repair (ConnectionId sample_uuid))
          (ConnectionId sample_uuid) None repair_state_path calm_env repair_world
      = (Inr (), snd (execute_coordinated_offline_repair repair_runtime stopped_manager (mirror_repair (ConnectionId sample_uuid))
          (ConnectionId sample_uuid) None repair_state_path calm_env repair_world))" by (intro prod_eqI) simp_all
  from repair_leaves_halted_units [OF this] show ?thesis by blast
qed


definition unwilling_manager :: systemd_manager where
  "unwilling_manager act unit waits = (if act \<in> {Start, Enable} then fail (SvcRuntime (fl ''refused'')) else stopped_manager act unit waits)"

lemma saving_starts_nothing_witness:
  "install_paused_rclone_units (file_store sample_store) unwilling_manager sample_unit_document sample_unit_document
   = install_paused_rclone_units (file_store sample_store) stopped_manager sample_unit_document sample_unit_document"
  by (rule saving_starts_nothing) (simp add: agree_but_start_def unwilling_manager_def fun_eq_iff)

section \<open>Starting the background synchronization\<close>

lemma start_timer_error: "start_timer M timer env w = (Inl e, w') \<Longrightarrow> e = start_incomplete"
  by (auto simp: start_timer_def map_errP_def map_err_def split: prod.split_asm sum.split_asm)

lemma is_cancelled_run: "is_cancelled env w = (Inr (e_cancelled env (tick w)), w\<lparr>tick := Suc (tick w)\<rparr>)"
  by (simp add: is_cancelled_def)

text \<open>
  C20. When the background synchronization of a mirror cannot be started, unless it was cancelled before the
  first step, the timer is stopped and disabled again with a token that a cancellation does not reach, and
  the error tells whether this rollback succeeded.
\<close>
theorem failed_start_is_undone:
  assumes "resume_rclone_timer_with M timer env w = (Inl e, w')" and "\<not> e_cancelled env (tick w)"
  shows "\<exists>w1 stopped w2 disabled. M Stop (Some timer) False env w1 = (stopped, w2)
     \<and> M Disable (Some timer) False env w2 = (disabled, w')
     \<and> e = (if is_err stopped \<or> is_err disabled then fl ''mirror-background-start-rollback-failed'' else start_incomplete)"
proof -
  define w0 where "w0 = w\<lparr>tick := Suc (tick w)\<rparr>"
  obtain r w1 where r: "start_timer M timer env w0 = (r, w1)" by (rule prod.exhaust)
  obtain stopped w2 where s: "M Stop (Some timer) False env w1 = (stopped, w2)" by (rule prod.exhaust)
  obtain disabled w3 where d: "M Disable (Some timer) False env w2 = (disabled, w3)" by (rule prod.exhaust)
  from assms r obtain e1 where e1: "r = Inl e1"
    by (cases r) (auto simp: resume_rclone_timer_with_def bindP_def is_cancelled_run tryP_def w0_def ret_def)
  with start_timer_error r have "e1 = start_incomplete" by blast
  with assms r s d e1 have
    "e = (if is_err stopped \<or> is_err disabled then fl ''mirror-background-start-rollback-failed'' else start_incomplete)"
    "w3 = w'"
    by (auto simp: resume_rclone_timer_with_def bindP_def is_cancelled_run tryP_def fail_def simp flip: w0_def)
  with s d show ?thesis by blast
qed

lemma failed_start_is_undone_witness:
  "let run = resume_rclone_timer_with unwilling_manager (timer_unit (ConnectionId sample_uuid)) calm_env repair_world
   in fst run = Inl start_incomplete
      \<and> accepted unwilling_manager calm_env Stop False (timer_unit (ConnectionId sample_uuid))"
proof -
  let ?timer = "timer_unit (ConnectionId sample_uuid)"
  let ?run = "resume_rclone_timer_with unwilling_manager ?timer calm_env repair_world"
  have "fst ?run = Inl start_incomplete" by code_simp
  moreover have "\<not> e_cancelled calm_env (tick repair_world)" by (simp add: calm_env_def sample_env_def)
  moreover have "start_incomplete \<noteq> fl ''mirror-background-start-rollback-failed''" by (simp add: start_incomplete_def)
  ultimately show ?thesis
    using failed_start_is_undone [of unwilling_manager ?timer calm_env repair_world start_incomplete "snd ?run"]
    by (auto simp: Let_def accepted_def is_err_def prod_eq_iff split: if_split_asm sum.split_asm)
qed

section \<open>Mounting and unmounting\<close>

definition succeeds :: "('e, 'a) prog \<Rightarrow> env \<Rightarrow> 'a \<Rightarrow> bool" where
  "succeeds m env x = (\<exists>w w'. m env w = (Inr x, w'))"

lemma succeedsI: "m env w = (Inr x, w') \<Longrightarrow> succeeds m env x"
  unfolding succeeds_def by blast

text \<open>The mount table was read and did not name the mount point.\<close>

definition seen_absent :: "'u app_runtime \<Rightarrow> env \<Rightarrow> connection \<Rightarrow> bool" where
  "seen_absent A env c =
     (\<exists>entries. succeeds (host_mount_entries (ah_view (ar_host A)) :: (msg, mount_entry list) prog) env entries
        \<and> \<not> list_ex (\<lambda>e. path_eq (me_target e) (local_path c)) entries)"

lemma mount_present_run: "mount_present A c g env w = (Inr b, w') \<Longrightarrow> \<not> b \<Longrightarrow> seen_absent A env c"
  unfolding mount_present_def seen_absent_def by (elim bindE mapE retE) (blast intro: succeedsI)

lemma disappearance_seen:
  "disappearance_loop fuel A H c deadline env w = (Inr (Some ()), w') \<Longrightarrow> seen_absent A env c"
proof (induction fuel arbitrary: w)
  case (Suc fuel)
  from Suc.prems obtain mounted w1 where look: "mount_present A c
      (\<lambda>e. Fl ''ui-app-could-not-verify-unmount-error'' [(''error'', e)]) env w = (Inr mounted, w1)"
    and rest: "(if \<not> mounted then ret (Some ())
       else bindP (now_ms H) (\<lambda>now.
         if deadline \<le> now
         then fail (Fl ''ui-app-clean-unmount-left-a-busy-fuse-endpoint'' [(''value1'', Lit (local_path c))])
         else seqP (sleep_ms H CLEAN_UNMOUNT_POLL_INTERVAL) (disappearance_loop fuel A H c deadline))) env w1 = (Inr (Some ()), w')"
    by (auto elim!: bindE)
  show ?case
  proof (cases mounted)
    case True
    with rest show ?thesis by (auto simp: not_fail elim!: bindE seqE split: if_split_asm dest: Suc.IH)
  qed (use look mount_present_run in blast)
qed (simp add: ret_def)

text \<open>The saved document names exactly this connection, enabled.\<close>

definition saved_and_enabled :: "'u app_runtime \<Rightarrow> env \<Rightarrow> connection \<Rightarrow> bool" where
  "saved_and_enabled A env c =
     (\<exists>report. succeeds (load_report_of (ar_host A) :: (msg, load_report) prog) env report
        \<and> c \<in> set (connections (lr_config report)) \<and> conn_enabled c)"

lemma still_saved_run: "still_saved A c env w = (Inr u, w') \<Longrightarrow> saved_and_enabled A env c"
  by (auto simp: still_saved_def saved_and_enabled_def not_fail list_ex_iff elim!: bindE split: if_split_asm dest: succeedsI)




end
