(* ===== verification/Editor.thy ===== *)
theory Editor
  imports App_Units Preview_Summary
begin

text \<open>
  Editing a connection (\<open>src/src/app.rs\<close>): the draft of the settings window, its translation from and to a
  connection, the checks before a save, the save with the installation of the units, the removal and the
  reordering of connections.  The fields that only fill in the forms for a new remote (SMB, SFTP and Google
  credentials) are not read here and are left out of the draft.
\<close>

section \<open>The draft\<close>

record connection_draft =
  cd_id :: "connection_id option"
  cd_name :: string
  cd_provider :: provider
  cd_access_mode :: access_mode
  cd_offline_engine :: "offline_engine option"
  cd_legacy_onedrive :: bool
  cd_onedrive_identity :: "onedrive_identity option"
  cd_onedrive_drive_type :: onedrive_drive_type
  cd_onedrive_expected_account :: string
  cd_remote_reference :: string
  cd_remote_subpath :: string
  cd_sharepoint_library_url :: string
  cd_teams_drive_id :: string
  cd_local_path :: string
  cd_enabled :: bool
  cd_start_at_login :: bool
  cd_cache_limit_gib :: string
  cd_sync_interval_minutes :: string
  cd_sync_on_metered :: bool
  cd_recovery_directory :: string
  cd_vpn_profile_id :: "vpn_profile_id option"
  cd_disconnect_vpn_when_unused :: bool
  cd_preload_use_global :: bool
  cd_preload_enabled :: bool
  cd_preload_seconds :: string
  cd_preload_depth :: string

definition draft_is_onedrive_rclone :: "connection_draft \<Rightarrow> bool" where
  "draft_is_onedrive_rclone d =
     (cd_provider d = OneDrive \<and> cd_access_mode d = OfflineMirrorMode \<and> \<not> cd_legacy_onedrive d)"

definition access_mode_for_connection :: "connection \<Rightarrow> access_mode" where
  "access_mode_for_connection c = mode_kind (conn_mode c)"

text \<open>What the draft shows of the mode: startup, cache limit, interval, metered and recovery directory.\<close>

fun drafted_mode :: "connection_mode \<Rightarrow> bool \<times> string \<times> string \<times> bool \<times> string" where
  "drafted_mode (OnlineMount v) =
     (start_at_login v, show_nat (unat (cache_limit_bytes v) div (1024 * 1024 * 1024)), ''15'', False, [])"
| "drafted_mode (OfflineMirror v) =
     (False, ''20'', show_nat (unat (sync_interval_minutes v)), sync_on_metered v, recovery_directory v)"

definition drafted_override :: "connection \<Rightarrow> preload_override option" where
  "drafted_override c = (if conn_provider c = Sftp then sftp_preload_override c else smb_preload_override c)"

definition drafted_preload_default :: "connection \<Rightarrow> preload_policy" where
  "drafted_preload_default c = (if conn_provider c = Sftp then sftp_default else smb default_preload_settings)"

definition draft_from_connection :: "connection \<Rightarrow> connection_draft" where
  "draft_from_connection c =
     (case drafted_mode (conn_mode c) of (at_login, cache, interval, metered, recovery) \<Rightarrow>
      let shown = drafted_override c; policy = drafted_preload_default c in
      \<lparr>cd_id = Some (conn_id c), cd_name = conn_name c, cd_provider = conn_provider c,
       cd_access_mode = mode_kind (conn_mode c),
       cd_offline_engine = (case conn_mode c of OfflineMirror v \<Rightarrow> engine v | OnlineMount _ \<Rightarrow> None),
       cd_legacy_onedrive = (conn_provider c = OneDrive \<and> conn_offline_engine c = Some LegacyOnedrive),
       cd_onedrive_identity = conn_onedrive_identity c,
       cd_onedrive_drive_type = (case conn_onedrive_identity c of Some i \<Rightarrow> od_drive_type i | None \<Rightarrow> Personal),
       cd_onedrive_expected_account = [],
       cd_remote_reference = remote_reference c,
       cd_remote_subpath = (case remote_subpath c of Some s \<Rightarrow> s | None \<Rightarrow> []),
       cd_sharepoint_library_url = (case teams_identity c of Some i \<Rightarrow> library_url i | None \<Rightarrow> []),
       cd_teams_drive_id = (case teams_identity c of Some i \<Rightarrow> sp_drive_id i | None \<Rightarrow> []),
       cd_local_path = local_path c, cd_enabled = conn_enabled c, cd_start_at_login = at_login,
       cd_cache_limit_gib = cache, cd_sync_interval_minutes = interval, cd_sync_on_metered = metered,
       cd_recovery_directory = recovery, cd_vpn_profile_id = vpn_profile_id c,
       cd_disconnect_vpn_when_unused = disconnect_vpn_when_unused c,
       cd_preload_use_global = (shown = None),
       cd_preload_enabled = (case shown of Some v \<Rightarrow> po_enabled v | None \<Rightarrow> pp_enabled policy),
       cd_preload_seconds = show_nat (unat (case shown of Some v \<Rightarrow> po_maximum_seconds v | None \<Rightarrow> pp_maximum_seconds policy)),
       cd_preload_depth = show_nat (unat (case shown of Some v \<Rightarrow> po_maximum_depth v
           | None \<Rightarrow> (case pp_maximum_depth policy of Some d \<Rightarrow> d | None \<Rightarrow> 2)))\<rparr>)"

section \<open>Reading the draft\<close>

text \<open>
  What reading a draft needs beside it: the home directory, the identifier for a new connection, the URL
  library and the text form of a path component.
\<close>

record 'u editor_host =
  ed_home :: "path option"
  ed_fresh :: connection_id
  ed_url :: "'u url_lib"

definition expand_user_path :: "path option \<Rightarrow> string \<Rightarrow> path" where
  "expand_user_path home v =
     (if v = ''~'' then (case home of Some h \<Rightarrow> h | None \<Rightarrow> v)
      else if prefix ''~/'' v then (case home of Some h \<Rightarrow> path_join h (drop 2 v) | None \<Rightarrow> v)
      else v)"

definition safe_path_component :: "string \<Rightarrow> string" where
  "safe_path_component v =
     concat (map (\<lambda>g. case g of
         [c] \<Rightarrow> if is_ascii_alphanumeric c \<or> c \<in> {CHR ''.'', CHR ''-'', CHR ''_''} then [c] else ''_''
       | _ \<Rightarrow> ''_'') (utf8_chars v))"

definition parent_text :: "path \<Rightarrow> path" where
  "parent_text p =
     (if \<not> has_parent p then ''.''
      else if is_absolute p then render_abs (butlast (components p))
      else join ''/'' (map comp_text (butlast (components p))))"

definition default_recovery_directory_for :: "path \<Rightarrow> connection_id \<Rightarrow> path" where
  "default_recovery_directory_for p cid =
     (let leaf = (case path_file_name p of
            Some n \<Rightarrow> (if safe_path_component n = [] then ''mirror'' else safe_path_component n)
          | None \<Rightarrow> ''mirror'')
      in path_join (path_join (parent_text p) ''.cosmic-mounter-recovery'') (leaf @ ''-'' @ conn_uuid cid))"

definition GIB_BYTES :: nat where "GIB_BYTES = 1024 * 1024 * 1024"

definition online_from_draft :: "connection_draft \<Rightarrow> connection_mode res" where
  "online_from_draft d =
     (case parse_unsigned U64_MAX (trim (cd_cache_limit_gib d)) of
        None \<Rightarrow> Inl (fl ''validation-cache-limit'')
      | Some gib \<Rightarrow>
          Inr (OnlineMount \<lparr>cache_directory = None, cache_limit_bytes = of_nat (sat_mul_u64 gib GIB_BYTES),
                            start_at_login = cd_start_at_login d\<rparr>))"

definition mirror_from_draft :: "'u editor_host \<Rightarrow> connection_draft \<Rightarrow> connection_id \<Rightarrow> path \<Rightarrow> connection_mode res" where
  "mirror_from_draft E d cid target =
     (case parse_unsigned (2 ^ 32 - 1) (trim (cd_sync_interval_minutes d)) of
        None \<Rightarrow> Inl (fl ''validation-sync-interval'')
      | Some minutes \<Rightarrow>
          Inr (OfflineMirror
            \<lparr>engine = (if cd_provider d = OneDrive \<and> \<not> cd_legacy_onedrive d then Some Rclone else cd_offline_engine d),
             recovery_directory = (if trim (cd_recovery_directory d) = [] then default_recovery_directory_for target cid
                                   else expand_user_path (ed_home E) (trim (cd_recovery_directory d))),
             sync_interval_minutes = of_nat minutes, sync_on_metered = cd_sync_on_metered d\<rparr>))"

definition mode_from_draft :: "'u editor_host \<Rightarrow> connection_draft \<Rightarrow> connection_id \<Rightarrow> path \<Rightarrow> connection_mode res" where
  "mode_from_draft E d cid target =
     (case cd_access_mode d of
        OnlineMountMode \<Rightarrow> online_from_draft d
      | OfflineMirrorMode \<Rightarrow> mirror_from_draft E d cid target)"

definition bounded_message :: "string \<Rightarrow> 'a::len word \<Rightarrow> 'a word \<Rightarrow> msg" where
  "bounded_message key lo hi = Fl key [(''min'', word_text lo), (''max'', word_text hi)]"

definition preload_time_message :: msg where
  "preload_time_message = bounded_message ''validation-connection-preload-time'' MIN_PRELOAD_SECONDS MAX_PRELOAD_SECONDS"

definition preload_depth_message :: msg where
  "preload_depth_message = bounded_message ''validation-connection-preload-depth'' MIN_PRELOAD_DEPTH MAX_PRELOAD_DEPTH"

definition within :: "'a::len word \<Rightarrow> nat \<Rightarrow> 'a word \<Rightarrow> bool" where
  "within lo n hi = (unat lo \<le> n \<and> n \<le> unat hi)"

definition override_from_draft :: "connection_draft \<Rightarrow> preload_override option res" where
  "override_from_draft d =
     (if cd_provider d \<in> {Smb, Sftp} \<and> cd_access_mode d = OnlineMountMode \<and> \<not> cd_preload_use_global d
      then
        bind_res (ok_or preload_time_message (parse_unsigned U64_MAX (trim (cd_preload_seconds d)))) (\<lambda>seconds.
        bind_res (ok_or preload_depth_message (parse_unsigned 255 (trim (cd_preload_depth d)))) (\<lambda>depth.
        if \<not> within MIN_PRELOAD_SECONDS seconds MAX_PRELOAD_SECONDS then Inl preload_time_message
        else if \<not> within MIN_PRELOAD_DEPTH depth MAX_PRELOAD_DEPTH then Inl preload_depth_message
        else Inr (Some \<lparr>po_enabled = cd_preload_enabled d, po_maximum_seconds = of_nat seconds,
                        po_maximum_depth = of_nat depth\<rparr>)))
      else Inr None)"

definition teams_from_draft :: "'u editor_host \<Rightarrow> connection_draft \<Rightarrow> sharepoint_identity option res" where
  "teams_from_draft E d =
     (if cd_provider d = Teams
      then bind_res (parse_library_url (ed_url E) (cd_sharepoint_library_url d)) (\<lambda>i.
             Inr (Some (i\<lparr>sp_drive_id := cd_teams_drive_id d\<rparr>)))
      else Inr None)"

definition connection_from_draft :: "'u editor_host \<Rightarrow> connection_draft \<Rightarrow> connection res" where
  "connection_from_draft E d =
     (let cid = (case cd_id d of Some i \<Rightarrow> i | None \<Rightarrow> ed_fresh E) in
      if trim (cd_name d) = [] then Inl (fl ''validation-name-required'')
      else if trim (cd_remote_reference d) = [] then Inl (fl ''validation-remote-required'')
      else if trim (cd_local_path d) = [] then Inl (fl ''validation-local-required'')
      else
      let target = expand_user_path (ed_home E) (trim (cd_local_path d)) in
      bind_res (teams_from_draft E d) (\<lambda>teams.
      bind_res (mode_from_draft E d cid target) (\<lambda>mode.
      bind_res (override_from_draft d) (\<lambda>override.
        Inr \<lparr>conn_id = cid, conn_name = trim (cd_name d), conn_provider = cd_provider d, conn_mode = mode,
             remote_reference = trim (cd_remote_reference d),
             remote_subpath = (if trim (cd_remote_subpath d) = [] then None else Some (trim (cd_remote_subpath d))),
             local_path = target, conn_enabled = cd_enabled d, vpn_profile_id = cd_vpn_profile_id d,
             disconnect_vpn_when_unused = cd_disconnect_vpn_when_unused d, conn_tuning_profile = Balanced,
             smb_preload_override = (if cd_provider d = Smb then override else None),
             sftp_preload_override = (if cd_provider d = Sftp then override else None),
             teams_identity = teams, conn_onedrive_identity = cd_onedrive_identity d\<rparr>))))"

definition sharepoint_verification_matches_draft :: "'u editor_host \<Rightarrow> connection_draft \<Rightarrow> connection \<Rightarrow> bool" where
  "sharepoint_verification_matches_draft E d verified =
     (case connection_from_draft E d of
        Inl _ \<Rightarrow> False
      | Inr current \<Rightarrow>
          current\<lparr>conn_id := conn_id verified,
                  teams_identity := (case (teams_identity current, teams_identity verified) of
                     (Some i, Some j) \<Rightarrow> Some (i\<lparr>sp_drive_id := sp_drive_id j\<rparr>) | (i, _) \<Rightarrow> i)\<rparr> = verified)"

definition onedrive_validation_matches_draft :: "'u editor_host \<Rightarrow> connection_draft \<Rightarrow> connection \<Rightarrow> bool" where
  "onedrive_validation_matches_draft E d c =
     (draft_is_onedrive_rclone d \<and> connection_from_draft E d = Inr c)"

section \<open>The preload settings window\<close>

record preload_policy_draft =
  pd_enabled :: bool
  pd_maximum_seconds :: string
  pd_maximum_depth :: "string option"

definition policy_draft :: "preload_policy \<Rightarrow> preload_policy_draft" where
  "policy_draft p =
     \<lparr>pd_enabled = pp_enabled p, pd_maximum_seconds = show_nat (unat (pp_maximum_seconds p)),
      pd_maximum_depth = map_option (\<lambda>d. show_nat (unat d)) (pp_maximum_depth p)\<rparr>"

record preload_settings_draft =
  psd_google_drive :: preload_policy_draft
  psd_onedrive :: preload_policy_draft
  psd_box_provider :: preload_policy_draft
  psd_sharepoint :: preload_policy_draft
  psd_smb :: preload_policy_draft
  psd_sftp :: preload_policy_draft

definition settings_draft :: "preload_settings \<Rightarrow> preload_settings_draft" where
  "settings_draft s =
     \<lparr>psd_google_drive = policy_draft (google_drive s), psd_onedrive = policy_draft (onedrive s),
      psd_box_provider = policy_draft (box_provider s), psd_sharepoint = policy_draft (sharepoint s),
      psd_smb = policy_draft (smb s), psd_sftp = policy_draft (sftp s)\<rparr>"

definition checked_depth :: "string option \<Rightarrow> u8 option res" where
  "checked_depth drafted =
     (let bad = bounded_message ''validation-preload-depth'' MIN_PRELOAD_DEPTH MAX_PRELOAD_DEPTH in
      case drafted of
        None \<Rightarrow> Inr None
      | Some v \<Rightarrow>
          bind_res (ok_or bad (parse_unsigned 255 v)) (\<lambda>depth.
            if within MIN_PRELOAD_DEPTH depth MAX_PRELOAD_DEPTH then Inr (Some (of_nat depth)) else Inl bad))"

definition checked_policy :: "preload_policy_draft \<Rightarrow> preload_policy res" where
  "checked_policy d =
     (let bad = bounded_message ''validation-preload-time'' MIN_PRELOAD_SECONDS MAX_PRELOAD_SECONDS in
      bind_res (ok_or bad (parse_unsigned U64_MAX (pd_maximum_seconds d))) (\<lambda>seconds.
      if \<not> within MIN_PRELOAD_SECONDS seconds MAX_PRELOAD_SECONDS then Inl bad
      else bind_res (checked_depth (pd_maximum_depth d)) (\<lambda>depth.
        Inr \<lparr>pp_enabled = pd_enabled d, pp_maximum_seconds = of_nat seconds, pp_maximum_depth = depth\<rparr>)))"

definition validated_settings :: "preload_settings_draft \<Rightarrow> preload_settings res" where
  "validated_settings d =
     bind_res (checked_policy (psd_google_drive d)) (\<lambda>g. bind_res (checked_policy (psd_onedrive d)) (\<lambda>o1.
     bind_res (checked_policy (psd_box_provider d)) (\<lambda>b. bind_res (checked_policy (psd_sharepoint d)) (\<lambda>p.
     bind_res (checked_policy (psd_smb d)) (\<lambda>s. bind_res (checked_policy (psd_sftp d)) (\<lambda>f.
       Inr \<lparr>google_drive = g, onedrive = o1, box_provider = b, sharepoint = p, smb = s, sftp = f\<rparr>))))))"

section \<open>Before a save\<close>

definition other_with :: "config_document \<Rightarrow> connection \<Rightarrow> (connection \<Rightarrow> bool) \<Rightarrow> connection option" where
  "other_with d c P = List.find (\<lambda>saved. conn_id saved \<noteq> conn_id c \<and> P saved) (connections d)"

definition same_text :: "string \<Rightarrow> string \<Rightarrow> bool" where
  "same_text a b = (ascii_lowercase (trim a) = ascii_lowercase (trim b))"

definition unchanged_kind :: "config_document \<Rightarrow> connection \<Rightarrow> unit res" where
  "unchanged_kind d c =
     (case List.find (\<lambda>saved. conn_id saved = conn_id c) (connections d) of
        None \<Rightarrow> Inr ()
      | Some saved \<Rightarrow>
          if conn_provider saved \<noteq> conn_provider c
          then Inl (fl ''ui-app-provider-changes-are-disabled-for-existing-connections'')
          else if access_mode_for_connection saved \<noteq> access_mode_for_connection c
          then Inl (fl ''ui-app-access-mode-changes-are-disabled-for-existing'')
          else Inr ())"

definition with_connection :: "config_document \<Rightarrow> connection \<Rightarrow> config_document" where
  "with_connection d c = d\<lparr>connections := filter (\<lambda>saved. conn_id saved \<noteq> conn_id c) (connections d) @ [c]\<rparr>"

definition validate_connection_edit :: "'u url_lib \<Rightarrow> config_document \<Rightarrow> path \<Rightarrow> connection \<Rightarrow> unit res" where
  "validate_connection_edit U d work_root c =
     bind_res (unchanged_kind d c) (\<lambda>_.
       case other_with d c (\<lambda>saved. same_text (conn_name saved) (conn_name c)) of
         Some other \<Rightarrow>
           Inl (Fl ''ui-app-connection-name-value1-is-already-used-by''
             [(''value1'', Lit (conn_name c)), (''value2'', Lit (conn_name other))])
       | None \<Rightarrow>
           (case other_with d c (\<lambda>saved. paths_overlap (local_path saved) (local_path c)
                                         \<or> paths_overlap (local_path c) (local_path saved)) of
              Some other \<Rightarrow>
                Inl (Fl ''ui-app-local-target-value1-overlaps-value2-used-by''
                  [(''value1'', Lit (local_path c)), (''value2'', Lit (local_path other)), (''value3'', Lit (conn_name other))])
            | None \<Rightarrow>
                map_err (\<lambda>errors. Joined [CHR 0x0A] (map validation_error_text errors))
                  (validate_with_work_root U (with_connection d c) work_root)))"

definition shared_remote_warning :: "config_document \<Rightarrow> connection \<Rightarrow> msg option" where
  "shared_remote_warning d c =
     map_option (\<lambda>other. Fl ''ui-app-value1-uses-the-same-value2-account-remote''
         [(''value1'', Lit (conn_name c)), (''value2'', provider_label (conn_provider c)),
          (''value3'', Lit (remote_reference c)), (''value4'', Lit (conn_name other))])
       (other_with d c (\<lambda>saved. conn_provider saved = conn_provider c
                                 \<and> same_text (remote_reference saved) (remote_reference c)))"

text \<open>Whether the save goes on, what is shown, and which connection has then been warned about.\<close>

definition confirm_shared_remote_save ::
  "config_document \<Rightarrow> connection \<Rightarrow> connection_id option \<Rightarrow> bool \<times> msg option \<times> connection_id option" where
  "confirm_shared_remote_save d c acknowledged =
     (case shared_remote_warning d c of
        Some warning \<Rightarrow>
          if acknowledged \<noteq> Some (conn_id c)
          then (False, Some (Fl ''notice-shared-remote-confirm'' [(''warning'', warning)]), Some (conn_id c))
          else (True, None, None)
      | None \<Rightarrow> (True, None, None))"

section \<open>Saving\<close>

definition is_mirror_of_teams :: "connection \<Rightarrow> bool" where
  "is_mirror_of_teams c = (conn_provider c = Teams \<and> \<not> is_online c)"

definition forget_marker :: "path \<Rightarrow> (msg, unit) prog" where
  "forget_marker marker =
     bindP (tryP (remove_file marker)) (\<lambda>r.
       case r of
         Inr _ \<Rightarrow> ret ()
       | Inl e \<Rightarrow> if io_kind e = NotFound then ret ()
                  else fail (Fl ''sharepoint-confirmation-invalidate-error'' [(''error'', io_text e)]))"

definition invalidate_sharepoint_mirror_confirmation_on_retarget ::
  "'u plan_lib \<Rightarrow> connection \<Rightarrow> connection \<Rightarrow> path \<Rightarrow> (msg, unit) prog" where
  "invalidate_sharepoint_mirror_confirmation_on_retarget L existing c work_root =
     (if \<not> is_mirror_of_teams existing \<or> \<not> is_mirror_of_teams c then ret ()
      else
      bindP (liftR (map_err sync_error_text (rclone_bisync_plan L existing work_root))) (\<lambda>old_plan.
      bindP (liftR (map_err sync_error_text (rclone_bisync_plan L c work_root))) (\<lambda>new_plan.
      if path_eq (work_directory old_plan) (work_directory new_plan) then ret ()
      else seqP (forget_marker (initial_preview_marker old_plan)) (forget_marker (initial_sync_marker old_plan)))))"

definition upsert :: "connection \<Rightarrow> config_document \<Rightarrow> config_document" where
  "upsert c d =
     d\<lparr>connections :=
        (if list_ex (\<lambda>saved. conn_id saved = conn_id c) (connections d)
         then update_first (\<lambda>saved. conn_id saved = conn_id c) (\<lambda>_. c) (connections d)
         else connections d @ [c])\<rparr>"

definition install_saved :: "'u app_runtime \<Rightarrow> connection \<Rightarrow> bool \<Rightarrow> (unit, msg) prog" where
  "install_saved A c changed =
     (if engine_of_online_mount c = Some EngineRclone then install_rclone_online_mount_unit A c
      else if is_rclone_offline_mirror c then install_rclone_offline_mirror_units A c
      else if engine_of_online_mount c = Some EngineOnedriver then install_onedriver_online_mount_unit A c
      else ret (named_notice (if changed then ''notice-saved'' else ''notice-unchanged'') c))"

definition drop_old_confirmation ::
  "'u app_runtime \<Rightarrow> config_document \<Rightarrow> connection \<Rightarrow> path \<Rightarrow> (msg, unit) prog" where
  "drop_old_confirmation A d c work_root =
     (case List.find (\<lambda>saved. conn_id saved = conn_id c) (connections d) of
        None \<Rightarrow> ret ()
      | Some existing \<Rightarrow>
          invalidate_sharepoint_mirror_confirmation_on_retarget (cl_plan (ar_lib A)) existing c work_root)"

text \<open>The last notice of the save and the document in use after it.\<close>

definition save_validated_draft_with ::
  "'u app_runtime \<Rightarrow> connection \<Rightarrow> app_storage \<Rightarrow> config_document \<Rightarrow> path \<Rightarrow> (unit, msg \<times> config_document) prog" where
  "save_validated_draft_with A c storage current work_root =
     bindP (tryP (drop_old_confirmation A current c work_root)) (\<lambda>dropped.
     case dropped of
       Inl e \<Rightarrow> ret (e, current)
     | Inr _ \<Rightarrow>
         bindP (update_validated_with (ah_url (ar_host A)) (ah_ron (ar_host A)) storage (upsert c) current) (\<lambda>(r, d).
         case r of
           Inl e \<Rightarrow> ret (Fl ''notice-save-failed'' [(''name'', Lit (conn_name c)), (''error'', save_error_text e)], d)
         | Inr changed \<Rightarrow> bindP (install_saved A c changed) (\<lambda>notice. ret (notice, d))))"

section \<open>Removing and reordering\<close>

definition without_connection :: "connection_id \<Rightarrow> config_document \<Rightarrow> config_document" where
  "without_connection cid d = d\<lparr>connections := filter (\<lambda>c. conn_id c \<noteq> cid) (connections d)\<rparr>"

definition remove_confirmed_connection ::
  "'u app_runtime \<Rightarrow> shared_tasks \<Rightarrow> connection \<Rightarrow> app_storage \<Rightarrow> config_document \<Rightarrow> (unit, msg \<times> config_document) prog" where
  "remove_confirmed_connection A T c storage current =
     (if \<not> list_ex (\<lambda>saved. saved = c) (connections current)
      then ret (fl ''legacy-removal-profile-changed'', current)
      else
      bindP (update_validated_with (ah_url (ar_host A)) (ah_ron (ar_host A)) storage (without_connection (conn_id c)) current)
        (\<lambda>(r, d).
         case r of
           Inl e \<Rightarrow> ret (Fl ''notice-remove-failed'' [(''name'', Lit (conn_name c)), (''error'', save_error_text e)], d)
         | Inr False \<Rightarrow> ret (named_notice ''notice-already-absent'' c, d)
         | Inr True \<Rightarrow>
             if is_legacy_onedrive_mirror c then ret (named_notice ''notice-remove-complete-preserved'' c, d)
             else bindP (remove_generated_units_for_connection A T c) (\<lambda>notice. ret (notice, d))))"

definition move_to :: "nat \<Rightarrow> nat \<Rightarrow> 'a list \<Rightarrow> 'a list" where
  "move_to from to xs =
     (let rest = take from xs @ drop (Suc from) xs; at = min to (length rest)
      in take at rest @ [xs ! from] @ drop at rest)"

fun position :: "('a \<Rightarrow> bool) \<Rightarrow> 'a list \<Rightarrow> nat option" where
  "position P [] = None"
| "position P (x # xs) = (if P x then Some 0 else map_option Suc (position P xs))"

text \<open>The new order, when the position is one of the list and not the present one.\<close>

definition reordered :: "connection_id \<Rightarrow> nat \<Rightarrow> config_document \<Rightarrow> config_document option" where
  "reordered cid new_position d =
     (case position (\<lambda>c. conn_id c = cid) (connections d) of
        None \<Rightarrow> None
      | Some current \<Rightarrow>
          if new_position = 0 \<or> length (connections d) < new_position \<or> current = new_position - 1 then None
          else Some (d\<lparr>connections := move_to current (new_position - 1) (connections d)\<rparr>))"

definition reorder_connection_with_storage ::
  "'u app_runtime \<Rightarrow> connection_id \<Rightarrow> nat \<Rightarrow> app_storage \<Rightarrow> config_document \<Rightarrow> (unit, msg option \<times> config_document) prog" where
  "reorder_connection_with_storage A cid new_position storage d =
     (if position (\<lambda>c. conn_id c = cid) (connections d) = None
      then ret (Some (fl ''notice-connection-unavailable''), d)
      else case reordered cid new_position d of
             None \<Rightarrow> ret (None, d)
           | Some _ \<Rightarrow>
               bindP (update_validated_with (ah_url (ar_host A)) (ah_ron (ar_host A)) storage
                 (\<lambda>d. case reordered cid new_position d of Some d' \<Rightarrow> d' | None \<Rightarrow> d) d) (\<lambda>(r, d').
               ret (Some (case r of
                  Inr _ \<Rightarrow> fl ''notice-order-saved''
                | Inl e \<Rightarrow> Fl ''notice-order-save-failed'' [(''error'', save_error_text e)]), d')))"

end
