(* ===== verification/Editor_Safety.thy ===== *)
theory Editor_Safety
  imports Editor Config_Safety Import_Safety
begin

text \<open>
  What editing keeps: opening a connection in the settings window and saving it unchanged, the order of the
  other connections when one is moved, and the checks that a save has passed.
\<close>

section \<open>Numbers and paths of a form\<close>

lemma trim_plain:
  assumes "list_all (\<lambda>c. (of_char c :: nat) < 128 \<and> \<not> is_white_space [c]) s"
  shows "trim s = s"
proof -
  have u: "utf8_chars s = map (\<lambda>c. [c]) s"
    using assms by (intro utf8_chars_ascii) (auto simp: list_all_iff)
  have d: "dropWhile is_white_space (map (\<lambda>c. [c]) t) = map (\<lambda>c. [c]) t"
    if "list_all (\<lambda>c. \<not> is_white_space [c]) t" for t :: string
    using that by (cases t) auto
  have "list_all (\<lambda>c. \<not> is_white_space [c]) s" "list_all (\<lambda>c. \<not> is_white_space [c]) (rev s)"
    using assms by (auto simp: list_all_iff)
  then show ?thesis
    by (simp add: trim_def u d flip: rev_map) (simp add: d rev_map concat_map_singleton)
qed

lemma digit_plain: "is_ascii_digit c \<Longrightarrow> (of_char c :: nat) < 128 \<and> \<not> is_white_space [c]"
  by (auto simp: is_ascii_digit_def is_white_space_def)

lemma trim_show_nat [simp]: "trim (show_nat n) = show_nat n"
  using show_nat_digits [of n] by (intro trim_plain) (auto simp: digits_def list_all_iff dest: digit_plain)

lemma parse_show_nat: "n \<le> m \<Longrightarrow> parse_unsigned m (show_nat n) = Some n"
  using show_nat_digits [of n] parse_unsigned_digits [of "show_nat n" m] by simp

lemma expand_absolute: "is_absolute v \<Longrightarrow> expand_user_path home v = v"
  by (cases v) (auto simp: expand_user_path_def is_absolute_def)

lemma u64_parse: "parse_unsigned U64_MAX (show_nat (unat (v :: u64))) = Some (unat v)"
  using unsigned_less [of v, where 'a = nat] by (intro parse_show_nat) (simp add: U64_MAX_def)

lemma u32_parse: "parse_unsigned (2 ^ 32 - 1) (show_nat (unat (v :: u32))) = Some (unat v)"
  using unsigned_less [of v, where 'a = nat] by (intro parse_show_nat) simp

lemma u8_parse: "parse_unsigned 255 (show_nat (unat (v :: u8))) = Some (unat v)"
  using unsigned_less [of v, where 'a = nat] by (intro parse_show_nat) simp


section \<open>Opening and saving unchanged\<close>

text \<open>
  What the form can hold of a connection: texts without surrounding white space, absolute paths, a SharePoint
  identity that its library URL names, and an override only where the form shows one.
\<close>

definition form_text :: "string \<Rightarrow> bool" where
  "form_text s = (s \<noteq> [] \<and> trim s = s)"

definition form_path :: "path \<Rightarrow> bool" where
  "form_path p = (is_absolute p \<and> trim p = p)"

definition form_override :: "connection \<Rightarrow> provider \<Rightarrow> preload_override option \<Rightarrow> bool" where
  "form_override c provider shown =
     (case shown of
        None \<Rightarrow> True
      | Some v \<Rightarrow>
          conn_provider c = provider \<and> is_online c
          \<and> within MIN_PRELOAD_SECONDS (unat (po_maximum_seconds v)) MAX_PRELOAD_SECONDS
          \<and> within MIN_PRELOAD_DEPTH (unat (po_maximum_depth v)) MAX_PRELOAD_DEPTH)"

definition form_identity :: "'u url_lib \<Rightarrow> connection \<Rightarrow> bool" where
  "form_identity U c =
     (case teams_identity c of
        None \<Rightarrow> conn_provider c \<noteq> Teams
      | Some i \<Rightarrow> conn_provider c = Teams
          \<and> map_err (\<lambda>_. ()) (bind_res (parse_library_url U (library_url i)) (\<lambda>j. Inr (j\<lparr>sp_drive_id := sp_drive_id i\<rparr>))) = Inr i)"

definition fits_form :: "'u url_lib \<Rightarrow> connection \<Rightarrow> bool" where
  "fits_form U c =
     (form_text (conn_name c) \<and> form_text (remote_reference c) \<and> form_path (local_path c)
      \<and> (case remote_subpath c of None \<Rightarrow> True | Some s \<Rightarrow> form_text s)
      \<and> (case conn_mode c of OnlineMount _ \<Rightarrow> True | OfflineMirror v \<Rightarrow> form_path (recovery_directory v))
      \<and> form_identity U c \<and> form_override c Smb (smb_preload_override c) \<and> form_override c Sftp (sftp_preload_override c))"

text \<open>What a save leaves of a mount's options: the cache directory is dropped, the limit is cut to whole GiB.\<close>

fun refitted :: "connection_mode \<Rightarrow> connection_mode" where
  "refitted (OnlineMount v) =
     OnlineMount (v\<lparr>cache_directory := None,
                    cache_limit_bytes := of_nat (unat (cache_limit_bytes v) div GIB_BYTES * GIB_BYTES)\<rparr>)"
| "refitted (OfflineMirror v) = OfflineMirror v"

definition resaved :: "connection \<Rightarrow> connection" where
  "resaved c = c\<lparr>conn_mode := refitted (conn_mode c), conn_tuning_profile := Balanced\<rparr>"

lemma mode_roundtrip:
  assumes "fits_form (ed_url E) c"
  shows "mode_from_draft E (draft_from_connection c) (conn_id c) target = Inr (refitted (conn_mode c))"
proof (cases "conn_mode c")
  case (OnlineMount v)
  have "parse_unsigned U64_MAX (show_nat (unat (cache_limit_bytes v) div (1024 * 1024 * 1024)))
      = Some (unat (cache_limit_bytes v) div (1024 * 1024 * 1024))"
    using unsigned_less [of "cache_limit_bytes v", where 'a = nat]
    by (intro parse_show_nat) (simp add: U64_MAX_def)
  moreover have "unat (cache_limit_bytes v) div GIB_BYTES * GIB_BYTES \<le> U64_MAX"
    using unsigned_less [of "cache_limit_bytes v", where 'a = nat]
    by (intro order_trans [OF div_times_less_eq_dividend]) (simp add: U64_MAX_def)
  ultimately show ?thesis
    using OnlineMount
    by (simp add: mode_from_draft_def draft_from_connection_def online_from_draft_def sat_mul_u64_def GIB_BYTES_def Let_def)
next
  case (OfflineMirror v)
  with assms have "form_path (recovery_directory v)" by (simp add: fits_form_def)
  then have "trim (recovery_directory v) = recovery_directory v" "recovery_directory v \<noteq> []"
    "expand_user_path (ed_home E) (recovery_directory v) = recovery_directory v"
    by (auto simp: form_path_def is_absolute_def intro: expand_absolute)
  moreover have "engine v = Some Rclone" if "conn_provider c = OneDrive" "conn_offline_engine c \<noteq> Some LegacyOnedrive"
    using that OfflineMirror by (cases "engine v"; cases "the (engine v)") (auto simp: conn_offline_engine_def)
  ultimately show ?thesis
    using OfflineMirror
    by (auto simp: mode_from_draft_def draft_from_connection_def mirror_from_draft_def Let_def u32_parse [simplified])
qed


lemma override_roundtrip:
  assumes "fits_form (ed_url E) c"
  shows "override_from_draft (draft_from_connection c)
     = Inr (if conn_provider c \<in> {Smb, Sftp} \<and> is_online c then drafted_override c else None)"
proof (cases "drafted_override c")
  case None
  then show ?thesis
    by (simp add: override_from_draft_def draft_from_connection_def Let_def split: prod.split)
next
  case (Some v)
  have within: "within MIN_PRELOAD_SECONDS (unat (po_maximum_seconds v)) MAX_PRELOAD_SECONDS"
      "within MIN_PRELOAD_DEPTH (unat (po_maximum_depth v)) MAX_PRELOAD_DEPTH"
    if "conn_provider c \<in> {Smb, Sftp}"
    using that assms Some by (auto simp: fits_form_def drafted_override_def form_override_def split: if_split_asm)
  show ?thesis
    using Some within
    by (cases "conn_mode c")
       (auto simp: override_from_draft_def draft_from_connection_def Let_def bind_res_def ok_or_def u64_parse u8_parse
          is_online_def)
qed

lemma teams_roundtrip:
  assumes "fits_form (ed_url E) c"
  shows "teams_from_draft E (draft_from_connection c) = Inr (teams_identity c)"
proof -
  have id: "form_identity (ed_url E) c" using assms by (simp add: fits_form_def)
  have p: "cd_provider (draft_from_connection c) = conn_provider c"
    "cd_sharepoint_library_url (draft_from_connection c) = (case teams_identity c of Some i \<Rightarrow> library_url i | None \<Rightarrow> [])"
    "cd_teams_drive_id (draft_from_connection c) = (case teams_identity c of Some i \<Rightarrow> sp_drive_id i | None \<Rightarrow> [])"
    by (simp_all add: draft_from_connection_def Let_def split: prod.split)
  show ?thesis
  proof (cases "teams_identity c")
    case None
    with id show ?thesis by (simp add: teams_from_draft_def p form_identity_def)
  next
    case (Some i)
    with id show ?thesis
      by (auto simp: teams_from_draft_def p form_identity_def bind_res_def map_err_def split: sum.split_asm)
  qed
qed

lemma draft_fields:
  "cd_id (draft_from_connection c) = Some (conn_id c)" "cd_name (draft_from_connection c) = conn_name c"
  "cd_provider (draft_from_connection c) = conn_provider c" "cd_remote_reference (draft_from_connection c) = remote_reference c"
  "cd_remote_subpath (draft_from_connection c) = (case remote_subpath c of Some s \<Rightarrow> s | None \<Rightarrow> [])"
  "cd_local_path (draft_from_connection c) = local_path c" "cd_enabled (draft_from_connection c) = conn_enabled c"
  "cd_vpn_profile_id (draft_from_connection c) = vpn_profile_id c"
  "cd_disconnect_vpn_when_unused (draft_from_connection c) = disconnect_vpn_when_unused c"
  "cd_onedrive_identity (draft_from_connection c) = conn_onedrive_identity c"
  by (simp_all add: draft_from_connection_def Let_def split: prod.split)



text \<open>An imported mount with a cache directory of its own and a limit of one and a half GiB.\<close>

definition cached_mount :: connection where
  "cached_mount =
     sample_mount\<lparr>conn_mode := OnlineMount
       \<lparr>cache_directory = Some ''/h/u/.cache/vfs'', cache_limit_bytes = 3 * 512 * 1024 * 1024, start_at_login = True\<rparr>\<rparr>"

definition sample_editor :: "string editor_host" where
  "sample_editor = \<lparr>ed_home = Some ''/h/u'', ed_fresh = ConnectionId sample_uuid, ed_url = sample_url_lib\<rparr>"


section \<open>The preload settings\<close>

definition policy_in_bounds :: "preload_policy \<Rightarrow> bool" where
  "policy_in_bounds p =
     (within MIN_PRELOAD_SECONDS (unat (pp_maximum_seconds p)) MAX_PRELOAD_SECONDS
      \<and> (case pp_maximum_depth p of None \<Rightarrow> True | Some d \<Rightarrow> within MIN_PRELOAD_DEPTH (unat d) MAX_PRELOAD_DEPTH))"

lemma policy_roundtrip: "policy_in_bounds p \<Longrightarrow> checked_policy (policy_draft p) = Inr p"
  by (cases "pp_maximum_depth p")
     (simp_all add: checked_policy_def policy_draft_def checked_depth_def bind_res_def ok_or_def u64_parse u8_parse
       policy_in_bounds_def Let_def)

text \<open>The settings window writes back the policies it was opened with.\<close>

theorem settings_roundtrip:
  assumes "list_all policy_in_bounds [google_drive s, onedrive s, box_provider s, sharepoint s, smb s, sftp s]"
  shows "validated_settings (settings_draft s) = Inr s"
  using assms by (simp add: validated_settings_def settings_draft_def policy_roundtrip bind_res_def)

section \<open>Reordering\<close>

lemma position_Some: "position P xs = Some i \<Longrightarrow> i < length xs \<and> P (xs ! i)"
  by (induction xs arbitrary: i) (auto split: if_split_asm)

lemma move_to_others:
  assumes "from < length xs" and "\<not> P (xs ! from)"
  shows "filter P (move_to from to xs) = filter P xs"
proof -
  define rest where "rest = take from xs @ drop (Suc from) xs"
  have moved: "filter P (take k rest @ [xs ! from] @ drop k rest) = filter P rest" for k
  proof -
    have "filter P (take k rest) @ filter P (drop k rest) = filter P rest"
      by (simp only: append_take_drop_id flip: filter_append)
    then show ?thesis using assms(2) by simp
  qed
  have "filter P xs = filter P (take from xs @ xs ! from # drop (Suc from) xs)"
    by (rule arg_cong [OF id_take_nth_drop [OF assms(1)], of "filter P"])
  also have "\<dots> = filter P rest"
    using assms(2) by (simp only: rest_def filter_append filter.simps if_False)
  finally have "filter P xs = filter P rest" .
  with moved show ?thesis by (simp only: move_to_def Let_def rest_def)
qed

lemma move_to_length:
  assumes "from < length xs"
  shows "length (move_to from to xs) = length xs"
proof -
  define rest where "rest = take from xs @ drop (Suc from) xs"
  have "length (take k rest @ [x] @ drop k rest) = Suc (length rest)" for k x
    by (simp add: min_def)
  then have "length (move_to from to xs) = Suc (length rest)" by (simp only: move_to_def Let_def rest_def)
  with assms show ?thesis by (simp add: rest_def)
qed

lemma move_to_place:
  assumes "from < length xs" and "to < length xs"
  shows "move_to from to xs ! to = xs ! from"
proof -
  define rest where "rest = take from xs @ drop (Suc from) xs"
  have len: "to \<le> length rest" using assms by (simp add: rest_def)
  then have "(take to rest @ [xs ! from] @ drop to rest) ! to = xs ! from"
    using nth_append_length [of "take to rest" "xs ! from" "drop to rest"] by (simp add: min_absorb2)
  then show ?thesis using len by (simp add: move_to_def Let_def min_absorb1 flip: rest_def)
qed

text \<open>
  Moving a connection puts it at the requested place and leaves the others, and their order, as they were.
\<close>
theorem reorder_moves_one:
  assumes "reordered cid n d = Some d'"
  shows "conn_id (connections d' ! (n - 1)) = cid"
    and "filter (\<lambda>c. conn_id c \<noteq> cid) (connections d') = filter (\<lambda>c. conn_id c \<noteq> cid) (connections d)"
    and "length (connections d') = length (connections d)"
proof -
  from assms obtain i where i: "position (\<lambda>c. conn_id c = cid) (connections d) = Some i"
    and n: "0 < n" "n \<le> length (connections d)"
    and d': "d' = d\<lparr>connections := move_to i (n - 1) (connections d)\<rparr>"
    by (auto simp: reordered_def split: option.split_asm if_split_asm)
  note at = position_Some [OF i]
  show "conn_id (connections d' ! (n - 1)) = cid"
    using at n by (simp add: d' move_to_place)
  show "filter (\<lambda>c. conn_id c \<noteq> cid) (connections d') = filter (\<lambda>c. conn_id c \<noteq> cid) (connections d)"
    using at by (simp add: d' move_to_others)
  show "length (connections d') = length (connections d)"
    using at by (simp add: d' move_to_length)
qed

end
