(* ===== verification/Remote_Setup.thy ===== *)
theory Remote_Setup
  imports Editor
begin

text \<open>
  Creating, updating and removing rclone remotes for Google Drive, Box and SMB (\<open>src/src/app.rs\<close>): the setup
  read from the draft of a connection, the requests to \<open>rclone config\<close>, the check of what the OAuth flow
  answered, and the removal of a remote that a failed creation may have left.  The JSON parser is the
  argument \<open>parse\<close>, as for the other readers of \<open>rclone config dump\<close>.
\<close>

section \<open>Finding an executable\<close>

fun first_file :: "path list \<Rightarrow> ('e, path option) prog" where
  "first_file [] = ret None"
| "first_file (p # ps) = bindP (path_is_file p) (\<lambda>b. if b then ret (Some p) else first_file ps)"

definition resolve_candidate :: "string \<Rightarrow> ('e, path option) prog" where
  "resolve_candidate candidate =
     (if is_absolute candidate
      then bindP (path_is_file candidate) (\<lambda>b. ret (if b then Some candidate else None))
      else bindP (env_var ''PATH'') (\<lambda>paths.
        first_file (map (\<lambda>d. path_join d candidate)
          (case paths of None \<Rightarrow> [] | Some ps \<Rightarrow> split_char CHR '':'' ps))))"

fun first_candidate :: "string list \<Rightarrow> ('e, path option) prog" where
  "first_candidate [] = ret None"
| "first_candidate (c # cs) =
     bindP (resolve_candidate c) (\<lambda>p. case p of Some q \<Rightarrow> ret (Some q) | None \<Rightarrow> first_candidate cs)"

definition system_resolve :: "executable \<Rightarrow> ('e, path option) prog" where
  "system_resolve e = first_candidate (path_candidates e)"

definition flatpak_resolve :: "executable \<Rightarrow> ('e, path option) prog" where
  "flatpak_resolve e =
     bindP (system_resolve FlatpakSpawn) (\<lambda>spawn.
       ret (case (spawn, host_executable_arg e) of
              (Some _, Inr candidate) \<Rightarrow> Some (''host:'' @ candidate)
            | _ \<Rightarrow> None))"

definition runner_resolve :: "execution_mode \<Rightarrow> executable \<Rightarrow> ('e, path option) prog" where
  "runner_resolve mode e = (case mode of Native \<Rightarrow> system_resolve e | FlatpakSpawnHost \<Rightarrow> flatpak_resolve e)"

section \<open>What the form asks for\<close>

text \<open>The fields of the draft that only fill in the forms for a new remote.\<close>

record setup_draft = connection_draft +
  cd_smb_host :: string
  cd_smb_user :: string
  cd_smb_domain :: string
  cd_smb_password :: string
  cd_google_client_id :: string
  cd_google_client_secret :: string

definition validate_rclone_remote_create_name :: "string \<Rightarrow> unit res" where
  "validate_rclone_remote_create_name v =
     (if v \<noteq> [] \<and> list_all (\<lambda>c. is_ascii_alphanumeric c \<or> c \<in> {CHR ''_'', CHR ''-'', CHR ''.''}) v
      then Inr () else Inl (fl ''validation-rclone-name''))"

definition validate_setup_value :: "msg \<Rightarrow> string \<Rightarrow> bool \<Rightarrow> unit res" where
  "validate_setup_value label v required =
     (if required \<and> v = [] then Inl (Fl ''validation-field-required'' [(''field'', label)])
      else if list_ex unsafe_arg_char v then Inl (Fl ''validation-control-characters'' [(''field'', label)])
      else Inr ())"

definition optional_setup_value :: "msg \<Rightarrow> string \<Rightarrow> string option res" where
  "optional_setup_value label v =
     (if trim v = [] then Inr None
      else bind_res (validate_setup_value label (trim v) False) (\<lambda>_. Inr (Some (trim v))))"

definition optional_secret_value :: "msg \<Rightarrow> string \<Rightarrow> string option res" where
  "optional_secret_value label v =
     (if v = [] then Inr None
      else bind_res (validate_setup_value label v False) (\<lambda>_. Inr (Some v)))"

record smb_remote_setup =
  sm_name :: string
  sm_host :: "string option"
  sm_user :: "string option"
  sm_domain :: "string option"
  sm_password :: "string option"

record smb_remote_apply_result =
  sa_remote_name :: string
  sa_password_updated :: bool

record google_drive_remote_setup =
  gd_name :: string
  gd_client_id :: "string option"
  gd_client_secret :: "string option"

record google_drive_remote_apply_result =
  ga_remote_name :: string
  ga_updated :: bool

datatype google_drive_remote_action = CreateRemote | UpdateRemote

definition setup_name :: "setup_draft \<Rightarrow> string res" where
  "setup_name d =
     bind_res (validate_rclone_remote_create_name (trim (cd_remote_reference d)))
       (\<lambda>_. Inr (trim (cd_remote_reference d)))"

definition google_setup_from_draft :: "setup_draft \<Rightarrow> google_drive_remote_setup res" where
  "google_setup_from_draft d =
     (if cd_provider d \<noteq> GoogleDrive then Inl (fl ''ui-app-google-drive-remote-setup-requires-the-google'')
      else
      bind_res (setup_name d) (\<lambda>name.
      bind_res (optional_setup_value (fl ''ui-app-google-oauth-client-id'') (cd_google_client_id d)) (\<lambda>cid.
      bind_res (optional_secret_value (fl ''ui-app-google-oauth-client-secret'') (cd_google_client_secret d)) (\<lambda>secret.
      if (cid \<noteq> None) \<noteq> (secret \<noteq> None) then Inl (fl ''ui-app-google-oauth-client-id-and-client-secret'')
      else Inr \<lparr>gd_name = name, gd_client_id = cid, gd_client_secret = secret\<rparr>))))"

definition box_setup_from_draft :: "setup_draft \<Rightarrow> string res" where
  "box_setup_from_draft d =
     (if cd_provider d \<noteq> Box then Inl (fl ''ui-app-box-remote-setup-requires-the-box-provider'')
      else setup_name d)"

definition smb_setup_from_draft :: "setup_draft \<Rightarrow> smb_remote_setup res" where
  "smb_setup_from_draft d =
     (if cd_provider d \<noteq> Smb then Inl (fl ''ui-app-smb-remote-setup-requires-the-smb-provider'')
      else
      bind_res (setup_name d) (\<lambda>name.
      bind_res (optional_setup_value (fl ''ui-app-smb-host'') (cd_smb_host d)) (\<lambda>host.
      bind_res (optional_setup_value (fl ''ui-app-smb-username'') (cd_smb_user d)) (\<lambda>user.
      bind_res (optional_setup_value (fl ''ui-app-smb-domain'') (cd_smb_domain d)) (\<lambda>domain.
      bind_res (optional_secret_value (fl ''ui-app-smb-password'') (cd_smb_password d)) (\<lambda>password.
      Inr \<lparr>sm_name = name, sm_host = host, sm_user = user, sm_domain = domain, sm_password = password\<rparr>))))))"

definition has_metadata :: "smb_remote_setup \<Rightarrow> bool" where
  "has_metadata s = (sm_host s \<noteq> None \<or> sm_user s \<noteq> None \<or> sm_domain s \<noteq> None)"

section \<open>Requests\<close>

text \<open>Options of a remote: the key is shown in a log, its value is masked.\<close>

fun add_pairs :: "(string \<times> string) list \<Rightarrow> command_request \<Rightarrow> command_error + command_request" where
  "add_pairs [] r = Inr r"
| "add_pairs ((key, v) # ps) r =
     bind_res (add_arg key r) (\<lambda>r1. bind_res (add_sensitive_arg v r1) (add_pairs ps))"

definition option_pair :: "string \<Rightarrow> string option \<Rightarrow> (string \<times> string) list" where
  "option_pair key v = (case v of Some x \<Rightarrow> [(key, x)] | None \<Rightarrow> [])"

definition config_command ::
  "string list \<Rightarrow> (string \<times> string) list \<Rightarrow> string list \<Rightarrow> duration \<Rightarrow> command_request res" where
  "config_command words pairs flags t =
     map_err command_error_text
       (bind_res (add_args (''config'' # words) (new_request RcloneExe)) (\<lambda>r1.
        bind_res (add_pairs pairs r1) (\<lambda>r2.
        bind_res (add_args flags r2) (\<lambda>r3. Inr (r3\<lparr>req_timeout := t\<rparr>)))))"

definition google_drive_rclone_config_create_request :: "google_drive_remote_setup \<Rightarrow> command_request res" where
  "google_drive_rclone_config_create_request s =
     config_command [''create'', gd_name s, ''drive'']
       (case (gd_client_id s, gd_client_secret s) of
          (Some i, Some x) \<Rightarrow> [(''client_id'', i), (''client_secret'', x)]
        | _ \<Rightarrow> [])
       [''scope'', ''drive'', ''config_is_local'', ''true'', ''--obscure''] (from_secs 300)"

definition google_drive_rclone_config_update_request :: "google_drive_remote_setup \<Rightarrow> command_request res" where
  "google_drive_rclone_config_update_request s =
     bind_res (ok_or (fl ''ui-app-google-oauth-client-id-is-required-to'') (gd_client_id s)) (\<lambda>i.
     bind_res (ok_or (fl ''ui-app-google-oauth-client-secret-is-required-to'') (gd_client_secret s)) (\<lambda>x.
       config_command [''update'', gd_name s] [(''client_id'', i), (''client_secret'', x)]
         [''config_is_local'', ''true'', ''--obscure''] (from_secs 300)))"

definition box_rclone_config_create_request :: "string \<Rightarrow> command_request res" where
  "box_rclone_config_create_request name =
     config_command [''create'', name, ''box'', ''config_is_local'', ''true''] [] [] (from_secs 300)"

definition smb_rclone_config_create_request :: "smb_remote_setup \<Rightarrow> command_request res" where
  "smb_rclone_config_create_request s =
     bind_res (ok_or (fl ''ui-app-smb-host-is-required-to-create-a'') (sm_host s)) (\<lambda>host.
       config_command [''create'', sm_name s, ''smb'']
         ((''host'', host) # option_pair ''user'' (sm_user s) @ option_pair ''domain'' (sm_domain s))
         [''--non-interactive''] (from_secs 30))"

definition smb_rclone_config_update_request :: "smb_remote_setup \<Rightarrow> command_request res" where
  "smb_rclone_config_update_request s =
     config_command [''update'', sm_name s]
       (option_pair ''host'' (sm_host s) @ option_pair ''user'' (sm_user s) @ option_pair ''domain'' (sm_domain s))
       [''--non-interactive''] (from_secs 30)"

definition smb_rclone_config_password_request :: "smb_remote_setup \<Rightarrow> command_request res" where
  "smb_rclone_config_password_request s =
     bind_res (ok_or (fl ''ui-app-smb-password-is-not-set'') (sm_password s)) (\<lambda>password.
       config_command [''password'', sm_name s] [(''pass'', password)] [] (from_secs 30))"

definition rclone_config_delete_request :: "string \<Rightarrow> command_request res" where
  "rclone_config_delete_request name = config_command [''delete'', name] [] [] (from_secs 30)"

section \<open>Errors\<close>

definition shown_detail :: "captured_output \<Rightarrow> captured_output \<Rightarrow> string" where
  "shown_detail stdout stderr = (if trim (co_text stderr) = [] then trim (co_text stdout) else trim (co_text stderr))"

fun rclone_setup_command_error :: "msg \<Rightarrow> command_error \<Rightarrow> msg" where
  "rclone_setup_command_error stage (MissingExecutable e) =
     Fl ''ui-app-value1-is-missing'' [(''value1'', Lit (display_name e))]"
| "rclone_setup_command_error stage InvalidArgument =
     fl ''ui-app-rclone-setup-command-argument-contains-unsupported-characters''"
| "rclone_setup_command_error stage (Timeout t) =
     Fl ''ui-app-rclone-stage-timed-out-after-value2-seconds''
       [(''stage'', stage), (''value2'', Lit (show_nat (t div from_secs 1)))]"
| "rclone_setup_command_error stage Cancelled = Fl ''ui-app-rclone-stage-was-cancelled'' [(''stage'', stage)]"
| "rclone_setup_command_error stage (Spawn m) = Fl ''ui-app-could-not-start-rclone-message'' [(''message'', Lit m)]"
| "rclone_setup_command_error stage (NonZero _ stdout stderr _) =
     (if shown_detail stdout stderr = []
      then Fl ''ui-app-rclone-stage-failed-without-diagnostic-output'' [(''stage'', stage)]
      else Fl ''ui-app-rclone-stage-failed-detail''
             [(''stage'', stage), (''detail'', Lit (shown_detail stdout stderr))])"

datatype browser_oauth_provider = OauthGoogleDrive | OauthBox

fun setup_stage :: "browser_oauth_provider \<Rightarrow> msg" where
  "setup_stage OauthGoogleDrive = fl ''ui-app-google-drive-oauth-setup''"
| "setup_stage OauthBox = fl ''ui-app-box-oauth-setup''"

fun oauth_incomplete :: "browser_oauth_provider \<Rightarrow> msg" where
  "oauth_incomplete OauthGoogleDrive = fl ''google-drive-auth-incomplete''"
| "oauth_incomplete OauthBox = fl ''box-auth-incomplete''"

fun access_stage :: "browser_oauth_provider \<Rightarrow> msg" where
  "access_stage OauthGoogleDrive = fl ''google-drive-access-stage''"
| "access_stage OauthBox = fl ''box-access-stage''"

definition exit_code_text :: "int option \<Rightarrow> msg" where
  "exit_code_text code =
     (case code of None \<Rightarrow> fl ''browser-oauth-exit-unknown'' | Some c \<Rightarrow> Lit (show_int_padded 1 c))"

definition oauth_failed_key :: "browser_oauth_provider \<Rightarrow> string" where
  "oauth_failed_key p =
     (case p of OauthGoogleDrive \<Rightarrow> ''google-drive-command-failed'' | OauthBox \<Rightarrow> ''box-command-failed'')"

definition browser_oauth_setup_command_error :: "browser_oauth_provider \<Rightarrow> msg \<Rightarrow> command_error \<Rightarrow> msg" where
  "browser_oauth_setup_command_error p stage e =
     (case e of
        NonZero code _ _ _ \<Rightarrow> Fl (oauth_failed_key p) [(''stage'', stage), (''code'', exit_code_text code)]
      | _ \<Rightarrow> rclone_setup_command_error stage e)"

section \<open>What rclone answered\<close>

definition nonempty_str :: "string \<Rightarrow> json \<Rightarrow> bool" where
  "nonempty_str key v = (case Option.bind (json_get key v) as_str of Some s \<Rightarrow> s \<noteq> [] | None \<Rightarrow> False)"

definition ensure_rclone_config_completed :: "(string \<Rightarrow> string + json) \<Rightarrow> msg \<Rightarrow> command_output \<Rightarrow> unit res" where
  "ensure_rclone_config_completed parse stage out =
     (let stdout = trim (co_text (out_stdout out))
      in if stdout = [] then Inr ()
         else case parse stdout of
                Inl _ \<Rightarrow> Inr ()
              | Inr response \<Rightarrow>
                  if nonempty_str ''State'' response \<or> (\<exists>x \<in> set_option (json_get ''Option'' response). x \<noteq> JNull)
                  then Inl (Fl ''ui-app-rclone-stage-requires-another-configuration-response-and'' [(''stage'', stage)])
                  else Inr ())"

definition ensure_browser_oauth_completed ::
  "(string \<Rightarrow> string + json) \<Rightarrow> browser_oauth_provider \<Rightarrow> command_output \<Rightarrow> unit res" where
  "ensure_browser_oauth_completed parse p out =
     (if co_truncated (out_stdout out) \<or> co_invalid_utf8 (out_stdout out)
         \<or> co_truncated (out_stderr out) \<or> co_invalid_utf8 (out_stderr out) then Inl (oauth_incomplete p)
      else bind_res (ensure_rclone_config_completed parse (setup_stage p) out) (\<lambda>_.
        case parse (trim (co_text (out_stdout out))) of
          Inr v \<Rightarrow> if nonempty_str ''Error'' v then Inl (oauth_incomplete p) else Inr ()
        | Inl _ \<Rightarrow> Inr ()))"

definition remote_config_dump :: "(msg, command_output) prog" where
  "remote_config_dump =
     bindP (liftR (config_command [''dump''] [] [] (from_secs 5))) (\<lambda>r.
       map_errP (rclone_setup_command_error (fl ''ui-app-config-dump'')) (run_cmd r))"

definition dumped_sections :: "(string \<Rightarrow> string + json) \<Rightarrow> string \<Rightarrow> json res" where
  "dumped_sections parse output =
     bind_res (map_err (\<lambda>t. Fl ''ui-app-invalid-json-error'' [(''error'', Lit t)]) (parse output)) (\<lambda>v.
       case v of
         JObject members \<Rightarrow> Inr v
       | _ \<Rightarrow> Inl (fl ''ui-app-rclone-config-dump-did-not-return-an''))"

definition rclone_config_has_section :: "(string \<Rightarrow> string + json) \<Rightarrow> string \<Rightarrow> string \<Rightarrow> bool res" where
  "rclone_config_has_section parse output name =
     bind_res (dumped_sections parse output) (\<lambda>v. Inr (json_get name v \<noteq> None))"

definition rclone_config_section_backend :: "(string \<Rightarrow> string + json) \<Rightarrow> string \<Rightarrow> string \<Rightarrow> string option res" where
  "rclone_config_section_backend parse output name =
     bind_res (dumped_sections parse output) (\<lambda>v.
       Inr (map_option (\<lambda>config.
              case Option.bind (json_get ''type'' config) as_str of Some t \<Rightarrow> t | None \<Rightarrow> ''<missing>'')
            (json_get name v)))"

record smb_remote_details =
  sd_host :: string
  sd_user :: string
  sd_domain :: string

definition text_or_empty :: "string \<Rightarrow> json \<Rightarrow> string" where
  "text_or_empty key v = (case Option.bind (json_get key v) as_str of Some s \<Rightarrow> s | None \<Rightarrow> [])"

definition parse_smb_remote_details ::
  "(string \<Rightarrow> string + json) \<Rightarrow> string \<Rightarrow> string \<Rightarrow> smb_remote_details option res" where
  "parse_smb_remote_details parse output name =
     bind_res (dumped_sections parse output) (\<lambda>v.
       Inr (case json_get name v of
          Some config \<Rightarrow>
            if Option.bind (json_get ''type'' config) as_str = Some ''smb''
            then Some \<lparr>sd_host = text_or_empty ''host'' config, sd_user = text_or_empty ''user'' config,
                       sd_domain = text_or_empty ''domain'' config\<rparr>
            else None
        | None \<Rightarrow> None))"

section \<open>Applying a setup\<close>

definition require_rclone :: "execution_mode \<Rightarrow> string \<Rightarrow> (msg, unit) prog" where
  "require_rclone mode key =
     bindP (runner_resolve mode RcloneExe) (\<lambda>p. if p = None then fail (fl key) else ret ())"

definition ensure_rclone_remote_name_available ::
  "execution_mode \<Rightarrow> (string \<Rightarrow> string + json) \<Rightarrow> string \<Rightarrow> (msg, unit) prog" where
  "ensure_rclone_remote_name_available mode parse name =
     seqP (require_rclone mode ''ui-app-rclone-is-missing-install-rclone-1-74-2'')
     (bindP remote_config_dump (\<lambda>dump.
      bindP (liftR (rclone_config_has_section parse (co_text (out_stdout dump)) name)) (\<lambda>found.
        if found then fail (Fl ''ui-app-rclone-remote-remote-name-already-exists-choose'' [(''remote_name'', Lit name)])
        else ret ())))"

definition rclone_remote_backend ::
  "execution_mode \<Rightarrow> (string \<Rightarrow> string + json) \<Rightarrow> string \<Rightarrow> (msg, string option) prog" where
  "rclone_remote_backend mode parse name =
     seqP (require_rclone mode ''ui-app-rclone-is-missing-install-rclone-1-74-2'')
     (bindP remote_config_dump (\<lambda>dump.
        liftR (rclone_config_section_backend parse (co_text (out_stdout dump)) name)))"

definition cleanup_failed_rclone_remote_create :: "string \<Rightarrow> (msg, bool) prog" where
  "cleanup_failed_rclone_remote_create name =
     (case bind_res (validate_rclone_remote_create_name name) (\<lambda>_. rclone_config_delete_request name) of
        Inl _ \<Rightarrow> ret False
      | Inr r \<Rightarrow> bindP (tryP (run_cmd (r\<lparr>req_timeout := from_secs 10\<rparr>))) (\<lambda>x. ret (is_ok x)))"

definition verify_browser_oauth_setup_access :: "browser_oauth_provider \<Rightarrow> string \<Rightarrow> (msg, unit) prog" where
  "verify_browser_oauth_setup_access p name =
     bindP (liftR (validate_rclone_remote_create_name name)) (\<lambda>_.
     bindP (liftR (map_err command_error_text
              (add_args [''lsf'', name @ '':'', ''--max-depth'', ''1''] (new_request RcloneExe)))) (\<lambda>r.
     bindP (map_errP (browser_oauth_setup_command_error p (access_stage p))
              (run_cmd (r\<lparr>req_timeout := from_secs 20, req_output_limit := 16 * 1024\<rparr>))) (\<lambda>_. ret ())))"

text \<open>The command of the browser flow, what it answered, and a listing of the remote.\<close>

definition oauth_flow ::
  "(string \<Rightarrow> string + json) \<Rightarrow> browser_oauth_provider \<Rightarrow> msg \<Rightarrow> command_request res \<Rightarrow> string \<Rightarrow> (msg, unit) prog" where
  "oauth_flow parse p stage request name =
     bindP (liftR request) (\<lambda>r.
     bindP (map_errP (browser_oauth_setup_command_error p stage) (run_cmd r)) (\<lambda>out.
     seqP (liftR (ensure_browser_oauth_completed parse p out)) (verify_browser_oauth_setup_access p name)))"

definition rolled_back :: "string \<Rightarrow> string \<Rightarrow> (msg, unit) prog \<Rightarrow> (msg, unit) prog" where
  "rolled_back key name m =
     bindP (tryP m) (\<lambda>result.
     case result of
       Inr _ \<Rightarrow> ret ()
     | Inl e \<Rightarrow>
         bindP (cleanup_failed_rclone_remote_create name) (\<lambda>gone.
           if gone then fail e else fail (Fl key [(''error'', e), (''name'', Lit name)])))"

definition create_box_rclone_remote_with ::
  "execution_mode \<Rightarrow> (string \<Rightarrow> string + json) \<Rightarrow> string \<Rightarrow> (msg, string) prog" where
  "create_box_rclone_remote_with mode parse name =
     seqP (ensure_rclone_remote_name_available mode parse name)
     (seqP (rolled_back ''box-rollback-failed'' name
        (oauth_flow parse OauthBox (setup_stage OauthBox) (box_rclone_config_create_request name) name))
     (ret name))"

definition backend_conflict :: "string \<Rightarrow> string \<Rightarrow> string \<Rightarrow> msg" where
  "backend_conflict key name backend = Fl key [(''value1'', Lit name), (''backend'', Lit backend)]"

definition apply_google_drive_rclone_remote_with ::
  "execution_mode \<Rightarrow> (string \<Rightarrow> string + json) \<Rightarrow> google_drive_remote_setup \<Rightarrow> google_drive_remote_action
     \<Rightarrow> (msg, google_drive_remote_apply_result) prog" where
  "apply_google_drive_rclone_remote_with mode parse s act =
     bindP (rclone_remote_backend mode parse (gd_name s)) (\<lambda>backend.
     case (act, backend) of
       (CreateRemote, None) \<Rightarrow>
         seqP (rolled_back ''google-drive-rollback-failed'' (gd_name s)
           (oauth_flow parse OauthGoogleDrive (fl ''ui-app-google-drive-oauth-setup'')
              (google_drive_rclone_config_create_request s) (gd_name s)))
         (ret \<lparr>ga_remote_name = gd_name s, ga_updated = False\<rparr>)
     | (CreateRemote, Some b) \<Rightarrow>
         fail (backend_conflict ''ui-app-rclone-remote-value1-already-exists-with-backend'' (gd_name s) b)
     | (UpdateRemote, Some b) \<Rightarrow>
         if b = ''drive'' then
           if gd_client_id s = None then fail (fl ''ui-app-enter-the-google-oauth-client-id-and'')
           else
             seqP (oauth_flow parse OauthGoogleDrive (fl ''ui-app-google-drive-oauth-update'')
                (google_drive_rclone_config_update_request s) (gd_name s))
             (ret \<lparr>ga_remote_name = gd_name s, ga_updated = True\<rparr>)
         else fail (backend_conflict ''ui-app-rclone-remote-value1-uses-backend-backend-not'' (gd_name s) b)
     | (UpdateRemote, None) \<Rightarrow>
         fail (Fl ''ui-app-google-drive-rclone-remote-value1-no-longer'' [(''value1'', Lit (gd_name s))]))"

definition smb_command :: "string \<Rightarrow> command_request res \<Rightarrow> (msg, unit) prog" where
  "smb_command stage request =
     bindP (liftR request) (\<lambda>r.
     bindP (map_errP (rclone_setup_command_error (fl stage)) (run_cmd r)) (\<lambda>_. ret ()))"

definition smb_create :: "smb_remote_setup \<Rightarrow> (msg, unit) prog" where
  "smb_create s =
     bindP (liftR (smb_rclone_config_create_request s)) (\<lambda>r.
     bindP (tryP (run_cmd r)) (\<lambda>result.
     case result of
       Inr _ \<Rightarrow> ret ()
     | Inl e \<Rightarrow>
         seqP (cleanup_failed_rclone_remote_create (sm_name s))
              (fail (rclone_setup_command_error (fl ''ui-app-config-create'') e))))"

definition smb_remote_ready :: "smb_remote_setup \<Rightarrow> string option \<Rightarrow> (msg, unit) prog" where
  "smb_remote_ready s backend =
     (case backend of
        None \<Rightarrow> smb_create s
      | Some b \<Rightarrow>
          if b = ''smb'' then
            if \<not> has_metadata s \<and> sm_password s = None
            then fail (fl ''ui-app-enter-smb-host-username-domain-or-password'')
            else whenP (has_metadata s) (smb_command ''ui-app-config-update'' (smb_rclone_config_update_request s))
          else fail (backend_conflict ''ui-app-rclone-remote-value1-already-exists-with-backend-2'' (sm_name s) b))"

definition create_smb_rclone_remote_with ::
  "execution_mode \<Rightarrow> (string \<Rightarrow> string + json) \<Rightarrow> smb_remote_setup \<Rightarrow> (msg, smb_remote_apply_result) prog" where
  "create_smb_rclone_remote_with mode parse s =
     bindP (rclone_remote_backend mode parse (sm_name s)) (\<lambda>backend.
     seqP (smb_remote_ready s backend)
     (seqP (whenP (sm_password s \<noteq> None)
        (smb_command ''ui-app-config-password'' (smb_rclone_config_password_request s)))
     (ret \<lparr>sa_remote_name = sm_name s, sa_password_updated = (sm_password s \<noteq> None)\<rparr>)))"

section \<open>Removing a remote\<close>

definition rclone_remote_references :: "config_document \<Rightarrow> string \<Rightarrow> string list" where
  "rclone_remote_references doc name =
     map conn_name (filter (\<lambda>c.
       (conn_provider c \<noteq> OneDrive \<or> is_rclone_onedrive c)
       \<and> ascii_lowercase (remote_reference c) = ascii_lowercase name) (connections doc))"

definition remove_rclone_remote_with :: "execution_mode \<Rightarrow> string \<Rightarrow> (msg, string) prog" where
  "remove_rclone_remote_with mode name =
     bindP (liftR (validate_rclone_remote_create_name name)) (\<lambda>_.
     seqP (require_rclone mode ''ui-app-rclone-is-missing-install-rclone-1-74'')
     (bindP (liftR (rclone_config_delete_request name)) (\<lambda>r.
      bindP (map_errP (rclone_setup_command_error (fl ''ui-app-config-delete'')) (run_cmd r)) (\<lambda>_. ret name))))"

definition remove_rclone_remote_if_unused_with ::
  "execution_mode \<Rightarrow> config_document \<Rightarrow> string \<Rightarrow> (msg, string) prog" where
  "remove_rclone_remote_if_unused_with mode doc name =
     (if rclone_remote_references doc name \<noteq> [] then fail (Fl ''notice-rclone-in-use'' [(''name'', Lit name)])
      else remove_rclone_remote_with mode name)"

end
