(* ===== verification/Sftp_Remotes.thy ===== *)
theory Sftp_Remotes
  imports Remote_Setup
begin

text \<open>
  The SFTP form and the rclone remote behind it (\<open>src/src/app/sftp.rs\<close>): the draft with its credentials, its
  checks, what is read back of a remote, the one request that creates or updates it, the acknowledgement
  that a shared remote needs, and the check of the host verification.  \<open>home\<close> is the home directory that
  \<open>~\<close> names, \<open>user\<close> the login name that a new draft starts with.
\<close>

section \<open>The draft\<close>

datatype sftp_auth = PasswordAuth | KeyAuth | AgentAuth

datatype sftp_field = HostField | PortField | UserField | PasswordField | KeyFileField | KeyPassphraseField | KnownHostsField

record sftp_draft =
  sf_host :: string
  sf_port :: string
  sf_user :: string
  sf_auth :: sftp_auth
  sf_password :: string
  sf_key_file :: string
  sf_key_passphrase :: string
  sf_known_hosts :: string

definition default_sftp :: "string \<Rightarrow> sftp_draft" where
  "default_sftp user =
     \<lparr>sf_host = [], sf_port = ''22'', sf_user = user, sf_auth = PasswordAuth, sf_password = [], sf_key_file = [],
      sf_key_passphrase = [], sf_known_hosts = ''~/.ssh/known_hosts''\<rparr>"

definition has_secrets :: "sftp_draft \<Rightarrow> bool" where
  "has_secrets d = (sf_password d \<noteq> [] \<or> sf_key_passphrase d \<noteq> [])"

definition clear_secrets :: "sftp_draft \<Rightarrow> sftp_draft" where
  "clear_secrets d = d\<lparr>sf_password := [], sf_key_passphrase := []\<rparr>"

fun auth_debug :: "sftp_auth \<Rightarrow> string" where
  "auth_debug PasswordAuth = ''Password''"
| "auth_debug KeyAuth = ''Key''"
| "auth_debug AgentAuth = ''Agent''"

definition setup_values :: "sftp_draft \<Rightarrow> string list" where
  "setup_values d =
     [trim (sf_host d),
      (case parse_unsigned 65535 (trim (sf_port d)) of Some v \<Rightarrow> show_nat v | None \<Rightarrow> sf_port d),
      trim (sf_user d), auth_debug (sf_auth d), trim (sf_key_file d), trim (sf_known_hosts d)]"

fun set_field :: "sftp_field \<Rightarrow> string \<Rightarrow> sftp_draft \<Rightarrow> sftp_draft" where
  "set_field HostField v d = d\<lparr>sf_host := v\<rparr>"
| "set_field PortField v d = d\<lparr>sf_port := v\<rparr>"
| "set_field UserField v d = d\<lparr>sf_user := v\<rparr>"
| "set_field PasswordField v d = d\<lparr>sf_password := v\<rparr>"
| "set_field KeyFileField v d = d\<lparr>sf_key_file := v\<rparr>"
| "set_field KeyPassphraseField v d = d\<lparr>sf_key_passphrase := v\<rparr>"
| "set_field KnownHostsField v d = d\<lparr>sf_known_hosts := v\<rparr>"

definition required_error :: "msg \<Rightarrow> msg" where
  "required_error label = Fl ''sftp-required'' [(''field'', label)]"

definition file_path :: "path option \<Rightarrow> msg \<Rightarrow> string \<Rightarrow> path res" where
  "file_path home label v =
     bind_res (bind_res (optional_setup_value label v) (ok_or (required_error label))) (\<lambda>x.
       if is_absolute (expand_user_path home x) then Inr (expand_user_path home x)
       else Inl (Fl ''sftp-path-invalid'' [(''field'', label)]))"

fun required_values :: "(msg \<times> string) list \<Rightarrow> unit res" where
  "required_values [] = Inr ()"
| "required_values ((label, v) # rest) =
     bind_res (bind_res (optional_setup_value label v) (ok_or (required_error label))) (\<lambda>_. required_values rest)"

definition valid_port :: "string \<Rightarrow> bool" where
  "valid_port port = (case parse_unsigned 65535 (trim port) of Some p \<Rightarrow> 0 < p | None \<Rightarrow> False)"

definition known_hosts_label :: msg where "known_hosts_label = fl ''sftp-known-hosts-label''"
definition private_key_label :: msg where "private_key_label = fl ''sftp-private-key-label''"

definition validate_auth :: "path option \<Rightarrow> sftp_draft \<Rightarrow> unit res" where
  "validate_auth home d =
     (case sf_auth d of
        KeyAuth \<Rightarrow>
          bind_res (file_path home private_key_label (sf_key_file d)) (\<lambda>_.
          bind_res (optional_secret_value (fl ''ui-app-sftp-key-passphrase'') (sf_key_passphrase d)) (\<lambda>_. Inr ()))
      | PasswordAuth \<Rightarrow>
          bind_res (optional_secret_value (fl ''sftp-password'') (sf_password d)) (\<lambda>_. Inr ())
      | AgentAuth \<Rightarrow> Inr ())"

definition validate_sftp :: "path option \<Rightarrow> sftp_draft \<Rightarrow> unit res" where
  "validate_sftp home d =
     bind_res (required_values [(fl ''sftp-host-label'', sf_host d), (fl ''sftp-user-label'', sf_user d)]) (\<lambda>_.
     if CHR ''/'' \<in> set (sf_host d) \<or> list_ex is_white_space (utf8_chars (sf_host d)) then Inl (fl ''sftp-host-invalid'')
     else if \<not> valid_port (sf_port d) then Inl (fl ''sftp-port-invalid'')
     else bind_res (file_path home known_hosts_label (sf_known_hosts d)) (\<lambda>_. validate_auth home d))"

definition setup_error :: "path option \<Rightarrow> string \<Rightarrow> sftp_draft \<Rightarrow> msg option" where
  "setup_error home name d =
     (case bind_res (validate_rclone_remote_create_name (trim name)) (\<lambda>_. validate_sftp home d) of
        Inl e \<Rightarrow> Some e | Inr _ \<Rightarrow> None)"

section \<open>What is read back of a remote\<close>

text \<open>\<open>config[key]\<close>: null when the member is missing.\<close>

definition member :: "string \<Rightarrow> json \<Rightarrow> json" where
  "member key config = (case json_get key config of Some v \<Rightarrow> v | None \<Rightarrow> JNull)"

definition string_option :: "string \<Rightarrow> json \<Rightarrow> string" where
  "string_option key config = (case member key config of JString s \<Rightarrow> s | JNumber n \<Rightarrow> n | _ \<Rightarrow> [])"

definition has_password :: "json \<Rightarrow> bool" where
  "has_password config = (string_option ''pass'' config \<noteq> [] \<and> length (string_option ''pass'' config) \<noteq> 22)"

definition bool_option :: "string \<Rightarrow> json \<Rightarrow> bool" where
  "bool_option key config =
     (case as_bool (member key config) of Some b \<Rightarrow> b | None \<Rightarrow> string_option key config = ''true'')"

definition auth_of_config :: "json \<Rightarrow> sftp_auth" where
  "auth_of_config config =
     (if bool_option ''key_use_agent'' config then AgentAuth
      else if string_option ''key_file'' config \<noteq> [] \<or> string_option ''key_pem'' config \<noteq> [] then KeyAuth
      else if has_password config then PasswordAuth
      else AgentAuth)"

definition or_default :: "string \<Rightarrow> string \<Rightarrow> string" where
  "or_default v d = (if v = [] then d else v)"

definition from_config :: "string \<Rightarrow> json \<Rightarrow> sftp_draft" where
  "from_config user config =
     (default_sftp user)
       \<lparr>sf_host := string_option ''host'' config, sf_user := string_option ''user'' config,
        sf_port := or_default (string_option ''port'' config) ''22'',
        sf_key_file := string_option ''key_file'' config,
        sf_known_hosts := or_default (string_option ''known_hosts_file'' config) ''~/.ssh/known_hosts'',
        sf_auth := auth_of_config config\<rparr>"

definition config_section :: "(string \<Rightarrow> string + json) \<Rightarrow> string \<Rightarrow> string \<Rightarrow> json option res" where
  "config_section parse output name =
     bind_res (map_err (\<lambda>_. fl ''sftp-config-parse'') (parse output)) (\<lambda>v.
       case v of
         JObject members \<Rightarrow>
           (case json_get name v of
              None \<Rightarrow> Inr None
            | Some section \<Rightarrow>
                if as_str (member ''type'' section) = Some ''sftp'' then Inr (Some section)
                else Inl (fl ''sftp-wrong-provider''))
       | _ \<Rightarrow> Inl (fl ''sftp-config-invalid''))"

definition prefill_from_dump :: "(string \<Rightarrow> string + json) \<Rightarrow> string \<Rightarrow> string \<Rightarrow> string \<Rightarrow> sftp_draft option res" where
  "prefill_from_dump parse user output name =
     bind_res (config_section parse output name) (\<lambda>config. Inr (map_option (from_config user) config))"

section \<open>The request\<close>

definition check_existing :: "json option \<Rightarrow> unit res" where
  "check_existing existing =
     (case existing of
        None \<Rightarrow> Inr ()
      | Some config \<Rightarrow>
          if as_str (member ''type'' config) \<noteq> Some ''sftp'' then Inl (fl ''sftp-backend-mismatch'')
          else if string_option ''ssh'' config \<noteq> [] \<or> string_option ''key_pem'' config \<noteq> []
          then Inl (fl ''sftp-custom-ssh'')
          else Inr ())"

definition same_auth :: "sftp_draft \<Rightarrow> json option \<Rightarrow> bool" where
  "same_auth d existing = (case existing of Some config \<Rightarrow> auth_of_config config = sf_auth d | None \<Rightarrow> False)"

definition same_key :: "path option \<Rightarrow> sftp_draft \<Rightarrow> json option \<Rightarrow> path \<Rightarrow> bool" where
  "same_key home d existing key =
     (same_auth d existing
      \<and> (case existing of
           Some config \<Rightarrow> file_path home private_key_label (string_option ''key_file'' config) = Inr key
         | None \<Rightarrow> False))"

definition common_pairs :: "sftp_draft \<Rightarrow> path \<Rightarrow> (string \<times> string) list" where
  "common_pairs d known_hosts =
     [(''host'', trim (sf_host d)), (''port'', trim (sf_port d)), (''user'', trim (sf_user d)),
      (''known_hosts_file'', known_hosts), (''ask_password'', ''false''),
      (''key_use_agent'', if sf_auth d = AgentAuth then ''true'' else ''false'')]"

definition auth_pairs :: "path option \<Rightarrow> sftp_draft \<Rightarrow> json option \<Rightarrow> (string \<times> string) list res" where
  "auth_pairs home d existing =
     (case sf_auth d of
        PasswordAuth \<Rightarrow>
          if sf_password d = [] \<and> \<not> (same_auth d existing \<and> (\<exists>c \<in> set_option existing. has_password c))
          then Inl (fl ''sftp-password-required'')
          else Inr ((if sf_password d = [] then [] else [(''pass'', sf_password d)])
                 @ [(''key_file'', []), (''key_file_pass'', []), (''pubkey_file'', []), (''pubkey'', [])])
      | KeyAuth \<Rightarrow>
          bind_res (file_path home private_key_label (sf_key_file d)) (\<lambda>key.
            Inr ([(''pass'', []), (''key_file'', key)]
              @ (if same_key home d existing key \<and> sf_key_passphrase d = [] then []
                 else [(''key_file_pass'', sf_key_passphrase d)])
              @ (if same_key home d existing key then [] else [(''pubkey_file'', []), (''pubkey'', [])])))
      | AgentAuth \<Rightarrow>
          Inr ([(''pass'', []), (''key_file_pass'', [])]
            @ (if same_auth d existing then [] else [(''key_file'', []), (''pubkey_file'', []), (''pubkey'', [])])))"

definition setup_words :: "string \<Rightarrow> json option \<Rightarrow> command_request res" where
  "setup_words name existing =
     bind_res (map_err (\<lambda>_. fl ''sftp-invalid-remote-name'')
       (add_args [''config'', if existing = None then ''create'' else ''update'', name] (new_request RcloneExe))) (\<lambda>r.
     if existing = None then map_err (\<lambda>_. fl ''sftp-invalid-backend'') (add_arg ''sftp'' r) else Inr r)"

definition setup_request :: "path option \<Rightarrow> string \<Rightarrow> sftp_draft \<Rightarrow> json option \<Rightarrow> command_request res" where
  "setup_request home name d existing =
     bind_res (validate_rclone_remote_create_name name) (\<lambda>_.
     bind_res (validate_sftp home d) (\<lambda>_.
     bind_res (check_existing existing) (\<lambda>_.
     bind_res (file_path home known_hosts_label (sf_known_hosts d)) (\<lambda>known_hosts.
     bind_res (auth_pairs home d existing) (\<lambda>auth.
     let pairs = common_pairs d known_hosts @ auth @ (if existing = None then [(''shell_type'', ''none'')] else [])
     in bind_res (setup_words name existing) (\<lambda>r1.
        bind_res (map_err (\<lambda>_. fl ''sftp-invalid-option'') (add_pairs pairs r1)) (\<lambda>r2.
        bind_res (map_err (\<lambda>_. fl ''sftp-invalid-request'') (add_args [''--obscure'', ''--non-interactive''] r2)) (\<lambda>r3.
          Inr (r3\<lparr>req_timeout := from_secs 30\<rparr>)))))))))"

section \<open>Applying\<close>

fun sftp_setup_error :: "msg \<Rightarrow> command_error \<Rightarrow> msg" where
  "sftp_setup_error stage (Timeout t) =
     Fl ''sftp-stage-timeout'' [(''stage'', stage), (''seconds'', Lit (show_nat (t div from_secs 1)))]"
| "sftp_setup_error stage (MissingExecutable _) = fl ''sftp-rclone-missing''"
| "sftp_setup_error stage Cancelled = Fl ''sftp-stage-cancelled'' [(''stage'', stage)]"
| "sftp_setup_error stage InvalidArgument = fl ''sftp-invalid-option''"
| "sftp_setup_error stage (Spawn _) = fl ''sftp-start-failed''"
| "sftp_setup_error stage (NonZero _ _ _ _) = Fl ''sftp-stage-failed'' [(''stage'', stage)]"

definition sftp_dump :: "(command_error \<Rightarrow> msg) \<Rightarrow> (msg, string) prog" where
  "sftp_dump g =
     bindP (liftR (map_err (\<lambda>_. fl ''sftp-invalid-config-request'') (add_args [''config'', ''dump''] (new_request RcloneExe)))) (\<lambda>r.
     bindP (map_errP g (run_cmd (r\<lparr>req_timeout := from_secs 5\<rparr>))) (\<lambda>out. ret (co_text (out_stdout out))))"

definition saved_by :: "(string \<Rightarrow> string + json) \<Rightarrow> command_output \<Rightarrow> unit res" where
  "saved_by parse out =
     (if list_ex (\<lambda>line. str_contains ''ERROR :'' line \<or> str_contains ''Failed to save config'' line)
           (lines (co_text (out_stderr out)))
      then Inl (fl ''sftp-save-failed'')
      else if trim (co_text (out_stdout out)) = [] then Inr ()
      else bind_res (map_err (\<lambda>_. fl ''sftp-unexpected-response'') (parse (co_text (out_stdout out)))) (\<lambda>v.
        if nonempty_str ''State'' v \<or> nonempty_str ''Error'' v then Inl (fl ''sftp-needs-configuration'') else Inr ()))"

definition apply_remote ::
  "(string \<Rightarrow> string + json) \<Rightarrow> path option \<Rightarrow> string \<Rightarrow> sftp_draft \<Rightarrow> bool \<Rightarrow> (msg, bool) prog" where
  "apply_remote parse home name d update_only =
     bindP (liftR (bind_res (validate_rclone_remote_create_name name) (\<lambda>_. validate_sftp home d))) (\<lambda>_.
     bindP (sftp_dump (sftp_setup_error (fl ''sftp-stage-read-config''))) (\<lambda>dump.
     bindP (liftR (config_section parse dump name)) (\<lambda>existing.
     if update_only \<and> existing = None then fail (fl ''sftp-remote-gone'')
     else
     bindP (liftR (setup_request home name d existing)) (\<lambda>r.
     bindP (map_errP (sftp_setup_error (fl ''sftp-stage-save-remote'')) (run_cmd r)) (\<lambda>out.
     bindP (liftR (saved_by parse out)) (\<lambda>_. ret (existing \<noteq> None)))))))"

definition verify_host_verification :: "(string \<Rightarrow> string + json) \<Rightarrow> path option \<Rightarrow> string \<Rightarrow> (msg, unit) prog" where
  "verify_host_verification parse home name =
     bindP (sftp_dump (\<lambda>_. fl ''sftp-host-verification-read'')) (\<lambda>dump.
     bindP (liftR (bind_res (config_section parse dump name) (ok_or (fl ''sftp-remote-not-found'')))) (\<lambda>config.
     if string_option ''ssh'' config \<noteq> [] then fail (fl ''sftp-external-ssh'')
     else liftR (map_err (\<lambda>_. fl ''sftp-known-hosts-required'')
       (bind_res (file_path home known_hosts_label (string_option ''known_hosts_file'' config)) (\<lambda>_. Inr ())))))"

section \<open>The form\<close>

text \<open>
  What the settings window keeps for the form: the provider and the remote of the draft, its SFTP fields,
  whether an update runs, whether the fields differ from the remote, the number of their changes (a
  wrapping counter), the remote and fields whose effect on other connections was acknowledged, the
  authentication whose secret a failed update has used up, whether the window modifies a saved connection
  and whether a test of the draft still counts.
\<close>

record sftp_editor =
  se_provider :: provider
  se_remote :: string
  se_draft :: sftp_draft
  se_pending :: bool
  se_dirty :: bool
  se_revision :: u64
  se_ack :: "(string \<times> sftp_draft) option"
  se_retry :: "sftp_auth option"
  se_modifies :: bool
  se_validated :: bool
  se_notice :: "msg option"

definition mark_sftp_settings_changed :: "sftp_editor \<Rightarrow> sftp_editor" where
  "mark_sftp_settings_changed s = s\<lparr>se_revision := se_revision s + 1, se_dirty := True\<rparr>"

datatype sftp_edit = EditField sftp_field string | EditAuth sftp_auth

fun edited :: "sftp_edit \<Rightarrow> sftp_draft \<Rightarrow> sftp_draft" where
  "edited (EditField field v) d = set_field field v d"
| "edited (EditAuth auth) d = (if sf_auth d = auth then d else (clear_secrets d)\<lparr>sf_auth := auth\<rparr>)"

fun edit_sftp :: "sftp_edit \<Rightarrow> sftp_editor \<Rightarrow> sftp_editor" where
  "edit_sftp (EditField field v) s =
     (let s1 = s\<lparr>se_validated := False, se_ack := None, se_draft := edited (EditField field v) (se_draft s)\<rparr>
      in if se_draft s1 = se_draft s then s1 else mark_sftp_settings_changed s1)"
| "edit_sftp (EditAuth auth) s =
     (let s1 = s\<lparr>se_validated := False, se_ack := None\<rparr>
      in if sf_auth (se_draft s) = auth then s1
         else mark_sftp_settings_changed
                (s1\<lparr>se_draft := edited (EditAuth auth) (se_draft s), se_retry := None\<rparr>))"

definition finish_sftp_settings_update :: "string \<Rightarrow> u64 \<Rightarrow> bool \<Rightarrow> sftp_editor \<Rightarrow> sftp_editor" where
  "finish_sftp_settings_update name revision succeeded s =
     (if succeeded \<and> se_provider s = Sftp \<and> trim (se_remote s) = name \<and> se_revision s = revision
      then s\<lparr>se_dirty := False\<rparr> else s)"

definition finish_sftp_details :: "sftp_draft option res \<Rightarrow> sftp_editor \<Rightarrow> sftp_editor" where
  "finish_sftp_details result s =
     (case result of
        Inr (Some d) \<Rightarrow> s\<lparr>se_draft := d, se_notice := Some (fl ''sftp-settings-loaded'')\<rparr>
      | Inr None \<Rightarrow> s\<lparr>se_notice := Some (fl ''sftp-remote-not-found-help'')\<rparr>
      | Inl e \<Rightarrow> s\<lparr>se_notice := Some e\<rparr>)"

section \<open>Starting an update\<close>

record sftp_task =
  st_name :: string
  st_revision :: u64
  st_secret :: "sftp_auth option"
  st_draft :: sftp_draft
  st_update_only :: bool

definition secret_empty :: "sftp_draft \<Rightarrow> bool" where
  "secret_empty d =
     (case sf_auth d of PasswordAuth \<Rightarrow> sf_password d = [] | KeyAuth \<Rightarrow> sf_key_passphrase d = [] | AgentAuth \<Rightarrow> False)"

definition attempted_secret :: "sftp_draft \<Rightarrow> sftp_auth option" where
  "attempted_secret d = (if sf_auth d = AgentAuth \<or> secret_empty d then None else Some (sf_auth d))"

definition affected_connections :: "connection list \<Rightarrow> string \<Rightarrow> string list" where
  "affected_connections cs name =
     map conn_name (filter (\<lambda>c. conn_provider c \<noteq> OneDrive
       \<and> ascii_lowercase (remote_reference c) = ascii_lowercase name) cs)"

definition start_sftp_update :: "string \<Rightarrow> sftp_editor \<Rightarrow> sftp_task option \<times> sftp_editor" where
  "start_sftp_update name s =
     (Some \<lparr>st_name = name, st_revision = se_revision s, st_secret = attempted_secret (se_draft s),
            st_draft = se_draft s, st_update_only = se_modifies s\<rparr>,
      s\<lparr>se_ack := None, se_retry := None, se_draft := clear_secrets (se_draft s), se_dirty := True, se_pending := True,
        se_validated := False, se_notice := Some (Fl ''sftp-applying'' [(''name'', Lit name)])\<rparr>)"

definition apply_sftp_remote :: "connection list \<Rightarrow> path option \<Rightarrow> sftp_editor \<Rightarrow> sftp_task option \<times> sftp_editor" where
  "apply_sftp_remote cs home s =
     (if se_provider s \<noteq> Sftp \<or> se_pending s then (None, s)
      else if se_retry s = Some (sf_auth (se_draft s)) \<and> secret_empty (se_draft s)
      then (None, s\<lparr>se_notice := Some (fl ''sftp-reenter-secret'')\<rparr>)
      else
        let name = trim (se_remote s)
        in case bind_res (validate_rclone_remote_create_name name) (\<lambda>_. validate_sftp home (se_draft s)) of
             Inl e \<Rightarrow> (None, s\<lparr>se_draft := clear_secrets (se_draft s), se_ack := None, se_notice := Some e\<rparr>)
           | Inr _ \<Rightarrow>
               if affected_connections cs name \<noteq> [] \<and> se_ack s \<noteq> Some (name, se_draft s)
               then (None, s\<lparr>se_ack := Some (name, se_draft s),
                             se_notice := Some (Fl ''sftp-update-affects''
                               [(''connections'', Lit (join '', '' (affected_connections cs name)))])\<rparr>)
               else start_sftp_update name s)"

section \<open>Its completion\<close>

definition used_up :: "string \<Rightarrow> sftp_auth option \<Rightarrow> bool res \<Rightarrow> sftp_editor \<Rightarrow> sftp_auth option" where
  "used_up name secret result s =
     (if is_err result \<and> se_provider s = Sftp \<and> trim (se_remote s) = name \<and> secret = Some (sf_auth (se_draft s))
      then secret else None)"

definition applied_notice :: "string \<Rightarrow> sftp_auth option \<Rightarrow> bool res \<Rightarrow> msg" where
  "applied_notice name secret result =
     (case result of
        Inr updated \<Rightarrow> Fl (if updated then ''sftp-updated'' else ''sftp-created'') [(''name'', Lit name)]
      | Inl e \<Rightarrow> Fl (if secret = None then ''sftp-apply-failed'' else ''sftp-apply-failed-secret'')
                  [(''name'', Lit name), (''error'', e)])"

definition sftp_remote_applied :: "string \<Rightarrow> u64 \<Rightarrow> sftp_auth option \<Rightarrow> bool res \<Rightarrow> sftp_editor \<Rightarrow> sftp_editor" where
  "sftp_remote_applied name revision secret result s =
     (finish_sftp_settings_update name revision (is_ok result) s)
       \<lparr>se_pending := False, se_ack := None, se_validated := False, se_retry := used_up name secret result s,
        se_notice := Some (applied_notice name secret result)\<rparr>"

end
