(* ===== verification/Remote_Access.thy ===== *)
theory Remote_Access
  imports Sftp_Remotes Online_Operations
begin

text \<open>
  The read-only check of a connection's remote (\<open>verify_rclone_access\<close> and the messages of its errors in
  \<open>src/src/app.rs\<close>).  The verification of a SharePoint library against Microsoft Graph is the argument
  \<open>teams\<close>, that of a OneDrive resource the operation of the coordinator's library.
\<close>

section \<open>Errors\<close>

definition rclone_backend_name :: "provider \<Rightarrow> string option" where
  "rclone_backend_name p =
     (case p of
        GoogleDrive \<Rightarrow> Some ''drive'' | Box \<Rightarrow> Some ''box'' | Smb \<Rightarrow> Some ''smb'' | Sftp \<Rightarrow> Some ''sftp''
      | Teams \<Rightarrow> Some ''onedrive'' | OneDrive \<Rightarrow> None)"

definition rclone_access_target :: "connection \<Rightarrow> string" where
  "rclone_access_target c =
     (case remote_subpath c of
        Some s \<Rightarrow> if trim s \<noteq> [] then remote_reference c @ '':'' @ trim s else remote_reference c @ '':''
      | None \<Rightarrow> remote_reference c @ '':'')"

definition apostrophe :: string where "apostrophe = [CHR 0x27]"

definition access_failed_key :: "string \<Rightarrow> string" where
  "access_failed_key lower =
     (if any_of [''directory not found'', ''object not found'', ''not found'', ''doesn'' @ apostrophe @ ''t exist''] lower
      then ''ui-app-remote-subtree-target-is-not-accessible-or''
      else if any_of [''auth'', ''token'', ''unauthorized'', ''forbidden'', ''permission''] lower
      then ''ui-app-rclone-remote-for-target-is-not-authorized''
      else if any_of [''network'', ''connection'', ''timeout'', ''no route'', ''host'', ''dns''] lower
      then ''ui-app-network-or-vpn-readiness-failed-while-checking-2''
      else ''ui-app-read-only-rclone-access-check-failed-for'')"

fun rclone_access_error :: "msg \<Rightarrow> command_error \<Rightarrow> msg" where
  "rclone_access_error target (MissingExecutable e) =
     Fl ''ui-app-value1-is-missing'' [(''value1'', Lit (display_name e))]"
| "rclone_access_error target InvalidArgument =
     fl ''ui-app-rclone-command-argument-contains-unsupported-characters''"
| "rclone_access_error target (Timeout t) =
     Fl ''ui-app-read-only-rclone-access-check-for-target''
       [(''target'', target), (''value2'', Lit (show_nat (t div from_secs 1)))]"
| "rclone_access_error target Cancelled = fl ''ui-app-rclone-access-check-was-cancelled''"
| "rclone_access_error target (Spawn m) = Fl ''ui-app-could-not-start-rclone-message'' [(''message'', Lit m)]"
| "rclone_access_error target (NonZero _ stdout stderr _) =
     Fl (access_failed_key (ascii_lowercase (shown_detail stdout stderr)))
       [(''target'', target), (''detail'', Lit (shown_detail stdout stderr))]"

fun rclone_remote_validation_error :: "connection \<Rightarrow> provider_error \<Rightarrow> msg" where
  "rclone_remote_validation_error c (PvName PInvalidRemoteReference) =
     Fl ''ui-app-rclone-remote-value1-was-not-found-run'' [(''value1'', Lit (remote_reference c))]"
| "rclone_remote_validation_error c (PvName PInvalidRemoteSubpath) =
     fl ''ui-app-remote-subtree-contains-unsupported-characters-2''"
| "rclone_remote_validation_error c (PvUnsupportedProvider _) =
     Fl ''ui-app-rclone-remote-value1-exists-but-does-not''
       [(''value1'', Lit (remote_reference c)),
        (''value2'', case rclone_backend_name (conn_provider c) of Some b \<Rightarrow> Lit b | None \<Rightarrow> fl ''value-unknown''),
        (''value3'', provider_label (conn_provider c))]"
| "rclone_remote_validation_error c (PvMissingExecutable e) =
     Fl ''ui-app-value1-is-missing'' [(''value1'', Lit (display_name e))]"
| "rclone_remote_validation_error c (PvCommand e) = rclone_access_error (fl ''rclone-stage-config-dump'') e"
| "rclone_remote_validation_error c (PvInvalidResponse m) =
     Fl ''ui-app-rclone-config-dump-returned-an-unexpected-response'' [(''message'', m)]"
| "rclone_remote_validation_error c PvInvalidMode = fl ''ui-app-selected-connection-mode-is-invalid-for-rclone''"
| "rclone_remote_validation_error c (PvInvalidSharePointIdentity m) = m"
| "rclone_remote_validation_error c (PvInvalidMountpointGuard m) = m"
| "rclone_remote_validation_error c PvUnauthenticated =
     fl ''ui-app-rclone-remote-is-not-authenticated-reauthorize-it''"

text \<open>The signatures that \<open>sftp_access_error\<close> knows, in the order in which it tries them.\<close>

definition sftp_failed_key :: "string \<Rightarrow> string" where
  "sftp_failed_key lower =
     (if str_contains ''known_hosts_file'' lower
         \<and> any_of [''no such file'', ''permission denied'', ''couldn'' @ apostrophe @ ''t parse'', ''cannot read''] lower
      then ''ui-app-sftp-known-hosts-file-is-missing-unreadable''
      else if any_of [''knownhosts:'', ''host key'', ''hostkey'', ''remote host identification has changed'',
                      ''no authorities for hostname''] lower
      then ''ui-app-sftp-host-key-verification-failed-verify-the''
      else if any_of [''key_file'', ''private key''] lower
         \<and> any_of [''no such file'', ''permission denied'', ''cannot read'', ''failed to load''] lower
      then ''ui-app-sftp-private-key-file-is-missing-or''
      else if any_of [''ssh_auth_sock'', ''ssh agent'', ''ssh-agent''] lower
      then ''ui-app-sftp-ssh-agent-is-unavailable-or-has''
      else if any_of [''i/o timeout'', ''connection timed out'', ''context deadline exceeded''] lower
      then ''ui-app-sftp-connection-timed-out-check-the-server''
      else if any_of [''unable to authenticate'', ''authentication failed'', ''no supported methods remain'',
                      ''too many authentication failures''] lower
         \<or> (str_contains ''handshake'' lower \<and> str_contains ''permission denied'' lower)
      then ''ui-app-sftp-authentication-failed-check-the-username-and''
      else if any_of [''permission denied'', ''access denied'', ''operation not permitted''] lower
      then ''ui-app-sftp-login-succeeded-but-the-selected-directory''
      else if any_of [''directory not found'', ''object not found'', ''path not found'', ''no such file'',
                      ''not a directory'', ''doesn'' @ apostrophe @ ''t exist''] lower
      then ''ui-app-sftp-directory-was-not-found-check-the''
      else if any_of [''connection refused'', ''no route to host'', ''network is unreachable'', ''no such host'',
                      ''dial tcp''] lower
      then ''ui-app-sftp-server-could-not-be-reached-check''
      else ''ui-app-sftp-access-check-failed-check-the-server'')"

fun sftp_access_error :: "command_error \<Rightarrow> msg" where
  "sftp_access_error (MissingExecutable _) = fl ''ui-app-rclone-is-missing-install-it-before-testing''"
| "sftp_access_error InvalidArgument = fl ''ui-app-sftp-access-request-contains-unsupported-characters''"
| "sftp_access_error (Timeout _) = fl ''ui-app-sftp-access-timed-out-check-the-server''"
| "sftp_access_error Cancelled = fl ''ui-app-sftp-access-check-was-cancelled''"
| "sftp_access_error (Spawn _) = fl ''ui-app-could-not-start-rclone-for-the-sftp''"
| "sftp_access_error (NonZero _ stdout stderr _) =
     fl (sftp_failed_key (ascii_lowercase (if trim (co_text stderr) = [] then co_text stdout else co_text stderr)))"

section \<open>The check\<close>

record verified_library =
  vl_identity :: sharepoint_identity
  vl_account :: "string option"

type_synonym teams_verifier = "string \<Rightarrow> sharepoint_identity \<Rightarrow> (msg, verified_library) prog"

definition teams_summary :: "verified_library \<Rightarrow> msg" where
  "teams_summary v =
     Fl ''ui-app-sharepoint-library-value1-at-site-value2-and''
       [(''value1'', Lit (library_url (vl_identity v))), (''value2'', Lit (site_url (vl_identity v))),
        (''value3'', Lit (sp_drive_id (vl_identity v))),
        (''account'', case vl_account v of Some a \<Rightarrow> Lit a
           | None \<Rightarrow> fl ''ui-app-account-unavailable-from-microsoft-graph'')]"

definition verify_teams :: "teams_verifier \<Rightarrow> connection \<Rightarrow> verified_library option \<Rightarrow> (msg, msg) prog" where
  "verify_teams teams c known =
     (if conn_provider c \<noteq> Teams then ret (Lit [])
      else bindP (case known of
             Some v \<Rightarrow> ret v
           | None \<Rightarrow>
               bindP (liftR (ok_or (fl ''ui-app-sharepoint-library-identity-is-missing-edit-and'') (teams_identity c)))
                 (teams (remote_reference c))) (\<lambda>v. ret (teams_summary v)))"

definition access_request :: "connection \<Rightarrow> command_request res" where
  "access_request c =
     map_err command_error_text
       (bind_res (add_args [''lsf'', rclone_access_target c, ''--max-depth'', ''1''] (new_request RcloneExe)) (\<lambda>r.
          Inr (r\<lparr>req_timeout := from_secs 20, req_output_limit := 16 * 1024\<rparr>)))"

definition access_error :: "connection \<Rightarrow> command_error \<Rightarrow> msg" where
  "access_error c e =
     (if conn_provider c = Sftp then sftp_access_error e
      else if conn_provider c = Teams then rclone_read_error e (remote_subpath c \<noteq> None)
      else rclone_access_error (Lit (rclone_access_target c)) e)"

definition access_summary :: "connection \<Rightarrow> string \<Rightarrow> command_output \<Rightarrow> msg \<Rightarrow> msg" where
  "access_summary c backend out teams_text =
     msg.Cat [Fl ''ui-app-rclone-remote-value1-exists-backend-expected-backend''
            [(''value1'', Lit (remote_reference c)), (''expected_backend'', Lit backend),
             (''value3'', provider_label (conn_provider c)), (''target'', Lit (rclone_access_target c)),
             (''visible_items'', Lit (show_nat (length (lines (co_text (out_stdout out))))))],
          teams_text]"

definition verify_onedrive_mirror :: "'u coordinator_lib \<Rightarrow> connection \<Rightarrow> (msg, msg) prog" where
  "verify_onedrive_mirror L c =
     (let candidate = c\<lparr>conn_enabled := True\<rparr>
      in map_errP onedrive_error_text
           (bindP (liftR (onedrive_binding_from candidate)) (\<lambda>b.
            seqP (liftR (cl_graph L))
            (seqP (verify_onedrive_binding L candidate b) (ret (fl ''onedrive-runtime-remote-verified''))))))"

definition verify_rclone_remote ::
  "(string \<Rightarrow> string + json) \<Rightarrow> path option \<Rightarrow> teams_verifier \<Rightarrow> connection \<Rightarrow> verified_library option
     \<Rightarrow> (msg, msg) prog" where
  "verify_rclone_remote parse home teams c known =
     bindP (verify_teams teams c known) (\<lambda>teams_text.
     seqP (whenP (conn_provider c = Sftp) (verify_host_verification parse home (remote_reference c)))
     (bindP (liftR (ok_or (fl ''ui-app-selected-provider-does-not-use-rclone'')
               (rclone_backend_name (conn_provider c)))) (\<lambda>backend.
      seqP (map_errP (rclone_remote_validation_error c) (validate_remote parse c))
      (bindP (liftR (access_request c)) (\<lambda>r.
       bindP (map_errP (access_error c) (run_cmd r)) (\<lambda>out.
         ret (access_summary c backend out teams_text)))))))"

definition verify_rclone_access_with_verified ::
  "'u coordinator_lib \<Rightarrow> (string \<Rightarrow> string + json) \<Rightarrow> path option \<Rightarrow> teams_verifier \<Rightarrow> connection
     \<Rightarrow> verified_library option \<Rightarrow> (msg, msg) prog" where
  "verify_rclone_access_with_verified L parse home teams c known =
     seqP (if is_online c then ret () else bindP (resolve_uncancelled L c) (\<lambda>_. ret ()))
     (if is_rclone_onedrive c then verify_onedrive_mirror L c
      else verify_rclone_remote parse home teams c known)"

definition verify_rclone_access ::
  "'u coordinator_lib \<Rightarrow> (string \<Rightarrow> string + json) \<Rightarrow> path option \<Rightarrow> teams_verifier \<Rightarrow> connection \<Rightarrow> (msg, msg) prog" where
  "verify_rclone_access L parse home teams c = verify_rclone_access_with_verified L parse home teams c None"

end
