(* ===== verification/Remote_Safety.thy ===== *)
theory Remote_Safety
  imports Remote_Access Operations_Safety
begin

text \<open>
  What setting up a remote guarantees: credentials reach rclone only as masked arguments, a remote that exists
  is neither created again nor deleted, an update of the SFTP form leaves later edits marked, and what the
  redaction of the runner does to the check for a stored password.
\<close>

section \<open>Masked arguments\<close>

definition unmasked :: "command_request \<Rightarrow> string list" where
  "unmasked r = map arg_value (filter (\<lambda>a. \<not> arg_sensitive a) (req_args r))"

text \<open>Every word of a setup but the name of the remote.\<close>

definition SETUP_WORDS :: "string list" where
  "SETUP_WORDS =
     [''config'', ''create'', ''update'', ''password'', ''drive'', ''box'', ''smb'', ''sftp'', ''host'', ''port'', ''user'',
      ''domain'', ''pass'', ''known_hosts_file'', ''ask_password'', ''key_use_agent'', ''key_file'', ''key_file_pass'',
      ''pubkey_file'', ''pubkey'', ''shell_type'', ''client_id'', ''client_secret'', ''scope'', ''config_is_local'',
      ''true'', ''--obscure'', ''--non-interactive'']"

lemma unmasked_add_args: "add_args vs r = Inr r' \<Longrightarrow> unmasked r' = unmasked r @ vs"
  by (simp add: add_args_Inr unmasked_def filter_map o_def)

lemma unmasked_add_pairs: "add_pairs ps r = Inr r' \<Longrightarrow> unmasked r' = unmasked r @ map fst ps"
  by (induction ps r rule: add_pairs.induct)
     (auto simp: bind_res_Inr add_arg_def add_sensitive_arg_def unmasked_def)

lemma unmasked_add_arg: "add_arg v r = Inr r' \<Longrightarrow> unmasked r' = unmasked r @ [v]"
  by (auto simp: add_arg_def bind_res_Inr unmasked_def)

lemma unmasked_new [simp]: "unmasked (new_request e) = []" "unmasked (r\<lparr>req_timeout := t\<rparr>) = unmasked r"
  by (simp_all add: unmasked_def new_request_def)

lemma unmasked_config_command:
  "config_command words pairs flags t = Inr r \<Longrightarrow> unmasked r = ''config'' # words @ map fst pairs @ flags"
  unfolding config_command_def
  by (auto simp only: bind_res_Inr map_err_Inr sum.inject unmasked_new append.simps append_assoc
      dest!: unmasked_add_args unmasked_add_pairs)

lemma config_masked:
  assumes "config_command (verb # name # words) pairs flags t = Inr r"
    and "set (''config'' # verb # words @ map fst pairs @ flags) \<subseteq> set SETUP_WORDS"
  shows "set (unmasked r) \<subseteq> insert name (set SETUP_WORDS)"
  using unmasked_config_command [OF assms(1)] assms(2) by auto

lemma auth_pairs_keys:
  "auth_pairs home d existing = Inr ps \<Longrightarrow>
   fst ` set ps \<subseteq> {''pass'', ''key_file'', ''key_file_pass'', ''pubkey_file'', ''pubkey''}"
  by (auto simp: auth_pairs_def bind_res_Inr split: sftp_auth.split_asm if_split_asm)

lemma setup_words_unmasked:
  "setup_words name existing = Inr r \<Longrightarrow> set (unmasked r) \<subseteq> {''config'', ''create'', ''update'', name, ''sftp''}"
  unfolding setup_words_def
  by (auto simp only: bind_res_Inr map_err_Inr sum.inject unmasked_new append.simps append_assoc set_simps
      dest!: unmasked_add_args unmasked_add_arg split: if_split_asm)

lemma option_pair_keys: "map fst (option_pair key v) = (if v = None then [] else [key])"
  by (simp add: option_pair_def split: option.split)

lemma sftp_keys:
  "fst ` set (common_pairs d known_hosts) \<subseteq> set SETUP_WORDS"
  "{''pass'', ''key_file'', ''key_file_pass'', ''pubkey_file'', ''pubkey''} \<subseteq> set SETUP_WORDS"
  "{''config'', ''create'', ''update'', name, ''sftp''} \<subseteq> insert name (set SETUP_WORDS)"
  "fst ` set (if b then [(''shell_type'', ''none'')] else []) \<subseteq> set SETUP_WORDS"
  "{''--obscure'', ''--non-interactive''} \<subseteq> set SETUP_WORDS"
  by (cases b; simp add: common_pairs_def SETUP_WORDS_def)+

lemma sftp_request_unmasked:
  assumes "setup_request home name d existing = Inr r"
  shows "set (unmasked r) \<subseteq> insert name (set SETUP_WORDS)"
proof -
  from assms obtain known_hosts auth r1 r2 r3 where auth: "auth_pairs home d existing = Inr auth"
    and r1: "setup_words name existing = Inr r1"
    and r2: "add_pairs (common_pairs d known_hosts @ auth @ (if existing = None then [(''shell_type'', ''none'')] else [])) r1 = Inr r2"
    and r3: "add_args [''--obscure'', ''--non-interactive''] r2 = Inr r3" and r: "r = r3\<lparr>req_timeout := from_secs 30\<rparr>"
    unfolding setup_request_def Let_def by (auto simp only: bind_res_Inr map_err_Inr sum.inject)
  have "set (unmasked r) = set (unmasked r1) \<union> fst ` set (common_pairs d known_hosts) \<union> fst ` set auth
      \<union> fst ` set (if existing = None then [(''shell_type'', ''none'')] else []) \<union> {''--obscure'', ''--non-interactive''}"
    unfolding r unmasked_new unmasked_add_args [OF r3] unmasked_add_pairs [OF r2]
    by (simp only: set_append set_map image_Un Un_assoc list.set map_append)
  also have "\<dots> \<subseteq> insert name (set SETUP_WORDS)"
    using order_trans [OF setup_words_unmasked [OF r1] sftp_keys(3)] sftp_keys(1) [of d known_hosts]
      order_trans [OF auth_pairs_keys [OF auth] sftp_keys(2)] sftp_keys(4) [of "existing = None"] sftp_keys(5)
    by (intro Un_least) (blast intro: subset_trans)+
  finally show ?thesis .
qed

lemma google_request_unmasked:
  "google_drive_rclone_config_create_request g = Inr r \<or> google_drive_rclone_config_update_request g = Inr r \<Longrightarrow>
   set (unmasked r) \<subseteq> insert (gd_name g) (set SETUP_WORDS)"
  unfolding google_drive_rclone_config_create_request_def google_drive_rclone_config_update_request_def bind_res_Inr
  by (cases "gd_client_id g"; cases "gd_client_secret g"; elim disjE exE conjE; erule config_masked)
     (simp_all add: SETUP_WORDS_def)

lemma smb_request_unmasked:
  "smb_rclone_config_create_request s = Inr r \<or> smb_rclone_config_update_request s = Inr r
     \<or> smb_rclone_config_password_request s = Inr r \<Longrightarrow>
   set (unmasked r) \<subseteq> insert (sm_name s) (set SETUP_WORDS)"
  unfolding smb_rclone_config_create_request_def smb_rclone_config_update_request_def
    smb_rclone_config_password_request_def bind_res_Inr
  by (elim disjE exE conjE; erule config_masked) (simp_all add: SETUP_WORDS_def option_pair_keys)

text \<open>
  C22. Credentials are masked: whatever the form holds, the arguments of a setup that are not marked sensitive are
  the name of the remote and words of a fixed list; host, user, paths, passwords, passphrases and client
  secrets are among the masked ones.
\<close>
theorem credentials_are_masked:
  "(case setup_request home name d existing of Inl _ \<Rightarrow> True | Inr r \<Rightarrow> set (unmasked r) \<subseteq> insert name (set SETUP_WORDS))
   \<and> (case google_drive_rclone_config_create_request g of Inl _ \<Rightarrow> True
        | Inr r \<Rightarrow> set (unmasked r) \<subseteq> insert (gd_name g) (set SETUP_WORDS))
   \<and> (case google_drive_rclone_config_update_request g of Inl _ \<Rightarrow> True
        | Inr r \<Rightarrow> set (unmasked r) \<subseteq> insert (gd_name g) (set SETUP_WORDS))
   \<and> (case smb_rclone_config_create_request s of Inl _ \<Rightarrow> True
        | Inr r \<Rightarrow> set (unmasked r) \<subseteq> insert (sm_name s) (set SETUP_WORDS))
   \<and> (case smb_rclone_config_update_request s of Inl _ \<Rightarrow> True
        | Inr r \<Rightarrow> set (unmasked r) \<subseteq> insert (sm_name s) (set SETUP_WORDS))
   \<and> (case smb_rclone_config_password_request s of Inl _ \<Rightarrow> True
        | Inr r \<Rightarrow> set (unmasked r) \<subseteq> insert (sm_name s) (set SETUP_WORDS))"
  using sftp_request_unmasked [of home name d existing] google_request_unmasked [of g] smb_request_unmasked [of s]
  by (auto split: sum.split)

section \<open>Remotes that exist\<close>

definition is_config :: "string \<Rightarrow> command_request \<Rightarrow> bool" where
  "is_config verb r = (take 2 (request_argv r) = [''config'', verb])"

text \<open>Some dump of the configuration that rclone answers has no section of that name.\<close>

definition dump_lacks :: "env \<Rightarrow> (string \<Rightarrow> string + json) \<Rightarrow> string \<Rightarrow> bool" where
  "dump_lacks env parse name =
     (\<exists>n r f out f' v. is_config ''dump'' r \<and> e_cmd env n r f = (Inr out, f')
        \<and> parse (co_text (out_stdout out)) = Inr v \<and> json_get name v = None)"

text \<open>A remote is created only when a dump lacks it, and only such a remote is deleted.\<close>

definition spares :: "env \<Rightarrow> (string \<Rightarrow> string + json) \<Rightarrow> string \<Rightarrow> event \<Rightarrow> bool" where
  "spares env parse name e =
     (case e of
        Ran r \<Rightarrow>
          (is_config ''create'' r \<longrightarrow> dump_lacks env parse name)
          \<and> (is_config ''delete'' r \<longrightarrow> dump_lacks env parse name \<and> request_argv r = [''config'', ''delete'', name])
      | _ \<Rightarrow> True)"

lemma emits_bind_run:
  assumes "emits env P m" and "\<And>x w w'. m env w = (Inr x, w') \<Longrightarrow> emits env P (f x)"
  shows "emits env P (bindP m f)"
proof (rule emitsI)
  fix w r w'
  assume run: "bindP m f env w = (r, w')"
  obtain r1 w1 where m: "m env w = (r1, w1)" by (cases "m env w")
  from emitsD [OF assms(1) m] obtain n1 where n1: "events w1 = events w @ n1" "list_all P n1" "locks w1 = locks w"
    by blast
  show "\<exists>new. events w' = events w @ new \<and> list_all P new \<and> locks w' = locks w"
  proof (cases r1)
    case (Inl e)
    with run m n1 show ?thesis by (auto simp: bindP_def)
  next
    case (Inr x)
    with run m have "f x env w1 = (r, w')" by (simp add: bindP_def)
    from emitsD [OF assms(2) [OF m [unfolded Inr]] this] n1 show ?thesis by force
  qed
qed

lemma emits_seq_run:
  "emits env P m \<Longrightarrow> (\<And>x w w'. m env w = (Inr x, w') \<Longrightarrow> emits env P n) \<Longrightarrow> emits env P (seqP m n)"
  unfolding seqP_def by (rule emits_bind_run)

lemma emits_first_file [emits_intros]: "emits env P (first_file ps)"
  by (induction ps) (auto intro!: emits_intros)

lemma emits_first_candidate [emits_intros]: "emits env P (first_candidate cs)"
proof -
  have "emits env P (resolve_candidate c)" for c
    by (auto intro!: emits_intros simp: resolve_candidate_def)
  then show ?thesis by (induction cs) (auto intro!: emits_intros)
qed

lemma emits_require_rclone [emits_intros]: "emits env P (require_rclone mode key)"
  unfolding require_rclone_def runner_resolve_def system_resolve_def flatpak_resolve_def
  by (cases mode) (auto intro!: emits_intros simp del: first_candidate.simps path_candidates.simps)

lemma add_pairs_argv: "add_pairs ps r = Inr r' \<Longrightarrow> \<exists>more. map arg_value (req_args r') = map arg_value (req_args r) @ more"
  by (induction ps r rule: add_pairs.induct) (fastforce simp: bind_res_Inr add_arg_def add_sensitive_arg_def)+

lemma config_command_take:
  "config_command (verb # words) pairs flags t = Inr r \<Longrightarrow> take 2 (request_argv r) = [''config'', verb]"
  unfolding config_command_def
proof -
  assume "map_err command_error_text
      (bind_res (add_args (''config'' # verb # words) (new_request RcloneExe)) (\<lambda>r1.
       bind_res (add_pairs pairs r1) (\<lambda>r2. bind_res (add_args flags r2) (\<lambda>r3. Inr (r3\<lparr>req_timeout := t\<rparr>))))) = Inr r"
  then obtain r1 r2 r3 where r1: "add_args (''config'' # verb # words) (new_request RcloneExe) = Inr r1"
      and r2: "add_pairs pairs r1 = Inr r2" and r3: "add_args flags r2 = Inr r3" and r: "r = r3\<lparr>req_timeout := t\<rparr>"
    by (auto simp only: bind_res_Inr map_err_Inr sum.inject)
  from add_pairs_argv [OF r2] obtain more where "request_argv r2 = request_argv r1 @ more"
    by (auto simp: request_argv_def)
  with add_args_argv [OF r1] add_args_argv [OF r3] have "request_argv r3 = ''config'' # verb # words @ more @ flags"
    by (simp add: request_argv_def new_request_def)
  then show ?thesis by (simp add: r request_argv_def)
qed

lemma plain_argv:
  "request_argv (new_request e) = []" "request_argv (r\<lparr>req_timeout := t\<rparr>) = request_argv r"
  "request_argv (r\<lparr>req_output_limit := n\<rparr>) = request_argv r"
  by (simp_all add: request_argv_def new_request_def)

lemma add_arg_argv: "add_arg v r = Inr r' \<Longrightarrow> request_argv r' = request_argv r @ [v]"
  by (auto simp: add_arg_def bind_res_Inr request_argv_def)

lemma config_command_argv:
  assumes "config_command words [] [] t = Inr r"
  shows "request_argv r = ''config'' # words"
proof -
  from assms obtain r1 where "add_args (''config'' # words) (new_request RcloneExe) = Inr r1" "r = r1\<lparr>req_timeout := t\<rparr>"
    unfolding config_command_def by (auto simp only: bind_res_Inr map_err_Inr sum.inject add_pairs.simps add_args.simps(1))
  then show ?thesis by (simp only: plain_argv add_args_argv append_Nil)
qed

lemma spares_other:
  "take 2 (request_argv r) = [''config'', verb] \<Longrightarrow> verb \<notin> {''create'', ''delete''} \<Longrightarrow> spares env parse name (Ran r)"
  "dump_lacks env parse name \<Longrightarrow> take 2 (request_argv r) = [''config'', ''create''] \<Longrightarrow> spares env parse name (Ran r)"
  "dump_lacks env parse name \<Longrightarrow> request_argv r = [''config'', ''delete'', name] \<Longrightarrow> spares env parse name (Ran r)"
  "request_argv r = ''lsf'' # ws \<Longrightarrow> spares env parse name (Ran r)"
  by (simp_all add: spares_def is_config_def)

lemma dump_answered:
  "remote_config_dump env w = (Inr out, w') \<Longrightarrow> \<exists>n r f f'. is_config ''dump'' r \<and> e_cmd env n r f = (Inr out, f')"
  unfolding remote_config_dump_def bindP_def liftR_def map_errP_def run_cmd_def is_config_def
  by (auto split: sum.split_asm prod.split_asm dest!: config_command_take)

lemma emits_dump [emits_intros]: "emits env (spares env parse name) remote_config_dump"
  unfolding remote_config_dump_def
  by (auto intro!: emits_lift_bind emits_intros spares_other(1) dest!: config_command_take)

lemma dumped_sections_Inr: "dumped_sections parse t = Inr v \<Longrightarrow> parse t = Inr v"
  unfolding dumped_sections_def bind_res_Inr
  by (elim exE conjE) (case_tac x; simp)

lemma dump_lacksI:
  "remote_config_dump env w = (Inr out, w') \<Longrightarrow> dumped_sections parse (co_text (out_stdout out)) = Inr v \<Longrightarrow>
   json_get name v = None \<Longrightarrow> dump_lacks env parse name"
  unfolding dump_lacks_def by (blast dest: dump_answered dumped_sections_Inr)

lemma backend_none:
  "rclone_remote_backend mode parse name env w = (Inr None, w') \<Longrightarrow> dump_lacks env parse name"
  unfolding rclone_remote_backend_def rclone_config_section_backend_def
  by (auto elim!: bindE seqE simp: liftR_def bind_res_Inr intro: dump_lacksI)

lemma name_available:
  "ensure_rclone_remote_name_available mode parse name env w = (Inr x, w') \<Longrightarrow> dump_lacks env parse name"
  unfolding ensure_rclone_remote_name_available_def rclone_config_has_section_def
  by (auto elim!: bindE seqE simp: liftR_def fail_def bind_res_Inr intro: dump_lacksI split: if_split_asm)

lemma emits_backend [emits_intros]:
  "emits env (spares env parse name) (rclone_remote_backend mode parse' name')"
  "emits env (spares env parse name) (ensure_rclone_remote_name_available mode parse' name')"
  unfolding rclone_remote_backend_def ensure_rclone_remote_name_available_def
  by (auto intro!: emits_intros)

lemma emits_access [emits_intros]:
  "emits env (spares env parse name) (verify_browser_oauth_setup_access p name')"
  unfolding verify_browser_oauth_setup_access_def
  by (intro emits_lift_bind emits_bind emits_map_err emits_run_cmd emits_prims spares_other(4))
     (simp only: map_err_Inr plain_argv add_args_argv append_Nil)

lemma emits_cleanup:
  "dump_lacks env parse name \<Longrightarrow> emits env (spares env parse name) (cleanup_failed_rclone_remote_create name)"
  unfolding cleanup_failed_rclone_remote_create_def rclone_config_delete_request_def
  by (intro emits_sum emits_bind emits_try emits_run_cmd emits_prims spares_other(3))
     (auto simp: bind_res_Inr plain_argv dest!: config_command_argv)

lemma emits_flow:
  "(\<And>r. request = Inr r \<Longrightarrow> spares env parse name (Ran r)) \<Longrightarrow>
   emits env (spares env parse name) (oauth_flow parse' p stage request name')"
  unfolding oauth_flow_def by (auto intro!: emits_lift_bind emits_intros)

lemma emits_rolled_back:
  "dump_lacks env parse name \<Longrightarrow> emits env (spares env parse name) m \<Longrightarrow>
   emits env (spares env parse name) (rolled_back key name m)"
  unfolding rolled_back_def by (auto intro!: emits_intros emits_cleanup)

lemma update_spared:
  "config_command (verb # ws) ps fs t = Inr r \<Longrightarrow> verb \<notin> {''create'', ''delete''} \<Longrightarrow> spares env parse name (Ran r)"
  by (rule spares_other(1) [OF config_command_take])

lemma create_spared:
  "config_command (''create'' # ws) ps fs t = Inr r \<Longrightarrow> dump_lacks env parse name \<Longrightarrow> spares env parse name (Ran r)"
  by (rule spares_other(2) [OF _ config_command_take])

lemma box_spares: "emits env (spares env parse name) (create_box_rclone_remote_with mode parse name)"
  unfolding create_box_rclone_remote_with_def
  by (intro emits_seq_run emits_seq emits_backend emits_rolled_back emits_flow emits_prims)
     (auto dest: name_available create_spared simp: box_rclone_config_create_request_def)

lemma google_update_spared:
  "google_drive_rclone_config_update_request g = Inr r \<Longrightarrow> spares env parse name (Ran r)"
  by (auto simp: google_drive_rclone_config_update_request_def bind_res_Inr intro: update_spared)

lemma google_create_spared:
  "google_drive_rclone_config_create_request g = Inr r \<Longrightarrow> dump_lacks env parse name \<Longrightarrow> spares env parse name (Ran r)"
  by (auto simp: google_drive_rclone_config_create_request_def intro: create_spared)

lemma google_spares:
  "emits env (spares env parse (gd_name g)) (apply_google_drive_rclone_remote_with mode parse g act)"
  unfolding apply_google_drive_rclone_remote_with_def
proof (rule emits_bind_run [OF emits_backend(1)], goal_cases)
  case (1 backend w w')
  then have "backend = None \<Longrightarrow> dump_lacks env parse (gd_name g)" by (auto intro: backend_none)
  then show ?case
    by (cases act; cases backend)
       (auto intro!: emits_seq emits_flow emits_rolled_back emits_prims dest: google_update_spared google_create_spared)
qed

lemma emits_smb_command:
  "(\<And>r. request = Inr r \<Longrightarrow> spares env parse name (Ran r)) \<Longrightarrow>
   emits env (spares env parse name) (smb_command stage request)"
  unfolding smb_command_def by (auto intro!: emits_lift_bind emits_intros)

lemma smb_create_spares: "dump_lacks env parse (sm_name s) \<Longrightarrow> emits env (spares env parse (sm_name s)) (smb_create s)"
  unfolding smb_create_def
  by (auto intro!: emits_lift_bind emits_bind emits_seq emits_try emits_run_cmd emits_sum emits_cleanup emits_prims intro: create_spared
      simp: smb_rclone_config_create_request_def bind_res_Inr)

lemma smb_ready_spares:
  assumes "backend = None \<Longrightarrow> dump_lacks env parse (sm_name s)"
  shows "emits env (spares env parse (sm_name s)) (smb_remote_ready s backend)"
  using assms unfolding smb_remote_ready_def
  by (cases backend)
     (auto intro!: smb_create_spares emits_smb_command emits_when emits_prims intro: update_spared
      simp: smb_rclone_config_update_request_def)

lemma smb_spares: "emits env (spares env parse (sm_name s)) (create_smb_rclone_remote_with mode parse s)"
  unfolding create_smb_rclone_remote_with_def
  by (rule emits_bind_run [OF emits_backend(1)])
     (auto intro!: emits_seq emits_when emits_smb_command emits_prims smb_ready_spares intro: update_spared
      dest: backend_none simp: smb_rclone_config_password_request_def bind_res_Inr)

lemma setup_request_verb:
  assumes "setup_request home name d existing = Inr r"
  shows "take 2 (request_argv r) = [''config'', if existing = None then ''create'' else ''update'']"
proof -
  from assms obtain ps r1 r2 r3 where r1: "setup_words name existing = Inr r1" and r2: "add_pairs ps r1 = Inr r2"
    and r3: "add_args [''--obscure'', ''--non-interactive''] r2 = Inr r3" and r: "r = r3\<lparr>req_timeout := from_secs 30\<rparr>"
    unfolding setup_request_def Let_def by (auto simp only: bind_res_Inr map_err_Inr sum.inject)
  from r1 have "take 2 (request_argv r1) = [''config'', if existing = None then ''create'' else ''update''] \<and> 2 \<le> length (request_argv r1)"
    unfolding setup_words_def
    by (auto simp only: bind_res_Inr map_err_Inr sum.inject plain_argv append_Nil if_True if_False
        dest!: add_args_argv add_arg_argv split: if_split_asm) simp_all
  moreover from add_pairs_argv [OF r2] obtain more where "request_argv r2 = request_argv r1 @ more"
    by (auto simp: request_argv_def)
  ultimately show ?thesis by (simp add: r plain_argv add_args_argv [OF r3])
qed

lemma sftp_dump_answered:
  "sftp_dump h env w = (Inr t, w') \<Longrightarrow>
   \<exists>n r f out f'. is_config ''dump'' r \<and> e_cmd env n r f = (Inr out, f') \<and> t = co_text (out_stdout out)"
  unfolding sftp_dump_def
proof (elim bindE liftE mapE retE, goal_cases)
  case (1 r w1 out w2)
  then obtain f' where "e_cmd env (tick w1) (r\<lparr>req_timeout := from_secs 5\<rparr>) (files w1) = (Inr out, f')"
    by (auto simp: run_cmd_def split: prod.split_asm)
  moreover have "request_argv (r\<lparr>req_timeout := from_secs 5\<rparr>) = [''config'', ''dump'']"
    using 1 by (simp only: map_err_Inr plain_argv add_args_argv append_Nil)
  then have "is_config ''dump'' (r\<lparr>req_timeout := from_secs 5\<rparr>)" by (simp add: is_config_def)
  ultimately show ?case using 1 by blast
qed

lemma sftp_dump_spares: "emits env (spares env parse name) (sftp_dump h)"
  unfolding sftp_dump_def
  by (intro emits_lift_bind emits_bind emits_map_err emits_run_cmd emits_prims spares_other(1) [where verb = "''dump''"])
     (simp_all only: map_err_Inr plain_argv add_args_argv, simp_all)

lemma config_section_none:
  "config_section parse t name = Inr None \<Longrightarrow> \<exists>v. parse t = Inr v \<and> json_get name v = None"
  unfolding config_section_def bind_res_Inr
  by (elim exE conjE, case_tac x) (auto split: option.split_asm if_split_asm)

lemma sftp_spares: "emits env (spares env parse name) (apply_remote parse home name d update_only)"
  unfolding apply_remote_def
proof (intro emits_lift_bind emits_bind_run [OF sftp_dump_spares], goal_cases)
  case (1 u dump w w' existing)
  have "dump_lacks env parse name" if "existing = None"
    using sftp_dump_answered [OF 1(2)] config_section_none [OF 1(3) [unfolded that]] unfolding dump_lacks_def by blast
  moreover have "spares env parse name (Ran r)" if "setup_request home name d existing = Inr r" for r
    using setup_request_verb [OF that] calculation
    by (cases "existing = None") (auto intro: spares_other(2) spares_other(1) [where verb = "''update''"])
  ultimately show ?case
    by (auto intro!: emits_if emits_lift_bind emits_bind emits_map_err emits_run_cmd emits_prims)
qed

text \<open>
  C21. Setting up a remote spares the ones that exist.  Whatever the commands answer, the setups of Google Drive,
  Box, SMB and SFTP run \<open>rclone config create\<close> and \<open>rclone config delete\<close> only when a
  dump that rclone answers has no section of that name: where every dump names the remote, neither command
  is run.  What they delete, to undo a failed creation, is the remote of that name and no other.
\<close>
theorem setup_spares_existing_remotes:
  "emits env (spares env parse (gd_name g)) (apply_google_drive_rclone_remote_with mode parse g act)
   \<and> emits env (spares env parse name) (create_box_rclone_remote_with mode parse name)
   \<and> emits env (spares env parse (sm_name s)) (create_smb_rclone_remote_with mode parse s)
   \<and> emits env (spares env parse name) (apply_remote parse home name d update_only)"
  by (intro conjI google_spares box_spares smb_spares sftp_spares)

section \<open>The check for a stored password\<close>

text \<open>The dump is read through the runner, which redacts it.\<close>

lemma map_of_redacted:
  "map_of (rev (map (\<lambda>(key, v). (key, if sensitive_field key then JString ''[REDACTED]'' else redact_json_value v)) ms)) k
   = map_option (\<lambda>v. if sensitive_field k then JString ''[REDACTED]'' else redact_json_value v) (map_of (rev ms) k)"
  by (induction ms rule: rev_induct) (auto split: prod.split)

lemma json_get_redacted:
  "json_get k (redact_json_value config)
   = map_option (\<lambda>v. if sensitive_field k then JString ''[REDACTED]'' else redact_json_value v) (json_get k config)"
  by (cases config) (simp_all only: json_get_def redact_json_value.simps json.case option.map map_of_redacted)

lemma sensitive_fields: "sensitive_field ''pass''" "sensitive_field ''key_pem''" "\<not> sensitive_field ''key_use_agent''"
    "\<not> sensitive_field ''key_file''"
  by code_simp+

lemma member_redacted:
  "json_get k config = None \<Longrightarrow> member k (redact_json_value config) = JNull"
  "sensitive_field k \<Longrightarrow> json_get k config = Some v \<Longrightarrow> member k (redact_json_value config) = JString ''[REDACTED]''"
  by (simp_all add: member_def json_get_redacted)

lemma has_password_redacted: "has_password (redact_json_value config) = (json_get ''pass'' config \<noteq> None)"
  using member_redacted [where k = "''pass''" and config = config]
  by (cases "json_get ''pass'' config") (simp_all add: has_password_def string_option_def sensitive_fields)

text \<open>
  C24. Redaction defeats the check for an empty stored password.  rclone stores an obscured empty password as 22
  characters, which \<open>has_password\<close> does not count as a password; but the dump comes redacted, so that any
  \<open>pass\<close> member counts.  A remote with such a member and neither key nor agent is shown as one with a
  password, and an update with a blank password, which the check is there to refuse, is built.
\<close>
theorem redaction_hides_empty_password:
  assumes "json_get ''pass'' config = Some (JString stored)" and "length stored = 22"
    and "json_get ''key_use_agent'' config = None" "json_get ''key_file'' config = None" "json_get ''key_pem'' config = None"
    and "sf_auth d = PasswordAuth" "sf_password d = []"
  shows "auth_of_config config = AgentAuth \<and> auth_of_config (redact_json_value config) = PasswordAuth
     \<and> auth_pairs home d (Some config) = Inl (fl ''sftp-password-required'')
     \<and> is_ok (auth_pairs home d (Some (redact_json_value config)))"
proof -
  have no: "member k config = JNull" "member k (redact_json_value config) = JNull"
    if "k \<in> {''key_use_agent'', ''key_file'', ''key_pem''}" for k
    using that assms(3-5) member_redacted(1) [of k config] by (auto simp: member_def)
  have "\<not> has_password config"
    using assms(1,2) by (simp add: has_password_def string_option_def member_def)
  moreover have "has_password (redact_json_value config)"
    using assms(1) by (simp add: has_password_redacted)
  ultimately have "auth_of_config config = AgentAuth" "auth_of_config (redact_json_value config) = PasswordAuth"
    by (simp_all add: auth_of_config_def bool_option_def string_option_def no as_bool_def)
  then show ?thesis
    using assms(6,7) \<open>has_password (redact_json_value config)\<close> by (simp add: auth_pairs_def same_auth_def)
qed

definition empty_password_config :: json where
  "empty_password_config = JObject [(''type'', JString ''sftp''), (''pass'', JString ''abcdefghijklmnopqrstuv'')]"

lemma redaction_hides_empty_password_witness:
  "is_ok (auth_pairs None ((default_sftp ''alice'')\<lparr>sf_host := ''h''\<rparr>) (Some (redact_json_value empty_password_config)))
   \<and> auth_of_config empty_password_config = AgentAuth"
  using redaction_hides_empty_password [of empty_password_config "''abcdefghijklmnopqrstuv''" "(default_sftp ''alice'')\<lparr>sf_host := ''h''\<rparr>" None]
  by (simp add: empty_password_config_def json_get_def default_sftp_def)

section \<open>Edits while an update runs\<close>

text \<open>How many of the edits change the fields.\<close>

fun changes :: "sftp_edit list \<Rightarrow> sftp_draft \<Rightarrow> nat" where
  "changes [] d = 0"
| "changes (e # es) d = (if edited e d = d then 0 else 1) + changes es (edited e d)"

lemma changes_le: "changes es d \<le> length es"
  by (induction es d rule: changes.induct) auto

lemma edited_auth: "(edited (EditAuth auth) d = d) = (sf_auth d = auth)"
  by (metis edited.simps(2) sftp_draft.select_convs(4) sftp_draft.surjective sftp_draft.update_convs(4))

lemma edit_sftp_fields:
  "se_draft (edit_sftp e s) = edited e (se_draft s)"
  "se_revision (edit_sftp e s) = se_revision s + (if edited e (se_draft s) = se_draft s then 0 else 1)"
  "se_dirty (edit_sftp e s) = (se_dirty s \<or> edited e (se_draft s) \<noteq> se_draft s)"
  "se_provider (edit_sftp e s) = se_provider s" "se_remote (edit_sftp e s) = se_remote s"
  by (cases e; simp add: Let_def mark_sftp_settings_changed_def edited_auth del: edited.simps;
      simp add: edited_auth)+

lemma fold_edits:
  "se_revision (fold edit_sftp es s) = se_revision s + of_nat (changes es (se_draft s))"
  "se_dirty (fold edit_sftp es s) = (se_dirty s \<or> changes es (se_draft s) \<noteq> 0)"
  "se_provider (fold edit_sftp es s) = se_provider s" "se_remote (fold edit_sftp es s) = se_remote s"
  by (induction es arbitrary: s) (auto simp: edit_sftp_fields)

lemma apply_starts:
  assumes "apply_sftp_remote cs home s = (Some task, s1)"
  shows "se_provider s = Sftp" "\<not> se_pending s" "(Some task, s1) = start_sftp_update (trim (se_remote s)) s"
    "validate_sftp home (se_draft s) = Inr ()"
    "affected_connections cs (trim (se_remote s)) = [] \<or> se_ack s = Some (trim (se_remote s), se_draft s)"
  using assms by (auto simp: apply_sftp_remote_def Let_def bind_res_Inr split: if_split_asm sum.split_asm)

text \<open>
  C23. An update of the SFTP form that succeeds clears the mark of unapplied changes exactly when no edit after its
  start has changed a field, for any sequence of fewer than \<open>2 ^ 64\<close> edits; and once the update has started,
  the form no longer holds the secrets that it sends.
\<close>
theorem edits_during_update_stay_marked:
  assumes "apply_sftp_remote cs home s = (Some task, s1)" and "length es < 2 ^ 64"
  shows "(se_dirty (sftp_remote_applied (st_name task) (st_revision task) (st_secret task) (Inr b) (fold edit_sftp es s1))
          \<longleftrightarrow> changes es (se_draft s1) \<noteq> 0)
     \<and> \<not> has_secrets (se_draft s1) \<and> st_draft task = se_draft s"
proof -
  from apply_starts [OF assms(1)] have s1: "se_draft s1 = clear_secrets (se_draft s)" "se_dirty s1"
      "se_provider s1 = Sftp" "trim (se_remote s1) = st_name task" "se_revision s1 = st_revision task"
      and t: "st_draft task = se_draft s"
    by (simp_all add: start_sftp_update_def)
  have "changes es (se_draft s1) < 2 ^ 64" using changes_le [of es "se_draft s1"] assms(2) by simp
  then have "(of_nat (changes es (se_draft s1)) = (0 :: u64)) = (changes es (se_draft s1) = 0)"
    by (simp add: word_of_nat_eq_0_iff take_bit_eq_mod dvd_eq_mod_eq_0)
  then show ?thesis
    using s1 t by (auto simp: sftp_remote_applied_def finish_sftp_settings_update_def fold_edits has_secrets_def clear_secrets_def)
qed

text \<open>A failed update has used up its secret: the next one starts only after it was entered again.\<close>

lemma failed_secret_is_asked_again:
  assumes "apply_sftp_remote cs home s = (Some task, s1)" and "st_secret task \<noteq> None"
  shows "fst (apply_sftp_remote cs' home' (sftp_remote_applied (st_name task) (st_revision task) (st_secret task) (Inl e) s1)) = None"
proof -
  from apply_starts [OF assms(1)] assms(2) show ?thesis
    by (auto simp: start_sftp_update_def apply_sftp_remote_def sftp_remote_applied_def finish_sftp_settings_update_def used_up_def
        attempted_secret_def secret_empty_def clear_secrets_def Let_def split: if_split_asm sftp_auth.split)
qed

definition sample_form :: sftp_editor where
  "sample_form =
     \<lparr>se_provider = Sftp, se_remote = ''remote'',
      se_draft = (default_sftp ''alice'')\<lparr>sf_host := ''h'', sf_password := ''p'', sf_known_hosts := ''/k''\<rparr>,
      se_pending = False, se_dirty = True, se_revision = - 1, se_ack = None, se_retry = None, se_modifies = False,
      se_validated = True, se_notice = None\<rparr>"

definition sample_task :: sftp_task where
  "sample_task = the (fst (apply_sftp_remote [] None sample_form))"

lemma sample_starts:
  "apply_sftp_remote [] None sample_form = (Some sample_task, snd (apply_sftp_remote [] None sample_form))"
proof -
  have "fst (apply_sftp_remote [] None sample_form) \<noteq> None" by code_simp
  then show ?thesis by (auto simp: sample_task_def intro: prod_eqI)
qed

lemma edits_during_update_stay_marked_witness:
  "se_dirty (sftp_remote_applied (st_name sample_task) (st_revision sample_task) (st_secret sample_task) (Inr True)
     (fold edit_sftp [EditField PortField ''2222''] (snd (apply_sftp_remote [] None sample_form))))"
proof -
  have "changes [EditField PortField ''2222''] (se_draft (snd (apply_sftp_remote [] None sample_form))) \<noteq> 0" by code_simp
  with edits_during_update_stay_marked [OF sample_starts, of "[EditField PortField ''2222'']" True] show ?thesis by simp
qed

end
