(* ===== verification/Operation_Requests.thy ===== *)
theory Operation_Requests
  imports Offline_Operations
begin

text \<open>
  From a click to an operation (\<open>src/src/app.rs\<close>): the cached observation of the units, the snapshot that the
  popup is drawn from, the request of an operation with the confirmation that a repair needs, what is
  dispatched, and what the completion of an operation forgets.  \<open>clock\<close> is the reading of the handler;
  the controls of manual operations are numbered in the order of their creation.
\<close>

section \<open>The cached observation\<close>

record observed_units =
  uo_services :: "connection_id \<Rightarrow> unit_status option"
  uo_timers :: "connection_id \<Rightarrow> unit_status option"
  uo_warnings :: "(connection_id \<Rightarrow> msg list option) option"
  uo_states :: "connection_id \<Rightarrow> offline_operation_state option"
  uo_failed :: "connection_id list"
  uo_retired :: "connection_id list"

definition record_status ::
  "connection \<Rightarrow> unit_kind \<Rightarrow> unit_observation \<Rightarrow> observed_units \<Rightarrow> observed_units" where
  "record_status c kind status obs =
     (case status of
        ObsPresent s \<Rightarrow>
          (case kind of
             ServiceUnit \<Rightarrow> obs\<lparr>uo_services := (uo_services obs)(conn_id c \<mapsto> s)\<rparr>
           | TimerUnit \<Rightarrow> obs\<lparr>uo_timers := (uo_timers obs)(conn_id c \<mapsto> s)\<rparr>)
      | ObsMissing \<Rightarrow>
          if kind = ServiceUnit \<and> is_err (ensure_supported_engine c)
          then obs\<lparr>uo_retired := conn_id c # uo_retired obs\<rparr>
          else obs\<lparr>uo_failed := conn_id c # uo_failed obs\<rparr>
      | ObsUnavailable \<Rightarrow> obs\<lparr>uo_failed := conn_id c # uo_failed obs\<rparr>)"

definition unit_live :: "unit_status option \<Rightarrow> bool" where
  "unit_live s = service_in s [Active, Activating]"

definition offline_mirror_state_from_status ::
  "offline_engine \<Rightarrow> unit_status option \<Rightarrow> unit_status option \<Rightarrow> sync_runtime_state" where
  "offline_mirror_state_from_status e service timer =
     (case e of
        LegacyOnedrive \<Rightarrow>
          if unit_live service then RtIdle
          else if service_in service [UnitFailed] then RtFailed
          else RtPaused
      | Rclone \<Rightarrow>
          if unit_live service then RtRunning
          else if \<not> unit_live timer then RtPaused
          else if service_in service [UnitFailed] then RtFailed
          else RtIdle)"

text \<open>The engine is known for every mirror.\<close>

definition cached_offline_unit_state :: "observed_units \<Rightarrow> connection \<Rightarrow> sync_runtime_state" where
  "cached_offline_unit_state obs c =
     (let service = uo_services obs (conn_id c); timer = uo_timers obs (conn_id c)
      in if service = None \<or> (is_rclone_offline_mirror c \<and> timer = None \<and> \<not> unit_live service) then RtUnknown
         else case conn_offline_engine c of
                Some e \<Rightarrow> offline_mirror_state_from_status e service timer
              | None \<Rightarrow> RtUnknown)"

definition cached_offline_state :: "observed_units \<Rightarrow> connection \<Rightarrow> sync_runtime_state" where
  "cached_offline_state obs c =
     (if \<not> unit_live (uo_services obs (conn_id c)) \<and> uo_states obs (conn_id c) \<in> {Some StFailed, Some StCancelled}
      then RtFailed else cached_offline_unit_state obs c)"

definition mirrors_of :: "config_document \<Rightarrow> connection list" where
  "mirrors_of doc = filter (\<lambda>c. \<not> is_online c) (connections doc)"

definition cached_sync_state :: "config_document \<Rightarrow> observed_units \<Rightarrow> connection_id \<Rightarrow> sync_runtime_state option" where
  "cached_sync_state doc obs cid =
     map_of (rev (map (\<lambda>c. (conn_id c, cached_offline_state obs c)) (mirrors_of doc))) cid"

definition cached_paused :: "config_document \<Rightarrow> observed_units \<Rightarrow> connection_id list" where
  "cached_paused doc obs =
     map conn_id (filter (\<lambda>c. cached_offline_unit_state obs c = RtPaused) (mirrors_of doc))"

section \<open>The state of the applet\<close>

record completion =
  cm_revision :: u64
  cm_connection_id :: connection_id
  cm_operation :: operation
  cm_notice :: msg

record desk =
  dk_document :: config_document
  dk_standalone :: bool
  dk_observation :: observed_units
  dk_observed_connections :: "connection list"
  dk_observed_at :: "nat option"
  dk_observing :: bool
  dk_observation_revision :: u64
  dk_invalidated :: bool
  dk_waiting :: "(connection_id \<times> connection \<times> operation) list"
  dk_pending_repair :: "(connection_id \<times> nat) option"
  dk_repairs :: "connection_id list"
  dk_unmounts :: "connection_id list"
  dk_mirrors :: "connection_id list"
  dk_controls :: "connection_id \<Rightarrow> nat option"
  dk_next_control :: nat
  dk_repair_required :: "connection_id list"
  dk_refreshing :: "connection_id list"
  dk_routed :: "connection_id \<Rightarrow> operation option"
  dk_completions :: "completion list"
  dk_revision :: u64
  dk_mount_entries :: "mount_entry list"
  dk_import_previews :: "import_preview list"
  dk_vpn_ready :: "vpn_profile_id \<Rightarrow> bool option"
  dk_network_ready :: "bool option"
  dk_notice :: "msg option"

text \<open>A mirror whose operation runs in this process counts as running and not as paused.\<close>

definition snapshot_of_desk :: "desk \<Rightarrow> controller_snapshot" where
  "snapshot_of_desk d =
     default_snapshot
       \<lparr>sn_config := dk_document d, sn_service_status := uo_services (dk_observation d),
        sn_sync_state := (\<lambda>cid. if cid \<in> set (dk_mirrors d) then Some RtRunning
                             else cached_sync_state (dk_document d) (dk_observation d) cid),
        sn_paused_syncs := filter (\<lambda>cid. cid \<notin> set (dk_mirrors d)) (cached_paused (dk_document d) (dk_observation d)),
        sn_offline_warnings := (case uo_warnings (dk_observation d) of Some w \<Rightarrow> w | None \<Rightarrow> (\<lambda>_. None)),
        sn_mount_entries := dk_mount_entries d, sn_repair_required := dk_repair_required d,
        sn_import_previews := dk_import_previews d, sn_vpn_ready := dk_vpn_ready d,
        sn_network_ready := (case dk_network_ready d of Some b \<Rightarrow> b | None \<Rightarrow> True)\<rparr>"

definition unit_status_fresh :: "nat \<Rightarrow> desk \<Rightarrow> connection_id \<Rightarrow> bool" where
  "unit_status_fresh clock d cid =
     (\<not> dk_invalidated d \<and> dk_observed_connections d = connections (dk_document d)
      \<and> (case dk_observed_at d of Some t \<Rightarrow> clock - t < from_secs 15 | None \<Rightarrow> False)
      \<and> cid \<notin> set (uo_failed (dk_observation d))
      \<and> (uo_services (dk_observation d) cid \<noteq> None \<or> cid \<in> set (uo_retired (dk_observation d))))"

section \<open>What a request starts\<close>

datatype dispatch =
    RunOnline connection operation
  | RunOnlineRepair connection
  | RunMirrorRepair connection "nat option"
  | RunMirror connection operation nat
  | RunLegacyMirror connection operation nat
  | ObserveUnits "connection list" u64

definition refresh_unit_observation :: "bool \<Rightarrow> desk \<Rightarrow> dispatch list \<times> desk" where
  "refresh_unit_observation force d =
     (if dk_standalone d \<or> (dk_observing d \<and> \<not> force) then ([], d)
      else let d1 = d\<lparr>dk_observation_revision := dk_observation_revision d + 1, dk_observing := True,
                     dk_invalidated := (dk_invalidated d \<or> force)\<rparr>
           in ([ObserveUnits (connections (dk_document d)) (dk_observation_revision d1)], d1))"

definition COMPLETION_LIMIT :: nat where "COMPLETION_LIMIT = 16"

definition complete_routed_operation :: "connection_id \<Rightarrow> operation \<Rightarrow> desk \<Rightarrow> desk" where
  "complete_routed_operation cid op d =
     (if dk_routed d cid \<noteq> Some op then d
      else
        let revision = max (dk_revision d + 1) 1;
            entry = \<lparr>cm_revision = revision, cm_connection_id = cid, cm_operation = op,
                     cm_notice = (case dk_notice d of Some n \<Rightarrow> n | None \<Rightarrow> fl ''ui-app-operation-completed'')\<rparr>;
            all = dk_completions d @ [entry]
        in d\<lparr>dk_routed := (dk_routed d)(cid := None), dk_revision := revision,
             dk_completions := drop (length all - COMPLETION_LIMIT) all\<rparr>)"

definition REPAIR_CONFIRM_MIN_DELAY :: duration where "REPAIR_CONFIRM_MIN_DELAY = from_secs 1"
definition REPAIR_CONFIRM_MAX_DELAY :: duration where "REPAIR_CONFIRM_MAX_DELAY = from_secs 30"

datatype repair_confirmation_decision = ArmRepair | WaitRepair | ConfirmRepair

definition repair_confirmation_decision_of ::
  "(connection_id \<times> nat) option \<Rightarrow> connection_id \<Rightarrow> nat \<Rightarrow> repair_confirmation_decision" where
  "repair_confirmation_decision_of pending cid clock =
     (case pending of
        None \<Rightarrow> ArmRepair
      | Some (pid, armed_at) \<Rightarrow>
          if pid \<noteq> cid then ArmRepair
          else if clock - armed_at < REPAIR_CONFIRM_MIN_DELAY then WaitRepair
          else if clock - armed_at \<le> REPAIR_CONFIRM_MAX_DELAY then ConfirmRepair
          else ArmRepair)"

definition row_operation_label :: "connection_status \<Rightarrow> operation \<Rightarrow> msg" where
  "row_operation_label status op =
     (case (status, op) of
        (OfflineStatus _, PauseSync) \<Rightarrow> fl ''operation-stop''
      | (OfflineStatus _, ResumeSync) \<Rightarrow> fl ''operation-start''
      | _ \<Rightarrow> operation_label op)"

definition replied :: "connection_id \<Rightarrow> operation \<Rightarrow> msg \<Rightarrow> desk \<Rightarrow> dispatch list \<times> desk" where
  "replied cid op n d = ([], complete_routed_operation cid op (d\<lparr>dk_notice := Some n\<rparr>))"

definition action_unavailable :: "msg \<Rightarrow> string \<Rightarrow> msg option \<Rightarrow> msg" where
  "action_unavailable label name reason =
     Fl ''notice-action-unavailable''
       [(''operation'', label), (''name'', Lit name),
        (''reason'', case reason of Some r \<Rightarrow> r | None \<Rightarrow> fl ''operation-unavailable-state'')]"

definition told :: "string \<Rightarrow> msg \<Rightarrow> connection \<Rightarrow> msg" where
  "told key label c = Fl key [(''operation'', label), (''name'', Lit (conn_name c))]"

definition repair_question :: "connection \<Rightarrow> msg" where
  "repair_question c =
     (if is_online c
      then Fl ''notice-repair-confirm'' [(''name'', Lit (conn_name c)), (''path'', Lit (local_path c))]
      else Fl ''notice-offline-repair-confirm'' [(''name'', Lit (conn_name c))])"

definition unmount_notice :: "desk \<Rightarrow> connection \<Rightarrow> msg" where
  "unmount_notice d c =
     Fl (if conn_id c \<in> set (dk_refreshing d) then ''notice-unmounting-preload'' else ''notice-unmounting'')
       [(''name'', Lit (conn_name c))]"

definition add_new :: "'a \<Rightarrow> 'a list \<Rightarrow> 'a list" where
  "add_new x xs = (if x \<in> set xs then xs else x # xs)"

definition start_repair :: "connection \<Rightarrow> string \<Rightarrow> msg \<Rightarrow> desk \<Rightarrow> desk" where
  "start_repair c key label d =
     d\<lparr>dk_pending_repair := None, dk_repairs := add_new (conn_id c) (dk_repairs d), dk_notice := Some (told key label c)\<rparr>"

text \<open>A new control takes the place of the one that the mirror may have.\<close>

definition start_mirror :: "connection \<Rightarrow> msg \<Rightarrow> desk \<Rightarrow> desk" where
  "start_mirror c label d =
     d\<lparr>dk_notice := Some (told ''notice-operation-requested'' label c),
       dk_mirrors := add_new (conn_id c) (dk_mirrors d),
       dk_controls := (dk_controls d)(conn_id c \<mapsto> dk_next_control d), dk_next_control := Suc (dk_next_control d)\<rparr>"

definition mirror_operation :: "operation \<Rightarrow> bool" where
  "mirror_operation op = (op \<in> {PreviewInitialSync, SyncNow, PauseSync, ResumeSync})"

definition dispatch_operation :: "connection \<Rightarrow> operation \<Rightarrow> msg \<Rightarrow> desk \<Rightarrow> dispatch list \<times> desk" where
  "dispatch_operation c op label d =
     (if is_online c \<and> op = Unmount
      then ([RunOnline c op],
            d\<lparr>dk_unmounts := add_new (conn_id c) (dk_unmounts d), dk_notice := Some (unmount_notice d c)\<rparr>)
      else if is_online c \<and> op = Mount
      then ([RunOnline c op], d\<lparr>dk_notice := Some (told ''notice-operation-requested'' label c)\<rparr>)
      else if is_online c \<and> op = Repair
      then ([RunOnlineRepair c], start_repair c ''notice-repair-requested'' label d)
      else if \<not> is_online c \<and> op = Repair
      then ([RunMirrorRepair c (dk_controls d (conn_id c))], start_repair c ''notice-offline-repair-requested'' label d)
      else if \<not> is_online c \<and> mirror_operation op \<and> is_rclone_offline_mirror c
      then ([RunMirror c op (dk_next_control d)], start_mirror c label d)
      else if \<not> is_online c \<and> mirror_operation op \<and> is_legacy_onedrive_mirror c
      then ([RunLegacyMirror c op (dk_next_control d)], start_mirror c label d)
      else replied (conn_id c) op (told ''notice-operation-not-wired'' label c) d)"

definition request_of :: "nat \<Rightarrow> connection \<Rightarrow> operation \<Rightarrow> msg \<Rightarrow> desk \<Rightarrow> dispatch list \<times> desk" where
  "request_of clock c op label d =
     (if conn_id c \<in> set (dk_repairs d)
      then replied (conn_id c) op (action_unavailable label (conn_name c) None) d
      else if op \<noteq> Repair then dispatch_operation c op label (d\<lparr>dk_pending_repair := None\<rparr>)
      else case repair_confirmation_decision_of (dk_pending_repair d) (conn_id c) clock of
             ConfirmRepair \<Rightarrow> dispatch_operation c op label d
           | ArmRepair \<Rightarrow> replied (conn_id c) op (repair_question c) (d\<lparr>dk_pending_repair := Some (conn_id c, clock)\<rparr>)
           | WaitRepair \<Rightarrow> replied (conn_id c) op (repair_question c) d)"

definition saved_connection :: "desk \<Rightarrow> connection_id \<Rightarrow> connection option" where
  "saved_connection d cid = List.find (\<lambda>c. conn_id c = cid) (connections (dk_document d))"

definition decided_request :: "nat \<Rightarrow> connection_id \<Rightarrow> operation \<Rightarrow> desk \<Rightarrow> dispatch list \<times> desk" where
  "decided_request clock cid op d =
     (case List.find (\<lambda>r. row_id r = cid) (vw_rows (restore_view (snapshot_of_desk d))) of
        None \<Rightarrow> replied cid op (fl ''notice-connection-unavailable'') d
      | Some row \<Rightarrow>
          let decision = decide_operation row op; label = row_operation_label (row_status row) op
          in if \<not> dec_allowed decision then replied cid op (action_unavailable label (row_name row) (dec_reason decision)) d
             else case saved_connection d cid of
                    None \<Rightarrow> replied cid op (fl ''notice-connection-unavailable'') d
                  | Some c \<Rightarrow> request_of clock c op label d)"

definition put_waiting ::
  "connection_id \<Rightarrow> connection \<times> operation \<Rightarrow> (connection_id \<times> connection \<times> operation) list
     \<Rightarrow> (connection_id \<times> connection \<times> operation) list" where
  "put_waiting cid v ws = (cid, v) # filter (\<lambda>(k, _). k \<noteq> cid) ws"

definition record_operation_request :: "nat \<Rightarrow> connection_id \<Rightarrow> operation \<Rightarrow> desk \<Rightarrow> dispatch list \<times> desk" where
  "record_operation_request clock cid op d =
     (case saved_connection d cid of
        Some c \<Rightarrow>
          if unit_status_fresh clock d cid then decided_request clock cid op d
          else refresh_unit_observation False
                 (d\<lparr>dk_waiting := put_waiting cid (c, op) (dk_waiting d), dk_notice := Some (fl ''unit-status-wait'')\<rparr>)
      | None \<Rightarrow> decided_request clock cid op d)"

section \<open>What a completion brings\<close>

fun dispatch_waiting ::
  "nat \<Rightarrow> (connection_id \<times> connection \<times> operation) list \<Rightarrow> desk \<Rightarrow> dispatch list \<times> desk" where
  "dispatch_waiting clock [] d = ([], d)"
| "dispatch_waiting clock ((cid, c, op) # ws) d =
     (case (if unit_status_fresh clock d cid \<and> c \<in> set (connections (dk_document d))
            then record_operation_request clock cid op d
            else replied cid op (fl ''unit-status-refresh-unavailable'') d) of
        (out, d1) \<Rightarrow> (case dispatch_waiting clock ws d1 of (later, d2) \<Rightarrow> (out @ later, d2)))"

definition map_over :: "('a \<Rightarrow> 'b option) \<Rightarrow> ('a \<Rightarrow> 'b option) \<Rightarrow> 'a \<Rightarrow> 'b option" where
  "map_over new old k = (case new k of Some v \<Rightarrow> Some v | None \<Rightarrow> old k)"

definition only_keys :: "'a list \<Rightarrow> ('a \<Rightarrow> 'b option) \<Rightarrow> 'a \<Rightarrow> 'b option" where
  "only_keys ks m k = (if k \<in> set ks then m k else None)"

definition merged_observation :: "connection list \<Rightarrow> observed_units \<Rightarrow> observed_units \<Rightarrow> observed_units" where
  "merged_observation cs new old =
     (let ids = map conn_id cs
      in \<lparr>uo_services = only_keys ids (map_over (uo_services new)
            (\<lambda>cid. if cid \<in> set (uo_retired new) then None else uo_services old cid)),
          uo_timers = only_keys ids (map_over (uo_timers new) (uo_timers old)),
          uo_warnings = (if uo_warnings new = None then uo_warnings old else uo_warnings new),
          uo_states = uo_states new, uo_failed = uo_failed new, uo_retired = uo_retired new\<rparr>)"

text \<open>The waiting requests are taken up in the order of their identifiers.\<close>

definition unit_observation_completed ::
  "nat \<Rightarrow> u64 \<Rightarrow> connection list \<Rightarrow> observed_units \<Rightarrow> desk \<Rightarrow> dispatch list \<times> desk" where
  "unit_observation_completed clock revision cs obs d =
     (if revision \<noteq> dk_observation_revision d then ([], d)
      else if cs \<noteq> connections (dk_document d) then refresh_unit_observation True (d\<lparr>dk_observing := False\<rparr>)
      else dispatch_waiting clock (sort_key (\<lambda>(cid, _). conn_uuid cid) (dk_waiting d))
             (d\<lparr>dk_observing := False, dk_observation := merged_observation cs obs (dk_observation d),
               dk_observed_connections := cs, dk_observed_at := Some clock, dk_invalidated := False, dk_waiting := []\<rparr>))"

definition online_repair_completed :: "connection_id \<Rightarrow> msg \<Rightarrow> config_document \<Rightarrow> desk \<Rightarrow> desk" where
  "online_repair_completed cid n doc d =
     complete_routed_operation cid Repair
       (d\<lparr>dk_repairs := removeAll cid (dk_repairs d), dk_repair_required := removeAll cid (dk_repair_required d),
         dk_document := doc, dk_pending_repair := None, dk_notice := Some n\<rparr>)"

definition offline_repair_completed :: "connection_id \<Rightarrow> msg \<Rightarrow> config_document \<Rightarrow> desk \<Rightarrow> desk" where
  "offline_repair_completed cid n doc d =
     complete_routed_operation cid Repair
       (d\<lparr>dk_repairs := removeAll cid (dk_repairs d), dk_document := doc, dk_pending_repair := None, dk_notice := Some n\<rparr>)"

definition mirror_operation_completed :: "connection_id \<Rightarrow> msg \<Rightarrow> config_document \<Rightarrow> desk \<Rightarrow> desk" where
  "mirror_operation_completed cid n doc d =
     (let d1 = d\<lparr>dk_mirrors := removeAll cid (dk_mirrors d), dk_controls := (dk_controls d)(cid := None),
               dk_document := doc, dk_notice := Some n\<rparr>
      in case dk_routed d1 cid of Some op \<Rightarrow> complete_routed_operation cid op d1 | None \<Rightarrow> d1)"

definition update_online_repair_requirement ::
  "connection_id list \<Rightarrow> connection_id \<Rightarrow> operation \<Rightarrow> unit res \<Rightarrow> connection_id list" where
  "update_online_repair_requirement required cid op result =
     (if is_ok result then removeAll cid required
      else if op = Unmount then add_new cid required else required)"

text \<open>The first steps of \<open>ManagedOnlineOperationCompleted\<close>, before its notice and the refresh of a Drive mount.\<close>

definition online_operation_settled :: "connection \<Rightarrow> operation \<Rightarrow> unit res \<Rightarrow> config_document \<Rightarrow> desk \<Rightarrow> desk" where
  "online_operation_settled c op result doc d =
     d\<lparr>dk_unmounts := (if op = Unmount then removeAll (conn_id c) (dk_unmounts d) else dk_unmounts d),
       dk_repair_required := update_online_repair_requirement (dk_repair_required d) (conn_id c) op result,
       dk_document := doc, dk_pending_repair := None\<rparr>"

section \<open>What the popup offers\<close>

definition primary_operation :: "connection_row \<Rightarrow> operation" where
  "primary_operation r =
     (case (row_mode r, row_persistent_active r) of
        (OnlineMountMode, True) \<Rightarrow> Unmount
      | (OnlineMountMode, False) \<Rightarrow> Mount
      | (OfflineMirrorMode, True) \<Rightarrow> PauseSync
      | (OfflineMirrorMode, False) \<Rightarrow> ResumeSync)"

definition repair_available :: "connection_row \<Rightarrow> bool" where
  "repair_available r = list_ex (\<lambda>a. act_operation a = Repair \<and> act_enabled a) (row_actions r)"

definition repair_visible :: "connection_row \<Rightarrow> connection_id list \<Rightarrow> bool" where
  "repair_visible r pending = (repair_available r \<and> row_id r \<notin> set pending)"

end
