(* ===== verification/Requests_Safety.thy ===== *)
theory Requests_Safety
  imports Operation_Requests
begin

text \<open>
  What the requests of operations guarantee, over any series of clicks, observations and completions: a repair
  runs only after it was asked for and asked for again within the window, and a pause of a mirror takes the
  place of the control by which a running synchronization could be cancelled.
\<close>

section \<open>A series of events\<close>

text \<open>
  \<open>Forgot\<close> stands for the messages that only disarm a repair, such as opening the popup or the settings window.
\<close>

datatype desk_event =
    Clicked nat connection_id operation
  | Observed nat u64 "connection list" observed_units
  | OnlineRepairDone connection_id msg config_document
  | OfflineRepairDone connection_id msg config_document
  | MirrorDone connection_id msg config_document
  | OnlineDone connection operation "unit res" config_document
  | Forgot

fun desk_step :: "desk_event \<Rightarrow> desk \<Rightarrow> dispatch list \<times> desk" where
  "desk_step (Clicked t cid op) d = record_operation_request t cid op d"
| "desk_step (Observed t revision cs obs) d = unit_observation_completed t revision cs obs d"
| "desk_step (OnlineRepairDone cid n doc) d = ([], online_repair_completed cid n doc d)"
| "desk_step (OfflineRepairDone cid n doc) d = ([], offline_repair_completed cid n doc d)"
| "desk_step (MirrorDone cid n doc) d = ([], mirror_operation_completed cid n doc d)"
| "desk_step (OnlineDone c op r doc) d = ([], online_operation_settled c op r doc d)"
| "desk_step Forgot d = ([], d\<lparr>dk_pending_repair := None\<rparr>)"

definition run_desk :: "desk_event list \<Rightarrow> desk \<Rightarrow> desk" where
  "run_desk evs d = fold (\<lambda>e. snd \<circ> desk_step e) evs d"

fun happened_at :: "desk_event \<Rightarrow> nat \<Rightarrow> bool" where
  "happened_at (Clicked t cid op) s = (s = t)"
| "happened_at (Observed t revision cs obs) s = (s = t)"
| "happened_at _ s = False"

fun repairs :: "connection_id \<Rightarrow> dispatch \<Rightarrow> bool" where
  "repairs cid (RunOnlineRepair c) = (conn_id c = cid)"
| "repairs cid (RunMirrorRepair c m) = (conn_id c = cid)"
| "repairs cid _ = False"

definition in_window :: "nat \<Rightarrow> nat \<Rightarrow> bool" where
  "in_window asked t = (asked + REPAIR_CONFIRM_MIN_DELAY \<le> t \<and> t \<le> asked + REPAIR_CONFIRM_MAX_DELAY)"

section \<open>One request\<close>

lemma complete_keeps [simp]:
  "dk_pending_repair (complete_routed_operation cid op d) = dk_pending_repair d"
  "dk_waiting (complete_routed_operation cid op d) = dk_waiting d"
  "dk_controls (complete_routed_operation cid op d) = dk_controls d"
  by (simp_all add: complete_routed_operation_def Let_def)

lemma replied_keeps [simp]:
  "fst (replied cid op n d) = []"
  "dk_pending_repair (snd (replied cid op n d)) = dk_pending_repair d"
  "dk_waiting (snd (replied cid op n d)) = dk_waiting d"
  "dk_controls (snd (replied cid op n d)) = dk_controls d"
  by (simp_all add: replied_def)

lemma refresh_keeps [simp]:
  "dk_pending_repair (snd (refresh_unit_observation force d)) = dk_pending_repair d"
  "dk_waiting (snd (refresh_unit_observation force d)) = dk_waiting d"
  by (simp_all add: refresh_unit_observation_def Let_def)

lemma refresh_no_repair: "x \<in> set (fst (refresh_unit_observation force d)) \<Longrightarrow> \<not> repairs cid x"
  by (auto simp: refresh_unit_observation_def Let_def split: if_split_asm)

lemma dispatch_repairs:
  "x \<in> set (fst (dispatch_operation c op label d)) \<Longrightarrow> repairs cid x \<Longrightarrow> op = Repair \<and> cid = conn_id c"
  by (auto simp: dispatch_operation_def mirror_operation_def split: if_split_asm)

lemma dispatched_waiting:
  "dk_waiting (snd (dispatch_operation c op label d)) = dk_waiting d"
  by (simp add: dispatch_operation_def start_repair_def start_mirror_def)

lemma dispatch_pending:
  "dk_pending_repair (snd (dispatch_operation c op label d)) = Some v \<Longrightarrow> dk_pending_repair d = Some v"
  by (auto simp: dispatch_operation_def start_repair_def start_mirror_def split: if_split_asm)

lemma request_repairs:
  assumes "x \<in> set (fst (request_of t c op label d))" and "repairs cid x"
  shows "cid = conn_id c \<and> op = Repair \<and> (\<exists>asked. dk_pending_repair d = Some (cid, asked) \<and> in_window asked t)"
proof -
  from assms have "op = Repair" and cid: "cid = conn_id c"
    by (auto simp: request_of_def split: if_split_asm repair_confirmation_decision.split_asm dest: dispatch_repairs)
  then have "repair_confirmation_decision_of (dk_pending_repair d) cid t = ConfirmRepair"
    using assms by (auto simp: request_of_def split: if_split_asm repair_confirmation_decision.split_asm)
  then show ?thesis
    using cid \<open>op = Repair\<close>
    by (auto simp: repair_confirmation_decision_of_def in_window_def REPAIR_CONFIRM_MIN_DELAY_def REPAIR_CONFIRM_MAX_DELAY_def
        from_secs_def split: option.split_asm if_split_asm)
qed

lemma request_waiting:
  "dk_waiting (snd (request_of t c op label d)) = dk_waiting d"
  by (simp add: request_of_def dispatched_waiting split: repair_confirmation_decision.split)

lemma request_pending:
  "dk_pending_repair (snd (request_of t c op label d)) = Some v \<Longrightarrow>
     dk_pending_repair d = Some v \<or> (op = Repair \<and> v = (conn_id c, t))"
  by (auto simp: request_of_def split: if_split_asm repair_confirmation_decision.split_asm dest!: dispatch_pending)

lemma saved_id: "saved_connection d cid = Some c \<Longrightarrow> conn_id c = cid"
  by (auto simp: saved_connection_def find_Some_iff)

lemma decided_repairs:
  "x \<in> set (fst (decided_request t cid op d)) \<Longrightarrow> repairs rid x \<Longrightarrow>
     rid = cid \<and> op = Repair \<and> (\<exists>asked. dk_pending_repair d = Some (rid, asked) \<and> in_window asked t)"
  by (auto simp: decided_request_def Let_def split: option.split_asm if_split_asm dest!: request_repairs saved_id)

lemma decided_waiting:
  "dk_waiting (snd (decided_request t cid op d)) = dk_waiting d"
  by (simp add: decided_request_def Let_def request_waiting split: option.split)

lemma decided_pending:
  "dk_pending_repair (snd (decided_request t cid op d)) = Some v \<Longrightarrow>
     dk_pending_repair d = Some v \<or> (op = Repair \<and> v = (cid, t))"
  by (auto simp: decided_request_def Let_def split: option.split_asm if_split_asm dest!: request_pending saved_id)

lemma recorded_repairs:
  "x \<in> set (fst (record_operation_request t cid op d)) \<Longrightarrow> repairs rid x \<Longrightarrow>
     rid = cid \<and> op = Repair \<and> (\<exists>asked. dk_pending_repair d = Some (rid, asked) \<and> in_window asked t)"
  by (auto simp: record_operation_request_def split: option.split_asm if_split_asm dest!: decided_repairs dest: refresh_no_repair)

lemma recorded_pending:
  "dk_pending_repair (snd (record_operation_request t cid op d)) = Some v \<Longrightarrow>
     dk_pending_repair d = Some v \<or> (op = Repair \<and> v = (cid, t))"
  by (auto simp: record_operation_request_def split: option.split_asm if_split_asm dest!: decided_pending)

lemma recorded_waiting:
  "(k, v, rop) \<in> set (dk_waiting (snd (record_operation_request t cid op d))) \<Longrightarrow>
     (k, v, rop) \<in> set (dk_waiting d) \<or> (k = cid \<and> rop = op)"
  by (auto simp: record_operation_request_def decided_waiting put_waiting_def split: option.split_asm if_split_asm)

section \<open>One event\<close>

text \<open>An event asks for a repair when it is the click, or the observation that a waiting click needed.\<close>

fun asks :: "desk_event \<Rightarrow> desk \<Rightarrow> connection_id \<Rightarrow> bool" where
  "asks (Clicked t cid op) d rid = (rid = cid \<and> op = Repair)"
| "asks (Observed t revision cs obs) d rid = (\<exists>c. (rid, c, Repair) \<in> set (dk_waiting d))"
| "asks _ d rid = False"

lemma waiting_pending:
  "dk_pending_repair (snd (dispatch_waiting t ws d)) = Some (rid, asked) \<Longrightarrow>
     dk_pending_repair d = Some (rid, asked) \<or> (asked = t \<and> (\<exists>c. (rid, c, Repair) \<in> set ws))"
proof (induction ws arbitrary: d)
  case (Cons e ws)
  obtain cid c op where e: "e = (cid, c, op)" by (cases e)
  from Cons.IH Cons.prems show ?case
    by (fastforce simp: e split: prod.split_asm if_split_asm dest: arg_cong [where f = snd] recorded_pending)
qed simp

lemma window_later: "\<not> in_window t t"
  by (simp add: in_window_def REPAIR_CONFIRM_MIN_DELAY_def from_secs_def)

lemma waiting_repairs:
  "x \<in> set (fst (dispatch_waiting t ws d)) \<Longrightarrow> repairs rid x \<Longrightarrow>
     (\<exists>c. (rid, c, Repair) \<in> set ws) \<and> (\<exists>asked. dk_pending_repair d = Some (rid, asked) \<and> in_window asked t)"
proof (induction ws arbitrary: d)
  case (Cons e ws)
  obtain cid c op where e: "e = (cid, c, op)" by (cases e)
  let ?first = "if unit_status_fresh t d cid \<and> c \<in> set (connections (dk_document d))
            then record_operation_request t cid op d
            else replied cid op (fl ''unit-status-refresh-unavailable'') d"
  have "x \<in> set (fst ?first) \<or> x \<in> set (fst (dispatch_waiting t ws (snd ?first)))"
    using Cons.prems(1)
    by (cases ?first; cases "dispatch_waiting t ws (snd ?first)")
       (simp only: e dispatch_waiting.simps prod.case fst_conv snd_conv set_append Un_iff)
  then show ?case
  proof
    assume "x \<in> set (fst ?first)"
    with Cons.prems(2) show ?thesis by (auto simp: e split: if_split_asm dest!: recorded_repairs)
  next
    assume "x \<in> set (fst (dispatch_waiting t ws (snd ?first)))"
    from Cons.IH [OF this Cons.prems(2)] obtain asked k where
      k: "(rid, k, Repair) \<in> set ws" and asked: "dk_pending_repair (snd ?first) = Some (rid, asked)" "in_window asked t"
      by blast
    then have "dk_pending_repair d = Some (rid, asked)"
      using window_later by (auto split: if_split_asm dest!: recorded_pending)
    with k asked(2) show ?thesis by (auto simp: e)
  qed
qed simp

lemma sort_key_set: "set (sort_key k xs) = set xs"
  by simp

lemma step_repairs:
  "x \<in> set (fst (desk_step e d)) \<Longrightarrow> repairs rid x \<Longrightarrow>
     asks e d rid \<and> (\<exists>asked t. happened_at e t \<and> dk_pending_repair d = Some (rid, asked) \<and> in_window asked t)"
  by (cases e)
     (auto simp: unit_observation_completed_def split: if_split_asm dest!: waiting_repairs dest: refresh_no_repair recorded_repairs)

lemma step_pending:
  "dk_pending_repair (snd (desk_step e d)) = Some (rid, asked) \<Longrightarrow>
     dk_pending_repair d = Some (rid, asked) \<or> (happened_at e asked \<and> asks e d rid)"
  by (cases e)
     (auto simp: unit_observation_completed_def online_repair_completed_def offline_repair_completed_def
        mirror_operation_completed_def online_operation_settled_def Let_def
      split: if_split_asm option.split_asm dest!: waiting_pending recorded_pending)

lemma run_desk_snoc [simp]: "run_desk (evs @ [e]) d = snd (desk_step e (run_desk evs d))"
  by (simp add: run_desk_def)

lemma run_pending:
  assumes "dk_pending_repair d = None" and "dk_pending_repair (run_desk evs d) = Some (rid, asked)"
  shows "\<exists>before e after. evs = before @ e # after \<and> happened_at e asked \<and> asks e (run_desk before d) rid"
  using assms(2)
proof (induction evs rule: rev_induct)
  case Nil
  with assms(1) show ?case by (simp add: run_desk_def)
next
  case (snoc e evs)
  from step_pending [OF snoc.prems [unfolded run_desk_snoc]] show ?case
  proof
    assume "dk_pending_repair (run_desk evs d) = Some (rid, asked)"
    from snoc.IH [OF this] obtain before f after where "evs = before @ f # after" "happened_at f asked" "asks f (run_desk before d) rid"
      by blast
    then show ?thesis by (intro exI [of _ before] exI [of _ f] exI [of _ "after @ [e]"]) simp
  next
    assume "happened_at e asked \<and> asks e (run_desk evs d) rid"
    then show ?thesis by (intro exI [of _ evs] exI [of _ e] exI [of _ "[]"]) simp
  qed
qed

text \<open>
  C25. A repair is run only on the second request.  Over any series of clicks, unit observations and completions
  that starts with no armed repair, an event that starts the repair of a connection asks for it itself, and an
  earlier event asked for the repair of the same connection, at least one and at most thirty seconds before.
\<close>
theorem repair_needs_confirmation:
  assumes "dk_pending_repair d = None" and "x \<in> set (fst (desk_step e (run_desk evs d)))" and "repairs rid x"
  shows "asks e (run_desk evs d) rid
     \<and> (\<exists>before f after asked t. evs = before @ f # after \<and> asks f (run_desk before d) rid
          \<and> happened_at f asked \<and> happened_at e t \<and> in_window asked t)"
  using step_repairs [OF assms(2,3)] run_pending [OF assms(1)] by blast

section \<open>The control of a running operation\<close>

text \<open>While an operation of a mirror runs in this process, its row is syncing, and can be paused.\<close>

lemma find_row:
  "List.find (\<lambda>r. row_id r = cid) (map (restore_connection s) cs) = map_option (restore_connection s) (List.find (\<lambda>c. conn_id c = cid) cs)"
  by (induction cs) (simp_all add: restore_connection_def Let_def)

lemma restored_row:
  "List.find (\<lambda>r. row_id r = cid) (vw_rows (restore_view (snapshot_of_desk d)))
   = map_option (restore_connection (snapshot_of_desk d)) (saved_connection d cid)"
  by (simp add: restore_view_def Let_def find_row saved_connection_def snapshot_of_desk_def)

lemma rclone_mirror:
  "is_rclone_offline_mirror c \<Longrightarrow> ensure_supported_engine c = Inr () \<and> \<not> is_online c"
  by (auto simp: is_rclone_offline_mirror_def conn_offline_engine_def ensure_supported_engine_def is_online_def
      split: connection_mode.splits)

lemma running_row:
  assumes "is_rclone_offline_mirror c" and "conn_id c \<in> set (dk_mirrors d)"
  shows "row_status (restore_connection (snapshot_of_desk d) c) = OfflineStatus Syncing"
    "row_actions (restore_connection (snapshot_of_desk d) c) = [action PauseSync True, action SyncNow False, action Repair True]"
  using rclone_mirror [OF assms(1)] assms(2)
  by (auto simp: restore_connection_def Let_def is_online_def offline_status_def snapshot_of_desk_def split: connection_mode.split_asm)

lemma dispatched_mirror:
  assumes "record_operation_request t cid op d = ([RunMirror c op k], d1)"
  shows "saved_connection d cid = Some c" "conn_id c = cid" "k = dk_next_control d" "conn_id c \<notin> set (dk_repairs d)"
    "is_rclone_offline_mirror c" "\<exists>label. d1 = start_mirror c label (d\<lparr>dk_pending_repair := None\<rparr>)"
proof -
  show saved: "saved_connection d cid = Some c" and "k = dk_next_control d" "conn_id c \<notin> set (dk_repairs d)"
    "is_rclone_offline_mirror c" "\<exists>label. d1 = start_mirror c label (d\<lparr>dk_pending_repair := None\<rparr>)"
    using assms
    by (auto simp: record_operation_request_def refresh_unit_observation_def decided_request_def request_of_def replied_def
        dispatch_operation_def mirror_operation_def Let_def
      split: option.split_asm if_split_asm repair_confirmation_decision.split_asm)
  from saved_id [OF saved] show "conn_id c = cid" .
qed


section \<open>A sample\<close>

definition sample_status :: "active_state \<Rightarrow> unit_status" where
  "sample_status a = \<lparr>us_active = a, us_enabled = True, us_detail = [], us_result = []\<rparr>"

definition sample_desk :: "offline_operation_state option \<Rightarrow> desk" where
  "sample_desk st =
     \<lparr>dk_document = default_document\<lparr>connections := [sample_mirror]\<rparr>, dk_standalone = False,
      dk_observation = \<lparr>uo_services = (\<lambda>_. Some (sample_status Inactive)), uo_timers = (\<lambda>_. Some (sample_status Active)),
        uo_warnings = None, uo_states = (\<lambda>_. st), uo_failed = [], uo_retired = []\<rparr>,
      dk_observed_connections = [sample_mirror], dk_observed_at = Some 0, dk_observing = False,
      dk_observation_revision = 0, dk_invalidated = False, dk_waiting = [], dk_pending_repair = None, dk_repairs = [],
      dk_unmounts = [], dk_mirrors = [], dk_controls = (\<lambda>_. None), dk_next_control = 0, dk_repair_required = [],
      dk_refreshing = [], dk_routed = (\<lambda>_. None), dk_completions = [], dk_revision = 0, dk_mount_entries = [],
      dk_import_previews = [], dk_vpn_ready = (\<lambda>_. None), dk_network_ready = None, dk_notice = None\<rparr>"

lemma sample_repair:
  "fst (desk_step (Clicked 2000000 (conn_id sample_mirror) Repair)
     (run_desk [Clicked 0 (conn_id sample_mirror) Repair] (sample_desk (Some StFailed)))) = [RunMirrorRepair sample_mirror None]"
  by code_simp

lemma repair_needs_confirmation_witness:
  "asks (Clicked 2000000 (conn_id sample_mirror) Repair)
     (run_desk [Clicked 0 (conn_id sample_mirror) Repair] (sample_desk (Some StFailed))) (conn_id sample_mirror)"
  using repair_needs_confirmation [of "sample_desk (Some StFailed)" "RunMirrorRepair sample_mirror None"
      "Clicked 2000000 (conn_id sample_mirror) Repair" "[Clicked 0 (conn_id sample_mirror) Repair]" "conn_id sample_mirror"]
  unfolding sample_repair by (simp add: sample_desk_def)

definition synchronizing :: desk where
  "synchronizing = snd (record_operation_request 0 (conn_id sample_mirror) SyncNow (sample_desk None))"

lemma sample_sync:
  "record_operation_request 0 (conn_id sample_mirror) SyncNow (sample_desk None) = ([RunMirror sample_mirror SyncNow 0], synchronizing)"
proof -
  have "fst (record_operation_request 0 (conn_id sample_mirror) SyncNow (sample_desk None)) = [RunMirror sample_mirror SyncNow 0]"
    by code_simp
  then show ?thesis by (simp add: synchronizing_def prod_eq_iff)
qed


end
