(* ===== verification/Spec2Isabelle.thy ===== *)
theory Spec2Isabelle
  imports Mounts Sync Atomic_Files Coordinator_Outcome Config_Store Unit_Safety Online_Safety Import_Safety Controller_Safety Unit_Refinement Sleep_Safety Vpn_Safety Preload_Safety Refresh_Safety Operations_Safety Editor_Safety Remote_Safety Requests_Safety
begin

text \<open>
  A verification library for \<^verbatim>\<open>cosmic-ext-applet-mounter\<close>, a COSMIC panel applet that mounts cloud and
  network storage.  All paths below are relative to \<^verbatim>\<open>src/src/\<close>.

  \<^bold>\<open>The program.\<close>  A connection is an Online mount (rclone or onedriver as a FUSE file system) or an
  Offline mirror (a local directory that \<^verbatim>\<open>rclone bisync\<close> keeps equal to a remote).  The applet keeps the
  connections and VPN profiles in one saved document, writes a systemd user unit for every connection (a
  service, and for a mirror a timer), and starts and stops these units over D-Bus.  systemd runs the same
  program again as a guard before a mount and as the worker of a mirror; both read the saved document anew.
  The coordinator of a mirror runs one operation at a time under a file lock shared by all processes, and
  records its state in a file that the applet displays.

  \<^bold>\<open>The model.\<close>  Strings and paths are lists of bytes (\<^verbatim>\<open>string\<close>), so the code's byte offsets and UTF-8 cuts
  are those of the model; identifiers are the canonical text of a UUID; machine words that can overflow are
  words, and saturating or checked operations are written out.  A message of the user interface is its key
  and its arguments (the type \<open>msg\<close>).  Effects are programs \<open>('e, 'a) prog\<close> over an environment and a world
  (theory \<open>World\<close>): the world holds the file tree, the locks of this process, a step counter and the trace of
  commands and deletions; the environment answers at every step, so a theorem over all environments covers
  an I/O fault, a partial write, a cancellation, a foreign lock, an answer of a command and a clock reading
  at each single step.  Errors are values of a sum.  What lies outside the source is an argument: D-Bus
  and NetworkManager (\<open>systemd_bus\<close>, \<open>nm_bus\<close>), JSON and RON codecs, URL parsing, the resolver and sockets,
  Microsoft Graph, the document portal, and the shared registries of other tasks where a function only
  observes them.  Code that runs concurrently is a step relation where interleavings matter (the
  cancellation control, the sleep gate).

  \<^bold>\<open>Theories and the code they model.\<close>
    \<^item> \<open>Prelude\<close>, \<open>Rust_Path\<close>, \<open>World\<close>: the functions of the standard library that the code uses (UTF-8, trimming,
      splitting, numerals, path components), the program type with its primitives, and the hints
      (\<open>run_simps\<close>, \<open>preserves_intros\<close>, \<open>node_intros\<close>) that the proofs use.
    \<^item> \<open>Model\<close> (\<^verbatim>\<open>model.rs\<close>), \<open>Mounts\<close> (\<^verbatim>\<open>mounts.rs\<close>), \<open>Process\<close> (\<^verbatim>\<open>process.rs\<close>), \<open>Remote_Names\<close> (names in
      \<^verbatim>\<open>sync.rs\<close>, \<^verbatim>\<open>providers.rs\<close>, \<^verbatim>\<open>onedrive.rs\<close>), \<open>Sharepoint\<close> (\<^verbatim>\<open>sharepoint.rs\<close>).
    \<^item> \<open>Config\<close>, \<open>Config_Store\<close> (\<^verbatim>\<open>config.rs\<close>): validation, migration, loading, the two stores, and updates;
      \<open>Config_Safety\<close> states what an accepted document guarantees.
    \<^item> \<open>Units\<close>, \<open>Unit_Documents\<close>, \<open>Unit_Rendering\<close>, \<open>Unit_Store\<close>, \<open>Unit_Controller\<close>, \<open>Systemd_Manager\<close>
      (\<^verbatim>\<open>services.rs\<close>): specifications, rendering and validation, the file store, installation and removal, and
      the manager over D-Bus; \<open>Unit_Refinement\<close> and \<open>Unit_Safety\<close> hold their theorems.
    \<^item> \<open>Sync\<close>, \<open>Preview_Summary\<close> (\<^verbatim>\<open>sync.rs\<close>), \<open>Bisync_Requests\<close>, \<open>Bisync_Dates\<close>, \<open>Atomic_Files\<close>,
      \<open>Bisync_Coordinator\<close> (\<^verbatim>\<open>bisync_coordinator.rs\<close>), \<open>Offline_Coordinator\<close> (\<^verbatim>\<open>offline_coordinator.rs\<close>),
      \<open>Pending_Count\<close> (\<^verbatim>\<open>pending_count.rs\<close>): the plan of a mirror, its commands, the stages of one operation with
      their markers and the cleanup of old recovery directories, the state file and the progress counts.
      \<open>Coordinator_Events\<close>, \<open>Coordinator_Safety\<close>, \<open>Coordinator_Outcome\<close> hold the theorems.
    \<^item> \<open>Online_Mounts\<close> (\<^verbatim>\<open>providers.rs\<close>, \<^verbatim>\<open>mount_guard.rs\<close>), \<open>Online_Safety\<close>: mount plans, statistics, detach
      decisions, the guard.
    \<^item> \<open>Legacy_Import\<close>, \<open>Import_Safety\<close> (\<^verbatim>\<open>import.rs\<close>); \<open>Diagnostics\<close> (\<^verbatim>\<open>diagnostics.rs\<close>); \<open>Controller\<close>,
      \<open>Controller_Safety\<close> (\<^verbatim>\<open>controller.rs\<close>); \<open>Sleep\<close>, \<open>Sleep_Safety\<close> (\<^verbatim>\<open>sleep.rs\<close>).
    \<^item> \<open>Vpn\<close> (\<^verbatim>\<open>vpn.rs\<close>), \<open>Host_Inspection\<close> (\<^verbatim>\<open>host_inspection.rs\<close>), \<open>Vpn_Lifecycle\<close> (the VPN part of \<^verbatim>\<open>app.rs\<close>),
      \<open>Vpn_Safety\<close>.
    \<^item> \<open>Directory_Preload\<close>, \<open>Preload_Safety\<close> (\<^verbatim>\<open>directory_preload.rs\<close>, \<^verbatim>\<open>preload_report.rs\<close>); \<open>Rclone_Refresh\<close>,
      \<open>Refresh_Safety\<close> (\<^verbatim>\<open>rclone_refresh.rs\<close>).
    \<^item> \<open>Mirror_Units\<close>, \<open>App_Units\<close>, \<open>Online_Operations\<close>, \<open>Offline_Operations\<close> (the operations of \<^verbatim>\<open>app.rs\<close>, with
      \<^verbatim>\<open>bisync_worker.rs\<close> and \<^verbatim>\<open>mirror_script.rs\<close>): what the applet does with all of the above when the user
      mounts, unmounts, repairs, previews, synchronizes, pauses, resumes, saves or removes a connection;
      \<open>Operations_Safety\<close> holds their theorems.
    \<^item> \<open>Operation_Requests\<close>, \<open>Requests_Safety\<close> (\<^verbatim>\<open>app.rs\<close>): from a click in the popup to the operation that is started, the
      confirmation of a repair, and what the completion of an operation changes.
    \<^item> \<open>Editor\<close>, \<open>Editor_Safety\<close> (\<^verbatim>\<open>app.rs\<close>): the draft of the settings window, its translation from and to a
      connection, the checks before a save, saving, removing and reordering.
    \<^item> \<open>Remote_Setup\<close> (\<^verbatim>\<open>app.rs\<close>), \<open>Sftp_Remotes\<close> (\<^verbatim>\<open>app/sftp.rs\<close>), \<open>Remote_Access\<close> (\<^verbatim>\<open>app.rs\<close>): the rclone remotes that
      the settings window creates, updates, removes and tests; \<open>Remote_Safety\<close> holds their theorems.

  \<^bold>\<open>Interfaces.\<close>  Locales carry the contracts between components, each interpreted on the code's functions:
  \<open>atomic_store\<close> (a write publishes all of a document or keeps the old one), which the private files and the
  state file of the coordinator provide (\<open>Atomic_Files\<close>); \<open>document_writer\<close> (what a write accepts is valid), which
  both stores of the configuration provide (\<open>Config_Store\<close>); \<open>unit_files\<close> (\<open>Unit_Store\<close>) and its extension
  \<open>unit_system\<close> (\<open>Unit_Controller\<close>), the store of units and the controller above it, interpreted in \<open>Unit_Store\<close> and
  \<open>Unit_Safety\<close>.

  \<^bold>\<open>What the theorems show.\<close>  The properties are numbered C1 to C40 in the texts before them.
    \<^item> Files and transactions: the state file is never torn; an update of the document is committed or undone;
      an installation of a unit leaves a whole document; units of somebody else are kept; a store of units
      refines a map.
    \<^item> The coordinator: previews write nothing, only expired days are deleted, success is the engine's own and is
      recorded, the lock excludes, the markers order the modes.
    \<^item> Online mounts: the guard and the mount operation start a service only after their checks, pending uploads
      block detaching, an unmount that succeeds was seen in the mount table, sleep stops only idle mounts and no
      mount operation overlaps a cleanup.
    \<^item> Mirrors: a repair needs a second request and leaves units that systemd reported halted, saving starts nothing, a failed start is undone,
      the worker reads its own command back.
    \<^item> VPN: one is used only after its checks and released only when it was activated by the applet and nothing
      else uses it.
    \<^item> Background work: a cancelled preload runs no command any more, exclusions match literally, a refresh is
      reported complete only when rclone said so.
    \<^item> Remotes: credentials reach rclone only masked, a setup neither creates nor deletes a remote that a dump
      names, an update leaves later edits marked, and redaction defeats the check for an empty password.
    \<^item> Views and documents: a running mirror stays controllable; in an accepted document the targets are disjoint
      and safe and the references resolve.
    \<^item> Divergences: several theorems state what the code does where its comments or messages say otherwise, such as
      the repair that overwrites the state of another process, the pause that takes the place of the control of
      a running synchronization and the unit that a rollback cannot restore.

  \<^bold>\<open>Bounds.\<close>  A loop that waits is recursion over a number of looks, None when they run out.  The numbers
  are the looks that fit between the deadline and the interval of the code, so that None is never reached while
  the clock advances by the interval: 41 looks for the start of a service (2 s every 50 ms), 300 for a stop
  before sleep, \<open>(timeout + 1) div 2 + 1\<close> for a VPN, 61 and 121 for a preload, \<open>refresh_polls\<close> for a refresh, 21 for a
  detach (2 s every 100 ms), 46 for the network after a wake (90 s every 2 s).  \<open>online_start_ends_truthfully\<close>,
  \<open>vpn_wait_ends\<close>, \<open>preload_ends\<close> and \<open>refresh_ends\<close> prove it for four of them.  Symbolic links are followed at most
  40 times, as the kernel does.  Counters of lines or files are natural numbers where the code bounds the input.

  \<^bold>\<open>Not modelled.\<close>  The views of libcosmic and their messages (\<^verbatim>\<open>app.rs\<close>, \<^verbatim>\<open>app/editor_actions.rs\<close>
  and the views of \<^verbatim>\<open>app/sftp.rs\<close>), the HTTP exchanges of \<^verbatim>\<open>microsoft_oauth.rs\<close>, \<^verbatim>\<open>onedrive.rs\<close> and \<^verbatim>\<open>sharepoint.rs\<close>, the guided
  creation of SharePoint remotes (\<^verbatim>\<open>sharepoint_setup.rs\<close>), the document portal (\<^verbatim>\<open>mirror_access.rs\<close>), the socket of the
  settings window (\<^verbatim>\<open>runtime_ipc.rs\<close>), localization, themes and the prototype of development builds
  (\<^verbatim>\<open>onedrive_prototype.rs\<close>): transport, presentation or code of tests.  Spawning processes and D-Bus transport
  are answers of the environment.  A task that is dropped at an await is modelled by asking its token before
  each step, so it may run one step further here than in the code.
\<close>

end
